(* ===== verification/Prelude.thy ===== *)
theory Prelude
  imports Main "HOL-Library.Word"
begin

text \<open>
  Generic material of the development, used by every other theory:
  \<^item> the result-and-state type \<open>io\<close> in which every function with effects is written,
    with the combinators that stand for Rust's control flow (the question mark operator,
    \<open>map_err\<close>, \<open>inspect_err\<close>, matching on a \<open>Result\<close>, \<open>for\<close> loops with early return);
  \<^item> checked and saturating arithmetic on machine words;
  \<^item> lemmas on lists and options that several components share.
\<close>

named_theorems io_simps "equations that run the io combinators"
named_theorems word_nat "moving word facts to natural numbers"

section \<open>Results and effects\<close>

text \<open>
  A Rust function that returns \<open>Result\<close> and has effects is a function from the state to a
  result (\<open>Inl\<close> the error, \<open>Inr\<close> the value) and the new state. The state is a parameter:
  it is the part of the machine the function acts on.
\<close>

type_synonym ('s, 'e, 'a) io = "'s \<Rightarrow> ('e + 'a) \<times> 's"

definition ret :: "'a \<Rightarrow> ('s, 'e, 'a) io" where
  "ret x = (\<lambda>s. (Inr x, s))"

definition throw :: "'e \<Rightarrow> ('s, 'e, 'a) io" where
  "throw e = (\<lambda>s. (Inl e, s))"

text \<open>Rust's question mark: go on with the value, or return the error at once.\<close>

definition bindE :: "('s, 'e, 'a) io \<Rightarrow> ('a \<Rightarrow> ('s, 'e, 'b) io) \<Rightarrow> ('s, 'e, 'b) io" where
  "bindE m f = (\<lambda>s. case m s of (Inl e, s') \<Rightarrow> (Inl e, s') | (Inr x, s') \<Rightarrow> f x s')"

text \<open>Match on a \<open>Result\<close> instead of propagating its error.\<close>

definition caught :: "('s, 'e, 'a) io \<Rightarrow> ('e + 'a \<Rightarrow> ('s, 'f, 'b) io) \<Rightarrow> ('s, 'f, 'b) io" where
  "caught m f = (\<lambda>s. case m s of (r, s') \<Rightarrow> f r s')"

definition map_err :: "('e \<Rightarrow> 'f) \<Rightarrow> ('s, 'e, 'a) io \<Rightarrow> ('s, 'f, 'a) io" where
  "map_err g m = (\<lambda>s. case m s of (Inl e, s') \<Rightarrow> (Inl (g e), s') | (Inr x, s') \<Rightarrow> (Inr x, s'))"

text \<open>\<open>inspect_err\<close> with a clean-up whose own result is dropped.\<close>

definition on_err :: "('s, 'e, 'a) io \<Rightarrow> ('s, 'f, unit) io \<Rightarrow> ('s, 'e, 'a) io" where
  "on_err m c = (\<lambda>s. case m s of (Inl e, s') \<Rightarrow> (Inl e, snd (c s')) | (Inr x, s') \<Rightarrow> (Inr x, s'))"

text \<open>Run for the effect only; \<open>let _ = m\<close>.\<close>

definition ignore :: "('s, 'f, 'a) io \<Rightarrow> ('s, 'e, unit) io" where
  "ignore m = (\<lambda>s. (Inr (), snd (m s)))"

text \<open>A pure result as an effect-free step.\<close>

definition lift_res :: "'e + 'a \<Rightarrow> ('s, 'e, 'a) io" where
  "lift_res r = (\<lambda>s. (r, s))"

text \<open>A \<open>for\<close> loop whose body may return early with an error.\<close>

fun for_each :: "'a list \<Rightarrow> ('a \<Rightarrow> ('s, 'e, unit) io) \<Rightarrow> ('s, 'e, unit) io" where
  "for_each [] f = ret ()"
| "for_each (x # xs) f = bindE (f x) (\<lambda>_. for_each xs f)"

text \<open>A \<open>for\<close> loop that threads an accumulator.\<close>

fun fold_io :: "('a \<Rightarrow> 'b \<Rightarrow> ('s, 'e, 'b) io) \<Rightarrow> 'a list \<Rightarrow> 'b \<Rightarrow> ('s, 'e, 'b) io" where
  "fold_io f [] acc = ret acc"
| "fold_io f (x # xs) acc = bindE (f x acc) (\<lambda>acc'. fold_io f xs acc')"

lemma ret_apply [io_simps, simp]: "ret x s = (Inr x, s)"
  by (simp add: ret_def)

lemma throw_apply [io_simps, simp]: "throw e s = (Inl e, s)"
  by (simp add: throw_def)

lemma lift_res_apply [io_simps, simp]: "lift_res r s = (r, s)"
  by (simp add: lift_res_def)

lemma bindE_Inl [io_simps]: "m s = (Inl e, s') \<Longrightarrow> bindE m f s = (Inl e, s')"
  by (simp add: bindE_def)

lemma bindE_Inr [io_simps]: "m s = (Inr x, s') \<Longrightarrow> bindE m f s = f x s'"
  by (simp add: bindE_def)

lemma bindE_ret [simp]: "bindE (ret x) f = f x"
  by (simp add: bindE_def fun_eq_iff)

lemma bindE_throw [simp]: "bindE (throw e) f = throw e"
  by (simp add: bindE_def fun_eq_iff)

lemma bindE_lift_Inl [simp]: "bindE (lift_res (Inl e)) f = throw e"
  by (simp add: bindE_def fun_eq_iff)

lemma bindE_lift_Inr [simp]: "bindE (lift_res (Inr x)) f = f x"
  by (simp add: bindE_def fun_eq_iff)

lemma bindE_assoc: "bindE (bindE m f) g = bindE m (\<lambda>x. bindE (f x) g)"
  by (auto simp: bindE_def fun_eq_iff split: prod.splits sum.splits)

lemma bindE_eq_Inr:
  "bindE m f s = (Inr y, s'') \<longleftrightarrow> (\<exists>x s'. m s = (Inr x, s') \<and> f x s' = (Inr y, s''))"
  by (auto simp: bindE_def split: prod.splits sum.splits)

lemma bindE_eq_Inl:
  "bindE m f s = (Inl e, s'') \<longleftrightarrow>
     m s = (Inl e, s'') \<or> (\<exists>x s'. m s = (Inr x, s') \<and> f x s' = (Inl e, s''))"
  by (auto simp: bindE_def split: prod.splits sum.splits)

lemma bindE_InrE:
  assumes "bindE m f s = (Inr y, s'')"
  obtains x s' where "m s = (Inr x, s')" and "f x s' = (Inr y, s'')"
  using assms by (auto simp: bindE_eq_Inr)

lemma map_err_eq_Inr [simp]: "map_err g m s = (Inr x, s') \<longleftrightarrow> m s = (Inr x, s')"
  by (auto simp: map_err_def split: prod.splits sum.splits)

lemma map_err_eq_Inl: "map_err g m s = (Inl f, s') \<longleftrightarrow> (\<exists>e. m s = (Inl e, s') \<and> f = g e)"
  by (auto simp: map_err_def split: prod.splits sum.splits)

lemma on_err_eq_Inr [simp]: "on_err m c s = (Inr x, s') \<longleftrightarrow> m s = (Inr x, s')"
  by (auto simp: on_err_def split: prod.splits sum.splits)

lemma on_err_eq_Inl: "on_err m c s = (Inl e, s') \<longleftrightarrow> (\<exists>t. m s = (Inl e, t) \<and> s' = snd (c t))"
  by (auto simp: on_err_def split: prod.splits sum.splits)

lemma ignore_apply [simp]: "ignore m s = (Inr (), snd (m s))"
  by (simp add: ignore_def)

lemma caught_apply [io_simps]: "m s = (r, s') \<Longrightarrow> caught m f s = f r s'"
  by (simp add: caught_def)

text \<open>The conditions around a recursive call reach the termination proofs of the loops.\<close>

lemma bindE_cong [fundef_cong]:
  "m = m' \<Longrightarrow> (\<And>x. f x = f' x) \<Longrightarrow> bindE m f = bindE m' f'"
  by (metis ext)

lemma caught_cong [fundef_cong]:
  "m = m' \<Longrightarrow> (\<And>r. f r = f' r) \<Longrightarrow> caught m f = caught m' f'"
  by (metis ext)

section \<open>Invariants of the state along a computation\<close>

text \<open>
  \<open>keeps I m\<close>: running \<open>m\<close> preserves the state predicate \<open>I\<close>, on every branch, errors
  included. The rules follow the combinators, so that a component proves it operation by
  operation.
\<close>

definition keeps :: "('s \<Rightarrow> bool) \<Rightarrow> ('s, 'e, 'a) io \<Rightarrow> bool" where
  "keeps I m \<longleftrightarrow> (\<forall>s. I s \<longrightarrow> I (snd (m s)))"

named_theorems keeps_intros "rules that build keeps from the parts of a program"

lemma keepsI: "(\<And>s. I s \<Longrightarrow> I (snd (m s))) \<Longrightarrow> keeps I m"
  by (simp add: keeps_def)

lemma keepsD: "keeps I m \<Longrightarrow> I s \<Longrightarrow> I (snd (m s))"
  by (simp add: keeps_def)

lemma keepsD2: "keeps I m \<Longrightarrow> I s \<Longrightarrow> m s = (r, s') \<Longrightarrow> I s'"
  using keepsD [of I m s] by simp

lemma keeps_ret [keeps_intros]: "keeps I (ret x)"
  by (simp add: keeps_def)

lemma keeps_throw [keeps_intros]: "keeps I (throw e)"
  by (simp add: keeps_def)

lemma keeps_lift_res [keeps_intros]: "keeps I (lift_res r)"
  by (simp add: keeps_def)

lemma keeps_bindE [keeps_intros]:
  "keeps I m \<Longrightarrow> (\<And>x. keeps I (f x)) \<Longrightarrow> keeps I (bindE m f)"
  by (fastforce simp: keeps_def bindE_def split: prod.split sum.split)

lemma keeps_caught [keeps_intros]:
  "keeps I m \<Longrightarrow> (\<And>r. keeps I (f r)) \<Longrightarrow> keeps I (caught m f)"
  by (fastforce simp: keeps_def caught_def split: prod.split)

lemma keeps_map_err [keeps_intros]: "keeps I m \<Longrightarrow> keeps I (map_err g m)"
  by (fastforce simp: keeps_def map_err_def split: prod.split sum.split)

lemma keeps_on_err [keeps_intros]: "keeps I m \<Longrightarrow> keeps I c \<Longrightarrow> keeps I (on_err m c)"
  by (fastforce simp: keeps_def on_err_def split: prod.split sum.split)

lemma keeps_ignore [keeps_intros]: "keeps I m \<Longrightarrow> keeps I (ignore m)"
  by (simp add: keeps_def)

lemma keeps_for_each [keeps_intros]:
  "(\<And>x. x \<in> set xs \<Longrightarrow> keeps I (f x)) \<Longrightarrow> keeps I (for_each xs f)"
  by (induction xs) (auto intro: keeps_intros)

lemma keeps_fold_io [keeps_intros]:
  "(\<And>x acc. x \<in> set xs \<Longrightarrow> keeps I (f x acc)) \<Longrightarrow> keeps I (fold_io f xs acc)"
  by (induction xs arbitrary: acc) (auto intro: keeps_intros)

lemma keeps_if [keeps_intros]:
  "(b \<Longrightarrow> keeps I m) \<Longrightarrow> (\<not> b \<Longrightarrow> keeps I n) \<Longrightarrow> keeps I (if b then m else n)"
  by simp

lemma keeps_case_sum [keeps_intros]:
  "(\<And>e. r = Inl e \<Longrightarrow> keeps I (f e)) \<Longrightarrow> (\<And>x. r = Inr x \<Longrightarrow> keeps I (g x)) \<Longrightarrow>
   keeps I (case r of Inl e \<Rightarrow> f e | Inr x \<Rightarrow> g x)"
  by (cases r) auto

lemma keeps_case_option [keeps_intros]:
  "(x = None \<Longrightarrow> keeps I n) \<Longrightarrow> (\<And>y. x = Some y \<Longrightarrow> keeps I (f y)) \<Longrightarrow>
   keeps I (case x of None \<Rightarrow> n | Some y \<Rightarrow> f y)"
  by (cases x) auto

section \<open>Computations that cannot fail\<close>

text \<open>A Rust function without a \<open>Result\<close> always gives a value.\<close>

definition never_fails :: "('s, 'e, 'a) io \<Rightarrow> bool" where
  "never_fails m \<longleftrightarrow> (\<forall>s. \<exists>x s'. m s = (Inr x, s'))"

named_theorems total_intros "rules that build never_fails"

lemma never_failsD: "never_fails m \<Longrightarrow> m s = (r, s') \<Longrightarrow> \<exists>x. r = Inr x"
  unfolding never_fails_def by (metis prod.inject)

lemma never_fails_pure [total_intros]: "never_fails (ret x)" "never_fails (ignore m)"
  by (simp_all add: never_fails_def)

lemma never_fails_bindE [total_intros]:
  "never_fails m \<Longrightarrow> (\<And>x. never_fails (f x)) \<Longrightarrow> never_fails (bindE m f)"
  unfolding never_fails_def bindE_def
  by (metis (no_types, lifting) case_prod_conv old.sum.simps(6))

lemma never_fails_caught [total_intros]:
  "(\<And>r. never_fails (f r)) \<Longrightarrow> never_fails (caught m f)"
  by (simp add: never_fails_def caught_def split: prod.split)

lemma never_fails_if [total_intros]:
  "(b \<Longrightarrow> never_fails m) \<Longrightarrow> (\<not> b \<Longrightarrow> never_fails n) \<Longrightarrow> never_fails (if b then m else n)"
  by simp

lemma never_fails_cases [total_intros]:
  "(\<And>e. r = Inl e \<Longrightarrow> never_fails (f e)) \<Longrightarrow> (\<And>x. r = Inr x \<Longrightarrow> never_fails (g x)) \<Longrightarrow>
   never_fails (case r of Inl e \<Rightarrow> f e | Inr x \<Rightarrow> g x)"
  "(y = None \<Longrightarrow> never_fails n) \<Longrightarrow> (\<And>z. y = Some z \<Longrightarrow> never_fails (h z)) \<Longrightarrow>
   never_fails (case y of None \<Rightarrow> n | Some z \<Rightarrow> h z)"
  "(\<And>a b. z = (a, b) \<Longrightarrow> never_fails (k a b)) \<Longrightarrow> never_fails (case z of (a, b) \<Rightarrow> k a b)"
  by (auto split: sum.split option.split prod.split)

lemma never_fails_for_each [total_intros]:
  "(\<And>x. x \<in> set xs \<Longrightarrow> never_fails (f x)) \<Longrightarrow> never_fails (for_each xs f)"
  by (induction xs) (auto intro: total_intros)

section \<open>What a computation can return\<close>

text \<open>\<open>results E P m\<close>: an error of \<open>m\<close> satisfies \<open>E\<close>, a value satisfies \<open>P\<close>.\<close>

definition results :: "('e \<Rightarrow> bool) \<Rightarrow> ('a \<Rightarrow> bool) \<Rightarrow> ('s, 'e, 'a) io \<Rightarrow> bool" where
  "results E P m \<longleftrightarrow> (\<forall>s. case fst (m s) of Inl e \<Rightarrow> E e | Inr x \<Rightarrow> P x)"

named_theorems result_intros "rules that build results from the parts of a program"

lemma resultsI:
  "(\<And>s e s'. m s = (Inl e, s') \<Longrightarrow> E e) \<Longrightarrow> (\<And>s x s'. m s = (Inr x, s') \<Longrightarrow> P x) \<Longrightarrow> results E P m"
  unfolding results_def by (metis (no_types, lifting) prod.collapse sum.case_eq_if sum.collapse)

lemma resultsD_Inl: "results E P m \<Longrightarrow> m s = (Inl e, s') \<Longrightarrow> E e"
  and resultsD_Inr: "results E P m \<Longrightarrow> m s = (Inr x, s') \<Longrightarrow> P x"
  by (metis results_def fst_conv old.sum.simps)+

lemma results_any: "results (\<lambda>_. True) (\<lambda>_. True) m"
  by (simp add: results_def split: sum.split)

lemma results_pure [result_intros]:
  "P x \<Longrightarrow> results E P (ret x)" "E e \<Longrightarrow> results E P (throw e)"
  "(\<And>x. r = Inr x \<Longrightarrow> P x) \<Longrightarrow> (\<And>e. r = Inl e \<Longrightarrow> E e) \<Longrightarrow> results E P (lift_res r)"
  by (auto simp: results_def split: sum.split)

lemma results_bindE:
  assumes "results E Q m" and "\<And>x. Q x \<Longrightarrow> results E P (f x)"
  shows "results E P (bindE m f)"
proof (rule resultsI)
  show "E e" if "bindE m f s = (Inl e, s')" for s e s'
    using that assms unfolding bindE_eq_Inl by (metis resultsD_Inl resultsD_Inr)
  show "P x" if "bindE m f s = (Inr x, s')" for s x s'
    using that assms unfolding bindE_eq_Inr by (metis resultsD_Inr)
qed

lemma results_caught [result_intros]: "(\<And>r. results E P (f r)) \<Longrightarrow> results E P (caught m f)"
  by (simp add: results_def caught_def split: prod.split)

lemma results_caught_after:
  assumes "results E Q m" and "\<And>e. E e \<Longrightarrow> results F P (f (Inl e))"
    and "\<And>x. Q x \<Longrightarrow> results F P (f (Inr x))"
  shows "results F P (caught m f)"
proof (rule resultsI)
  show "F e" if c: "caught m f s = (Inl e, s')" for s e s'
  proof -
    obtain r t where m: "m s = (r, t)" by fastforce
    then have "f r t = (Inl e, s')" using c by (simp add: caught_def)
    moreover have "results F P (f r)" using assms m by (cases r) (metis resultsD_Inl resultsD_Inr)+
    ultimately show ?thesis by (rule resultsD_Inl [rotated])
  qed
  show "P x" if c: "caught m f s = (Inr x, s')" for s x s'
  proof -
    obtain r t where m: "m s = (r, t)" by fastforce
    then have "f r t = (Inr x, s')" using c by (simp add: caught_def)
    moreover have "results F P (f r)" using assms m by (cases r) (metis resultsD_Inl resultsD_Inr)+
    ultimately show ?thesis by (rule resultsD_Inr [rotated])
  qed
qed

lemma results_map_err [result_intros]:
  "results (\<lambda>e. E (g e)) P m \<Longrightarrow> results E P (map_err g m)"
  by (rule resultsI) (auto simp: map_err_eq_Inl dest: resultsD_Inl resultsD_Inr)

lemma results_on_err [result_intros]: "results E P m \<Longrightarrow> results E P (on_err m c)"
  by (rule resultsI) (auto simp: on_err_eq_Inl dest: resultsD_Inl resultsD_Inr)

lemma results_mono:
  "results E P m \<Longrightarrow> (\<And>e. E e \<Longrightarrow> F e) \<Longrightarrow> (\<And>x. P x \<Longrightarrow> Q x) \<Longrightarrow> results F Q m"
  by (auto simp: results_def split: sum.splits)

lemma results_if [result_intros]:
  "(b \<Longrightarrow> results E P m) \<Longrightarrow> (\<not> b \<Longrightarrow> results E P n) \<Longrightarrow> results E P (if b then m else n)"
  by simp

lemma results_cases [result_intros]:
  "(\<And>e. r = Inl e \<Longrightarrow> results E P (f e)) \<Longrightarrow> (\<And>x. r = Inr x \<Longrightarrow> results E P (g x)) \<Longrightarrow>
   results E P (case r of Inl e \<Rightarrow> f e | Inr x \<Rightarrow> g x)"
  "(y = None \<Longrightarrow> results E P n) \<Longrightarrow> (\<And>z. y = Some z \<Longrightarrow> results E P (h z)) \<Longrightarrow>
   results E P (case y of None \<Rightarrow> n | Some z \<Rightarrow> h z)"
  by (cases r; simp) (cases y; simp)

lemma results_fold_io:
  assumes "\<And>x acc. x \<in> set xs \<Longrightarrow> P acc \<Longrightarrow> results E P (f x acc)" and "P acc"
  shows "results E P (fold_io f xs acc)"
  using assms by (induction xs arbitrary: acc) (auto intro!: result_intros results_bindE)

section \<open>Machine words\<close>

type_synonym u8 = "8 word"
type_synonym u32 = "32 word"
type_synonym i32 = "32 word"
type_synonym u64 = "64 word"

definition checked_add :: "'a::len word \<Rightarrow> 'a word \<Rightarrow> 'a word option" where
  "checked_add a b = (if unat a + unat b < 2 ^ LENGTH('a) then Some (a + b) else None)"

definition checked_sub :: "'a::len word \<Rightarrow> 'a word \<Rightarrow> 'a word option" where
  "checked_sub a b = (if b \<le> a then Some (a - b) else None)"

definition checked_mul :: "'a::len word \<Rightarrow> 'a word \<Rightarrow> 'a word option" where
  "checked_mul a b = (if unat a * unat b < 2 ^ LENGTH('a) then Some (a * b) else None)"

definition saturating_add :: "'a::len word \<Rightarrow> 'a word \<Rightarrow> 'a word" where
  "saturating_add a b = (if unat a + unat b < 2 ^ LENGTH('a) then a + b else - 1)"

lemma checked_add_Some [word_nat]:
  "checked_add a b = Some c \<Longrightarrow> unat c = unat a + unat b"
  by (auto simp: checked_add_def unat_word_ariths split: if_splits)

lemma checked_sub_Some [word_nat]:
  "checked_sub a b = Some c \<Longrightarrow> unat c = unat a - unat b \<and> unat b \<le> unat a"
  by (auto simp: checked_sub_def unat_sub word_le_nat_alt split: if_splits)

lemma checked_mul_Some [word_nat]:
  "checked_mul a b = Some c \<Longrightarrow> unat c = unat a * unat b"
  by (auto simp: checked_mul_def unat_word_ariths split: if_splits)

lemma checked_add_None_iff: "checked_add (a :: 'a::len word) b = None \<longleftrightarrow> 2 ^ LENGTH('a) \<le> unat a + unat b"
  by (simp add: checked_add_def not_less)

lemma unat_all_ones [simp]: "unat (- 1 :: 'a::len word) = 2 ^ LENGTH('a) - 1"
  by (simp add: unat_eq_nat_uint unsigned_minus_1_eq_mask mask_eq_exp_minus_1
      nat_diff_distrib nat_power_eq)

lemma saturating_add_unat:
  "unat (saturating_add a (b :: 'a::len word)) = min (unat a + unat b) (2 ^ LENGTH('a) - 1)"
  by (auto simp: saturating_add_def unat_word_ariths not_less)

lemma unat_sub_le: "b \<le> a \<Longrightarrow> unat (a - b) = unat a - unat b"
  for a b :: "'a::len word"
  by (simp add: unat_sub)

section \<open>Lists and options\<close>

lemma takeWhile_all: "(\<And>x. x \<in> set xs \<Longrightarrow> P x) \<Longrightarrow> takeWhile P (xs @ ys) = xs @ takeWhile P ys"
  by (induction xs) auto

lemma dropWhile_all: "(\<And>x. x \<in> set xs \<Longrightarrow> P x) \<Longrightarrow> dropWhile P (xs @ ys) = dropWhile P ys"
  by (induction xs) auto

lemma length_dropWhile_less: "xs \<noteq> [] \<Longrightarrow> P (hd xs) \<Longrightarrow> length (dropWhile P xs) < length xs"
  by (cases xs) (auto simp: le_imp_less_Suc length_dropWhile_le)

fun option_all :: "'a option list \<Rightarrow> 'a list option" where
  "option_all [] = Some []"
| "option_all (None # xs) = None"
| "option_all (Some x # xs) = map_option ((#) x) (option_all xs)"

lemma option_all_Some: "option_all xs = Some ys \<longleftrightarrow> xs = map Some ys"
  by (induction xs arbitrary: ys rule: option_all.induct) auto

text \<open>Collect an iterator of results: the first error wins.\<close>

fun result_all :: "('e + 'a) list \<Rightarrow> 'e + 'a list" where
  "result_all [] = Inr []"
| "result_all (Inl e # xs) = Inl e"
| "result_all (Inr x # xs) = (case result_all xs of Inl e \<Rightarrow> Inl e | Inr ys \<Rightarrow> Inr (x # ys))"

lemma result_all_map_Inr [simp]: "result_all (map Inr ys) = Inr ys"
  by (induction ys) auto

lemma result_all_InrD: "result_all xs = Inr ys \<Longrightarrow> xs = map Inr ys"
  by (induction xs arbitrary: ys rule: result_all.induct) (auto split: sum.splits)

lemma result_all_Inr: "result_all xs = Inr ys \<longleftrightarrow> xs = map Inr ys"
  using result_all_InrD by auto

lemma result_all_Inl: "result_all xs = Inl e \<Longrightarrow> Inl e \<in> set xs"
  by (induction xs rule: result_all.induct) (auto split: sum.splits)

end
