(* ===== verification/Rust_Str.thy ===== *)
theory Rust_Str
  imports Prelude
begin

text \<open>
  The part of Rust's \<open>str\<close> interface the program uses, on lists of characters. A \<open>char\<close> here is
  a byte: the program's own separators, keywords and keys are ASCII, and the operations below
  act on the bytes of a UTF-8 string exactly as the library does as long as white space is
  ASCII (the library also trims and splits at the non-ASCII space characters). The lemmas are
  the round trips and the shape facts the parsers of the components rely on.
\<close>

named_theorems str_simps "evaluating the string functions"

section \<open>White space, trimming, splitting\<close>

abbreviation newline :: char where "newline \<equiv> CHR 0x0A"
abbreviation carriage :: char where "carriage \<equiv> CHR 0x0D"
abbreviation tab_char :: char where "tab_char \<equiv> CHR 0x09"

definition is_ws :: "char \<Rightarrow> bool" where
  "is_ws c \<longleftrightarrow> c \<in> {CHR '' '', CHR 0x09, CHR 0x0A, CHR 0x0B, CHR 0x0C, CHR 0x0D}"

text \<open>\<open>is_ascii_whitespace\<close> leaves out the vertical tab.\<close>

definition is_ascii_ws :: "char \<Rightarrow> bool" where
  "is_ascii_ws c \<longleftrightarrow> c \<in> {CHR '' '', CHR 0x09, CHR 0x0A, CHR 0x0C, CHR 0x0D}"

definition is_digit :: "char \<Rightarrow> bool" where
  "is_digit c \<longleftrightarrow> 48 \<le> (of_char c :: nat) \<and> (of_char c :: nat) \<le> 57"

definition trim_start :: "string \<Rightarrow> string" where
  "trim_start s = dropWhile is_ws s"

definition trim_end :: "string \<Rightarrow> string" where
  "trim_end s = rev (dropWhile is_ws (rev s))"

definition trim :: "string \<Rightarrow> string" where
  "trim s = trim_end (trim_start s)"

fun split_on :: "(char \<Rightarrow> bool) \<Rightarrow> string \<Rightarrow> string list" where
  "split_on P [] = [[]]"
| "split_on P (c # s) = (if P c then [] # split_on P s
     else (case split_on P s of [] \<Rightarrow> [[c]] | w # ws \<Rightarrow> (c # w) # ws))"

definition split_char :: "char \<Rightarrow> string \<Rightarrow> string list" where
  "split_char c s = split_on (\<lambda>d. d = c) s"

definition split_ws :: "string \<Rightarrow> string list" where
  "split_ws s = filter (\<lambda>w. w \<noteq> []) (split_on is_ws s)"

definition strip_cr :: "string \<Rightarrow> string" where
  "strip_cr l = (if l \<noteq> [] \<and> last l = carriage then butlast l else l)"

text \<open>\<open>str::lines\<close>: a carriage return belongs to the line end only before a newline, and a
  final newline does not begin another line.\<close>

definition rust_lines :: "string \<Rightarrow> string list" where
  "rust_lines s = (let ps = split_char newline s in
     map strip_cr (butlast ps) @ (if last ps = [] then [] else [last ps]))"

fun split_once :: "char \<Rightarrow> string \<Rightarrow> (string \<times> string) option" where
  "split_once c [] = None"
| "split_once c (d # s) = (if d = c then Some ([], s)
     else (case split_once c s of None \<Rightarrow> None | Some (a, b) \<Rightarrow> Some (d # a, b)))"

definition rsplit_once :: "char \<Rightarrow> string \<Rightarrow> (string \<times> string) option" where
  "rsplit_once c s = (case split_once c (rev s) of
     None \<Rightarrow> None | Some (a, b) \<Rightarrow> Some (rev b, rev a))"

fun strip_prefix :: "string \<Rightarrow> string \<Rightarrow> string option" where
  "strip_prefix [] s = Some s"
| "strip_prefix (p # ps) [] = None"
| "strip_prefix (p # ps) (c # cs) = (if p = c then strip_prefix ps cs else None)"

definition starts_with :: "string \<Rightarrow> string \<Rightarrow> bool" where
  "starts_with p s \<longleftrightarrow> strip_prefix p s \<noteq> None"

definition strip_suffix :: "string \<Rightarrow> string \<Rightarrow> string option" where
  "strip_suffix p s = map_option rev (strip_prefix (rev p) (rev s))"

definition ends_with :: "string \<Rightarrow> string \<Rightarrow> bool" where
  "ends_with p s \<longleftrightarrow> strip_suffix p s \<noteq> None"

fun split_once_str :: "string \<Rightarrow> string \<Rightarrow> (string \<times> string) option" where
  "split_once_str p [] = (if p = [] then Some ([], []) else None)"
| "split_once_str p (c # cs) = (case strip_prefix p (c # cs) of
     Some rest \<Rightarrow> Some ([], rest)
   | None \<Rightarrow> (case split_once_str p cs of None \<Rightarrow> None | Some (a, b) \<Rightarrow> Some (c # a, b)))"

definition str_contains :: "string \<Rightarrow> string \<Rightarrow> bool" where
  "str_contains p s \<longleftrightarrow> split_once_str p s \<noteq> None"

text \<open>\<open>str::replace\<close> with a pattern that is not empty.\<close>

fun replace_all :: "string \<Rightarrow> string \<Rightarrow> string \<Rightarrow> string" where
  "replace_all [] new s = s"
| "replace_all (p # ps) new [] = []"
| "replace_all (p # ps) new (c # cs) =
     (if starts_with (p # ps) (c # cs) then new @ replace_all (p # ps) new (drop (length ps) cs)
      else c # replace_all (p # ps) new cs)"

fun join_with :: "string \<Rightarrow> string list \<Rightarrow> string" where
  "join_with sep [] = []"
| "join_with sep [x] = x"
| "join_with sep (x # y # xs) = x @ sep @ join_with sep (y # xs)"

section \<open>Numbers\<close>

definition digit_val :: "char \<Rightarrow> nat" where
  "digit_val c = (of_char c :: nat) - 48"

definition digit_char :: "nat \<Rightarrow> char" where
  "digit_char n = char_of (48 + n)"

fun show_nat :: "nat \<Rightarrow> string" where
  "show_nat n = (if n < 10 then [digit_char n] else show_nat (n div 10) @ [digit_char (n mod 10)])"

declare show_nat.simps [simp del]

definition show_int :: "int \<Rightarrow> string" where
  "show_int i = (if i < 0 then CHR ''-'' # show_nat (nat (- i)) else show_nat (nat i))"

definition digits_val :: "string \<Rightarrow> nat" where
  "digits_val ds = foldl (\<lambda>acc d. 10 * acc + digit_val d) 0 ds"

definition parse_digits :: "string \<Rightarrow> nat option" where
  "parse_digits s = (if s \<noteq> [] \<and> list_all is_digit s then Some (digits_val s) else None)"

text \<open>\<open>str::parse\<close> for an unsigned type whose values are below \<open>b\<close>: an optional plus sign, at
  least one digit, and no overflow.\<close>

definition parse_uint :: "nat \<Rightarrow> string \<Rightarrow> nat option" where
  "parse_uint b s =
     (case parse_digits (case s of [] \<Rightarrow> [] | c # r \<Rightarrow> if c = CHR ''+'' then r else s) of
        None \<Rightarrow> None | Some n \<Rightarrow> if n < b then Some n else None)"

text \<open>The text of the error, found from the left as the library does.\<close>

fun uint_scan :: "nat \<Rightarrow> nat \<Rightarrow> string \<Rightarrow> string + nat" where
  "uint_scan b acc [] = Inr acc"
| "uint_scan b acc (c # cs) =
     (if \<not> is_digit c then Inl ''invalid digit found in string''
      else if b \<le> 10 * acc \<or> b \<le> 10 * acc + digit_val c
      then Inl ''number too large to fit in target type''
      else uint_scan b (10 * acc + digit_val c) cs)"

definition uint_error_text :: "nat \<Rightarrow> string \<Rightarrow> string" where
  "uint_error_text b s = (if s = [] then ''cannot parse integer from empty string''
     else let ds = (if hd s = CHR ''+'' then tl s else s) in
       if ds = [] then ''invalid digit found in string''
       else case uint_scan b 0 ds of Inl t \<Rightarrow> t | Inr _ \<Rightarrow> [])"

definition parse_u64 :: "string \<Rightarrow> u64 option" where
  "parse_u64 s = map_option of_nat (parse_uint (2 ^ 64) s)"

definition parse_u32 :: "string \<Rightarrow> u32 option" where
  "parse_u32 s = map_option of_nat (parse_uint (2 ^ 32) s)"

text \<open>\<open>str::parse\<close> for a signed type of range \<open>- b \<le> i < b\<close>.\<close>

definition parse_sint :: "nat \<Rightarrow> string \<Rightarrow> int option" where
  "parse_sint b s = (case s of [] \<Rightarrow> None
     | c # r \<Rightarrow> if c = CHR ''-'' then
         (case parse_digits r of None \<Rightarrow> None
          | Some n \<Rightarrow> if n \<le> b then Some (- int n) else None)
       else map_option int (parse_uint b s))"

definition parse_i32 :: "string \<Rightarrow> i32 option" where
  "parse_i32 s = map_option of_int (parse_sint (2 ^ 31) s)"

definition show_i32 :: "i32 \<Rightarrow> string" where
  "show_i32 w = show_int (sint w)"

definition show_word :: "'a::len word \<Rightarrow> string" where
  "show_word w = show_nat (unat w)"

section \<open>Facts on splitting and trimming\<close>

lemma strip_prefix_Some [simp]: "strip_prefix p s = Some r \<longleftrightarrow> s = p @ r"
  by (induction p s rule: strip_prefix.induct) auto

lemma strip_prefix_append [simp]: "strip_prefix p (p @ r) = Some r"
  by simp

lemma strip_prefix_None: "strip_prefix p s = None \<longleftrightarrow> (\<forall>r. s \<noteq> p @ r)"
  by (metis not_None_eq option.distinct(1) strip_prefix_Some)

lemma strip_suffix_Some [simp]: "strip_suffix p s = Some r \<longleftrightarrow> s = r @ p"
proof -
  have "strip_suffix p s = Some r \<longleftrightarrow> strip_prefix (rev p) (rev s) = Some (rev r)"
    by (auto simp: strip_suffix_def rev_swap simp del: strip_prefix_Some)
  also have "\<dots> \<longleftrightarrow> s = r @ p"
    by (metis rev_append rev_rev_ident strip_prefix_Some)
  finally show ?thesis .
qed

lemma starts_with_iff: "starts_with p s \<longleftrightarrow> (\<exists>r. s = p @ r)"
  using strip_prefix_Some by (fastforce simp: starts_with_def)

lemma starts_with_Cons [str_simps]:
  "starts_with [] s" "\<not> starts_with (p # ps) []"
  "starts_with (p # ps) (c # cs) \<longleftrightarrow> p = c \<and> starts_with ps cs"
  by (auto simp: starts_with_def)

lemma ends_with_iff: "ends_with p s \<longleftrightarrow> (\<exists>r. s = r @ p)"
  using strip_suffix_Some by (fastforce simp: ends_with_def)

lemma split_on_nonempty [simp]: "split_on P s \<noteq> []"
  by (induction s) (auto split: list.splits)

lemma split_char_nonempty [simp]: "split_char c s \<noteq> []"
  by (simp add: split_char_def)

lemma split_on_none: "(\<And>c. c \<in> set s \<Longrightarrow> \<not> P c) \<Longrightarrow> split_on P s = [s]"
  by (induction s) auto

lemma split_on_append:
  assumes "\<And>c. c \<in> set a \<Longrightarrow> \<not> P c" and "P d"
  shows "split_on P (a @ d # s) = a # split_on P s"
  using assms by (induction a) (auto split: list.splits)

lemma split_on_pieces: "w \<in> set (split_on P s) \<Longrightarrow> c \<in> set w \<Longrightarrow> \<not> P c"
proof (induction s arbitrary: w)
  case (Cons d s)
  obtain v vs where vs: "split_on P s = v # vs" by (cases "split_on P s") auto
  show ?case using Cons.prems Cons.IH [of v] Cons.IH [of w] by (auto simp: vs split: if_splits)
qed simp

lemma split_on_set: "w \<in> set (split_on P s) \<Longrightarrow> set w \<subseteq> set s"
proof (induction s arbitrary: w)
  case (Cons d s)
  obtain v vs where vs: "split_on P s = v # vs" by (cases "split_on P s") auto
  show ?case using Cons.prems Cons.IH [of v] Cons.IH [of w] by (auto simp: vs split: if_splits)
qed simp

lemma split_char_piece: "w \<in> set (split_char c s) \<Longrightarrow> c \<notin> set w"
  using split_on_pieces by (fastforce simp: split_char_def)

lemma split_char_join:
  assumes "xs \<noteq> []" and "\<And>x. x \<in> set xs \<Longrightarrow> c \<notin> set x"
  shows "split_char c (join_with [c] xs) = xs"
  using assms
proof (induction xs rule: induct_list012)
  case (2 x)
  then have "split_on (\<lambda>d. d = c) x = [x]" by (intro split_on_none) auto
  then show ?case by (simp add: split_char_def)
next
  case (3 x y zs)
  have "c \<notin> set x" using "3.prems" by simp
  moreover have "split_char c (join_with [c] (y # zs)) = y # zs" using 3 by auto
  ultimately show ?case
    using split_on_append [of x "\<lambda>d. d = c" c "join_with [c] (y # zs)"]
    by (simp add: split_char_def) metis
qed simp

lemma join_split_char: "join_with [c] (split_char c s) = s"
  unfolding split_char_def
proof (induction s)
  case (Cons d s)
  have step: "join_with [c] ([] # ws) = c # join_with [c] ws" if "ws \<noteq> []" for ws
    using that by (cases ws) auto
  have head: "join_with [c] ((d # w) # ws) = d # join_with [c] (w # ws)" for w ws
    by (cases ws) auto
  show ?case using Cons by (auto simp: step head split: list.splits)
qed simp

lemma split_ws_word: "w \<in> set (split_ws s) \<Longrightarrow> w \<noteq> [] \<and> (\<forall>c \<in> set w. \<not> is_ws c)"
  using split_on_pieces by (fastforce simp: split_ws_def)

lemma split_once_Some:
  "split_once c s = Some (a, b) \<longleftrightarrow> s = a @ c # b \<and> c \<notin> set a"
proof (induction s arbitrary: a)
  case (Cons d s)
  have step: "split_once c (d # s) = Some (a, b) \<longleftrightarrow>
      (if d = c then a = [] \<and> b = s else \<exists>a'. a = d # a' \<and> split_once c s = Some (a', b))"
    by (auto split: option.splits)
  show ?case unfolding step using Cons.IH by (cases a) auto
qed simp

lemma split_once_None [simp]: "split_once c s = None \<longleftrightarrow> c \<notin> set s"
  by (induction s) (auto split: option.splits)

lemma rsplit_once_Some:
  "rsplit_once c s = Some (a, b) \<longleftrightarrow> s = a @ c # b \<and> c \<notin> set b"
proof -
  have "rsplit_once c s = Some (a, b) \<longleftrightarrow> split_once c (rev s) = Some (rev b, rev a)"
    by (auto simp: rsplit_once_def simp del: split_once_None split: option.splits)
  also have "\<dots> \<longleftrightarrow> rev s = rev b @ c # rev a \<and> c \<notin> set b"
    by (simp add: split_once_Some)
  also have "\<dots> \<longleftrightarrow> s = a @ c # b \<and> c \<notin> set b"
    by (metis (no_types, lifting) append.assoc append_Cons append_Nil rev.simps(2) rev_append rev_rev_ident)
  finally show ?thesis .
qed

lemma split_once_str_Some: "split_once_str p s = Some (a, b) \<Longrightarrow> s = a @ p @ b"
  by (induction p s arbitrary: a rule: split_once_str.induct) (auto split: option.splits if_splits)

lemma str_contains_iff: "str_contains p s \<longleftrightarrow> (\<exists>a b. s = a @ p @ b)"
proof
  show "str_contains p s \<Longrightarrow> \<exists>a b. s = a @ p @ b"
    using split_once_str_Some by (fastforce simp: str_contains_def)
next
  have "str_contains p (a @ p @ b)" for a b
  proof (induction a)
    case Nil
    have "strip_prefix p (p @ b) = Some b" by simp
    then show ?case
      by (cases "p @ b") (simp_all add: str_contains_def del: strip_prefix_Some split: option.splits)
  next
    case (Cons x a)
    then show ?case by (auto simp: str_contains_def split: option.splits)
  qed
  then show "\<exists>a b. s = a @ p @ b \<Longrightarrow> str_contains p s" by blast
qed

lemma trim_id: "(s = [] \<or> (\<not> is_ws (hd s) \<and> \<not> is_ws (last s))) \<Longrightarrow> trim s = s"
proof (elim disjE conjE)
  assume "\<not> is_ws (hd s)" and "\<not> is_ws (last s)"
  then have "dropWhile is_ws s = s" and "dropWhile is_ws (rev s) = rev s"
    by (simp_all add: dropWhile_eq_self_iff hd_rev)
  then show "trim s = s" by (simp add: trim_def trim_start_def trim_end_def)
qed (simp add: trim_def trim_start_def trim_end_def)

lemma trim_no_ws: "(\<And>c. c \<in> set s \<Longrightarrow> \<not> is_ws c) \<Longrightarrow> trim s = s"
  by (rule trim_id) auto

lemma trim_end_append_ws: "(\<And>c. c \<in> set w \<Longrightarrow> is_ws c) \<Longrightarrow> trim_end (s @ w) = trim_end s"
  by (simp add: trim_end_def dropWhile_append)

lemma trim_start_shape: "trim_start s = [] \<or> \<not> is_ws (hd (trim_start s))"
  using hd_dropWhile [of is_ws s] by (auto simp: trim_start_def)

lemma rust_lines_unlines:
  assumes "\<And>l. l \<in> set ls \<Longrightarrow> newline \<notin> set l \<and> (l = [] \<or> last l \<noteq> carriage)"
  shows "rust_lines (concat (map (\<lambda>l. l @ [newline]) ls)) = ls"
proof -
  have split: "split_char newline (concat (map (\<lambda>l. l @ [newline]) ls)) = ls @ [[]]"
    using assms
  proof (induction ls)
    case Nil
    show ?case by (simp add: split_char_def)
  next
    case (Cons l ls)
    then have "newline \<notin> set l" by simp
    then show ?case
      using Cons split_on_append [of l "\<lambda>d. d = newline" newline "concat (map (\<lambda>l. l @ [newline]) ls)"]
      by (simp add: split_char_def) metis
  qed
  have "map strip_cr ls = ls"
    using assms by (intro map_idI) (auto simp: strip_cr_def)
  then show ?thesis by (simp add: rust_lines_def split butlast_append)
qed

lemma rust_lines_no_newline: "l \<in> set (rust_lines s) \<Longrightarrow> newline \<notin> set l"
proof -
  assume "l \<in> set (rust_lines s)"
  then obtain w where w: "w \<in> set (split_char newline s)" "l = strip_cr w \<or> l = w"
    by (auto simp: rust_lines_def Let_def dest: in_set_butlastD split: if_splits)
       (metis last_in_set split_char_nonempty)
  then show "newline \<notin> set l"
    using split_char_piece [of w newline s] by (auto simp: strip_cr_def dest: in_set_butlastD split: if_splits)
qed

section \<open>Facts on numbers\<close>

lemma digit_round [simp]: "n < 10 \<Longrightarrow> digit_val (digit_char n) = n"
  by (simp add: digit_val_def digit_char_def)

lemma is_digit_char [simp]: "n < 10 \<Longrightarrow> is_digit (digit_char n)"
  by (simp add: is_digit_def digit_char_def)

lemma show_nat_digits: "list_all is_digit (show_nat n)"
  by (induction n rule: show_nat.induct) (subst show_nat.simps, simp)

lemma show_nat_nonempty [simp]: "show_nat n \<noteq> []"
  by (subst show_nat.simps) simp

lemma digits_val_show: "digits_val (show_nat n) = n"
proof (induction n rule: show_nat.induct)
  case (1 n)
  then show ?case by (subst show_nat.simps) (simp add: digits_val_def)
qed

lemma show_word_inj [simp]: "show_word (a :: 'a::len word) = show_word b \<longleftrightarrow> a = b"
proof
  assume "show_word a = show_word b"
  then have "unat a = unat b" using digits_val_show by (metis show_word_def)
  then show "a = b" by (simp add: word_unat_eq_iff)
qed simp

lemma parse_digits_show [simp]: "parse_digits (show_nat n) = Some n"
  by (simp add: parse_digits_def show_nat_digits digits_val_show)

lemma show_nat_chars: "c \<in> set (show_nat n) \<Longrightarrow> is_digit c"
  using show_nat_digits [of n] by (simp add: list_all_iff)

lemma not_digit: "\<not> is_digit (CHR ''+'')" "\<not> is_digit (CHR ''-'')" "\<not> is_digit newline"
  "\<not> is_digit (CHR '','')" "\<not> is_digit (CHR '' '')" "\<not> is_digit (CHR ''p'')"
  "\<not> is_digit (CHR ''='')" "\<not> is_digit (CHR '':'')" "\<not> is_digit (CHR ''/'')"
  by (simp_all add: is_digit_def)

lemma is_ws_not_digit: "is_ws c \<Longrightarrow> \<not> is_digit c"
  by (auto simp: is_ws_def is_digit_def)

lemma hd_show_nat: "is_digit (hd (show_nat n))"
  using show_nat_chars [of "hd (show_nat n)" n] by simp

lemma parse_uint_show [simp]: "n < b \<Longrightarrow> parse_uint b (show_nat n) = Some n"
proof -
  obtain c r where cr: "show_nat n = c # r" by (cases "show_nat n") auto
  have "c \<noteq> CHR ''+''" using hd_show_nat [of n] not_digit(1) by (auto simp: cr)
  then show "n < b \<Longrightarrow> parse_uint b (show_nat n) = Some n"
    using parse_digits_show [of n] by (simp add: parse_uint_def cr)
qed

lemma parse_uint_bound: "parse_uint b s = Some n \<Longrightarrow> n < b"
  by (auto simp: parse_uint_def split: option.splits if_splits)

lemma parse_u64_show [simp]: "parse_u64 (show_word (w :: u64)) = Some w"
  using unsigned_less [of w, where ?'a = nat] by (simp add: parse_u64_def show_word_def)

lemma parse_sint_show:
  assumes "- int b \<le> i" and "i < int b"
  shows "parse_sint b (show_int i) = Some i"
proof (cases "i < 0")
  case True
  then show ?thesis using assms by (simp add: parse_sint_def show_int_def)
next
  case False
  obtain c r where cr: "show_nat (nat i) = c # r" by (cases "show_nat (nat i)") auto
  have "c \<noteq> CHR ''-''" using hd_show_nat [of "nat i"] not_digit(2) by (auto simp: cr)
  moreover have "parse_uint b (c # r) = Some (nat i)"
    using parse_uint_show [of "nat i" b] False assms by (simp add: cr)
  ultimately show ?thesis using False by (simp add: parse_sint_def show_int_def cr)
qed

lemma parse_i32_show [simp]: "parse_i32 (show_i32 w) = Some w"
proof -
  have "- int (2 ^ 31) \<le> sint w" and "sint w < int (2 ^ 31)"
    using sint_ge [of w] sint_lt [of w] by simp_all
  then show ?thesis by (simp add: parse_i32_def show_i32_def parse_sint_show)
qed

lemma show_i32_chars: "c \<in> set (show_i32 w) \<Longrightarrow> is_digit c \<or> c = CHR ''-''"
  by (auto simp: show_i32_def show_int_def dest: show_nat_chars split: if_splits)

text \<open>The scan agrees with the parser: there is an error text exactly when there is no value.\<close>

lemma digits_val_Cons_mono: "acc \<le> foldl (\<lambda>a d. 10 * a + digit_val d) acc ds"
proof (induction ds arbitrary: acc)
  case (Cons d ds)
  show ?case using Cons [of "10 * acc + digit_val d"] by simp
qed simp

lemma uint_scan_value:
  "0 < b \<Longrightarrow> acc < b \<Longrightarrow> uint_scan b acc ds = Inr n \<longleftrightarrow>
     list_all is_digit ds \<and> n = foldl (\<lambda>a d. 10 * a + digit_val d) acc ds \<and> n < b"
proof (induction b acc ds rule: uint_scan.induct)
  case (2 b acc c cs)
  have "10 * acc + digit_val c \<le> foldl (\<lambda>a d. 10 * a + digit_val d) (10 * acc + digit_val c) cs"
    by (rule digits_val_Cons_mono)
  then show ?case using 2 by auto
qed auto

end
