(* ===== verification/World.thy ===== *)
theory World
  imports Rust_Str
begin

text \<open>
  The machine the program runs on. The kernel, the file systems, the block devices and the
  external commands are not code of the repository: they are the fields of a record \<open>os\<close> of
  answer functions over an arbitrary world \<open>'w\<close>, and every definition that makes a call takes
  that record. What the program itself decides - which call, with which arguments, in which
  order, and what it does with the answer - is what the development models; a theorem that
  quantifies over \<open>os\<close> and \<open>'w\<close> holds whatever the kernel and the tools answer, errors included.

  The machine state carries, beside the world, the ghost list of the calls made so far, each
  with the bit that says whether it succeeded. Nothing reads it; the ordering and safety
  properties are stated over it. \<open>program\<close> is the program's own memory, of a type a later
  theory fixes; no call changes it. The clock counts milliseconds; each call may take time, and a
  sleep takes at least what was asked for, so that a polling loop with a deadline is a total
  function. The log lines the program prints are not part of the model.
\<close>

section \<open>Calls, answers, the machine\<close>

datatype io_kind = NotFound | PermissionDenied | AlreadyExists | InvalidData | InvalidInput
  | UnexpectedEof | WriteZero | Interrupted | TimedOut | Unsupported | OutOfMemory | OtherKind

datatype io_error = IoError (io_kind_of: io_kind) (io_msg: string)

datatype mount_flag = Ms_RdOnly | Ms_NoSuid | Ms_NoDev | Ms_NoExec | Ms_NoAtime | Ms_NoDirAtime | Ms_RelAtime
  | Ms_StrictAtime | Ms_Bind | Ms_Rec | Ms_Move | Ms_Private | Ms_Remount

datatype (plugins only: code size) call =
    Spawn string "string list" string
  | SpawnEnv "string \<times> string" string "string list" string
  | MountCall "string option" string "string option" "mount_flag list" "string option"
  | UmountCall string
  | ReadText string
  | WriteFile string string
  | CreateFile string
  | Exists string
  | IsFile string
  | IsDir string
  | IsSymlink string
  | MakeDirs string
  | MakeDir string
  | RemoveFile string
  | RemoveDir string
  | MakeSymlink string string
  | ReadLink string
  | Canonicalize string
  | Chown string u32 u32
  | Chmod string u32
  | CopyFile string string
  | FsMagic string
  | SyncAll
  | SyncFile string
  | SleepMs u64
  | RebootCall
  | ExecCall string "string list"
  | Chroot string
  | Chdir string
  | LoadModule string string bool
  | Stat string
  | Lstat string
  | ReadDir string
  | OpenRead string
  | OpenWrite string
  | OpenWriteExcl string
  | OpenTruncate string
  | OpenNonblock string
  | SeekEnd string
  | SeekRead string u64
  | SeekWrite string u64
  | ReadSome string u64
  | ReadExact string u64
  | ReadBounded string u64
  | ReadToEnd string
  | ReadDecoded string u64
  | DecodedSize string
  | WriteSome string string
  | WriteAll string string
  | SetLen string u64
  | Ioctl string string "u64 list"
  | MakeFifo string u32
  | MakePipe
  | ClonePipe
  | SpawnChild string "string list"
  | WriteStdin string string
  | ReadChild string u64
  | WaitChild string
  | NetAddrs
  | PowerOffCall

record cmd_output =
  exit_code :: "i32 option"
  stdout :: string
  stderr :: string
  signal_text :: string

text \<open>\<open>ExitStatus\<close> as the library prints it; \<open>signal_text\<close> is its text for a process that a signal killed.\<close>

definition display_status :: "cmd_output \<Rightarrow> string" where
  "display_status out = (case exit_code out of
     Some n \<Rightarrow> ''exit status: '' @ show_i32 n | None \<Rightarrow> signal_text out)"

definition success :: "cmd_output \<Rightarrow> bool" where
  "success out \<longleftrightarrow> exit_code out = Some 0"

text \<open>What \<open>metadata\<close> tells of a file, and an address of a network interface.\<close>

record file_stat =
  st_uid :: u32
  st_gid :: u32
  st_mode :: u32
  st_dev :: u64
  st_rdev :: u64
  st_len :: u64
  st_is_file :: bool
  st_is_dir :: bool
  st_is_block :: bool

datatype ip_addr = V4 u32 | V6 string

record 'w os =
  os_unit :: "call \<Rightarrow> 'w \<Rightarrow> (io_error + unit) \<times> 'w"
  os_text :: "call \<Rightarrow> 'w \<Rightarrow> (io_error + string) \<times> 'w"
  os_bool :: "call \<Rightarrow> 'w \<Rightarrow> bool \<times> 'w"
  os_num :: "call \<Rightarrow> 'w \<Rightarrow> (io_error + u64) \<times> 'w"
  os_run :: "call \<Rightarrow> 'w \<Rightarrow> (io_error + cmd_output) \<times> 'w"
  os_stat :: "call \<Rightarrow> 'w \<Rightarrow> (io_error + file_stat) \<times> 'w"
  os_entries :: "call \<Rightarrow> 'w \<Rightarrow> (io_error + (io_error + string) list) \<times> 'w"
  os_addrs :: "call \<Rightarrow> 'w \<Rightarrow> (io_error + (string \<times> ip_addr option) list) \<times> 'w"
  os_delay :: "call \<Rightarrow> 'w \<Rightarrow> nat"

record ('w, 'p) machine =
  world :: 'w
  trace :: "(call \<times> bool) list"
  clock :: nat
  program :: 'p

definition record_call :: "nat \<Rightarrow> call \<Rightarrow> bool \<Rightarrow> 'w \<Rightarrow> ('w, 'p) machine \<Rightarrow> ('w, 'p) machine" where
  "record_call d c ok w s = s\<lparr>world := w, trace := trace s @ [(c, ok)], clock := clock s + d\<rparr>"

definition sys_unit :: "'w os \<Rightarrow> call \<Rightarrow> (('w, 'p) machine, io_error, unit) io" where
  "sys_unit os c = (\<lambda>s. case os_unit os c (world s) of (r, w) \<Rightarrow>
     (r, record_call (os_delay os c (world s)) c (\<not> isl r) w s))"

definition sys_text :: "'w os \<Rightarrow> call \<Rightarrow> (('w, 'p) machine, io_error, string) io" where
  "sys_text os c = (\<lambda>s. case os_text os c (world s) of (r, w) \<Rightarrow>
     (r, record_call (os_delay os c (world s)) c (\<not> isl r) w s))"

definition sys_num :: "'w os \<Rightarrow> call \<Rightarrow> (('w, 'p) machine, io_error, u64) io" where
  "sys_num os c = (\<lambda>s. case os_num os c (world s) of (r, w) \<Rightarrow>
     (r, record_call (os_delay os c (world s)) c (\<not> isl r) w s))"

definition sys_stat :: "'w os \<Rightarrow> call \<Rightarrow> (('w, 'p) machine, io_error, file_stat) io" where
  "sys_stat os c = (\<lambda>s. case os_stat os c (world s) of (r, w) \<Rightarrow>
     (r, record_call (os_delay os c (world s)) c (\<not> isl r) w s))"

text \<open>\<open>read_dir\<close>: the listing can fail, and so can each entry.\<close>

definition sys_entries :: "'w os \<Rightarrow> call \<Rightarrow> (('w, 'p) machine, io_error, (io_error + string) list) io" where
  "sys_entries os c = (\<lambda>s. case os_entries os c (world s) of (r, w) \<Rightarrow>
     (r, record_call (os_delay os c (world s)) c (\<not> isl r) w s))"

definition sys_addrs :: "'w os \<Rightarrow> call \<Rightarrow> (('w, 'p) machine, io_error, (string \<times> ip_addr option) list) io" where
  "sys_addrs os c = (\<lambda>s. case os_addrs os c (world s) of (r, w) \<Rightarrow>
     (r, record_call (os_delay os c (world s)) c (\<not> isl r) w s))"

text \<open>A test such as \<open>Path::exists\<close> cannot fail: an unreadable path counts as absent.\<close>

definition test_path :: "'w os \<Rightarrow> call \<Rightarrow> ('w, 'p) machine \<Rightarrow> bool \<times> ('w, 'p) machine" where
  "test_path os c s = (case os_bool os c (world s) of (b, w) \<Rightarrow>
     (b, record_call (os_delay os c (world s)) c b w s))"

definition sys_bool :: "'w os \<Rightarrow> call \<Rightarrow> (('w, 'p) machine, 'e, bool) io" where
  "sys_bool os c = (\<lambda>s. case test_path os c s of (b, s') \<Rightarrow> (Inr b, s'))"

text \<open>An external command: \<open>Inl\<close> when it cannot be started, its exit status and output otherwise.\<close>

definition sys_run :: "'w os \<Rightarrow> call \<Rightarrow> (('w, 'p) machine, io_error, cmd_output) io" where
  "sys_run os c = (\<lambda>s. case os_run os c (world s) of (r, w) \<Rightarrow>
     (r, record_call (os_delay os c (world s)) c
           (case r of Inl _ \<Rightarrow> False | Inr out \<Rightarrow> success out) w s))"

text \<open>\<open>thread::sleep\<close> takes at least the time asked for; \<open>Instant::now\<close> reads the clock.\<close>

definition sleep_for :: "'w os \<Rightarrow> nat \<Rightarrow> ('w, 'p) machine \<Rightarrow> ('w, 'p) machine" where
  "sleep_for os ms s = record_call (ms + os_delay os (SleepMs (of_nat ms)) (world s))
     (SleepMs (of_nat ms)) True (world s) s"

definition sys_sleep :: "'w os \<Rightarrow> nat \<Rightarrow> (('w, 'p) machine, 'e, unit) io" where
  "sys_sleep os ms = (\<lambda>s. (Inr (), sleep_for os ms s))"

definition instant_now :: "(('w, 'p) machine, 'e, nat) io" where
  "instant_now = (\<lambda>s. (Inr (clock s), s))"

section \<open>Reasoning about the calls of a computation\<close>

text \<open>
  \<open>calls_only P m\<close>: whatever the world answers, running \<open>m\<close> only appends calls satisfying \<open>P\<close> to
  the trace. The rules follow the combinators of the prelude.
\<close>

definition calls_only :: "(call \<Rightarrow> bool) \<Rightarrow> (('w, 'p) machine, 'e, 'a) io \<Rightarrow> bool" where
  "calls_only P m \<longleftrightarrow>
     (\<forall>s. \<exists>t. trace (snd (m s)) = trace s @ t \<and> (\<forall>c \<in> set t. P (fst c)))"

named_theorems calls_intros "rules that build calls_only from the parts of a program"

lemma calls_onlyD:
  assumes "calls_only P m" and "m s = (r, s')"
  obtains t where "trace s' = trace s @ t" and "\<And>c. c \<in> set t \<Longrightarrow> P (fst c)"
  using assms by (metis calls_only_def snd_conv)

lemma calls_only_split:
  "calls_only P m \<Longrightarrow> m s = (r, s') \<Longrightarrow> \<exists>t. trace s' = trace s @ t \<and> (\<forall>c \<in> set t. P (fst c))"
  by (metis calls_only_def snd_conv)

lemma calls_only_mono: "calls_only P m \<Longrightarrow> (\<And>c. P c \<Longrightarrow> Q c) \<Longrightarrow> calls_only Q m"
  unfolding calls_only_def by meson

lemma trace_record_call [simp]: "trace (record_call d c ok w s) = trace s @ [(c, ok)]"
  by (simp add: record_call_def)

lemma world_record_call [simp]: "world (record_call d c ok w s) = w"
  by (simp add: record_call_def)

lemma program_record_call [simp]: "program (record_call d c ok w s) = program s"
  by (simp add: record_call_def)

lemma clock_record_call [simp]: "clock (record_call d c ok w s) = clock s + d"
  by (simp add: record_call_def)

lemma clock_test_path: "clock s \<le> clock (snd (test_path os c s))"
  by (simp add: test_path_def split: prod.split)

lemma clock_sleep_for: "clock s + ms \<le> clock (sleep_for os ms s)"
  by (simp add: sleep_for_def)

lemma trace_test_path: "trace (snd (test_path os c s)) = trace s @ [(c, fst (test_path os c s))]"
  by (simp add: test_path_def split: prod.split)

lemma trace_sleep_for: "trace (sleep_for os ms s) = trace s @ [(SleepMs (of_nat ms), True)]"
  by (simp add: sleep_for_def)

lemma clock_sys_run: "sys_run os c s = (r, s') \<Longrightarrow> clock s \<le> clock s'"
  by (auto simp: sys_run_def split: prod.splits)


lemma calls_only_sys [calls_intros]:
  assumes "P c"
  shows "calls_only P (sys_unit os c)" "calls_only P (sys_text os c)"
    "calls_only P (sys_num os c)"
    "calls_only P (sys_bool os c)" "calls_only P (sys_run os c)" "calls_only P (sys_stat os c)"
    "calls_only P (sys_entries os c)" "calls_only P (sys_addrs os c)"
  using assms
  by (auto simp: calls_only_def sys_unit_def sys_text_def sys_num_def sys_bool_def
      sys_stat_def sys_entries_def sys_addrs_def sys_run_def test_path_def split: prod.split)

lemma calls_only_sleep [calls_intros]: "P (SleepMs (of_nat ms)) \<Longrightarrow> calls_only P (sys_sleep os ms)"
  by (auto simp: calls_only_def sys_sleep_def sleep_for_def)

lemma calls_only_pure [calls_intros]:
  "calls_only P (ret x)" "calls_only P (throw e)" "calls_only P (lift_res r)"
  "calls_only P instant_now"
  by (auto simp: calls_only_def instant_now_def)

lemma calls_only_bindE [calls_intros]:
  assumes m: "calls_only P m" and f: "\<And>x. calls_only P (f x)"
  shows "calls_only P (bindE m f)"
  unfolding calls_only_def
proof
  fix s
  obtain r s' where ms: "m s = (r, s')" by fastforce
  obtain t where t: "trace s' = trace s @ t" "\<forall>c \<in> set t. P (fst c)"
    using calls_onlyD [OF m ms] by metis
  show "\<exists>t. trace (snd (bindE m f s)) = trace s @ t \<and> (\<forall>c \<in> set t. P (fst c))"
  proof (cases r)
    case (Inl e)
    then show ?thesis using t ms by (auto simp: bindE_def)
  next
    case (Inr x)
    obtain q s'' where fs: "f x s' = (q, s'')" by fastforce
    obtain u where "trace s'' = trace s' @ u" "\<forall>c \<in> set u. P (fst c)"
      using calls_onlyD [OF f fs] by metis
    then show ?thesis using t ms fs Inr by (intro exI [of _ "t @ u"]) (auto simp: bindE_def)
  qed
qed

lemma calls_only_caught [calls_intros]:
  assumes m: "calls_only P m" and f: "\<And>r. calls_only P (f r)"
  shows "calls_only P (caught m f)"
proof -
  have "calls_only P (bindE (\<lambda>s. (Inr (fst (m s)), snd (m s))) f)"
    using m f by (intro calls_only_bindE) (simp_all add: calls_only_def)
  moreover have "caught m f = bindE (\<lambda>s. (Inr (fst (m s)), snd (m s))) f"
    by (simp add: caught_def bindE_def fun_eq_iff split: prod.split)
  ultimately show ?thesis by simp
qed

lemma calls_only_map_err [calls_intros]: "calls_only P m \<Longrightarrow> calls_only P (map_err g m)"
proof -
  have "snd (map_err g m s) = snd (m s)" for s
    by (simp add: map_err_def split: prod.split sum.split)
  then show "calls_only P m \<Longrightarrow> calls_only P (map_err g m)" by (simp add: calls_only_def)
qed

lemma calls_only_ignore [calls_intros]: "calls_only P m \<Longrightarrow> calls_only P (ignore m)"
  by (simp add: calls_only_def)

lemma calls_only_on_err [calls_intros]:
  assumes m: "calls_only P m" and c: "calls_only P c"
  shows "calls_only P (on_err m c)"
proof -
  have "on_err m c = caught m (\<lambda>r. case r of Inl e \<Rightarrow> bindE (ignore c) (\<lambda>_. throw e) | Inr x \<Rightarrow> ret x)"
    by (auto simp: on_err_def caught_def bindE_def fun_eq_iff split: prod.split sum.split)
  then show ?thesis
    using m c by (auto intro!: calls_only_caught calls_only_bindE calls_only_ignore
        calls_only_pure split: sum.split)
qed

lemma calls_only_for_each [calls_intros]:
  "(\<And>x. x \<in> set xs \<Longrightarrow> calls_only P (f x)) \<Longrightarrow> calls_only P (for_each xs f)"
  by (induction xs) (auto intro: calls_intros)

lemma calls_only_fold_io [calls_intros]:
  "(\<And>x acc. x \<in> set xs \<Longrightarrow> calls_only P (f x acc)) \<Longrightarrow> calls_only P (fold_io f xs acc)"
  by (induction xs arbitrary: acc) (auto intro: calls_intros)

lemma calls_only_if [calls_intros]:
  "(b \<Longrightarrow> calls_only P m) \<Longrightarrow> (\<not> b \<Longrightarrow> calls_only P n) \<Longrightarrow> calls_only P (if b then m else n)"
  by simp

lemma calls_only_case_sum [calls_intros]:
  "(\<And>e. r = Inl e \<Longrightarrow> calls_only P (f e)) \<Longrightarrow> (\<And>x. r = Inr x \<Longrightarrow> calls_only P (g x)) \<Longrightarrow>
   calls_only P (case r of Inl e \<Rightarrow> f e | Inr x \<Rightarrow> g x)"
  by (cases r) auto

lemma calls_only_case_option [calls_intros]:
  "(x = None \<Longrightarrow> calls_only P n) \<Longrightarrow> (\<And>y. x = Some y \<Longrightarrow> calls_only P (f y)) \<Longrightarrow>
   calls_only P (case x of None \<Rightarrow> n | Some y \<Rightarrow> f y)"
  by (cases x) auto

lemma calls_only_case_prod [calls_intros]:
  "(\<And>a b. x = (a, b) \<Longrightarrow> calls_only P (f a b)) \<Longrightarrow> calls_only P (case x of (a, b) \<Rightarrow> f a b)"
  by (cases x) auto

section \<open>The memory of the program\<close>

text \<open>Reading and changing the program's own memory makes no call.\<close>

definition get_prog :: "('p \<Rightarrow> 'a) \<Rightarrow> (('w, 'p) machine, 'e, 'a) io" where
  "get_prog f = (\<lambda>s. (Inr (f (program s)), s))"

definition modify_prog :: "('p \<Rightarrow> 'p) \<Rightarrow> (('w, 'p) machine, 'e, unit) io" where
  "modify_prog f = (\<lambda>s. (Inr (), s\<lparr>program := f (program s)\<rparr>))"

lemma calls_only_prog [calls_intros]: "calls_only P (get_prog f)" "calls_only P (modify_prog g)"
  by (simp_all add: calls_only_def get_prog_def modify_prog_def)

lemma never_fails_prog [total_intros]:
  "never_fails (get_prog f)" "never_fails (modify_prog g)" "never_fails (sys_bool os c)"
  "never_fails (sys_sleep os ms)" "never_fails instant_now"
  by (simp_all add: never_fails_def get_prog_def modify_prog_def sys_bool_def sys_sleep_def
      instant_now_def split: prod.split)

text \<open>\<open>keeps_prog\<close>: a computation that leaves the program's memory alone.\<close>

definition keeps_prog :: "(('w, 'p) machine, 'e, 'a) io \<Rightarrow> bool" where
  "keeps_prog m \<longleftrightarrow> (\<forall>s. program (snd (m s)) = program s)"

named_theorems prog_intros "rules that build keeps_prog"

lemma keeps_progD: "keeps_prog m \<Longrightarrow> m s = (r, s') \<Longrightarrow> program s' = program s"
  by (metis keeps_prog_def snd_conv)

lemma keeps_prog_sys [prog_intros]:
  "keeps_prog (sys_unit os c)" "keeps_prog (sys_text os c)"
  "keeps_prog (sys_num os c)" "keeps_prog (sys_bool os c)" "keeps_prog (sys_run os c)"
  "keeps_prog (sys_sleep os ms)" "keeps_prog instant_now" "keeps_prog (get_prog f)"
  "keeps_prog (sys_stat os c)" "keeps_prog (sys_entries os c)" "keeps_prog (sys_addrs os c)"
  by (auto simp: keeps_prog_def sys_unit_def sys_text_def sys_num_def sys_bool_def
      sys_run_def sys_stat_def sys_entries_def sys_addrs_def sys_sleep_def sleep_for_def test_path_def instant_now_def get_prog_def
      split: prod.split)

lemma keeps_prog_pure [prog_intros]:
  "keeps_prog (ret x)" "keeps_prog (throw e)" "keeps_prog (lift_res r)"
  by (simp_all add: keeps_prog_def)

lemma keeps_prog_bindE [prog_intros]:
  "keeps_prog m \<Longrightarrow> (\<And>x. keeps_prog (f x)) \<Longrightarrow> keeps_prog (bindE m f)"
  by (auto simp: keeps_prog_def bindE_def split: prod.splits sum.splits) (metis snd_conv)+

lemma keeps_prog_caught [prog_intros]:
  "keeps_prog m \<Longrightarrow> (\<And>r. keeps_prog (f r)) \<Longrightarrow> keeps_prog (caught m f)"
  by (auto simp: keeps_prog_def caught_def split: prod.splits) (metis snd_conv)+

lemma keeps_prog_map_err [prog_intros]: "keeps_prog m \<Longrightarrow> keeps_prog (map_err g m)"
  by (auto simp: keeps_prog_def map_err_def split: prod.splits sum.splits) (metis snd_conv)+

lemma keeps_prog_on_err [prog_intros]: "keeps_prog m \<Longrightarrow> keeps_prog c \<Longrightarrow> keeps_prog (on_err m c)"
  by (auto simp: keeps_prog_def on_err_def split: prod.splits sum.splits) (metis snd_conv)+

lemma keeps_prog_ignore [prog_intros]: "keeps_prog m \<Longrightarrow> keeps_prog (ignore m)"
  by (simp add: keeps_prog_def)

lemma keeps_prog_for_each [prog_intros]:
  "(\<And>x. x \<in> set xs \<Longrightarrow> keeps_prog (f x)) \<Longrightarrow> keeps_prog (for_each xs f)"
  by (induction xs) (auto intro: prog_intros)

lemma keeps_prog_if [prog_intros]:
  "(b \<Longrightarrow> keeps_prog m) \<Longrightarrow> (\<not> b \<Longrightarrow> keeps_prog n) \<Longrightarrow> keeps_prog (if b then m else n)"
  by simp

lemma keeps_prog_cases [prog_intros]:
  "(\<And>e. r = Inl e \<Longrightarrow> keeps_prog (f e)) \<Longrightarrow> (\<And>x. r = Inr x \<Longrightarrow> keeps_prog (g x)) \<Longrightarrow>
   keeps_prog (case r of Inl e \<Rightarrow> f e | Inr x \<Rightarrow> g x)"
  "(y = None \<Longrightarrow> keeps_prog n) \<Longrightarrow> (\<And>z. y = Some z \<Longrightarrow> keeps_prog (h z)) \<Longrightarrow>
   keeps_prog (case y of None \<Rightarrow> n | Some z \<Rightarrow> h z)"
  by (cases r; simp) (cases y; simp)

lemma results_infallible [result_intros]:
  "results E (\<lambda>_. True) (sys_bool os c)" "results E (\<lambda>_. True) (sys_sleep os ms)"
  "results E (\<lambda>_. True) instant_now" "results E (\<lambda>_. True) (get_prog f)"
  "results E (\<lambda>_. True) (modify_prog g)"
  by (simp_all add: results_def sys_bool_def sys_sleep_def instant_now_def get_prog_def
      modify_prog_def split: prod.split)

end
