(* ===== verification/Rust_Path.thy ===== *)
theory Rust_Path
  imports Rust_Str
begin

text \<open>
  The part of \<open>std::path\<close> the program uses. A path is its text; \<open>components\<close> parses it as the
  library does (repeated separators and inner \<open>.\<close> components vanish), and the comparisons of
  paths are comparisons of components. \<open>parent\<close> gives the normalised text of the path it
  denotes, which is equal to the library's answer as a path.
\<close>

datatype component = RootDir | CurDir | ParentDir | Normal string

abbreviation slash :: char where "slash \<equiv> CHR ''/''"

definition to_component :: "string \<Rightarrow> component" where
  "to_component p = (if p = ''..'' then ParentDir else Normal p)"

definition components :: "string \<Rightarrow> component list" where
  "components s = (let ps = split_char slash s in
     (if s \<noteq> [] \<and> hd s = slash then [RootDir] else if hd ps = ''.'' then [CurDir] else [])
     @ map to_component (filter (\<lambda>p. p \<noteq> [] \<and> p \<noteq> ''.'') ps))"

definition component_text :: "component \<Rightarrow> string" where
  "component_text c = (case c of RootDir \<Rightarrow> [] | CurDir \<Rightarrow> ''.'' | ParentDir \<Rightarrow> ''..'' | Normal n \<Rightarrow> n)"

definition path_text :: "component list \<Rightarrow> string" where
  "path_text cs = (if cs = [RootDir] then ''/'' else join_with ''/'' (map component_text cs))"

definition path_join :: "string \<Rightarrow> string \<Rightarrow> string" where
  "path_join a b = (if b \<noteq> [] \<and> hd b = slash then b
     else if a = [] \<or> last a = slash then a @ b else a @ slash # b)"

definition is_absolute :: "string \<Rightarrow> bool" where
  "is_absolute p \<longleftrightarrow> p \<noteq> [] \<and> hd p = slash"

definition file_name :: "string \<Rightarrow> string option" where
  "file_name p = (let cs = components p in
     if cs = [] then None else case last cs of Normal n \<Rightarrow> Some n | _ \<Rightarrow> None)"

definition parent :: "string \<Rightarrow> string option" where
  "parent p = (let cs = components p in
     if cs = [] \<or> last cs = RootDir then None else Some (path_text (butlast cs)))"

text \<open>The part of the file name after its last dot, if there is a name before that dot.\<close>

definition path_extension :: "string \<Rightarrow> string option" where
  "path_extension p = (case file_name p of None \<Rightarrow> None
   | Some n \<Rightarrow> (case rsplit_once (CHR ''.'') n of None \<Rightarrow> None
     | Some (stem, ext) \<Rightarrow> if stem = [] then None else Some ext))"

text \<open>A path, its parent, the parent of that, and so on.\<close>

fun drop_components :: "component list \<Rightarrow> string list" where
  "drop_components [] = []"
| "drop_components (c # cs) = (if c = RootDir then []
     else path_text (rev cs) # drop_components cs)"

definition path_ancestors :: "string \<Rightarrow> string list" where
  "path_ancestors p = p # drop_components (rev (components p))"

definition path_eq :: "string \<Rightarrow> string \<Rightarrow> bool" where
  "path_eq a b \<longleftrightarrow> components a = components b"

definition path_starts_with :: "string \<Rightarrow> string \<Rightarrow> bool" where
  "path_starts_with base p \<longleftrightarrow> take (length (components base)) (components p) = components base"

definition path_strip_prefix :: "string \<Rightarrow> string \<Rightarrow> string option" where
  "path_strip_prefix base p = (if path_starts_with base p
     then Some (path_text (drop (length (components base)) (components p))) else None)"

lemma component_name_chars:
  "Normal n \<in> set (components p) \<Longrightarrow> n \<noteq> [] \<and> n \<noteq> ''.'' \<and> n \<noteq> ''..'' \<and> slash \<notin> set n"
  by (auto simp: components_def Let_def to_component_def dest: split_char_piece split: if_splits)

lemma file_name_chars: "file_name p = Some n \<Longrightarrow> n \<noteq> [] \<and> n \<noteq> ''..'' \<and> slash \<notin> set n"
proof -
  assume "file_name p = Some n"
  then have "components p \<noteq> []" "last (components p) = Normal n"
    by (auto simp: file_name_def Let_def split: if_splits component.splits)
  then have "Normal n \<in> set (components p)" by (metis last_in_set)
  then show ?thesis using component_name_chars by blast
qed

text \<open>The file name of a path made of a directory and a plain name is that name.\<close>

lemma split_char_last:
  assumes "c \<notin> set n"
  shows "split_char c (d @ c # n) = split_char c d @ [n]"
proof (induction d)
  case Nil
  have "split_on (\<lambda>d. d = c) n = [n]" using assms by (intro split_on_none) auto
  then show ?case by (simp add: split_char_def)
next
  case (Cons x d)
  obtain v vs where "split_on (\<lambda>d. d = c) d = v # vs"
    by (cases "split_on (\<lambda>d. d = c) d") auto
  then show ?case using Cons by (simp add: split_char_def)
qed

lemma components_snoc:
  assumes "slash \<notin> set n" and "n \<noteq> []" and "n \<noteq> ''.''" and "n \<noteq> ''..''"
  shows "components (d @ slash # n) =
    (if d = [] then [RootDir] else components d) @ [Normal n]"
proof (cases d)
  case Nil
  have "split_char slash ([] @ slash # n) = split_char slash [] @ [n]"
    by (rule split_char_last [OF assms(1)])
  then show ?thesis
    using assms Nil by (simp add: components_def to_component_def split_char_def Let_def)
next
  case (Cons x xs)
  have sp: "split_char slash (d @ slash # n) = split_char slash d @ [n]"
    by (rule split_char_last [OF assms(1)])
  have hd: "hd (split_char slash d @ [n]) = hd (split_char slash d)" by (simp add: hd_append)
  have "d \<noteq> []" and "hd (d @ slash # n) = hd d" using Cons by simp_all
  then show ?thesis
    using assms by (simp add: components_def sp hd to_component_def Let_def)
qed

lemma file_name_snoc [simp]:
  "slash \<notin> set n \<Longrightarrow> n \<noteq> [] \<Longrightarrow> n \<noteq> ''.'' \<Longrightarrow> n \<noteq> ''..'' \<Longrightarrow>
   file_name (d @ slash # n) = Some n"
  by (simp add: file_name_def components_snoc)

text \<open>Joining a relative path appends its components.\<close>

lemma split_char_append: "split_char c (a @ c # b) = split_char c a @ split_char c b"
proof (induction a)
  case (Cons x a)
  obtain v vs where "split_on (\<lambda>d. d = c) a = v # vs"
    by (cases "split_on (\<lambda>d. d = c) a") auto
  then show ?case using Cons by (simp add: split_char_def)
qed (simp add: split_char_def)

definition inner_components :: "string \<Rightarrow> component list" where
  "inner_components b = map to_component (filter (\<lambda>p. p \<noteq> [] \<and> p \<noteq> ''.'') (split_char slash b))"

lemma components_inner:
  "b = [] \<or> hd b \<noteq> slash \<Longrightarrow> components b = (if hd (split_char slash b) = ''.'' then [CurDir] else []) @ inner_components b"
  by (auto simp: components_def inner_components_def Let_def)

lemma components_join_sep:
  assumes "a \<noteq> []"
  shows "components (a @ slash # b) = components a @ inner_components b"
proof -
  have "hd (split_char slash a @ split_char slash b) = hd (split_char slash a)" by (simp add: hd_append)
  moreover have "hd (a @ slash # b) = hd a" using assms by simp
  ultimately show ?thesis
    using assms by (simp add: components_def inner_components_def split_char_append Let_def)
qed

lemma components_trailing_slash: "a \<noteq> [] \<Longrightarrow> components (a @ [slash]) = components a"
  using components_join_sep [of a "[]"] by (simp add: inner_components_def split_char_def)

lemma components_join:
  assumes "a \<noteq> []" and "b = [] \<or> hd b \<noteq> slash"
  shows "components (path_join a b) = components a @ inner_components b"
proof (cases "last a = slash")
  case False
  then show ?thesis using assms components_join_sep [of a b] by (auto simp: path_join_def)
next
  case True
  then obtain d where d: "a = d @ [slash]" using assms(1) by (metis append_butlast_last_id)
  then have j: "path_join a b = d @ slash # b" using assms True by (auto simp: path_join_def)
  show ?thesis
  proof (cases "d = []")
    case False
    then show ?thesis using j d components_join_sep [of d b] components_trailing_slash [of d] by simp
  next
    case True
    have "split_char slash (slash # b) = [] # split_char slash b"
      using split_char_append [of slash "[]" b] by (simp add: split_char_def)
    moreover have "components [slash] = [RootDir]"
      by (simp add: components_def split_char_def Let_def)
    ultimately show ?thesis using True j d by (simp add: components_def inner_components_def Let_def)
  qed
qed

text \<open>A path below a directory: the directory comes first, and nothing after it leads back up.\<close>

definition confined :: "string \<Rightarrow> string \<Rightarrow> bool" where
  "confined dir p \<longleftrightarrow> path_starts_with dir p \<and> ParentDir \<notin> set (drop (length (components dir)) (components p))"

lemma confined_join:
  assumes "dir \<noteq> []" and "b = [] \<or> hd b \<noteq> slash" and "ParentDir \<notin> set (components b)"
  shows "confined dir (path_join dir b)"
  using assms components_join [OF assms(1,2)] components_inner [OF assms(2)]
  by (simp add: confined_def path_starts_with_def)

end
