(* ===== verification/Keys.thy ===== *)
theory Keys
  imports Rust_Path
begin

text \<open>
  The value types that the error types and several components mention: the build configuration
  (the cargo features of \<open>Cargo.toml\<close>; \<open>build.rs\<close> refuses every build that does not select
  exactly one boot loader and exactly one kind of partition table), the partition names
  (\<open>src/partition/layout.rs\<close>), the boot environment keys (\<open>src/bootloader/mod.rs\<close>), the build
  constants (\<open>src/config/mod.rs\<close>), the fsck exit code (\<open>src/filesystem/fsck.rs\<close>) and the URL of
  an image (\<open>src/mode/flash/config.rs\<close>).
\<close>

section \<open>The build configuration\<close>

datatype bootloader_kind = Grub | UBoot
datatype table_kind = Gpt | Dos

record features =
  bootloader :: bootloader_kind
  table :: table_kind
  release_image :: bool
  factory_reset_enabled :: bool
  flash_mode_1 :: bool
  flash_mode_2 :: bool
  flash_mode_2_direct :: bool
  flash_mode_3 :: bool
  resize_data_enabled :: bool
  persistent_var_log :: bool
  rtc :: bool
  early_modules_enabled :: bool

definition flash_mode_network :: "features \<Rightarrow> bool" where
  "flash_mode_network ft \<longleftrightarrow> flash_mode_2 ft \<or> flash_mode_3 ft"

definition flash_mode :: "features \<Rightarrow> bool" where
  "flash_mode ft \<longleftrightarrow> flash_mode_1 ft \<or> flash_mode_network ft"

text \<open>The check of the build script: what a selection of features builds, if it builds.\<close>

datatype build_result = BuildPanic string | BuildOk

definition check_feature_flags :: "bool \<Rightarrow> bool \<Rightarrow> bool \<Rightarrow> bool \<Rightarrow> build_result" where
  "check_feature_flags has_grub has_uboot has_gpt has_dos =
     (if has_grub \<and> has_uboot then
        BuildPanic ''features `grub` and `uboot` are mutually exclusive; enable exactly one''
      else if \<not> has_grub \<and> \<not> has_uboot then
        BuildPanic ''exactly one of features `grub` or `uboot` must be enabled''
      else if has_gpt \<and> has_dos then
        BuildPanic ''features `gpt` and `dos` are mutually exclusive; enable exactly one''
      else if \<not> has_gpt \<and> \<not> has_dos then
        BuildPanic ''exactly one of features `gpt` or `dos` must be enabled''
      else BuildOk)"

text \<open>Why one value per choice models every build there is.\<close>

lemma check_feature_flags_ok:
  "check_feature_flags g u p d = BuildOk \<longleftrightarrow> g = (\<not> u) \<and> p = (\<not> d)"
  by (auto simp: check_feature_flags_def)

definition read_u64_env :: "string option \<Rightarrow> u64 option" where
  "read_u64_env v = (case v of None \<Rightarrow> None | Some t \<Rightarrow> parse_u64 (trim t))"

section \<open>Partition names\<close>

datatype partition_name = Boot | RootA | RootB | RootCurrent | Factory | Cert | Etc | Data | Extended

definition partition_name_str :: "partition_name \<Rightarrow> string" where
  "partition_name_str p = (case p of
     Boot \<Rightarrow> ''boot'' | RootA \<Rightarrow> ''rootA'' | RootB \<Rightarrow> ''rootB'' | RootCurrent \<Rightarrow> ''rootCurrent''
   | Factory \<Rightarrow> ''factory'' | Cert \<Rightarrow> ''cert'' | Etc \<Rightarrow> ''etc'' | Data \<Rightarrow> ''data''
   | Extended \<Rightarrow> ''extended'')"

lemma partition_name_str_inj: "partition_name_str p = partition_name_str q \<longleftrightarrow> p = q"
  by (cases p; cases q) (simp_all add: partition_name_str_def)

lemma partition_name_str_chars:
  "partition_name_str p \<noteq> []" "slash \<notin> set (partition_name_str p)"
  "partition_name_str p \<noteq> ''.''" "partition_name_str p \<noteq> ''..''"
  by (cases p; simp add: partition_name_str_def)+

section \<open>Boot environment keys\<close>

datatype boot_env_key = ValidateUpdate | ValidateUpdateFailed | BootloaderUpdated
  | FsckStatus partition_name | FirstBootDone | ExtraBootArgs | FactoryResetKey
  | FactoryResetLastError | FlashModeKey | FlashModeDevPath | FlashModeUrl | FlashModeUrlSha256

definition boot_env_key_str :: "boot_env_key \<Rightarrow> string" where
  "boot_env_key_str k = (case k of
     ValidateUpdate \<Rightarrow> ''omnect_validate_update''
   | ValidateUpdateFailed \<Rightarrow> ''omnect_validate_update_failed''
   | BootloaderUpdated \<Rightarrow> ''omnect_bootloader_updated''
   | FsckStatus p \<Rightarrow> ''omnect_fsck_'' @ partition_name_str p
   | FirstBootDone \<Rightarrow> ''omnect_first_boot_done''
   | ExtraBootArgs \<Rightarrow> ''omnect_extra_bootargs''
   | FactoryResetKey \<Rightarrow> ''factory-reset''
   | FactoryResetLastError \<Rightarrow> ''omnect_factory_reset_last_error''
   | FlashModeKey \<Rightarrow> ''flash-mode''
   | FlashModeDevPath \<Rightarrow> ''flash-mode-devpath''
   | FlashModeUrl \<Rightarrow> ''flash-mode-url''
   | FlashModeUrlSha256 \<Rightarrow> ''flash-mode-url-sha256'')"

text \<open>Two keys never share a variable, so writing one never disturbs another.\<close>

lemma boot_env_key_str_inj: "boot_env_key_str k = boot_env_key_str l \<longleftrightarrow> k = l"
proof (cases k)
  case (FsckStatus p)
  show ?thesis
    by (cases l; cases p)
       (auto simp: FsckStatus boot_env_key_str_def partition_name_str_def split: partition_name.splits)
next
qed (cases l; simp add: boot_env_key_str_def partition_name_str_def split: partition_name.split)+

text \<open>No key holds the separator of a listing, nor white space.\<close>

lemma boot_env_key_str_chars:
  "CHR ''='' \<notin> set (boot_env_key_str k)" "boot_env_key_str k \<noteq> []"
  by (cases k; simp add: boot_env_key_str_def partition_name_str_def split: partition_name.split)+

section \<open>Build constants, fsck exit codes, image URLs\<close>

datatype build_constant = DataSize | BootloaderStart | UbootEnv1Start | UbootEnv2Start
  | UbootEnvSize | BootStart | BootSize | OmnectUserId

definition build_constant_str :: "build_constant \<Rightarrow> string" where
  "build_constant_str c = (case c of
     DataSize \<Rightarrow> ''DATA_SIZE'' | BootloaderStart \<Rightarrow> ''BOOTLOADER_START''
   | UbootEnv1Start \<Rightarrow> ''UBOOT_ENV1_START'' | UbootEnv2Start \<Rightarrow> ''UBOOT_ENV2_START''
   | UbootEnvSize \<Rightarrow> ''UBOOT_ENV_SIZE'' | BootStart \<Rightarrow> ''BOOT_START''
   | BootSize \<Rightarrow> ''BOOT_SIZE'' | OmnectUserId \<Rightarrow> ''OMNECT_USER_ID'')"

text \<open>The exit code of fsck is a bit mask in a 32 bit signed integer.\<close>

type_synonym fsck_code = i32

datatype url = Url string

end
