(* ===== verification/Fsck_Code.thy ===== *)
theory Fsck_Code
  imports Keys
begin

text \<open>
  \<open>FsckExitCode\<close> of \<open>src/filesystem/fsck.rs\<close>: the exit code of fsck(8), a bit mask in a 32 bit
  signed integer, with the predicates the callers decide on and its text for the log.
\<close>

unbundle bit_operations_syntax

definition FSCK_OK :: fsck_code where "FSCK_OK = 0"
definition FSCK_CORRECTED :: fsck_code where "FSCK_CORRECTED = 1"
definition FSCK_REBOOT_REQUIRED :: fsck_code where "FSCK_REBOOT_REQUIRED = 2"
definition FSCK_ERRORS_UNCORRECTED :: fsck_code where "FSCK_ERRORS_UNCORRECTED = 4"
definition FSCK_OPERATIONAL_ERROR :: fsck_code where "FSCK_OPERATIONAL_ERROR = 8"
definition FSCK_UNKNOWN :: fsck_code where "FSCK_UNKNOWN = - 1"

definition is_clean :: "fsck_code \<Rightarrow> bool" where
  "is_clean c \<longleftrightarrow> c = 0"

definition has_corrected_bit :: "fsck_code \<Rightarrow> bool" where
  "has_corrected_bit c \<longleftrightarrow> c AND 1 \<noteq> 0"

definition is_reboot_required :: "fsck_code \<Rightarrow> bool" where
  "is_reboot_required c \<longleftrightarrow> c AND 2 \<noteq> 0"

definition has_uncorrected_errors :: "fsck_code \<Rightarrow> bool" where
  "has_uncorrected_errors c \<longleftrightarrow> c AND 4 \<noteq> 0"

definition has_operational_error :: "fsck_code \<Rightarrow> bool" where
  "has_operational_error c \<longleftrightarrow> c AND 8 \<noteq> 0"

definition is_usage_error :: "fsck_code \<Rightarrow> bool" where
  "is_usage_error c \<longleftrightarrow> c AND 16 \<noteq> 0"

definition is_cancelled :: "fsck_code \<Rightarrow> bool" where
  "is_cancelled c \<longleftrightarrow> c AND 32 \<noteq> 0"

definition is_library_error :: "fsck_code \<Rightarrow> bool" where
  "is_library_error c \<longleftrightarrow> c AND 128 \<noteq> 0"

definition is_mount_safe :: "fsck_code \<Rightarrow> bool" where
  "is_mount_safe c \<longleftrightarrow> c = FSCK_OK \<or> c = FSCK_CORRECTED"

text \<open>A process killed by a signal has no exit code.\<close>

definition fsck_code_of_status :: "i32 option \<Rightarrow> fsck_code" where
  "fsck_code_of_status code = (case code of None \<Rightarrow> FSCK_OPERATIONAL_ERROR | Some c \<Rightarrow> c)"

definition display_fsck_code :: "fsck_code \<Rightarrow> string" where
  "display_fsck_code c =
     (if c = FSCK_UNKNOWN then ''unknown (fsck could not be spawned)''
      else if is_clean c then ''No errors''
      else let parts =
          (if has_corrected_bit c then [''errors corrected''] else [])
        @ (if is_reboot_required c then [''reboot required''] else [])
        @ (if has_uncorrected_errors c then [''uncorrected errors''] else [])
        @ (if has_operational_error c then [''operational error''] else [])
        @ (if is_usage_error c then [''usage error''] else [])
        @ (if is_cancelled c then [''cancelled''] else [])
        @ (if is_library_error c then [''library error''] else [])
      in if parts = [] then ''unknown error (code '' @ show_i32 c @ '')''
         else join_with '', '' parts)"

lemma fsck_bit_iff:
  "is_reboot_required c \<longleftrightarrow> bit c 1" "has_corrected_bit c \<longleftrightarrow> bit c 0"
  "has_uncorrected_errors c \<longleftrightarrow> bit c 2" "has_operational_error c \<longleftrightarrow> bit c 3"
  using and_exp_eq_0_iff_not_bit [of c 1] and_exp_eq_0_iff_not_bit [of c 0]
    and_exp_eq_0_iff_not_bit [of c 2] and_exp_eq_0_iff_not_bit [of c 3]
  by (simp_all add: is_reboot_required_def has_corrected_bit_def has_uncorrected_errors_def
      has_operational_error_def)

text \<open>Only the codes 0 and 1 are safe to mount: none of the bits that report trouble is set.\<close>

lemma mount_safe_no_trouble:
  "is_mount_safe c \<Longrightarrow> \<not> is_reboot_required c \<and> \<not> has_uncorrected_errors c
     \<and> \<not> has_operational_error c \<and> \<not> is_usage_error c \<and> \<not> is_cancelled c \<and> \<not> is_library_error c"
  by (auto simp: is_mount_safe_def FSCK_OK_def FSCK_CORRECTED_def is_reboot_required_def
      has_uncorrected_errors_def has_operational_error_def is_usage_error_def is_cancelled_def
      is_library_error_def)

text \<open>A run killed by a signal never asks for a reboot.\<close>

lemma signal_not_reboot:
  "\<not> is_reboot_required (fsck_code_of_status None)" "\<not> is_mount_safe (fsck_code_of_status None)"
  by (simp_all add: fsck_code_of_status_def FSCK_OPERATIONAL_ERROR_def is_reboot_required_def
      is_mount_safe_def FSCK_OK_def FSCK_CORRECTED_def)

text \<open>The sentinel of a run that could not be started has every bit set, the reboot bit too.\<close>

lemma unknown_bits: "is_reboot_required FSCK_UNKNOWN" "\<not> is_mount_safe FSCK_UNKNOWN"
  by (simp_all add: FSCK_UNKNOWN_def is_reboot_required_def is_mount_safe_def FSCK_OK_def
      FSCK_CORRECTED_def)

end
