(* ===== verification/Image_Url.thy ===== *)
theory Image_Url
  imports Keys
begin

text \<open>
  \<open>Url\<close> of \<open>src/mode/flash/config.rs\<close>: the address of an image, printed without user info, query
  string and fragment, which can hold credentials or an access token. The lemmas show that what
  is printed keeps none of them.
\<close>

definition Url_new :: "string \<Rightarrow> url option" where
  "Url_new u = (let t = trim u in if t \<noteq> [] then Some (Url t) else None)"

definition unredacted :: "url \<Rightarrow> string" where
  "unredacted u = (case u of Url t \<Rightarrow> t)"

text \<open>\<open>split_at(find(c))\<close>: the text before the first occurrence, and from it on.\<close>

definition split_before :: "char \<Rightarrow> string \<Rightarrow> string \<times> string" where
  "split_before c s = (takeWhile (\<lambda>d. d \<noteq> c) s, dropWhile (\<lambda>d. d \<noteq> c) s)"

definition has_query_mark :: "string \<Rightarrow> bool" where
  "has_query_mark s \<longleftrightarrow> CHR ''?'' \<in> set s \<or> CHR ''#'' \<in> set s"

definition redacted :: "string \<Rightarrow> string" where
  "redacted u =
     (let (scheme, rest) = (case split_once_str ''://'' u of
            Some (a, b) \<Rightarrow> (a @ ''://'', b) | None \<Rightarrow> ([], u));
          (authority, path) = split_before slash rest
      in case rsplit_once (CHR ''@'') authority of
           Some (info, host) \<Rightarrow>
             if has_query_mark info then scheme @ ''<hidden>''
             else scheme @ hd (split_on (\<lambda>c. c = CHR ''?'' \<or> c = CHR ''#'') (host @ path))
         | None \<Rightarrow> scheme @ hd (split_on (\<lambda>c. c = CHR ''?'' \<or> c = CHR ''#'') (authority @ path)))"

definition display_url :: "url \<Rightarrow> string" where
  "display_url u = redacted (unredacted u)"

lemma split_before_at: "c \<notin> set a \<Longrightarrow> split_before c (a @ c # b) = (a, c # b)"
  by (induction a) (auto simp: split_before_def)

lemma split_before_none: "c \<notin> set a \<Longrightarrow> split_before c a = (a, [])"
  by (induction a) (auto simp: split_before_def)

lemma hd_split_on: "hd (split_on P s) = takeWhile (\<lambda>c. \<not> P c) s"
  by (induction s) (auto split: list.splits)

text \<open>
  The shape of a URL with credentials and a token: the user info, the query and the fragment
  are gone, the rest is unchanged.
\<close>

lemma redacted_full:
  assumes "\<And>c. c \<in> set scheme \<Longrightarrow> c \<noteq> CHR '':''"
    and "slash \<notin> set info" and "\<not> has_query_mark info"
    and "CHR ''@'' \<notin> set host" and "slash \<notin> set host" and "\<not> has_query_mark host"
    and "path = [] \<or> hd path = slash" and "\<not> has_query_mark path"
    and "tail = [] \<or> hd tail = CHR ''?'' \<or> hd tail = CHR ''#''" and "path = [] \<longrightarrow> tail = []"
  shows "redacted (scheme @ ''://'' @ info @ ''@'' @ host @ path @ tail) = scheme @ ''://'' @ host @ path"
proof -
  let ?rest = "info @ ''@'' @ host @ path @ tail"
  have "split_once_str ''://'' (scheme @ ''://'' @ ?rest) = Some (scheme, ?rest)"
    using assms(1)
  proof (induction scheme)
    case Nil
    have "strip_prefix ''://'' (''://'' @ ?rest) = Some ?rest" by (rule strip_prefix_append)
    then show ?case by simp
  next
    case (Cons c scheme)
    then have "c \<noteq> CHR '':''" by auto
    then have "strip_prefix ''://'' (c # scheme @ ''://'' @ ?rest) = None" by simp
    then show ?case using Cons by simp
  qed
  moreover have "split_before slash ?rest = (info @ ''@'' @ host, path @ tail)"
    using assms(2,5,7,10) split_before_at [of slash "info @ ''@'' @ host" "tl path @ tail"]
      split_before_none [of slash "info @ ''@'' @ host"]
    by (cases path) auto
  moreover have "rsplit_once (CHR ''@'') (info @ ''@'' @ host) = Some (info, host)"
    using assms(4) by (simp add: rsplit_once_Some)
  moreover have "takeWhile (\<lambda>c. c \<noteq> CHR ''?'' \<and> c \<noteq> CHR ''#'') (host @ path @ tail) = host @ path"
  proof -
    have "takeWhile (\<lambda>c. c \<noteq> CHR ''?'' \<and> c \<noteq> CHR ''#'') ((host @ path) @ tail)
      = (host @ path) @ takeWhile (\<lambda>c. c \<noteq> CHR ''?'' \<and> c \<noteq> CHR ''#'') tail"
      using assms(6,8) by (intro takeWhile_all) (auto simp: has_query_mark_def)
    then show ?thesis using assms(9) by (cases tail) auto
  qed
  ultimately show ?thesis using assms(3) by (simp add: redacted_def hd_split_on)
qed

end
