(* ===== verification/Errors.thy ===== *)
theory Errors
  imports World Fsck_Code Image_Url
begin

text \<open>
  The error types of \<open>src/error.rs\<close>, one datatype per enumeration, with the text of each variant
  (the \<open>#[error(...)]\<close> attributes; texts reach the ODS status files and the boot environment)
  and \<open>recovery_class\<close>. A variant name used by several enumerations carries a prefix; the
  fields of a variant keep the order of the source.
\<close>

section \<open>The enumerations\<close>

datatype early_init_error =
    EarlyMountFailed string string
  | EarlyIo io_error

datatype boot_env_error =
    EnvFileNotFound string
  | EnvCommandFailed string string
  | EnvCommandExitCode string "i32 option" string
  | CompressionFailed string
  | DecompressionFailed string
  | InvalidValue string string
  | EnvIo io_error

datatype partition_error =
    DeviceDetection string
  | InvalidPartitionTable string string
  | SymlinkFailed string string string
  | SymlinkRemoveFailed string string
  | UnknownRootPartition string
  | PartitionIo io_error

datatype filesystem_error =
    MountFailed string string string
  | UnmountFailed string string
  | FsckFailed string fsck_code string
  | FsckRequiresReboot string fsck_code string
  | OverlayFailed string string
  | FormatFailed string string string
  | FsIo io_error

datatype config_error = CmdlineReadFailed io_error

datatype resize_data_error =
    ResizeCommandFailed string i32 string
  | InvalidDevicePath string
  | ExtendedPartitionNotFound string
  | NonUtf8Path string
  | ResizeFilesystem filesystem_error
  | ResizeIo io_error

datatype logging_error = KmsgOpenFailed string | InitFailed string | LoggingIo io_error

datatype factory_reset_error =
    InvalidConfig string
  | MissingField string
  | InvalidPreserve string
  | BackupFailed string string
  | RestoreFailed string string
  | ReformatFailed string string
  | WipeFailed string string
  | MountError string
  | ResetIo io_error

datatype partition_table_operation = DumpTable | ApplyTable | LookupTable

datatype (plugins only: code size) flash_error =
    MissingBuildConstant build_constant
  | InvalidBuildConstant build_constant string
  | InvalidDestination string string
  | InvalidEnvValue boot_env_key string
  | ConflictingTriggers
  | DestinationTimeout string nat
  | PartitionTable string partition_table_operation string
  | MalformedDump string string
  | CopyFailed string string string
  | UuidFailed string string
  | BootEnvWriteFailed string string
  | EfiFailed string
  | DiskPartlyWritten string flash_error
  | StalePartitionTable string flash_error
  | InvalidBmap string string
  | NetworkFailed string
  | DownloadFailed url string
  | InvalidImage string string
  | PathIo string io_error
  | FlashFilesystem filesystem_error
  | FlashIo io_error

datatype (plugins only: code size) initramfs_error =
    Bootloader boot_env_error
  | DegradedBoot boot_env_error
  | EarlyInit early_init_error
  | Partition partition_error
  | Filesystem filesystem_error
  | Logging logging_error
  | Config config_error
  | ResizeData resize_data_error
  | FactoryReset factory_reset_error
  | Flash flash_error
  | ExtraBootArgsUpdated
  | ConflictingUpdateFlags
  | Io io_error

section \<open>Recovery classes\<close>

datatype recovery_class = ContinueDegraded | RebootToApply | Fatal

text \<open>\<open>InitramfsError::recovery_class\<close>.\<close>

definition recovery_class :: "initramfs_error \<Rightarrow> recovery_class" where
  "recovery_class e = (case e of
     Bootloader _ \<Rightarrow> Fatal
   | DegradedBoot _ \<Rightarrow> Fatal
   | EarlyInit _ \<Rightarrow> Fatal
   | Partition _ \<Rightarrow> Fatal
   | Filesystem fe \<Rightarrow> (case fe of
         FsckRequiresReboot _ _ _ \<Rightarrow> RebootToApply
       | MountFailed _ _ _ \<Rightarrow> Fatal
       | UnmountFailed _ _ \<Rightarrow> Fatal
       | FsckFailed _ _ _ \<Rightarrow> Fatal
       | OverlayFailed _ _ \<Rightarrow> Fatal
       | FormatFailed _ _ _ \<Rightarrow> Fatal
       | FsIo _ \<Rightarrow> Fatal)
   | Logging _ \<Rightarrow> Fatal
   | Config _ \<Rightarrow> Fatal
   | ResizeData re \<Rightarrow> (case re of
         ResizeFilesystem (FsckRequiresReboot _ _ _) \<Rightarrow> RebootToApply
       | _ \<Rightarrow> ContinueDegraded)
   | FactoryReset _ \<Rightarrow> ContinueDegraded
   | Flash _ \<Rightarrow> Fatal
   | ExtraBootArgsUpdated \<Rightarrow> RebootToApply
   | ConflictingUpdateFlags \<Rightarrow> Fatal
   | Io _ \<Rightarrow> Fatal)"

section \<open>The text of an error\<close>

definition show_io :: "io_error \<Rightarrow> string" where
  "show_io e = io_msg e"

abbreviation apos :: string where "apos \<equiv> [CHR 0x27]"

text \<open>\<open>{:?}\<close> of an optional exit code.\<close>

definition debug_code :: "i32 option \<Rightarrow> string" where
  "debug_code c = (case c of None \<Rightarrow> ''None'' | Some n \<Rightarrow> ''Some('' @ show_i32 n @ '')'')"

definition show_early_init_error :: "early_init_error \<Rightarrow> string" where
  "show_early_init_error e = (case e of
     EarlyMountFailed t r \<Rightarrow> ''Failed to mount '' @ t @ '': '' @ r
   | EarlyIo io \<Rightarrow> ''IO error: '' @ show_io io)"

definition show_boot_env_error :: "boot_env_error \<Rightarrow> string" where
  "show_boot_env_error e = (case e of
     EnvFileNotFound p \<Rightarrow> ''Boot environment file not found: '' @ p
   | EnvCommandFailed c r \<Rightarrow> ''Command '' @ apos @ c @ apos @ '' failed: '' @ r
   | EnvCommandExitCode c n t \<Rightarrow>
       ''Command '' @ apos @ c @ apos @ '' exited with code '' @ debug_code n @ '': '' @ t
   | CompressionFailed r \<Rightarrow> ''Compression failed: '' @ r
   | DecompressionFailed r \<Rightarrow> ''Decompression failed: '' @ r
   | InvalidValue k r \<Rightarrow> ''Invalid environment value for '' @ apos @ k @ apos @ '': '' @ r
   | EnvIo io \<Rightarrow> ''IO error: '' @ show_io io)"

definition show_partition_error :: "partition_error \<Rightarrow> string" where
  "show_partition_error e = (case e of
     DeviceDetection r \<Rightarrow> ''device detection failed: '' @ r
   | InvalidPartitionTable d r \<Rightarrow> ''invalid partition table on '' @ d @ '': '' @ r
   | SymlinkFailed l t r \<Rightarrow> ''symlink creation failed for '' @ l @ '' -> '' @ t @ '': '' @ r
   | SymlinkRemoveFailed l r \<Rightarrow> ''symlink removal failed for '' @ l @ '': '' @ r
   | UnknownRootPartition p \<Rightarrow> ''unknown root partition '' @ p @ '': expected root_a or root_b''
   | PartitionIo io \<Rightarrow> ''I/O error: '' @ show_io io)"

definition show_filesystem_error :: "filesystem_error \<Rightarrow> string" where
  "show_filesystem_error e = (case e of
     MountFailed s t r \<Rightarrow> ''Failed to mount '' @ s @ '' on '' @ t @ '': '' @ r
   | UnmountFailed t r \<Rightarrow> ''Failed to unmount '' @ t @ '': '' @ r
   | FsckFailed d c out \<Rightarrow>
       ''Filesystem check failed for '' @ d @ '' with code '' @ display_fsck_code c @ '': '' @ out
   | FsckRequiresReboot d c out \<Rightarrow>
       ''Filesystem check for '' @ d @ '' requires reboot (fsck exit code '' @ display_fsck_code c @ '')''
   | OverlayFailed t r \<Rightarrow> ''Overlayfs setup failed for '' @ t @ '': '' @ r
   | FormatFailed d f r \<Rightarrow> ''Failed to format '' @ d @ '' as '' @ f @ '': '' @ r
   | FsIo io \<Rightarrow> ''IO error: '' @ show_io io)"

definition show_resize_data_error :: "resize_data_error \<Rightarrow> string" where
  "show_resize_data_error e = (case e of
     ResizeCommandFailed c n out \<Rightarrow> ''Command '' @ apos @ c @ apos @ '' failed with code '' @ show_i32 n @ '': '' @ out
   | InvalidDevicePath p \<Rightarrow> ''Could not determine partition number from device path: '' @ p
   | ExtendedPartitionNotFound p \<Rightarrow> ''Could not find extended partition on '' @ p
   | NonUtf8Path p \<Rightarrow> ''Device path is not valid UTF-8: '' @ p
   | ResizeFilesystem fe \<Rightarrow> ''Filesystem error: '' @ show_filesystem_error fe
   | ResizeIo io \<Rightarrow> ''IO error: '' @ show_io io)"

definition show_factory_reset_error :: "factory_reset_error \<Rightarrow> string" where
  "show_factory_reset_error e = (case e of
     InvalidConfig r \<Rightarrow> ''Invalid factory-reset config: '' @ r
   | MissingField r \<Rightarrow> ''Missing field in factory-reset config: '' @ r
   | InvalidPreserve r \<Rightarrow> ''Invalid preserve list: '' @ r
   | BackupFailed p r \<Rightarrow> ''Backup failed for '' @ p @ '': '' @ r
   | RestoreFailed p r \<Rightarrow> ''Restore failed for '' @ p @ '': '' @ r
   | ReformatFailed d r \<Rightarrow> ''Reformat failed for '' @ d @ '': '' @ r
   | WipeFailed d r \<Rightarrow> ''Wipe failed for '' @ d @ '': '' @ r
   | MountError r \<Rightarrow> ''Mount error: '' @ r
   | ResetIo io \<Rightarrow> ''IO error: '' @ show_io io)"

definition show_operation :: "partition_table_operation \<Rightarrow> string" where
  "show_operation op = (case op of DumpTable \<Rightarrow> ''dump'' | ApplyTable \<Rightarrow> ''apply'' | LookupTable \<Rightarrow> ''lookup'')"

fun show_flash_error :: "flash_error \<Rightarrow> string" where
  "show_flash_error (MissingBuildConstant c) = ''Missing build-time constant: '' @ build_constant_str c"
| "show_flash_error (InvalidBuildConstant c r) =
     ''Build-time constant '' @ build_constant_str c @ '' is unusable: '' @ r"
| "show_flash_error (InvalidDestination d r) = ''Destination device '' @ d @ '' is unusable: '' @ r"
| "show_flash_error (InvalidEnvValue k r) =
     ''Boot-env value for '' @ apos @ boot_env_key_str k @ apos @ '' is unusable: '' @ r"
| "show_flash_error ConflictingTriggers =
     ''a factory reset is queued together with a flash mode; both triggers were cleared, re-queue the one you meant''"
| "show_flash_error (DestinationTimeout d t) =
     ''Destination device '' @ d @ '' did not appear within '' @ show_nat t @ ''s''"
| "show_flash_error (PartitionTable d op r) =
     ''Partition table '' @ show_operation op @ '' failed for '' @ d @ '': '' @ r"
| "show_flash_error (MalformedDump d r) = ''Malformed sfdisk dump of '' @ d @ '': '' @ r"
| "show_flash_error (CopyFailed s d r) = ''Copy from '' @ s @ '' to '' @ d @ '' failed: '' @ r"
| "show_flash_error (UuidFailed d r) = ''Failed to assign a new UUID to '' @ d @ '': '' @ r"
| "show_flash_error (BootEnvWriteFailed d r) =
     ''Failed to write the bootloader environment to '' @ d @ '': '' @ r"
| "show_flash_error (EfiFailed r) = ''EFI handling failed: '' @ r"
| "show_flash_error (DiskPartlyWritten d e) = d @ '' may be partly written: '' @ show_flash_error e"
| "show_flash_error (StalePartitionTable d e) =
     ''the kernel may still use the old partition table of '' @ d @ '': '' @ show_flash_error e"
| "show_flash_error (InvalidBmap p r) = ''bmap '' @ p @ '' is unusable: '' @ r"
| "show_flash_error (NetworkFailed r) = ''Network setup failed: '' @ r"
| "show_flash_error (DownloadFailed u r) = ''Download of '' @ display_url u @ '' failed: '' @ r"
| "show_flash_error (InvalidImage p r) = ''Image '' @ p @ '' is unusable: '' @ r"
| "show_flash_error (PathIo p io) = p @ '': '' @ show_io io"
| "show_flash_error (FlashFilesystem fe) = ''Filesystem error: '' @ show_filesystem_error fe"
| "show_flash_error (FlashIo io) = ''IO error: '' @ show_io io"

definition show_initramfs_error :: "initramfs_error \<Rightarrow> string" where
  "show_initramfs_error e = (case e of
     Bootloader b \<Rightarrow> ''BootEnv error: '' @ show_boot_env_error b
   | DegradedBoot b \<Rightarrow> ''degraded boot: '' @ show_boot_env_error b
   | EarlyInit x \<Rightarrow> ''Early init error: '' @ show_early_init_error x
   | Partition p \<Rightarrow> ''Partition error: '' @ show_partition_error p
   | Filesystem f \<Rightarrow> ''Filesystem error: '' @ show_filesystem_error f
   | Logging l \<Rightarrow> ''Logging error: '' @ (case l of KmsgOpenFailed r \<Rightarrow> ''Failed to open kmsg: '' @ r
       | InitFailed r \<Rightarrow> ''Failed to initialize logger: '' @ r | LoggingIo io \<Rightarrow> ''IO error: '' @ show_io io)
   | Config (CmdlineReadFailed io) \<Rightarrow> ''Config error: failed to read /proc/cmdline: '' @ show_io io
   | ResizeData r \<Rightarrow> ''Resize data error: '' @ show_resize_data_error r
   | FactoryReset r \<Rightarrow> ''Factory reset error: '' @ show_factory_reset_error r
   | Flash f \<Rightarrow> ''Flash mode error: '' @ show_flash_error f
   | ExtraBootArgsUpdated \<Rightarrow> ''extra bootargs updated; reboot required to apply''
   | ConflictingUpdateFlags \<Rightarrow>
       ''omnect_validate_update and omnect_validate_update_failed are both set''
   | Io io \<Rightarrow> ''IO error: '' @ show_io io)"

end
