(* ===== verification/Program.thy ===== *)
theory Program
  imports Errors
begin

text \<open>
  The program's own memory: the status it reports to omnect-device-service (the data types of
  \<open>src/runtime/omnect_device_service.rs\<close>, one value threaded by reference through the whole
  init), the two statics (\<open>UPDATE_PENDING\<close> of \<open>src/lib.rs\<close>, \<open>SAVED_RATELIMIT\<close> of
  \<open>src/logging/kmsg.rs\<close>), the list of mounts a factory reset tracks, and the captured log lines.
\<close>

section \<open>The status for omnect-device-service\<close>

datatype factory_reset_status_code = Success | Invalid | ResetError | ConfigError | Warning

definition status_code_num :: "factory_reset_status_code \<Rightarrow> u32" where
  "status_code_num c = (case c of Success \<Rightarrow> 0 | Invalid \<Rightarrow> 1 | ResetError \<Rightarrow> 2
     | ConfigError \<Rightarrow> 3 | Warning \<Rightarrow> 4)"

definition status_code_str :: "factory_reset_status_code \<Rightarrow> string" where
  "status_code_str c = (case c of Success \<Rightarrow> ''success'' | Invalid \<Rightarrow> ''invalid''
     | ResetError \<Rightarrow> ''error'' | ConfigError \<Rightarrow> ''config_error'' | Warning \<Rightarrow> ''warning'')"

record fsck_status =
  fsck_status_code :: i32
  fsck_status_output :: string

datatype resize_outcome = SkippedFsck | ToolError | InvalidLayout

record resize_status =
  resize_outcome_of :: resize_outcome
  resize_reason :: string

datatype extra_boot_args_outcome = FileReadFailed | ReadFailed | SetEnvFailed | ReadBackFailed
  | ReadBackMismatch

record extra_boot_args_status =
  bootargs_outcome :: extra_boot_args_outcome
  bootargs_reason :: string

record factory_reset_status =
  reset_status :: factory_reset_status_code
  reset_error :: "string option"
  reset_context :: "string option"
  reset_paths :: "string list"
  data_wiped :: bool

record ods_status =
  ods_fsck :: "partition_name \<Rightarrow> fsck_status option"
  ods_factory_reset :: "factory_reset_status option"
  ods_degraded_boot :: "string option"
  ods_first_boot :: bool
  ods_resize_data :: "resize_status option"
  ods_extra_bootargs :: "extra_boot_args_status option"

definition ods_new :: ods_status where
  "ods_new = \<lparr>ods_fsck = Map.empty, ods_factory_reset = None, ods_degraded_boot = None,
     ods_first_boot = False, ods_resize_data = None, ods_extra_bootargs = None\<rparr>"

definition record_fsck_result :: "partition_name \<Rightarrow> fsck_code \<Rightarrow> string \<Rightarrow> ods_status \<Rightarrow> ods_status" where
  "record_fsck_result p code out st = (if is_clean code then st
     else st\<lparr>ods_fsck := (ods_fsck st)(p \<mapsto> \<lparr>fsck_status_code = code, fsck_status_output = out\<rparr>)\<rparr>)"

definition set_factory_reset :: "factory_reset_status \<Rightarrow> ods_status \<Rightarrow> ods_status" where
  "set_factory_reset x st = st\<lparr>ods_factory_reset := Some x\<rparr>"

definition set_degraded_boot :: "string \<Rightarrow> ods_status \<Rightarrow> ods_status" where
  "set_degraded_boot why st = st\<lparr>ods_degraded_boot := Some why\<rparr>"

definition set_resize_status :: "resize_status \<Rightarrow> ods_status \<Rightarrow> ods_status" where
  "set_resize_status x st = st\<lparr>ods_resize_data := Some x\<rparr>"

definition set_extra_bootargs_status :: "extra_boot_args_status \<Rightarrow> ods_status \<Rightarrow> ods_status" where
  "set_extra_bootargs_status x st = st\<lparr>ods_extra_bootargs := Some x\<rparr>"

section \<open>The whole memory\<close>

record program_state =
  update_pending :: bool
  saved_ratelimit :: "(string \<times> string) option"
  ods :: ods_status
  tracked :: "string list"

definition initial_program :: program_state where
  "initial_program = \<lparr>update_pending = False, saved_ratelimit = None, ods = ods_new, tracked = []\<rparr>"

type_synonym 'w init = "('w, program_state) machine"

definition modify_ods :: "(ods_status \<Rightarrow> ods_status) \<Rightarrow> ('w init, 'e, unit) io" where
  "modify_ods f = modify_prog (\<lambda>p. p\<lparr>ods := f (ods p)\<rparr>)"

definition push_mount :: "string \<Rightarrow> ('w init, 'e, unit) io" where
  "push_mount path = modify_prog (\<lambda>p. p\<lparr>tracked := tracked p @ [path]\<rparr>)"

lemma calls_only_ods [calls_intros]: "calls_only P (modify_ods f)" "calls_only P (push_mount path)"
  by (simp_all add: modify_ods_def push_mount_def calls_only_prog)

lemma record_fsck_result_other:
  "p \<noteq> q \<Longrightarrow> ods_fsck (record_fsck_result p code out st) q = ods_fsck st q"
  by (simp add: record_fsck_result_def)

text \<open>The recorded results are never clean ones.\<close>

definition no_clean_record :: "ods_status \<Rightarrow> bool" where
  "no_clean_record st \<longleftrightarrow> (\<forall>p r. ods_fsck st p = Some r \<longrightarrow> \<not> is_clean (fsck_status_code r))"

lemma no_clean_record_new: "no_clean_record ods_new"
  by (simp add: no_clean_record_def ods_new_def)

lemma no_clean_record_insert:
  "no_clean_record st \<Longrightarrow> no_clean_record (record_fsck_result p code out st)"
  by (simp add: no_clean_record_def record_fsck_result_def)

end
