(* ===== verification/Utf8.thy ===== *)
theory Utf8
  imports Rust_Str
begin

text \<open>
  UTF-8 as the Rust standard library checks and repairs it: \<open>utf8_step\<close> reads the first sequence
  of a byte string (how many bytes it takes, and whether it is well formed), \<open>valid_utf8\<close> is
  \<open>str::from_utf8\<close>, \<open>utf8_lossy\<close> is \<open>String::from_utf8_lossy\<close>, and
  \<open>truncate_on_char_boundary\<close> is the function of \<open>src/bootloader/mod.rs\<close>.
\<close>

definition is_continuation :: "nat \<Rightarrow> bool" where
  "is_continuation b \<longleftrightarrow> 0x80 \<le> b \<and> b \<le> 0xBF"

definition byte_at :: "string \<Rightarrow> nat \<Rightarrow> nat" where
  "byte_at s k = (if k < length s then of_char (s ! k) else 0)"

definition second_of_three :: "nat \<Rightarrow> nat \<Rightarrow> bool" where
  "second_of_three n b \<longleftrightarrow>
     (if n = 0xE0 then 0xA0 \<le> b \<and> b \<le> 0xBF
      else if n = 0xED then 0x80 \<le> b \<and> b \<le> 0x9F
      else is_continuation b)"

definition second_of_four :: "nat \<Rightarrow> nat \<Rightarrow> bool" where
  "second_of_four n b \<longleftrightarrow>
     (if n = 0xF0 then 0x90 \<le> b \<and> b \<le> 0xBF
      else if n = 0xF4 then 0x80 \<le> b \<and> b \<le> 0x8F
      else is_continuation b)"

fun utf8_step :: "string \<Rightarrow> nat \<times> bool" where
  "utf8_step [] = (0, True)"
| "utf8_step (c # r) = (let n = of_char c in
     if n < 0x80 then (1, True)
     else if 0xC2 \<le> n \<and> n \<le> 0xDF then
       (if is_continuation (byte_at r 0) then (2, True) else (1, False))
     else if 0xE0 \<le> n \<and> n \<le> 0xEF then
       (if \<not> second_of_three n (byte_at r 0) then (1, False)
        else if \<not> is_continuation (byte_at r 1) then (2, False) else (3, True))
     else if 0xF0 \<le> n \<and> n \<le> 0xF4 then
       (if \<not> second_of_four n (byte_at r 0) then (1, False)
        else if \<not> is_continuation (byte_at r 1) then (2, False)
        else if \<not> is_continuation (byte_at r 2) then (3, False) else (4, True))
     else (1, False))"

lemma utf8_step_pos: "0 < fst (utf8_step (c # r))"
  by (simp add: Let_def)

declare utf8_step.simps [simp del]

function valid_utf8 :: "string \<Rightarrow> bool" where
  "valid_utf8 [] = True"
| "valid_utf8 (c # r) = (snd (utf8_step (c # r)) \<and> valid_utf8 (drop (fst (utf8_step (c # r))) (c # r)))"
  by pat_completeness auto
termination
proof (relation "measure length")
  show "(drop (fst (utf8_step (c # r))) (c # r), c # r) \<in> measure length" for c r
    using utf8_step_pos [of c r] by (simp only: in_measure length_drop) simp
qed simp

definition replacement_char :: string where
  "replacement_char = [CHR 0xEF, CHR 0xBF, CHR 0xBD]"

function utf8_lossy :: "string \<Rightarrow> string" where
  "utf8_lossy [] = []"
| "utf8_lossy (c # r) =
     (if snd (utf8_step (c # r)) then take (fst (utf8_step (c # r))) (c # r) else replacement_char)
     @ utf8_lossy (drop (fst (utf8_step (c # r))) (c # r))"
  by pat_completeness auto
termination
proof (relation "measure length")
  show "(drop (fst (utf8_step (c # r))) (c # r), c # r) \<in> measure length" for c r
    using utf8_step_pos [of c r] by (simp only: in_measure length_drop) simp
qed simp

lemma utf8_lossy_valid: "valid_utf8 s \<Longrightarrow> utf8_lossy s = s"
  by (induction s rule: valid_utf8.induct) auto

lemma utf8_step_ascii: "(of_char c :: nat) < 0x80 \<Longrightarrow> utf8_step (c # r) = (1, True)"
  by (simp add: utf8_step.simps)

lemma valid_utf8_ascii: "(\<And>c. c \<in> set s \<Longrightarrow> (of_char c :: nat) < 0x80) \<Longrightarrow> valid_utf8 s"
  by (induction s) (auto simp: utf8_step_ascii)

text \<open>\<open>is_char_boundary\<close> of a valid string: its ends, and every byte that continues no character.\<close>

definition is_char_boundary :: "string \<Rightarrow> nat \<Rightarrow> bool" where
  "is_char_boundary s i \<longleftrightarrow> i = 0 \<or> i = length s
     \<or> (i < length s \<and> \<not> is_continuation (of_char (s ! i)))"

fun boundary_before :: "string \<Rightarrow> nat \<Rightarrow> nat" where
  "boundary_before s 0 = 0"
| "boundary_before s (Suc e) = (if is_char_boundary s (Suc e) then Suc e else boundary_before s e)"

definition truncate_on_char_boundary :: "string \<Rightarrow> nat \<Rightarrow> string" where
  "truncate_on_char_boundary s max_bytes =
     (if length s \<le> max_bytes then s else take (boundary_before s max_bytes) s)"

lemma byte_at_take: "m < j \<Longrightarrow> byte_at (take j r) m = byte_at r m"
  by (simp add: byte_at_def)

lemma byte_at_pos: "0 < byte_at r m \<Longrightarrow> m < length r"
  by (simp add: byte_at_def split: if_splits)

lemma continuation_pos: "is_continuation b \<Longrightarrow> 0 < b"
  by (simp add: is_continuation_def)

lemma second_continuation:
  "second_of_three n b \<Longrightarrow> is_continuation b" "second_of_four n b \<Longrightarrow> is_continuation b"
  by (auto simp: second_of_three_def second_of_four_def is_continuation_def split: if_splits)

lemma utf8_step_cases:
  assumes "utf8_step (c # r) = (k, True)"
  shows "k = 1 \<or> (k = 2 \<and> is_continuation (byte_at r 0))
    \<or> (k = 3 \<and> is_continuation (byte_at r 0) \<and> is_continuation (byte_at r 1))
    \<or> (k = 4 \<and> is_continuation (byte_at r 0) \<and> is_continuation (byte_at r 1)
        \<and> is_continuation (byte_at r 2))"
  using assms second_continuation [of "of_char c" "byte_at r 0"]
  by (simp add: utf8_step.simps Let_def split: if_splits)

lemma utf8_step_shape:
  assumes "utf8_step (c # r) = (k, True)"
  shows "k \<le> length (c # r)" and "\<And>j. 0 < j \<Longrightarrow> j < k \<Longrightarrow> is_continuation (byte_at r (j - 1))"
proof -
  show "k \<le> length (c # r)"
    using utf8_step_cases [OF assms] byte_at_pos [of r 0] byte_at_pos [of r 1] byte_at_pos [of r 2]
    by (elim disjE) (auto dest: continuation_pos simp: Suc_le_eq)
  fix j :: nat
  assume "0 < j" and "j < k"
  then have "j = 1 \<or> j = 2 \<or> j = 3" using utf8_step_cases [OF assms] by linarith
  then show "is_continuation (byte_at r (j - 1))"
    using utf8_step_cases [OF assms] \<open>j < k\<close> by (elim disjE) simp_all
qed

lemma utf8_step_take:
  assumes "utf8_step (c # r) = (k, True)" and "k \<le> i"
  shows "utf8_step (take i (c # r)) = (k, True)"
proof -
  obtain i' where i: "i = Suc i'" using assms utf8_step_pos [of c r] by (cases i) auto
  show ?thesis
    using assms by (auto simp: i utf8_step.simps Let_def byte_at_take split: if_splits)
qed

text \<open>Cutting a valid string at a character boundary leaves a valid string.\<close>

lemma valid_utf8_take:
  "valid_utf8 s \<Longrightarrow> is_char_boundary s i \<Longrightarrow> i \<le> length s \<Longrightarrow> valid_utf8 (take i s)"
proof (induction s arbitrary: i rule: valid_utf8.induct)
  case (2 c r)
  obtain k where k: "utf8_step (c # r) = (k, True)"
    using "2.prems"(1) by (cases "utf8_step (c # r)") auto
  show ?case
  proof (cases "i = 0")
    case False
    then obtain i' where i: "i = Suc i'" by (cases i) auto
    have "k \<le> i"
    proof (rule ccontr)
      assume "\<not> k \<le> i"
      then have c: "is_continuation (byte_at r (i - 1))" and l: "i < length (c # r)"
        using utf8_step_shape [OF k] False by auto
      then have "is_continuation (of_char ((c # r) ! i))" by (simp add: i byte_at_def)
      then show False using "2.prems"(2) False l by (simp add: is_char_boundary_def)
    qed
    have "is_char_boundary (drop k (c # r)) (i - k)"
      using "2.prems"(2,3) \<open>k \<le> i\<close> False
      by (auto simp: is_char_boundary_def simp del: drop_Cons')
    then have "valid_utf8 (take (i - k) (drop k (c # r)))"
      using 2 k by simp
    then have "valid_utf8 (drop k (take i (c # r)))" by (simp add: drop_take)
    moreover have "utf8_step (take i (c # r)) = (k, True)" by (rule utf8_step_take [OF k \<open>k \<le> i\<close>])
    ultimately show ?thesis by (simp add: i)
  qed simp
qed simp

lemma boundary_before_props:
  "boundary_before s e \<le> e" "is_char_boundary s (boundary_before s e)"
  "boundary_before s e < j \<Longrightarrow> j \<le> e \<Longrightarrow> \<not> is_char_boundary s j"
  by (induction s e rule: boundary_before.induct)
     (auto simp: is_char_boundary_def [of _ 0] le_Suc_eq split: if_splits)

text \<open>The cut keeps a valid prefix within the limit, and the longest one that ends a character.\<close>

lemma truncate_bound: "length (truncate_on_char_boundary s m) \<le> m"
  using boundary_before_props(1) [of s m] by (auto simp: truncate_on_char_boundary_def)

lemma truncate_prefix: "\<exists>r. s = truncate_on_char_boundary s m @ r"
  by (auto simp: truncate_on_char_boundary_def) (metis append_take_drop_id)

lemma truncate_valid: "valid_utf8 s \<Longrightarrow> valid_utf8 (truncate_on_char_boundary s m)"
  using valid_utf8_take [of s "boundary_before s m"] boundary_before_props(1,2) [of s m]
  by (simp add: truncate_on_char_boundary_def)

text \<open>Valid strings are closed under concatenation.\<close>

lemma byte_at_append: "0 < byte_at r m \<Longrightarrow> byte_at (r @ b) m = byte_at r m"
  by (simp add: byte_at_def nth_append split: if_splits)

lemma utf8_step_append:
  assumes "utf8_step (c # r) = (k, True)"
  shows "utf8_step (c # r @ b) = (k, True)"
proof -
  have "is_continuation (byte_at r m) \<Longrightarrow> byte_at (r @ b) m = byte_at r m" for m
    by (rule byte_at_append) (rule continuation_pos)
  moreover have "second_of_three n (byte_at r 0) \<Longrightarrow> byte_at (r @ b) 0 = byte_at r 0"
    "second_of_four n (byte_at r 0) \<Longrightarrow> byte_at (r @ b) 0 = byte_at r 0" for n
    using calculation second_continuation by blast+
  ultimately show ?thesis
    using assms by (auto simp: utf8_step.simps Let_def split: if_splits)
qed

lemma valid_utf8_append: "valid_utf8 a \<Longrightarrow> valid_utf8 b \<Longrightarrow> valid_utf8 (a @ b)"
proof (induction a rule: valid_utf8.induct)
  case (2 c r)
  obtain k where k: "utf8_step (c # r) = (k, True)"
    using "2.prems"(1) by (cases "utf8_step (c # r)") auto
  have "drop k (c # r @ b) = drop k (c # r) @ b"
    using utf8_step_shape(1) [OF k] drop_append [of k "c # r" b] by simp
  moreover have "valid_utf8 (drop k (c # r) @ b)" using 2 k by simp
  ultimately show ?case using utf8_step_append [OF k, of b] by simp
qed simp

lemma valid_utf8_concat: "(\<And>x. x \<in> set xs \<Longrightarrow> valid_utf8 x) \<Longrightarrow> valid_utf8 (concat xs)"
  by (induction xs) (auto intro: valid_utf8_append)

text \<open>Splitting a valid string at ASCII characters gives valid pieces.\<close>

lemma valid_utf8_drop:
  "valid_utf8 s \<Longrightarrow> is_char_boundary s i \<Longrightarrow> i \<le> length s \<Longrightarrow> valid_utf8 (drop i s)"
proof (induction s arbitrary: i rule: valid_utf8.induct)
  case (2 c r)
  obtain k where k: "utf8_step (c # r) = (k, True)"
    using "2.prems"(1) by (cases "utf8_step (c # r)") auto
  show ?case
  proof (cases "i = 0")
    case False
    then obtain i' where i: "i = Suc i'" by (cases i) auto
    have "k \<le> i"
    proof (rule ccontr)
      assume "\<not> k \<le> i"
      then have c: "is_continuation (byte_at r (i - 1))" and l: "i < length (c # r)"
        using utf8_step_shape [OF k] False by auto
      then have "is_continuation (of_char ((c # r) ! i))" by (simp add: i byte_at_def)
      then show False using "2.prems"(2) False l by (simp add: is_char_boundary_def)
    qed
    have "is_char_boundary (drop k (c # r)) (i - k)"
      using "2.prems"(2,3) \<open>k \<le> i\<close> False
      by (auto simp: is_char_boundary_def simp del: drop_Cons')
    then have "valid_utf8 (drop (i - k) (drop k (c # r)))"
      using 2 k by simp
    then show ?thesis using \<open>k \<le> i\<close> by simp
  qed (use "2.prems"(1) in simp)
qed simp

lemma valid_utf8_split:
  assumes "valid_utf8 (a @ c # b)" and "(of_char c :: nat) < 0x80"
  shows "valid_utf8 a" and "valid_utf8 b"
proof -
  have bound: "is_char_boundary (a @ c # b) (length a)"
    using assms(2) by (simp add: is_char_boundary_def is_continuation_def)
  show "valid_utf8 a" using valid_utf8_take [OF assms(1) bound] by simp
  have "valid_utf8 (c # b)" using valid_utf8_drop [OF assms(1) bound] by simp
  then show "valid_utf8 b" using utf8_step_ascii [OF assms(2)] by simp
qed

lemma split_on_valid:
  assumes "\<And>c. P c \<Longrightarrow> (of_char c :: nat) < 0x80"
  shows "valid_utf8 s \<Longrightarrow> w \<in> set (split_on P s) \<Longrightarrow> valid_utf8 w"
proof (induction "length s" arbitrary: s rule: less_induct)
  case less
  show ?case
  proof (cases "\<exists>c \<in> set s. P c")
    case False
    then have "split_on P s = [s]" by (intro split_on_none) auto
    then show ?thesis using less.prems by simp
  next
    case True
    then obtain a c b where s: "s = a @ c # b" "P c" "\<forall>d \<in> set a. \<not> P d"
      using split_list_first_prop [of s P] by blast
    have "split_on P s = a # split_on P b" using s split_on_append [of a P c b] by simp
    moreover have "valid_utf8 a" "valid_utf8 b"
      using valid_utf8_split [of a c b] less.prems(1) assms s by auto
    moreover have "length b < length s" using s by simp
    ultimately show ?thesis using less.prems(2) less.hyps [of b] by auto
  qed
qed

lemma is_ws_ascii: "is_ws c \<Longrightarrow> (of_char c :: nat) < 0x80"
  by (auto simp: is_ws_def)

lemma split_ws_valid: "valid_utf8 s \<Longrightarrow> w \<in> set (split_ws s) \<Longrightarrow> valid_utf8 w"
  using split_on_valid [of is_ws s w] is_ws_ascii by (simp add: split_ws_def)

lemma trim_valid: "valid_utf8 s \<Longrightarrow> valid_utf8 (trim s)"
proof -
  have start: "valid_utf8 t \<Longrightarrow> valid_utf8 (trim_start t)" for t
    by (induction t) (auto simp: trim_start_def utf8_step_ascii is_ws_ascii)
  have "valid_utf8 t \<Longrightarrow> valid_utf8 (trim_end t)" for t
  proof (induction t rule: rev_induct)
    case (snoc c t)
    show ?case
    proof (cases "is_ws c")
      case True
      then have "valid_utf8 t" using valid_utf8_split(1) [of t c "[]"] snoc.prems is_ws_ascii by simp
      then show ?thesis using snoc.IH True by (simp add: trim_end_def)
    qed (use snoc.prems in \<open>simp add: trim_end_def\<close>)
  qed (simp add: trim_end_def)
  then show "valid_utf8 s \<Longrightarrow> valid_utf8 (trim s)" using start by (simp add: trim_def)
qed

lemma join_with_valid:
  "valid_utf8 sep \<Longrightarrow> (\<And>x. x \<in> set xs \<Longrightarrow> valid_utf8 x) \<Longrightarrow> valid_utf8 (join_with sep xs)"
  by (induction sep xs rule: join_with.induct) (auto intro!: valid_utf8_append)

end
