(* ===== verification/Mount.thy ===== *)
theory Mount
  imports Program Utf8
begin

text \<open>
  \<open>src/filesystem/mount.rs\<close> and the root-only files of \<open>src/filesystem/mod.rs\<close>: the file system
  types, the mount options with their builders, and the mount operations as calls of the kernel.
\<close>

section \<open>Types and options\<close>

datatype fs_type = Ext4 | Vfat | Tmpfs | Overlay | Efivarfs | Devpts

definition fs_type_str :: "fs_type \<Rightarrow> string" where
  "fs_type_str t = (case t of Ext4 \<Rightarrow> ''ext4'' | Vfat \<Rightarrow> ''vfat'' | Tmpfs \<Rightarrow> ''tmpfs''
     | Overlay \<Rightarrow> ''overlay'' | Efivarfs \<Rightarrow> ''efivarfs'' | Devpts \<Rightarrow> ''devpts'')"

definition VFAT_BOOT_DATA :: string where
  "VFAT_BOOT_DATA = ''gid=6,fmask=0002,dmask=0002,allow_utime=0020''"

record mount_options =
  mo_fstype :: "fs_type option"
  mo_flags :: "mount_flag list"
  mo_data :: "string option"

definition plain_options :: "fs_type \<Rightarrow> mount_options" where
  "plain_options t = \<lparr>mo_fstype = Some t, mo_flags = [], mo_data = None\<rparr>"

definition ext4_readonly :: mount_options where
  "ext4_readonly = (plain_options Ext4)\<lparr>mo_flags := [Ms_RdOnly]\<rparr>"

definition ext4_readwrite :: mount_options where
  "ext4_readwrite = plain_options Ext4"

definition vfat_options :: mount_options where
  "vfat_options = (plain_options Vfat)\<lparr>mo_data := Some VFAT_BOOT_DATA\<rparr>"

definition bind_options :: mount_options where
  "bind_options = \<lparr>mo_fstype = None, mo_flags = [Ms_Bind], mo_data = None\<rparr>"

definition tmpfs_options :: mount_options where "tmpfs_options = plain_options Tmpfs"
definition efivarfs_options :: mount_options where "efivarfs_options = plain_options Efivarfs"
definition devpts_options :: mount_options where "devpts_options = plain_options Devpts"

definition add_flag :: "mount_flag \<Rightarrow> mount_options \<Rightarrow> mount_options" where
  "add_flag f mo = mo\<lparr>mo_flags := mo_flags mo @ [f]\<rparr>"

definition readonly :: "mount_options \<Rightarrow> mount_options" where "readonly mo = add_flag Ms_RdOnly mo"
definition noatime :: "mount_options \<Rightarrow> mount_options" where "noatime mo = add_flag Ms_NoAtime mo"
definition nodiratime :: "mount_options \<Rightarrow> mount_options" where "nodiratime mo = add_flag Ms_NoDirAtime mo"
definition nosuid :: "mount_options \<Rightarrow> mount_options" where "nosuid mo = add_flag Ms_NoSuid mo"
definition nodev :: "mount_options \<Rightarrow> mount_options" where "nodev mo = add_flag Ms_NoDev mo"
definition noexec :: "mount_options \<Rightarrow> mount_options" where "noexec mo = add_flag Ms_NoExec mo"

definition with_data :: "string \<Rightarrow> mount_options \<Rightarrow> mount_options" where
  "with_data d mo = mo\<lparr>mo_data := Some d\<rparr>"

section \<open>Operations\<close>

definition mount_fs ::
  "'w os \<Rightarrow> string \<Rightarrow> string \<Rightarrow> mount_options \<Rightarrow> (('w, 'p) machine, filesystem_error, unit) io" where
  "mount_fs os source tgt opts =
     map_err (\<lambda>e. MountFailed source tgt (show_io e))
       (sys_unit os (MountCall (if source = [] then None else Some source) tgt
          (map_option fs_type_str (mo_fstype opts)) (mo_flags opts) (mo_data opts)))"

definition mount_tmpfs ::
  "'w os \<Rightarrow> string \<Rightarrow> mount_flag list \<Rightarrow> string option \<Rightarrow> (('w, 'p) machine, filesystem_error, unit) io" where
  "mount_tmpfs os tgt flags data =
     mount_fs os (fs_type_str Tmpfs) tgt \<lparr>mo_fstype = Some Tmpfs, mo_flags = flags, mo_data = data\<rparr>"

definition mount_bind :: "'w os \<Rightarrow> string \<Rightarrow> string \<Rightarrow> (('w, 'p) machine, filesystem_error, unit) io" where
  "mount_bind os source tgt = mount_fs os source tgt bind_options"

definition mount_bind_private :: "'w os \<Rightarrow> string \<Rightarrow> string \<Rightarrow> (('w, 'p) machine, filesystem_error, unit) io" where
  "mount_bind_private os source tgt =
     bindE (mount_fs os source tgt bind_options) (\<lambda>_.
       map_err (\<lambda>e. MountFailed [] tgt (''Failed to make mount private: '' @ show_io e))
         (sys_unit os (MountCall None tgt None [Ms_Private, Ms_Rec] None)))"

definition umount :: "'w os \<Rightarrow> string \<Rightarrow> (('w, 'p) machine, filesystem_error, unit) io" where
  "umount os path = map_err (\<lambda>e. UnmountFailed path (show_io e)) (sys_unit os (UmountCall path))"

text \<open>Every path is tried, last mounted first; the last error is the result.\<close>

fun unmount_all :: "'w os \<Rightarrow> string list \<Rightarrow> filesystem_error option \<Rightarrow>
    (('w, 'p) machine, filesystem_error, unit) io" where
  "unmount_all os [] last_err = (case last_err of Some e \<Rightarrow> throw e | None \<Rightarrow> ret ())"
| "unmount_all os (path # ps) last_err = caught (umount os path) (\<lambda>r. case r of
     Inl e \<Rightarrow> unmount_all os ps (Some e) | Inr _ \<Rightarrow> unmount_all os ps last_err)"

definition unmount_tracked :: "'w os \<Rightarrow> ('w init, filesystem_error, unit) io" where
  "unmount_tracked os = bindE (get_prog tracked) (\<lambda>mounts.
     bindE (modify_prog (\<lambda>p. p\<lparr>tracked := []\<rparr>)) (\<lambda>_.
     unmount_all os (rev mounts) None))"

definition is_path_mounted :: "'w os \<Rightarrow> string \<Rightarrow> (('w, 'p) machine, filesystem_error, bool) io" where
  "is_path_mounted os path =
     bindE (map_err (\<lambda>e. MountFailed [] path (''Failed to read /proc/mounts: '' @ show_io e))
              (sys_text os (ReadText ''/proc/mounts''))) (\<lambda>mounts.
     ret (list_ex (\<lambda>line. case split_ws line of _ # mount_point # _ \<Rightarrow> mount_point = path | _ \<Rightarrow> False)
           (rust_lines mounts)))"

section \<open>Files only root can read\<close>

definition ROOT_ONLY_FILE_MODE :: u32 where "ROOT_ONLY_FILE_MODE = 0x180"
definition ROOT_ONLY_DIR_MODE :: u32 where "ROOT_ONLY_DIR_MODE = 0x1C0"

definition create_root_only_file :: "'w os \<Rightarrow> string \<Rightarrow> (('w, 'p) machine, io_error, unit) io" where
  "create_root_only_file os path = bindE (sys_unit os (CreateFile path))
     (\<lambda>_. sys_unit os (Chmod path ROOT_ONLY_FILE_MODE))"

definition create_root_only_dir :: "'w os \<Rightarrow> string \<Rightarrow> (('w, 'p) machine, io_error, unit) io" where
  "create_root_only_dir os path = bindE (sys_unit os (MakeDirs path))
     (\<lambda>_. sys_unit os (Chmod path ROOT_ONLY_DIR_MODE))"

section \<open>Facts\<close>

lemma calls_only_mount_fs [calls_intros]:
  "(\<And>src fs fl d. P (MountCall src tgt fs fl d)) \<Longrightarrow> calls_only P (mount_fs os source tgt opts)"
  by (simp add: mount_fs_def calls_intros)

lemma calls_only_umount [calls_intros]: "P (UmountCall path) \<Longrightarrow> calls_only P (umount os path)"
  by (simp add: umount_def calls_intros)

lemma calls_only_unmount_all [calls_intros]:
  "(\<And>p. p \<in> set ps \<Longrightarrow> P (UmountCall p)) \<Longrightarrow> calls_only P (unmount_all os ps e)"
  by (induction ps arbitrary: e) (auto intro!: calls_intros split: option.split sum.split)

lemma umount_trace:
  "umount os path s = (r, s') \<Longrightarrow> trace s' = trace s @ [(UmountCall path, \<not> isl r)] \<and> program s' = program s"
  by (auto simp: umount_def map_err_def sys_unit_def record_call_def split: prod.splits sum.splits)

text \<open>The umount calls of an unmount are exactly the paths, in order, whatever fails.\<close>

lemma unmount_all_trace:
  "unmount_all os ps e s = (r, s') \<Longrightarrow>
     (\<exists>oks. length oks = length ps \<and> trace s' = trace s @ zip (map UmountCall ps) oks)
     \<and> program s' = program s"
proof (induction ps arbitrary: e s)
  case Nil
  then show ?case by (auto split: option.splits)
next
  case (Cons p ps)
  obtain q s1 where q: "umount os p s = (q, s1)" by fastforce
  note step = umount_trace [OF q]
  obtain e' where rest: "unmount_all os ps e' s1 = (r, s')"
    using Cons.prems q by (cases q) (auto simp: caught_def)
  obtain oks where "length oks = length ps" "trace s' = trace s1 @ zip (map UmountCall ps) oks"
    "program s' = program s1"
    using Cons.IH [OF rest] by blast
  then show ?case using step by (intro conjI exI [of _ "(\<not> isl q) # oks"]) auto
qed

text \<open>It reports success exactly when every unmount succeeded.\<close>

lemma unmount_all_result:
  "unmount_all os ps e s = (r, s') \<Longrightarrow>
     (r = Inr ()) \<longleftrightarrow> e = None \<and> (\<forall>c \<in> set (drop (length (trace s)) (trace s')). snd c)"
proof (induction ps arbitrary: e s)
  case Nil
  then show ?case by (auto split: option.splits)
next
  case (Cons p ps)
  obtain q s1 where q: "umount os p s = (q, s1)" by fastforce
  note step = umount_trace [OF q]
  obtain e' where rest: "unmount_all os ps e' s1 = (r, s')" and e': "e' = (case q of Inl x \<Rightarrow> Some x | Inr _ \<Rightarrow> e)"
    using Cons.prems q by (cases q) (auto simp: caught_def)
  obtain oks where tr: "trace s' = trace s1 @ zip (map UmountCall ps) oks"
    using unmount_all_trace [OF rest] by blast
  have "drop (length (trace s)) (trace s') = (UmountCall p, \<not> isl q) # drop (length (trace s1)) (trace s')"
    using step tr by simp
  then show ?case using Cons.IH [OF rest] e' by (cases q) auto
qed

end
