(* ===== verification/Fsck_Run.thy ===== *)
theory Fsck_Run
  imports Mount
begin

text \<open>
  \<open>src/filesystem/fsck.rs\<close> with the rate limit guard of \<open>src/logging/kmsg.rs\<close>: running fsck,
  the forced second run after a journal replay, and what its exit code means for the boot.
\<close>

definition output_tail :: "string \<Rightarrow> nat \<Rightarrow> string" where
  "output_tail out count =
     (let ls = filter (\<lambda>l. l \<noteq> []) (map trim (split_on (\<lambda>c. c = carriage \<or> c = newline) (utf8_lossy out)))
      in if ls = [] then ''(no output)'' else join_with ''; '' (drop (length ls - count) ls))"

section \<open>Kernel log rate limit\<close>

definition PRINTK_RATELIMIT_PATH :: string where
  "PRINTK_RATELIMIT_PATH = ''/proc/sys/kernel/printk_ratelimit''"
definition PRINTK_RATELIMIT_BURST_PATH :: string where
  "PRINTK_RATELIMIT_BURST_PATH = ''/proc/sys/kernel/printk_ratelimit_burst''"

definition disable_kmsg_ratelimit :: "'w os \<Rightarrow> ('w init, 'e, unit) io" where
  "disable_kmsg_ratelimit os =
     caught (sys_text os (ReadText PRINTK_RATELIMIT_PATH)) (\<lambda>r. case r of
         Inl _ \<Rightarrow> ret ()
       | Inr limit \<Rightarrow> caught (sys_text os (ReadText PRINTK_RATELIMIT_BURST_PATH)) (\<lambda>b. case b of
           Inl _ \<Rightarrow> ret ()
         | Inr burst \<Rightarrow>
             bindE (modify_prog (\<lambda>p. p\<lparr>saved_ratelimit := Some (trim limit, trim burst)\<rparr>)) (\<lambda>_.
             bindE (ignore (sys_unit os (WriteFile PRINTK_RATELIMIT_PATH ''0''))) (\<lambda>_.
             ignore (sys_unit os (WriteFile PRINTK_RATELIMIT_BURST_PATH ''0''))))))"

definition enable_kmsg_ratelimit :: "'w os \<Rightarrow> ('w init, 'e, unit) io" where
  "enable_kmsg_ratelimit os =
     bindE (get_prog saved_ratelimit) (\<lambda>saved. case saved of
         None \<Rightarrow> ret ()
       | Some (limit, burst) \<Rightarrow>
           bindE (modify_prog (\<lambda>p. p\<lparr>saved_ratelimit := None\<rparr>)) (\<lambda>_.
           bindE (ignore (sys_unit os (WriteFile PRINTK_RATELIMIT_PATH limit))) (\<lambda>_.
           ignore (sys_unit os (WriteFile PRINTK_RATELIMIT_BURST_PATH burst)))))"

section \<open>Running fsck\<close>

definition FSCK_CMD :: string where "FSCK_CMD = ''/sbin/fsck''"
definition JOURNAL_REPLAY_MARKER :: string where "JOURNAL_REPLAY_MARKER = ''recovering journal''"
definition FSCK_REASON_LINES :: nat where "FSCK_REASON_LINES = 3"

record fsck_result =
  fr_device :: string
  fr_exit_code :: fsck_code
  fr_output :: string

definition fsck_command :: "string \<Rightarrow> fs_type \<Rightarrow> bool \<Rightarrow> call" where
  "fsck_command dev t force = SpawnEnv (''LC_ALL'', ''C'') FSCK_CMD
     ([''-y''] @ (if force then [''-f''] else []) @ [''-t'', fs_type_str t, dev]) []"

definition run_fsck :: "'w os \<Rightarrow> string \<Rightarrow> fs_type \<Rightarrow> bool \<Rightarrow>
    (('w, 'p) machine, filesystem_error, fsck_code \<times> string) io" where
  "run_fsck os dev t force =
     bindE (map_err (\<lambda>e. FsckFailed dev FSCK_UNKNOWN
              (''failed to execute '' @ FSCK_CMD @ '': '' @ show_io e))
              (sys_run os (fsck_command dev t force))) (\<lambda>out.
     ret (fsck_code_of_status (exit_code out), utf8_lossy (stdout out) @ utf8_lossy (stderr out)))"

definition uses_fsck_bitmask :: "fs_type \<Rightarrow> bool" where
  "uses_fsck_bitmask t \<longleftrightarrow> t = Ext4"

definition needs_full_check :: "fs_type \<Rightarrow> fsck_code \<Rightarrow> string \<Rightarrow> bool" where
  "needs_full_check t c out \<longleftrightarrow> uses_fsck_bitmask t \<and> is_clean c \<and> str_contains JOURNAL_REPLAY_MARKER out"

definition describe_code :: "fsck_code \<Rightarrow> fs_type \<Rightarrow> string" where
  "describe_code c t = (if uses_fsck_bitmask t \<or> c = FSCK_UNKNOWN then display_fsck_code c
     else ''exit code '' @ show_i32 c)"

definition evaluate_fsck ::
  "string \<Rightarrow> fs_type \<Rightarrow> fsck_code \<Rightarrow> string \<Rightarrow> filesystem_error + fsck_result" where
  "evaluate_fsck dev t c out =
     (if uses_fsck_bitmask t \<and> is_reboot_required c then Inl (FsckRequiresReboot dev c out)
      else if \<not> is_mount_safe c then Inl (FsckFailed dev c out)
      else Inr \<lparr>fr_device = dev, fr_exit_code = c, fr_output = out\<rparr>)"

definition check_filesystem_with ::
  "string \<Rightarrow> fs_type \<Rightarrow> (bool \<Rightarrow> ('s, filesystem_error, fsck_code \<times> string) io) \<Rightarrow>
   ('s, filesystem_error, fsck_result) io" where
  "check_filesystem_with dev t run =
     bindE (run False) (\<lambda>(c, out).
       if needs_full_check t c out
       then bindE (run True) (\<lambda>(c', full). lift_res (evaluate_fsck dev t c' (out @ full)))
       else lift_res (evaluate_fsck dev t c out))"

text \<open>The guard runs on every way out.\<close>

definition check_filesystem :: "'w os \<Rightarrow> string \<Rightarrow> fs_type \<Rightarrow> ('w init, filesystem_error, fsck_result) io" where
  "check_filesystem os dev t =
     bindE (disable_kmsg_ratelimit os) (\<lambda>_.
     caught (check_filesystem_with dev t (run_fsck os dev t)) (\<lambda>r.
     bindE (enable_kmsg_ratelimit os) (\<lambda>_. lift_res r)))"

definition tolerate_failure :: "filesystem_error + fsck_result \<Rightarrow> filesystem_error + fsck_result" where
  "tolerate_failure r = (case r of
     Inr x \<Rightarrow> Inr x
   | Inl (FsckRequiresReboot d c out) \<Rightarrow> Inl (FsckRequiresReboot d c out)
   | Inl (FsckFailed d c out) \<Rightarrow> Inr \<lparr>fr_device = d, fr_exit_code = c, fr_output = out\<rparr>
   | Inl e \<Rightarrow> Inl e)"

definition check_filesystem_lenient :: "'w os \<Rightarrow> string \<Rightarrow> fs_type \<Rightarrow> ('w init, filesystem_error, fsck_result) io" where
  "check_filesystem_lenient os dev t = caught (check_filesystem os dev t) (\<lambda>r. lift_res (tolerate_failure r))"

section \<open>Facts\<close>

definition is_reboot_error :: "filesystem_error \<Rightarrow> bool" where
  "is_reboot_error e = (case e of FsckRequiresReboot _ _ _ \<Rightarrow> True | _ \<Rightarrow> False)"

definition is_fsck_error :: "filesystem_error \<Rightarrow> bool" where
  "is_fsck_error e = (case e of FsckRequiresReboot _ _ _ \<Rightarrow> True | FsckFailed _ _ _ \<Rightarrow> True | _ \<Rightarrow> False)"

lemma evaluate_fsck_reboot:
  "(\<exists>e. evaluate_fsck dev t c out = Inl e \<and> is_reboot_error e) \<longleftrightarrow> t = Ext4 \<and> bit c 1"
  by (auto simp: evaluate_fsck_def uses_fsck_bitmask_def is_reboot_error_def fsck_bit_iff)

lemma evaluate_fsck_ok:
  "(\<exists>x. evaluate_fsck dev t c out = Inr x) \<longleftrightarrow> c = 0 \<or> c = 1"
  by (auto simp: evaluate_fsck_def is_mount_safe_def FSCK_OK_def FSCK_CORRECTED_def
      is_reboot_required_def)

lemma run_fsck_error: "run_fsck os dev t f s = (Inl e, s') \<Longrightarrow> \<exists>why. e = FsckFailed dev FSCK_UNKNOWN why"
  by (auto simp: run_fsck_def bindE_eq_Inl map_err_eq_Inl)

text \<open>The last code fsck gave: that of the second run when there was one.\<close>

lemma check_filesystem_with_error:
  assumes "check_filesystem_with dev t run s = (Inl e, s')"
    and "\<And>f s e s'. run f s = (Inl e, s') \<Longrightarrow> is_fsck_error e \<and> \<not> is_reboot_error e"
  shows "is_fsck_error e" and "is_reboot_error e \<Longrightarrow> t = Ext4"
proof -
  have ev: "evaluate_fsck dev t c out = Inl e \<Longrightarrow> is_fsck_error e \<and> (is_reboot_error e \<longrightarrow> t = Ext4)" for c out
    by (auto simp: evaluate_fsck_def is_fsck_error_def is_reboot_error_def uses_fsck_bitmask_def
        split: if_splits)
  have "is_fsck_error e \<and> (is_reboot_error e \<longrightarrow> t = Ext4)"
    using assms(1) ev assms(2)
    by (auto simp: check_filesystem_with_def bindE_eq_Inl split: if_splits prod.splits)
  then show "is_fsck_error e" and "is_reboot_error e \<Longrightarrow> t = Ext4" by auto
qed

lemma never_fails_ratelimit [total_intros]:
  "never_fails (disable_kmsg_ratelimit os)" "never_fails (enable_kmsg_ratelimit os)"
  by (simp_all add: disable_kmsg_ratelimit_def enable_kmsg_ratelimit_def total_intros)

lemma check_filesystem_result:
  assumes "check_filesystem os dev t s = (r, s')"
  shows "\<exists>(s1 :: 'w init) s2. check_filesystem_with dev t (run_fsck os dev t) s1 = (r, s2)"
proof -
  obtain s1 where d: "disable_kmsg_ratelimit os s = (Inr () :: filesystem_error + unit, s1)"
    using never_fails_ratelimit(1) by (fastforce simp: never_fails_def)
  obtain q s2 where q: "check_filesystem_with dev t (run_fsck os dev t) s1 = (q, s2)" by fastforce
  obtain s3 where "enable_kmsg_ratelimit os s2 = (Inr () :: filesystem_error + unit, s3)"
    using never_fails_ratelimit(2) by (fastforce simp: never_fails_def)
  then have "r = q" using assms d q by (auto simp: check_filesystem_def bindE_def caught_def)
  then show ?thesis using q by blast
qed

text \<open>
  A failing check never stops the boot, except to reboot. The lenient check ends in an error
  only when fsck ran on ext4 and asked for a reboot; a run that is killed, cannot be started, or
  leaves errors behind gives a result the caller records.
\<close>

lemma lenient_only_reboots:
  "case fst (check_filesystem_lenient os dev t s) of
     Inl e \<Rightarrow> is_reboot_error e \<and> t = Ext4
   | Inr x \<Rightarrow> True"
proof (cases "fst (check_filesystem_lenient os dev t s)")
  case (Inl e)
  obtain r s1 where r: "check_filesystem os dev t s = (r, s1)" by fastforce
  then have te: "tolerate_failure r = Inl e"
    using Inl by (simp add: check_filesystem_lenient_def caught_def)
  then obtain d where d: "r = Inl d"
    by (cases r) (auto simp: tolerate_failure_def)
  obtain s2 s3 where w: "check_filesystem_with dev t (run_fsck os dev t) (s2 :: 'a init) = (Inl d, s3)"
    using check_filesystem_result [OF r] d by blast
  have "is_fsck_error d \<and> (is_reboot_error d \<longrightarrow> t = Ext4)"
    using check_filesystem_with_error [OF w] run_fsck_error
    by (fastforce simp: is_fsck_error_def is_reboot_error_def)
  then show ?thesis
    using Inl te d
    by (cases d) (auto simp: tolerate_failure_def is_fsck_error_def is_reboot_error_def)
qed simp

end
