(* ===== verification/Overlayfs.thy ===== *)
theory Overlayfs
  imports Mount
begin

text \<open>
  \<open>src/filesystem/overlayfs.rs\<close>: the overlays of /etc and /home and the bind mounts of the data
  partition. The variants that record each mount as soon as it is made are the ones the others
  are defined by; the record is the list \<open>tracked\<close> of the program's memory.
\<close>

definition CP_CMD :: string where "CP_CMD = ''/bin/cp''"

definition PATH_ETC :: string where "PATH_ETC = ''etc''"
definition PATH_HOME :: string where "PATH_HOME = ''home''"
definition PATH_VAR_LIB :: string where "PATH_VAR_LIB = ''var/lib''"
definition PATH_DATA_LOCAL_DIR :: string where "PATH_DATA_LOCAL_DIR = ''local''"
definition PATH_USR_LOCAL :: string where "PATH_USR_LOCAL = ''usr/local''"
definition PATH_DATA_LOG_DIR :: string where "PATH_DATA_LOG_DIR = ''log''"
definition PATH_VAR_LOG :: string where "PATH_VAR_LOG = ''var/log''"

definition MP_BOOT :: string where "MP_BOOT = ''boot''"
definition MP_CERT_PARTITION :: string where "MP_CERT_PARTITION = ''mnt/cert''"
definition MP_DATA_PARTITION :: string where "MP_DATA_PARTITION = ''mnt/data''"
definition MP_ETC_PARTITION :: string where "MP_ETC_PARTITION = ''mnt/etc''"
definition MP_FACTORY_PARTITION :: string where "MP_FACTORY_PARTITION = ''mnt/factory''"
definition MP_ROOT_CURRENT_PRIVATE :: string where "MP_ROOT_CURRENT_PRIVATE = ''mnt/rootCurrentPrivate''"
definition MP_VAR_VOLATILE :: string where "MP_VAR_VOLATILE = ''var/volatile''"

definition ensure_dir :: "'w os \<Rightarrow> string \<Rightarrow> (('w, 'p) machine, filesystem_error, unit) io" where
  "ensure_dir os path = bindE (sys_bool os (Exists path)) (\<lambda>there.
     if \<not> there then map_err (\<lambda>e. OverlayFailed path (''Failed to create directory: '' @ show_io e))
       (sys_unit os (MakeDirs path))
     else ret ())"

definition ensure_overlay_dirs ::
  "'w os \<Rightarrow> string \<Rightarrow> string \<Rightarrow> (('w, 'p) machine, filesystem_error, unit) io" where
  "ensure_overlay_dirs os upper work = bindE (ensure_dir os upper) (\<lambda>_. ensure_dir os work)"

definition is_upper_dir_empty :: "'w os \<Rightarrow> string \<Rightarrow> (('w, 'p) machine, filesystem_error, bool) io" where
  "is_upper_dir_empty os path = bindE (sys_bool os (Exists path)) (\<lambda>there.
     if \<not> there then ret True
     else bindE (map_err (\<lambda>e. OverlayFailed path (''Failed to read directory: '' @ show_io e))
            (sys_entries os (ReadDir path))) (\<lambda>entries. ret (entries = [])))"

definition copy_directory_contents ::
  "'w os \<Rightarrow> string \<Rightarrow> string \<Rightarrow> (('w, 'p) machine, filesystem_error, unit) io" where
  "copy_directory_contents os src dst = bindE (sys_bool os (Exists src)) (\<lambda>there.
     if \<not> there then ret ()
     else bindE (map_err (\<lambda>e. OverlayFailed dst (''Failed to execute cp: '' @ show_io e))
            (sys_run os (Spawn CP_CMD [''-a'', src @ ''/.'', dst] []))) (\<lambda>out.
       if \<not> success out
       then throw (OverlayFailed dst (''cp failed: '' @ utf8_lossy (stderr out))) else ret ()))"

definition mount_overlay ::
  "'w os \<Rightarrow> string \<Rightarrow> string \<Rightarrow> string \<Rightarrow> string \<Rightarrow> (('w, 'p) machine, filesystem_error, unit) io" where
  "mount_overlay os lower upper work tgt =
     (let options = ''lowerdir='' @ lower @ '',upperdir='' @ upper @ '',workdir='' @ work
                      @ '',index=off,uuid=off''
      in map_err (\<lambda>e. OverlayFailed tgt (show_filesystem_error e @ '': options='' @ options))
           (mount_fs os ''overlay'' tgt \<lparr>mo_fstype = Some Overlay,
              mo_flags = [Ms_NoAtime, Ms_NoDirAtime], mo_data = Some options\<rparr>))"

definition bind_mount :: "'w os \<Rightarrow> string \<Rightarrow> string \<Rightarrow> (('w, 'p) machine, filesystem_error, unit) io" where
  "bind_mount os source tgt = bindE (ensure_dir os source) (\<lambda>_. bindE (ensure_dir os tgt)
     (\<lambda>_. mount_bind os source tgt))"

definition setup_home_overlay :: "'w os \<Rightarrow> string \<Rightarrow> string \<Rightarrow> (('w, 'p) machine, filesystem_error, unit) io" where
  "setup_home_overlay os rootfs data_mount =
     (let home_data = path_join data_mount PATH_HOME;
          upper = path_join home_data ''upper''; work = path_join home_data ''work'';
          tgt = path_join rootfs PATH_HOME
      in bindE (ensure_dir os home_data) (\<lambda>_. bindE (ensure_overlay_dirs os upper work)
           (\<lambda>_. mount_overlay os tgt upper work tgt)))"

definition setup_etc_overlay_tracked :: "'w os \<Rightarrow> string \<Rightarrow> ('w init, filesystem_error, unit) io" where
  "setup_etc_overlay_tracked os rootfs =
     (let etc_mount = path_join rootfs MP_ETC_PARTITION;
          factory_mount = path_join rootfs MP_FACTORY_PARTITION;
          upper = path_join etc_mount ''upper''; work = path_join etc_mount ''work'';
          tgt = path_join rootfs PATH_ETC
      in bindE (ensure_overlay_dirs os upper work) (\<lambda>_.
         bindE (is_upper_dir_empty os upper) (\<lambda>empty.
         bindE (if empty then copy_directory_contents os (path_join factory_mount PATH_ETC) upper
                else ret ()) (\<lambda>_.
         bindE (mount_overlay os tgt upper work tgt) (\<lambda>_. push_mount tgt)))))"

text \<open>The variants that track nothing work on a list of their own.\<close>

definition untracked :: "('w init, 'e, unit) io \<Rightarrow> ('w init, 'e, unit) io" where
  "untracked m = bindE (get_prog tracked) (\<lambda>mine.
     caught m (\<lambda>r. bindE (modify_prog (\<lambda>p. p\<lparr>tracked := mine\<rparr>)) (\<lambda>_. lift_res r)))"

definition setup_etc_overlay :: "'w os \<Rightarrow> string \<Rightarrow> ('w init, filesystem_error, unit) io" where
  "setup_etc_overlay os rootfs = untracked (setup_etc_overlay_tracked os rootfs)"

definition setup_data_overlay_tracked ::
  "features \<Rightarrow> 'w os \<Rightarrow> string \<Rightarrow> ('w init, filesystem_error, unit) io" where
  "setup_data_overlay_tracked ft os rootfs =
     (let data_mount = path_join rootfs MP_DATA_PARTITION in
      bindE (setup_home_overlay os rootfs data_mount) (\<lambda>_.
      bindE (push_mount (path_join rootfs PATH_HOME)) (\<lambda>_.
      bindE (bind_mount os (path_join data_mount PATH_VAR_LIB) (path_join rootfs PATH_VAR_LIB)) (\<lambda>_.
      bindE (push_mount (path_join rootfs PATH_VAR_LIB)) (\<lambda>_.
      bindE (bind_mount os (path_join data_mount PATH_DATA_LOCAL_DIR) (path_join rootfs PATH_USR_LOCAL)) (\<lambda>_.
      bindE (push_mount (path_join rootfs PATH_USR_LOCAL)) (\<lambda>_.
      if persistent_var_log ft then
        bindE (bind_mount os (path_join data_mount PATH_DATA_LOG_DIR) (path_join rootfs PATH_VAR_LOG)) (\<lambda>_.
        push_mount (path_join rootfs PATH_VAR_LOG))
      else ret ())))))))"

definition setup_data_overlay :: "features \<Rightarrow> 'w os \<Rightarrow> string \<Rightarrow> ('w init, filesystem_error, unit) io" where
  "setup_data_overlay ft os rootfs = untracked (setup_data_overlay_tracked ft os rootfs)"

definition setup_raw_rootfs_mount :: "'w os \<Rightarrow> string \<Rightarrow> (('w, 'p) machine, filesystem_error, unit) io" where
  "setup_raw_rootfs_mount os rootfs =
     (let raw = path_join rootfs MP_ROOT_CURRENT_PRIVATE in
      bindE (ensure_dir os raw) (\<lambda>_. mount_bind_private os rootfs raw))"

section \<open>Facts: what is tracked is what is mounted\<close>

text \<open>
  The targets a computation has mounted, in order, are the targets of its successful mount calls
  that bring a file system (a change of propagation has no source).
\<close>

definition mounted_targets :: "(call \<times> bool) list \<Rightarrow> string list" where
  "mounted_targets t = concat (map (\<lambda>c. case c of
     (MountCall (Some _) tgt _ _ _, True) \<Rightarrow> [tgt] | _ \<Rightarrow> []) t)"

text \<open>\<open>tracks m\<close>: on every way out, \<open>m\<close> has recorded exactly the targets it mounted.\<close>

definition tracks :: "('w init, 'e, 'a) io \<Rightarrow> bool" where
  "tracks m \<longleftrightarrow> (\<forall>s. \<exists>t. trace (snd (m s)) = trace s @ t \<and>
     tracked (program (snd (m s))) = tracked (program s) @ mounted_targets t)"

text \<open>\<open>mounts_only tgt m\<close>: \<open>m\<close> mounts \<open>tgt\<close> when it succeeds, nothing when it fails, and records nothing.\<close>

definition mounts_only :: "string \<Rightarrow> ('w init, 'e, unit) io \<Rightarrow> bool" where
  "mounts_only tgt m \<longleftrightarrow> (\<forall>s. \<exists>t. trace (snd (m s)) = trace s @ t \<and>
     tracked (program (snd (m s))) = tracked (program s) \<and>
     mounted_targets t = (if isl (fst (m s)) then [] else [tgt]))"

definition no_mounts :: "('w init, 'e, 'a) io \<Rightarrow> bool" where
  "no_mounts m \<longleftrightarrow> (\<forall>s. \<exists>t. trace (snd (m s)) = trace s @ t \<and>
     tracked (program (snd (m s))) = tracked (program s) \<and> mounted_targets t = [])"

lemma mounted_targets_append [simp]: "mounted_targets (t @ u) = mounted_targets t @ mounted_targets u"
  by (simp add: mounted_targets_def)

lemma mounted_targets_Nil [simp]: "mounted_targets [] = []"
  by (simp add: mounted_targets_def)

lemma no_mounts_calls:
  assumes "calls_only (\<lambda>c. \<forall>src tgt fs fl d. c \<noteq> MountCall src tgt fs fl d) m" and "keeps_prog m"
  shows "no_mounts m"
  unfolding no_mounts_def
proof
  fix s
  obtain t where t: "trace (snd (m s)) = trace s @ t"
    "\<forall>c \<in> set t. \<forall>src tgt fs fl d. fst c \<noteq> MountCall src tgt fs fl d"
    using calls_onlyD [OF assms(1), of s "fst (m s)" "snd (m s)"] by (metis prod.collapse)
  have "mounted_targets t = []"
    using t(2) by (auto simp: mounted_targets_def split: call.split)
  then show "\<exists>t. trace (snd (m s)) = trace s @ t \<and>
      tracked (program (snd (m s))) = tracked (program s) \<and> mounted_targets t = []"
    using t(1) assms(2) by (auto simp: keeps_prog_def)
qed

lemma no_mounts_tracks: "no_mounts m \<Longrightarrow> tracks m"
  unfolding no_mounts_def tracks_def by (metis append.right_neutral)

lemma tracks_bindE:
  assumes "tracks m" and "\<And>x. tracks (f x)"
  shows "tracks (bindE m f)"
  unfolding tracks_def
proof
  fix s
  obtain r s1 where m: "m s = (r, s1)" by fastforce
  obtain t where t: "trace s1 = trace s @ t" "tracked (program s1) = tracked (program s) @ mounted_targets t"
    using assms(1) m unfolding tracks_def by (metis snd_conv)
  show "\<exists>t. trace (snd (bindE m f s)) = trace s @ t \<and>
      tracked (program (snd (bindE m f s))) = tracked (program s) @ mounted_targets t"
  proof (cases r)
    case (Inr x)
    obtain u where "trace (snd (f x s1)) = trace s1 @ u"
      "tracked (program (snd (f x s1))) = tracked (program s1) @ mounted_targets u"
      using assms(2) unfolding tracks_def by metis
    then show ?thesis using t m Inr by (intro exI [of _ "t @ u"]) (simp add: bindE_def)
  qed (use t m in \<open>auto simp: bindE_def\<close>)
qed

text \<open>Recording right after a mount tracks it.\<close>

lemma tracks_push:
  assumes "mounts_only tgt m"
  shows "tracks (bindE m (\<lambda>_. push_mount tgt))"
  unfolding tracks_def
proof
  fix s
  obtain r s1 where m: "m s = (r, s1)" by fastforce
  obtain t where "trace s1 = trace s @ t" "tracked (program s1) = tracked (program s)"
    "mounted_targets t = (if isl r then [] else [tgt])"
    using assms m unfolding mounts_only_def by (metis fst_conv snd_conv)
  then show "\<exists>t. trace (snd (bindE m (\<lambda>_. push_mount tgt) s)) = trace s @ t \<and>
      tracked (program (snd (bindE m (\<lambda>_. push_mount tgt) s)))
        = tracked (program s) @ mounted_targets t"
    using m by (cases r) (auto simp: bindE_def push_mount_def modify_prog_def)
qed

lemma mounts_only_bindE:
  assumes "no_mounts a" and "\<And>x. mounts_only tgt (f x)"
  shows "mounts_only tgt (bindE a f)"
  unfolding mounts_only_def
proof
  fix s
  obtain r s1 where m: "a s = (r, s1)" by fastforce
  obtain t where t: "trace s1 = trace s @ t" "tracked (program s1) = tracked (program s)"
    "mounted_targets t = []"
    using assms(1) m unfolding no_mounts_def by (metis snd_conv)
  show "\<exists>t. trace (snd (bindE a f s)) = trace s @ t \<and>
      tracked (program (snd (bindE a f s))) = tracked (program s) \<and>
      mounted_targets t = (if isl (fst (bindE a f s)) then [] else [tgt])"
  proof (cases r)
    case (Inr x)
    obtain u where "trace (snd (f x s1)) = trace s1 @ u"
      "tracked (program (snd (f x s1))) = tracked (program s1)"
      "mounted_targets u = (if isl (fst (f x s1)) then [] else [tgt])"
      using assms(2) unfolding mounts_only_def by metis
    then show ?thesis using t m Inr by (intro exI [of _ "t @ u"]) (simp add: bindE_def)
  qed (use t m in \<open>auto simp: bindE_def\<close>)
qed

lemma mounts_only_map_err: "mounts_only tgt m \<Longrightarrow> mounts_only tgt (map_err g m)"
proof -
  have "snd (map_err g m s) = snd (m s)" "isl (fst (map_err g m s)) = isl (fst (m s))" for s
    by (simp_all add: map_err_def split: prod.split sum.split)
  then show "mounts_only tgt m \<Longrightarrow> mounts_only tgt (map_err g m)" by (simp add: mounts_only_def)
qed

lemma mounts_only_mount_fs: "source \<noteq> [] \<Longrightarrow> mounts_only tgt (mount_fs os source tgt opts)"
proof -
  assume "source \<noteq> []"
  then have "mounts_only tgt (sys_unit os (MountCall (if source = [] then None else Some source) tgt fs fl d))"
    for fs fl d
    by (auto simp: mounts_only_def sys_unit_def mounted_targets_def split: prod.split)
  then show ?thesis unfolding mount_fs_def by (intro mounts_only_map_err)
qed

lemma path_join_nonempty: "b \<noteq> [] \<Longrightarrow> path_join a b \<noteq> []"
  by (simp add: path_join_def)

lemma no_mounts_overlay_parts:
  "no_mounts (ensure_dir os path)" "no_mounts (ensure_overlay_dirs os a b)"
  "no_mounts (is_upper_dir_empty os path)" "no_mounts (copy_directory_contents os a b)"
  "no_mounts (ret x)"
  by (rule no_mounts_calls; auto simp: ensure_dir_def ensure_overlay_dirs_def is_upper_dir_empty_def
      copy_directory_contents_def intro!: calls_intros prog_intros)+

lemma mounts_only_bind_mount: "source \<noteq> [] \<Longrightarrow> mounts_only tgt (bind_mount os source tgt)"
  by (simp add: bind_mount_def mount_bind_def mounts_only_bindE no_mounts_overlay_parts
      mounts_only_mount_fs)

lemma mounts_only_overlay: "mounts_only tgt (mount_overlay os lower upper work tgt)"
  by (simp add: mount_overlay_def Let_def mounts_only_map_err mounts_only_mount_fs)

lemma tracks_etc: "tracks (setup_etc_overlay_tracked os rootfs)"
  unfolding setup_etc_overlay_tracked_def Let_def
  by (intro tracks_bindE tracks_push mounts_only_overlay)
     (simp_all add: no_mounts_tracks no_mounts_overlay_parts)

lemma tracks_push_then:
  "mounts_only tgt m \<Longrightarrow> (\<And>x. tracks (k x)) \<Longrightarrow>
   tracks (bindE m (\<lambda>_. bindE (push_mount tgt) k))"
  using tracks_bindE [OF tracks_push, of tgt m k] by (simp add: bindE_assoc)

lemma tracks_data: "tracks (setup_data_overlay_tracked ft os rootfs)"
proof -
  let ?data = "path_join rootfs MP_DATA_PARTITION"
  have home: "mounts_only (path_join rootfs PATH_HOME) (setup_home_overlay os rootfs ?data)"
    by (simp add: setup_home_overlay_def Let_def mounts_only_bindE mounts_only_overlay
        no_mounts_overlay_parts)
  have bind: "mounts_only tgt (bind_mount os (path_join ?data d) tgt)" if "d \<noteq> []" for d tgt
    using that by (simp add: mounts_only_bind_mount path_join_nonempty)
  show ?thesis
    unfolding setup_data_overlay_tracked_def Let_def
    by (cases "persistent_var_log ft")
       (simp_all, (intro tracks_push_then tracks_push home bind no_mounts_tracks no_mounts_overlay_parts;
         simp add: PATH_VAR_LIB_def PATH_DATA_LOCAL_DIR_def PATH_DATA_LOG_DIR_def)+)
qed

text \<open>
  C39: Mount tracking. Setting up the overlays of /etc and of the data partition records exactly
  the targets it mounted, in order, also when it stops half way, so unmounting what is recorded
  undoes exactly what was done.
\<close>

theorem overlays_tracked: "tracks (setup_etc_overlay_tracked os rootfs)
    \<and> tracks (setup_data_overlay_tracked ft os rootfs)"
  by (simp add: tracks_etc tracks_data)

end
