(* ===== verification/Cmdline.thy ===== *)
theory Cmdline
  imports Errors
begin

text \<open>
  \<open>src/config/mod.rs\<close>: the kernel command line as a map from parameter to value. The hash map
  of the code is a function to options; the last token of a key wins.
\<close>

type_synonym cmdline_config = "string \<Rightarrow> string option"

text \<open>\<open>trim_matches('"')\<close>.\<close>

definition trim_quotes :: "string \<Rightarrow> string" where
  "trim_quotes v = rev (dropWhile (\<lambda>c. c = CHR 0x22) (rev (dropWhile (\<lambda>c. c = CHR 0x22) v)))"

definition token_entry :: "string \<Rightarrow> string \<times> string" where
  "token_entry token = (case split_once (CHR ''='') token of
     Some (k, v) \<Rightarrow> (k, trim_quotes v) | None \<Rightarrow> (token, []))"

definition parse_cmdline :: "string \<Rightarrow> cmdline_config" where
  "parse_cmdline text =
     foldl (\<lambda>params token. params(fst (token_entry token) \<mapsto> snd (token_entry token)))
       Map.empty (split_ws text)"

definition cmdline_get :: "cmdline_config \<Rightarrow> string \<Rightarrow> string option" where
  "cmdline_get cl k = cl k"

record config =
  cmdline :: cmdline_config

definition load_config :: "'w os \<Rightarrow> (('w, 'p) machine, initramfs_error, config) io" where
  "load_config os =
     bindE (map_err (\<lambda>e. Config (CmdlineReadFailed e)) (sys_text os (ReadText ''/proc/cmdline'')))
       (\<lambda>raw. ret \<lparr>cmdline = parse_cmdline raw\<rparr>)"

lemma parse_cmdline_fold:
  "foldl (\<lambda>params token. params(fst (token_entry token) \<mapsto> snd (token_entry token))) m ts
   = m ++ map_of (rev (map token_entry ts))"
  by (induction ts arbitrary: m) (auto simp: map_add_def fun_eq_iff split: option.splits)

lemma parse_cmdline_map: "parse_cmdline text = map_of (rev (map token_entry (split_ws text)))"
  by (simp add: parse_cmdline_def parse_cmdline_fold)

text \<open>A parameter that is set was a token of the command line: a bare flag, or a key with a value.\<close>

lemma cmdline_get_token:
  assumes "cmdline_get (parse_cmdline text) k = Some v"
  shows "\<exists>t \<in> set (split_ws text). token_entry t = (k, v)"
  using map_of_SomeD assms by (fastforce simp: cmdline_get_def parse_cmdline_map)

end
