(* ===== verification/Device.thy ===== *)
theory Device
  imports Cmdline Utf8
begin

text \<open>
  \<open>src/partition/device.rs\<close>: detection of the root device from the kernel command line, the
  names of partition devices, and device numbers. The two polling loops run against the clock
  of the machine and are total because a sleep advances it.
\<close>

definition DEVICE_WAIT_TIMEOUT_SECS :: nat where "DEVICE_WAIT_TIMEOUT_SECS = 30"
definition DEVICE_POLL_INTERVAL_MS :: nat where "DEVICE_POLL_INTERVAL_MS = 100"
definition BLKID_CMD :: string where "BLKID_CMD = ''/sbin/blkid''"

record root_device =
  base :: string
  partition_sep :: string
  root_partition :: string

section \<open>Names of partition devices\<close>

definition partition_sep_for_name :: "string \<Rightarrow> string" where
  "partition_sep_for_name disk_name = (if disk_name \<noteq> [] \<and> is_digit (last disk_name) then ''p'' else [])"

definition partition_sep_for :: "string \<Rightarrow> string" where
  "partition_sep_for disk_path = (case file_name disk_path of
     None \<Rightarrow> [] | Some n \<Rightarrow> partition_sep_for_name n)"

definition partition_path :: "string \<Rightarrow> string \<Rightarrow> u32 \<Rightarrow> string" where
  "partition_path disk_path sep num = disk_path @ sep @ show_word num"

definition root_device_partition_path :: "root_device \<Rightarrow> u32 \<Rightarrow> string" where
  "root_device_partition_path dev num = partition_path (base dev) (partition_sep dev) num"

definition trim_end_digits :: "string \<Rightarrow> string" where
  "trim_end_digits s = rev (dropWhile is_digit (rev s))"

definition split_partition_suffix :: "string \<Rightarrow> partition_error + (string \<times> string)" where
  "split_partition_suffix name = (let stem = trim_end_digits name in
     if stem = [] \<or> length stem = length name then
       Inl (DeviceDetection (''could not derive base device from: '' @ name))
     else let b = (case strip_suffix ''p'' stem of
                     Some disk_name \<Rightarrow> if partition_sep_for_name disk_name = ''p'' then disk_name else stem
                   | None \<Rightarrow> stem)
          in Inr (b, partition_sep_for_name b))"

definition root_device_from_blkid :: "string \<Rightarrow> u32 \<Rightarrow> partition_error + root_device" where
  "root_device_from_blkid boot_part_dev part_num =
     (case file_name boot_part_dev of
        None \<Rightarrow> Inl (DeviceDetection (''invalid blkid output: '' @ boot_part_dev))
      | Some name \<Rightarrow> (case split_partition_suffix name of
          Inl e \<Rightarrow> Inl e
        | Inr (base_name, sep) \<Rightarrow> Inr \<lparr>base = path_join ''/dev'' base_name, partition_sep = sep,
            root_partition = ''/dev/'' @ base_name @ sep @ show_word part_num\<rparr>))"

definition parse_device_path :: "string \<Rightarrow> partition_error + root_device" where
  "parse_device_path p =
     (case file_name p of
        None \<Rightarrow> Inl (DeviceDetection (''invalid device path: '' @ p))
      | Some name \<Rightarrow> (case split_partition_suffix name of
          Inl e \<Rightarrow> Inl e
        | Inr (base_name, sep) \<Rightarrow> Inr \<lparr>base = path_join ''/dev'' base_name, partition_sep = sep,
            root_partition = p\<rparr>))"

section \<open>Waiting for devices\<close>

function wait_for_device_loop ::
  "'w os \<Rightarrow> nat \<Rightarrow> string \<Rightarrow> ('w, 'p) machine \<Rightarrow> (partition_error + unit) \<times> ('w, 'p) machine" where
  "wait_for_device_loop os start dev s =
     (case test_path os (Exists dev) s of (found, s1) \<Rightarrow>
        if found then (Inr (), s1)
        else if DEVICE_WAIT_TIMEOUT_SECS * 1000 < clock s1 - start then
          (Inl (DeviceDetection (''device '' @ dev @ '' did not appear within ''
            @ show_nat DEVICE_WAIT_TIMEOUT_SECS @ '' seconds'')), s1)
        else wait_for_device_loop os start dev (sleep_for os DEVICE_POLL_INTERVAL_MS s1))"
  by pat_completeness auto

lemma poll_step_clock:
  "test_path os c s = (b, s1) \<Longrightarrow> clock s < clock (sleep_for os DEVICE_POLL_INTERVAL_MS s1)"
  "sys_run os c s = (r, s1) \<Longrightarrow> clock s < clock (sleep_for os DEVICE_POLL_INTERVAL_MS s1)"
  using clock_test_path [of s os c] clock_sys_run [of os c s r s1]
    clock_sleep_for [of s1 DEVICE_POLL_INTERVAL_MS os]
  by (simp_all add: DEVICE_POLL_INTERVAL_MS_def)

text \<open>Each turn of a polling loop that goes on brings the clock nearer to the deadline.\<close>

lemma poll_measure:
  "test_path os c s = (b, s1) \<Longrightarrow> \<not> T < clock s1 - start \<Longrightarrow>
     start + T + 1 - clock (sleep_for os DEVICE_POLL_INTERVAL_MS s1) < start + T + 1 - clock s"
  "sys_run os c s = (r, s1) \<Longrightarrow> \<not> T \<le> clock s1 - start \<Longrightarrow>
     start + T - clock (sleep_for os DEVICE_POLL_INTERVAL_MS s1) < start + T - clock s"
  using poll_step_clock [of os c s] clock_test_path [of s os c] clock_sys_run [of os c s r s1]
    clock_sleep_for [of s1 DEVICE_POLL_INTERVAL_MS os]
  by (auto simp: DEVICE_POLL_INTERVAL_MS_def)

termination wait_for_device_loop
  by (relation "measure (\<lambda>(os, start, dev, s). start + DEVICE_WAIT_TIMEOUT_SECS * 1000 + 1 - clock s)")
     (simp_all only: wf_measure in_measure prod.case, metis poll_measure(1))

declare wait_for_device_loop.simps [simp del]

definition wait_for_device :: "'w os \<Rightarrow> string \<Rightarrow> (('w, 'p) machine, partition_error, unit) io" where
  "wait_for_device os dev = (\<lambda>s. wait_for_device_loop os (clock s) dev s)"

text \<open>The answer of \<open>blkid --uuid\<close>: 0 with the device, 2 while no device has the UUID.\<close>

function blkid_loop ::
  "'w os \<Rightarrow> nat \<Rightarrow> string \<Rightarrow> ('w, 'p) machine \<Rightarrow> (partition_error + string) \<times> ('w, 'p) machine" where
  "blkid_loop os start fsuuid s =
     (case sys_run os (Spawn BLKID_CMD [''--uuid'', fsuuid] []) s of
        (Inl e, s1) \<Rightarrow> (Inl (DeviceDetection (''failed to run blkid: '' @ show_io e)), s1)
      | (Inr out, s1) \<Rightarrow>
          if exit_code out = Some 0 then
            (if valid_utf8 (stdout out) then (Inr (trim (stdout out)), s1)
             else (Inl (DeviceDetection ''blkid output is not UTF-8''), s1))
          else if exit_code out = Some 2 then
            (if DEVICE_WAIT_TIMEOUT_SECS * 1000 \<le> clock s1 - start then
               (Inl (DeviceDetection (''blkid found no device with UUID='' @ fsuuid @ '' within ''
                 @ show_nat DEVICE_WAIT_TIMEOUT_SECS @ ''s'')), s1)
             else blkid_loop os start fsuuid (sleep_for os DEVICE_POLL_INTERVAL_MS s1))
          else (Inl (DeviceDetection (''blkid exited with status '' @ debug_code (exit_code out)
            @ '': '' @ trim (utf8_lossy (stderr out)))), s1))"
  by pat_completeness auto

termination blkid_loop
  by (relation "measure (\<lambda>(os, start, u, s). start + DEVICE_WAIT_TIMEOUT_SECS * 1000 - clock s)")
     (simp_all only: wf_measure in_measure prod.case, metis poll_measure(2))

declare blkid_loop.simps [simp del]

definition device_from_fsuuid :: "'w os \<Rightarrow> string \<Rightarrow> u32 \<Rightarrow> (('w, 'p) machine, partition_error, root_device) io" where
  "device_from_fsuuid os fsuuid part_num =
     bindE (\<lambda>s. blkid_loop os (clock s) fsuuid s) (\<lambda>boot_part.
     bindE (lift_res (root_device_from_blkid boot_part part_num)) (\<lambda>rd.
     bindE (wait_for_device os (root_partition rd)) (\<lambda>_. ret rd)))"

definition device_from_path :: "'w os \<Rightarrow> string \<Rightarrow> (('w, 'p) machine, partition_error, root_device) io" where
  "device_from_path os p = bindE (wait_for_device os p) (\<lambda>_. lift_res (parse_device_path p))"

definition detect_root_device ::
  "features \<Rightarrow> 'w os \<Rightarrow> cmdline_config \<Rightarrow> (('w, 'p) machine, partition_error, root_device) io" where
  "detect_root_device ft os cl = (case bootloader ft of
     Grub \<Rightarrow> (case cmdline_get cl ''rootpart'' of
         Some part_str \<Rightarrow> (case parse_u32 part_str of
             None \<Rightarrow> throw (DeviceDetection (''rootpart= is not a valid partition number: '' @ part_str))
           | Some part_num \<Rightarrow> (case cmdline_get cl ''bootpart_fsuuid'' of
               None \<Rightarrow> throw (DeviceDetection
                 ''rootpart= present but bootpart_fsuuid= missing or empty on cmdline'')
             | Some fsuuid \<Rightarrow> if fsuuid = [] then throw (DeviceDetection
                 ''rootpart= present but bootpart_fsuuid= missing or empty on cmdline'')
                 else device_from_fsuuid os fsuuid part_num))
       | None \<Rightarrow> throw (DeviceDetection ''rootpart= (GRUB) not found in kernel cmdline''))
   | UBoot \<Rightarrow> (case cmdline_get cl ''root'' of
         Some root \<Rightarrow> if \<not> starts_with ''/dev/'' root
             then throw (DeviceDetection (''root= must start with /dev/, got: '' @ root))
             else device_from_path os root
       | None \<Rightarrow> throw (DeviceDetection ''root= (U-Boot) not found in kernel cmdline'')))"

section \<open>Device numbers\<close>

definition SYS_DEV_BLOCK :: string where "SYS_DEV_BLOCK = ''/sys/dev/block''"
definition REASON_NOT_A_BLOCK_DEVICE :: string where "REASON_NOT_A_BLOCK_DEVICE = ''not a block device''"

definition block_devnum :: "'w os \<Rightarrow> string \<Rightarrow> (('w, 'p) machine, string, u64) io" where
  "block_devnum os p =
     bindE (map_err (\<lambda>e. ''cannot stat: '' @ show_io e) (sys_stat os (Stat p))) (\<lambda>metadata.
       if st_is_block metadata then ret (st_rdev metadata) else throw REASON_NOT_A_BLOCK_DEVICE)"

text \<open>The C library's packing of a device number is a parameter: \<open>(major, minor, makedev)\<close>.\<close>

record devnum_codec =
  major :: "u64 \<Rightarrow> u64"
  minor :: "u64 \<Rightarrow> u64"
  makedev :: "u64 \<Rightarrow> u64 \<Rightarrow> u64"

definition whole_disk_devnum ::
  "'w os \<Rightarrow> devnum_codec \<Rightarrow> string \<Rightarrow> u64 \<Rightarrow> (('w, 'p) machine, 'e, u64 option) io" where
  "whole_disk_devnum os dn sys_dev_block devnum =
     (let node = path_join sys_dev_block (show_word (major dn devnum) @ '':'' @ show_word (minor dn devnum)) in
      bindE (sys_bool os (Exists node)) (\<lambda>there.
        if \<not> there then ret None
        else bindE (sys_bool os (Exists (path_join node ''partition''))) (\<lambda>is_part.
          if \<not> is_part then ret (Some devnum)
          else caught (sys_text os (ReadText (path_join node ''../dev''))) (\<lambda>r. case r of
              Inl _ \<Rightarrow> ret None
            | Inr parent_text \<Rightarrow> ret (case split_once (CHR '':'') (trim parent_text) of
                None \<Rightarrow> None
              | Some (a, b) \<Rightarrow> (case parse_u64 a of None \<Rightarrow> None
                  | Some mj \<Rightarrow> (case parse_u64 b of None \<Rightarrow> None
                      | Some mn \<Rightarrow> Some (makedev dn mj mn))))))))"

section \<open>Facts\<close>

lemma show_word_digits: "c \<in> set (show_word w) \<Longrightarrow> is_digit c"
  using show_nat_chars by (simp add: show_word_def)

lemma show_word_nonempty [simp]: "show_word w \<noteq> []"
  by (simp add: show_word_def)

lemma trim_end_digits_append:
  assumes "b \<noteq> []" and "\<not> is_digit (last b)" and "\<And>c. c \<in> set n \<Longrightarrow> is_digit c"
  shows "trim_end_digits (b @ n) = b"
proof -
  have "dropWhile is_digit (rev n @ rev b) = dropWhile is_digit (rev b)"
    using assms(3) by (intro dropWhile_all) auto
  also have "\<dots> = rev b" using assms(1,2) by (simp add: dropWhile_eq_self_iff hd_rev)
  finally show ?thesis by (simp add: trim_end_digits_def)
qed

text \<open>
  Naming and parsing of partition devices agree: for every disk name, unless it ends in a
  digit followed by a p, splitting the name of its partition n gives the disk name and the
  separator it was built with.
\<close>

lemma split_partition_suffix_roundtrip:
  fixes n :: u32
  assumes "disk_name \<noteq> []" and "\<And>d. disk_name = d @ ''p'' \<Longrightarrow> partition_sep_for_name d = []"
  shows "split_partition_suffix (disk_name @ partition_sep_for_name disk_name @ show_word n)
    = Inr (disk_name, partition_sep_for_name disk_name)"
proof (cases "is_digit (last disk_name)")
  case True
  have "trim_end_digits ((disk_name @ ''p'') @ show_word n) = disk_name @ ''p''"
    using not_digit show_word_digits by (intro trim_end_digits_append) auto
  moreover have "strip_suffix ''p'' (disk_name @ ''p'') = Some disk_name" by simp
  ultimately show ?thesis
    using True assms(1)
    by (simp add: split_partition_suffix_def partition_sep_for_name_def del: strip_suffix_Some)
next
  case False
  have t: "trim_end_digits (disk_name @ show_word n) = disk_name"
    using False assms(1) show_word_digits by (intro trim_end_digits_append) auto
  have "(case strip_suffix ''p'' disk_name of Some d \<Rightarrow>
      if partition_sep_for_name d = ''p'' then d else disk_name | None \<Rightarrow> disk_name) = disk_name"
    using assms(2) by (auto split: option.split)
  then show ?thesis
    using False assms(1) t by (simp add: split_partition_suffix_def partition_sep_for_name_def)
qed

lemma split_partition_suffix_roundtrip_witness:
  "split_partition_suffix (''mmcblk0'' @ partition_sep_for_name ''mmcblk0'' @ show_word (3 :: u32))
    = Inr (''mmcblk0'', partition_sep_for_name ''mmcblk0'')"
  by (rule split_partition_suffix_roundtrip) (simp_all add: Cons_eq_append_conv)

end
