(* ===== verification/Layout.thy ===== *)
theory Layout
  imports Device
begin

text \<open>
  \<open>src/partition/layout.rs\<close> and \<open>src/partition/symlinks.rs\<close>: the partition map of the running
  disk and the links below \<open>/dev/omnect\<close>. The kind of partition table is a build feature.
\<close>

section \<open>The partition map\<close>

record partition_layout =
  partitions :: "partition_name \<Rightarrow> string option"
  root_dev :: root_device

definition PARTITION_NUM_BOOT :: u32 where "PARTITION_NUM_BOOT = 1"
definition PARTITION_NUM_ROOT_A :: u32 where "PARTITION_NUM_ROOT_A = 2"
definition PARTITION_NUM_ROOT_B :: u32 where "PARTITION_NUM_ROOT_B = 3"
definition PARTITION_NUM_EXTENDED :: u32 where "PARTITION_NUM_EXTENDED = 4"

definition PARTITION_NUM_FACTORY :: "table_kind \<Rightarrow> u32" where
  "PARTITION_NUM_FACTORY t = (case t of Gpt \<Rightarrow> 4 | Dos \<Rightarrow> 5)"
definition PARTITION_NUM_CERT :: "table_kind \<Rightarrow> u32" where
  "PARTITION_NUM_CERT t = (case t of Gpt \<Rightarrow> 5 | Dos \<Rightarrow> 6)"
definition PARTITION_NUM_ETC :: "table_kind \<Rightarrow> u32" where
  "PARTITION_NUM_ETC t = (case t of Gpt \<Rightarrow> 6 | Dos \<Rightarrow> 7)"
definition PARTITION_NUM_DATA :: "table_kind \<Rightarrow> u32" where
  "PARTITION_NUM_DATA t = (case t of Gpt \<Rightarrow> 7 | Dos \<Rightarrow> 8)"

definition partition_suffix :: "string \<Rightarrow> u32 option" where
  "partition_suffix p = (case file_name p of
     None \<Rightarrow> None
   | Some s \<Rightarrow> parse_u32 (rev (takeWhile is_digit (rev s))))"

definition build_partition_map ::
  "table_kind \<Rightarrow> root_device \<Rightarrow> partition_error + (partition_name \<Rightarrow> string option)" where
  "build_partition_map t dev =
     (let part = root_device_partition_path dev;
          start = Map.empty(Boot \<mapsto> part PARTITION_NUM_BOOT,
                            RootA \<mapsto> part PARTITION_NUM_ROOT_A,
                            RootB \<mapsto> part PARTITION_NUM_ROOT_B);
          root_current = (case partition_suffix (root_partition dev) of
              Some n \<Rightarrow> if n = PARTITION_NUM_ROOT_A then Some (part PARTITION_NUM_ROOT_A)
                        else if n = PARTITION_NUM_ROOT_B then Some (part PARTITION_NUM_ROOT_B)
                        else None
            | None \<Rightarrow> None)
      in case root_current of
           None \<Rightarrow> Inl (UnknownRootPartition (root_partition dev))
         | Some cur \<Rightarrow>
             (let m = start(RootCurrent \<mapsto> cur);
                  m = (case t of Dos \<Rightarrow> m(Extended \<mapsto> part PARTITION_NUM_EXTENDED) | Gpt \<Rightarrow> m)
              in Inr (m(Factory \<mapsto> part (PARTITION_NUM_FACTORY t),
                        Cert \<mapsto> part (PARTITION_NUM_CERT t),
                        Etc \<mapsto> part (PARTITION_NUM_ETC t),
                        Data \<mapsto> part (PARTITION_NUM_DATA t)))))"

definition new_layout :: "table_kind \<Rightarrow> root_device \<Rightarrow> partition_error + partition_layout" where
  "new_layout t dev = (case build_partition_map t dev of
     Inl e \<Rightarrow> Inl e | Inr m \<Rightarrow> Inr \<lparr>partitions = m, root_dev = dev\<rparr>)"

definition layout_get :: "partition_layout \<Rightarrow> partition_name \<Rightarrow> string option" where
  "layout_get l name = partitions l name"

definition is_root_a :: "partition_layout \<Rightarrow> bool" where
  "is_root_a l \<longleftrightarrow> partition_suffix (root_partition (root_dev l)) = Some PARTITION_NUM_ROOT_A"

definition root_current :: "partition_layout \<Rightarrow> string" where
  "root_current l =
     (if is_root_a l then
        (case partitions l RootA of Some p \<Rightarrow> p
         | None \<Rightarrow> root_device_partition_path (root_dev l) PARTITION_NUM_ROOT_A)
      else
        (case partitions l RootB of Some p \<Rightarrow> p
         | None \<Rightarrow> root_device_partition_path (root_dev l) PARTITION_NUM_ROOT_B))"

section \<open>Links below /dev/omnect\<close>

definition OMNECT_DEV_DIR :: string where "OMNECT_DEV_DIR = ''/dev/omnect''"
definition ROOTBLK_SYMLINK_NAME :: string where "ROOTBLK_SYMLINK_NAME = ''rootblk''"

definition symlink_path :: "string \<Rightarrow> string" where
  "symlink_path name = path_join OMNECT_DEV_DIR name"

definition create_symlink_dir :: "'w os \<Rightarrow> (('w, 'p) machine, partition_error, unit) io" where
  "create_symlink_dir os = bindE (sys_bool os (Exists OMNECT_DEV_DIR)) (\<lambda>there.
     if there then ret ()
     else map_err (\<lambda>e. SymlinkFailed OMNECT_DEV_DIR [] (''Failed to create directory: '' @ show_io e))
            (sys_unit os (MakeDirs OMNECT_DEV_DIR)))"

text \<open>\<open>a || b\<close> asks the second question only when the first says no.\<close>

definition or_else :: "('s, 'e, bool) io \<Rightarrow> ('s, 'e, bool) io \<Rightarrow> ('s, 'e, bool) io" where
  "or_else a b = bindE a (\<lambda>x. if x then ret True else b)"

definition create_symlink :: "'w os \<Rightarrow> string \<Rightarrow> string \<Rightarrow> (('w, 'p) machine, partition_error, unit) io" where
  "create_symlink os tgt lnk =
     bindE (or_else (sys_bool os (IsSymlink lnk)) (sys_bool os (Exists lnk))) (\<lambda>present.
     bindE (if \<not> present then ret () else
         bindE (sys_bool os (IsSymlink lnk)) (\<lambda>is_link.
         bindE (if is_link then ret False else sys_bool os (IsDir lnk)) (\<lambda>plain_dir.
           if plain_dir then throw (SymlinkRemoveFailed lnk ''path is a directory, cannot replace with symlink'')
           else map_err (\<lambda>e. SymlinkRemoveFailed lnk (show_io e)) (sys_unit os (RemoveFile lnk))))) (\<lambda>_.
     map_err (\<lambda>e. SymlinkFailed lnk tgt (show_io e)) (sys_unit os (MakeSymlink tgt lnk))))"

text \<open>The code iterates over a hash map: \<open>order\<close> is the order in which it gives the entries.\<close>

definition create_omnect_symlinks ::
  "'w os \<Rightarrow> partition_name list \<Rightarrow> partition_layout \<Rightarrow> (('w, 'p) machine, partition_error, unit) io" where
  "create_omnect_symlinks os order l =
     bindE (create_symlink_dir os) (\<lambda>_.
     bindE (create_symlink os (base (root_dev l)) (symlink_path ROOTBLK_SYMLINK_NAME)) (\<lambda>_.
     for_each order (\<lambda>name. case partitions l name of
        None \<Rightarrow> ret ()
      | Some dev \<Rightarrow> create_symlink os dev (symlink_path (partition_name_str name)))))"

definition verify_symlink :: "'w os \<Rightarrow> string \<Rightarrow> string \<Rightarrow> (('w, 'p) machine, partition_error, unit) io" where
  "verify_symlink os lnk expected =
     bindE (sys_bool os (IsSymlink lnk)) (\<lambda>is_link.
     if \<not> is_link then throw (SymlinkFailed lnk expected ''Symlink does not exist'')
     else bindE (map_err PartitionIo (sys_text os (ReadLink lnk))) (\<lambda>actual.
       if \<not> path_eq actual expected
       then throw (SymlinkFailed lnk expected (''Symlink points to '' @ actual @ '' instead of '' @ expected))
       else ret ()))"

definition verify_symlinks ::
  "'w os \<Rightarrow> partition_name list \<Rightarrow> partition_layout \<Rightarrow> (('w, 'p) machine, partition_error, unit) io" where
  "verify_symlinks os order l =
     bindE (verify_symlink os (symlink_path ROOTBLK_SYMLINK_NAME) (base (root_dev l))) (\<lambda>_.
     for_each order (\<lambda>name. case partitions l name of
        None \<Rightarrow> ret ()
      | Some dev \<Rightarrow> verify_symlink os (symlink_path (partition_name_str name)) dev))"

section \<open>Facts\<close>

lemmas partition_nums = PARTITION_NUM_BOOT_def PARTITION_NUM_ROOT_A_def PARTITION_NUM_ROOT_B_def
  PARTITION_NUM_EXTENDED_def PARTITION_NUM_FACTORY_def PARTITION_NUM_CERT_def
  PARTITION_NUM_ETC_def PARTITION_NUM_DATA_def

text \<open>The number of each partition that has one of its own.\<close>

definition partition_number_of :: "table_kind \<Rightarrow> partition_name \<Rightarrow> u32" where
  "partition_number_of t p = (case p of Boot \<Rightarrow> 1 | RootA \<Rightarrow> 2 | RootB \<Rightarrow> 3 | RootCurrent \<Rightarrow> 0
     | Extended \<Rightarrow> PARTITION_NUM_EXTENDED
     | Factory \<Rightarrow> PARTITION_NUM_FACTORY t | Cert \<Rightarrow> PARTITION_NUM_CERT t
     | Etc \<Rightarrow> PARTITION_NUM_ETC t | Data \<Rightarrow> PARTITION_NUM_DATA t)"

lemma partition_path_inj: "partition_path d sep a = partition_path d sep b \<longleftrightarrow> a = b"
  by (simp add: partition_path_def)

lemma build_partition_map_ok:
  assumes "build_partition_map t dev = Inr m"
  shows "m p = (if p = RootCurrent then (if partition_suffix (root_partition dev) = Some 2 then m RootA else m RootB)
     else if p = Extended \<and> t = Gpt then None
     else Some (root_device_partition_path dev (partition_number_of t p)))"
    and "partition_suffix (root_partition dev) \<in> {Some 2, Some 3}"
  using assms
  by (cases p; auto simp: build_partition_map_def Let_def partition_number_of_def partition_nums
      split: option.splits if_splits table_kind.splits)+

lemma new_layoutE:
  assumes "new_layout t dev = Inr l"
  obtains "build_partition_map t dev = Inr (partitions l)" and "root_dev l = dev"
  using assms by (auto simp: new_layout_def split: sum.splits)

lemma partition_number_inj:
  assumes "partition_number_of t p = partition_number_of t q"
    and "t = Gpt \<Longrightarrow> p \<noteq> Extended \<and> q \<noteq> Extended"
  shows "p = q"
  using assms by (cases t; cases p; cases q) (simp_all add: partition_number_of_def partition_nums)

lemma layout_facts:
  assumes "new_layout t dev = Inr l"
  shows "layout_get l p = layout_get l q \<longrightarrow> layout_get l p \<noteq> None \<longrightarrow>
           p \<noteq> RootCurrent \<longrightarrow> q \<noteq> RootCurrent \<longrightarrow> p = q"
    and "layout_get l p = None \<longleftrightarrow> p = Extended \<and> t = Gpt"
    and "layout_get l RootCurrent = Some (root_current l)"
    and "root_current l = root_device_partition_path dev (if is_root_a l then 2 else 3)"
    and "partition_suffix (root_partition dev) = Some (if is_root_a l then 2 else 3)"
proof -
  from assms have m: "build_partition_map t dev = Inr (partitions l)" and d: "root_dev l = dev"
    by (auto elim: new_layoutE)
  note ok = build_partition_map_ok [OF m]
  show "layout_get l p = layout_get l q \<longrightarrow> layout_get l p \<noteq> None \<longrightarrow>
      p \<noteq> RootCurrent \<longrightarrow> q \<noteq> RootCurrent \<longrightarrow> p = q"
    using ok(1) [of p] ok(1) [of q] partition_number_inj [of t p q]
    by (auto simp: layout_get_def root_device_partition_path_def partition_path_inj split: if_splits)
  show "layout_get l p = None \<longleftrightarrow> p = Extended \<and> t = Gpt"
    using ok(1) [of p] ok(1) [of RootA] ok(1) [of RootB] by (simp add: layout_get_def)
  show "layout_get l RootCurrent = Some (root_current l)"
    using ok(1) [of RootCurrent] ok(1) [of RootA] ok(1) [of RootB]
    by (simp add: layout_get_def root_current_def is_root_a_def d PARTITION_NUM_ROOT_A_def)
  show "root_current l = root_device_partition_path dev (if is_root_a l then 2 else 3)"
    using ok(1) [of RootA] ok(1) [of RootB]
    by (simp add: root_current_def is_root_a_def d PARTITION_NUM_ROOT_A_def partition_number_of_def)
  show "partition_suffix (root_partition dev) = Some (if is_root_a l then 2 else 3)"
    using ok(2) by (auto simp: is_root_a_def d PARTITION_NUM_ROOT_A_def)
qed

text \<open>
  C33: The partition map. Once a layout is built, two partitions never share a device (apart from
  the alias of the running root), every partition of the table is present, and the alias names
  the partition the kernel booted from, which is root A or root B.
\<close>

theorem layout_correct:
  assumes "new_layout t dev = Inr l"
  shows "inj_on (layout_get l) (dom (layout_get l) - {RootCurrent})
    \<and> dom (layout_get l) = (if t = Gpt then - {Extended} else UNIV)
    \<and> layout_get l RootCurrent = Some (root_current l)
    \<and> root_current l = root_device_partition_path dev (if is_root_a l then 2 else 3)
    \<and> partition_suffix (root_partition dev) = Some (if is_root_a l then 2 else 3)"
  using layout_facts [OF assms] by (auto simp: inj_on_def dom_def)

definition sda_root :: "string \<Rightarrow> root_device" where
  "sda_root part = \<lparr>base = ''/dev/sda'', partition_sep = [], root_partition = part\<rparr>"

lemma partition_suffix_sda3: "partition_suffix ''/dev/sda3'' = Some 3"
proof -
  have "file_name (''/dev'' @ slash # ''sda3'') = Some ''sda3''" by (rule file_name_snoc) simp_all
  moreover have "parse_u32 ''3'' = Some 3"
    by (simp add: parse_u32_def parse_uint_def parse_digits_def is_digit_def digits_val_def digit_val_def)
  ultimately show ?thesis by (simp add: partition_suffix_def is_digit_def)
qed

lemma layout_correct_witness:
  "\<exists>l. new_layout Dos (sda_root ''/dev/sda3'') = Inr l
     \<and> layout_get l RootCurrent = Some (root_current l)"
proof -
  have "\<exists>l. new_layout Dos (sda_root ''/dev/sda3'') = Inr l"
    by (simp add: new_layout_def build_partition_map_def Let_def sda_root_def partition_suffix_sda3 partition_nums)
  then show ?thesis using layout_correct by blast
qed

end
