(* ===== verification/Boot_Env.thy ===== *)
theory Boot_Env
  imports Errors Utf8
begin

text \<open>
  \<open>src/bootloader/mod.rs\<close> and \<open>src/bootloader/types.rs\<close>: the boot environment trait as a record of
  operations over the state they act on, its provided methods, the states a boot environment can
  be in, and the encoding of fsck records. The applets \<open>gzip\<close>, \<open>gunzip\<close> and \<open>base64\<close> are external
  commands: the model passes them the bytes the code passes, and takes what they answer.
\<close>

section \<open>The trait\<close>

record fsck_record =
  rec_exit_code :: fsck_code
  rec_output :: string

record 's boot_env =
  get_env :: "boot_env_key \<Rightarrow> ('s, boot_env_error, string option) io"
  set_env :: "boot_env_key \<Rightarrow> string option \<Rightarrow> ('s, boot_env_error, unit) io"
  save_fsck_status :: "partition_name \<Rightarrow> fsck_code \<Rightarrow> string \<Rightarrow> ('s, boot_env_error, unit) io"
  get_fsck_status :: "partition_name \<Rightarrow> ('s, boot_env_error, fsck_record option) io"
  clear_fsck_status :: "partition_name \<Rightarrow> ('s, boot_env_error, unit) io"

definition FIRST_BOOT_DONE :: string where "FIRST_BOOT_DONE = ''1''"

definition UPDATE_FLAGS :: "boot_env_key list" where
  "UPDATE_FLAGS = [ValidateUpdate, ValidateUpdateFailed, BootloaderUpdated]"

definition MAX_FACTORY_RESET_FAILURE_REASON_LEN :: nat where
  "MAX_FACTORY_RESET_FAILURE_REASON_LEN = 128"

text \<open>Any value that is not empty counts as a flag that is set.\<close>

definition is_flag_set :: "'s boot_env \<Rightarrow> boot_env_key \<Rightarrow> ('s, boot_env_error, bool) io" where
  "is_flag_set be k = bindE (get_env be k)
     (\<lambda>v. ret (case v of None \<Rightarrow> False | Some t \<Rightarrow> t \<noteq> []))"

definition is_first_boot_done :: "'s boot_env \<Rightarrow> ('s, boot_env_error, bool) io" where
  "is_first_boot_done be = bindE (get_env be FirstBootDone) (\<lambda>v. ret (v = Some FIRST_BOOT_DONE))"

definition set_first_boot_done :: "'s boot_env \<Rightarrow> ('s, boot_env_error, unit) io" where
  "set_first_boot_done be = set_env be FirstBootDone (Some FIRST_BOOT_DONE)"

definition save_factory_reset_failure ::
  "'s boot_env \<Rightarrow> partition_name \<Rightarrow> string \<Rightarrow> ('s, boot_env_error, unit) io" where
  "save_factory_reset_failure be p why =
     set_env be FactoryResetLastError (Some (partition_name_str p @ '':''
       @ truncate_on_char_boundary why MAX_FACTORY_RESET_FAILURE_REASON_LEN))"

definition sync_filesystems :: "'w os \<Rightarrow> (('w, 'p) machine, 'e, unit) io" where
  "sync_filesystems os = ignore (sys_unit os SyncAll)"

section \<open>States of the environment\<close>

datatype 's boot_env_state = Available "'s boot_env" | Degraded boot_env_error

datatype 's boot_env_decision = Continue_With "'s boot_env_state" | Abort initramfs_error

definition is_degraded :: "'s boot_env_state \<Rightarrow> bool" where
  "is_degraded st = (case st of Degraded _ \<Rightarrow> True | Available _ \<Rightarrow> False)"

definition available :: "'s boot_env_state \<Rightarrow> 's boot_env option" where
  "available st = (case st of Available b \<Rightarrow> Some b | Degraded _ \<Rightarrow> None)"

definition classify_boot_env :: "boot_env_error + 's boot_env \<Rightarrow> bool \<Rightarrow> 's boot_env_decision" where
  "classify_boot_env open_result is_release_image = (case open_result of
     Inr bl \<Rightarrow> Continue_With (Available bl)
   | Inl e \<Rightarrow> if is_release_image then Continue_With (Degraded e) else Abort (DegradedBoot e))"

section \<open>Encoding of fsck records\<close>

definition GZIP_CMD :: string where "GZIP_CMD = ''/bin/gzip''"
definition GUNZIP_CMD :: string where "GUNZIP_CMD = ''/bin/gunzip''"
definition BASE64_CMD :: string where "BASE64_CMD = ''/bin/base64''"

text \<open>\<open>"{code}\n{output}"\<close>.\<close>

definition fsck_text :: "i32 \<Rightarrow> string \<Rightarrow> string" where
  "fsck_text code out = show_i32 code @ newline # out"

definition encode_fsck_output :: "'w os \<Rightarrow> i32 \<Rightarrow> string \<Rightarrow> (('w, 'p) machine, 'e, string) io" where
  "encode_fsck_output os code out =
     caught (sys_run os (Spawn GZIP_CMD [''-c''] (fsck_text code out))) (\<lambda>g. case g of
         Inl _ \<Rightarrow> ret []
       | Inr gz \<Rightarrow> if \<not> success gz then ret []
           else caught (sys_run os (Spawn BASE64_CMD [''-w'', ''0''] (stdout gz))) (\<lambda>b. case b of
               Inl _ \<Rightarrow> ret []
             | Inr b64 \<Rightarrow> if \<not> success b64 then ret [] else ret (trim (utf8_lossy (stdout b64)))))"

definition unpack_fsck_text :: "'w os \<Rightarrow> string \<Rightarrow> (('w, 'p) machine, io_error, string option) io" where
  "unpack_fsck_text os encoded =
     bindE (sys_run os (Spawn BASE64_CMD [''-d''] encoded)) (\<lambda>b64.
       if \<not> success b64 then ret None
       else bindE (sys_run os (Spawn GUNZIP_CMD [''-c''] (stdout b64))) (\<lambda>gz.
         if \<not> success gz then ret None else ret (Some (utf8_lossy (stdout gz)))))"

definition parse_fsck_text :: "string \<Rightarrow> fsck_record option" where
  "parse_fsck_text raw = (case split_once newline raw of
     None \<Rightarrow> None
   | Some (code_str, out) \<Rightarrow> (case parse_i32 (trim code_str) of
       None \<Rightarrow> None
     | Some code \<Rightarrow> Some \<lparr>rec_exit_code = code, rec_output = out\<rparr>))"

definition decode_fsck_output :: "'w os \<Rightarrow> string \<Rightarrow> (('w, 'p) machine, 'e, fsck_record option) io" where
  "decode_fsck_output os encoded = caught (unpack_fsck_text os encoded) (\<lambda>r. case r of
     Inr (Some raw) \<Rightarrow> ret (parse_fsck_text raw) | _ \<Rightarrow> ret None)"

definition invalid_fsck_record :: "boot_env_key \<Rightarrow> string \<Rightarrow> boot_env_error" where
  "invalid_fsck_record k why = InvalidValue (boot_env_key_str k) (''fsck record '' @ why)"

definition get_fsck_env :: "'w os \<Rightarrow>
    (boot_env_key \<Rightarrow> (('w, 'p) machine, boot_env_error, string option) io) \<Rightarrow>
    partition_name \<Rightarrow> (('w, 'p) machine, boot_env_error, fsck_record option) io" where
  "get_fsck_env os get p =
     bindE (get (FsckStatus p)) (\<lambda>v. case v of
         None \<Rightarrow> ret None
       | Some encoded \<Rightarrow> caught (unpack_fsck_text os encoded) (\<lambda>u. case u of
             Inl _ \<Rightarrow> ret None
           | Inr None \<Rightarrow> throw (invalid_fsck_record (FsckStatus p) ''does not unpack'')
           | Inr (Some raw) \<Rightarrow> (case parse_fsck_text raw of
                 Some r \<Rightarrow> ret (Some r)
               | None \<Rightarrow> throw (invalid_fsck_record (FsckStatus p) ''has no exit code''))))"

section \<open>The text of a record\<close>

lemma show_i32_no_ws: "c \<in> set (show_i32 w) \<Longrightarrow> \<not> is_ws c"
  using show_i32_chars [of c w] is_ws_not_digit [of c] by (auto simp: is_ws_def)

lemma show_i32_no_newline: "newline \<notin> set (show_i32 w)"
  using show_i32_no_ws [of newline w] by (auto simp: is_ws_def)

text \<open>Parsing undoes formatting, whatever the exit code and the output of fsck.\<close>

lemma parse_fsck_text_roundtrip:
  "parse_fsck_text (fsck_text code out) = Some \<lparr>rec_exit_code = code, rec_output = out\<rparr>"
proof -
  have "split_once newline (fsck_text code out) = Some (show_i32 code, out)"
    by (simp add: fsck_text_def split_once_Some show_i32_no_newline)
  moreover have "trim (show_i32 code) = show_i32 code"
    by (rule trim_no_ws) (rule show_i32_no_ws)
  ultimately show ?thesis by (simp add: parse_fsck_text_def)
qed

end
