(* ===== verification/Boot_Env_Impl.thy ===== *)
theory Boot_Env_Impl
  imports Boot_Env
begin

text \<open>
  The implementations of the boot environment: GRUB (\<open>src/bootloader/grub.rs\<close>, the external
  command \<open>grub-editenv\<close> and files on the boot partition), U-Boot (\<open>src/bootloader/uboot.rs\<close>, the
  external commands \<open>fw_printenv\<close> and \<open>fw_setenv\<close>) and the in-memory one of
  \<open>src/bootloader/mod.rs\<close>, with its error injection.
\<close>

section \<open>GRUB\<close>

definition GRUB_EDITENV_CMD :: string where "GRUB_EDITENV_CMD = ''/bin/grub-editenv''"
definition BOOT_DIR_PATH :: string where "BOOT_DIR_PATH = ''/rootfs/boot''"
definition GRUBENV_PATH :: string where "GRUBENV_PATH = ''/rootfs/boot/EFI/BOOT/grubenv''"
definition FSCK_OUTPUT_TOO_LARGE :: string where
  "FSCK_OUTPUT_TOO_LARGE = ''fsck output too large for the boot env''"

definition fsck_file_path :: "partition_name \<Rightarrow> string" where
  "fsck_file_path p = path_join BOOT_DIR_PATH (''fsck.'' @ partition_name_str p)"

datatype fsck_channel = EnvChannel | FileChannel

definition for_partition :: "partition_name \<Rightarrow> fsck_channel" where
  "for_partition p = (case p of Boot \<Rightarrow> EnvChannel | _ \<Rightarrow> FileChannel)"

definition io_err :: "string \<Rightarrow> string \<Rightarrow> io_error \<Rightarrow> boot_env_error" where
  "io_err act file_path e = EnvCommandFailed (act @ '' '' @ file_path) (show_io e)"

definition write_boot_fsck_record ::
  "'w os \<Rightarrow> fsck_code \<Rightarrow> string \<Rightarrow> (string \<Rightarrow> (('w, 'p) machine, boot_env_error, unit) io) \<Rightarrow>
   (('w, 'p) machine, boot_env_error, unit) io" where
  "write_boot_fsck_record os code encoded write =
     caught (write encoded) (\<lambda>r. case r of
         Inr _ \<Rightarrow> ret ()
       | Inl _ \<Rightarrow> bindE (encode_fsck_output os code FSCK_OUTPUT_TOO_LARGE) write)"

definition save_fsck_to_file :: "'w os \<Rightarrow> partition_name \<Rightarrow> string \<Rightarrow> (('w, 'p) machine, boot_env_error, unit) io" where
  "save_fsck_to_file os p encoded =
     bindE (map_err (io_err ''write'' (fsck_file_path p)) (sys_unit os (WriteFile (fsck_file_path p) encoded)))
       (\<lambda>_. sync_filesystems os)"

definition get_fsck_from_file :: "'w os \<Rightarrow> partition_name \<Rightarrow> (('w, 'p) machine, boot_env_error, fsck_record option) io" where
  "get_fsck_from_file os p = (let file_path = fsck_file_path p in
     bindE (sys_bool os (IsFile file_path)) (\<lambda>there.
       if \<not> there then ret None
       else bindE (map_err (io_err ''read'' file_path) (sys_text os (ReadText file_path))) (\<lambda>encoded.
         bindE (ignore (sys_unit os (RemoveFile file_path))) (\<lambda>_.
         decode_fsck_output os encoded))))"

definition clear_fsck_file :: "'w os \<Rightarrow> partition_name \<Rightarrow> (('w, 'p) machine, boot_env_error, unit) io" where
  "clear_fsck_file os p = (let file_path = fsck_file_path p in
     bindE (sys_bool os (Exists file_path)) (\<lambda>there.
       if there then
         bindE (map_err (io_err ''remove'' file_path) (sys_unit os (RemoveFile file_path)))
           (\<lambda>_. sync_filesystems os)
       else ret ()))"

definition run_grub_editenv :: "'w os \<Rightarrow> string list \<Rightarrow> (('w, 'p) machine, boot_env_error, string) io" where
  "run_grub_editenv os args =
     bindE (map_err (\<lambda>e. EnvCommandFailed GRUB_EDITENV_CMD (show_io e))
              (sys_run os (Spawn GRUB_EDITENV_CMD (GRUBENV_PATH # args) []))) (\<lambda>out.
       if \<not> success out
       then throw (EnvCommandExitCode GRUB_EDITENV_CMD (exit_code out) (utf8_lossy (stderr out)))
       else ret (utf8_lossy (stdout out)))"

text \<open>The value of the first line \<open>key=value\<close> of a listing.\<close>

fun find_assignment :: "string \<Rightarrow> string list \<Rightarrow> string option" where
  "find_assignment k [] = None"
| "find_assignment k (l # ls) = (case split_once (CHR ''='') l of
     Some (k', v) \<Rightarrow> if k' = k then Some v else find_assignment k ls
   | None \<Rightarrow> find_assignment k ls)"

definition grub_get_env :: "'w os \<Rightarrow> boot_env_key \<Rightarrow> (('w, 'p) machine, boot_env_error, string option) io" where
  "grub_get_env os k = bindE (run_grub_editenv os [''list''])
     (\<lambda>out. ret (find_assignment (boot_env_key_str k) (rust_lines out)))"

definition grub_set_env :: "'w os \<Rightarrow> boot_env_key \<Rightarrow> string option \<Rightarrow> (('w, 'p) machine, boot_env_error, unit) io" where
  "grub_set_env os k v =
     bindE (case v of
         Some t \<Rightarrow> run_grub_editenv os [''set'', boot_env_key_str k @ ''='' @ t]
       | None \<Rightarrow> run_grub_editenv os [''unset'', boot_env_key_str k]) (\<lambda>_.
     sync_filesystems os)"

definition grub_save_fsck_status ::
  "'w os \<Rightarrow> partition_name \<Rightarrow> fsck_code \<Rightarrow> string \<Rightarrow> (('w, 'p) machine, boot_env_error, unit) io" where
  "grub_save_fsck_status os p code out =
     bindE (encode_fsck_output os code out) (\<lambda>encoded. case for_partition p of
         EnvChannel \<Rightarrow> write_boot_fsck_record os code encoded
           (\<lambda>payload. grub_set_env os (FsckStatus p) (Some payload))
       | FileChannel \<Rightarrow> save_fsck_to_file os p encoded)"

definition grub_get_fsck_status :: "'w os \<Rightarrow> partition_name \<Rightarrow> (('w, 'p) machine, boot_env_error, fsck_record option) io" where
  "grub_get_fsck_status os p = (case for_partition p of
     EnvChannel \<Rightarrow> get_fsck_env os (grub_get_env os) p
   | FileChannel \<Rightarrow> get_fsck_from_file os p)"

definition grub_clear_fsck_status :: "'w os \<Rightarrow> partition_name \<Rightarrow> (('w, 'p) machine, boot_env_error, unit) io" where
  "grub_clear_fsck_status os p = (case for_partition p of
     EnvChannel \<Rightarrow> grub_set_env os (FsckStatus p) None
   | FileChannel \<Rightarrow> clear_fsck_file os p)"

definition grub_boot_env :: "'w os \<Rightarrow> ('w, 'p) machine boot_env" where
  "grub_boot_env os = \<lparr>get_env = grub_get_env os, set_env = grub_set_env os,
     save_fsck_status = grub_save_fsck_status os, get_fsck_status = grub_get_fsck_status os,
     clear_fsck_status = grub_clear_fsck_status os\<rparr>"

definition new_grub_boot_env :: "'w os \<Rightarrow> (('w, 'p) machine, boot_env_error, ('w, 'p) machine boot_env) io" where
  "new_grub_boot_env os = bindE (sys_bool os (IsFile GRUBENV_PATH)) (\<lambda>there.
     if \<not> there then throw (EnvFileNotFound GRUBENV_PATH) else ret (grub_boot_env os))"

section \<open>U-Boot\<close>

definition FW_PRINTENV_CMD :: string where "FW_PRINTENV_CMD = ''/bin/fw_printenv''"
definition FW_SETENV_CMD :: string where "FW_SETENV_CMD = ''/bin/fw_setenv''"

definition run_fw_printenv :: "'w os \<Rightarrow> string \<Rightarrow> (('w, 'p) machine, boot_env_error, string option) io" where
  "run_fw_printenv os var =
     bindE (map_err (\<lambda>e. EnvCommandFailed FW_PRINTENV_CMD (show_io e))
              (sys_run os (Spawn FW_PRINTENV_CMD [''-n'', var] []))) (\<lambda>out.
       if exit_code out = Some 0 then
         (let v = trim (utf8_lossy (stdout out)) in ret (if v = [] then None else Some v))
       else if exit_code out = Some 1 then ret None
       else throw (EnvCommandExitCode FW_PRINTENV_CMD (exit_code out) (utf8_lossy (stderr out))))"

definition run_fw_setenv :: "'w os \<Rightarrow> string \<Rightarrow> string option \<Rightarrow> (('w, 'p) machine, boot_env_error, unit) io" where
  "run_fw_setenv os var v =
     bindE (map_err (\<lambda>e. EnvCommandFailed FW_SETENV_CMD (show_io e))
              (sys_run os (Spawn FW_SETENV_CMD (var # (case v of None \<Rightarrow> [] | Some t \<Rightarrow> [t])) []))) (\<lambda>out.
       if \<not> success out
       then throw (EnvCommandExitCode FW_SETENV_CMD (exit_code out) (utf8_lossy (stderr out)))
       else ret ())"

definition uboot_get_env :: "'w os \<Rightarrow> boot_env_key \<Rightarrow> (('w, 'p) machine, boot_env_error, string option) io" where
  "uboot_get_env os k = run_fw_printenv os (boot_env_key_str k)"

definition uboot_set_env :: "'w os \<Rightarrow> boot_env_key \<Rightarrow> string option \<Rightarrow> (('w, 'p) machine, boot_env_error, unit) io" where
  "uboot_set_env os k v = run_fw_setenv os (boot_env_key_str k) v"

text \<open>U-Boot keeps the provided methods of the trait for fsck records.\<close>

definition default_save_fsck_status ::
  "'w os \<Rightarrow> (boot_env_key \<Rightarrow> string option \<Rightarrow> (('w, 'p) machine, boot_env_error, unit) io) \<Rightarrow>
   partition_name \<Rightarrow> fsck_code \<Rightarrow> string \<Rightarrow> (('w, 'p) machine, boot_env_error, unit) io" where
  "default_save_fsck_status os put p code out =
     bindE (encode_fsck_output os code out) (\<lambda>encoded. put (FsckStatus p) (Some encoded))"

definition default_clear_fsck_status ::
  "(boot_env_key \<Rightarrow> string option \<Rightarrow> (('w, 'p) machine, boot_env_error, unit) io) \<Rightarrow>
   partition_name \<Rightarrow> (('w, 'p) machine, boot_env_error, unit) io" where
  "default_clear_fsck_status put p = put (FsckStatus p) None"

definition uboot_boot_env :: "'w os \<Rightarrow> ('w, 'p) machine boot_env" where
  "uboot_boot_env os = \<lparr>get_env = uboot_get_env os, set_env = uboot_set_env os,
     save_fsck_status = default_save_fsck_status os (uboot_set_env os),
     get_fsck_status = get_fsck_env os (uboot_get_env os),
     clear_fsck_status = default_clear_fsck_status (uboot_set_env os)\<rparr>"

definition open_boot_env :: "features \<Rightarrow> 'w os \<Rightarrow> (('w, 'p) machine, boot_env_error, ('w, 'p) machine boot_env) io" where
  "open_boot_env ft os = (case bootloader ft of
     Grub \<Rightarrow> new_grub_boot_env os | UBoot \<Rightarrow> ret (uboot_boot_env os))"

section \<open>The in-memory environment\<close>

record mock_env =
  mock_vars :: "string \<Rightarrow> string option"
  mock_fsck :: "partition_name \<Rightarrow> fsck_record option"
  set_env_calls :: "boot_env_key list"
  get_env_errors :: bool
  get_env_ok_calls :: "nat option"
  get_env_seen :: nat
  get_env_error_keys :: "boot_env_key list"
  set_env_errors :: bool
  set_env_error_keys :: "boot_env_key list"
  set_env_normalize :: "string option"
  saved_fsck_calls :: "(partition_name \<times> fsck_code \<times> string) list"
  save_fsck_errors :: bool
  get_fsck_errors :: bool
  undecodable_fsck :: "partition_name set"

definition mock_new :: mock_env where
  "mock_new = \<lparr>mock_vars = Map.empty, mock_fsck = Map.empty, set_env_calls = [], get_env_errors = False,
     get_env_ok_calls = None, get_env_seen = 0, get_env_error_keys = [], set_env_errors = False,
     set_env_error_keys = [], set_env_normalize = None, saved_fsck_calls = [],
     save_fsck_errors = False, get_fsck_errors = False, undecodable_fsck = {}\<rparr>"

definition with_env :: "boot_env_key \<Rightarrow> string \<Rightarrow> mock_env \<Rightarrow> mock_env" where
  "with_env k v m = m\<lparr>mock_vars := (mock_vars m)(boot_env_key_str k \<mapsto> v)\<rparr>"

definition mock_error :: "string \<Rightarrow> boot_env_error" where
  "mock_error why = EnvCommandFailed ''mock'' why"

definition mock_get_env :: "boot_env_key \<Rightarrow> (mock_env, boot_env_error, string option) io" where
  "mock_get_env k = (\<lambda>m. let seen = get_env_seen m; m' = m\<lparr>get_env_seen := seen + 1\<rparr> in
     if get_env_errors m \<or> (case get_env_ok_calls m of None \<Rightarrow> False | Some ok \<Rightarrow> ok \<le> seen)
        \<or> k \<in> set (get_env_error_keys m)
     then (Inl (mock_error ''injected error''), m')
     else (Inr (mock_vars m (boot_env_key_str k)), m'))"

definition mock_set_env :: "boot_env_key \<Rightarrow> string option \<Rightarrow> (mock_env, boot_env_error, unit) io" where
  "mock_set_env k v = (\<lambda>m.
     if set_env_errors m \<or> k \<in> set (set_env_error_keys m)
     then (Inl (mock_error ''injected set_env error''), m)
     else let to_store = (case set_env_normalize m of Some forced \<Rightarrow> Some forced | None \<Rightarrow> v) in
       (Inr (), m\<lparr>set_env_calls := set_env_calls m @ [k],
                  mock_vars := (mock_vars m)(boot_env_key_str k := to_store)\<rparr>))"

definition mock_save_fsck_status ::
  "partition_name \<Rightarrow> fsck_code \<Rightarrow> string \<Rightarrow> (mock_env, boot_env_error, unit) io" where
  "mock_save_fsck_status p code out = (\<lambda>m.
     if save_fsck_errors m then (Inl (mock_error ''injected save_fsck_status error''), m)
     else (Inr (), m\<lparr>saved_fsck_calls := saved_fsck_calls m @ [(p, code, out)],
                     mock_fsck := (mock_fsck m)(p \<mapsto> \<lparr>rec_exit_code = code, rec_output = out\<rparr>)\<rparr>))"

definition mock_get_fsck_status :: "partition_name \<Rightarrow> (mock_env, boot_env_error, fsck_record option) io" where
  "mock_get_fsck_status p = (\<lambda>m.
     if get_fsck_errors m then (Inl (mock_error ''injected get_fsck_status error''), m)
     else if p \<in> undecodable_fsck m
     then (Inl (invalid_fsck_record (FsckStatus p) ''has no exit code''), m)
     else (Inr (mock_fsck m p), m))"

definition mock_clear_fsck_status :: "partition_name \<Rightarrow> (mock_env, boot_env_error, unit) io" where
  "mock_clear_fsck_status p = (\<lambda>m. (Inr (),
     m\<lparr>mock_fsck := (mock_fsck m)(p := None), undecodable_fsck := undecodable_fsck m - {p}\<rparr>))"

definition mock_boot_env :: "mock_env boot_env" where
  "mock_boot_env = \<lparr>get_env = mock_get_env, set_env = mock_set_env,
     save_fsck_status = mock_save_fsck_status, get_fsck_status = mock_get_fsck_status,
     clear_fsck_status = mock_clear_fsck_status\<rparr>"

end
