(* ===== verification/Env_Store.thy ===== *)
theory Env_Store
  imports Boot_Env_Impl "HOL-Library.AList"
begin

text \<open>
  The contract the boot environments share, as the locale \<open>env_store\<close>: a variable reads back as
  it was last written, an operation touches no other variable, and a failing operation changes
  nothing. Its instances are the in-memory environment, GRUB and U-Boot; for the latter two what
  the external commands are documented to do is the locale \<open>grub_tool\<close> or \<open>fw_tool\<close>, with a
  small implementation of the commands that shows the laws can hold.
\<close>

section \<open>The contract\<close>

locale env_store =
  fixes be :: "'s boot_env"
    and lookup :: "'s \<Rightarrow> boot_env_key \<Rightarrow> string option"
    and storable :: "string \<Rightarrow> bool"
    and inv :: "'s \<Rightarrow> bool"
  assumes get_law: "inv s \<Longrightarrow> get_env be k s = (r, s') \<Longrightarrow>
      inv s' \<and> lookup s' = lookup s \<and> (\<forall>v. r = Inr v \<longrightarrow> v = lookup s k)"
    and set_law: "inv s \<Longrightarrow> (\<And>t. v = Some t \<Longrightarrow> storable t) \<Longrightarrow> set_env be k v s = (q, s') \<Longrightarrow>
      inv s' \<and> lookup s' = (if q = Inr () then (lookup s)(k := v) else lookup s)"
begin

lemma get_value: "inv s \<Longrightarrow> get_env be k s = (Inr v, s') \<Longrightarrow> v = lookup s k"
  using get_law by blast

lemma get_inv: "inv s \<Longrightarrow> get_env be k s = (r, s') \<Longrightarrow> inv s'"
  and get_lookup: "inv s \<Longrightarrow> get_env be k s = (r, s') \<Longrightarrow> lookup s' = lookup s"
  using get_law by blast+

lemma unset_law: "inv s \<Longrightarrow> set_env be k None s = (r, s') \<Longrightarrow>
    inv s' \<and> lookup s' = (if r = Inr () then (lookup s)(k := None) else lookup s)"
  by (rule set_law) auto

text \<open>What was written is what is read.\<close>

lemma set_get:
  assumes "inv s" and "\<And>t. v = Some t \<Longrightarrow> storable t"
    and "set_env be k v s = (Inr (), s1)" and "get_env be k s1 = (Inr v', s2)"
  shows "v' = v"
  using set_law [OF assms(1,2,3)] get_law [OF _ assms(4)] by simp

lemma set_other:
  assumes "inv s" and "\<And>t. v = Some t \<Longrightarrow> storable t" and "k \<noteq> l"
    and "set_env be k v s = (r, s1)" and "get_env be l s1 = (Inr v', s2)"
  shows "v' = lookup s l"
  using set_law [OF assms(1,2,4)] get_law [OF _ assms(5)] assms(3) by (auto split: if_splits)

lemma is_flag_set_value:
  assumes "inv s" and "is_flag_set be k s = (Inr b, s')"
  shows "b = (\<exists>t. lookup s k = Some t \<and> t \<noteq> [])" and "inv s'" and "lookup s' = lookup s"
proof -
  obtain v where v: "get_env be k s = (Inr v, s')"
    and b: "b = (case v of None \<Rightarrow> False | Some t \<Rightarrow> t \<noteq> [])"
    using assms(2) by (auto simp: is_flag_set_def bindE_eq_Inr)
  show "inv s'" and "lookup s' = lookup s" using get_law [OF assms(1) v] by blast+
  show "b = (\<exists>t. lookup s k = Some t \<and> t \<noteq> [])"
    using get_value [OF assms(1) v] b by (auto split: option.splits)
qed

lemma first_boot_done_value:
  assumes "inv s" and "is_first_boot_done be s = (Inr b, s')"
  shows "b = (lookup s FirstBootDone = Some FIRST_BOOT_DONE)"
  using assms get_value by (auto simp: is_first_boot_done_def bindE_eq_Inr)

end

section \<open>The in-memory environment\<close>

definition mock_inv :: "mock_env \<Rightarrow> bool" where
  "mock_inv m \<longleftrightarrow> set_env_normalize m = None"

definition mock_lookup :: "mock_env \<Rightarrow> boot_env_key \<Rightarrow> string option" where
  "mock_lookup m k = mock_vars m (boot_env_key_str k)"

interpretation mock: env_store mock_boot_env mock_lookup "\<lambda>_. True" mock_inv
proof unfold_locales
  fix s :: mock_env and k r s'
  assume "mock_inv s" and "get_env mock_boot_env k s = (r, s')"
  then show "mock_inv s' \<and> mock_lookup s' = mock_lookup s \<and> (\<forall>v. r = Inr v \<longrightarrow> v = mock_lookup s k)"
    by (auto simp: mock_boot_env_def mock_get_env_def mock_inv_def mock_lookup_def Let_def
        fun_eq_iff split: if_splits)
next
  fix s :: mock_env and v k r s'
  assume "mock_inv s" and "set_env mock_boot_env k v s = (r, s')"
  then show "mock_inv s' \<and> mock_lookup s' = (if r = Inr () then (mock_lookup s)(k := v) else mock_lookup s)"
    by (auto simp: mock_boot_env_def mock_set_env_def mock_inv_def mock_lookup_def Let_def
        fun_eq_iff boot_env_key_str_inj split: if_splits)
qed

section \<open>GRUB\<close>

text \<open>
  The block of \<open>grub-editenv\<close>: its variables in order. \<open>list\<close> prints a line for each, \<open>set\<close>
  updates one or adds it at the end, \<open>unset\<close> removes it, and a run that reports failure leaves
  the block as it was.
\<close>

type_synonym env_block = "(string \<times> string) list"

definition env_listing :: "env_block \<Rightarrow> string" where
  "env_listing vs = concat (map (\<lambda>l. l @ [newline]) (map (\<lambda>(k, v). k @ CHR ''='' # v) vs))"

definition line_safe :: "string \<Rightarrow> bool" where
  "line_safe v \<longleftrightarrow> newline \<notin> set v \<and> carriage \<notin> set v \<and> valid_utf8 v"

definition block_ok :: "env_block \<Rightarrow> bool" where
  "block_ok vs \<longleftrightarrow> (\<forall>(k, v) \<in> set vs. CHR ''='' \<notin> set k \<and> line_safe k \<and> line_safe v)"

locale grub_tool =
  fixes os :: "'w os" and block :: "'w \<Rightarrow> env_block"
  assumes list_doc: "os_run os (Spawn GRUB_EDITENV_CMD [GRUBENV_PATH, ''list''] []) w = (r, w') \<Longrightarrow>
      block w' = block w \<and> (\<forall>out. r = Inr out \<longrightarrow> success out \<longrightarrow> stdout out = env_listing (block w))"
    and set_doc: "CHR ''='' \<notin> set k \<Longrightarrow>
      os_run os (Spawn GRUB_EDITENV_CMD [GRUBENV_PATH, ''set'', k @ ''='' @ v] []) w = (r, w') \<Longrightarrow>
      block w' = (if \<exists>out. r = Inr out \<and> success out then AList.update k v (block w) else block w)"
    and unset_doc:
      "os_run os (Spawn GRUB_EDITENV_CMD [GRUBENV_PATH, ''unset'', k] []) w = (r, w') \<Longrightarrow>
      block w' = (if \<exists>out. r = Inr out \<and> success out then AList.delete k (block w) else block w)"
    and sync_doc: "os_unit os SyncAll w = (u, w') \<Longrightarrow> block w' = block w"

lemma rust_lines_listing:
  assumes "block_ok vs"
  shows "rust_lines (env_listing vs) = map (\<lambda>(k, v). k @ CHR ''='' # v) vs"
  unfolding env_listing_def
proof (rule rust_lines_unlines)
  fix l assume "l \<in> set (map (\<lambda>(k, v). k @ CHR ''='' # v) vs)"
  then obtain k v where l: "l = k @ CHR ''='' # v" and "(k, v) \<in> set vs" by auto
  then have "newline \<notin> set l" and "carriage \<notin> set l"
    using assms by (auto simp: block_ok_def line_safe_def)
  then show "newline \<notin> set l \<and> (l = [] \<or> last l \<noteq> carriage)"
    using last_in_set l by (metis append_is_Nil_conv list.distinct(1))
qed

lemma valid_utf8_line:
  assumes "valid_utf8 a" and "valid_utf8 b"
  shows "valid_utf8 ((a @ CHR ''='' # b) @ [newline])"
proof -
  have "valid_utf8 (a @ ''='' @ b @ [newline])"
    using assms by (intro valid_utf8_append) (simp_all add: utf8_step_ascii)
  then show ?thesis by simp
qed

lemma listing_valid: "block_ok vs \<Longrightarrow> valid_utf8 (env_listing vs)"
  unfolding env_listing_def
  by (rule valid_utf8_concat) (auto simp: block_ok_def line_safe_def simp del: append_assoc
      append_Cons intro!: valid_utf8_line)

lemma find_assignment_map:
  assumes "block_ok vs"
  shows "find_assignment k (map (\<lambda>(k, v). k @ CHR ''='' # v) vs) = map_of vs k"
  using assms
proof (induction vs)
  case (Cons kv vs)
  obtain k' v where kv: "kv = (k', v)" by fastforce
  have "split_once (CHR ''='') (k' @ CHR ''='' # v) = Some (k', v)"
    using Cons.prems by (simp add: split_once_Some kv block_ok_def)
  then show ?case using Cons by (simp add: kv block_ok_def)
qed simp

lemma boot_env_key_line_safe: "line_safe (boot_env_key_str k)"
proof -
  have "newline \<notin> set (boot_env_key_str k)" "carriage \<notin> set (boot_env_key_str k)"
    by (cases k; simp add: boot_env_key_str_def partition_name_str_def split: partition_name.split)+
  moreover have "\<And>c. c \<in> set (boot_env_key_str k) \<Longrightarrow> (of_char c :: nat) < 0x80"
    by (cases k) (auto simp: boot_env_key_str_def partition_name_str_def split: partition_name.splits)
  ultimately show ?thesis by (simp add: line_safe_def valid_utf8_ascii)
qed

lemma update_pairs: "set (AList.update k v vs) \<subseteq> insert (k, v) (set vs)"
  by (induction vs) auto

lemma delete_pairs: "set (AList.delete k vs) \<subseteq> set vs"
  by (auto simp: AList.delete_eq)

lemma block_ok_update: "block_ok vs \<Longrightarrow> line_safe v \<Longrightarrow> block_ok (AList.update (boot_env_key_str k) v vs)"
  using update_pairs [of "boot_env_key_str k" v vs] boot_env_key_line_safe [of k]
    boot_env_key_str_chars(1) [of k]
  unfolding block_ok_def by fastforce

lemma block_ok_delete: "block_ok vs \<Longrightarrow> block_ok (AList.delete k vs)"
  using delete_pairs [of k vs] unfolding block_ok_def by fastforce

definition grub_lookup :: "('w \<Rightarrow> env_block) \<Rightarrow> ('w, 'p) machine \<Rightarrow> boot_env_key \<Rightarrow> string option" where
  "grub_lookup blk s k = map_of (blk (world s)) (boot_env_key_str k)"

definition grub_inv :: "('w \<Rightarrow> env_block) \<Rightarrow> ('w, 'p) machine \<Rightarrow> bool" where
  "grub_inv blk s \<longleftrightarrow> block_ok (blk (world s))"

lemma sys_run_eq:
  "sys_run os c s = (r, s') \<Longrightarrow> os_run os c (world s) = (r, world s')"
  by (auto simp: sys_run_def split: prod.splits)

lemma sys_unit_eq:
  "sys_unit os c s = (r, s') \<Longrightarrow> os_unit os c (world s) = (r, world s')"
  by (auto simp: sys_unit_def split: prod.splits)

context grub_tool
begin

lemma run_editenv_list:
  assumes "grub_inv block s" and "run_grub_editenv os [''list''] s = (r, s')"
  shows "block (world s') = block (world s) \<and> (\<forall>out. r = Inr out \<longrightarrow> out = env_listing (block (world s)))"
proof -
  obtain q s1 where q: "sys_run os (Spawn GRUB_EDITENV_CMD [GRUBENV_PATH, ''list''] []) s = (q, s1)"
    by fastforce
  note doc = list_doc [OF sys_run_eq [OF q]]
  show ?thesis
    using assms q doc listing_valid [of "block (world s)"]
    by (cases q) (auto simp: run_grub_editenv_def bindE_def map_err_def grub_inv_def
        utf8_lossy_valid split: if_splits)
qed

lemma run_editenv_write:
  assumes "run_grub_editenv os args s = (r, s')"
    and "\<And>q w'. os_run os (Spawn GRUB_EDITENV_CMD (GRUBENV_PATH # args) []) (world s) = (q, w') \<Longrightarrow>
      block w' = (if \<exists>out. q = Inr out \<and> success out then new else block (world s))"
  shows "block (world s') = (if \<not> isl r then new else block (world s))"
proof -
  obtain q s1 where q: "sys_run os (Spawn GRUB_EDITENV_CMD (GRUBENV_PATH # args) []) s = (q, s1)"
    by fastforce
  show ?thesis
    using assms(1) q assms(2) [OF sys_run_eq [OF q]]
    by (cases q) (auto simp: run_grub_editenv_def bindE_def map_err_def split: if_splits)
qed

lemma grub_get_law:
  assumes "grub_inv block s" and "grub_get_env os k s = (r, s')"
  shows "grub_inv block s' \<and> grub_lookup block s' = grub_lookup block s
    \<and> (\<forall>v. r = Inr v \<longrightarrow> v = grub_lookup block s k)"
proof -
  obtain q s1 where q: "run_grub_editenv os [''list''] s = (q, s1)" by fastforce
  have "block_ok (block (world s))" using assms(1) by (simp add: grub_inv_def)
  then show ?thesis
    using assms q run_editenv_list [OF assms(1) q]
    by (cases q) (auto simp: grub_get_env_def bindE_def grub_inv_def grub_lookup_def fun_eq_iff
        rust_lines_listing find_assignment_map)
qed

lemma grub_set_law:
  assumes "grub_inv block s" and "\<And>t. v = Some t \<Longrightarrow> line_safe t"
    and "grub_set_env os k v s = (r, s')"
  shows "grub_inv block s' \<and>
    grub_lookup block s' = (if r = Inr () then (grub_lookup block s)(k := v) else grub_lookup block s)"
proof -
  define args where "args = (case v of Some t \<Rightarrow> [''set'', boot_env_key_str k @ ''='' @ t]
    | None \<Rightarrow> [''unset'', boot_env_key_str k])"
  define new where "new = (case v of Some t \<Rightarrow> AList.update (boot_env_key_str k) t (block (world s))
    | None \<Rightarrow> AList.delete (boot_env_key_str k) (block (world s)))"
  obtain q s1 where q: "run_grub_editenv os args s = (q, s1)" by fastforce
  have b: "block (world s1) = (if \<not> isl q then new else block (world s))"
    by (rule run_editenv_write [OF q])
       (use set_doc [OF boot_env_key_str_chars(1), of k] unset_doc in
         \<open>auto simp: args_def new_def split: option.splits\<close>)
  have rs: "r = map_sum id (\<lambda>_. ()) q \<and> block (world s') = block (world s1)"
  proof (cases q)
    case (Inl e)
    then show ?thesis
      using assms(3) q by (cases v) (auto simp: grub_set_env_def args_def bindE_def)
  next
    case (Inr out)
    obtain u s2 where u: "sys_unit os SyncAll s1 = (u, s2)" by fastforce
    show ?thesis
      using assms(3) q u Inr sync_doc [OF sys_unit_eq [OF u]]
      by (cases v) (auto simp: grub_set_env_def args_def bindE_def sync_filesystems_def)
  qed
  have "block_ok new"
    using assms(1,2) by (auto simp: new_def grub_inv_def block_ok_update block_ok_delete split: option.split)
  moreover have "map_of new (boot_env_key_str l) =
      ((\<lambda>l. map_of (block (world s)) (boot_env_key_str l))(k := v)) l" for l
    by (auto simp: new_def update_conv' delete_conv' boot_env_key_str_inj split: option.split)
  ultimately show ?thesis
    using assms(1) b rs by (cases q) (auto simp: grub_inv_def grub_lookup_def fun_eq_iff)
qed

end

sublocale grub_tool \<subseteq> grub: env_store "grub_boot_env os" "grub_lookup block" line_safe "grub_inv block"
proof unfold_locales
  fix s :: "('w, 'p) machine" and k r s'
  assume "grub_inv block s" and "get_env (grub_boot_env os) k s = (r, s')"
  then show "grub_inv block s' \<and> grub_lookup block s' = grub_lookup block s
      \<and> (\<forall>v. r = Inr v \<longrightarrow> v = grub_lookup block s k)"
    using grub_get_law by (simp add: grub_boot_env_def)
next
  fix s :: "('w, 'p) machine" and v k q s'
  assume "grub_inv block s" and "\<And>t. v = Some t \<Longrightarrow> line_safe t"
    and "set_env (grub_boot_env os) k v s = (q, s')"
  then show "grub_inv block s' \<and> grub_lookup block s' =
      (if q = Inr () then (grub_lookup block s)(k := v) else grub_lookup block s)"
    using grub_set_law [of s v k q s'] by (simp add: grub_boot_env_def)
qed

text \<open>An implementation of the documented behaviour, on a block held in memory.\<close>

definition exit_with :: "i32 \<Rightarrow> string \<Rightarrow> cmd_output" where
  "exit_with n out = \<lparr>exit_code = Some n, stdout = out, stderr = [], signal_text = []\<rparr>"

definition editenv_run :: "call \<Rightarrow> env_block \<Rightarrow> (io_error + cmd_output) \<times> env_block" where
  "editenv_run c vs = (case c of
     Spawn p args _ \<Rightarrow> (case args of
         [_, cmd] \<Rightarrow> if p = GRUB_EDITENV_CMD \<and> cmd = ''list'' then (Inr (exit_with 0 (env_listing vs)), vs)
           else (Inr (exit_with 1 []), vs)
       | [_, cmd, a] \<Rightarrow>
           if p = GRUB_EDITENV_CMD \<and> cmd = ''set'' then (case split_once (CHR ''='') a of
               Some (k, v) \<Rightarrow> (Inr (exit_with 0 []), AList.update k v vs)
             | None \<Rightarrow> (Inr (exit_with 1 []), vs))
           else if p = GRUB_EDITENV_CMD \<and> cmd = ''unset'' then (Inr (exit_with 0 []), AList.delete a vs)
           else (Inr (exit_with 1 []), vs)
       | _ \<Rightarrow> (Inr (exit_with 1 []), vs))
   | _ \<Rightarrow> (Inl (IoError Unsupported []), vs))"

definition quiet_os :: "(call \<Rightarrow> 'w \<Rightarrow> (io_error + cmd_output) \<times> 'w) \<Rightarrow> 'w os" where
  "quiet_os run = \<lparr>os_unit = \<lambda>_ w. (Inr (), w), os_text = \<lambda>_ w. (Inl (IoError NotFound []), w),
     os_bool = \<lambda>_ w. (True, w), os_num = \<lambda>_ w. (Inr 0, w), os_run = run,
     os_stat = \<lambda>_ w. (Inl (IoError NotFound []), w), os_entries = \<lambda>_ w. (Inr [], w),
     os_addrs = \<lambda>_ w. (Inr [], w), os_delay = \<lambda>_ _. 1\<rparr>"

lemma split_once_app: "c \<notin> set k \<Longrightarrow> split_once c (k @ c # v) = Some (k, v)"
  by (simp add: split_once_Some)

interpretation editenv: grub_tool "quiet_os editenv_run" id
  by unfold_locales
     (auto simp: quiet_os_def editenv_run_def exit_with_def success_def split_once_app)

section \<open>U-Boot\<close>

text \<open>
  \<open>fw_printenv -n\<close> prints the value and a newline, and answers 1 for a variable that is not set;
  \<open>fw_setenv\<close> removes a variable when its value is empty or missing.
\<close>

definition uboot_safe :: "string \<Rightarrow> bool" where
  "uboot_safe v \<longleftrightarrow> v \<noteq> [] \<and> \<not> is_ws (hd v) \<and> \<not> is_ws (last v) \<and> valid_utf8 v"

locale fw_tool =
  fixes os :: "'w os" and vars :: "'w \<Rightarrow> string \<Rightarrow> string option"
  assumes print_doc: "os_run os (Spawn FW_PRINTENV_CMD [''-n'', k] []) w = (r, w') \<Longrightarrow>
      vars w' = vars w \<and> (\<forall>out. r = Inr out \<longrightarrow>
        (exit_code out = Some 0 \<longrightarrow> (\<exists>v. vars w k = Some v \<and> stdout out = v @ [newline])) \<and>
        (exit_code out = Some 1 \<longrightarrow> vars w k = None))"
    and set_doc: "v \<noteq> [] \<Longrightarrow> os_run os (Spawn FW_SETENV_CMD [k, v] []) w = (r, w') \<Longrightarrow>
      vars w' = (if \<exists>out. r = Inr out \<and> success out then (vars w)(k := Some v) else vars w)"
    and unset_doc: "os_run os (Spawn FW_SETENV_CMD [k] []) w = (r, w') \<Longrightarrow>
      vars w' = (if \<exists>out. r = Inr out \<and> success out then (vars w)(k := None) else vars w)"

definition uboot_lookup :: "('w \<Rightarrow> string \<Rightarrow> string option) \<Rightarrow> ('w, 'p) machine \<Rightarrow> boot_env_key \<Rightarrow> string option" where
  "uboot_lookup vs s k = vs (world s) (boot_env_key_str k)"

definition uboot_inv :: "('w \<Rightarrow> string \<Rightarrow> string option) \<Rightarrow> ('w, 'p) machine \<Rightarrow> bool" where
  "uboot_inv vs s \<longleftrightarrow> (\<forall>k v. vs (world s) k = Some v \<longrightarrow> uboot_safe v)"

lemma trim_printed: "uboot_safe v \<Longrightarrow> trim (utf8_lossy (v @ [newline])) = v"
proof -
  assume v: "uboot_safe v"
  then have "valid_utf8 (v @ [newline])"
    by (intro valid_utf8_append) (simp_all add: uboot_safe_def utf8_step_ascii)
  moreover have "trim_start (v @ [newline]) = v @ [newline]"
    using v by (cases v) (simp_all add: trim_start_def uboot_safe_def)
  moreover have "trim_end (v @ [newline]) = trim_end v"
    by (rule trim_end_append_ws) (simp add: is_ws_def)
  moreover have "dropWhile is_ws (rev v) = rev v"
    using v by (subst dropWhile_eq_self_iff) (simp add: uboot_safe_def hd_rev)
  ultimately show ?thesis by (simp add: utf8_lossy_valid trim_def trim_end_def [of v])
qed

context fw_tool
begin

lemma uboot_get_law:
  assumes "uboot_inv vars s" and "uboot_get_env os k s = (r, s')"
  shows "uboot_inv vars s' \<and> uboot_lookup vars s' = uboot_lookup vars s
    \<and> (\<forall>v. r = Inr v \<longrightarrow> v = uboot_lookup vars s k)"
proof -
  let ?k = "boot_env_key_str k"
  obtain q s1 where q: "sys_run os (Spawn FW_PRINTENV_CMD [''-n'', ?k] []) s = (q, s1)" by fastforce
  note doc = print_doc [OF sys_run_eq [OF q]]
  have safe: "\<And>v. vars (world s) ?k = Some v \<Longrightarrow> trim (utf8_lossy (v @ [newline])) = v \<and> v \<noteq> []"
    using assms(1) trim_printed by (auto simp: uboot_inv_def uboot_safe_def)
  show ?thesis
    using assms q doc safe
    by (cases q) (auto simp: uboot_get_env_def run_fw_printenv_def bindE_def map_err_def
        uboot_inv_def uboot_lookup_def fun_eq_iff Let_def split: if_splits)
qed

lemma uboot_set_law:
  assumes "uboot_inv vars s" and "\<And>t. v = Some t \<Longrightarrow> uboot_safe t"
    and "uboot_set_env os k v s = (r, s')"
  shows "uboot_inv vars s' \<and>
    uboot_lookup vars s' = (if r = Inr () then (uboot_lookup vars s)(k := v) else uboot_lookup vars s)"
proof -
  let ?k = "boot_env_key_str k"
  define args where "args = ?k # (case v of None \<Rightarrow> [] | Some t \<Rightarrow> [t])"
  obtain q s1 where q: "sys_run os (Spawn FW_SETENV_CMD args []) s = (q, s1)" by fastforce
  have doc: "vars (world s1) =
      (if \<exists>out. q = Inr out \<and> success out then (vars (world s))(?k := v) else vars (world s))"
    using sys_run_eq [OF q] assms(2) set_doc [of "the v" ?k "world s" q "world s1"]
      unset_doc [of ?k "world s" q "world s1"]
    by (cases v) (auto simp: args_def uboot_safe_def)
  have rs: "s' = s1 \<and> (r = Inr () \<longleftrightarrow> (\<exists>out. q = Inr out \<and> success out))"
    using assms(3) q by (cases q) (auto simp: uboot_set_env_def run_fw_setenv_def args_def
        bindE_def map_err_def split: if_splits)
  show ?thesis
    using assms(1,2) doc rs
    by (auto simp: uboot_inv_def uboot_lookup_def fun_eq_iff boot_env_key_str_inj split: if_splits)
qed

end

sublocale fw_tool \<subseteq> uboot: env_store "uboot_boot_env os" "uboot_lookup vars" uboot_safe "uboot_inv vars"
proof unfold_locales
  fix s :: "('w, 'p) machine" and k r s'
  assume "uboot_inv vars s" and "get_env (uboot_boot_env os) k s = (r, s')"
  then show "uboot_inv vars s' \<and> uboot_lookup vars s' = uboot_lookup vars s
      \<and> (\<forall>v. r = Inr v \<longrightarrow> v = uboot_lookup vars s k)"
    using uboot_get_law by (simp add: uboot_boot_env_def)
next
  fix s :: "('w, 'p) machine" and v k q s'
  assume "uboot_inv vars s" and "\<And>t. v = Some t \<Longrightarrow> uboot_safe t"
    and "set_env (uboot_boot_env os) k v s = (q, s')"
  then show "uboot_inv vars s' \<and> uboot_lookup vars s' =
      (if q = Inr () then (uboot_lookup vars s)(k := v) else uboot_lookup vars s)"
    using uboot_set_law [of s v k q s'] by (simp add: uboot_boot_env_def)
qed

definition fw_run :: "call \<Rightarrow> (string \<Rightarrow> string option) \<Rightarrow>
    (io_error + cmd_output) \<times> (string \<Rightarrow> string option)" where
  "fw_run c vs = (case c of
     Spawn p args _ \<Rightarrow>
       if p = FW_PRINTENV_CMD then (case args of
           [_, k] \<Rightarrow> (case vs k of Some v \<Rightarrow> (Inr (exit_with 0 (v @ [newline])), vs)
             | None \<Rightarrow> (Inr (exit_with 1 []), vs))
         | _ \<Rightarrow> (Inr (exit_with 2 []), vs))
       else (case args of
           [k] \<Rightarrow> (Inr (exit_with 0 []), vs(k := None))
         | [k, v] \<Rightarrow> (Inr (exit_with 0 []), vs(k := (if v = [] then None else Some v)))
         | _ \<Rightarrow> (Inr (exit_with 2 []), vs))
   | _ \<Rightarrow> (Inl (IoError Unsupported []), vs))"

interpretation fw: fw_tool "quiet_os fw_run" id
  by unfold_locales
     (auto simp: quiet_os_def fw_run_def exit_with_def success_def FW_PRINTENV_CMD_def
       FW_SETENV_CMD_def split: option.splits)

end
