(* ===== verification/Init_Setup.thy ===== *)
theory Init_Setup
  imports Fsck_Run Overlayfs Layout Env_Store
begin

text \<open>
  The one-time steps between mounting and the dispatch of the boot mode: \<open>src/init_setup/\<close> with
  \<open>src/filesystem/resize_data.rs\<close>, and \<open>src/filesystem/reformat.rs\<close>. The commands \<open>parted\<close>,
  \<open>sgdisk\<close>, \<open>resize2fs\<close>, \<open>mkfs.ext4\<close> and \<open>tune2fs\<close> are external. Paths are strings, so the branches
  for a device path that is not UTF-8 do not occur.
\<close>

section \<open>Extra boot arguments\<close>

definition BOOTARGS_OMNECT_FILE :: string where "BOOTARGS_OMNECT_FILE = ''omnect_extra_bootargs_omnect''"
definition BOOTARGS_CUSTOM_FILE :: string where "BOOTARGS_CUSTOM_FILE = ''omnect_extra_bootargs_custom''"

definition read_bootargs_file :: "'w os \<Rightarrow> string \<Rightarrow> (('w, 'p) machine, io_error, string option) io" where
  "read_bootargs_file os path = caught (sys_text os (ReadText path)) (\<lambda>r. case r of
     Inr t \<Rightarrow> (let trimmed = trim t in ret (if trimmed = [] then None else Some trimmed))
   | Inl e \<Rightarrow> if io_kind_of e = NotFound then ret None else throw e)"

definition combine_bootargs :: "string option \<Rightarrow> string option \<Rightarrow> string" where
  "combine_bootargs omnect custom = join_with '' '' (split_ws (case (omnect, custom) of
     (Some a, Some b) \<Rightarrow> a @ '' '' @ b
   | (Some a, None) \<Rightarrow> a
   | (None, Some b) \<Rightarrow> b
   | (None, None) \<Rightarrow> []))"

definition read_extra_bootargs :: "'w os \<Rightarrow> string \<Rightarrow> (('w, 'p) machine, io_error, string) io" where
  "read_extra_bootargs os boot_dir =
     bindE (read_bootargs_file os (path_join boot_dir BOOTARGS_OMNECT_FILE)) (\<lambda>omnect.
     bindE (read_bootargs_file os (path_join boot_dir BOOTARGS_CUSTOM_FILE)) (\<lambda>custom.
     ret (combine_bootargs omnect custom)))"

definition bootargs_failed :: "extra_boot_args_outcome \<Rightarrow> string \<Rightarrow> ('w init, 'e, unit) io" where
  "bootargs_failed outcome why =
     modify_ods (set_extra_bootargs_status \<lparr>bootargs_outcome = outcome, bootargs_reason = why\<rparr>)"

definition unwrap_or_default :: "string option \<Rightarrow> string" where
  "unwrap_or_default v = (case v of None \<Rightarrow> [] | Some t \<Rightarrow> t)"

text \<open>From the write on: verify, flush, ask for the reboot.\<close>

definition apply_extra_bootargs :: "'w os \<Rightarrow> ('w init) boot_env \<Rightarrow> string \<Rightarrow> ('w init, initramfs_error, unit) io" where
  "apply_extra_bootargs os bl new_args =
     caught (set_env bl ExtraBootArgs (if new_args = [] then None else Some new_args)) (\<lambda>w. case w of
       Inl e \<Rightarrow> bootargs_failed SetEnvFailed (''set_env failed: '' @ show_boot_env_error e)
     | Inr _ \<Rightarrow> caught (get_env bl ExtraBootArgs) (\<lambda>v. case v of
         Inl e \<Rightarrow> bootargs_failed ReadBackFailed (''read-back failed: '' @ show_boot_env_error e)
       | Inr stored \<Rightarrow>
           if unwrap_or_default stored \<noteq> new_args
           then bootargs_failed ReadBackMismatch ''read-back verify mismatch''
           else bindE (sync_filesystems os) (\<lambda>_. throw ExtraBootArgsUpdated)))"

definition run_extra_bootargs :: "'w os \<Rightarrow> ('w init) boot_env_state \<Rightarrow> string \<Rightarrow> ('w init, initramfs_error, unit) io" where
  "run_extra_bootargs os be rootfs =
     bindE (get_prog (ods_first_boot \<circ> ods)) (\<lambda>first_boot.
     if \<not> first_boot then ret ()
     else caught (read_extra_bootargs os (path_join rootfs MP_BOOT)) (\<lambda>r. case r of
         Inl e \<Rightarrow> bootargs_failed FileReadFailed (''reading bootargs files failed: '' @ show_io e)
       | Inr new_args \<Rightarrow> (case available be of
           None \<Rightarrow> ret ()
         | Some bl \<Rightarrow> caught (get_env bl ExtraBootArgs) (\<lambda>c. case c of
             Inl e \<Rightarrow> bootargs_failed ReadFailed (''read current value failed: '' @ show_boot_env_error e)
           | Inr current \<Rightarrow>
               if unwrap_or_default current = new_args then ret ()
               else apply_extra_bootargs os bl new_args))))"

section \<open>Growing the data partition\<close>

definition SGDISK_CMD :: string where "SGDISK_CMD = ''/sbin/sgdisk''"
definition PARTED_CMD :: string where "PARTED_CMD = ''/sbin/parted''"
definition RESIZE2FS_CMD :: string where "RESIZE2FS_CMD = ''/sbin/resize2fs''"
definition SYNC_CMD :: string where "SYNC_CMD = ''/bin/sync''"

definition resizepart_args :: "string \<Rightarrow> string \<Rightarrow> string list" where
  "resizepart_args disk part_nr = [''-s'', disk, ''resizepart'', part_nr, ''100%'']"

definition partition_number :: "string \<Rightarrow> u32 option" where
  "partition_number dev = (case file_name dev of None \<Rightarrow> None
   | Some name \<Rightarrow> (let digits = takeWhile is_digit (rev name) in
       if digits = [] then None else parse_u32 (rev digits)))"

definition run_cmd :: "'w os \<Rightarrow> string \<Rightarrow> string list \<Rightarrow> (('w, 'p) machine, resize_data_error, string) io" where
  "run_cmd os prog args = bindE (map_err ResizeIo (sys_run os (Spawn prog args []))) (\<lambda>out.
     if \<not> success out then
       throw (ResizeCommandFailed (if args = [] then prog else prog @ '' '' @ join_with '' '' args)
         (case exit_code out of Some c \<Rightarrow> c | None \<Rightarrow> -1)
         (utf8_lossy (stdout out) @ utf8_lossy (stderr out)))
     else ret (utf8_lossy (stdout out)))"

definition ascii_lower :: "char \<Rightarrow> char" where
  "ascii_lower c = (if 65 \<le> (of_char c :: nat) \<and> (of_char c :: nat) \<le> 90
     then char_of ((of_char c :: nat) + 32) else c)"

text \<open>
  The code lowers the whole line; no character outside ASCII is lowered to a letter of the word
  searched for, so lowering the ASCII letters gives the same answer.
\<close>

fun find_extended :: "string list \<Rightarrow> u32 option" where
  "find_extended [] = None"
| "find_extended (line # ls) = (if str_contains ''extended'' (map ascii_lower line) then
      (case split_ws line of [] \<Rightarrow> find_extended ls
       | w # _ \<Rightarrow> (case parse_u32 w of Some nr \<Rightarrow> Some nr | None \<Rightarrow> find_extended ls))
    else find_extended ls)"

definition parse_extended_partition_nr :: "string \<Rightarrow> u32 option" where
  "parse_extended_partition_nr parted_output = find_extended (rust_lines parted_output)"

definition find_extended_partition :: "'w os \<Rightarrow> string \<Rightarrow> (('w, 'p) machine, resize_data_error, u32) io" where
  "find_extended_partition os rootblk =
     bindE (run_cmd os PARTED_CMD [''-s'', rootblk, ''print'']) (\<lambda>out.
     case parse_extended_partition_nr out of
       None \<Rightarrow> throw (ExtendedPartitionNotFound rootblk) | Some nr \<Rightarrow> ret nr)"

definition make_room :: "table_kind \<Rightarrow> 'w os \<Rightarrow> string \<Rightarrow> (('w, 'p) machine, resize_data_error, unit) io" where
  "make_room t os rootblk = (case t of
     Gpt \<Rightarrow> bindE (run_cmd os SGDISK_CMD [rootblk, ''-e'']) (\<lambda>_. ret ())
   | Dos \<Rightarrow> bindE (find_extended_partition os rootblk) (\<lambda>ext_nr.
       bindE (run_cmd os PARTED_CMD (resizepart_args rootblk (show_word ext_nr))) (\<lambda>_. ret ())))"

definition resize_if_needed :: "table_kind \<Rightarrow> 'w os \<Rightarrow> partition_layout \<Rightarrow> ('w init, resize_data_error, unit) io" where
  "resize_if_needed t os l = (case layout_get l Data of
     None \<Rightarrow> ret ()
   | Some data_dev \<Rightarrow> (let rootblk = base (root_dev l) in
       case partition_number data_dev of
         None \<Rightarrow> throw (InvalidDevicePath data_dev)
       | Some part_nr \<Rightarrow>
           bindE (make_room t os rootblk) (\<lambda>_.
           bindE (run_cmd os PARTED_CMD (resizepart_args rootblk (show_word part_nr))) (\<lambda>_.
           bindE (map_err ResizeFilesystem (check_filesystem os data_dev Ext4)) (\<lambda>_.
           bindE (run_cmd os RESIZE2FS_CMD [''-f'', data_dev]) (\<lambda>_.
           bindE (run_cmd os SYNC_CMD []) (\<lambda>_. ret ())))))))"

definition attempt_resize :: "table_kind \<Rightarrow> 'w os \<Rightarrow> partition_layout \<Rightarrow> ('w init) boot_env_state \<Rightarrow>
    ('w init, initramfs_error, unit) io" where
  "attempt_resize t os l be = bindE (get_prog (ods_first_boot \<circ> ods)) (\<lambda>first_boot. case available be of
     Some _ \<Rightarrow> if \<not> first_boot then ret () else map_err ResizeData (resize_if_needed t os l)
   | None \<Rightarrow> map_err ResizeData (resize_if_needed t os l))"

definition outcome_for :: "resize_data_error \<Rightarrow> resize_outcome" where
  "outcome_for e = (case e of
     ResizeFilesystem (FsckFailed _ _ _) \<Rightarrow> SkippedFsck
   | InvalidDevicePath _ \<Rightarrow> InvalidLayout
   | ExtendedPartitionNotFound _ \<Rightarrow> InvalidLayout
   | NonUtf8Path _ \<Rightarrow> InvalidLayout
   | ResizeCommandFailed _ _ _ \<Rightarrow> ToolError
   | ResizeIo _ \<Rightarrow> ToolError
   | ResizeFilesystem _ \<Rightarrow> ToolError)"

definition handle_resize_result :: "initramfs_error + unit \<Rightarrow> ('w init, initramfs_error, unit) io" where
  "handle_resize_result r = (case r of
     Inr _ \<Rightarrow> ret ()
   | Inl (ResizeData (ResizeFilesystem (FsckRequiresReboot d c out))) \<Rightarrow>
       throw (ResizeData (ResizeFilesystem (FsckRequiresReboot d c out)))
   | Inl (ResizeData inner) \<Rightarrow> modify_ods (set_resize_status
       \<lparr>resize_outcome_of = outcome_for inner, resize_reason = show_resize_data_error inner\<rparr>)
   | Inl e \<Rightarrow> throw e)"

definition run_resize_data :: "table_kind \<Rightarrow> 'w os \<Rightarrow> partition_layout \<Rightarrow> ('w init) boot_env_state \<Rightarrow>
    ('w init, initramfs_error, unit) io" where
  "run_resize_data t os l be = caught (attempt_resize t os l be) handle_resize_result"

definition run_init_setup :: "features \<Rightarrow> 'w os \<Rightarrow> partition_layout \<Rightarrow> ('w init) boot_env_state \<Rightarrow> string \<Rightarrow>
    ('w init, initramfs_error, unit) io" where
  "run_init_setup ft os l be rootfs =
     bindE (run_extra_bootargs os be rootfs) (\<lambda>_.
     if resize_data_enabled ft then run_resize_data (table ft) os l be else ret ())"

section \<open>A new file system\<close>

definition MKFS_EXT4_CMD :: string where "MKFS_EXT4_CMD = ''/sbin/mkfs.ext4''"
definition TUNE2FS_CMD :: string where "TUNE2FS_CMD = ''/sbin/tune2fs''"

definition format_command :: "'w os \<Rightarrow> string \<Rightarrow> string \<Rightarrow> string \<Rightarrow> string list \<Rightarrow>
    (('w, 'p) machine, filesystem_error, unit) io" where
  "format_command os device tool prog args =
     bindE (map_err (\<lambda>e. FormatFailed device ''ext4'' (''Failed to run '' @ tool @ '': '' @ show_io e))
              (sys_run os (Spawn prog args []))) (\<lambda>out.
     if \<not> success out then throw (FormatFailed device ''ext4''
       (tool @ '' failed ('' @ display_status out @ ''): '' @ utf8_lossy (stderr out)))
     else ret ())"

definition reformat_ext4 :: "'w os \<Rightarrow> string \<Rightarrow> string \<Rightarrow> (('w, 'p) machine, filesystem_error, unit) io" where
  "reformat_ext4 os device label =
     bindE (format_command os device ''mkfs.ext4'' MKFS_EXT4_CMD [''-F'', ''-q'', device]) (\<lambda>_.
     format_command os device ''tune2fs'' TUNE2FS_CMD [device, ''-c'', ''-1'', ''-i'', ''0'', ''-L'', label])"

section \<open>The reboot for new arguments happens once\<close>

text \<open>The arguments are one line of words with single spaces.\<close>

definition args_line :: "string \<Rightarrow> bool" where
  "args_line t \<longleftrightarrow> t \<noteq> [] \<and> valid_utf8 t \<and> \<not> is_ws (hd t) \<and> \<not> is_ws (last t)
     \<and> (\<forall>c \<in> set t. is_ws c \<longrightarrow> c = CHR '' '')"

lemma join_words:
  "xs \<noteq> [] \<Longrightarrow> (\<And>x. x \<in> set xs \<Longrightarrow> x \<noteq> [] \<and> (\<forall>c \<in> set x. \<not> is_ws c)) \<Longrightarrow>
   join_with '' '' xs \<noteq> [] \<and> \<not> is_ws (hd (join_with '' '' xs)) \<and> \<not> is_ws (last (join_with '' '' xs))
   \<and> (\<forall>c \<in> set (join_with '' '' xs). is_ws c \<longrightarrow> c = CHR '' '')"
proof (induction xs)
  case (Cons x xs)
  have x: "x \<noteq> []" "\<forall>c \<in> set x. \<not> is_ws c" using Cons.prems(2) by auto
  have IH: "xs \<noteq> [] \<Longrightarrow> join_with '' '' xs \<noteq> [] \<and> \<not> is_ws (last (join_with '' '' xs))
      \<and> (\<forall>c \<in> set (join_with '' '' xs). is_ws c \<longrightarrow> c = CHR '' '')"
    using Cons.IH Cons.prems(2) by (meson list.set_intros(2))
  show ?case
  proof (cases xs)
    case Nil
    then show ?thesis using x by auto
  next
    case (Cons y ys)
    then have "join_with '' '' xs \<noteq> [] \<and> \<not> is_ws (last (join_with '' '' xs))
        \<and> (\<forall>c \<in> set (join_with '' '' xs). is_ws c \<longrightarrow> c = CHR '' '')"
      using IH by blast
    moreover have "join_with '' '' (x # xs) = x @ '' '' @ join_with '' '' xs" using Cons by simp
    ultimately show ?thesis using x by auto
  qed
qed simp

lemma combine_bootargs_line:
  assumes "\<And>a. omnect = Some a \<Longrightarrow> valid_utf8 a" and "\<And>b. custom = Some b \<Longrightarrow> valid_utf8 b"
    and "combine_bootargs omnect custom \<noteq> []"
  shows "args_line (combine_bootargs omnect custom)"
proof -
  define t where "t = (case (omnect, custom) of (Some a, Some b) \<Rightarrow> a @ '' '' @ b
     | (Some a, None) \<Rightarrow> a | (None, Some b) \<Rightarrow> b | (None, None) \<Rightarrow> [])"
  have c: "combine_bootargs omnect custom = join_with '' '' (split_ws t)"
    by (simp add: combine_bootargs_def t_def)
  have space: "valid_utf8 '' ''" by (simp add: utf8_step_ascii)
  have "valid_utf8 t"
    using assms(1,2) by (cases omnect; cases custom) (simp_all add: t_def valid_utf8_append utf8_step_ascii)
  then have "valid_utf8 (join_with '' '' (split_ws t))"
    by (intro join_with_valid space) (rule split_ws_valid)
  moreover have "split_ws t \<noteq> []" using assms(3) c by auto
  ultimately show ?thesis
    using join_words [of "split_ws t"] split_ws_word [of _ t] c by (simp add: args_line_def)
qed

text \<open>The step gives up: one of \<open>outcomes\<close> is in the status.\<close>

definition gives_up :: "extra_boot_args_outcome set \<Rightarrow> 'w init \<Rightarrow> bool" where
  "gives_up outcomes s \<longleftrightarrow> (\<exists>st. ods_extra_bootargs (ods (program s)) = Some st \<and> bootargs_outcome st \<in> outcomes)"

locale bootargs_env = env_store be lookup storable ready
  for be :: "('w init) boot_env" and lookup storable ready +
  fixes os :: "'w os"
  assumes read_law: "ready s \<Longrightarrow> sys_text os (ReadText p) s = (r, s') \<Longrightarrow>
      ready s' \<and> lookup s' = lookup s \<and> (\<forall>t. r = Inr t \<longrightarrow> valid_utf8 t)"
    and sync_law: "ready s \<Longrightarrow> sys_unit os SyncAll s = (u, s') \<Longrightarrow> ready s' \<and> lookup s' = lookup s"
    and args_storable: "args_line t \<Longrightarrow> storable t"
begin

lemma read_file:
  assumes "ready s" and "read_bootargs_file os p s = (r, s')"
  shows "ready s' \<and> lookup s' = lookup s \<and> (\<forall>t. r = Inr (Some t) \<longrightarrow> valid_utf8 t)"
proof -
  obtain q s1 where q: "sys_text os (ReadText p) s = (q, s1)" by fastforce
  note law = read_law [OF assms(1) q]
  show ?thesis
    using assms(2) q law
    by (cases q) (auto simp: read_bootargs_file_def caught_def Let_def trim_valid split: if_splits)
qed

lemma read_args:
  assumes "ready s" and "read_extra_bootargs os d s = (r, s')"
  shows "ready s' \<and> lookup s' = lookup s \<and> (\<forall>t. r = Inr t \<longrightarrow> t \<noteq> [] \<longrightarrow> args_line t)"
proof -
  let ?f = "read_bootargs_file os (path_join d BOOTARGS_OMNECT_FILE)"
  let ?g = "read_bootargs_file os (path_join d BOOTARGS_CUSTOM_FILE)"
  obtain a s1 where a: "?f s = (a, s1)" by fastforce
  note fa = read_file [OF assms(1) a]
  obtain b s2 where b: "?g s1 = (b, s2)" by fastforce
  note fb = read_file [OF conjunct1 [OF fa] b]
  show ?thesis
  proof (cases "\<exists>x y. a = Inr x \<and> b = Inr y")
    case True
    then obtain x y where xy: "a = Inr x" "b = Inr y" by blast
    then have "r = Inr (combine_bootargs x y)" "s' = s2"
      using assms(2) a b by (simp_all add: read_extra_bootargs_def bindE_Inr)
    then show ?thesis using fa fb xy combine_bootargs_line [of x y] by auto
  next
    case False
    then show ?thesis
      using assms(2) a b fa fb by (cases a; cases b) (auto simp: read_extra_bootargs_def bindE_Inr bindE_Inl)
  qed
qed

text \<open>A request to reboot has the new value in the environment.\<close>

lemma apply_stored:
  assumes "ready s" and "args \<noteq> [] \<Longrightarrow> args_line args"
    and "apply_extra_bootargs os be args s = (Inl ExtraBootArgsUpdated, s')"
  shows "ready s' \<and> lookup s' = (lookup s)(ExtraBootArgs := (if args = [] then None else Some args))"
proof -
  let ?v = "if args = [] then None else Some args"
  obtain w s1 where w: "set_env be ExtraBootArgs ?v s = (w, s1)" by fastforce
  have "\<And>t. ?v = Some t \<Longrightarrow> storable t"
    using assms(2) args_storable by (auto split: if_splits)
  note law = set_law [OF assms(1) this w]
  obtain x s2 where x: "get_env be ExtraBootArgs s1 = (x, s2)" by fastforce
  obtain u s3 where u: "sys_unit os SyncAll s2 = (u, s3)" by fastforce
  have w': "w = Inr ()"
    using assms(3) w by (cases w) (auto simp: apply_extra_bootargs_def caught_def
        bootargs_failed_def modify_ods_def modify_prog_def)
  have x': "\<exists>y. x = Inr y"
    using assms(3) w w' x by (cases x) (auto simp: apply_extra_bootargs_def caught_def
        bootargs_failed_def modify_ods_def modify_prog_def)
  have "s' = s3"
    using assms(3) w w' x x' u by (auto simp: apply_extra_bootargs_def caught_def
        bootargs_failed_def modify_ods_def modify_prog_def sync_filesystems_def bindE_def split: if_splits)
  then show ?thesis
    using law w' get_law [OF _ x] sync_law [OF _ u] by simp
qed

lemma run_extra_bootargs_reads:
  assumes "ods_first_boot (ods (program s))"
    and "read_extra_bootargs os (path_join rootfs MP_BOOT) s = (r, s1)"
  shows "run_extra_bootargs os (Available be) rootfs s = (case r of
      Inl e \<Rightarrow> bootargs_failed FileReadFailed (''reading bootargs files failed: '' @ show_io e) s1
    | Inr args \<Rightarrow> (case get_env be ExtraBootArgs s1 of
        (Inl e, s2) \<Rightarrow> bootargs_failed ReadFailed (''read current value failed: '' @ show_boot_env_error e) s2
      | (Inr v, s2) \<Rightarrow> if unwrap_or_default v = args then (Inr (), s2) else apply_extra_bootargs os be args s2))"
  using assms
  by (cases "get_env be ExtraBootArgs s1"; cases r)
     (auto simp: run_extra_bootargs_def bindE_def caught_def get_prog_def available_def split: sum.split)

text \<open>Without the request, what went wrong is in the status; a mismatch at the read-back is not among it.\<close>

lemma apply_outcome:
  assumes "ready s" and "args \<noteq> [] \<Longrightarrow> args_line args" and "apply_extra_bootargs os be args s = (r, s')"
  shows "r = Inl ExtraBootArgsUpdated \<or> r = Inr () \<and> gives_up {SetEnvFailed, ReadBackFailed} s'"
proof -
  let ?v = "if args = [] then None else Some args"
  obtain w s1 where w: "set_env be ExtraBootArgs ?v s = (w, s1)" by fastforce
  have "\<And>t. ?v = Some t \<Longrightarrow> storable t" using assms(2) args_storable by (auto split: if_splits)
  note law = set_law [OF assms(1) this w]
  obtain x s2 where x: "get_env be ExtraBootArgs s1 = (x, s2)" by fastforce
  have same: "unwrap_or_default y = args" if "w = Inr ()" "x = Inr y" for y
    using get_law [OF conjunct1 [OF law] x] law that by (auto simp: unwrap_or_default_def)
  show ?thesis
    using assms(3) w x same
    by (cases w; cases x) (auto simp: apply_extra_bootargs_def caught_def bootargs_failed_def modify_ods_def modify_prog_def
        set_extra_bootargs_status_def gives_up_def sync_filesystems_def bindE_def ignore_def ret_def throw_def split: prod.splits)
qed

lemma reboot_outcome:
  assumes "ready s" and "ods_first_boot (ods (program s))" and "run_extra_bootargs os (Available be) rootfs s = (r, s')"
    and args: "fst (read_extra_bootargs os (path_join rootfs MP_BOOT) s) = Inr args"
  shows "r = Inl ExtraBootArgsUpdated \<or> r = Inr () \<and> (unwrap_or_default (lookup s ExtraBootArgs) = args
      \<or> gives_up {ReadFailed, SetEnvFailed, ReadBackFailed} s')"
proof -
  obtain s1 where r: "read_extra_bootargs os (path_join rootfs MP_BOOT) s = (Inr args, s1)"
    using args by (metis prod.collapse)
  note rd = read_args [OF assms(1) r]
  note eq = run_extra_bootargs_reads [OF assms(2) r]
  obtain c s2 where c: "get_env be ExtraBootArgs s1 = (c, s2)" by fastforce
  note law = get_law [OF conjunct1 [OF rd] c]
  show ?thesis
  proof (cases c)
    case (Inl e)
    then show ?thesis
      using assms(3) eq c by (auto simp: bootargs_failed_def modify_ods_def modify_prog_def set_extra_bootargs_status_def gives_up_def)
  next
    case (Inr v)
    show ?thesis
    proof (cases "unwrap_or_default v = args")
      case True
      then show ?thesis using assms(3) eq c Inr law rd by auto
    next
      case False
      then have "apply_extra_bootargs os be args s2 = (r, s')" using assms(3) eq c Inr by simp
      from apply_outcome [OF conjunct1 [OF law] _ this] rd show ?thesis by (auto simp: gives_up_def)
    qed
  qed
qed

lemma reboot_applies:
  assumes "ready s" and run: "run_extra_bootargs os (Available be) rootfs s = (Inl ExtraBootArgsUpdated, s')"
  shows "ods_first_boot (ods (program s)) \<and> ready s' \<and>
    (\<exists>args. fst (read_extra_bootargs os (path_join rootfs MP_BOOT) s) = Inr args \<and>
       unwrap_or_default (lookup s ExtraBootArgs) \<noteq> args \<and>
       lookup s' = (lookup s)(ExtraBootArgs := (if args = [] then None else Some args)))"
proof -
  have fb: "ods_first_boot (ods (program s))"
    using run by (auto simp: run_extra_bootargs_def get_prog_def bindE_def split: if_splits)
  obtain r s1 where r: "read_extra_bootargs os (path_join rootfs MP_BOOT) s = (r, s1)" by fastforce
  note rd = read_args [OF assms(1) r]
  note eq = run_extra_bootargs_reads [OF fb r]
  obtain args where args: "r = Inr args"
    using run eq by (cases r) (auto simp: bootargs_failed_def modify_ods_def modify_prog_def)
  obtain c s2 where c: "get_env be ExtraBootArgs s1 = (c, s2)" by fastforce
  note law = get_law [OF conjunct1 [OF rd] c]
  obtain v where v: "c = Inr v"
    using run eq args c by (cases c) (auto simp: bootargs_failed_def modify_ods_def modify_prog_def)
  have ne: "unwrap_or_default v \<noteq> args" and ap: "apply_extra_bootargs os be args s2 = (Inl ExtraBootArgsUpdated, s')"
    using run eq args c v by (auto split: if_splits)
  have "ready s' \<and> lookup s' = (lookup s2)(ExtraBootArgs := (if args = [] then None else Some args))"
    using law rd args by (intro apply_stored [OF _ _ ap]) auto
  then show ?thesis using fb ne r args rd law v by auto
qed

lemma stable_next_boot:
  assumes "ready t" and "fst (read_extra_bootargs os (path_join rootfs MP_BOOT) t) = Inr args"
    and "unwrap_or_default (lookup t ExtraBootArgs) = args"
  shows "fst (run_extra_bootargs os (Available be) rootfs t) = Inr ()"
proof (cases "ods_first_boot (ods (program t))")
  case True
  obtain t1 where r: "read_extra_bootargs os (path_join rootfs MP_BOOT) t = (Inr args, t1)"
    using assms(2) by (cases "read_extra_bootargs os (path_join rootfs MP_BOOT) t") auto
  note rd = read_args [OF assms(1) r]
  obtain c t2 where c: "get_env be ExtraBootArgs t1 = (c, t2)" by fastforce
  note law = get_law [OF conjunct1 [OF rd] c]
  show ?thesis
    using run_extra_bootargs_reads [OF True r] c law rd assms(3)
    by (cases c) (auto simp: bootargs_failed_def modify_ods_def modify_prog_def)
qed (simp add: run_extra_bootargs_def get_prog_def bindE_def)

end

section \<open>Instances\<close>

lemma uboot_safe_args: "args_line t \<Longrightarrow> uboot_safe t"
  by (simp add: args_line_def uboot_safe_def)

lemma line_safe_args: "args_line t \<Longrightarrow> line_safe t"
  by (auto simp: args_line_def line_safe_def is_ws_def)

text \<open>A boot partition with one file of arguments, beside the in-memory \<open>grub-editenv\<close>.\<close>

definition files_os :: "(string \<Rightarrow> string option) \<Rightarrow> (call \<Rightarrow> 'w \<Rightarrow> (io_error + cmd_output) \<times> 'w) \<Rightarrow> 'w os" where
  "files_os fs run = (quiet_os run)\<lparr>os_text := \<lambda>c w. (case c of
     ReadText p \<Rightarrow> (case fs p of Some t \<Rightarrow> Inr t | None \<Rightarrow> Inl (IoError NotFound []))
   | _ \<Rightarrow> Inl (IoError Unsupported []), w)\<rparr>"

lemma grub_tool_files:
  "grub_tool (quiet_os run) blk \<Longrightarrow> grub_tool (files_os fs run) blk"
  by (simp add: grub_tool_def files_os_def quiet_os_def)

lemma fw_tool_files:
  "fw_tool (quiet_os run) vs \<Longrightarrow> fw_tool (files_os fs run) vs"
  by (simp add: fw_tool_def files_os_def quiet_os_def)

interpretation grub_files: grub_tool "files_os fs editenv_run" id
  by (rule grub_tool_files) (rule editenv.grub_tool_axioms)

interpretation fw_files: fw_tool "files_os fs fw_run" id
  by (rule fw_tool_files) (rule fw.fw_tool_axioms)

definition sample_args :: "string \<Rightarrow> string option" where
  "sample_args = [''/rootfs/boot/omnect_extra_bootargs_omnect'' \<mapsto> ''quiet  loglevel=3'' @ [newline]]"

interpretation grub_args: bootargs_env "grub_boot_env (files_os sample_args editenv_run)" "grub_lookup id"
  line_safe "grub_inv id" "files_os sample_args editenv_run"
proof unfold_locales
  fix s :: "env_block init" and p r s'
  assume "grub_inv id s" and "sys_text (files_os sample_args editenv_run) (ReadText p) s = (r, s')"
  then show "grub_inv id s' \<and> grub_lookup id s' = grub_lookup id s \<and> (\<forall>t. r = Inr t \<longrightarrow> valid_utf8 t)"
    by (auto simp: sys_text_def files_os_def grub_inv_def grub_lookup_def fun_eq_iff sample_args_def
        utf8_step_ascii split: option.splits if_splits)
next
  fix s :: "env_block init" and u s'
  assume "grub_inv id s" and "sys_unit (files_os sample_args editenv_run) SyncAll s = (u, s')"
  then show "grub_inv id s' \<and> grub_lookup id s' = grub_lookup id s"
    by (auto simp: sys_unit_def files_os_def quiet_os_def grub_inv_def grub_lookup_def fun_eq_iff)
next
  show "\<And>t. args_line t \<Longrightarrow> line_safe t" by (rule line_safe_args)
qed

interpretation uboot_args: bootargs_env "uboot_boot_env (files_os sample_args fw_run)" "uboot_lookup id"
  uboot_safe "uboot_inv id" "files_os sample_args fw_run"
proof unfold_locales
  fix s :: "(string \<Rightarrow> string option) init" and p r s'
  assume "uboot_inv id s" and "sys_text (files_os sample_args fw_run) (ReadText p) s = (r, s')"
  then show "uboot_inv id s' \<and> uboot_lookup id s' = uboot_lookup id s \<and> (\<forall>t. r = Inr t \<longrightarrow> valid_utf8 t)"
    by (auto simp: sys_text_def files_os_def uboot_inv_def uboot_lookup_def fun_eq_iff sample_args_def
        utf8_step_ascii split: option.splits if_splits)
next
  fix s :: "(string \<Rightarrow> string option) init" and u s'
  assume "uboot_inv id s" and "sys_unit (files_os sample_args fw_run) SyncAll s = (u, s')"
  then show "uboot_inv id s' \<and> uboot_lookup id s' = uboot_lookup id s"
    by (auto simp: sys_unit_def files_os_def quiet_os_def uboot_inv_def uboot_lookup_def fun_eq_iff)
next
  show "\<And>t. args_line t \<Longrightarrow> uboot_safe t" by (rule uboot_safe_args)
qed

text \<open>What the files of the boot partition give.\<close>

abbreviation files_args :: "'w os \<Rightarrow> string \<Rightarrow> ('w, 'p) machine \<Rightarrow> io_error + string" where
  "files_args os rootfs t \<equiv> fst (read_extra_bootargs os (path_join rootfs MP_BOOT) t)"

text \<open>
  C18: New boot arguments cost exactly one reboot. On a first boot, when the files give arguments other than the stored
  ones, the step asks for a reboot - or goes on with the failure of the boot environment that prevented it in
  the status; with the stored ones, it asks for none. When it asks, the environment holds exactly the new value and is
  otherwise as before, and on every later boot with this variable and the same files the step succeeds without
  another reboot. Later boots never ask.
\<close>

theorem extra_bootargs_converge:
  assumes "bootargs_env be lookup storable ready os" and "ready s"
    and "run_extra_bootargs os (Available be) rootfs s = (r, s')"
  shows "(r = Inr () \<or> r = Inl ExtraBootArgsUpdated)
    \<and> (\<forall>args. ods_first_boot (ods (program s)) \<longrightarrow> files_args os rootfs s = Inr args \<longrightarrow> unwrap_or_default (lookup s ExtraBootArgs) \<noteq> args \<longrightarrow>
         r = Inl ExtraBootArgsUpdated \<or> gives_up {ReadFailed, SetEnvFailed, ReadBackFailed} s')
    \<and> (r = Inl ExtraBootArgsUpdated \<longrightarrow> ods_first_boot (ods (program s)) \<and> (\<exists>args. files_args os rootfs s = Inr args
         \<and> unwrap_or_default (lookup s ExtraBootArgs) \<noteq> args
         \<and> lookup s' = (lookup s)(ExtraBootArgs := (if args = [] then None else Some args))
         \<and> (\<forall>t. ready t \<longrightarrow> lookup t ExtraBootArgs = lookup s' ExtraBootArgs \<longrightarrow> files_args os rootfs t = Inr args \<longrightarrow>
              fst (run_extra_bootargs os (Available be) rootfs t) = Inr ())))"
proof -
  note env = assms(1)
  have "r = Inr () \<or> r = Inl ExtraBootArgsUpdated"
  proof (cases "ods_first_boot (ods (program s))")
    case True
    show ?thesis
    proof (cases "files_args os rootfs s")
      case (Inl e)
      then obtain s1 where "read_extra_bootargs os (path_join rootfs MP_BOOT) s = (Inl e, s1)"
        by (metis prod.collapse)
      from bootargs_env.run_extra_bootargs_reads [OF env True this] assms(3) show ?thesis
        by (auto simp: bootargs_failed_def modify_ods_def modify_prog_def)
    next
      case (Inr args)
      from bootargs_env.reboot_outcome [OF env assms(2) True assms(3) this] show ?thesis by blast
    qed
  qed (use assms(3) in \<open>simp add: run_extra_bootargs_def get_prog_def bindE_def\<close>)
  moreover have "r = Inl ExtraBootArgsUpdated \<or> gives_up {ReadFailed, SetEnvFailed, ReadBackFailed} s'"
    if "ods_first_boot (ods (program s))" "files_args os rootfs s = Inr args" "unwrap_or_default (lookup s ExtraBootArgs) \<noteq> args" for args
    using bootargs_env.reboot_outcome [OF env assms(2) that(1) assms(3) that(2)] that(3) by blast
  moreover have "ods_first_boot (ods (program s)) \<and> (\<exists>args. files_args os rootfs s = Inr args
       \<and> unwrap_or_default (lookup s ExtraBootArgs) \<noteq> args
       \<and> lookup s' = (lookup s)(ExtraBootArgs := (if args = [] then None else Some args))
       \<and> (\<forall>t. ready t \<longrightarrow> lookup t ExtraBootArgs = lookup s' ExtraBootArgs \<longrightarrow> files_args os rootfs t = Inr args \<longrightarrow>
            fst (run_extra_bootargs os (Available be) rootfs t) = Inr ()))" if asked: "r = Inl ExtraBootArgsUpdated"
  proof -
    obtain args where args: "ods_first_boot (ods (program s))" "files_args os rootfs s = Inr args"
      "unwrap_or_default (lookup s ExtraBootArgs) \<noteq> args"
      "lookup s' = (lookup s)(ExtraBootArgs := (if args = [] then None else Some args))"
      using bootargs_env.reboot_applies [OF env assms(2), of rootfs s'] assms(3) asked by blast
    have "unwrap_or_default (lookup s' ExtraBootArgs) = args"
      by (simp add: args(4) unwrap_or_default_def)
    then have "\<forall>t. ready t \<longrightarrow> lookup t ExtraBootArgs = lookup s' ExtraBootArgs \<longrightarrow> files_args os rootfs t = Inr args \<longrightarrow>
        fst (run_extra_bootargs os (Available be) rootfs t) = Inr ()"
      using bootargs_env.stable_next_boot [OF env, of _ rootfs args] by simp
    then show ?thesis using args by blast
  qed
  ultimately show ?thesis by blast
qed

definition first_boot_machine :: "env_block init" where
  "first_boot_machine = \<lparr>world = [(''omnect_extra_bootargs'', ''quiet'')], trace = [], clock = 0,
     program = initial_program\<lparr>ods := ods_new\<lparr>ods_first_boot := True\<rparr>\<rparr>\<rparr>"

lemma first_boot_asks:
  "fst (run_extra_bootargs (files_os sample_args editenv_run)
     (Available (grub_boot_env (files_os sample_args editenv_run))) ''/rootfs'' first_boot_machine)
   = Inl ExtraBootArgsUpdated"
  by code_simp

lemma first_boot_file:
  "fst (read_extra_bootargs (files_os sample_args editenv_run) (path_join ''/rootfs'' MP_BOOT) first_boot_machine)
   = Inr ''quiet loglevel=3''"
  by code_simp

lemma extra_bootargs_converge_witness:
  "\<exists>s'. run_extra_bootargs (files_os sample_args editenv_run)
       (Available (grub_boot_env (files_os sample_args editenv_run))) ''/rootfs'' first_boot_machine
       = (Inl ExtraBootArgsUpdated, s')
     \<and> grub_lookup id s' ExtraBootArgs = Some ''quiet loglevel=3''"
proof -
  let ?os = "files_os sample_args editenv_run"
  have "grub_inv id first_boot_machine"
    by (auto simp: grub_inv_def first_boot_machine_def block_ok_def line_safe_def utf8_step_ascii)
  moreover obtain s' where run: "run_extra_bootargs ?os (Available (grub_boot_env ?os)) ''/rootfs'' first_boot_machine
      = (Inl ExtraBootArgsUpdated, s')"
    using first_boot_asks by (metis prod.collapse)
  ultimately have "grub_lookup id s' = (grub_lookup id first_boot_machine)(ExtraBootArgs := Some ''quiet loglevel=3'')"
    using extra_bootargs_converge [OF grub_args.bootargs_env_axioms _ run] first_boot_file by auto
  then show ?thesis using run by simp
qed

end
