(* ===== verification/Reset_Config.thy ===== *)
theory Reset_Config
  imports Init_Setup
begin

text \<open>
  What a factory reset keeps: \<open>src/mode/factory_reset/config.rs\<close> and
  \<open>src/mode/factory_reset/backup_restore.rs\<close>. The JSON library is a parameter: a record with the
  operations the code calls on a parsed value.
\<close>

section \<open>JSON\<close>

record 'j json_lib =
  json_parse :: "string \<Rightarrow> string + 'j"
  json_get :: "'j \<Rightarrow> string \<Rightarrow> 'j option"
  json_u64 :: "'j \<Rightarrow> u64 option"
  json_array :: "'j \<Rightarrow> 'j list option"
  json_str :: "'j \<Rightarrow> string option"
  json_text :: "'j \<Rightarrow> string"

datatype not_a_string_array = MissingKey | NotAnArray | NotOnlyStrings

definition string_array :: "'j json_lib \<Rightarrow> 'j \<Rightarrow> string \<Rightarrow> not_a_string_array + string list" where
  "string_array js v key = (case json_get js v key of
     None \<Rightarrow> Inl MissingKey
   | Some a \<Rightarrow> (case json_array js a of
       None \<Rightarrow> Inl NotAnArray
     | Some xs \<Rightarrow> (case option_all (map (json_str js) xs) of
         None \<Rightarrow> Inl NotOnlyStrings | Some ts \<Rightarrow> Inr ts)))"

section \<open>The trigger\<close>

definition FACTORY_RESET_CONFIG_FILE :: string where
  "FACTORY_RESET_CONFIG_FILE = ''etc/omnect/factory-reset.json''"
definition FACTORY_RESET_CONFIG_DIR :: string where
  "FACTORY_RESET_CONFIG_DIR = ''etc/omnect/factory-reset.d''"
definition PRESERVE_LIST_MANDATORY :: string where
  "PRESERVE_LIST_MANDATORY = ''/etc/omnect/factory-reset.d/''"
definition KEY_APPLICATIONS :: string where "KEY_APPLICATIONS = ''applications''"
definition KEY_PATHS :: string where "KEY_PATHS = ''paths''"
definition KEY_MODE :: string where "KEY_MODE = ''mode''"
definition KEY_PRESERVE :: string where "KEY_PRESERVE = ''preserve''"

datatype reset_mode = ResetMode1 | ResetMode2 | ResetMode3

definition reset_mode_of :: "u32 \<Rightarrow> string + reset_mode" where
  "reset_mode_of v = (if v = 1 then Inr ResetMode1 else if v = 2 then Inr ResetMode2
     else if v = 3 then Inr ResetMode3
     else Inl (''factory reset mode '' @ show_word v @ '' is not supported''))"

record factory_reset_config =
  reset_mode_field :: reset_mode
  preserve :: "string list"

definition quoted :: "string \<Rightarrow> string" where "quoted t = apos @ t @ apos"

definition parse_mode_number :: "'j json_lib \<Rightarrow> 'j \<Rightarrow> string + u32" where
  "parse_mode_number js trigger = (case json_get js trigger KEY_MODE of
     None \<Rightarrow> Inl (''the trigger has no '' @ quoted KEY_MODE)
   | Some v \<Rightarrow> (case json_u64 js v of
       Some m \<Rightarrow> if unat m < 2 ^ 32 then Inr (ucast m)
         else Inl (quoted KEY_MODE @ '' is not a supported mode number: '' @ json_text js v)
     | None \<Rightarrow> Inl (quoted KEY_MODE @ '' is not a supported mode number: '' @ json_text js v)))"

definition parse_reset_config :: "'j json_lib \<Rightarrow> string \<Rightarrow> factory_reset_error + factory_reset_config" where
  "parse_reset_config js json = (case json_parse js json of
     Inl e \<Rightarrow> Inl (InvalidConfig (''Failed to parse factory-reset JSON: '' @ e))
   | Inr trigger \<Rightarrow> (case parse_mode_number js trigger of
       Inl e \<Rightarrow> Inl (InvalidConfig e)
     | Inr number \<Rightarrow> (case reset_mode_of number of
         Inl e \<Rightarrow> Inl (InvalidConfig e)
       | Inr m \<Rightarrow> (case string_array js trigger KEY_PRESERVE of
           Inl MissingKey \<Rightarrow> Inl (MissingField (''trigger has no '' @ quoted KEY_PRESERVE @ '' key''))
         | Inl NotAnArray \<Rightarrow> Inl (InvalidPreserve (quoted KEY_PRESERVE @ '' must be an array''))
         | Inl NotOnlyStrings \<Rightarrow> Inl (InvalidPreserve (quoted KEY_PRESERVE @ '' must contain only strings''))
         | Inr paths \<Rightarrow> Inr \<lparr>reset_mode_field = m, preserve = paths\<rparr>))))"

section \<open>The preserve list\<close>

definition trim_start_slash :: "string \<Rightarrow> string" where
  "trim_start_slash p = dropWhile (\<lambda>c. c = slash) p"

definition validate_preserve_path :: "string \<Rightarrow> initramfs_error + unit" where
  "validate_preserve_path path =
     (if trim_start_slash path = []
      then Inl (FactoryReset (InvalidPreserve ''preserve path must not be empty''))
      else if ParentDir \<in> set (components (trim_start_slash path))
      then Inl (FactoryReset (InvalidPreserve
        (''preserve path '' @ quoted path @ '' contains '' @ quoted ''..'' @ '' and would escape rootfs'')))
      else Inr ())"

text \<open>The loop over the paths of one array.\<close>

fun push_validated :: "string list \<Rightarrow> string list \<Rightarrow> initramfs_error + string list" where
  "push_validated [] acc = Inr acc"
| "push_validated (p # ps) acc = (case validate_preserve_path p of
     Inl e \<Rightarrow> Inl e | Inr _ \<Rightarrow> push_validated ps (acc @ [p]))"

definition config_array_error :: "string \<Rightarrow> string \<Rightarrow> not_a_string_array \<Rightarrow> initramfs_error" where
  "config_array_error file key e = FactoryReset (case e of
     MissingKey \<Rightarrow> MissingField (file @ '': no '' @ quoted key @ '' key'')
   | NotAnArray \<Rightarrow> InvalidPreserve (file @ '': value for key '' @ quoted key @ '' must be an array'')
   | NotOnlyStrings \<Rightarrow> InvalidPreserve (file @ '': value for key '' @ quoted key
       @ '' must contain only strings''))"

definition paths_array_error :: "string \<Rightarrow> not_a_string_array \<Rightarrow> initramfs_error" where
  "paths_array_error file e = FactoryReset (case e of
     MissingKey \<Rightarrow> MissingField (file @ '': no '' @ quoted KEY_PATHS @ '' key'')
   | NotAnArray \<Rightarrow> InvalidPreserve (file @ '': '' @ quoted KEY_PATHS @ '' must be an array'')
   | NotOnlyStrings \<Rightarrow> InvalidPreserve (file @ '': '' @ quoted KEY_PATHS @ '' must contain only strings''))"

definition reset_io :: "string \<Rightarrow> io_error \<Rightarrow> initramfs_error" where
  "reset_io what e = FactoryReset (ResetIo (IoError (io_kind_of e) (what @ '': '' @ show_io e)))"

definition collect_one :: "'j json_lib \<Rightarrow> 'w os \<Rightarrow> string \<Rightarrow> io_error + string \<Rightarrow> string list \<Rightarrow>
    (('w, 'p) machine, initramfs_error, string list) io" where
  "collect_one js os dir entry acc = (case entry of
     Inl e \<Rightarrow> throw (reset_io (''Failed to read entry in '' @ dir) e)
   | Inr name \<Rightarrow> (let path = path_join dir name in
       if path_extension path \<noteq> Some ''json'' then ret acc
       else bindE (map_err (reset_io (''Failed to read '' @ path)) (sys_text os (ReadText path))) (\<lambda>content.
         case json_parse js content of
           Inl e \<Rightarrow> throw (FactoryReset (InvalidPreserve (path @ '': invalid JSON ('' @ e @ '')'')))
         | Inr v \<Rightarrow> (case string_array js v KEY_PATHS of
             Inl e \<Rightarrow> throw (paths_array_error path e)
           | Inr paths \<Rightarrow> lift_res (push_validated paths acc)))))"

definition collect_application_paths :: "'j json_lib \<Rightarrow> 'w os \<Rightarrow> string \<Rightarrow> string list \<Rightarrow>
    (('w, 'p) machine, initramfs_error, string list) io" where
  "collect_application_paths js os rootfs acc = (let dir = path_join rootfs FACTORY_RESET_CONFIG_DIR in
     bindE (sys_bool os (Exists dir)) (\<lambda>there.
     if \<not> there then ret acc
     else bindE (map_err (reset_io (''Failed to read '' @ dir)) (sys_entries os (ReadDir dir))) (\<lambda>entries.
       fold_io (collect_one js os dir) entries acc)))"

definition read_key_config :: "'j json_lib \<Rightarrow> 'w os \<Rightarrow> string \<Rightarrow> (('w, 'p) machine, initramfs_error, 'j) io" where
  "read_key_config js os config_file =
     bindE (map_err (\<lambda>e. if io_kind_of e = NotFound
              then FactoryReset (MissingField (config_file @ '' does not exist''))
              else reset_io (''Failed to read '' @ config_file) e)
            (sys_text os (ReadText config_file))) (\<lambda>content.
     case json_parse js content of
       Inl e \<Rightarrow> throw (FactoryReset (InvalidPreserve (''Failed to parse '' @ config_file @ '': '' @ e)))
     | Inr v \<Rightarrow> ret v)"

text \<open>
  One key of the trigger. A key other than \<open>applications\<close> is looked up in the configuration file,
  which has been read when there is such a key; \<open>None\<close> there is the panic of \<open>expect\<close>, written as
  an error nothing else produces and shown unreachable below.
\<close>

definition EXPECT_KEY_CONFIG :: initramfs_error where
  "EXPECT_KEY_CONFIG = Io (IoError OtherKind ''panic: key_config must be Some for non-application keys'')"

definition collect_key :: "'j json_lib \<Rightarrow> 'w os \<Rightarrow> string \<Rightarrow> 'j option \<Rightarrow> string \<Rightarrow> string list \<Rightarrow>
    (('w, 'p) machine, initramfs_error, string list) io" where
  "collect_key js os rootfs key_config key acc =
     (if key = KEY_APPLICATIONS then collect_application_paths js os rootfs acc
      else case key_config of
        None \<Rightarrow> throw EXPECT_KEY_CONFIG
      | Some v \<Rightarrow> (case string_array js v key of
          Inl e \<Rightarrow> throw (config_array_error (path_join rootfs FACTORY_RESET_CONFIG_FILE) key e)
        | Inr paths \<Rightarrow> lift_res (push_validated paths acc)))"

definition build_preserve_list :: "'j json_lib \<Rightarrow> 'w os \<Rightarrow> factory_reset_config \<Rightarrow> string \<Rightarrow>
    (('w, 'p) machine, initramfs_error, string list) io" where
  "build_preserve_list js os config rootfs =
     bindE (if list_ex (\<lambda>k. k \<noteq> KEY_APPLICATIONS) (preserve config)
            then bindE (read_key_config js os (path_join rootfs FACTORY_RESET_CONFIG_FILE)) (\<lambda>v. ret (Some v))
            else ret None) (\<lambda>key_config.
     fold_io (collect_key js os rootfs key_config) (preserve config) [PRESERVE_LIST_MANDATORY])"

section \<open>Backup\<close>

definition FR_CP_CMD :: string where "FR_CP_CMD = ''/bin/cp''"
definition FR_SYNC_CMD :: string where "FR_SYNC_CMD = ''/bin/sync''"
definition CONTEXT_SEPARATOR :: string where "CONTEXT_SEPARATOR = '';''"

definition run_sync :: "'w os \<Rightarrow> (('w, 'p) machine, initramfs_error, unit) io" where
  "run_sync os = bindE (map_err (\<lambda>e. FactoryReset (ResetIo (IoError OtherKind (''sync failed: '' @ show_io e))))
     (sys_run os (Spawn FR_SYNC_CMD [] []))) (\<lambda>out.
     if \<not> success out
     then throw (FactoryReset (ResetIo (IoError OtherKind (''sync exited with '' @ display_status out))))
     else ret ())"

definition run_cp :: "'w os \<Rightarrow> string list \<Rightarrow> (string \<Rightarrow> factory_reset_error) \<Rightarrow>
    (('w, 'p) machine, initramfs_error, unit) io" where
  "run_cp os args failed =
     bindE (map_err (\<lambda>e. FactoryReset (failed (''Failed to run cp: '' @ show_io e)))
              (sys_run os (Spawn FR_CP_CMD args []))) (\<lambda>out.
     if \<not> success out
     then throw (FactoryReset (failed (''cp failed ('' @ display_status out @ ''): '' @ utf8_lossy (stderr out))))
     else ret ())"

definition backup_path :: "'w os \<Rightarrow> string \<Rightarrow> string \<Rightarrow> string \<Rightarrow> (('w, 'p) machine, initramfs_error, bool) io" where
  "backup_path os rootfs path backup_dir = (let src = path_join rootfs (trim_start_slash path) in
     bindE (sys_bool os (Exists src)) (\<lambda>there.
     if \<not> there then ret False
     else bindE (run_cp os [''--parents'', ''-a'', src, backup_dir] (BackupFailed path)) (\<lambda>_.
          bindE (run_sync os) (\<lambda>_. ret True))))"

definition backup_all :: "'w os \<Rightarrow> string \<Rightarrow> string list \<Rightarrow> string \<Rightarrow>
    (('w, 'p) machine, initramfs_error, string list) io" where
  "backup_all os rootfs preserve_list backup_dir =
     bindE (map_err Io (sys_unit os (MakeDirs backup_dir))) (\<lambda>_.
     fold_io (\<lambda>path backed_up. bindE (backup_path os rootfs path backup_dir) (\<lambda>done.
       ret (if done then backed_up @ [path] else backed_up))) preserve_list [])"

definition backup_root :: "string \<Rightarrow> string \<Rightarrow> string" where
  "backup_root rootfs backup_dir = path_join backup_dir
     (case path_strip_prefix ''/'' rootfs of Some r \<Rightarrow> r | None \<Rightarrow> rootfs)"

definition backup_source :: "string \<Rightarrow> string \<Rightarrow> string \<Rightarrow> string" where
  "backup_source rootfs path backup_dir = path_join (backup_root rootfs backup_dir) (trim_start_slash path)"

section \<open>Restore\<close>

fun missing_ancestors :: "'w os \<Rightarrow> string \<Rightarrow> string list \<Rightarrow> string list \<Rightarrow>
    (('w, 'p) machine, io_error, string list) io" where
  "missing_ancestors os rootfs [] acc = ret acc"
| "missing_ancestors os rootfs (dir # dirs) acc =
     (if path_eq dir rootfs then ret acc
      else caught (sys_stat os (Lstat dir)) (\<lambda>r. case r of
          Inr _ \<Rightarrow> ret acc | Inl _ \<Rightarrow> missing_ancestors os rootfs dirs (acc @ [dir])))"

definition recreate_dir :: "'w os \<Rightarrow> string \<Rightarrow> string \<Rightarrow> string \<Rightarrow> (('w, 'p) machine, io_error, unit) io" where
  "recreate_dir os rootfs backup dir = (case path_strip_prefix rootfs dir of
     None \<Rightarrow> throw (IoError OtherKind ''prefix not found'')
   | Some rel \<Rightarrow>
       bindE (sys_stat os (Stat (path_join backup rel))) (\<lambda>meta.
       bindE (sys_unit os (MakeDir dir)) (\<lambda>_.
       bindE (sys_unit os (Chown dir (st_uid meta) (st_gid meta))) (\<lambda>_.
       sys_unit os (Chmod dir (st_mode meta))))))"

definition create_parent_dirs :: "'w os \<Rightarrow> string \<Rightarrow> string \<Rightarrow> string \<Rightarrow> (('w, 'p) machine, io_error, unit) io" where
  "create_parent_dirs os rootfs dest_dir backup =
     bindE (missing_ancestors os rootfs (path_ancestors dest_dir) []) (\<lambda>missing.
     bindE (for_each (rev missing) (recreate_dir os rootfs backup)) (\<lambda>_.
     bindE (sys_bool os (IsDir dest_dir)) (\<lambda>is_dir.
     if \<not> is_dir then throw (IoError OtherKind ''not a directory'') else ret ())))"

definition restore_path :: "'w os \<Rightarrow> string \<Rightarrow> string \<Rightarrow> string \<Rightarrow> (('w, 'p) machine, initramfs_error, unit) io" where
  "restore_path os rootfs path backup_dir =
     (let backup_src = backup_source rootfs path backup_dir;
          dest_full = path_join rootfs (trim_start_slash path);
          dest_dir = (case parent dest_full of Some d \<Rightarrow> d | None \<Rightarrow> rootfs)
      in bindE (sys_bool os (Exists backup_src)) (\<lambda>there.
         if \<not> there then ret ()
         else bindE (map_err (\<lambda>e. FactoryReset (RestoreFailed path
                (''Cannot recreate '' @ dest_dir @ '' from the backup: '' @ show_io e)))
                (create_parent_dirs os rootfs dest_dir (backup_root rootfs backup_dir))) (\<lambda>_.
           bindE (run_cp os [''-a'', backup_src, dest_dir] (RestoreFailed path)) (\<lambda>_. run_sync os))))"

datatype restore_result = RestoreSuccess | PartialFailure string string

text \<open>One turn of the loop of \<open>restore_all\<close>, on the notes and the last error.\<close>

definition restore_one :: "'w os \<Rightarrow> string \<Rightarrow> string \<Rightarrow> string \<Rightarrow> string list \<times> string option \<Rightarrow>
    (('w, 'p) machine, initramfs_error, string list \<times> string option) io" where
  "restore_one os rootfs backup_dir path acc =
     bindE (sys_bool os (Exists (backup_source rootfs path backup_dir))) (\<lambda>there.
     if \<not> there then ret (fst acc @ [trim_start_slash path @ '':missing-backup''],
                          Some (''backup missing for '' @ path))
     else caught (restore_path os rootfs path backup_dir) (\<lambda>r. case r of
         Inr _ \<Rightarrow> ret acc
       | Inl e \<Rightarrow> ret (fst acc @ [trim_start_slash path @ '':restore''], Some (show_initramfs_error e))))"

definition restore_all :: "'w os \<Rightarrow> string \<Rightarrow> string list \<Rightarrow> string \<Rightarrow>
    (('w, 'p) machine, initramfs_error, restore_result) io" where
  "restore_all os rootfs backed_up backup_dir =
     bindE (fold_io (restore_one os rootfs backup_dir) backed_up ([], None)) (\<lambda>(context, last_error).
     ret (case last_error of
       Some e \<Rightarrow> PartialFailure (join_with CONTEXT_SEPARATOR context) e
     | None \<Rightarrow> RestoreSuccess))"

section \<open>The preserve list stays below the root file system\<close>

definition is_reset_error :: "initramfs_error \<Rightarrow> bool" where
  "is_reset_error e \<longleftrightarrow> (\<exists>f. e = FactoryReset f)"

definition preservable :: "string \<Rightarrow> bool" where
  "preservable p \<longleftrightarrow> trim_start_slash p \<noteq> [] \<and> ParentDir \<notin> set (components (trim_start_slash p))"

definition preservable_list :: "string list \<Rightarrow> bool" where
  "preservable_list l \<longleftrightarrow> l \<noteq> [] \<and> hd l = PRESERVE_LIST_MANDATORY \<and> (\<forall>p \<in> set l. preservable p)"

lemma validate_preserve_path_result:
  "validate_preserve_path p = Inr u \<Longrightarrow> preservable p"
  "validate_preserve_path p = Inl e \<Longrightarrow> is_reset_error e"
  by (auto simp: validate_preserve_path_def preservable_def is_reset_error_def split: if_splits)

lemma push_validated_result:
  "push_validated ps acc = Inr l \<Longrightarrow> preservable_list acc \<Longrightarrow> preservable_list l"
  "push_validated ps acc = Inl e \<Longrightarrow> is_reset_error e"
proof (induction ps acc rule: push_validated.induct)
  case (2 p ps acc)
  { case 1
    then obtain u where u: "validate_preserve_path p = Inr u" by (auto split: sum.splits)
    have "preservable_list (acc @ [p])"
      using 1(2) validate_preserve_path_result(1) [OF u] by (auto simp: preservable_list_def)
    then show ?case using 1(1) 2(1) u by simp
  next
    case 2
    then show ?case
      using "2.IH"(2) validate_preserve_path_result(2) by (auto split: sum.splits)
  }
qed auto

lemma results_push_validated:
  "preservable_list acc \<Longrightarrow> results is_reset_error preservable_list (lift_res (push_validated ps acc))"
  using push_validated_result by (intro result_intros) blast+

lemma reset_error_intros:
  "is_reset_error (FactoryReset f)" "is_reset_error (reset_io w x)"
  "is_reset_error (config_array_error file key a)" "is_reset_error (paths_array_error file a)"
  by (simp_all add: is_reset_error_def reset_io_def config_array_error_def paths_array_error_def)

lemma results_call:
  "results (\<lambda>_. True) (\<lambda>_. True) m \<Longrightarrow> (\<And>e. E (g e)) \<Longrightarrow> results E (\<lambda>_. True) (map_err g m)"
  by (rule results_map_err) (auto elim: results_mono)

lemma collect_one_results:
  assumes "preservable_list acc"
  shows "results is_reset_error preservable_list (collect_one js os dir entry acc)"
proof -
  have read: "results is_reset_error (\<lambda>_. True) (map_err (reset_io w) (sys_text os c))" for w c
    by (rule results_call [OF results_any]) (rule reset_error_intros)
  show ?thesis
    unfolding collect_one_def Let_def
    by (intro result_intros results_push_validated [OF assms] reset_error_intros
        results_bindE [OF read] assms)
qed

lemma collect_application_paths_results:
  assumes "preservable_list acc"
  shows "results is_reset_error preservable_list (collect_application_paths js os rootfs acc)"
proof -
  have read: "results is_reset_error (\<lambda>_. True) (map_err (reset_io w) (sys_entries os c))" for w c
    by (rule results_call [OF results_any]) (rule reset_error_intros)
  show ?thesis
    unfolding collect_application_paths_def Let_def
    by (intro results_bindE [OF results_infallible(1)] results_if results_pure(1)
        results_bindE [OF read] results_fold_io collect_one_results assms)
qed

lemma read_key_config_results: "results is_reset_error (\<lambda>_. True) (read_key_config js os cfg)"
proof -
  have "results is_reset_error (\<lambda>_. True) (map_err (\<lambda>e. if io_kind_of e = NotFound
      then FactoryReset (MissingField (cfg @ '' does not exist''))
      else reset_io (''Failed to read '' @ cfg) e) (sys_text os c))" for c
    by (rule results_call [OF results_any]) (simp add: reset_error_intros)
  then show ?thesis
    unfolding read_key_config_def
    by (rule results_bindE) (intro result_intros reset_error_intros TrueI)
qed

lemma collect_key_results:
  assumes "preservable_list acc" and "key \<noteq> KEY_APPLICATIONS \<Longrightarrow> key_config \<noteq> None"
  shows "results is_reset_error preservable_list (collect_key js os rootfs key_config key acc)"
proof (cases key_config)
  case None
  then have "key = KEY_APPLICATIONS" using assms(2) by blast
  then show ?thesis by (simp add: collect_key_def collect_application_paths_results assms(1))
next
  case (Some v)
  then show ?thesis
    using assms(1)
    by (cases "string_array js v key")
      (simp_all add: collect_key_def collect_application_paths_results results_push_validated
        results_pure reset_error_intros)
qed

lemma mandatory_preservable: "preservable_list [PRESERVE_LIST_MANDATORY]"
  by (simp add: preservable_list_def preservable_def PRESERVE_LIST_MANDATORY_def trim_start_slash_def
      components_def split_char_def to_component_def Let_def)

lemma build_preserve_list_results:
  "results is_reset_error preservable_list (build_preserve_list js os config rootfs)"
proof -
  let ?keyed = "list_ex (\<lambda>k. k \<noteq> KEY_APPLICATIONS) (preserve config)"
  have "results is_reset_error (\<lambda>c. ?keyed \<longrightarrow> c \<noteq> None)
      (if ?keyed then bindE (read_key_config js os cfg) (\<lambda>v. ret (Some v)) else ret None)" for cfg
    by (intro results_if results_bindE [OF read_key_config_results] results_pure) simp_all
  then show ?thesis
    unfolding build_preserve_list_def
    by (rule results_bindE) (intro results_fold_io collect_key_results mandatory_preservable;
        auto simp: list_ex_iff)
qed

lemma hd_trim_start_slash: "trim_start_slash p = [] \<or> hd (trim_start_slash p) \<noteq> slash"
  using hd_dropWhile [of "\<lambda>c. c = slash" p] by (auto simp: trim_start_slash_def)

lemma preservable_confined:
  "rootfs \<noteq> [] \<Longrightarrow> preservable p \<Longrightarrow> confined rootfs (path_join rootfs (trim_start_slash p))"
  using hd_trim_start_slash by (intro confined_join) (auto simp: preservable_def)

text \<open>
  C28: The preserve list. A list that is built starts with the mandatory path, and every path in it,
  joined to the root file system as backup and restore join it, lies below it without leading back
  up; a list that cannot be built is an error of the factory reset, never a panic.
\<close>

theorem preserve_list_confined:
  assumes "rootfs \<noteq> []"
  shows "case fst (build_preserve_list js os config rootfs s) of
      Inl e \<Rightarrow> is_reset_error e \<and> e \<noteq> EXPECT_KEY_CONFIG
    | Inr l \<Rightarrow> l \<noteq> [] \<and> hd l = PRESERVE_LIST_MANDATORY
        \<and> (\<forall>p \<in> set l. confined rootfs (path_join rootfs (trim_start_slash p)))"
proof -
  have "case fst (build_preserve_list js os config rootfs s) of
      Inl e \<Rightarrow> is_reset_error e | Inr l \<Rightarrow> preservable_list l"
    using build_preserve_list_results [of js os config rootfs, unfolded results_def] by blast
  then show ?thesis
    using preservable_confined [OF assms]
    by (auto simp: preservable_list_def is_reset_error_def EXPECT_KEY_CONFIG_def split: sum.splits)
qed

text \<open>A notation of string lists by words, and a configuration file in it.\<close>

definition word_json :: "string list json_lib" where
  "word_json = \<lparr>json_parse = \<lambda>t. Inr (split_ws t), json_get = \<lambda>v k. Some v, json_u64 = \<lambda>v. None,
     json_array = \<lambda>v. Some (map (\<lambda>w. [w]) v), json_str = \<lambda>v. Some (concat v), json_text = concat\<rparr>"

definition keyed_files :: "string \<Rightarrow> string option" where
  "keyed_files = [''/rootfs/etc/omnect/factory-reset.json'' \<mapsto> ''/etc/wifi /home/user/.ssh'']"

definition blank_machine :: "unit init" where
  "blank_machine = \<lparr>world = (), trace = [], clock = 0, program = initial_program\<rparr>"

lemma keyed_list_built:
  "fst (build_preserve_list word_json (files_os keyed_files (\<lambda>c w. (Inr (exit_with 0 []), w)))
     \<lparr>reset_mode_field = ResetMode1, preserve = [''network'']\<rparr> ''/rootfs'' blank_machine)
   = Inr [PRESERVE_LIST_MANDATORY, ''/etc/wifi'', ''/home/user/.ssh'']"
  by code_simp

lemma preserve_list_confined_witness:
  "confined ''/rootfs'' (path_join ''/rootfs'' (trim_start_slash ''/home/user/.ssh''))"
  using preserve_list_confined [of "''/rootfs''" word_json
      "files_os keyed_files (\<lambda>c w. (Inr (exit_with 0 []), w))"
      "\<lparr>reset_mode_field = ResetMode1, preserve = [''network'']\<rparr>" blank_machine]
  by (simp add: keyed_list_built)

end
