(* ===== verification/Mode.thy ===== *)
theory Mode
  imports Reset_Config
begin

text \<open>
  \<open>src/mode/mod.rs\<close> and \<open>src/mode/flash/config.rs\<close>: what the boot environment and the enforce flag
  select. Decoding of base64 is a parameter.
\<close>

section \<open>The flash configuration\<close>

datatype flash_mode = FlashMode1 | FlashMode2 | FlashMode3

definition selector :: "flash_mode \<Rightarrow> string" where
  "selector m = (case m of FlashMode1 \<Rightarrow> ''1'' | FlashMode2 \<Rightarrow> ''2'' | FlashMode3 \<Rightarrow> ''3'')"

definition overwrites_running_disk :: "flash_mode \<Rightarrow> bool" where
  "overwrites_running_disk m = (case m of FlashMode1 \<Rightarrow> False | FlashMode2 \<Rightarrow> True | FlashMode3 \<Rightarrow> True)"

datatype 'a env_value = EnvSet 'a | EnvNotSet | EnvInvalid string | EnvUnreadable string

record flash_config =
  fc_mode :: flash_mode
  fc_devpath :: "string env_value"
  fc_image_url :: "url env_value"
  fc_sha256_url :: "url env_value"

definition flash_config_new :: "flash_mode \<Rightarrow> flash_config" where
  "flash_config_new m = \<lparr>fc_mode = m, fc_devpath = EnvNotSet, fc_image_url = EnvNotSet, fc_sha256_url = EnvNotSet\<rparr>"

definition parse_flash_mode :: "features \<Rightarrow> string \<Rightarrow> flash_mode option" where
  "parse_flash_mode ft v =
     (if flash_mode_1 ft \<and> v = ''1'' then Some FlashMode1
      else if flash_mode_2 ft \<and> v = ''2'' then Some FlashMode2
      else if flash_mode_3 ft \<and> v = ''3'' then Some FlashMode3 else None)"

definition parse_devpath :: "string option \<Rightarrow> string env_value" where
  "parse_devpath v = (case map_option trim v of
     Some path \<Rightarrow> if path \<noteq> [] then EnvSet path else EnvNotSet | None \<Rightarrow> EnvNotSet)"

definition parse_url :: "(string \<Rightarrow> string + string) \<Rightarrow> string option \<Rightarrow> url env_value" where
  "parse_url b64_decode v =
     (let encoded = filter (\<lambda>c. \<not> is_ascii_ws c) (case v of None \<Rightarrow> [] | Some t \<Rightarrow> t) in
      if encoded = [] then EnvNotSet
      else case b64_decode encoded of
        Inl e \<Rightarrow> EnvInvalid (''not base64: '' @ e)
      | Inr decoded \<Rightarrow> if valid_utf8 decoded
          then (case Url_new decoded of None \<Rightarrow> EnvInvalid ''decodes to an empty URL'' | Some u \<Rightarrow> EnvSet u)
          else EnvInvalid ''decodes to text that is not UTF-8'')"

section \<open>Modes and triggers\<close>

datatype factory_reset_trigger = Accepted factory_reset_config | Rejected factory_reset_error

datatype boot_mode = NormalMode | FactoryResetMode factory_reset_trigger | FlashBootMode flash_config

text \<open>A run of writes whose failures are only logged.\<close>

definition unset_best_effort :: "'s boot_env \<Rightarrow> boot_env_key \<Rightarrow> ('s, 'e, unit) io" where
  "unset_best_effort bl k = ignore (set_env bl k None)"

definition clear_flash_triggers :: "features \<Rightarrow> 's boot_env \<Rightarrow> ('s, 'e, unit) io" where
  "clear_flash_triggers ft bl =
     bindE (unset_best_effort bl FlashModeKey) (\<lambda>_.
     bindE (if flash_mode_1 ft then unset_best_effort bl FlashModeDevPath else ret ()) (\<lambda>_.
     if flash_mode_3 ft then for_each [FlashModeUrl, FlashModeUrlSha256] (unset_best_effort bl) else ret ()))"

definition clear_flash_and_reset_triggers :: "features \<Rightarrow> 's boot_env \<Rightarrow> ('s, 'e, unit) io" where
  "clear_flash_and_reset_triggers ft bl =
     bindE (clear_flash_triggers ft bl) (\<lambda>_. unset_best_effort bl FactoryResetKey)"

definition ENFORCE_FLASH_MODE_FLAG :: string where "ENFORCE_FLASH_MODE_FLAG = ''etc/enforce_flash_mode''"

definition enforce_flag :: "'w os \<Rightarrow> string \<Rightarrow> (('w, 'p) machine, 'e, bool) io" where
  "enforce_flag os root = sys_bool os (IsFile (path_join root ENFORCE_FLASH_MODE_FLAG))"

definition mode_2_config :: flash_config where "mode_2_config = flash_config_new FlashMode2"

definition read_url :: "(string \<Rightarrow> string + string) \<Rightarrow> 's boot_env \<Rightarrow> boot_env_key \<Rightarrow> ('s, 'e, url env_value) io" where
  "read_url b64 bl k = caught (get_env bl k) (\<lambda>r. case r of
     Inr v \<Rightarrow> ret (parse_url b64 v) | Inl e \<Rightarrow> ret (EnvUnreadable (show_boot_env_error e)))"

definition build_flash_config :: "(string \<Rightarrow> string + string) \<Rightarrow> 's boot_env \<Rightarrow> flash_mode \<Rightarrow>
    ('s, 'e, flash_config) io" where
  "build_flash_config b64 bl m = (case m of
     FlashMode1 \<Rightarrow> caught (get_env bl FlashModeDevPath) (\<lambda>r.
       ret ((flash_config_new m)\<lparr>fc_devpath := (case r of
         Inr v \<Rightarrow> parse_devpath v | Inl e \<Rightarrow> EnvUnreadable (show_boot_env_error e))\<rparr>))
   | FlashMode2 \<Rightarrow> ret mode_2_config
   | FlashMode3 \<Rightarrow> bindE (read_url b64 bl FlashModeUrl) (\<lambda>image.
       bindE (read_url b64 bl FlashModeUrlSha256) (\<lambda>sha.
       ret ((flash_config_new m)\<lparr>fc_image_url := image, fc_sha256_url := sha\<rparr>))))"

section \<open>Detection\<close>

text \<open>A blank value is no trigger.\<close>

definition nonblank :: "string option \<Rightarrow> bool" where
  "nonblank v \<longleftrightarrow> (\<exists>t. v = Some t \<and> trim t \<noteq> [])"

lemma nonblank_code [code]: "nonblank v = (case v of None \<Rightarrow> False | Some t \<Rightarrow> trim t \<noteq> [])"
  by (simp add: nonblank_def split: option.split)

text \<open>The mode a value selects, the enforce flag considered.\<close>

definition selected_mode :: "features \<Rightarrow> bool \<Rightarrow> string option \<Rightarrow> flash_mode option" where
  "selected_mode ft flag v =
     (let parsed = (case v of Some t \<Rightarrow> if trim t \<noteq> [] then parse_flash_mode ft t else None | None \<Rightarrow> None) in
      if flash_mode_2 ft then
        (if flash_mode_1 ft \<and> parsed = Some FlashMode1 then parsed
         else if flag then Some FlashMode2 else parsed)
      else parsed)"

definition detect_reset :: "features \<Rightarrow> 'j json_lib \<Rightarrow> 's boot_env \<Rightarrow> ('s, 'e, boot_mode) io" where
  "detect_reset ft js bl =
     (if \<not> factory_reset_enabled ft then ret NormalMode
      else caught (get_env bl FactoryResetKey) (\<lambda>r. case r of
          Inr (Some json) \<Rightarrow>
            if trim json = [] then ret NormalMode
            else (case parse_reset_config js json of
                Inr config \<Rightarrow> ret (FactoryResetMode (Accepted config))
              | Inl e \<Rightarrow> ret (FactoryResetMode (Rejected e)))
        | Inr None \<Rightarrow> ret NormalMode
        | Inl _ \<Rightarrow> ret NormalMode))"

text \<open>
  A flash mode is selected. The first read of the reset trigger only decides whether a line is
  logged, but it is a call on the environment all the same.
\<close>

definition detect_flash :: "features \<Rightarrow> (string \<Rightarrow> string + string) \<Rightarrow> 's boot_env \<Rightarrow> flash_mode \<Rightarrow>
    ('s, initramfs_error, boot_mode) io" where
  "detect_flash ft b64 bl m =
     bindE (if flash_mode_network ft \<and> factory_reset_enabled ft \<and> overwrites_running_disk m
            then ignore (get_env bl FactoryResetKey) else ret ()) (\<lambda>_.
     let build = bindE (build_flash_config b64 bl m) (\<lambda>cfg. ret (FlashBootMode cfg)) in
     if flash_mode_1 ft \<and> factory_reset_enabled ft \<and> m = FlashMode1 then
       caught (get_env bl FactoryResetKey) (\<lambda>r. case r of
           Inr v \<Rightarrow> if nonblank v
             then bindE (clear_flash_and_reset_triggers ft bl) (\<lambda>_. throw (Flash ConflictingTriggers))
             else build
         | Inl _ \<Rightarrow> ret NormalMode)
     else build)"

definition detect_with :: "features \<Rightarrow> 'j json_lib \<Rightarrow> (string \<Rightarrow> string + string) \<Rightarrow>
    's boot_env option \<Rightarrow> bool \<Rightarrow> ('s, initramfs_error, boot_mode) io" where
  "detect_with ft js b64 bl flag = (case bl of
     None \<Rightarrow> ret (if flash_mode_2 ft \<and> flag then FlashBootMode mode_2_config else NormalMode)
   | Some b \<Rightarrow>
       if flash_mode ft then
         caught (get_env b FlashModeKey) (\<lambda>r. case r of
             Inl _ \<Rightarrow> ret (if flash_mode_2 ft \<and> flag then FlashBootMode mode_2_config else NormalMode)
           | Inr v \<Rightarrow> (case selected_mode ft flag v of
               Some m \<Rightarrow> detect_flash ft b64 b m
             | None \<Rightarrow> detect_reset ft js b))
       else detect_reset ft js b)"

definition detect_mode :: "features \<Rightarrow> 'w os \<Rightarrow> 'j json_lib \<Rightarrow> (string \<Rightarrow> string + string) \<Rightarrow>
    ('w, 'p) machine boot_env option \<Rightarrow> (('w, 'p) machine, initramfs_error, boot_mode) io" where
  "detect_mode ft os js b64 bl =
     bindE (if flash_mode_2 ft then enforce_flag os ''/'' else ret False) (\<lambda>flag.
     detect_with ft js b64 bl flag)"

section \<open>What the environment selects\<close>

datatype mode_kind = NormalKind | ResetKind | FlashKind flash_mode | ConflictKind

definition kind_of :: "initramfs_error + boot_mode \<Rightarrow> mode_kind" where
  "kind_of r = (case r of
     Inr NormalMode \<Rightarrow> NormalKind | Inr (FactoryResetMode _) \<Rightarrow> ResetKind
   | Inr (FlashBootMode c) \<Rightarrow> FlashKind (fc_mode c) | Inl _ \<Rightarrow> ConflictKind)"

text \<open>The decision as a function of the two triggers, without the environment's failures.\<close>

definition mode_decision :: "features \<Rightarrow> bool \<Rightarrow> string option \<Rightarrow> string option \<Rightarrow> mode_kind" where
  "mode_decision ft flag flash_value reset_value =
     (let wants_reset = factory_reset_enabled ft \<and> nonblank reset_value in
      case (if flash_mode ft then selected_mode ft flag flash_value else None) of
        Some m \<Rightarrow> if m = FlashMode1 \<and> wants_reset then ConflictKind else FlashKind m
      | None \<Rightarrow> if wants_reset then ResetKind else NormalKind)"

lemma selected_mode_1: "selected_mode ft flag v = Some FlashMode1 \<Longrightarrow> flash_mode_1 ft"
  by (auto simp: selected_mode_def parse_flash_mode_def Let_def split: if_splits option.splits)

lemma build_flash_config_kind:
  "build_flash_config b64 bl m s = (r, s') \<Longrightarrow> \<exists>c. r = Inr c \<and> fc_mode c = m"
  by (cases m) (auto simp: build_flash_config_def caught_def read_url_def bindE_def mode_2_config_def
      flash_config_new_def split: prod.splits sum.splits)

text \<open>The decision on the reset trigger, from what the read gives.\<close>

definition reset_of :: "'j json_lib \<Rightarrow> boot_env_error + string option \<Rightarrow> boot_mode" where
  "reset_of js q = (case q of
     Inr (Some json) \<Rightarrow> if trim json = [] then NormalMode
       else (case parse_reset_config js json of
           Inr config \<Rightarrow> FactoryResetMode (Accepted config) | Inl e \<Rightarrow> FactoryResetMode (Rejected e))
   | Inr None \<Rightarrow> NormalMode | Inl _ \<Rightarrow> NormalMode)"

lemma detect_reset_run:
  assumes "get_env bl FactoryResetKey s = (q, s1)" and "factory_reset_enabled ft"
  shows "detect_reset ft js bl s = (Inr (reset_of js q), s1)"
proof (cases q)
  case (Inr v)
  then show ?thesis
    using assms by (cases v; cases "parse_reset_config js (the v)")
      (simp_all add: detect_reset_def caught_def reset_of_def)
qed (use assms in \<open>simp add: detect_reset_def caught_def reset_of_def\<close>)

lemma kind_of_reset:
  "kind_of (Inr (reset_of js q)) = (case q of Inr v \<Rightarrow> if nonblank v then ResetKind else NormalKind | Inl _ \<Rightarrow> NormalKind)"
proof (cases q)
  case (Inr v)
  show ?thesis
  proof (cases v)
    case (Some json)
    then show ?thesis using Inr
      by (cases "parse_reset_config js json") (simp_all add: reset_of_def kind_of_def nonblank_def)
  qed (simp add: Inr reset_of_def kind_of_def nonblank_def)
qed (simp add: reset_of_def kind_of_def)

context env_store
begin

lemma get_keeps: "keeps (\<lambda>s. inv s \<and> lookup s = f) (get_env be k)"
  using get_law unfolding keeps_def by (metis prod.collapse)

lemma build_keeps: "keeps (\<lambda>s. inv s \<and> lookup s = f) (build_flash_config b64 be m)"
  unfolding build_flash_config_def read_url_def
  by (cases m) (simp_all add: keeps_intros get_keeps)

lemma detect_reset_kind:
  assumes "inv s" and "detect_reset ft js be s = (r, s')"
  defines "expected \<equiv> if factory_reset_enabled ft \<and> nonblank (lookup s FactoryResetKey) then ResetKind else NormalKind"
  shows "inv s' \<and> lookup s' = lookup s \<and> kind_of r \<in> {NormalKind, expected}
    \<and> (never_fails (get_env be FactoryResetKey) \<longrightarrow> kind_of r = expected) \<and> kind_of r \<noteq> ConflictKind"
proof (cases "factory_reset_enabled ft")
  case True
  obtain q s1 where q: "get_env be FactoryResetKey s = (q, s1)" by fastforce
  note law = get_law [OF assms(1) q]
  have r: "r = Inr (reset_of js q)" "s' = s1" using assms(2) by (simp_all add: detect_reset_run [OF q True])
  show ?thesis
  proof (cases q)
    case (Inl e)
    then have "\<not> never_fails (get_env be FactoryResetKey)"
      using never_failsD [where m = "get_env be FactoryResetKey" and s = s and r = q and s' = s1] q by blast
    then show ?thesis using law Inl by (simp add: r kind_of_reset)
  next
    case (Inr v)
    then have "v = lookup s FactoryResetKey" using law by blast
    then show ?thesis using law Inr True by (simp add: r kind_of_reset expected_def)
  qed
next
  case False
  then have "r = Inr NormalMode" "s' = s" using assms(2) by (simp_all add: detect_reset_def)
  then show ?thesis using False assms(1) by (simp add: kind_of_def expected_def)
qed

lemma unset_keeps_inv: "keeps inv (unset_best_effort be k)"
  unfolding unset_best_effort_def
  using unset_law by (intro keeps_ignore keepsI) (metis prod.collapse)

text \<open>Keys stay as they are or are removed.\<close>

definition only_unset :: "(boot_env_key \<Rightarrow> string option) \<Rightarrow> 's \<Rightarrow> bool" where
  "only_unset f s \<longleftrightarrow> inv s \<and> (\<forall>k. lookup s k = f k \<or> lookup s k = None \<and>
     k \<in> {FlashModeKey, FlashModeDevPath, FlashModeUrl, FlashModeUrlSha256, FactoryResetKey})"

lemma unset_only:
  assumes "k \<in> {FlashModeKey, FlashModeDevPath, FlashModeUrl, FlashModeUrlSha256, FactoryResetKey}"
  shows "keeps (only_unset f) (unset_best_effort be k)"
  unfolding unset_best_effort_def
proof (intro keeps_ignore keepsI)
  fix s assume i: "only_unset f s"
  obtain r s' where s': "set_env be k None s = (r, s')" by fastforce
  have "inv s" using i by (simp add: only_unset_def)
  from unset_law [OF this s'] i assms have "only_unset f s'"
    by (auto simp: only_unset_def split: if_splits)
  then show "only_unset f (snd (set_env be k None s))" using s' by simp
qed

lemma clear_flash_triggers_only: "keeps (only_unset f) (clear_flash_triggers ft be)"
  unfolding clear_flash_triggers_def by (intro keeps_intros unset_only) auto

lemma clear_both_only: "keeps (only_unset f) (clear_flash_and_reset_triggers ft be)"
  unfolding clear_flash_and_reset_triggers_def
  by (intro keeps_intros clear_flash_triggers_only unset_only) simp

lemma only_unset_same: "inv s \<and> lookup s = f \<Longrightarrow> only_unset f s"
  by (simp add: only_unset_def)

lemma never_fails_clear:
  "never_fails (clear_flash_and_reset_triggers ft be :: ('s, 'e, unit) io)"
  unfolding clear_flash_and_reset_triggers_def clear_flash_triggers_def unset_best_effort_def
  by (intro total_intros)

text \<open>The selected mode with its outcomes.\<close>

definition detected :: "features \<Rightarrow> bool \<Rightarrow> 's \<Rightarrow> mode_kind \<Rightarrow> initramfs_error + boot_mode \<Rightarrow> 's \<Rightarrow> bool" where
  "detected ft flag s expected r s' \<longleftrightarrow>
     (kind_of r = expected \<or> kind_of r = NormalKind \<or> flash_mode_2 ft \<and> flag \<and> kind_of r = FlashKind FlashMode2)
     \<and> (never_fails (get_env be FlashModeKey) \<longrightarrow> never_fails (get_env be FactoryResetKey) \<longrightarrow> kind_of r = expected)
     \<and> (if kind_of r = ConflictKind then r = Inl (Flash ConflictingTriggers) \<and> only_unset (lookup s) s'
        else inv s' \<and> lookup s' = lookup s)"

lemma detect_flash_kind:
  assumes "inv s" and "detect_flash ft b64 be m s = (r, s')" and "m = FlashMode1 \<Longrightarrow> flash_mode_1 ft"
  shows "detected ft flag s (if m = FlashMode1 \<and> factory_reset_enabled ft \<and> nonblank (lookup s FactoryResetKey)
    then ConflictKind else FlashKind m) r s'"
proof -
  let ?I = "\<lambda>t. inv t \<and> lookup t = lookup s"
  let ?peek = "if flash_mode_network ft \<and> factory_reset_enabled ft \<and> overwrites_running_disk m
    then ignore (get_env be FactoryResetKey) else ret () :: ('s, initramfs_error, unit) io"
  let ?build = "bindE (build_flash_config b64 be m) (\<lambda>cfg. ret (FlashBootMode cfg))"
  obtain s1 where p: "?peek s = (Inr (), s1)"
    by (cases "flash_mode_network ft \<and> factory_reset_enabled ft \<and> overwrites_running_disk m") simp_all
  have "keeps ?I ?peek" by (intro keeps_intros get_keeps)
  from keepsD2 [OF this _ p] assms(1) have i1: "?I s1" by simp
  have build: "detected ft flag s (FlashKind m) r s'" if i: "?I t" and b: "?build t = (r, s')" for t
  proof -
    have k: "keeps ?I ?build" by (intro keeps_intros build_keeps)
    have "?I s'" using keepsD2 [OF k i b] .
    moreover obtain c :: "initramfs_error + flash_config" and s2 where c: "build_flash_config b64 be m t = (c, s2)" by fastforce
    moreover obtain cfg where "c = Inr cfg" "fc_mode cfg = m" using build_flash_config_kind [OF c] by blast
    ultimately have "kind_of r = FlashKind m" using b by (auto simp: bindE_def kind_of_def)
    then show ?thesis using \<open>?I s'\<close> by (simp add: detected_def)
  qed
  show ?thesis
  proof (cases "factory_reset_enabled ft \<and> m = FlashMode1")
    case False
    then have "?build s1 = (r, s')" using assms(2) p by (auto simp: detect_flash_def bindE_def Let_def split: if_splits)
    from build [OF i1 this] False show ?thesis by auto
  next
    case True
    then have m1: "m = FlashMode1" by simp
    obtain q s2 where q: "get_env be FactoryResetKey s1 = (q, s2)" by fastforce
    note law = get_law [OF conjunct1 [OF i1] q]
    have r: "(case q of Inr v \<Rightarrow> if nonblank v
             then bindE (clear_flash_and_reset_triggers ft be) (\<lambda>_. throw (Flash ConflictingTriggers)) else ?build
         | Inl _ \<Rightarrow> ret NormalMode) s2 = (r, s')"
      using assms(2,3) q True unfolding detect_flash_def bindE_Inr [where m = ?peek and f = f for f, OF p]
      unfolding m1 by (simp add: Let_def caught_def)
    show ?thesis
    proof (cases q)
      case (Inl e)
      then have "\<not> never_fails (get_env be FactoryResetKey)"
        using never_failsD [where m = "get_env be FactoryResetKey" and s = s1 and r = q and s' = s2] q by blast
      moreover have "r = Inr NormalMode" "s' = s2" using r Inl by simp_all
      ultimately show ?thesis using law i1 by (simp add: detected_def kind_of_def)
    next
      case (Inr v)
      then have v: "v = lookup s FactoryResetKey" and i2: "?I s2" using law i1 by auto
      show ?thesis
      proof (cases "nonblank v")
        case False
        then show ?thesis using build [OF i2] r Inr v by simp
      next
        case nb: True
        obtain c :: "initramfs_error + unit" and s3 where c: "clear_flash_and_reset_triggers ft be s2 = (c, s3)" by fastforce
        obtain u where "c = Inr u" using never_failsD [OF never_fails_clear c] by blast
        then have "r = Inl (Flash ConflictingTriggers)" "s' = s3" using r Inr nb c by (simp_all add: bindE_def)
        moreover have "only_unset (lookup s) s3"
          using keepsD2 [OF clear_both_only only_unset_same [OF i2] c] .
        ultimately show ?thesis using True v nb by (simp add: detected_def kind_of_def)
      qed
    qed
  qed
qed

lemma detect_with_kind:
  assumes "inv s" and "detect_with ft js b64 (Some be) flag s = (r, s')"
  shows "detected ft flag s (mode_decision ft flag (lookup s FlashModeKey) (lookup s FactoryResetKey)) r s'"
proof -
  let ?reset = "if factory_reset_enabled ft \<and> nonblank (lookup s FactoryResetKey) then ResetKind else NormalKind"
  have reset: "detected ft flag s ?reset r s'"
    if i: "inv t \<and> lookup t = lookup s" and d: "detect_reset ft js be t = (r, s')" for t
    using detect_reset_kind [OF conjunct1 [OF i] d] i by (auto simp: detected_def)
  show ?thesis
  proof (cases "flash_mode ft")
    case False
    then show ?thesis using assms reset [of s] by (simp add: detect_with_def mode_decision_def)
  next
    case True
    obtain q s1 where q: "get_env be FlashModeKey s = (q, s1)" by fastforce
    note law = get_law [OF assms(1) q]
    show ?thesis
    proof (cases q)
      case (Inl e)
      then have "\<not> never_fails (get_env be FlashModeKey)"
        using never_failsD [where m = "get_env be FlashModeKey" and s = s and r = q and s' = s1] q by blast
      moreover have "r = Inr (if flash_mode_2 ft \<and> flag then FlashBootMode mode_2_config else NormalMode)" "s' = s1"
        using assms(2) q Inl True by (simp_all add: detect_with_def caught_def)
      ultimately show ?thesis using law
        by (cases "flash_mode_2 ft \<and> flag") (simp_all add: detected_def kind_of_def mode_2_config_def flash_config_new_def)
    next
      case (Inr v)
      then have v: "v = lookup s FlashModeKey" and i1: "inv s1 \<and> lookup s1 = lookup s" using law by auto
      show ?thesis
      proof (cases "selected_mode ft flag v")
        case None
        then show ?thesis using assms(2) q Inr True v reset [OF i1]
          by (simp add: detect_with_def caught_def mode_decision_def)
      next
        case (Some m)
        then have d: "detect_flash ft b64 be m s1 = (r, s')"
          using assms(2) q Inr True by (simp add: detect_with_def caught_def)
        have "m = FlashMode1 \<Longrightarrow> flash_mode_1 ft" using Some selected_mode_1 by blast
        from detect_flash_kind [OF conjunct1 [OF i1] d this, of flag] i1 Some v True
        show ?thesis by (simp add: detected_def mode_decision_def only_unset_def cong: if_cong)
      qed
    qed
  qed
qed

end

text \<open>
  C8: Mode detection. The mode follows from the two triggers and the enforce flag by the decision
  table, whenever they can be read; a read error can only turn the decision into a normal boot, or
  leave the enforce flag to select mode 2. The only error is the conflict of mode 1 with a factory
  reset, and then nothing but triggers is removed; otherwise the environment is untouched.
\<close>

theorem detect_with_decision:
  assumes "env_store be lookup storable ready" and "ready s"
    and "detect_with ft js b64 (Some be) flag s = (r, s')"
  defines "expected \<equiv> mode_decision ft flag (lookup s FlashModeKey) (lookup s FactoryResetKey)"
  shows "(kind_of r = expected \<or> kind_of r = NormalKind
       \<or> flash_mode_2 ft \<and> flag \<and> kind_of r = FlashKind FlashMode2)
    \<and> (never_fails (get_env be FlashModeKey) \<longrightarrow> never_fails (get_env be FactoryResetKey) \<longrightarrow> kind_of r = expected)
    \<and> (if kind_of r = ConflictKind
       then r = Inl (Flash ConflictingTriggers) \<and> (\<forall>k. lookup s' k = lookup s k \<or> lookup s' k = None
         \<and> k \<in> {FlashModeKey, FlashModeDevPath, FlashModeUrl, FlashModeUrlSha256, FactoryResetKey})
       else lookup s' = lookup s)"
  using env_store.detect_with_kind [OF assms(1-3)]
  unfolding expected_def env_store.detected_def [OF assms(1)] env_store.only_unset_def [OF assms(1)]
  by (auto split: if_splits)

definition all_modes :: features where
  "all_modes = \<lparr>bootloader = Grub, table = Gpt, release_image = True, factory_reset_enabled = True,
     flash_mode_1 = True, flash_mode_2 = True, flash_mode_2_direct = False, flash_mode_3 = True,
     resize_data_enabled = True, persistent_var_log = True, rtc = True, early_modules_enabled = True\<rparr>"

definition conflicting_env :: mock_env where
  "conflicting_env = with_env FactoryResetKey ''{}'' (with_env FlashModeKey ''1'' mock_new)"

lemma detect_with_decision_witness:
  "\<exists>r s'. detect_with all_modes word_json Inr (Some mock_boot_env) False conflicting_env = (r, s')
     \<and> kind_of r \<in> {ConflictKind, NormalKind}"
proof -
  obtain r s' where d: "detect_with all_modes word_json Inr (Some mock_boot_env) False conflicting_env = (r, s')"
    by fastforce
  have "mock_inv conflicting_env"
    by (simp add: mock_inv_def conflicting_env_def with_env_def mock_new_def)
  moreover have "mode_decision all_modes False (mock_lookup conflicting_env FlashModeKey)
      (mock_lookup conflicting_env FactoryResetKey) = ConflictKind"
    by code_simp
  ultimately show ?thesis
    using detect_with_decision [OF mock.env_store_axioms _ d] d by auto
qed

end
