(* ===== verification/Flash_Base.thy ===== *)
theory Flash_Base
  imports Mode Mount Layout
begin

text \<open>
  What the flash modes share: \<open>src/mode/flash/mod.rs\<close> without its two entry points. A flash function may
  fail, may still be running when the fuel of one of its loops is used up, or may panic where a slice
  of a buffer is taken with a bound its input does not respect; \<open>stop\<close> tells these apart, so that
  only a failure can be caught.
\<close>

section \<open>Failing, running, panicking\<close>

datatype 'e stop = Failed 'e | Running | Panicked

type_synonym ('s, 'a) flash = "('s, flash_error stop, 'a) io"

definition failing :: "'e \<Rightarrow> ('s, 'e stop, 'a) io" where
  "failing e = throw (Failed e)"

definition or_fail :: "('e \<Rightarrow> 'f) \<Rightarrow> ('s, 'e, 'a) io \<Rightarrow> ('s, 'f stop, 'a) io" where
  "or_fail g m = map_err (\<lambda>e. Failed (g e)) m"

text \<open>A \<open>match\<close> on a result: a run that has not come back is not a result.\<close>

definition attempt :: "('s, 'e stop, 'a) io \<Rightarrow> ('e + 'a \<Rightarrow> ('s, 'f stop, 'b) io) \<Rightarrow> ('s, 'f stop, 'b) io" where
  "attempt m f = caught m (\<lambda>r. case r of
     Inl (Failed e) \<Rightarrow> f (Inl e) | Inl Running \<Rightarrow> throw Running | Inl Panicked \<Rightarrow> throw Panicked | Inr x \<Rightarrow> f (Inr x))"

definition fail_with :: "('e \<Rightarrow> 'f) \<Rightarrow> ('s, 'e stop, 'a) io \<Rightarrow> ('s, 'f stop, 'a) io" where
  "fail_with g m = map_err (\<lambda>e. case e of Failed x \<Rightarrow> Failed (g x) | Running \<Rightarrow> Running | Panicked \<Rightarrow> Panicked) m"

lemma calls_only_stop [calls_intros]:
  "calls_only P m \<Longrightarrow> calls_only P (or_fail g m)"
  "calls_only P k \<Longrightarrow> calls_only P (fail_with h k)"
  "calls_only P (failing e)"
  by (simp_all add: or_fail_def fail_with_def failing_def calls_only_map_err calls_only_pure)

lemma calls_only_attempt [calls_intros]:
  assumes "calls_only P m" and "\<And>r. calls_only P (f r)"
  shows "calls_only P (attempt m f)"
  using assms unfolding attempt_def by (auto intro!: calls_only_caught calls_only_pure split: sum.split stop.split)

section \<open>Constants\<close>

definition CHILD_PATH :: string where "CHILD_PATH = ''/usr/sbin:/usr/bin:/sbin:/bin''"
definition LOG_DATA :: string where "LOG_DATA = ''/tmp/flash-log-data''"
definition CLONE_BOOT :: string where "CLONE_BOOT = ''/tmp/clone-boot''"
definition EFI_BOOT :: string where "EFI_BOOT = ''/tmp/boot''"
definition SHA256_LEN :: nat where "SHA256_LEN = 32"

section \<open>Text\<close>

text \<open>The \<open>Debug\<close> form of a string and of a list of strings.\<close>

definition hex_char :: "nat \<Rightarrow> char" where
  "hex_char n = (if n < 10 then char_of (48 + n) else char_of (87 + n))"

definition debug_char :: "char \<Rightarrow> string" where
  "debug_char c = (if c = CHR 0x22 then [CHR 0x5C, CHR 0x22] else if c = CHR 0x5C then [CHR 0x5C, CHR 0x5C]
     else if c = newline then [CHR 0x5C, CHR ''n''] else if c = carriage then [CHR 0x5C, CHR ''r'']
     else if c = tab_char then [CHR 0x5C, CHR ''t''] else if c = CHR 0x00 then [CHR 0x5C, CHR ''0'']
     else (let n = (of_char c :: nat) in
       if n < 16 then [CHR 0x5C, CHR ''u'', CHR 0x7B, hex_char n, CHR 0x7D]
       else if n < 32 \<or> n = 127 then [CHR 0x5C, CHR ''u'', CHR 0x7B, hex_char (n div 16), hex_char (n mod 16), CHR 0x7D]
       else [c]))"

definition debug_str :: "string \<Rightarrow> string" where
  "debug_str t = [CHR 0x22] @ concat (map debug_char t) @ [CHR 0x22]"

definition debug_list :: "string list \<Rightarrow> string" where
  "debug_list ts = ''['' @ join_with '', '' (map debug_str ts) @ '']''"

text \<open>Hexadecimal digests; the digest is a list of 32 bytes.\<close>

definition hex_val :: "char \<Rightarrow> nat option" where
  "hex_val c = (let n = (of_char c :: nat) in
     if 48 \<le> n \<and> n \<le> 57 then Some (n - 48) else if 97 \<le> n \<and> n \<le> 102 then Some (n - 87)
     else if 65 \<le> n \<and> n \<le> 70 then Some (n - 55) else None)"

fun hex_decode :: "string \<Rightarrow> string option" where
  "hex_decode [] = Some []"
| "hex_decode [c] = None"
| "hex_decode (a # b # cs) = (case (hex_val a, hex_val b, hex_decode cs) of
     (Some x, Some y, Some ds) \<Rightarrow> Some (char_of (16 * x + y) # ds) | _ \<Rightarrow> None)"

definition sha256_from_hex :: "string \<Rightarrow> string option" where
  "sha256_from_hex t = (if length t = 2 * SHA256_LEN then hex_decode t else None)"

section \<open>Files, children, mounts\<close>

definition read_small_text :: "'w os \<Rightarrow> string \<Rightarrow> u64 \<Rightarrow> (string \<Rightarrow> flash_error) \<Rightarrow> (('w, 'p) machine, string) flash" where
  "read_small_text os path max_len invalid =
     bindE (or_fail (PathIo path) (bindE (sys_unit os (OpenRead path)) (\<lambda>_. sys_text os (ReadBounded path (max_len + 1)))))
       (\<lambda>bytes. if length bytes > unat max_len then failing (invalid (''larger than '' @ show_word max_len @ '' bytes''))
         else if valid_utf8 bytes then ret bytes else failing (invalid ''not UTF-8 text''))"

definition child_call :: "string \<Rightarrow> string list \<Rightarrow> call" where
  "child_call cmd args = SpawnEnv (''PATH'', CHILD_PATH) cmd args []"

definition run_inherited :: "'w os \<Rightarrow> string \<Rightarrow> string list \<Rightarrow> (('w, 'p) machine, string, unit) io" where
  "run_inherited os cmd args =
     bindE (map_err (\<lambda>e. ''failed to run '' @ cmd @ '': '' @ show_io e) (sys_run os (child_call cmd args)))
       (\<lambda>out. if \<not> success out
         then throw (cmd @ '' '' @ debug_list args @ '' failed ('' @ display_status out @ '')'') else ret ())"

definition with_mount :: "'w os \<Rightarrow> string \<Rightarrow> string \<Rightarrow> mount_options \<Rightarrow> (string \<Rightarrow> (('w, 'p) machine, 'a) flash) \<Rightarrow>
    (('w, 'p) machine, 'a) flash" where
  "with_mount os source tgt options work =
     bindE (or_fail (PathIo tgt) (sys_unit os (MakeDirs tgt))) (\<lambda>_.
     bindE (or_fail FlashFilesystem (mount_fs os source tgt options)) (\<lambda>_.
     attempt (work tgt) (\<lambda>result. caught (umount os tgt) (\<lambda>u. case (u, result) of
         (Inl e, Inr _) \<Rightarrow> failing (FlashFilesystem e)
       | (_, Inr x) \<Rightarrow> ret x
       | (_, Inl e) \<Rightarrow> failing e))))"

section \<open>Values and partitions\<close>

definition env_value_of :: "'a env_value \<Rightarrow> boot_env_key \<Rightarrow> flash_error + 'a" where
  "env_value_of v key = (case v of
     EnvSet x \<Rightarrow> Inr x
   | EnvNotSet \<Rightarrow> Inl (InvalidEnvValue key ''not set'')
   | EnvInvalid why \<Rightarrow> Inl (InvalidEnvValue key why)
   | EnvUnreadable e \<Rightarrow> Inl (InvalidEnvValue key (''failed to read env: '' @ e)))"

definition layout_partition :: "partition_layout \<Rightarrow> partition_name \<Rightarrow> flash_error + string" where
  "layout_partition l name = (case layout_get l name of
     Some p \<Rightarrow> Inr p
   | None \<Rightarrow> Inl (PartitionTable (base (root_dev l)) LookupTable
       (''the layout has no '' @ partition_name_str name @ '' partition'')))"

definition partly_written :: "string \<Rightarrow> flash_error \<Rightarrow> flash_error" where
  "partly_written disk source = DiskPartlyWritten disk source"

section \<open>The run log\<close>

definition log_file :: "flash_mode \<Rightarrow> string" where
  "log_file m = (case m of FlashMode1 \<Rightarrow> ''flash-mode-1.log'' | FlashMode2 \<Rightarrow> ''flash-mode-2.log''
     | FlashMode3 \<Rightarrow> ''flash-mode-3.log'')"

definition keeps_log :: "flash_error + unit \<Rightarrow> bool" where
  "keeps_log outcome = (case outcome of
     Inl (DiskPartlyWritten _ _) \<Rightarrow> False | Inl (StalePartitionTable _ _) \<Rightarrow> False | _ \<Rightarrow> True)"

datatype reboot_mode = RB_POWER_OFF | RB_AUTOBOOT

definition terminal_action :: "flash_mode \<Rightarrow> reboot_mode" where
  "terminal_action m = (case m of FlashMode1 \<Rightarrow> RB_POWER_OFF | FlashMode2 \<Rightarrow> RB_AUTOBOOT | FlashMode3 \<Rightarrow> RB_AUTOBOOT)"

definition log_contents :: "string list \<Rightarrow> string" where
  "log_contents ls = concat (map (\<lambda>l. l @ [newline]) ls)"

definition write_log :: "'w os \<Rightarrow> string \<Rightarrow> string \<Rightarrow> string list \<Rightarrow> (('w, 'p) machine, unit) flash" where
  "write_log os data_partition log_name ls = with_mount os data_partition LOG_DATA ext4_readwrite (\<lambda>mount_point.
     (let path = path_join mount_point log_name in
      or_fail (PathIo path) (bindE (create_root_only_file os path) (\<lambda>_. sys_unit os (WriteAll path (log_contents ls))))))"

type_synonym 's log_writer = "string \<Rightarrow> string \<Rightarrow> string list \<Rightarrow> ('s, unit) flash"

definition persist_log :: "partition_layout \<Rightarrow> string \<Rightarrow> string list \<Rightarrow> 's log_writer \<Rightarrow> ('s, unit) flash" where
  "persist_log l log_name ls write = (if ls = [] then ret ()
     else (case layout_get l Data of
         None \<Rightarrow> ret ()
       | Some data_partition \<Rightarrow> attempt (write data_partition log_name ls) (\<lambda>_. ret ())))"

end
