(* ===== verification/Rawio.thy ===== *)
theory Rawio
  imports Flash_Base
begin

text \<open>
  \<open>src/mode/flash/rawio.rs\<close>: raw writes of byte ranges. The two files a copy holds open are named by
  their paths; a seek or a read of \<open>SeekRead\<close>, \<open>ReadSome\<close> goes to the file opened for reading, the
  other ones to the file opened for writing. The loops take fuel: one unit for each call of \<open>read\<close>
  or \<open>write\<close>.
\<close>

definition KIB :: u64 where "KIB = 1024"
definition COPY_BUFFER_SIZE :: u64 where "COPY_BUFFER_SIZE = 1048576"

record byte_range =
  br_offset :: u64
  br_len :: u64

definition raw_chunk_len :: "u64 \<Rightarrow> u64 \<Rightarrow> u64" where
  "raw_chunk_len left buf_len = min left buf_len"

definition kb_to_bytes :: "u64 \<Rightarrow> build_constant \<Rightarrow> flash_error + u64" where
  "kb_to_bytes kb name = (case checked_mul kb KIB of
     Some b \<Rightarrow> Inr b
   | None \<Rightarrow> Inl (InvalidBuildConstant name (show_word kb @ '' KB does not fit a byte offset'')))"

definition open_existing_for_write :: "'w os \<Rightarrow> string \<Rightarrow> (('w, 'p) machine, io_error, unit) io" where
  "open_existing_for_write os path = sys_unit os (OpenWrite path)"

section \<open>Copying\<close>

text \<open>Write what a read gave, from \<open>written\<close> on.\<close>

fun write_loop :: "nat \<Rightarrow> 'w os \<Rightarrow> (string \<Rightarrow> flash_error) \<Rightarrow> string \<Rightarrow> string \<Rightarrow> nat \<Rightarrow> (('w, 'p) machine, unit) flash" where
  "write_loop fuel os copy_failed dst buf written =
     (if length buf \<le> written then ret ()
      else (case fuel of
        0 \<Rightarrow> throw Running
      | Suc n \<Rightarrow> caught (sys_num os (WriteSome dst (drop written buf))) (\<lambda>r. case r of
          Inr w \<Rightarrow> if w = 0 then failing (copy_failed (''destination stopped accepting data after '' @ show_nat written
                     @ '' of '' @ show_nat (length buf) @ '' bytes in this chunk''))
                   else write_loop n os copy_failed dst buf (written + unat w)
        | Inl e \<Rightarrow> if io_kind_of e = Interrupted then write_loop n os copy_failed dst buf written
                   else failing (copy_failed (''writing destination: '' @ show_io e)))))"

declare write_loop.simps [simp del]

fun copy_loop :: "nat \<Rightarrow> 'w os \<Rightarrow> (string \<Rightarrow> flash_error) \<Rightarrow> string \<Rightarrow> string \<Rightarrow> u64 option \<Rightarrow> u64 \<Rightarrow>
    (('w, 'p) machine, u64) flash" where
  "copy_loop fuel os copy_failed src dst len copied =
     (if (case len of Some l \<Rightarrow> l \<le> copied | None \<Rightarrow> False) then ret copied
      else (case fuel of
        0 \<Rightarrow> throw Running
      | Suc n \<Rightarrow>
          (let want = (case len of Some l \<Rightarrow> raw_chunk_len (l - copied) COPY_BUFFER_SIZE | None \<Rightarrow> COPY_BUFFER_SIZE) in
           caught (sys_text os (ReadSome src want)) (\<lambda>r. case r of
             Inl e \<Rightarrow> if io_kind_of e = Interrupted then copy_loop n os copy_failed src dst len copied
                      else failing (copy_failed (''reading source: '' @ show_io e))
           | Inr buf \<Rightarrow>
               if buf = [] then (case len of
                   Some l \<Rightarrow> failing (copy_failed (''source ended after '' @ show_word copied @ '' bytes, ''
                     @ show_word l @ '' requested''))
                 | None \<Rightarrow> ret copied)
               else bindE (write_loop n os copy_failed dst buf 0) (\<lambda>_.
                 copy_loop n os copy_failed src dst len (copied + of_nat (length buf)))))))"

declare copy_loop.simps [simp del]

definition copy_range :: "nat \<Rightarrow> 'w os \<Rightarrow> string \<Rightarrow> u64 \<Rightarrow> string \<Rightarrow> u64 \<Rightarrow> u64 option \<Rightarrow> (('w, 'p) machine, u64) flash" where
  "copy_range fuel os src src_offset dst dst_offset len =
     (let copy_failed = CopyFailed src dst;
          io = \<lambda>what. or_fail (\<lambda>e. copy_failed (what @ '': '' @ show_io e)) in
      bindE (io ''opening source'' (sys_unit os (OpenRead src))) (\<lambda>_.
      bindE (io ''seeking source'' (sys_unit os (SeekRead src src_offset))) (\<lambda>_.
      bindE (io ''opening destination'' (open_existing_for_write os dst)) (\<lambda>_.
      bindE (io ''seeking destination'' (sys_unit os (SeekWrite dst dst_offset))) (\<lambda>_.
      bindE (copy_loop fuel os copy_failed src dst len 0) (\<lambda>copied.
      bindE (io ''syncing destination'' (sys_unit os (SyncFile dst))) (\<lambda>_. ret copied)))))))"

section \<open>Zeroing, sizes, partition tables\<close>

lemma chunk_left: "0 < left \<Longrightarrow> unat (left - raw_chunk_len left COPY_BUFFER_SIZE) < unat left"
  by (auto simp: raw_chunk_len_def min_def COPY_BUFFER_SIZE_def word_le_nat_alt unat_sub word_less_nat_alt)

function zero_loop :: "'w os \<Rightarrow> string \<Rightarrow> u64 \<Rightarrow> (('w, 'p) machine, io_error, unit) io" where
  "zero_loop os dst left = (if 0 < left
     then bindE (sys_unit os (WriteAll dst (replicate (unat (raw_chunk_len left COPY_BUFFER_SIZE)) (CHR 0x00))))
       (\<lambda>_. zero_loop os dst (left - raw_chunk_len left COPY_BUFFER_SIZE))
     else ret ())"
  by pat_completeness auto

termination by (relation "measure (\<lambda>(os, dst, left). unat left)") (use chunk_left in auto)

declare zero_loop.simps [simp del]

definition zero_range :: "'w os \<Rightarrow> string \<Rightarrow> byte_range \<Rightarrow> (('w, 'p) machine, unit) flash" where
  "zero_range os dst area = or_fail (PathIo dst)
     (bindE (open_existing_for_write os dst) (\<lambda>_.
      bindE (sys_unit os (SeekWrite dst (br_offset area))) (\<lambda>_.
      bindE (zero_loop os dst (br_len area)) (\<lambda>_.
      sys_unit os (SyncFile dst)))))"

definition device_len :: "'w os \<Rightarrow> string \<Rightarrow> (('w, 'p) machine, u64) flash" where
  "device_len os disk = or_fail (\<lambda>e. InvalidDestination disk (''cannot determine size: '' @ show_io e))
     (bindE (sys_unit os (OpenRead disk)) (\<lambda>_. sys_num os (SeekEnd disk)))"

definition reread_partition_table :: "'w os \<Rightarrow> string \<Rightarrow> (('w, 'p) machine, unit) flash" where
  "reread_partition_table os disk = or_fail (PathIo disk)
     (bindE (sys_unit os (OpenRead disk)) (\<lambda>_. sys_unit os (Ioctl disk ''BLKRRPART'' [])))"

section \<open>Facts\<close>

text \<open>The byte value of a KiB-valued build constant is exact, and a constant is refused exactly when the
  value does not fit.\<close>

lemma kb_to_bytes_exact:
  "(case kb_to_bytes kb name of Inr b \<Rightarrow> unat b = 1024 * unat kb
     | Inl e \<Rightarrow> 2 ^ 64 \<le> 1024 * unat kb \<and> (\<exists>why. e = InvalidBuildConstant name why))"
proof (cases "unat kb * 1024 < 2 ^ 64")
  case True
  then have "unat (kb * 1024) = unat kb * 1024" by (simp add: unat_word_ariths)
  then show ?thesis using True by (simp add: kb_to_bytes_def checked_mul_def KIB_def)
next
  case False
  then show ?thesis by (simp add: kb_to_bytes_def checked_mul_def KIB_def)
qed

end
