(* ===== verification/Sfdisk.thy ===== *)
theory Sfdisk
  imports Rawio
begin

text \<open>
  \<open>src/mode/flash/sfdisk.rs\<close>: reading a partition table as the text of \<open>sfdisk -d\<close>, resetting the data
  partition in it to its shipped size, and applying it to another disk.
\<close>

definition SFDISK_CMD :: string where "SFDISK_CMD = ''/sbin/sfdisk''"
definition SFDISK_DUMP_FLAG :: string where "SFDISK_DUMP_FLAG = ''-d''"
definition SFDISK_PART_UUID_FLAG :: string where "SFDISK_PART_UUID_FLAG = ''--part-uuid''"
definition SECTOR_SIZE :: u64 where "SECTOR_SIZE = 512"
definition SECTORS_PER_KB :: u64 where "SECTORS_PER_KB = 2"
definition UNIT_FIELD_PREFIX :: string where "UNIT_FIELD_PREFIX = ''unit:''"
definition UNIT_SECTORS_VALUE :: string where "UNIT_SECTORS_VALUE = ''sectors''"
definition SECTOR_SIZE_FIELD_PREFIX :: string where "SECTOR_SIZE_FIELD_PREFIX = ''sector-size:''"
definition LAST_LBA_FIELD :: string where "LAST_LBA_FIELD = ''last-lba:''"
definition DEVICE_LINE_PREFIX :: string where "DEVICE_LINE_PREFIX = ''/dev/''"
definition START_FIELD :: string where "START_FIELD = ''start=''"
definition SIZE_FIELD :: string where "SIZE_FIELD = ''size=''"

section \<open>Fields of a line\<close>

definition field_value :: "string \<Rightarrow> string \<Rightarrow> string option" where
  "field_value l field = (case split_once_str field l of
     None \<Rightarrow> None
   | Some (_, after) \<Rightarrow> Some (trim (takeWhile (\<lambda>c. c \<noteq> CHR '','') after)))"

definition unparsable :: "string \<Rightarrow> string \<Rightarrow> string" where
  "unparsable field l = ''unparsable '' @ field @ '' field: '' @ l"

definition parse_field_u64 :: "string \<Rightarrow> string \<Rightarrow> string + u64" where
  "parse_field_u64 l field = (case Option.bind (field_value l field) parse_u64 of
     Some v \<Rightarrow> Inr v | None \<Rightarrow> Inl (unparsable field l))"

definition set_field_u64 :: "string \<Rightarrow> string \<Rightarrow> u64 \<Rightarrow> string + string" where
  "set_field_u64 l field v = (case split_once_str field l of
     None \<Rightarrow> Inl (''missing '' @ field @ '' field: '' @ l)
   | Some (before, rest) \<Rightarrow>
       (let ws = takeWhile is_ws rest; digits = takeWhile is_digit (dropWhile is_ws rest);
            tail = dropWhile is_digit (dropWhile is_ws rest) in
        if digits = [] then Inl (unparsable field l)
        else Inr (before @ field @ ws @ show_word v @ tail)))"

definition sfdisk_partition_number :: "string \<Rightarrow> u32 option" where
  "sfdisk_partition_number l = (case split_ws l of
     [] \<Rightarrow> None
   | device # _ \<Rightarrow> if starts_with DEVICE_LINE_PREFIX device then partition_suffix device else None)"

fun position_of :: "('a \<Rightarrow> bool) \<Rightarrow> 'a list \<Rightarrow> nat option" where
  "position_of P [] = None"
| "position_of P (x # xs) = (if P x then Some 0 else map_option Suc (position_of P xs))"

definition find_partition_line :: "string list \<Rightarrow> u32 \<Rightarrow> nat option" where
  "find_partition_line ls num = position_of (\<lambda>l. sfdisk_partition_number l = Some num) ls"

section \<open>Rewriting\<close>

definition verify_sector_scale :: "string \<Rightarrow> string + unit" where
  "verify_sector_scale dump = (case find (\<lambda>l. starts_with UNIT_FIELD_PREFIX (trim_start l)) (rust_lines dump) of
     None \<Rightarrow> Inl (''missing '' @ apos @ ''unit:'' @ apos @ '' declaration in dump'')
   | Some unit_line \<Rightarrow> (case field_value unit_line UNIT_FIELD_PREFIX of
       None \<Rightarrow> Inl (''unparsable '' @ apos @ ''unit:'' @ apos @ '' line: '' @ unit_line)
     | Some v \<Rightarrow> if v \<noteq> UNIT_SECTORS_VALUE then Inl (''dump is not in sectors: '' @ unit_line)
       else (case find (\<lambda>l. starts_with SECTOR_SIZE_FIELD_PREFIX (trim_start l)) (rust_lines dump) of
         None \<Rightarrow> Inl (''missing '' @ apos @ ''sector-size:'' @ apos @ '' declaration in dump'')
       | Some size_line \<Rightarrow> (case parse_field_u64 size_line SECTOR_SIZE_FIELD_PREFIX of
           Inl e \<Rightarrow> Inl e
         | Inr n \<Rightarrow> if n \<noteq> SECTOR_SIZE
             then Inl (''unsupported sector size (only '' @ show_word SECTOR_SIZE @ ''-byte sectors are supported): '' @ size_line)
             else Inr ()))))"

text \<open>What depends on the kind of the table: the last usable block of a GPT, the size of the extended
  container of a DOS table.\<close>

definition rewrite_gpt :: "string list \<Rightarrow> u64 \<Rightarrow> u64 \<Rightarrow> string + string list" where
  "rewrite_gpt ls data_start data_sectors =
     (case position_of (\<lambda>l. starts_with LAST_LBA_FIELD (trim_start l)) ls of
       None \<Rightarrow> Inl (''missing '' @ apos @ ''last-lba:'' @ apos @ '' header in dump'')
     | Some i \<Rightarrow> (case Option.bind (checked_add data_start data_sectors) (\<lambda>e. checked_sub e 1) of
         None \<Rightarrow> Inl (''data partition of '' @ show_word data_sectors @ '' sectors starting at '' @ show_word data_start
                   @ '' computes an invalid last-lba'')
       | Some last_lba \<Rightarrow> (case set_field_u64 (ls ! i) LAST_LBA_FIELD last_lba of
           Inl e \<Rightarrow> Inl e | Inr l \<Rightarrow> Inr (ls[i := l]))))"

definition rewrite_dos :: "string list \<Rightarrow> u64 \<Rightarrow> u64 \<Rightarrow> string + string list" where
  "rewrite_dos ls data_start data_sectors = (case find_partition_line ls PARTITION_NUM_EXTENDED of
     None \<Rightarrow> Inl (''no partition '' @ show_word PARTITION_NUM_EXTENDED @ '' (the extended container) found in dump'')
   | Some i \<Rightarrow> (case parse_field_u64 (ls ! i) START_FIELD of
       Inl e \<Rightarrow> Inl e
     | Inr extended_start \<Rightarrow> (case checked_sub data_start extended_start of
         None \<Rightarrow> Inl (''extended container starts after the data partition: '' @ ls ! i)
       | Some gap \<Rightarrow> (case checked_add gap data_sectors of
           None \<Rightarrow> Inl (''data partition of '' @ show_word data_sectors @ '' sectors starting at ''
                     @ show_word data_start @ '' computes an invalid extended-container size'')
         | Some new_size \<Rightarrow> (case set_field_u64 (ls ! i) SIZE_FIELD new_size of
             Inl e \<Rightarrow> Inl e | Inr l \<Rightarrow> Inr (ls[i := l]))))))"

definition rewrite_layout_specific :: "table_kind \<Rightarrow> string list \<Rightarrow> u64 \<Rightarrow> u64 \<Rightarrow> string + string list" where
  "rewrite_layout_specific t = (case t of Gpt \<Rightarrow> rewrite_gpt | Dos \<Rightarrow> rewrite_dos)"

definition rewrite_dump :: "table_kind \<Rightarrow> string \<Rightarrow> string \<Rightarrow> u64 \<Rightarrow> flash_error + string" where
  "rewrite_dump t device dump data_size_kb =
     (let malformed = MalformedDump device;
          unusable = \<lambda>what. InvalidBuildConstant DataSize (show_word data_size_kb @ '' KB does not fit '' @ what) in
      case verify_sector_scale dump of Inl e \<Rightarrow> Inl (malformed e) | Inr _ \<Rightarrow>
      (let ls = rust_lines dump in
      case find_partition_line ls (PARTITION_NUM_DATA t) of
        None \<Rightarrow> Inl (malformed (''no partition '' @ show_word (PARTITION_NUM_DATA t) @ '' (the data partition) found in dump''))
      | Some i \<Rightarrow>
      (case parse_field_u64 (ls ! i) START_FIELD of Inl e \<Rightarrow> Inl (malformed e) | Inr data_start \<Rightarrow>
      (case checked_mul data_size_kb SECTORS_PER_KB of None \<Rightarrow> Inl (unusable ''a sector count'') | Some data_sectors \<Rightarrow>
      (case checked_mul data_sectors SECTOR_SIZE of None \<Rightarrow> Inl (unusable ''a byte count'') | Some data_bytes \<Rightarrow>
      (case set_field_u64 (ls ! i) SIZE_FIELD data_sectors of Inl e \<Rightarrow> Inl (malformed e) | Inr l \<Rightarrow>
      (case rewrite_layout_specific t (ls[i := l]) data_start data_sectors of Inl e \<Rightarrow> Inl (malformed e) | Inr ls' \<Rightarrow>
       Inr (join_with [newline] ls' @ [newline]))))))))"

section \<open>Running sfdisk\<close>

definition dump_table :: "'w os \<Rightarrow> string \<Rightarrow> (('w, 'p) machine, string) flash" where
  "dump_table os device = (let dump_failed = PartitionTable device DumpTable in
     bindE (or_fail (\<lambda>e. dump_failed (''failed to run '' @ SFDISK_CMD @ '': '' @ show_io e))
       (sys_run os (Spawn SFDISK_CMD [SFDISK_DUMP_FLAG, device] []))) (\<lambda>out.
     if \<not> success out then failing (dump_failed (SFDISK_CMD @ '' '' @ SFDISK_DUMP_FLAG @ '' failed ('' @ display_status out
       @ ''): '' @ utf8_lossy (stderr out)))
     else ret (utf8_lossy (stdout out))))"

definition apply_table :: "'w os \<Rightarrow> string \<Rightarrow> string \<Rightarrow> (('w, 'p) machine, unit) flash" where
  "apply_table os device dump = (let apply_failed = PartitionTable device ApplyTable in
     bindE (or_fail (\<lambda>e. apply_failed (''failed to spawn '' @ SFDISK_CMD @ '': '' @ show_io e))
       (sys_unit os (SpawnChild SFDISK_CMD [device]))) (\<lambda>_.
     caught (sys_unit os (WriteStdin SFDISK_CMD dump)) (\<lambda>written.
     bindE (or_fail (\<lambda>e. apply_failed (''failed to wait for '' @ SFDISK_CMD @ '': '' @ show_io e))
       (sys_run os (WaitChild SFDISK_CMD))) (\<lambda>out.
     (case written of
       Inl e \<Rightarrow> failing (apply_failed (''failed to write the dump to '' @ SFDISK_CMD @ '': '' @ show_io e @ ''; '' @ SFDISK_CMD
         @ '' said: '' @ utf8_lossy (stderr out)))
     | Inr _ \<Rightarrow> if \<not> success out
         then failing (apply_failed (SFDISK_CMD @ '' failed ('' @ display_status out @ ''): '' @ utf8_lossy (stderr out)))
         else ret ())))))"

definition part_uuid_args :: "string \<Rightarrow> u32 \<Rightarrow> string \<Rightarrow> string list" where
  "part_uuid_args device part_num uuid = [SFDISK_PART_UUID_FLAG, device, show_word part_num, uuid]"

definition set_part_uuid :: "'w os \<Rightarrow> string \<Rightarrow> u32 \<Rightarrow> string \<Rightarrow> (('w, 'p) machine, unit) flash" where
  "set_part_uuid os device part_num uuid = (let uuid_failed = UuidFailed device in
     bindE (or_fail (\<lambda>e. uuid_failed (''failed to run '' @ SFDISK_CMD @ '': '' @ show_io e))
       (sys_run os (Spawn SFDISK_CMD (part_uuid_args device part_num uuid) []))) (\<lambda>out.
     if \<not> success out then failing (uuid_failed (SFDISK_CMD @ '' '' @ SFDISK_PART_UUID_FLAG @ '' on partition ''
       @ show_word part_num @ '' failed ('' @ display_status out @ ''): '' @ utf8_lossy (stderr out)))
     else ret ()))"

end
