(* ===== verification/Unmount_Disk.thy ===== *)
theory Unmount_Disk
  imports Flash_Base Boot_Env Device "HOL-Library.Sublist"
begin

text \<open>
  \<open>src/mode/flash/unmount.rs\<close>: nothing of a disk may stay mounted while it is written. A mount point
  in \<open>/proc/mounts\<close> has its white space escaped.
\<close>

definition PROC_MOUNTS :: string where "PROC_MOUNTS = ''/proc/mounts''"
definition DEV_DIR :: string where "DEV_DIR = ''/dev''"

definition MOUNTS_ESCAPES :: "(string \<times> char) list" where
  "MOUNTS_ESCAPES = [([CHR 0x5C] @ ''040'', CHR '' ''), ([CHR 0x5C] @ ''011'', tab_char),
     ([CHR 0x5C] @ ''012'', newline), ([CHR 0x5C] @ ''134'', CHR 0x5C)]"

definition unmount_if_mounted :: "'w os \<Rightarrow> string \<Rightarrow> (('w, 'p) machine, unit) flash" where
  "unmount_if_mounted os path = bindE (or_fail FlashFilesystem (is_path_mounted os path))
     (\<lambda>m. if m then or_fail FlashFilesystem (umount os path) else ret ())"

definition unmount_rootfs :: "'w os \<Rightarrow> string \<Rightarrow> (('w, 'p) machine, unit) flash" where
  "unmount_rootfs os rootfs = bindE (sync_filesystems os)
     (\<lambda>_. for_each [path_join rootfs MP_BOOT, rootfs] (unmount_if_mounted os))"

definition decode_mounts_field :: "string \<Rightarrow> string" where
  "decode_mounts_field field = foldl (\<lambda>t (escape, decoded). replace_all escape [decoded] t) field MOUNTS_ESCAPES"

text \<open>The two fields of a line: the source and the mount point.\<close>

definition mount_line :: "string \<Rightarrow> (string \<times> string) option" where
  "mount_line l = (case split_ws l of
     source # mount_point # _ \<Rightarrow> Some (decode_mounts_field source, decode_mounts_field mount_point)
   | _ \<Rightarrow> None)"

text \<open>The sort is stable and puts the deepest mount point first.\<close>

definition path_depth :: "string \<Rightarrow> nat" where
  "path_depth p = length (components p)"

fun insert_deep :: "string \<Rightarrow> string list \<Rightarrow> string list" where
  "insert_deep p [] = [p]"
| "insert_deep p (q # qs) = (if path_depth q \<le> path_depth p then p # q # qs else q # insert_deep p qs)"

definition deepest_first :: "string list \<Rightarrow> string list" where
  "deepest_first ps = foldr insert_deep ps []"

definition disk_of :: "'w os \<Rightarrow> devnum_codec \<Rightarrow> string \<Rightarrow> (('w, 'p) machine, 'e, u64 option) io" where
  "disk_of os dn source = caught (block_devnum os source) (\<lambda>r. case r of
     Inl _ \<Rightarrow> ret None
   | Inr devnum \<Rightarrow> whole_disk_devnum os dn SYS_DEV_BLOCK devnum)"

definition mounts_backed_by :: "string \<Rightarrow> u64 \<Rightarrow> (string \<Rightarrow> ('s, 'e, u64 option) io) \<Rightarrow> ('s, 'e, string list) io" where
  "mounts_backed_by proc_mounts disk disk_of_source =
     bindE (fold_io (\<lambda>l acc. case mount_line l of
         None \<Rightarrow> ret acc
       | Some (source, mount_point) \<Rightarrow> bindE (disk_of_source source) (\<lambda>d.
           ret (if d = Some disk then acc @ [mount_point] else acc))) (rust_lines proc_mounts) [])
       (\<lambda>points. ret (deepest_first points))"

definition unmount_target_disk :: "'w os \<Rightarrow> devnum_codec \<Rightarrow> string \<Rightarrow> string \<Rightarrow> (('w, 'p) machine, unit) flash" where
  "unmount_target_disk os dn rootfs disk =
     bindE (unmount_rootfs os rootfs) (\<lambda>_.
     bindE (or_fail (InvalidDestination disk) (block_devnum os disk)) (\<lambda>disk_dev.
     bindE (or_fail (PathIo PROC_MOUNTS) (sys_text os (ReadText PROC_MOUNTS))) (\<lambda>proc_mounts.
     bindE (mounts_backed_by proc_mounts disk_dev (disk_of os dn)) (\<lambda>points.
     for_each points (\<lambda>p. or_fail FlashFilesystem (umount os p))))))"

end
