(* ===== verification/Efi.thy ===== *)
theory Efi
  imports Flash_Base
begin

text \<open>
  \<open>src/mode/flash/efi.rs\<close>: the firmware's boot entry after a disk was written. The trait \<open>EfiOps\<close> is
  a record of the three side effects; \<open>real_efi_ops\<close> is the implementation that makes the calls.
\<close>

definition EFIBOOTMGR_CMD :: string where "EFIBOOTMGR_CMD = ''/sbin/efibootmgr''"
definition EFI_BOOT_ENTRY_LABEL :: string where "EFI_BOOT_ENTRY_LABEL = ''omnect_os''"
definition EFI_LOADER_PATH :: string where
  "EFI_LOADER_PATH = [CHR 0x5C] @ ''EFI'' @ [CHR 0x5C] @ ''BOOT'' @ [CHR 0x5C] @ ''bootx64.efi''"
definition EFI_ENTRY_DUMP_FILE :: string where "EFI_ENTRY_DUMP_FILE = ''EFI/BOOT/efibootmgr_entry''"
definition EFIVARFS_MOUNT_POINT :: string where "EFIVARFS_MOUNT_POINT = ''/sys/firmware/efi/efivars''"
definition BOOT_ENTRY_LINE_PREFIX :: string where "BOOT_ENTRY_LINE_PREFIX = ''Boot''"
definition BOOT_ENTRY_ID_LEN :: nat where "BOOT_ENTRY_ID_LEN = 4"

record 's efi_ops =
  op_mount_efivarfs :: "('s, unit) flash"
  op_efibootmgr :: "string list \<Rightarrow> ('s, string) flash"
  op_write_entry_dump :: "string \<Rightarrow> string \<Rightarrow> ('s, unit) flash"

definition mount_efivarfs :: "'w os \<Rightarrow> (('w, 'p) machine, unit) flash" where
  "mount_efivarfs os = bindE (or_fail FlashFilesystem (is_path_mounted os EFIVARFS_MOUNT_POINT)) (\<lambda>m.
     if m then ret () else or_fail FlashFilesystem
       (mount_fs os (fs_type_str Efivarfs) EFIVARFS_MOUNT_POINT efivarfs_options))"

definition efibootmgr :: "'w os \<Rightarrow> string list \<Rightarrow> (('w, 'p) machine, string) flash" where
  "efibootmgr os args =
     bindE (or_fail (\<lambda>e. EfiFailed (''failed to run '' @ EFIBOOTMGR_CMD @ '': '' @ show_io e))
       (sys_run os (Spawn EFIBOOTMGR_CMD args []))) (\<lambda>out.
     if \<not> success out then failing (EfiFailed (EFIBOOTMGR_CMD @ '' '' @ debug_list args @ '' failed (''
       @ display_status out @ ''): '' @ utf8_lossy (stderr out)))
     else ret (utf8_lossy (stdout out)))"

definition write_entry_dump :: "'w os \<Rightarrow> string \<Rightarrow> string \<Rightarrow> (('w, 'p) machine, unit) flash" where
  "write_entry_dump os boot_partition dump = with_mount os boot_partition EFI_BOOT vfat_options (\<lambda>boot_mount.
     (let path = path_join boot_mount EFI_ENTRY_DUMP_FILE in
      bindE (case parent path of
          Some d \<Rightarrow> or_fail (PathIo d) (sys_unit os (MakeDirs d)) | None \<Rightarrow> ret ()) (\<lambda>_.
      or_fail (PathIo path) (sys_unit os (WriteFile path dump)))))"

definition real_efi_ops :: "'w os \<Rightarrow> ('w, 'p) machine efi_ops" where
  "real_efi_ops os = \<lparr>op_mount_efivarfs = mount_efivarfs os, op_efibootmgr = efibootmgr os,
     op_write_entry_dump = write_entry_dump os\<rparr>"

definition entry_args :: "string \<Rightarrow> string list" where
  "entry_args target_disk = [''-c'', ''-d'', target_disk, ''-p'', show_word PARTITION_NUM_BOOT, ''-L'',
     EFI_BOOT_ENTRY_LABEL, ''-l'', EFI_LOADER_PATH]"

definition delete_args :: "string \<Rightarrow> string list" where
  "delete_args i = [''-b'', i, ''-B'']"

definition boot_entry_id :: "string \<Rightarrow> string option" where
  "boot_entry_id l = (case strip_prefix BOOT_ENTRY_LINE_PREFIX l of
     None \<Rightarrow> None
   | Some rest \<Rightarrow> (let i = take BOOT_ENTRY_ID_LEN rest in
       if length i = BOOT_ENTRY_ID_LEN \<and> list_all (\<lambda>c. hex_val c \<noteq> None) i then Some i else None))"

definition boot_entry_ids :: "string \<Rightarrow> string list" where
  "boot_entry_ids listing = List.map_filter boot_entry_id (rust_lines listing)"

definition handle_efi :: "'s efi_ops \<Rightarrow> string \<Rightarrow> string \<Rightarrow> ('s, unit) flash" where
  "handle_efi ops target_disk boot_partition =
     bindE (op_mount_efivarfs ops) (\<lambda>_.
     bindE (op_efibootmgr ops []) (\<lambda>listing.
     bindE (op_efibootmgr ops (entry_args target_disk)) (\<lambda>_.
     bindE (for_each (boot_entry_ids listing) (\<lambda>i. bindE (op_efibootmgr ops (delete_args i)) (\<lambda>_. ret ()))) (\<lambda>_.
     bindE (op_efibootmgr ops [''-v'']) (\<lambda>dump.
     op_write_entry_dump ops boot_partition dump)))))"

end
