(* ===== verification/Clone.thy ===== *)
theory Clone
  imports Sfdisk Unmount_Disk Efi Init_Setup
begin

text \<open>
  \<open>src/mode/flash/clone.rs\<close>: flash mode 1 clones the running disk onto a second one. The trait \<open>CloneOps\<close>
  is a record of side effects, \<open>real_clone_ops\<close> its implementation. The text of a version 4 UUID
  made of random bytes comes from a library and is the parameter \<open>uuid_text\<close>.
\<close>

definition DEST_DEVICE_WAIT_SECS :: nat where "DEST_DEVICE_WAIT_SECS = 30"
definition DEST_DEVICE_POLL_INTERVAL_MS :: nat where "DEST_DEVICE_POLL_INTERVAL_MS = 1000"
definition E2IMAGE_CMD :: string where "E2IMAGE_CMD = ''/sbin/e2image''"
definition E2IMAGE_READ_CHUNK :: u64 where "E2IMAGE_READ_CHUNK = 4096"
definition E2IMAGE_TAIL_BYTES :: nat where "E2IMAGE_TAIL_BYTES = 4096"
definition E2IMAGE_REASON_LINES :: nat where "E2IMAGE_REASON_LINES = 3"
definition GRUBENV_SOURCE :: string where "GRUBENV_SOURCE = ''/etc/omnect/grubenv.in''"
definition GRUBENV_TARGET :: string where "GRUBENV_TARGET = ''EFI/BOOT/grubenv''"
definition UBOOT_ENV_SOURCE :: string where "UBOOT_ENV_SOURCE = ''/etc/omnect/uboot-env.bin''"
definition FATLABEL_CMD :: string where "FATLABEL_CMD = ''/usr/sbin/fatlabel''"
definition FATLABEL_REASON_LINES :: nat where "FATLABEL_REASON_LINES = 3"
definition UUID_SOURCE :: string where "UUID_SOURCE = ''/dev/urandom''"
definition UUID_BYTES :: u64 where "UUID_BYTES = 16"
definition REASON_IDENTICAL_DISK :: string where "REASON_IDENTICAL_DISK = ''identical to the booted disk''"
definition REASON_SOURCE_PARTITION :: string where "REASON_SOURCE_PARTITION = ''a partition of the booted disk''"
definition REASON_NOT_A_WHOLE_DISK :: string where "REASON_NOT_A_WHOLE_DISK = ''a partition, not a whole disk''"
definition REASON_UNKNOWN_DISK :: string where "REASON_UNKNOWN_DISK = ''the disk it belongs to is unknown to sysfs''"
definition REASON_NO_PARTITION_NODE :: string where
  "REASON_NO_PARTITION_NODE = ''the applied partition table produced no block device here''"

definition dest_partition_roles :: "table_kind \<Rightarrow> u32 list" where
  "dest_partition_roles t = [PARTITION_NUM_BOOT, PARTITION_NUM_ROOT_A, PARTITION_NUM_ROOT_B,
     PARTITION_NUM_FACTORY t, PARTITION_NUM_CERT t, PARTITION_NUM_ETC t, PARTITION_NUM_DATA t]"

section \<open>Build constants\<close>

record clone_build =
  cb_data_size :: "u64 option"
  cb_bootloader_start :: "u64 option"
  cb_uboot_env1_start :: "u64 option"
  cb_uboot_env2_start :: "u64 option"
  cb_uboot_env_size :: "u64 option"

record uboot_env =
  ue_size :: u64
  ue_offsets :: "u64 list"

record clone_constants =
  cc_data_size_kb :: u64
  cc_bootloader_area :: "byte_range option"
  cc_uboot_env :: "uboot_env option"

definition or_missing :: "u64 option \<Rightarrow> build_constant \<Rightarrow> flash_error + u64" where
  "or_missing v name = (case v of Some x \<Rightarrow> Inr x | None \<Rightarrow> Inl (MissingBuildConstant name))"

definition bootloader_area_of :: "clone_build \<Rightarrow> flash_error + byte_range option" where
  "bootloader_area_of raw = (case cb_bootloader_start raw of
     None \<Rightarrow> Inr None
   | Some start \<Rightarrow> (case or_missing (cb_uboot_env1_start raw) UbootEnv1Start of Inl e \<Rightarrow> Inl e | Inr stop \<Rightarrow>
     (case checked_sub stop start of
       None \<Rightarrow> Inl (InvalidBuildConstant UbootEnv1Start (show_word stop
         @ '' KB lies below the bootloader area start '' @ show_word start @ '' KB''))
     | Some len \<Rightarrow> (case kb_to_bytes start BootloaderStart of Inl e \<Rightarrow> Inl e | Inr o_bytes \<Rightarrow>
       (case kb_to_bytes len UbootEnv1Start of Inl e \<Rightarrow> Inl e | Inr l_bytes \<Rightarrow>
         Inr (Some \<lparr>br_offset = o_bytes, br_len = l_bytes\<rparr>))))))"

definition uboot_env_of :: "clone_build \<Rightarrow> flash_error + uboot_env" where
  "uboot_env_of raw =
     (case or_missing (cb_uboot_env_size raw) UbootEnvSize of Inl e \<Rightarrow> Inl e | Inr sz \<Rightarrow>
     (case or_missing (cb_uboot_env1_start raw) UbootEnv1Start of Inl e \<Rightarrow> Inl e | Inr one \<Rightarrow>
     (case kb_to_bytes one UbootEnv1Start of Inl e \<Rightarrow> Inl e | Inr off1 \<Rightarrow>
     (case (case cb_uboot_env2_start raw of None \<Rightarrow> Inr [off1]
        | Some two \<Rightarrow> (case kb_to_bytes two UbootEnv2Start of Inl e \<Rightarrow> Inl e | Inr off2 \<Rightarrow> Inr [off1, off2])) of
       Inl e \<Rightarrow> Inl e
     | Inr offs \<Rightarrow> (case kb_to_bytes sz UbootEnvSize of Inl e \<Rightarrow> Inl e
         | Inr bytes \<Rightarrow> Inr \<lparr>ue_size = bytes, ue_offsets = offs\<rparr>)))))"

definition clone_constants_of :: "features \<Rightarrow> clone_build \<Rightarrow> flash_error + clone_constants" where
  "clone_constants_of ft raw =
     (case or_missing (cb_data_size raw) DataSize of Inl e \<Rightarrow> Inl e | Inr kb \<Rightarrow>
     (case bootloader_area_of raw of Inl e \<Rightarrow> Inl e | Inr area \<Rightarrow>
     (case bootloader ft of
        Grub \<Rightarrow> Inr \<lparr>cc_data_size_kb = kb, cc_bootloader_area = area, cc_uboot_env = None\<rparr>
      | UBoot \<Rightarrow> (case uboot_env_of raw of Inl e \<Rightarrow> Inl e | Inr env \<Rightarrow>
          Inr \<lparr>cc_data_size_kb = kb, cc_bootloader_area = area, cc_uboot_env = Some env\<rparr>))))"

section \<open>The destination\<close>

definition destination_partition :: "string \<Rightarrow> u32 \<Rightarrow> string" where
  "destination_partition dst num = partition_path dst (partition_sep_for dst) num"

definition refusal :: "u64 \<Rightarrow> u64 option \<Rightarrow> u64 \<Rightarrow> string option" where
  "refusal dst dst_disk src =
     (if dst = src then Some REASON_IDENTICAL_DISK
      else (case dst_disk of
        None \<Rightarrow> Some REASON_UNKNOWN_DISK
      | Some disk \<Rightarrow> if disk = src then Some REASON_SOURCE_PARTITION
          else if disk \<noteq> dst then Some REASON_NOT_A_WHOLE_DISK else None))"

definition validate_devices :: "'w os \<Rightarrow> devnum_codec \<Rightarrow> string \<Rightarrow> string \<Rightarrow> string \<Rightarrow> (('w, 'p) machine, unit) flash" where
  "validate_devices os dn sys_dev_block dst src = (let invalid = InvalidDestination dst in
     bindE (or_fail invalid (block_devnum os dst)) (\<lambda>dst_dev.
     bindE (or_fail (\<lambda>why. invalid (''the booted disk '' @ src @ '': '' @ why)) (block_devnum os src)) (\<lambda>src_dev.
     bindE (whole_disk_devnum os dn sys_dev_block dst_dev) (\<lambda>disk.
     case refusal dst_dev disk src_dev of
       Some why \<Rightarrow> if why = REASON_IDENTICAL_DISK \<or> why = REASON_SOURCE_PARTITION
         then failing (invalid (why @ '' '' @ src)) else failing (invalid why)
     | None \<Rightarrow> ret ()))))"

definition validate_destination :: "'w os \<Rightarrow> devnum_codec \<Rightarrow> string \<Rightarrow> string \<Rightarrow> (('w, 'p) machine, unit) flash" where
  "validate_destination os dn dst src = validate_devices os dn SYS_DEV_BLOCK dst src"

function wait_for_block_loop :: "'w os \<Rightarrow> nat \<Rightarrow> string \<Rightarrow> nat \<Rightarrow> ('w, 'p) machine \<Rightarrow>
    (flash_error stop + unit) \<times> ('w, 'p) machine" where
  "wait_for_block_loop os start dst timeout_secs s =
     (case test_path os (Exists dst) s of (found, s1) \<Rightarrow>
        if found then (Inr (), s1)
        else if timeout_secs * 1000 \<le> clock s1 - start
        then (Inl (Failed (DestinationTimeout dst timeout_secs)), s1)
        else wait_for_block_loop os start dst timeout_secs (sleep_for os DEST_DEVICE_POLL_INTERVAL_MS s1))"
  by pat_completeness auto

lemma wait_measure:
  assumes "test_path os c s = (b, s1)" and "\<not> T \<le> clock s1 - start"
  shows "start + T - clock (sleep_for os DEST_DEVICE_POLL_INTERVAL_MS s1) < start + T - clock s"
  using assms clock_test_path [of s os c] clock_sleep_for [of s1 DEST_DEVICE_POLL_INTERVAL_MS os]
  by (auto simp: DEST_DEVICE_POLL_INTERVAL_MS_def)

termination wait_for_block_loop
  by (relation "measure (\<lambda>(os, start, dst, t, s). start + t * 1000 - clock s)")
     (simp_all only: wf_measure in_measure prod.case, metis wait_measure)

declare wait_for_block_loop.simps [simp del]

definition wait_for_block_device :: "'w os \<Rightarrow> string \<Rightarrow> nat \<Rightarrow> (('w, 'p) machine, unit) flash" where
  "wait_for_block_device os dst timeout_secs = (\<lambda>s. wait_for_block_loop os (clock s) dst timeout_secs s)"

definition verify_partition :: "'w os \<Rightarrow> string \<Rightarrow> (('w, 'p) machine, unit) flash" where
  "verify_partition os path = caught (sys_stat os (Stat path)) (\<lambda>r. case r of
     Inr m \<Rightarrow> if st_is_block m then ret () else failing (InvalidDestination path REASON_NOT_A_BLOCK_DEVICE)
   | Inl e \<Rightarrow> failing (InvalidDestination path
       (if io_kind_of e = NotFound then REASON_NO_PARTITION_NODE else ''cannot stat: '' @ show_io e)))"

definition verify_destination_partitions :: "table_kind \<Rightarrow> 'w os \<Rightarrow> string \<Rightarrow> (('w, 'p) machine, unit) flash" where
  "verify_destination_partitions t os dst =
     for_each (dest_partition_roles t) (\<lambda>num. verify_partition os (destination_partition dst num))"

section \<open>Tools\<close>

definition keep_tail :: "string \<Rightarrow> string \<Rightarrow> string" where
  "keep_tail tail chunk = drop (length (tail @ chunk) - E2IMAGE_TAIL_BYTES) (tail @ chunk)"

fun e2image_output :: "nat \<Rightarrow> 'w os \<Rightarrow> string \<Rightarrow> (('w, 'p) machine, string stop, string) io" where
  "e2image_output 0 os tail = throw Running"
| "e2image_output (Suc n) os tail = caught (sys_text os (ReadChild E2IMAGE_CMD E2IMAGE_READ_CHUNK)) (\<lambda>r. case r of
     Inr chunk \<Rightarrow> if chunk = [] then ret tail else e2image_output n os (keep_tail tail chunk)
   | Inl e \<Rightarrow> if io_kind_of e = Interrupted then e2image_output n os tail else ret tail)"

definition run_e2image :: "nat \<Rightarrow> 'w os \<Rightarrow> string \<Rightarrow> string \<Rightarrow> (('w, 'p) machine, string stop, unit) io" where
  "run_e2image fuel os src dst =
     bindE (or_fail (\<lambda>e. ''creating the output pipe: '' @ show_io e) (sys_unit os MakePipe)) (\<lambda>_.
     bindE (or_fail (\<lambda>e. ''creating the output pipe: '' @ show_io e) (sys_unit os ClonePipe)) (\<lambda>_.
     bindE (or_fail (\<lambda>e. ''failed to run '' @ E2IMAGE_CMD @ '': '' @ show_io e)
       (sys_unit os (SpawnChild E2IMAGE_CMD [''-ra'', ''-p'', src, dst]))) (\<lambda>_.
     bindE (e2image_output fuel os []) (\<lambda>tail.
     bindE (or_fail (\<lambda>e. ''failed to wait for '' @ E2IMAGE_CMD @ '': '' @ show_io e) (sys_run os (WaitChild E2IMAGE_CMD))) (\<lambda>out.
     if \<not> success out then failing (E2IMAGE_CMD @ '' failed ('' @ display_status out @ ''): ''
       @ output_tail tail E2IMAGE_REASON_LINES)
     else ret ())))))"

definition copy_grubenv :: "'w os \<Rightarrow> string \<Rightarrow> (('w, 'p) machine, unit) flash" where
  "copy_grubenv os tgt =
     bindE (case parent tgt of Some d \<Rightarrow> or_fail (PathIo d) (sys_unit os (MakeDirs d)) | None \<Rightarrow> ret ()) (\<lambda>_.
     or_fail (\<lambda>e. BootEnvWriteFailed tgt (''copying '' @ GRUBENV_SOURCE @ '': '' @ show_io e))
       (sys_unit os (CopyFile GRUBENV_SOURCE tgt)))"

definition new_volume_id :: "'w os \<Rightarrow> string \<Rightarrow> (('w, 'p) machine, unit) flash" where
  "new_volume_id os boot_partition = (let uuid_failed = UuidFailed boot_partition in
     bindE (or_fail (\<lambda>e. uuid_failed (''failed to run '' @ FATLABEL_CMD @ '': '' @ show_io e))
       (sys_run os (Spawn FATLABEL_CMD [''-i'', ''-r'', boot_partition] []))) (\<lambda>out.
     if \<not> success out then failing (uuid_failed (FATLABEL_CMD @ '' failed ('' @ display_status out @ ''): ''
       @ output_tail (stderr out) FATLABEL_REASON_LINES))
     else ret ()))"

definition fresh_uuid :: "(string \<Rightarrow> string) \<Rightarrow> 'w os \<Rightarrow> (('w, 'p) machine, string) flash" where
  "fresh_uuid uuid_text os = bindE (or_fail (PathIo UUID_SOURCE)
     (bindE (sys_unit os (OpenRead UUID_SOURCE)) (\<lambda>_. sys_text os (ReadExact UUID_SOURCE UUID_BYTES))))
     (\<lambda>bytes. ret (uuid_text bytes))"

definition resolve_destination :: "'w os \<Rightarrow> string \<Rightarrow> (('w, 'p) machine, string) flash" where
  "resolve_destination os dst = bindE (wait_for_block_device os dst DEST_DEVICE_WAIT_SECS) (\<lambda>_.
     or_fail (\<lambda>e. InvalidDestination dst (''cannot resolve: '' @ show_io e)) (sys_text os (Canonicalize dst)))"

section \<open>The sequence\<close>

record 's clone_ops =
  co_fresh_uuid :: "('s, string) flash"
  co_resolve_destination :: "string \<Rightarrow> ('s, string) flash"
  co_validate_destination :: "string \<Rightarrow> string \<Rightarrow> ('s, unit) flash"
  co_unmount_rootfs :: "string \<Rightarrow> ('s, unit) flash"
  co_dump :: "string \<Rightarrow> ('s, string) flash"
  co_apply :: "string \<Rightarrow> string \<Rightarrow> ('s, unit) flash"
  co_verify_partitions :: "string \<Rightarrow> ('s, unit) flash"
  co_copy_range :: "string \<Rightarrow> u64 \<Rightarrow> string \<Rightarrow> u64 \<Rightarrow> u64 option \<Rightarrow> ('s, unit) flash"
  co_reformat :: "string \<Rightarrow> string \<Rightarrow> ('s, unit) flash"
  co_e2image :: "string \<Rightarrow> string \<Rightarrow> ('s, unit) flash"
  co_set_part_uuid :: "string \<Rightarrow> u32 \<Rightarrow> string \<Rightarrow> ('s, unit) flash"
  co_new_volume_id :: "string \<Rightarrow> ('s, unit) flash"
  co_write_grubenv :: "string \<Rightarrow> ('s, unit) flash"
  co_efi :: "'s efi_ops"
  co_sync :: "('s, unit) flash"

definition real_clone_ops :: "nat \<Rightarrow> features \<Rightarrow> (string \<Rightarrow> string) \<Rightarrow> devnum_codec \<Rightarrow> 'w os \<Rightarrow> ('w, 'p) machine clone_ops" where
  "real_clone_ops fuel ft uuid_text dn os =
     \<lparr>co_fresh_uuid = fresh_uuid uuid_text os,
      co_resolve_destination = resolve_destination os,
      co_validate_destination = validate_destination os dn,
      co_unmount_rootfs = unmount_rootfs os,
      co_dump = dump_table os,
      co_apply = apply_table os,
      co_verify_partitions = verify_destination_partitions (table ft) os,
      co_copy_range = (\<lambda>src so dst d len. bindE (copy_range fuel os src so dst d len) (\<lambda>_. ret ())),
      co_reformat = (\<lambda>device label. or_fail FlashFilesystem (reformat_ext4 os device label)),
      co_e2image = (\<lambda>src dst. fail_with (CopyFailed src dst) (run_e2image fuel os src dst)),
      co_set_part_uuid = set_part_uuid os,
      co_new_volume_id = new_volume_id os,
      co_write_grubenv = (\<lambda>boot. with_mount os boot CLONE_BOOT vfat_options (\<lambda>m. copy_grubenv os (path_join m GRUBENV_TARGET))),
      co_efi = real_efi_ops os,
      co_sync = sync_filesystems os\<rparr>"

definition fresh_uuids :: "table_kind \<Rightarrow> 's clone_ops \<Rightarrow> ('s, (u32 \<times> string) list) flash" where
  "fresh_uuids t ops = (case t of
     Dos \<Rightarrow> ret []
   | Gpt \<Rightarrow> bindE (co_fresh_uuid ops) (\<lambda>u1. bindE (co_fresh_uuid ops) (\<lambda>u2.
       ret [(PARTITION_NUM_BOOT, u1), (PARTITION_NUM_ROOT_A, u2)])))"

definition copy_partition :: "'s clone_ops \<Rightarrow> partition_layout \<Rightarrow> string \<Rightarrow> partition_name \<times> u32 \<Rightarrow> ('s, unit) flash" where
  "copy_partition ops l dst p = bindE (lift_res (case layout_partition l (fst p) of Inl e \<Rightarrow> Inl (Failed e) | Inr x \<Rightarrow> Inr x))
     (\<lambda>src. co_copy_range ops src 0 (destination_partition dst (snd p)) 0 None)"

text \<open>The identities and the boot loader of the clone.\<close>

definition finish_clone :: "features \<Rightarrow> 's clone_ops \<Rightarrow> clone_constants \<Rightarrow> string \<Rightarrow> (u32 \<times> string) list \<Rightarrow> ('s, unit) flash" where
  "finish_clone ft ops constants dst uuids =
     bindE (for_each uuids (\<lambda>(num, uuid). co_set_part_uuid ops dst num uuid)) (\<lambda>_.
     (case bootloader ft of
        Grub \<Rightarrow> (let boot = destination_partition dst PARTITION_NUM_BOOT in
          bindE (co_new_volume_id ops boot) (\<lambda>_.
          bindE (co_write_grubenv ops boot) (\<lambda>_.
          handle_efi (co_efi ops) dst boot)))
      | UBoot \<Rightarrow> (case cc_uboot_env constants of
          None \<Rightarrow> ret ()
        | Some env \<Rightarrow> for_each (ue_offsets env) (\<lambda>offset.
            co_copy_range ops UBOOT_ENV_SOURCE 0 dst offset (Some (ue_size env))))))"

definition clone_onto :: "features \<Rightarrow> 's clone_ops \<Rightarrow> clone_constants \<Rightarrow> partition_layout \<Rightarrow> string \<Rightarrow> string \<Rightarrow>
    (u32 \<times> string) list \<Rightarrow> ('s, unit) flash" where
  "clone_onto ft ops constants l src dst uuids = (let t = table ft in
     bindE (co_dump ops src) (\<lambda>dump.
     bindE (lift_res (case rewrite_dump t src dump (cc_data_size_kb constants) of Inl e \<Rightarrow> Inl (Failed e) | Inr x \<Rightarrow> Inr x)) (\<lambda>rewritten.
     bindE (co_apply ops dst rewritten) (\<lambda>_.
     bindE (co_verify_partitions ops dst) (\<lambda>_.
     bindE (case cc_bootloader_area constants of
         Some area \<Rightarrow> co_copy_range ops src (br_offset area) dst (br_offset area) (Some (br_len area)) | None \<Rightarrow> ret ()) (\<lambda>_.
     bindE (co_reformat ops (destination_partition dst (PARTITION_NUM_ETC t)) ''etc'') (\<lambda>_.
     bindE (co_reformat ops (destination_partition dst (PARTITION_NUM_DATA t)) ''data'') (\<lambda>_.
     bindE (for_each [(Boot, PARTITION_NUM_BOOT), (Factory, PARTITION_NUM_FACTORY t), (Cert, PARTITION_NUM_CERT t)]
       (copy_partition ops l dst)) (\<lambda>_.
     bindE (co_e2image ops (root_current l) (destination_partition dst PARTITION_NUM_ROOT_A)) (\<lambda>_.
     finish_clone ft ops constants dst uuids))))))))))"

definition clone_with :: "features \<Rightarrow> 's clone_ops \<Rightarrow> clone_constants \<Rightarrow> partition_layout \<Rightarrow> string \<Rightarrow> string \<Rightarrow> ('s, unit) flash" where
  "clone_with ft ops constants l rootfs requested = (let src = base (root_dev l) in
     bindE (fresh_uuids (table ft) ops) (\<lambda>uuids.
     bindE (co_resolve_destination ops requested) (\<lambda>dst.
     bindE (co_validate_destination ops dst src) (\<lambda>_.
     bindE (co_unmount_rootfs ops rootfs) (\<lambda>_.
     bindE (clone_onto ft ops constants l src dst uuids) (\<lambda>_.
     co_sync ops))))))"

definition run_clone :: "nat \<Rightarrow> features \<Rightarrow> (string \<Rightarrow> string) \<Rightarrow> devnum_codec \<Rightarrow> 'w os \<Rightarrow> clone_build \<Rightarrow> partition_layout \<Rightarrow>
    string \<Rightarrow> string \<Rightarrow> (('w, 'p) machine, unit) flash" where
  "run_clone fuel ft uuid_text dn os raw l rootfs requested = (case clone_constants_of ft raw of
     Inl e \<Rightarrow> failing e
   | Inr constants \<Rightarrow> clone_with ft (real_clone_ops fuel ft uuid_text dn os) constants l rootfs requested)"

end
