(* ===== verification/Net.thy ===== *)
theory Net
  imports Flash_Base
begin

text \<open>
  \<open>src/mode/flash/net.rs\<close>: the network of the flash modes. The trait \<open>NetOps\<close> is a record. Durations are
  milliseconds. The bound of \<open>wait_for\<close> is the sum of its sleeps; the fuel of the model counts its
  polls, and the theorem at the end says how much is enough.
\<close>

definition FLASH_INTERFACE :: string where "FLASH_INTERFACE = ''eth0''"
definition IP_CMD :: string where "IP_CMD = ''/sbin/ip''"
definition DHCPCD_CMD :: string where "DHCPCD_CMD = ''/sbin/dhcpcd''"
definition DROPBEAR_CMD :: string where "DROPBEAR_CMD = ''/sbin/dropbear''"
definition DROPBEAR_KEY_DIR :: string where "DROPBEAR_KEY_DIR = ''/etc/dropbear''"
definition DEVPTS_MOUNT_POINT :: string where "DEVPTS_MOUNT_POINT = ''/dev/pts''"
definition TMP_DIR :: string where "TMP_DIR = ''/tmp''"
definition INTERFACE_UP_TIMEOUT :: nat where "INTERFACE_UP_TIMEOUT = 60000"
definition DHCP_ADDRESS_TIMEOUT :: nat where "DHCP_ADDRESS_TIMEOUT = 120000"
definition NET_POLL_INTERVAL :: nat where "NET_POLL_INTERVAL = 1000"
definition IP_LINK_ARGS :: "string list" where "IP_LINK_ARGS = [''link'', ''set'', FLASH_INTERFACE, ''up'']"

datatype ipv4_need = AnyAddress | Lease

definition is_link_local :: "u32 \<Rightarrow> bool" where
  "is_link_local ip \<longleftrightarrow> drop_bit 16 ip = 0xA9FE"

definition need_accepts :: "ipv4_need \<Rightarrow> u32 \<Rightarrow> bool" where
  "need_accepts need ip = (case need of AnyAddress \<Rightarrow> True | Lease \<Rightarrow> \<not> is_link_local ip)"

definition describe_need :: "ipv4_need \<Rightarrow> string" where
  "describe_need need = (case need of AnyAddress \<Rightarrow> ''an IPv4 address'' | Lease \<Rightarrow> ''a DHCP lease'')"

definition show_ipv4 :: "u32 \<Rightarrow> string" where
  "show_ipv4 ip = (let n = unat ip in show_nat (n div 2 ^ 24) @ ''.'' @ show_nat (n div 2 ^ 16 mod 256) @ ''.''
     @ show_nat (n div 2 ^ 8 mod 256) @ ''.'' @ show_nat (n mod 256))"

record 's net_ops =
  no_link_up :: "('s, unit) flash"
  no_run_dhcpcd :: "('s, unit) flash"
  no_addresses :: "('s, (string \<times> ip_addr option) list) flash"
  no_sleep :: "nat \<Rightarrow> ('s, unit) flash"

definition run_visible :: "'w os \<Rightarrow> string \<Rightarrow> string list \<Rightarrow> (('w, 'p) machine, unit) flash" where
  "run_visible os cmd args = or_fail NetworkFailed (run_inherited os cmd args)"

definition real_net_ops :: "'w os \<Rightarrow> ('w, 'p) machine net_ops" where
  "real_net_ops os =
     \<lparr>no_link_up = run_visible os IP_CMD IP_LINK_ARGS,
      no_run_dhcpcd = bindE (or_fail (PathIo TMP_DIR) (sys_unit os (MakeDirs TMP_DIR)))
        (\<lambda>_. run_visible os DHCPCD_CMD [FLASH_INTERFACE]),
      no_addresses = or_fail (\<lambda>e. NetworkFailed (''failed to list addresses: '' @ show_io e)) (sys_addrs os NetAddrs),
      no_sleep = sys_sleep os\<rparr>"

fun ipv4_of :: "(string \<times> ip_addr option) list \<Rightarrow> string \<Rightarrow> ipv4_need \<Rightarrow> u32 option" where
  "ipv4_of [] iface need = None"
| "ipv4_of ((name, ip) # rest) iface need = (case ip of
     Some (V4 v4) \<Rightarrow> if name = iface \<and> need_accepts need v4 then Some v4 else ipv4_of rest iface need
   | _ \<Rightarrow> ipv4_of rest iface need)"

fun wait_for :: "nat \<Rightarrow> 's net_ops \<Rightarrow> string \<Rightarrow> nat \<Rightarrow> nat \<Rightarrow> ('s, 'a option) flash \<Rightarrow> nat \<Rightarrow> ('s, 'a) flash" where
  "wait_for 0 ops what timeout interval poll waited = throw Running"
| "wait_for (Suc n) ops what timeout interval poll waited = attempt poll (\<lambda>r.
     let last_error = (case r of Inl e \<Rightarrow> '': '' @ show_flash_error e | Inr _ \<Rightarrow> []) in
     case r of
       Inr (Some v) \<Rightarrow> ret v
     | _ \<Rightarrow> if timeout \<le> waited
         then failing (NetworkFailed (''timed out after '' @ show_nat (timeout div 1000) @ ''s waiting for '' @ what @ last_error))
         else bindE (no_sleep ops interval) (\<lambda>_. wait_for n ops what timeout interval poll (waited + interval)))"

definition bring_up_with :: "nat \<Rightarrow> 's net_ops \<Rightarrow> ipv4_need \<Rightarrow> nat \<Rightarrow> nat \<Rightarrow> nat \<Rightarrow> ('s, u32) flash" where
  "bring_up_with fuel ops need up_timeout address_timeout interval =
     bindE (wait_for fuel ops (FLASH_INTERFACE @ '' to come up'') up_timeout interval
       (bindE (no_link_up ops) (\<lambda>u. ret (Some u))) 0) (\<lambda>_.
     bindE (no_run_dhcpcd ops) (\<lambda>_.
     wait_for fuel ops (describe_need need @ '' on '' @ FLASH_INTERFACE) address_timeout interval
       (bindE (no_addresses ops) (\<lambda>addrs. ret (ipv4_of addrs FLASH_INTERFACE need))) 0))"

text \<open>One more poll than the longest of the two waits has sleeps.\<close>

definition NET_POLLS :: nat where "NET_POLLS = 122"

definition bring_up :: "'w os \<Rightarrow> ipv4_need \<Rightarrow> (('w, 'p) machine, u32) flash" where
  "bring_up os need = bring_up_with NET_POLLS (real_net_ops os) need INTERFACE_UP_TIMEOUT DHCP_ADDRESS_TIMEOUT NET_POLL_INTERVAL"

definition start_dropbear :: "'w os \<Rightarrow> (('w, 'p) machine, unit) flash" where
  "start_dropbear os =
     bindE (or_fail (PathIo DEVPTS_MOUNT_POINT) (sys_unit os (MakeDirs DEVPTS_MOUNT_POINT))) (\<lambda>_.
     bindE (or_fail FlashFilesystem (is_path_mounted os DEVPTS_MOUNT_POINT)) (\<lambda>m.
     bindE (if m then ret () else or_fail FlashFilesystem
       (mount_fs os (fs_type_str Devpts) DEVPTS_MOUNT_POINT devpts_options)) (\<lambda>_.
     bindE (or_fail (PathIo DROPBEAR_KEY_DIR) (sys_unit os (MakeDirs DROPBEAR_KEY_DIR))) (\<lambda>_.
     run_visible os DROPBEAR_CMD [''-R'']))))"

section \<open>The waits end\<close>

text \<open>\<open>comes_back m\<close>: \<open>m\<close> gives a value or an error, it neither hangs nor panics.\<close>

definition comes_back :: "('s, 'e stop, 'a) io \<Rightarrow> bool" where
  "comes_back m \<longleftrightarrow> results (\<lambda>e. \<exists>x. e = Failed x) (\<lambda>_. True) m"

named_theorems back_intros "rules that build comes_back"

lemma comes_back_pure [back_intros]: "comes_back (ret x)" "comes_back (failing e)"
  by (simp_all add: comes_back_def failing_def results_def)

lemma comes_back_bindE [back_intros]:
  "comes_back m \<Longrightarrow> (\<And>x. comes_back (f x)) \<Longrightarrow> comes_back (bindE m f)"
  unfolding comes_back_def by (rule results_bindE)

lemma comes_back_or_fail [back_intros]: "comes_back (or_fail g m)"
  unfolding comes_back_def or_fail_def by (intro results_map_err results_mono [OF results_any]) auto

lemma comes_back_never_fails: "never_fails m \<Longrightarrow> comes_back m"
  unfolding comes_back_def never_fails_def results_def by (metis fst_conv old.sum.simps(6))

lemma comes_back_attempt [back_intros]:
  assumes "comes_back m" and "\<And>r. comes_back (f r)"
  shows "comes_back (attempt m f)"
  unfolding attempt_def comes_back_def
proof (rule results_caught_after)
  show "results (\<lambda>e. \<exists>x. e = Failed x) (\<lambda>_. True) m" using assms(1) by (simp add: comes_back_def)
qed (use assms(2) in \<open>auto simp: comes_back_def\<close>)

lemma comes_back_if [back_intros]:
  "(b \<Longrightarrow> comes_back m) \<Longrightarrow> (\<not> b \<Longrightarrow> comes_back n) \<Longrightarrow> comes_back (if b then m else n)"
  by simp

text \<open>With a positive interval, as many polls as the timeout has intervals, and one more, are enough for the
  wait to come back, whatever each poll gives.\<close>

lemma wait_for_returns:
  assumes "comes_back poll" and "\<And>ms. comes_back (no_sleep ops ms)" and "0 < interval"
    and "timeout < waited + fuel * interval"
  shows "comes_back (wait_for (Suc fuel) ops what timeout interval poll waited)"
  using assms(4)
proof (induction fuel arbitrary: waited)
  case 0
  then have "timeout \<le> waited" by simp
  then show ?case using assms(1) by (auto intro!: back_intros simp: Let_def split: sum.split option.split)
next
  case (Suc fuel)
  then have "timeout < waited + interval + fuel * interval" by simp
  from Suc.IH [OF this] show ?case
    unfolding wait_for.simps(2) [of "Suc fuel"]
    using assms(1,2) by (auto intro!: back_intros simp: Let_def split: sum.split option.split)
qed

lemma real_net_come_back:
  "comes_back (no_link_up (real_net_ops os))" "comes_back (no_run_dhcpcd (real_net_ops os))"
  "comes_back (no_addresses (real_net_ops os))" "comes_back (no_sleep (real_net_ops os) ms)"
  unfolding real_net_ops_def net_ops.simps run_visible_def
  by (intro back_intros comes_back_never_fails [OF never_fails_prog(4)])+

text \<open>C40: Bringing up the network is bounded: on every machine it comes back with an address or an error after
  at most 122 polls of each of its two waits, and it never panics.\<close>

theorem bring_up_returns: "comes_back (bring_up os need)"
proof -
  have up: "comes_back (wait_for NET_POLLS (real_net_ops os) what t NET_POLL_INTERVAL poll 0)"
    if "comes_back poll" "t \<le> DHCP_ADDRESS_TIMEOUT" for what t and poll :: "(_, _ option) flash"
  proof -
    have "comes_back (wait_for (Suc 121) (real_net_ops os) what t NET_POLL_INTERVAL poll 0)"
      using that by (intro wait_for_returns real_net_come_back)
        (auto simp: NET_POLL_INTERVAL_def DHCP_ADDRESS_TIMEOUT_def)
    then show ?thesis by (simp add: NET_POLLS_def)
  qed
  show ?thesis
    unfolding bring_up_def bring_up_with_def
    by (intro back_intros up real_net_come_back) (simp_all add: INTERFACE_UP_TIMEOUT_def DHCP_ADDRESS_TIMEOUT_def)
qed

end
