(* ===== verification/Bmap.thy ===== *)
theory Bmap
  imports Rawio
begin

text \<open>
  \<open>src/mode/flash/bmap/\<close> and \<open>src/mode/flash/xz/\<close>: writing the mapped blocks of an image. The XML reader,
  the digest and the xz decoder are libraries: \<open>xml\<close> gives the elements of the file or an error
  text, \<open>sha256\<close> the digest of a byte string, and \<open>ReadDecoded\<close> is a read from the decoder. The
  running digest of the code is the digest of the bytes collected so far.
\<close>

section \<open>The xz decoder\<close>

definition MAX_XZ_DICT_SIZE :: u32 where "MAX_XZ_DICT_SIZE = 67108864"
definition MIB :: u32 where "MIB = 1048576"

definition read_error :: "io_error \<Rightarrow> string" where
  "read_error e = (if io_kind_of e = OutOfMemory
     then ''decoding needs too much memory, the xz dictionary limit is '' @ show_word (MAX_XZ_DICT_SIZE div MIB) @ '' MiB: '' @ show_io e
     else ''reading source: '' @ show_io e)"

text \<open>The reader below the decoder: it fills the buffer or reaches the end of its input.\<close>

fun full_read :: "nat \<Rightarrow> 'w os \<Rightarrow> string \<Rightarrow> nat \<Rightarrow> string \<Rightarrow> (('w, 'p) machine, io_error stop, string) io" where
  "full_read fuel os path len filled =
     (if len \<le> length filled then ret filled
      else (case fuel of
        0 \<Rightarrow> throw Running
      | Suc n \<Rightarrow> caught (sys_text os (ReadSome path (of_nat (len - length filled)))) (\<lambda>r. case r of
          Inr buf \<Rightarrow> if buf = [] then ret filled else full_read n os path len (filled @ buf)
        | Inl e \<Rightarrow> if io_kind_of e = Interrupted then full_read n os path len filled else failing e)))"

declare full_read.simps [simp del]

section \<open>Types\<close>

record mapped_range =
  mr_bytes :: byte_range
  mr_sha256 :: string

record bmap =
  image_size :: u64
  ranges :: "mapped_range list"

datatype source = XzSource string | RawSource string
datatype destination = DeviceDest string | FileDest string

definition source_path :: "source \<Rightarrow> string" where
  "source_path s = (case s of XzSource p \<Rightarrow> p | RawSource p \<Rightarrow> p)"

definition destination_path :: "destination \<Rightarrow> string" where
  "destination_path d = (case d of DeviceDest p \<Rightarrow> p | FileDest p \<Rightarrow> p)"

definition saturating_end :: "byte_range \<Rightarrow> u64" where
  "saturating_end area = saturating_add (br_offset area) (br_len area)"

fun gaps_from :: "mapped_range list \<Rightarrow> u64 \<Rightarrow> u64 \<Rightarrow> byte_range list" where
  "gaps_from [] area_end cursor =
     (if cursor < area_end then [\<lparr>br_offset = cursor, br_len = area_end - cursor\<rparr>] else [])"
| "gaps_from (r # rs) area_end cursor =
     (let start = br_offset (mr_bytes r); stop_at = start + br_len (mr_bytes r) in
      if area_end \<le> start then gaps_from [] area_end cursor
      else (if cursor < start then [\<lparr>br_offset = cursor, br_len = start - cursor\<rparr>] else [])
        @ gaps_from rs area_end (max cursor stop_at))"

definition unmapped :: "bmap \<Rightarrow> byte_range \<Rightarrow> byte_range list" where
  "unmapped b area = gaps_from (ranges b) (saturating_end area) (br_offset area)"

section \<open>Parsing\<close>

record xml_range =
  xr_chksum :: string
  xr_blocks :: string

record xml_bmap =
  xb_version :: string
  xb_image_size :: string
  xb_block_size :: string
  xb_blocks_count :: string
  xb_mapped_blocks_count :: string
  xb_checksum_type :: string
  xb_file_checksum :: string
  xb_ranges :: "xml_range list"

definition SUPPORTED_MAJOR_VERSION :: u64 where "SUPPORTED_MAJOR_VERSION = 2"
definition CHECKSUM_TYPE :: string where "CHECKSUM_TYPE = ''sha256''"
definition MAX_BMAP_LEN :: u64 where "MAX_BMAP_LEN = 1048576"

definition parse_number :: "string \<Rightarrow> string \<Rightarrow> string + u64" where
  "parse_number name text = (case parse_u64 (trim text) of
     Some n \<Rightarrow> Inr n
   | None \<Rightarrow> Inl (name @ '' '' @ apos @ trim text @ apos @ '': '' @ uint_error_text (2 ^ 64) (trim text)))"

definition checksum_from_hex :: "string \<Rightarrow> string + string" where
  "checksum_from_hex text = (case sha256_from_hex (trim text) of
     Some d \<Rightarrow> Inr d
   | None \<Rightarrow> Inl (''checksum '' @ apos @ trim text @ apos @ '' is not a sha256''))"

definition replace_first :: "string \<Rightarrow> string \<Rightarrow> string \<Rightarrow> string" where
  "replace_first p new s = (case split_once_str p s of
     None \<Rightarrow> s | Some (before, rest) \<Rightarrow> before @ new @ rest)"

definition check_file_checksum :: "(string \<Rightarrow> string) \<Rightarrow> string \<Rightarrow> string \<Rightarrow> string + unit" where
  "check_file_checksum sha256 text checksum = (let sum = trim checksum in
     case checksum_from_hex sum of Inl e \<Rightarrow> Inl e
     | Inr expected \<Rightarrow>
         if sha256 (replace_first sum (replicate (length sum) (CHR ''0'')) text) \<noteq> expected
         then Inl ''bmap file checksum does not match'' else Inr ())"

definition check_version :: "string \<Rightarrow> string + unit" where
  "check_version version =
     (if (case split_once (CHR ''.'') version of None \<Rightarrow> False
          | Some (maj, mnr) \<Rightarrow> parse_u64 maj = Some SUPPORTED_MAJOR_VERSION \<and> parse_u64 mnr \<noteq> None)
      then Inr () else Inl (''bmap version '' @ apos @ version @ apos @ '' is not supported''))"

definition block_span :: "string \<Rightarrow> string + (u64 \<times> u64)" where
  "block_span text = (let t = trim text;
       (lo, hi) = (case split_once (CHR ''-'') t of Some p \<Rightarrow> p | None \<Rightarrow> (t, t)) in
     case parse_number ''range start'' lo of Inl e \<Rightarrow> Inl e | Inr a \<Rightarrow>
     (case parse_number ''range end'' hi of Inl e \<Rightarrow> Inl e | Inr b \<Rightarrow>
      if b < a then Inl (''range '' @ apos @ t @ apos @ '' ends before it starts'') else Inr (a, b)))"

definition div_ceil :: "u64 \<Rightarrow> u64 \<Rightarrow> u64" where
  "div_ceil a b = (if a mod b > 0 then a div b + 1 else a div b)"

definition overflow_text :: string where "overflow_text = ''range does not fit a byte offset''"

record range_state =
  rs_mapped :: u64
  rs_next_free :: u64
  rs_ranges :: "mapped_range list"

definition add_range :: "u64 \<Rightarrow> u64 \<Rightarrow> u64 \<Rightarrow> xml_range \<Rightarrow> range_state \<Rightarrow> string + range_state" where
  "add_range block_size img_size blocks_count r st =
     (case block_span (xr_blocks r) of Inl e \<Rightarrow> Inl e | Inr (lo, hi) \<Rightarrow>
     (case checked_mul lo block_size of None \<Rightarrow> Inl overflow_text | Some offset \<Rightarrow>
     (case Option.bind (checked_add hi 1) (\<lambda>n. checked_mul n block_size) of None \<Rightarrow> Inl overflow_text | Some e \<Rightarrow>
     (let stop_at = min e img_size in
      if blocks_count \<le> hi then Inl (''range '' @ apos @ trim (xr_blocks r) @ apos @ '' ends behind the image end'')
      else if offset < rs_next_free st
        then Inl (''range '' @ apos @ trim (xr_blocks r) @ apos @ '' overlaps or is out of order'')
      else (case checked_add (rs_mapped st) (hi - lo + 1) of None \<Rightarrow> Inl overflow_text | Some mapped \<Rightarrow>
      (case checksum_from_hex (xr_chksum r) of Inl e \<Rightarrow> Inl e | Inr d \<Rightarrow>
        Inr \<lparr>rs_mapped = mapped, rs_next_free = stop_at,
             rs_ranges = rs_ranges st @ [\<lparr>mr_bytes = \<lparr>br_offset = offset, br_len = stop_at - offset\<rparr>, mr_sha256 = d\<rparr>]\<rparr>))))))"

fun add_ranges :: "u64 \<Rightarrow> u64 \<Rightarrow> u64 \<Rightarrow> xml_range list \<Rightarrow> range_state \<Rightarrow> string + range_state" where
  "add_ranges block_size img_size blocks_count [] st = Inr st"
| "add_ranges block_size img_size blocks_count (r # rs) st = (case add_range block_size img_size blocks_count r st of
     Inl e \<Rightarrow> Inl e | Inr st' \<Rightarrow> add_ranges block_size img_size blocks_count rs st')"

definition parse_bmap :: "(string \<Rightarrow> string + xml_bmap) \<Rightarrow> (string \<Rightarrow> string) \<Rightarrow> string \<Rightarrow> string + bmap" where
  "parse_bmap xml sha256 text =
     (case xml text of Inl e \<Rightarrow> Inl e | Inr x \<Rightarrow>
     (case check_version (xb_version x) of Inl e \<Rightarrow> Inl e | Inr _ \<Rightarrow>
     (if trim (xb_checksum_type x) \<noteq> CHECKSUM_TYPE
      then Inl (''checksum type '' @ apos @ trim (xb_checksum_type x) @ apos @ '' is not supported'')
      else (case check_file_checksum sha256 text (xb_file_checksum x) of Inl e \<Rightarrow> Inl e | Inr _ \<Rightarrow>
     (case parse_number ''ImageSize'' (xb_image_size x) of Inl e \<Rightarrow> Inl e | Inr img_size \<Rightarrow>
     (case parse_number ''BlockSize'' (xb_block_size x) of Inl e \<Rightarrow> Inl e | Inr block_size \<Rightarrow>
     (if block_size = 0 then Inl ''BlockSize is 0''
      else (case parse_number ''BlocksCount'' (xb_blocks_count x) of Inl e \<Rightarrow> Inl e | Inr blocks_count \<Rightarrow>
     (if blocks_count \<noteq> div_ceil img_size block_size
      then Inl (''BlocksCount '' @ show_word blocks_count @ '' does not match ImageSize '' @ show_word img_size)
      else (case add_ranges block_size img_size blocks_count (xb_ranges x) \<lparr>rs_mapped = 0, rs_next_free = 0, rs_ranges = []\<rparr> of
        Inl e \<Rightarrow> Inl e
      | Inr st \<Rightarrow>
        (if rs_ranges st = [] then Inl ''bmap maps no blocks''
         else (case parse_number ''MappedBlocksCount'' (xb_mapped_blocks_count x) of Inl e \<Rightarrow> Inl e | Inr mapped_count \<Rightarrow>
        (if rs_mapped st \<noteq> mapped_count
         then Inl (''MappedBlocksCount '' @ show_word mapped_count @ '' does not match the '' @ show_word (rs_mapped st)
           @ '' blocks of the ranges'')
         else Inr \<lparr>image_size = img_size, ranges = rs_ranges st\<rparr>)))))))))))))"

definition read_bmap :: "(string \<Rightarrow> string + xml_bmap) \<Rightarrow> (string \<Rightarrow> string) \<Rightarrow> 'w os \<Rightarrow> string \<Rightarrow>
    (('w, 'p) machine, bmap) flash" where
  "read_bmap xml sha256 os path = bindE (read_small_text os path MAX_BMAP_LEN (InvalidBmap path)) (\<lambda>text.
     case parse_bmap xml sha256 text of Inl why \<Rightarrow> failing (InvalidBmap path why) | Inr b \<Rightarrow> ret b)"

section \<open>Copying\<close>

definition input_read :: "'w os \<Rightarrow> source \<Rightarrow> u64 \<Rightarrow> (('w, 'p) machine, io_error, string) io" where
  "input_read os src n = (case src of XzSource p \<Rightarrow> sys_text os (ReadDecoded p n) | RawSource p \<Rightarrow> sys_text os (ReadSome p n))"

text \<open>The sink gets each chunk; the position is the one of the input, and a read longer than the buffer
  would panic.\<close>

type_synonym 's sink = "string \<Rightarrow> string \<Rightarrow> ('s, string stop, string) io"

lemma pass_left:
  assumes "0 < left" and "buf \<noteq> []" and "length buf \<le> unat (raw_chunk_len left COPY_BUFFER_SIZE)"
  shows "unat (left - of_nat (length buf)) < unat left"
    and "unat (left - of_nat (length buf)) = unat left - length buf"
proof -
  have "unat (raw_chunk_len left COPY_BUFFER_SIZE) \<le> unat left"
    by (simp add: raw_chunk_len_def min_def word_le_nat_alt)
  then have le: "length buf \<le> unat left" using assms(3) by linarith
  moreover have "unat left < 2 ^ LENGTH(64)" by (rule unsigned_less)
  ultimately have n: "unat (of_nat (length buf) :: u64) = length buf" by (simp add: unat_of_nat)
  then have "of_nat (length buf) \<le> left" using le by (simp add: word_le_nat_alt)
  then show eq: "unat (left - of_nat (length buf)) = unat left - length buf" by (simp add: unat_sub n)
  have "0 < length buf" using assms(2) by simp
  then show "unat (left - of_nat (length buf)) < unat left" using eq le by linarith
qed

function pass_through :: "'w os \<Rightarrow> source \<Rightarrow> ('w, 'p) machine sink \<Rightarrow> u64 \<Rightarrow> string \<Rightarrow> u64 \<Rightarrow>
    (('w, 'p) machine, string stop, string \<times> u64) io" where
  "pass_through os src sink left acc pos =
     (if 0 < left then
        bindE (or_fail read_error (input_read os src (raw_chunk_len left COPY_BUFFER_SIZE))) (\<lambda>buf.
        if buf = [] then failing (''source ended at byte '' @ show_word pos @ '', the image has more'')
        else if unat (raw_chunk_len left COPY_BUFFER_SIZE) < length buf then throw Panicked
        else bindE (sink buf acc) (\<lambda>acc'.
          pass_through os src sink (left - of_nat (length buf)) acc' (pos + of_nat (length buf))))
      else ret (acc, pos))"
  by pat_completeness auto

termination
  by (relation "measure (\<lambda>(os, src, sink, left, acc, pos). unat left)") (auto simp: not_less intro: pass_left(1))

declare pass_through.simps [simp del]

definition distance_to :: "u64 \<Rightarrow> u64 \<Rightarrow> string + u64" where
  "distance_to position tgt = (case checked_sub tgt position of
     Some d \<Rightarrow> Inr d
   | None \<Rightarrow> Inl (''cannot move back from byte '' @ show_word position @ '' to '' @ show_word tgt))"

definition skip_to :: "'w os \<Rightarrow> source \<Rightarrow> u64 \<Rightarrow> u64 \<Rightarrow> (('w, 'p) machine, string stop, u64) io" where
  "skip_to os src pos tgt = (case distance_to pos tgt of
     Inl e \<Rightarrow> failing e
   | Inr len \<Rightarrow> (case src of
       XzSource p \<Rightarrow> bindE (pass_through os src (\<lambda>_ acc. ret acc) len [] pos) (\<lambda>(_, pos'). ret pos')
     | RawSource p \<Rightarrow> bindE (or_fail (\<lambda>e. ''seeking source: '' @ show_io e) (sys_unit os (SeekRead p tgt))) (\<lambda>_. ret tgt)))"

definition write_sink :: "'w os \<Rightarrow> string \<Rightarrow> ('w, 'p) machine sink" where
  "write_sink os dst chunk acc =
     bindE (or_fail (\<lambda>e. ''writing destination: '' @ show_io e) (sys_unit os (WriteAll dst chunk))) (\<lambda>_. ret (acc @ chunk))"

definition copy_mapped :: "(string \<Rightarrow> string) \<Rightarrow> 'w os \<Rightarrow> source \<Rightarrow> string \<Rightarrow> mapped_range \<Rightarrow> u64 \<Rightarrow>
    (('w, 'p) machine, string stop, u64) io" where
  "copy_mapped sha256 os src dst r pos = (let offset = br_offset (mr_bytes r); len = br_len (mr_bytes r) in
     bindE (skip_to os src pos offset) (\<lambda>pos'.
     bindE (or_fail (\<lambda>e. ''seeking destination: '' @ show_io e) (sys_unit os (SeekWrite dst offset))) (\<lambda>_.
     bindE (pass_through os src (write_sink os dst) len [] pos') (\<lambda>(bytes, pos'').
     if sha256 bytes \<noteq> mr_sha256 r
     then failing (''checksum mismatch in bytes '' @ show_word offset @ ''..'' @ show_word (offset + len))
     else ret pos''))))"

definition copy_stream :: "(string \<Rightarrow> string) \<Rightarrow> 'w os \<Rightarrow> bmap \<Rightarrow> source \<Rightarrow> string \<Rightarrow>
    (('w, 'p) machine, string stop, unit) io" where
  "copy_stream sha256 os b src dst =
     bindE (fold_io (copy_mapped sha256 os src dst) (ranges b) 0) (\<lambda>pos.
     bindE (skip_to os src pos (image_size b)) (\<lambda>_.
     bindE (or_fail (\<lambda>e. ''reading source: '' @ show_io e) (input_read os src 1)) (\<lambda>extra.
     if extra \<noteq> [] then failing (''source is longer than the image of '' @ show_word (image_size b) @ '' bytes'')
     else ret ())))"

definition copy_bmap :: "(string \<Rightarrow> string) \<Rightarrow> 'w os \<Rightarrow> bmap \<Rightarrow> source \<Rightarrow> destination \<Rightarrow> (('w, 'p) machine, unit) flash" where
  "copy_bmap sha256 os b src dst =
     (let failed = CopyFailed (source_path src) (destination_path dst); out = destination_path dst;
          io = \<lambda>what. or_fail (\<lambda>e. failed (what @ '': '' @ show_io e)) in
      bindE (io ''opening source'' (sys_unit os (OpenRead (source_path src)))) (\<lambda>_.
      bindE (io ''opening destination'' (case dst of
          DeviceDest p \<Rightarrow> open_existing_for_write os p
        | FileDest p \<Rightarrow> bindE (sys_unit os (OpenTruncate p)) (\<lambda>_. sys_unit os (SetLen p (image_size b))))) (\<lambda>_.
      bindE (fail_with failed (copy_stream sha256 os b src out)) (\<lambda>_.
      io ''syncing destination'' (sys_unit os (SyncFile out))))))"

end
