(* ===== verification/Url_Flash.thy ===== *)
theory Url_Flash
  imports Net Unmount_Disk Efi Bmap Fsck_Run
begin

text \<open>
  \<open>src/mode/flash/url.rs\<close>: flash mode 3 downloads an img and its digest, checks the img and writes it
  over the running disk. The trait \<open>UrlOps\<close> is a record. The digest \<open>sha256\<close> and the texts of hex
  errors come from libraries, as does the size an xz file records (\<open>DecodedSize\<close>).
\<close>

definition CURL_CMD :: string where "CURL_CMD = ''/usr/bin/curl''"
definition CURL_FLAGS :: "string list" where
  "CURL_FLAGS = [''--fail'', ''--no-progress-meter'', ''--location'', ''--globoff'']"
definition CURL_REASON_LINES :: nat where "CURL_REASON_LINES = 3"
definition HTTPS_SCHEME :: string where "HTTPS_SCHEME = ''https://''"
definition DOWNLOAD_DIR :: string where "DOWNLOAD_DIR = ''/tmp/flash-mode-3''"
definition IMAGE_FILE_NAME :: string where "IMAGE_FILE_NAME = ''wic.xz''"
definition SHA256_FILE_NAME :: string where "SHA256_FILE_NAME = ''wic.xz.sha256''"
definition MAX_SHA256_FILE_LEN :: u64 where "MAX_SHA256_FILE_LEN = 4096"
definition MEMINFO_PATH :: string where "MEMINFO_PATH = ''/proc/meminfo''"
definition MEM_AVAILABLE_KEY :: string where "MEM_AVAILABLE_KEY = ''MemAvailable:''"
definition RAM_RESERVE :: u64 where "RAM_RESERVE = 134217728"

section \<open>Text\<close>

definition ascii_lower :: "char \<Rightarrow> char" where
  "ascii_lower c = (let n = (of_char c :: nat) in if 65 \<le> n \<and> n \<le> 90 then char_of (n + 32) else c)"

definition is_https :: "string \<Rightarrow> bool" where
  "is_https u \<longleftrightarrow> length HTTPS_SCHEME \<le> length u \<and> map ascii_lower (take (length HTTPS_SCHEME) u) = HTTPS_SCHEME"

definition curl_args :: "features \<Rightarrow> url \<Rightarrow> string \<Rightarrow> u64 \<Rightarrow> string list" where
  "curl_args ft u tgt max_len = CURL_FLAGS
     @ (if rtc ft then [] else [''--insecure''])
     @ (if is_https (unredacted u) then [''--proto-redir'', ''=https''] else [])
     @ [''--connect-timeout'', ''30'', ''--speed-limit'', ''1'', ''--speed-time'', ''60'',
        ''--max-filesize'', show_word max_len, ''--write-out'', ''%{url_effective}'',
        ''--output'', tgt, ''--url'', unredacted u]"

definition expected_sha256 :: "(string \<Rightarrow> string) \<Rightarrow> string \<Rightarrow> string + string" where
  "expected_sha256 hex_error t = (case split_ws t of
     [] \<Rightarrow> Inl ''the sha256 file is empty''
   | field # _ \<Rightarrow> (case sha256_from_hex field of
       Some d \<Rightarrow> Inr d
     | None \<Rightarrow> Inl (apos @ field @ apos @ '' is not a sha256 digest: '' @ hex_error field)))"

definition mem_line :: "string \<Rightarrow> u64 option" where
  "mem_line l = Option.bind (strip_prefix MEM_AVAILABLE_KEY l) (\<lambda>rest.
     Option.bind (strip_suffix ''kB'' (trim rest)) (\<lambda>kib.
     Option.bind (parse_u64 (trim kib)) (\<lambda>n. checked_mul n KIB)))"

fun find_map :: "('a \<Rightarrow> 'b option) \<Rightarrow> 'a list \<Rightarrow> 'b option" where
  "find_map f [] = None"
| "find_map f (x # xs) = (case f x of Some y \<Rightarrow> Some y | None \<Rightarrow> find_map f xs)"

definition mem_available :: "string \<Rightarrow> u64 option" where
  "mem_available meminfo = find_map mem_line (rust_lines meminfo)"

definition hex_encode :: "string \<Rightarrow> string" where
  "hex_encode d = concat (map (\<lambda>c. let n = (of_char c :: nat) in [hex_char (n div 16), hex_char (n mod 16)]) d)"

section \<open>Files\<close>

definition read_sha256_file :: "'w os \<Rightarrow> string \<Rightarrow> (('w, 'p) machine, string) flash" where
  "read_sha256_file os path = read_small_text os path MAX_SHA256_FILE_LEN
     (\<lambda>why. InvalidImage path (''the sha256 file is '' @ why))"

fun digest_loop :: "nat \<Rightarrow> 'w os \<Rightarrow> string \<Rightarrow> string \<Rightarrow> (('w, 'p) machine, string) flash" where
  "digest_loop 0 os path seen = throw Running"
| "digest_loop (Suc n) os path seen = bindE (or_fail (PathIo path) (sys_text os (ReadSome path COPY_BUFFER_SIZE)))
     (\<lambda>buf. if buf = [] then ret seen
       else if unat COPY_BUFFER_SIZE < length buf then throw Panicked
       else digest_loop n os path (seen @ buf))"

definition sha256_of :: "nat \<Rightarrow> (string \<Rightarrow> string) \<Rightarrow> 'w os \<Rightarrow> string \<Rightarrow> (('w, 'p) machine, string) flash" where
  "sha256_of fuel sha256 os path = bindE (or_fail (PathIo path) (sys_unit os (OpenRead path))) (\<lambda>_.
     bindE (digest_loop fuel os path []) (\<lambda>bytes. ret (sha256 bytes)))"

text \<open>Every decoded chunk is counted before it is written.\<close>

definition count_chunk :: "u64 \<Rightarrow> u64 \<Rightarrow> string \<Rightarrow> u64 option" where
  "count_chunk limit written buf = (case checked_add written (of_nat (length buf)) of
     Some sum_len \<Rightarrow> if sum_len \<le> limit then Some sum_len else None | None \<Rightarrow> None)"

lemma count_chunk_more:
  assumes "count_chunk limit written buf = Some sum_len" and "buf \<noteq> []" and "length buf \<le> unat COPY_BUFFER_SIZE"
  shows "unat sum_len = unat written + length buf" and "sum_len \<le> limit" and "unat limit - unat sum_len < unat limit - unat written"
proof -
  have "length buf < 2 ^ LENGTH(64)" using assms(3) by (simp add: COPY_BUFFER_SIZE_def)
  then have n: "unat (of_nat (length buf) :: u64) = length buf" by (simp add: unat_of_nat)
  then show t: "unat sum_len = unat written + length buf" and le: "sum_len \<le> limit"
    using assms(1) by (auto simp: count_chunk_def checked_add_def unat_word_ariths split: if_splits)
  have "0 < length buf" using assms(2) by simp
  moreover have "unat sum_len \<le> unat limit" using le by (simp add: word_le_nat_alt)
  ultimately show "unat limit - unat sum_len < unat limit - unat written" using t by linarith
qed

function decode_into :: "'w os \<Rightarrow> string \<Rightarrow> string \<Rightarrow> u64 \<Rightarrow> u64 \<Rightarrow> (('w, 'p) machine, string stop, unit) io" where
  "decode_into os img disk limit written =
     bindE (or_fail read_error (sys_text os (ReadDecoded img COPY_BUFFER_SIZE))) (\<lambda>buf.
       if buf = [] then
         (if written \<noteq> limit then failing (''the image decodes to '' @ show_word written @ '' bytes, its index records ''
            @ show_word limit) else ret ())
       else if unat COPY_BUFFER_SIZE < length buf then throw Panicked
       else if count_chunk limit written buf = None
       then failing (''the image decodes to more than the '' @ show_word limit @ '' bytes its index records'')
       else bindE (or_fail (\<lambda>e. ''writing destination: '' @ show_io e) (sys_unit os (WriteAll disk buf))) (\<lambda>_.
         decode_into os img disk limit (the (count_chunk limit written buf))))"
  by pat_completeness auto

termination
  by (relation "measure (\<lambda>(os, img, disk, limit, written). unat limit - unat written)")
     (auto simp: not_less intro: count_chunk_more(3))

declare decode_into.simps [simp del]

definition write_image :: "'w os \<Rightarrow> string \<Rightarrow> string \<Rightarrow> u64 \<Rightarrow> (('w, 'p) machine, unit) flash" where
  "write_image os img disk limit = (let failed = CopyFailed img disk in
     bindE (or_fail (\<lambda>e. failed (''opening source: '' @ show_io e)) (sys_unit os (OpenRead img))) (\<lambda>_.
     bindE (or_fail (\<lambda>e. failed (''opening destination: '' @ show_io e)) (open_existing_for_write os disk)) (\<lambda>_.
     fail_with (\<lambda>why. partly_written disk (failed why))
       (bindE (decode_into os img disk limit 0) (\<lambda>_.
        or_fail (\<lambda>e. ''syncing destination: '' @ show_io e) (sys_unit os (SyncFile disk)))))))"

definition download :: "features \<Rightarrow> 'w os \<Rightarrow> url \<Rightarrow> string \<Rightarrow> u64 \<Rightarrow> (('w, 'p) machine, unit) flash" where
  "download ft os u tgt max_len = (let failed = DownloadFailed u in
     bindE (case parent tgt of Some d \<Rightarrow> or_fail (PathIo d) (sys_unit os (MakeDirs d)) | None \<Rightarrow> ret ()) (\<lambda>_.
     bindE (or_fail (\<lambda>e. failed (''failed to run '' @ CURL_CMD @ '': '' @ show_io e))
       (sys_run os (child_call CURL_CMD (curl_args ft u tgt max_len)))) (\<lambda>out.
     if \<not> success out then failing (failed (CURL_CMD @ '' failed ('' @ display_status out @ ''): ''
       @ output_tail (stderr out) CURL_REASON_LINES))
     else ret ())))"

definition available_ram :: "'w os \<Rightarrow> (('w, 'p) machine, u64) flash" where
  "available_ram os = bindE (or_fail (PathIo MEMINFO_PATH) (sys_text os (ReadText MEMINFO_PATH))) (\<lambda>meminfo.
     case mem_available meminfo of
       Some n \<Rightarrow> ret n
     | None \<Rightarrow> failing (PathIo MEMINFO_PATH (IoError OtherKind (''no '' @ MEM_AVAILABLE_KEY @ '' line''))))"

definition image_size_of :: "'w os \<Rightarrow> string \<Rightarrow> (('w, 'p) machine, u64) flash" where
  "image_size_of os img =
     bindE (or_fail (\<lambda>e. InvalidImage img (''opening: '' @ show_io e)) (sys_unit os (OpenRead img))) (\<lambda>_.
     or_fail (\<lambda>e. InvalidImage img (''not a valid xz file: '' @ show_io e)) (sys_num os (DecodedSize img)))"

section \<open>The sequence\<close>

record 's url_ops =
  uo_unmount :: "string \<Rightarrow> string \<Rightarrow> ('s, unit) flash"
  uo_bring_up_network :: "ipv4_need \<Rightarrow> ('s, unit) flash"
  uo_download :: "url \<Rightarrow> string \<Rightarrow> u64 \<Rightarrow> ('s, unit) flash"
  uo_available_ram :: "('s, u64) flash"
  uo_read_sha256_file :: "string \<Rightarrow> ('s, string) flash"
  uo_sha256_of :: "string \<Rightarrow> ('s, string) flash"
  uo_image_size :: "string \<Rightarrow> ('s, u64) flash"
  uo_device_len :: "string \<Rightarrow> ('s, u64) flash"
  uo_write_image :: "string \<Rightarrow> string \<Rightarrow> u64 \<Rightarrow> ('s, unit) flash"
  uo_reread_table :: "string \<Rightarrow> ('s, unit) flash"
  uo_efi :: "'s efi_ops"
  uo_sync :: "('s, unit) flash"

definition real_url_ops :: "nat \<Rightarrow> features \<Rightarrow> (string \<Rightarrow> string) \<Rightarrow> devnum_codec \<Rightarrow> 'w os \<Rightarrow> ('w, 'p) machine url_ops" where
  "real_url_ops fuel ft sha256 dn os =
     \<lparr>uo_unmount = unmount_target_disk os dn,
      uo_bring_up_network = (\<lambda>need. bindE (bring_up os need) (\<lambda>_. ret ())),
      uo_download = download ft os,
      uo_available_ram = available_ram os,
      uo_read_sha256_file = read_sha256_file os,
      uo_sha256_of = sha256_of fuel sha256 os,
      uo_image_size = image_size_of os,
      uo_device_len = device_len os,
      uo_write_image = write_image os,
      uo_reread_table = reread_partition_table os,
      uo_efi = real_efi_ops os,
      uo_sync = sync_filesystems os\<rparr>"

definition boot_for_efi :: "features \<Rightarrow> partition_layout \<Rightarrow> flash_error stop + string" where
  "boot_for_efi ft l = (case bootloader ft of
     UBoot \<Rightarrow> Inr []
   | Grub \<Rightarrow> (case layout_partition l Boot of Inl e \<Rightarrow> Inl (Failed e) | Inr p \<Rightarrow> Inr p))"

definition max_image_len :: "u64 \<Rightarrow> u64 option" where
  "max_image_len available_bytes = (case checked_sub available_bytes RAM_RESERVE of
     Some n \<Rightarrow> if 0 < n then Some n else None | None \<Rightarrow> None)"

definition download_image :: "'s url_ops \<Rightarrow> url \<Rightarrow> string \<Rightarrow> ('s, unit) flash" where
  "download_image ops image_url img = bindE (uo_available_ram ops) (\<lambda>avail. case max_image_len avail of
     None \<Rightarrow> failing (DownloadFailed image_url (show_word avail @ '' bytes of RAM are free, '' @ show_word RAM_RESERVE
       @ '' must stay free''))
   | Some n \<Rightarrow> uo_download ops image_url img n)"

definition check_image :: "'s url_ops \<Rightarrow> string \<Rightarrow> string \<Rightarrow> string \<Rightarrow> ('s, u64) flash" where
  "check_image ops disk img expected =
     bindE (uo_sha256_of ops img) (\<lambda>actual.
     if actual \<noteq> expected then failing (InvalidImage img (''its sha256 is '' @ hex_encode actual
       @ '', the first digest in the sha256 file is '' @ hex_encode expected))
     else bindE (uo_image_size ops img) (\<lambda>n.
     if n = 0 then failing (InvalidImage img ''the image is empty'')
     else bindE (uo_device_len ops disk) (\<lambda>disk_len.
     if disk_len < n then failing (InvalidDestination disk (''the image needs '' @ show_word n @ '' bytes, the device has ''
       @ show_word disk_len))
     else ret n)))"

definition new_table :: "features \<Rightarrow> ('s, unit) flash \<Rightarrow> 's efi_ops \<Rightarrow> string \<Rightarrow> string \<Rightarrow> ('s, unit) flash" where
  "new_table ft reread efi disk boot = bindE (fail_with (StalePartitionTable disk) reread) (\<lambda>_.
     case bootloader ft of Grub \<Rightarrow> handle_efi efi disk boot | UBoot \<Rightarrow> ret ())"

definition url_with :: "features \<Rightarrow> (string \<Rightarrow> string) \<Rightarrow> 's url_ops \<Rightarrow> partition_layout \<Rightarrow> string \<Rightarrow> url \<Rightarrow> url \<Rightarrow>
    ('s, unit) flash" where
  "url_with ft hex_error ops l rootfs image_url sha256_url =
     (let disk = base (root_dev l); img = path_join DOWNLOAD_DIR IMAGE_FILE_NAME;
          sha256_file = path_join DOWNLOAD_DIR SHA256_FILE_NAME in
      bindE (lift_res (boot_for_efi ft l)) (\<lambda>boot.
      bindE (uo_unmount ops rootfs disk) (\<lambda>_.
      bindE (uo_bring_up_network ops Lease) (\<lambda>_.
      bindE (uo_download ops sha256_url sha256_file MAX_SHA256_FILE_LEN) (\<lambda>_.
      bindE (uo_read_sha256_file ops sha256_file) (\<lambda>t.
      bindE (lift_res (case expected_sha256 hex_error t of
          Inl why \<Rightarrow> Inl (Failed (InvalidImage sha256_file why)) | Inr d \<Rightarrow> Inr d)) (\<lambda>expected.
      bindE (download_image ops image_url img) (\<lambda>_.
      bindE (check_image ops disk img expected) (\<lambda>n.
      bindE (uo_write_image ops img disk n) (\<lambda>_.
      bindE (new_table ft (uo_reread_table ops disk) (uo_efi ops) disk boot) (\<lambda>_.
      uo_sync ops)))))))))))"

definition run_url :: "nat \<Rightarrow> features \<Rightarrow> (string \<Rightarrow> string) \<Rightarrow> (string \<Rightarrow> string) \<Rightarrow> devnum_codec \<Rightarrow> 'w os \<Rightarrow>
    partition_layout \<Rightarrow> string \<Rightarrow> url \<Rightarrow> url \<Rightarrow> (('w, 'p) machine, unit) flash" where
  "run_url fuel ft sha256 hex_error dn os l rootfs image_url sha256_url =
     url_with ft hex_error (real_url_ops fuel ft sha256 dn os) l rootfs image_url sha256_url"

end
