(* ===== verification/Scp.thy ===== *)
theory Scp
  imports Url_Flash
begin

text \<open>
  \<open>src/mode/flash/scp.rs\<close>: flash mode 2 takes an image the operator pushes in over \<open>scp\<close>. The trait
  \<open>ScpOps\<close> is a record; a message to the operator is a log line. The wait for the bmap and the
  repetition of a failed attempt have no bound in the code; their fuel counts the turns.
\<close>

definition OMNECT_HOME :: string where "OMNECT_HOME = ''/home/omnect''"
definition OMNECT_USER :: string where "OMNECT_USER = ''omnect''"
definition WIC_FIFO_NAME :: string where "WIC_FIFO_NAME = ''wic.xz''"
definition WIC_BMAP_NAME :: string where "WIC_BMAP_NAME = ''wic.bmap''"
definition WIC_DECODED_NAME :: string where "WIC_DECODED_NAME = ''wic''"
definition BMAP_POLL_INTERVAL_MS :: nat where "BMAP_POLL_INTERVAL_MS = 1000"
definition BMAP_CLOSING_TAG :: string where "BMAP_CLOSING_TAG = ''</bmap>''"
definition BMAP_TAIL_LEN :: u64 where "BMAP_TAIL_LEN = 64"
definition FIFO_MODE :: u32 where "FIFO_MODE = 0x180"

record scp_build =
  sb_boot_start :: "u64 option"
  sb_boot_size :: "u64 option"
  sb_omnect_user_id :: "u64 option"

record scp_constants =
  sc_head_bytes :: u64
  sc_omnect_user_id :: u32

definition head_kib :: "u64 option \<Rightarrow> u64 option \<Rightarrow> flash_error + u64" where
  "head_kib boot_start boot_size =
     (case boot_start of None \<Rightarrow> Inl (MissingBuildConstant BootStart) | Some start \<Rightarrow>
     (case boot_size of None \<Rightarrow> Inl (MissingBuildConstant BootSize) | Some sz \<Rightarrow>
     (case checked_add start sz of
       Some n \<Rightarrow> Inr n
     | None \<Rightarrow> Inl (InvalidBuildConstant BootSize (show_word start @ '' KB + '' @ show_word sz
         @ '' KB does not fit a KB count'')))))"

definition scp_constants_of :: "scp_build \<Rightarrow> flash_error + scp_constants" where
  "scp_constants_of raw =
     (case head_kib (sb_boot_start raw) (sb_boot_size raw) of Inl e \<Rightarrow> Inl e | Inr kib \<Rightarrow>
     (case kb_to_bytes kib BootSize of Inl e \<Rightarrow> Inl e | Inr head_bytes \<Rightarrow>
     (case sb_omnect_user_id raw of None \<Rightarrow> Inl (MissingBuildConstant OmnectUserId) | Some i \<Rightarrow>
     (if unat i < 2 ^ 32 then Inr \<lparr>sc_head_bytes = head_bytes, sc_omnect_user_id = ucast i\<rparr>
      else Inl (InvalidBuildConstant OmnectUserId (show_word i @ '' does not fit a user id''))))))"

definition bmap_instruction :: "u32 \<Rightarrow> string" where
  "bmap_instruction ip = ''please run: scp -O <bmap-file> '' @ OMNECT_USER @ ''@'' @ show_ipv4 ip @ '':'' @ WIC_BMAP_NAME"

definition image_instruction :: "u32 \<Rightarrow> string" where
  "image_instruction ip = ''please run: scp -O <wic-image> '' @ OMNECT_USER @ ''@'' @ show_ipv4 ip @ '':'' @ WIC_FIFO_NAME"

section \<open>Files\<close>

definition create_owned_fifo :: "'w os \<Rightarrow> string \<Rightarrow> u32 \<Rightarrow> u32 \<Rightarrow> (('w, 'p) machine, unit) flash" where
  "create_owned_fifo os path uid gid = or_fail (PathIo path)
     (bindE (sys_unit os (MakeFifo path FIFO_MODE)) (\<lambda>_. sys_unit os (Chown path uid gid)))"

definition remove_file :: "'w os \<Rightarrow> string \<Rightarrow> (('w, 'p) machine, 'e, unit) io" where
  "remove_file os path = ignore (sys_unit os (RemoveFile path))"

definition remove_fifo :: "'w os \<Rightarrow> string \<Rightarrow> (('w, 'p) machine, 'e, unit) io" where
  "remove_fifo os path = bindE (ignore (sys_unit os (OpenNonblock path))) (\<lambda>_. remove_file os path)"

definition trim_ascii_end :: "string \<Rightarrow> string" where
  "trim_ascii_end t = rev (dropWhile is_ascii_ws (rev t))"

definition saturating_sub :: "u64 \<Rightarrow> u64 \<Rightarrow> u64" where
  "saturating_sub a b = (if b \<le> a then a - b else 0)"

definition read_tail :: "'w os \<Rightarrow> string \<Rightarrow> (('w, 'p) machine, io_error, string) io" where
  "read_tail os path = bindE (sys_unit os (OpenRead path)) (\<lambda>_.
     bindE (sys_stat os (Stat path)) (\<lambda>meta.
     bindE (sys_unit os (SeekRead path (saturating_sub (st_len meta) BMAP_TAIL_LEN))) (\<lambda>_.
     sys_text os (ReadToEnd path))))"

definition bmap_is_complete :: "'w os \<Rightarrow> string \<Rightarrow> (('w, 'p) machine, 'e, bool) io" where
  "bmap_is_complete os path = bindE (sys_bool os (IsFile path)) (\<lambda>f.
     if \<not> f then ret False
     else caught (read_tail os path) (\<lambda>r. case r of
         Inl _ \<Rightarrow> ret False
       | Inr tail \<Rightarrow> ret (ends_with BMAP_CLOSING_TAG (trim_ascii_end tail))))"

text \<open>The size of the file is only read to warn the operator.\<close>

fun wait_for_bmap :: "nat \<Rightarrow> 'w os \<Rightarrow> string \<Rightarrow> nat \<Rightarrow> (('w, 'p) machine, unit) flash" where
  "wait_for_bmap 0 os path interval = throw Running"
| "wait_for_bmap (Suc n) os path interval = bindE (bmap_is_complete os path) (\<lambda>complete.
     if complete then ret ()
     else bindE (ignore (sys_stat os (Stat path))) (\<lambda>_.
       bindE (sys_sleep os interval) (\<lambda>_. wait_for_bmap n os path interval)))"

section \<open>The sequence\<close>

record 's scp_ops =
  so_unmount :: "string \<Rightarrow> string \<Rightarrow> ('s, unit) flash"
  so_bring_up_network :: "('s, u32) flash"
  so_start_dropbear :: "('s, unit) flash"
  so_create_fifo :: "string \<Rightarrow> u32 \<Rightarrow> ('s, unit) flash"
  so_tell_operator :: "string \<Rightarrow> ('s, unit) flash"
  so_wait_for_bmap :: "string \<Rightarrow> ('s, unit) flash"
  so_read_bmap :: "string \<Rightarrow> ('s, bmap) flash"
  so_device_len :: "string \<Rightarrow> ('s, u64) flash"
  so_bmap_copy :: "bmap \<Rightarrow> source \<Rightarrow> destination \<Rightarrow> ('s, unit) flash"
  so_zero_range :: "string \<Rightarrow> byte_range \<Rightarrow> ('s, unit) flash"
  so_remove :: "string \<Rightarrow> ('s, unit) flash"
  so_remove_fifo :: "string \<Rightarrow> ('s, unit) flash"
  so_reread_table :: "string \<Rightarrow> ('s, unit) flash"
  so_efi :: "'s efi_ops"
  so_sync :: "('s, unit) flash"

definition real_scp_ops :: "nat \<Rightarrow> (string \<Rightarrow> string + xml_bmap) \<Rightarrow> (string \<Rightarrow> string) \<Rightarrow> devnum_codec \<Rightarrow> 'w os \<Rightarrow>
    ('w, 'p) machine scp_ops" where
  "real_scp_ops fuel xml sha256 dn os =
     \<lparr>so_unmount = unmount_target_disk os dn,
      so_bring_up_network = bring_up os AnyAddress,
      so_start_dropbear = start_dropbear os,
      so_create_fifo = (\<lambda>path owner. create_owned_fifo os path owner owner),
      so_tell_operator = (\<lambda>_. ret ()),
      so_wait_for_bmap = (\<lambda>path. wait_for_bmap fuel os path BMAP_POLL_INTERVAL_MS),
      so_read_bmap = read_bmap xml sha256 os,
      so_device_len = device_len os,
      so_bmap_copy = copy_bmap sha256 os,
      so_zero_range = zero_range os,
      so_remove = remove_file os,
      so_remove_fifo = remove_fifo os,
      so_reread_table = reread_partition_table os,
      so_efi = real_efi_ops os,
      so_sync = sync_filesystems os\<rparr>"

record upload =
  up_fifo :: string
  up_bmap :: string
  up_decoded :: string

definition upload_in_home :: upload where
  "upload_in_home = \<lparr>up_fifo = path_join OMNECT_HOME WIC_FIFO_NAME, up_bmap = path_join OMNECT_HOME WIC_BMAP_NAME,
     up_decoded = path_join OMNECT_HOME WIC_DECODED_NAME\<rparr>"

text \<open>The pass that checks the whole upload before the disk is touched; without it the upload is flashed
  as it comes in.\<close>

definition verified_source :: "features \<Rightarrow> 's scp_ops \<Rightarrow> upload \<Rightarrow> bmap \<Rightarrow> ('s, source) flash" where
  "verified_source ft ops up bm =
     (if flash_mode_2_direct ft then ret (XzSource (up_fifo up))
      else bindE (so_bmap_copy ops bm (XzSource (up_fifo up)) (FileDest (up_decoded up)))
        (\<lambda>_. ret (RawSource (up_decoded up))))"

definition flash_once :: "features \<Rightarrow> 's scp_ops \<Rightarrow> upload \<Rightarrow> string \<Rightarrow> byte_range \<Rightarrow> u32 \<Rightarrow> ('s, unit) flash" where
  "flash_once ft ops up disk head ip =
     bindE (so_tell_operator ops (bmap_instruction ip)) (\<lambda>_.
     bindE (so_wait_for_bmap ops (up_bmap up)) (\<lambda>_.
     bindE (so_read_bmap ops (up_bmap up)) (\<lambda>bm.
     bindE (so_device_len ops disk) (\<lambda>disk_len.
     if disk_len < image_size bm
     then failing (InvalidDestination disk (''the image needs '' @ show_word (image_size bm) @ '' bytes, the device has ''
       @ show_word disk_len))
     else bindE (so_tell_operator ops (image_instruction ip)) (\<lambda>_.
     bindE (verified_source ft ops up bm) (\<lambda>src.
     bindE (fail_with (partly_written disk) (so_bmap_copy ops bm src (DeviceDest disk))) (\<lambda>_.
     for_each (unmapped bm head) (\<lambda>area. fail_with (partly_written disk) (so_zero_range ops disk area)))))))))"

definition clear_upload :: "features \<Rightarrow> 's scp_ops \<Rightarrow> upload \<Rightarrow> ('s, unit) flash" where
  "clear_upload ft ops up =
     bindE (so_tell_operator ops ''flash failed, asking for the bmap and the image again'') (\<lambda>_.
     bindE (so_remove ops (up_bmap up)) (\<lambda>_.
     bindE (if flash_mode_2_direct ft then ret () else so_remove ops (up_decoded up)) (\<lambda>_.
     so_remove_fifo ops (up_fifo up))))"

definition is_partly_written :: "flash_error \<Rightarrow> bool" where
  "is_partly_written e = (case e of DiskPartlyWritten _ _ \<Rightarrow> True | _ \<Rightarrow> False)"

fun flash_until_done :: "nat \<Rightarrow> features \<Rightarrow> 's scp_ops \<Rightarrow> upload \<Rightarrow> u32 \<Rightarrow> string \<Rightarrow> byte_range \<Rightarrow> u32 \<Rightarrow> bool \<Rightarrow>
    ('s, unit) flash" where
  "flash_until_done 0 ft ops up owner disk head ip disk_written = throw Running"
| "flash_until_done (Suc n) ft ops up owner disk head ip disk_written =
     attempt (flash_once ft ops up disk head ip) (\<lambda>r. case r of
       Inr _ \<Rightarrow> ret ()
     | Inl e \<Rightarrow> (let disk_written' = (disk_written \<or> is_partly_written e) in
         bindE (clear_upload ft ops up) (\<lambda>_.
         attempt (so_create_fifo ops (up_fifo up) owner) (\<lambda>c. case c of
           Inl e' \<Rightarrow> failing (if disk_written' then partly_written disk e' else e')
         | Inr _ \<Rightarrow> flash_until_done n ft ops up owner disk head ip disk_written'))))"

definition scp_with :: "nat \<Rightarrow> features \<Rightarrow> scp_build \<Rightarrow> 's scp_ops \<Rightarrow> partition_layout \<Rightarrow> string \<Rightarrow> ('s, unit) flash" where
  "scp_with fuel ft raw ops l rootfs = (case scp_constants_of raw of Inl e \<Rightarrow> failing e | Inr constants \<Rightarrow>
     (let disk = base (root_dev l); up = upload_in_home; owner = sc_omnect_user_id constants;
          head = \<lparr>br_offset = 0, br_len = sc_head_bytes constants\<rparr> in
      bindE (lift_res (boot_for_efi ft l)) (\<lambda>boot.
      bindE (so_unmount ops rootfs disk) (\<lambda>_.
      bindE (so_bring_up_network ops) (\<lambda>ip.
      bindE (so_create_fifo ops (up_fifo up) owner) (\<lambda>_.
      bindE (so_start_dropbear ops) (\<lambda>_.
      bindE (flash_until_done fuel ft ops up owner disk head ip False) (\<lambda>_.
      bindE (new_table ft (so_reread_table ops disk) (so_efi ops) disk boot) (\<lambda>_.
      so_sync ops)))))))))"

definition run_scp :: "nat \<Rightarrow> features \<Rightarrow> (string \<Rightarrow> string + xml_bmap) \<Rightarrow> (string \<Rightarrow> string) \<Rightarrow> devnum_codec \<Rightarrow> 'w os \<Rightarrow>
    scp_build \<Rightarrow> partition_layout \<Rightarrow> string \<Rightarrow> (('w, 'p) machine, unit) flash" where
  "run_scp fuel ft xml sha256 dn os raw l rootfs =
     scp_with fuel ft raw (real_scp_ops fuel xml sha256 dn os) l rootfs"

end
