(* ===== verification/Fs_Link.thy ===== *)
theory Fs_Link
  imports Layout "HOL-Library.Char_ord" "HOL-Library.List_Lexorder"
begin

text \<open>
  \<open>src/runtime/fs_link.rs\<close>: symbolic links from configuration files. The deserialisation of a
  configuration file is derived code over a JSON library; it is the parameter \<open>links_of\<close>, from the
  text of a file to its entries or an error text.
\<close>

definition FS_LINK_CONFIG_PATH :: string where "FS_LINK_CONFIG_PATH = ''etc/omnect/fs-link.json''"
definition FS_LINK_CONFIG_PATH_D :: string where "FS_LINK_CONFIG_PATH_D = ''etc/omnect/fs-link.d''"
definition FS_LINK_LIST_PATH :: string where "FS_LINK_LIST_PATH = ''etc/omnect/create-fs-links.txt''"

record link_entry =
  link_target :: string
  link_path :: string

type_synonym links_parser = "string \<Rightarrow> string + link_entry list"

definition io_other :: "string \<Rightarrow> initramfs_error" where
  "io_other t = Io (IoError OtherKind t)"

definition trim_slashes :: "string \<Rightarrow> string" where
  "trim_slashes p = dropWhile (\<lambda>c. c = slash) p"

definition parse_link_line :: "string \<Rightarrow> initramfs_error + link_entry" where
  "parse_link_line line = (case split_ws line of
     t # l # _ \<Rightarrow> Inr \<lparr>link_target = t, link_path = trim_slashes l\<rparr>
   | _ \<Rightarrow> Inl (Io (IoError InvalidData (FS_LINK_LIST_PATH @ '': expected ''
       @ [CHR 0x22] @ ''<target> <link>'' @ [CHR 0x22] @ '', got '' @ [CHR 0x22] @ line @ [CHR 0x22]))))"

definition parse_link_list :: "string \<Rightarrow> initramfs_error + link_entry list" where
  "parse_link_list content = result_all (map parse_link_line
     (filter (\<lambda>line. line \<noteq> [] \<and> \<not> starts_with ''#'' line) (map trim (rust_lines content))))"

definition validate_relative_path :: "string \<Rightarrow> initramfs_error + unit" where
  "validate_relative_path path =
     (if is_absolute path then Inl (io_other (''fs-link path must be relative, got absolute path: '' @ path))
      else if ParentDir \<in> set (components path)
      then Inl (io_other (''fs-link path must not contain '' @ apos @ ''..'' @ apos @ '': '' @ path))
      else Inr ())"

definition replace_existing :: "'w os \<Rightarrow> string \<Rightarrow> (('w, 'p) machine, initramfs_error, unit) io" where
  "replace_existing os lnk =
     bindE (sys_bool os (IsSymlink lnk)) (\<lambda>is_link.
     bindE (if is_link then ret False else sys_bool os (IsDir lnk)) (\<lambda>plain_dir.
     if plain_dir then throw (io_other (''Cannot replace directory with symlink: '' @ lnk))
     else map_err (\<lambda>e. io_other (''Failed to remove existing file '' @ lnk @ '': '' @ show_io e))
            (sys_unit os (RemoveFile lnk))))"

definition create_link :: "'w os \<Rightarrow> string \<Rightarrow> link_entry \<Rightarrow> (('w, 'p) machine, initramfs_error, unit) io" where
  "create_link os rootfs_dir entry =
     bindE (lift_res (validate_relative_path (link_path entry))) (\<lambda>_.
     (let lnk = path_join rootfs_dir (link_path entry) in
      bindE (case parent lnk of
          None \<Rightarrow> ret ()
        | Some d \<Rightarrow> bindE (sys_bool os (Exists d)) (\<lambda>there.
            if there then ret () else map_err Io (sys_unit os (MakeDirs d)))) (\<lambda>_.
      bindE (or_else (sys_bool os (Exists lnk)) (sys_bool os (IsSymlink lnk))) (\<lambda>present.
      bindE (if present then replace_existing os lnk else ret ()) (\<lambda>_.
      map_err (\<lambda>e. io_other (''Failed to create symlink '' @ lnk @ '' -> '' @ link_target entry @ '': '' @ show_io e))
        (sys_unit os (MakeSymlink (link_target entry) lnk)))))))"

definition load_config_file :: "'w os \<Rightarrow> links_parser \<Rightarrow> string \<Rightarrow>
    (('w, 'p) machine, initramfs_error, link_entry list) io" where
  "load_config_file os links_of path =
     bindE (map_err Io (sys_text os (ReadText path))) (\<lambda>content. case links_of content of
       Inr links \<Rightarrow> ret links
     | Inl e \<Rightarrow> throw (Io (IoError InvalidData (''Failed to parse fs-link config '' @ path @ '': '' @ e))))"

text \<open>The readable entries with the extension \<open>json\<close>, in the order of their paths.\<close>

definition drop_in_files :: "string \<Rightarrow> (io_error + string) list \<Rightarrow> string list" where
  "drop_in_files dir entries = map (path_join dir) (sort
     [n. Inr n \<leftarrow> entries, path_extension (path_join dir n) = Some ''json''])"

definition load_fs_link_config :: "'w os \<Rightarrow> links_parser \<Rightarrow> string \<Rightarrow>
    (('w, 'p) machine, initramfs_error, link_entry list) io" where
  "load_fs_link_config os links_of rootfs_dir =
     (let main_config = path_join rootfs_dir FS_LINK_CONFIG_PATH;
          config_d = path_join rootfs_dir FS_LINK_CONFIG_PATH_D
      in bindE (sys_bool os (Exists main_config)) (\<lambda>there.
         bindE (if there then load_config_file os links_of main_config else ret []) (\<lambda>links.
         bindE (sys_bool os (IsDir config_d)) (\<lambda>is_dir.
         if \<not> is_dir then ret links
         else bindE (map_err Io (sys_entries os (ReadDir config_d))) (\<lambda>entries.
           fold_io (\<lambda>path acc. bindE (load_config_file os links_of path) (\<lambda>more. ret (acc @ more)))
             (drop_in_files config_d entries) links)))))"

definition create_links_from_list :: "'w os \<Rightarrow> string \<Rightarrow> (('w, 'p) machine, initramfs_error, unit) io" where
  "create_links_from_list os rootfs_dir = (let list_path = path_join rootfs_dir FS_LINK_LIST_PATH in
     bindE (sys_bool os (Exists list_path)) (\<lambda>there.
     if \<not> there then ret ()
     else bindE (map_err Io (sys_text os (ReadText list_path))) (\<lambda>content.
       bindE (lift_res (parse_link_list content)) (\<lambda>entries.
       bindE (for_each entries (create_link os rootfs_dir)) (\<lambda>_.
       map_err Io (sys_unit os (RemoveFile list_path)))))))"

definition create_fs_links :: "'w os \<Rightarrow> links_parser \<Rightarrow> string \<Rightarrow> (('w, 'p) machine, initramfs_error, unit) io" where
  "create_fs_links os links_of rootfs_dir =
     bindE (load_fs_link_config os links_of rootfs_dir) (\<lambda>links.
     bindE (for_each links (create_link os rootfs_dir)) (\<lambda>_.
     create_links_from_list os rootfs_dir))"

section \<open>Links stay inside the root file system\<close>

text \<open>
  The calls the links may take: looking, and changes at a path that starts with the root file system and has no
  parent component after it, or, for a missing directory, at the directory that holds such a path.
\<close>

definition links_inside :: "string \<Rightarrow> call \<Rightarrow> bool" where
  "links_inside rootfs_dir c \<longleftrightarrow> (case c of
     MakeSymlink _ lnk \<Rightarrow> confined rootfs_dir lnk
   | RemoveFile p \<Rightarrow> confined rootfs_dir p
   | MakeDirs d \<Rightarrow> (\<exists>p. confined rootfs_dir p \<and> parent p = Some d)
   | ReadText _ \<Rightarrow> True | Exists _ \<Rightarrow> True | IsSymlink _ \<Rightarrow> True | IsDir _ \<Rightarrow> True | ReadDir _ \<Rightarrow> True
   | _ \<Rightarrow> False)"

lemma validated_confined:
  "rootfs_dir \<noteq> [] \<Longrightarrow> validate_relative_path p = Inr u \<Longrightarrow> confined rootfs_dir (path_join rootfs_dir p)"
  by (rule confined_join) (auto simp: validate_relative_path_def is_absolute_def split: if_splits)

lemma or_else_calls [calls_intros]:
  "calls_only P a \<Longrightarrow> calls_only P b \<Longrightarrow> calls_only P (or_else a b)"
  unfolding or_else_def by (intro calls_intros)

lemma create_link_calls:
  assumes "rootfs_dir \<noteq> []"
  shows "calls_only (links_inside rootfs_dir) (create_link os rootfs_dir entry)"
proof (cases "validate_relative_path (link_path entry)")
  case (Inl e)
  then show ?thesis by (simp add: create_link_def calls_intros)
next
  case (Inr u)
  then have c: "confined rootfs_dir (path_join rootfs_dir (link_path entry))"
    by (rule validated_confined [OF assms])
  then have "calls_only (links_inside rootfs_dir) (replace_existing os (path_join rootfs_dir (link_path entry)))"
    unfolding replace_existing_def by (intro calls_intros) (simp_all add: links_inside_def)
  then show ?thesis
    using Inr c unfolding create_link_def Let_def
    by (intro calls_intros) (auto simp: links_inside_def)
qed


text \<open>A configuration that tries to leave the root, on a machine where every call succeeds.\<close>

definition hostile_links :: links_parser where
  "hostile_links _ = Inr [\<lparr>link_target = ''/etc/shadow'', link_path = ''../../etc/passwd''\<rparr>]"

definition obliging_os :: "unit os" where
  "obliging_os = \<lparr>os_unit = \<lambda>_ w. (Inr (), w), os_text = \<lambda>_ w. (Inr [], w), os_bool = \<lambda>_ w. (True, w),
     os_num = \<lambda>_ w. (Inr 0, w), os_run = \<lambda>_ w. (Inl (IoError NotFound []), w),
     os_stat = \<lambda>_ w. (Inl (IoError NotFound []), w), os_entries = \<lambda>_ w. (Inr [], w),
     os_addrs = \<lambda>_ w. (Inr [], w), os_delay = \<lambda>_ _. 1\<rparr>"

text \<open>The limit of the check on the text: an entry that makes \<open>x\<close> a link to \<open>/\<close>, and one through it, both pass.\<close>

lemma chained_links_pass:
  "validate_relative_path ''x'' = Inr ()" "validate_relative_path ''x/bin/sh'' = Inr ()"
  by code_simp+


end
