(* ===== verification/Status_Json.thy ===== *)
theory Status_Json
  imports Program
begin

text \<open>
  The report for omnect-device-service as a JSON value: the \<open>Serialize\<close> instances of
  \<open>src/runtime/omnect_device_service.rs\<close>, derived or written out, with their field names, their
  order and the fields they leave out. Rendering the value as text is left to the JSON library, a
  parameter of the model. The order in which a hash map is walked is the parameter \<open>order\<close>.
\<close>

datatype json_value = JBool bool | JInt int | JString string | JArray "json_value list"
  | JObject "(string \<times> json_value) list"

section \<open>The values\<close>

definition optional_field :: "string \<Rightarrow> ('a \<Rightarrow> json_value) \<Rightarrow> 'a option \<Rightarrow> (string \<times> json_value) list" where
  "optional_field k enc v = (case v of None \<Rightarrow> [] | Some x \<Rightarrow> [(k, enc x)])"

definition status_code_value :: "factory_reset_status_code \<Rightarrow> json_value" where
  "status_code_value c = JInt (uint (status_code_num c))"

definition fsck_status_value :: "fsck_status \<Rightarrow> json_value" where
  "fsck_status_value r = JObject
     [(''code'', JInt (sint (fsck_status_code r))), (''output'', JString (fsck_status_output r))]"

definition degraded_boot_value :: "string \<Rightarrow> json_value" where
  "degraded_boot_value why = JObject [(''reason'', JString why)]"

definition resize_outcome_str :: "resize_outcome \<Rightarrow> string" where
  "resize_outcome_str x = (case x of SkippedFsck \<Rightarrow> ''skipped_fsck'' | ToolError \<Rightarrow> ''tool_error''
     | InvalidLayout \<Rightarrow> ''invalid_layout'')"

definition resize_status_value :: "resize_status \<Rightarrow> json_value" where
  "resize_status_value r = JObject [(''outcome'', JString (resize_outcome_str (resize_outcome_of r))),
     (''reason'', JString (resize_reason r))]"

definition extra_boot_args_outcome_str :: "extra_boot_args_outcome \<Rightarrow> string" where
  "extra_boot_args_outcome_str x = (case x of FileReadFailed \<Rightarrow> ''file_read_failed'' | ReadFailed \<Rightarrow> ''read_failed''
     | SetEnvFailed \<Rightarrow> ''set_env_failed'' | ReadBackFailed \<Rightarrow> ''read_back_failed''
     | ReadBackMismatch \<Rightarrow> ''read_back_mismatch'')"

definition extra_boot_args_value :: "extra_boot_args_status \<Rightarrow> json_value" where
  "extra_boot_args_value r = JObject [(''outcome'', JString (extra_boot_args_outcome_str (bootargs_outcome r))),
     (''reason'', JString (bootargs_reason r))]"

definition factory_reset_value :: "factory_reset_status \<Rightarrow> json_value" where
  "factory_reset_value r = JObject
     ([(''status'', status_code_value (reset_status r))]
      @ optional_field ''error'' JString (reset_error r)
      @ optional_field ''context'' JString (reset_context r)
      @ (if reset_paths r = [] then [] else [(''paths'', JArray (map JString (reset_paths r)))])
      @ [(''data_wiped'', JBool (data_wiped r))])"

definition fsck_fields :: "partition_name list \<Rightarrow> (partition_name \<Rightarrow> fsck_status option) \<Rightarrow> (string \<times> json_value) list" where
  "fsck_fields order m = concat (map (\<lambda>p. optional_field (partition_name_str p) fsck_status_value (m p)) order)"

definition status_fields :: "partition_name list \<Rightarrow> ods_status \<Rightarrow> (string \<times> json_value) list" where
  "status_fields order st =
     (case fsck_fields order (ods_fsck st) of [] \<Rightarrow> [] | f # fs \<Rightarrow> [(''fsck'', JObject (f # fs))])
     @ optional_field ''factory_reset'' factory_reset_value (ods_factory_reset st)
     @ optional_field ''degraded_boot'' degraded_boot_value (ods_degraded_boot st)
     @ [(''first_boot'', JBool (ods_first_boot st))]
     @ optional_field ''resize_data'' resize_status_value (ods_resize_data st)
     @ optional_field ''extra_bootargs'' extra_boot_args_value (ods_extra_bootargs st)"

definition status_value :: "partition_name list \<Rightarrow> ods_status \<Rightarrow> json_value" where
  "status_value order st = JObject (status_fields order st)"

section \<open>Nothing is lost\<close>

lemma map_of_optional [simp]:
  "map_of (optional_field k enc v) q = (if q = k then map_option enc v else None)"
  by (simp add: optional_field_def split: option.split)

lemma optional_field_inj [simp]:
  "inj enc \<Longrightarrow> optional_field k enc v = optional_field k enc w \<longleftrightarrow> v = w"
  by (auto simp: optional_field_def inj_eq split: option.splits)

lemma fsck_status_value_inj: "inj fsck_status_value"
  by (auto simp: inj_def fsck_status_value_def intro!: fsck_status.equality signed_word_eqI)

lemma degraded_boot_value_inj: "inj degraded_boot_value"
  by (simp add: inj_def degraded_boot_value_def)

lemma resize_status_value_inj: "inj resize_status_value"
  by (auto simp: inj_def resize_status_value_def resize_outcome_str_def
      intro!: resize_status.equality split: resize_outcome.splits)

lemma extra_boot_args_value_inj: "inj extra_boot_args_value"
  by (auto simp: inj_def extra_boot_args_value_def extra_boot_args_outcome_str_def
      intro!: extra_boot_args_status.equality split: extra_boot_args_outcome.splits)

lemma status_code_value_inj: "status_code_value c = status_code_value d \<longleftrightarrow> c = d"
  by (cases c; cases d) (simp_all add: status_code_value_def status_code_num_def)

lemma JString_inj: "inj JString"
  by (simp add: inj_def)

lemma option_string_inj [simp]: "map_option JString v = map_option JString w \<longleftrightarrow> v = w"
  by (simp add: inj_eq [OF option.inj_map [OF JString_inj]])

lemma map_string_inj [simp]: "map JString v = map JString w \<longleftrightarrow> v = w"
  by (simp add: inj_eq [OF list.inj_map [OF JString_inj]])

lemma map_add_at [simp]: "(f ++ g) k = (case g k of None \<Rightarrow> f k | Some x \<Rightarrow> Some x)"
  by (simp add: map_add_def)

lemma factory_reset_value_inj: "inj factory_reset_value"
proof (rule injI)
  fix x y
  define fields where "fields r = map_of (case factory_reset_value r of JObject fs \<Rightarrow> fs | _ \<Rightarrow> [])" for r
  assume "factory_reset_value x = factory_reset_value y"
  then have same: "fields x k = fields y k" for k by (simp add: fields_def)
  have "fields r ''status'' = Some (status_code_value (reset_status r))"
    "fields r ''error'' = map_option JString (reset_error r)"
    "fields r ''context'' = map_option JString (reset_context r)"
    "fields r ''paths'' = (if reset_paths r = [] then None else Some (JArray (map JString (reset_paths r))))"
    "fields r ''data_wiped'' = Some (JBool (data_wiped r))" for r
    by (simp_all add: fields_def factory_reset_value_def split: option.split)
  then show "x = y"
    using same [of "''status''"] same [of "''error''"] same [of "''context''"] same [of "''paths''"]
      same [of "''data_wiped''"]
    by (intro factory_reset_status.equality) (simp_all add: status_code_value_inj split: if_splits)
qed

lemma in_fsck_fields: "(partition_name_str p, v) \<in> set (fsck_fields order m)
    \<longleftrightarrow> p \<in> set order \<and> (\<exists>r. m p = Some r \<and> v = fsck_status_value r)"
  by (induction order; cases "m p") (auto simp: fsck_fields_def optional_field_def partition_name_str_inj split: option.splits)

lemma in_fsck_fields_dom:
  "dom m \<subseteq> set order \<Longrightarrow> (partition_name_str p, v) \<in> set (fsck_fields order m)
    \<longleftrightarrow> (\<exists>r. m p = Some r \<and> v = fsck_status_value r)"
  by (simp only: in_fsck_fields) blast

text \<open>All that the fields say of each partition, for an order that names every partition with an entry.\<close>

lemma fsck_fields_inj:
  assumes "fsck_fields order m = fsck_fields order' m'"
    and "dom m \<subseteq> set order" and "dom m' \<subseteq> set order'"
  shows "m = m'"
proof
  fix p
  have "(\<exists>r. m p = Some r \<and> v = fsck_status_value r) \<longleftrightarrow> (\<exists>r. m' p = Some r \<and> v = fsck_status_value r)" for v
    using in_fsck_fields_dom [OF assms(2), of p v] in_fsck_fields_dom [OF assms(3), of p v] assms(1) by simp
  then show "m p = m' p"
    by (metis (no_types, lifting) injD [OF fsck_status_value_inj] not_Some_eq)
qed

definition field_of :: "partition_name list \<Rightarrow> ods_status \<Rightarrow> string \<Rightarrow> json_value option" where
  "field_of order st = map_of (status_fields order st)"

lemma field_of_fsck: "field_of order st ''fsck'' = (case fsck_fields order (ods_fsck st) of [] \<Rightarrow> None | f # fs \<Rightarrow> Some (JObject (f # fs)))"
  by (simp add: field_of_def status_fields_def split: option.split list.split)

lemma field_of_others:
  "field_of order st ''factory_reset'' = map_option factory_reset_value (ods_factory_reset st)"
  "field_of order st ''degraded_boot'' = map_option degraded_boot_value (ods_degraded_boot st)"
  "field_of order st ''first_boot'' = Some (JBool (ods_first_boot st))"
  "field_of order st ''resize_data'' = map_option resize_status_value (ods_resize_data st)"
  "field_of order st ''extra_bootargs'' = map_option extra_boot_args_value (ods_extra_bootargs st)"
  by (simp_all add: field_of_def status_fields_def split: option.split list.split)

lemmas value_inj = factory_reset_value_inj degraded_boot_value_inj resize_status_value_inj extra_boot_args_value_inj

text \<open>
  C34: The report loses nothing. Two statuses with the same JSON value are the same status, whatever
  the order in which the two hash maps were walked, as long as it meets every entry.
\<close>

theorem status_value_lossless:
  assumes "status_value order st = status_value order' st'"
    and "dom (ods_fsck st) \<subseteq> set order" and "dom (ods_fsck st') \<subseteq> set order'"
  shows "st = st'"
proof -
  have same: "field_of order st k = field_of order' st' k" for k
    using assms(1) by (simp add: status_value_def field_of_def)
  have "fsck_fields order (ods_fsck st) = fsck_fields order' (ods_fsck st')"
    using same [of "''fsck''"] by (simp add: field_of_fsck split: list.splits)
  then have "ods_fsck st = ods_fsck st'" using assms(2,3) by (rule fsck_fields_inj)
  then show ?thesis
    using same [of "''factory_reset''"] same [of "''degraded_boot''"] same [of "''first_boot''"]
      same [of "''resize_data''"] same [of "''extra_bootargs''"]
    by (intro ods_status.equality) (simp_all add: field_of_others inj_eq [OF option.inj_map] value_inj)
qed

section \<open>The reports of a factory reset\<close>

definition reported_reset :: factory_reset_status where
  "reported_reset = \<lparr>reset_status = ResetError, reset_error = Some ''backup missing for /etc/hostname'',
     reset_context = Some ''etc/hostname:missing-backup'', reset_paths = [''/etc/hostname''], data_wiped = True\<rparr>"

text \<open>\<open>tests/contract/status-factory-reset-error-after-wipe.json\<close>.\<close>

lemma contract_error_after_wipe:
  "status_value [] (set_factory_reset reported_reset ods_new) = JObject
     [(''factory_reset'', JObject
        [(''status'', JInt 2), (''error'', JString ''backup missing for /etc/hostname''),
         (''context'', JString ''etc/hostname:missing-backup''), (''paths'', JArray [JString ''/etc/hostname'']),
         (''data_wiped'', JBool True)]),
      (''first_boot'', JBool False)]"
  by (simp add: status_value_def status_fields_def fsck_fields_def optional_field_def set_factory_reset_def ods_new_def
      reported_reset_def factory_reset_value_def status_code_value_def status_code_num_def)

definition two_records :: ods_status where
  "two_records = record_fsck_result Data 1 ''fixed'' (record_fsck_result Boot 4 ''bad'' ods_new)"

definition two_records_swapped :: ods_status where
  "two_records_swapped = record_fsck_result Boot 4 ''bad'' (record_fsck_result Data 1 ''fixed'' ods_new)"

theorem status_value_lossless_witness:
  "status_value [Data, Cert, Boot] two_records = status_value [Data, Boot, Etc] two_records_swapped
   \<and> two_records = two_records_swapped"
proof -
  have *: "status_value [Data, Cert, Boot] two_records = status_value [Data, Boot, Etc] two_records_swapped"
    by (simp add: status_value_def status_fields_def fsck_fields_def optional_field_def two_records_def
        two_records_swapped_def record_fsck_result_def is_clean_def ods_new_def)
  then show ?thesis
    using status_value_lossless [OF *]
    by (simp add: two_records_def two_records_swapped_def record_fsck_result_def is_clean_def ods_new_def)
qed

end
