(* ===== verification/Flash.thy ===== *)
theory Flash
  imports Clone Scp Fs_Link Status_Json
begin

text \<open>
  The entry points of \<open>src/mode/flash/mod.rs\<close>: a flash mode runs, its log is kept, and the machine is
  switched off or rebooted. The lines the capture hands back are the parameter \<open>captured\<close>. A call of
  \<open>reboot(2)\<close> that succeeds does not come back.
\<close>

record 'j libraries =
  lib_json :: "'j json_lib"
  lib_pretty_json :: "json_value \<Rightarrow> string + string"
  lib_links :: links_parser
  lib_base64 :: "string \<Rightarrow> string + string"
  lib_uuid_text :: "string \<Rightarrow> string"
  lib_xml :: "string \<Rightarrow> string + xml_bmap"
  lib_sha256 :: "string \<Rightarrow> string"
  lib_hex_error :: "string \<Rightarrow> string"
  lib_devnum :: devnum_codec

record build_values =
  bv_clone :: clone_build
  bv_scp :: scp_build

definition lift_env :: "flash_error + 'a \<Rightarrow> ('s, 'a) flash" where
  "lift_env r = (case r of Inl e \<Rightarrow> failing e | Inr x \<Rightarrow> ret x)"

definition run_selected_mode :: "nat \<Rightarrow> features \<Rightarrow> 'j libraries \<Rightarrow> 'w os \<Rightarrow> build_values \<Rightarrow> partition_layout \<Rightarrow> string \<Rightarrow>
    flash_config \<Rightarrow> (('w, 'p) machine, unit) flash" where
  "run_selected_mode fuel ft libs os bv l rootfs fc = (case fc_mode fc of
     FlashMode1 \<Rightarrow> bindE (lift_env (env_value_of (fc_devpath fc) FlashModeDevPath)) (\<lambda>dst.
       run_clone fuel ft (lib_uuid_text libs) (lib_devnum libs) os (bv_clone bv) l rootfs dst)
   | FlashMode2 \<Rightarrow> run_scp fuel ft (lib_xml libs) (lib_sha256 libs) (lib_devnum libs) os (bv_scp bv) l rootfs
   | FlashMode3 \<Rightarrow> bindE (lift_env (env_value_of (fc_image_url fc) FlashModeUrl)) (\<lambda>image_url.
       bindE (lift_env (env_value_of (fc_sha256_url fc) FlashModeUrlSha256)) (\<lambda>sha256_url.
       run_url fuel ft (lib_sha256 libs) (lib_hex_error libs) (lib_devnum libs) os l rootfs image_url sha256_url)))"

definition run_and_persist :: "features \<Rightarrow> 's boot_env option \<Rightarrow> partition_layout \<Rightarrow> flash_config \<Rightarrow> string list \<Rightarrow>
    ('s, unit) flash \<Rightarrow> 's log_writer \<Rightarrow> ('s, unit) flash \<Rightarrow> ('s, unit) flash" where
  "run_and_persist ft be l fc captured mode write sync =
     bindE (case be of Some bl \<Rightarrow> clear_flash_triggers ft bl | None \<Rightarrow> ret ()) (\<lambda>_.
     attempt mode (\<lambda>outcome.
     bindE (if keeps_log outcome then persist_log l (log_file (fc_mode fc)) captured write else ret ()) (\<lambda>_.
     bindE sync (\<lambda>_. lift_env outcome))))"

definition terminal_call :: "flash_mode \<Rightarrow> call" where
  "terminal_call m = (case terminal_action m of RB_POWER_OFF \<Rightarrow> PowerOffCall | RB_AUTOBOOT \<Rightarrow> RebootCall)"

definition run_flash :: "nat \<Rightarrow> features \<Rightarrow> 'j libraries \<Rightarrow> 'w os \<Rightarrow> build_values \<Rightarrow> ('w, 'p) machine boot_env option \<Rightarrow>
    partition_layout \<Rightarrow> string \<Rightarrow> flash_config \<Rightarrow> string list \<Rightarrow> (('w, 'p) machine, unit) flash" where
  "run_flash fuel ft libs os bv be l rootfs fc captured =
     bindE (run_and_persist ft be l fc captured (run_selected_mode fuel ft libs os bv l rootfs fc)
       (write_log os) (sync_filesystems os)) (\<lambda>_.
     caught (sys_unit os (terminal_call (fc_mode fc))) (\<lambda>r. case r of
         Inl e \<Rightarrow> failing (FlashIo e) | Inr _ \<Rightarrow> throw Running))"

end
