(* ===== verification/Early_Modules.thy ===== *)
theory Early_Modules
  imports Rust_Path World Utf8 "HOL-Library.Char_ord" "HOL-Library.List_Lexorder"
begin

text \<open>
  \<open>src/early_modules/\<close>: the kernel modules the image lists are loaded before \<open>switch_root\<close>. A set or
  map of the code that is only asked for members is a predicate or a partial map here; the
  session's \<open>outcome\<close> is passed from step to step. The loader is the trait \<open>ModuleLoader\<close>, a function.
\<close>

definition CONFIG_DIR :: string where "CONFIG_DIR = ''etc/omnect/early-modules.d''"
definition MODULES_DIR :: string where "MODULES_DIR = ''lib/modules''"
definition MODULES_DEP :: string where "MODULES_DEP = ''modules.dep''"
definition MODULES_BUILTIN :: string where "MODULES_BUILTIN = ''modules.builtin''"
definition FIRMWARE_DIR :: string where "FIRMWARE_DIR = ''lib/firmware''"
definition OSRELEASE :: string where "OSRELEASE = ''/proc/sys/kernel/osrelease''"
definition FIRMWARE_PATH_PARAM :: string where
  "FIRMWARE_PATH_PARAM = ''/sys/module/firmware_class/parameters/path''"
definition SYS_MODULE :: string where "SYS_MODULE = ''/sys/module''"
definition INITSTATE :: string where "INITSTATE = ''initstate''"

section \<open>The configuration\<close>

record module_entry =
  entry_name :: string
  entry_params :: string

definition normalize_name :: "string \<Rightarrow> string" where
  "normalize_name n = map (\<lambda>c. if c = CHR ''-'' then CHR ''_'' else c) n"

definition parse_line :: "string \<Rightarrow> (string \<times> string) option" where
  "parse_line text = (let l = trim text in
     if l = [] \<or> starts_with ''#'' l then None
     else (let name = takeWhile (\<lambda>c. \<not> is_ws c) l in
       Some (name, trim_start (drop (Suc (length name)) l))))"

text \<open>One line: parameters with a NUL byte and names seen before are skipped.\<close>

definition add_entry :: "module_entry list \<Rightarrow> string \<times> string \<Rightarrow> module_entry list" where
  "add_entry es p = (let name = normalize_name (fst p) in
     if CHR 0x00 \<in> set (snd p) then es
     else if name \<in> entry_name ` set es then es
     else es @ [\<lparr>entry_name = name, entry_params = snd p\<rparr>])"

definition add_file :: "string \<Rightarrow> module_entry list \<Rightarrow> module_entry list" where
  "add_file t es = foldl add_entry es (List.map_filter parse_line (rust_lines t))"

definition conf_files :: "string \<Rightarrow> (io_error + string) list \<Rightarrow> string list" where
  "conf_files dir names = sort (filter (\<lambda>p. path_extension p = Some ''conf'')
     (List.map_filter (\<lambda>e. case e of Inl _ \<Rightarrow> None | Inr n \<Rightarrow> Some (path_join dir n)) names))"

definition read_config_dir :: "'w os \<Rightarrow> string \<Rightarrow> (('w, 'p) machine, 'e, module_entry list) io" where
  "read_config_dir os dir = caught (sys_entries os (ReadDir dir)) (\<lambda>r. case r of
     Inl _ \<Rightarrow> ret []
   | Inr names \<Rightarrow> fold_io (\<lambda>f es. caught (sys_text os (ReadText f)) (\<lambda>t. case t of
         Inl _ \<Rightarrow> ret es
       | Inr t \<Rightarrow> ret (add_file t es))) (conf_files dir names) [])"

section \<open>The tables of depmod\<close>

definition COMPRESSION_SUFFIXES :: "string list" where
  "COMPRESSION_SUFFIXES = [''.xz'', ''.zst'', ''.gz'']"

record mod_entry =
  mod_path :: string
  mod_deps :: "string list"

text \<open>The first suffix that fits is cut off.\<close>

fun cut_suffix :: "string list \<Rightarrow> string \<Rightarrow> string \<times> bool" where
  "cut_suffix [] f = (f, False)"
| "cut_suffix (s # ss) f = (case strip_suffix s f of Some g \<Rightarrow> (g, True) | None \<Rightarrow> cut_suffix ss f)"

definition split_compression :: "string \<Rightarrow> (string \<times> bool) option" where
  "split_compression path = (case file_name path of
     Some f \<Rightarrow> if valid_utf8 f then Some (cut_suffix COMPRESSION_SUFFIXES f) else None
   | None \<Rightarrow> None)"

definition module_name_of :: "string \<Rightarrow> string option" where
  "module_name_of path = (case split_compression path of
     Some (f, _) \<Rightarrow> (case strip_suffix ''.ko'' f of
         Some n \<Rightarrow> if n = [] then None else Some (normalize_name n)
       | None \<Rightarrow> None)
   | None \<Rightarrow> None)"

definition is_compressed :: "string \<Rightarrow> bool" where
  "is_compressed path = (case split_compression path of
     Some (f, compressed) \<Rightarrow> compressed \<and> ends_with ''.ko'' f | None \<Rightarrow> False)"

definition parse_dep_line :: "(string \<Rightarrow> bool) \<Rightarrow> string \<Rightarrow> (string \<times> mod_entry) option" where
  "parse_dep_line listed l = (case split_once (CHR '':'') l of
     None \<Rightarrow> None
   | Some (path, deps) \<Rightarrow> (case module_name_of (trim path) of
         Some n \<Rightarrow> if listed n then Some (n, \<lparr>mod_path = trim path, mod_deps = split_ws deps\<rparr>) else None
       | None \<Rightarrow> None))"

text \<open>Collected into a hash map, the last line of a name wins.\<close>

definition parse_modules_dep :: "string \<Rightarrow> (string \<Rightarrow> bool) \<Rightarrow> string \<Rightarrow> mod_entry option" where
  "parse_modules_dep t listed = map_of (rev (List.map_filter (parse_dep_line listed) (rust_lines t)))"

definition parse_modules_builtin :: "string \<Rightarrow> string list" where
  "parse_modules_builtin t = List.map_filter module_name_of (filter (\<lambda>l. l \<noteq> []) (map trim (rust_lines t)))"

section \<open>Loading\<close>

record sys_paths =
  sp_rootfs :: string
  sp_osrelease :: string
  sp_firmware_path_param :: string
  sp_sys_module :: string

record resolved =
  rs_rootfs :: string
  rs_sys_module :: string
  rs_modules_dir :: string
  rs_builtin :: "string list"
  rs_deps :: "string \<Rightarrow> mod_entry option"
  rs_params :: "string \<Rightarrow> string option"

type_synonym ('w, 'p) loader =
  "string \<Rightarrow> string \<Rightarrow> string \<Rightarrow> bool \<Rightarrow> (('w, 'p) machine, io_error, unit) io"

type_synonym outcome = "string \<Rightarrow> bool option"

definition kernel_load :: "'w os \<Rightarrow> ('w, 'p) loader" where
  "kernel_load os name path params compressed = sys_unit os (LoadModule path params compressed)"

definition is_loaded :: "'w os \<Rightarrow> string \<Rightarrow> string \<Rightarrow> (('w, 'p) machine, 'e, bool) io" where
  "is_loaded os sys_module name = sys_bool os (Exists (path_join (path_join sys_module name) INITSTATE))"

definition read_or_none :: "'w os \<Rightarrow> string \<Rightarrow> (('w, 'p) machine, 'e, string option) io" where
  "read_or_none os path = caught (sys_text os (ReadText path)) (\<lambda>r. case r of Inl _ \<Rightarrow> ret None | Inr t \<Rightarrow> ret (Some t))"

definition prepare :: "'w os \<Rightarrow> sys_paths \<Rightarrow> module_entry list \<Rightarrow> (('w, 'p) machine, 'e, resolved option) io" where
  "prepare os paths entries = bindE (read_or_none os (sp_osrelease paths)) (\<lambda>r. case r of
     None \<Rightarrow> ret None
   | Some text \<Rightarrow> if trim text = [] then ret None
     else (let dir = path_join (path_join (sp_rootfs paths) MODULES_DIR) (trim text) in
       bindE (read_or_none os (path_join dir MODULES_DEP)) (\<lambda>d. case d of
         None \<Rightarrow> ret None
       | Some dep_text \<Rightarrow> bindE (read_or_none os (path_join dir MODULES_BUILTIN)) (\<lambda>b. case b of
           None \<Rightarrow> ret None
         | Some builtin_text \<Rightarrow>
             caught (sys_unit os (WriteFile (sp_firmware_path_param paths) (path_join (sp_rootfs paths) FIRMWARE_DIR)))
               (\<lambda>w. case w of
                 Inl _ \<Rightarrow> ret None
               | Inr _ \<Rightarrow> ret (Some
                   \<lparr>rs_rootfs = sp_rootfs paths, rs_sys_module = sp_sys_module paths, rs_modules_dir = dir,
                    rs_builtin = parse_modules_builtin builtin_text,
                    rs_deps = parse_modules_dep dep_text (\<lambda>n. n \<in> entry_name ` set entries),
                    rs_params = map_of (rev (map (\<lambda>e. (entry_name e, entry_params e)) entries))\<rparr>))))))"

definition is_present :: "'w os \<Rightarrow> resolved \<Rightarrow> string \<Rightarrow> (('w, 'p) machine, 'e, bool) io" where
  "is_present os rs name =
     (if name \<in> set (rs_builtin rs) then ret True else is_loaded os (rs_sys_module rs) name)"

definition module_file :: "resolved \<Rightarrow> string \<Rightarrow> string" where
  "module_file rs dep_path = (case path_strip_prefix ''/'' dep_path of
     Some from_root \<Rightarrow> path_join (rs_rootfs rs) from_root
   | None \<Rightarrow> path_join (rs_modules_dir rs) dep_path)"

definition finit :: "'w os \<Rightarrow> ('w, 'p) loader \<Rightarrow> resolved \<Rightarrow> string \<Rightarrow> string \<Rightarrow> (('w, 'p) machine, 'e, bool) io" where
  "finit os ld rs name dep_path = (let path = module_file rs dep_path in
     caught (sys_unit os (OpenRead path)) (\<lambda>r. case r of
       Inl _ \<Rightarrow> ret False
     | Inr _ \<Rightarrow> caught (ld name path (case rs_params rs name of Some p \<Rightarrow> p | None \<Rightarrow> []) (is_compressed dep_path))
         (\<lambda>q. case q of
           Inr _ \<Rightarrow> ret True
         | Inl e \<Rightarrow> ret (io_kind_of e = AlreadyExists))))"

definition load_one :: "'w os \<Rightarrow> ('w, 'p) loader \<Rightarrow> resolved \<Rightarrow> string \<Rightarrow> string \<Rightarrow> outcome \<Rightarrow>
    (('w, 'p) machine, 'e, bool \<times> outcome) io" where
  "load_one os ld rs name dep_path oc = (case oc name of
     Some ok \<Rightarrow> ret (ok, oc)
   | None \<Rightarrow> bindE (is_present os rs name) (\<lambda>present.
       bindE (if present then ret True else finit os ld rs name dep_path) (\<lambda>ok.
       ret (ok, oc(name \<mapsto> ok)))))"

fun load_deps :: "'w os \<Rightarrow> ('w, 'p) loader \<Rightarrow> resolved \<Rightarrow> string list \<Rightarrow> outcome \<Rightarrow>
    (('w, 'p) machine, 'e, bool \<times> outcome) io" where
  "load_deps os ld rs [] oc = ret (True, oc)"
| "load_deps os ld rs (d # ds) oc = (case module_name_of d of
     None \<Rightarrow> ret (False, oc)
   | Some n \<Rightarrow> bindE (load_one os ld rs n d oc) (\<lambda>(ok, oc').
       if ok then load_deps os ld rs ds oc' else ret (False, oc')))"

definition load_listed :: "'w os \<Rightarrow> ('w, 'p) loader \<Rightarrow> resolved \<Rightarrow> string \<Rightarrow> outcome \<Rightarrow>
    (('w, 'p) machine, 'e, bool \<times> outcome) io" where
  "load_listed os ld rs name oc = (case oc name of
     Some ok \<Rightarrow> ret (ok, oc)
   | None \<Rightarrow> bindE (is_present os rs name) (\<lambda>present.
       if present then ret (True, oc(name \<mapsto> True))
       else (case rs_deps rs name of
         None \<Rightarrow> ret (False, oc)
       | Some entry \<Rightarrow> bindE (load_deps os ld rs (rev (mod_deps entry)) oc) (\<lambda>(ok, oc').
           if ok then load_one os ld rs name (mod_path entry) oc' else ret (False, oc')))))"

text \<open>The loop over the listed modules collects the names that did not load.\<close>

definition load_entry :: "'w os \<Rightarrow> ('w, 'p) loader \<Rightarrow> resolved \<Rightarrow> string \<Rightarrow> string list \<times> outcome \<Rightarrow>
    (('w, 'p) machine, 'e, string list \<times> outcome) io" where
  "load_entry os ld rs name acc = bindE (load_listed os ld rs name (snd acc)) (\<lambda>(ok, oc).
     ret (if ok then fst acc else fst acc @ [name], oc))"

text \<open>Without the tables of depmod, only what the kernel has already counts as loaded.\<close>

definition check_loaded :: "'w os \<Rightarrow> string \<Rightarrow> string \<Rightarrow> string list \<Rightarrow> (('w, 'p) machine, 'e, string list) io" where
  "check_loaded os sys_module name failed = bindE (is_loaded os sys_module name) (\<lambda>b.
     ret (if b then failed else failed @ [name]))"

definition load_with :: "'w os \<Rightarrow> sys_paths \<Rightarrow> ('w, 'p) loader \<Rightarrow> (('w, 'p) machine, 'e, string list) io" where
  "load_with os paths ld = bindE (read_config_dir os (path_join (sp_rootfs paths) CONFIG_DIR)) (\<lambda>entries.
     if entries = [] then ret []
     else bindE (prepare os paths entries) (\<lambda>r. case r of
       Some rs \<Rightarrow> bindE (fold_io (load_entry os ld rs) (map entry_name entries) ([], Map.empty)) (\<lambda>acc. ret (fst acc))
     | None \<Rightarrow> fold_io (check_loaded os (sp_sys_module paths)) (map entry_name entries) []))"

definition load_early_modules :: "'w os \<Rightarrow> string \<Rightarrow> (('w, 'p) machine, 'e, unit) io" where
  "load_early_modules os rootfs = ignore ((load_with :: 'w os \<Rightarrow> _ \<Rightarrow> _ \<Rightarrow> (('w, 'p) machine, unit, string list) io) os
     \<lparr>sp_rootfs = rootfs, sp_osrelease = OSRELEASE, sp_firmware_path_param = FIRMWARE_PATH_PARAM,
      sp_sys_module = SYS_MODULE\<rparr> (kernel_load os))"

section \<open>Facts\<close>

text \<open>The names of a configuration are distinct and written with underscores.\<close>

definition proper_entries :: "module_entry list \<Rightarrow> bool" where
  "proper_entries es \<longleftrightarrow> distinct (map entry_name es) \<and> (\<forall>e \<in> set es. CHR ''-'' \<notin> set (entry_name e))"

lemma proper_add_entry: "proper_entries es \<Longrightarrow> proper_entries (add_entry es p)"
  by (auto simp: add_entry_def proper_entries_def Let_def normalize_name_def)

lemma proper_add_file: "proper_entries es \<Longrightarrow> proper_entries (add_file t es)"
proof -
  have "proper_entries es \<Longrightarrow> proper_entries (foldl add_entry es ps)" for ps
    by (induction ps arbitrary: es) (simp_all add: proper_add_entry)
  then show "proper_entries es \<Longrightarrow> proper_entries (add_file t es)" by (simp add: add_file_def)
qed

lemma results_read_config: "results (\<lambda>_. False) proper_entries (read_config_dir os dir)"
proof -
  have "results (\<lambda>_. False) proper_entries (fold_io (\<lambda>f es. caught (sys_text os (ReadText f)) (\<lambda>t. case t of
      Inl _ \<Rightarrow> ret es | Inr t \<Rightarrow> ret (add_file t es))) fs [])" for fs
    by (rule results_fold_io) (auto intro!: results_caught results_cases results_pure proper_add_file
        simp: proper_entries_def)
  moreover have "proper_entries []" by (simp add: proper_entries_def)
  ultimately show ?thesis
    unfolding read_config_dir_def by (intro results_caught results_cases results_pure) simp_all
qed

text \<open>A loader that writes down the names it is given, like the one of the code's tests.\<close>

definition recording :: "('w, string list) loader \<Rightarrow> ('w, string list) loader" where
  "recording ld name path params compressed =
     bindE (modify_prog (\<lambda>ns. ns @ [name])) (\<lambda>_. ld name path params compressed)"

definition quiet_loader :: "('w, 'p) loader \<Rightarrow> bool" where
  "quiet_loader ld \<longleftrightarrow> (\<forall>n path params z. keeps_prog (ld n path params z))"

lemma quiet_kernel: "quiet_loader (kernel_load os)"
  by (simp add: quiet_loader_def kernel_load_def prog_intros)

definition once :: "string list \<Rightarrow> outcome \<Rightarrow> bool" where
  "once ns oc \<longleftrightarrow> distinct ns \<and> (\<forall>n \<in> set ns. oc n \<noteq> None)"

lemma is_present_keeps: "keeps_prog (is_present os rs name)" "never_fails (is_present os rs name)"
  unfolding is_present_def is_loaded_def by (intro prog_intros total_intros)+

lemma is_present_run: "\<exists>b s'. is_present os rs name s = (Inr b, s') \<and> program s' = program s"
  using is_present_keeps [of os rs name] unfolding keeps_prog_def never_fails_def by (metis snd_conv)

lemma recorded_load:
  assumes "quiet_loader ld" and "recording ld n path ps z s = (r, s')"
  shows "program s' = program s @ [n]"
proof -
  have "keeps_prog (ld n path ps z)" using assms(1) by (simp add: quiet_loader_def)
  moreover have "ld n path ps z (s\<lparr>program := program s @ [n]\<rparr>) = (r, s')"
    using assms(2) by (simp add: recording_def bindE_def modify_prog_def)
  ultimately show ?thesis by (auto dest: keeps_progD)
qed

lemma finit_run:
  assumes "quiet_loader ld" and "finit os (recording ld) rs name dep s = (r, s')"
  shows "\<exists>ok. r = Inr ok \<and> (program s' = program s \<or> program s' = program s @ [name])"
proof -
  obtain q s1 where open_file: "sys_unit os (OpenRead (module_file rs dep)) s = (q, s1)" by fastforce
  then have same: "program s1 = program s" using keeps_prog_sys(1) by (rule keeps_progD [rotated])
  show ?thesis
  proof (cases q)
    case (Inl e)
    then show ?thesis using assms(2) open_file same by (auto simp: finit_def Let_def caught_def)
  next
    case (Inr u)
    let ?params = "case rs_params rs name of Some p \<Rightarrow> p | None \<Rightarrow> []"
    obtain l s2 where load: "recording ld name (module_file rs dep) ?params (is_compressed dep) s1 = (l, s2)"
      by fastforce
    have "program s2 = program s @ [name]" using recorded_load [OF assms(1) load] same by simp
    then show ?thesis
      using assms(2) open_file load Inr by (auto simp: finit_def Let_def caught_def split: sum.splits)
  qed
qed

lemma once_update: "once ns oc \<Longrightarrow> oc name = None \<Longrightarrow>
    once ns (oc(name \<mapsto> ok)) \<and> once (ns @ [name]) (oc(name \<mapsto> ok)) \<and> oc \<subseteq>\<^sub>m oc(name \<mapsto> ok)"
  by (auto simp: once_def map_le_def)

lemma load_one_run:
  fixes r :: "'e + bool \<times> outcome"
  assumes "quiet_loader ld" and run: "load_one os (recording ld) rs name dep oc s = (r, s')" and "once (program s) oc"
  shows "\<exists>ok oc'. r = Inr (ok, oc') \<and> once (program s') oc' \<and> oc \<subseteq>\<^sub>m oc' \<and> oc' name = Some ok
    \<and> (program s' = program s \<or> program s' = program s @ [name])"
proof (cases "oc name")
  case (Some ok)
  then have "r = Inr (ok, oc)" "s' = s" using run by (simp_all add: load_one_def)
  then show ?thesis using Some assms(3) by simp
next
  case None
  obtain b s1 where p: "is_present os rs name s = (Inr b :: 'e + bool, s1)" "program s1 = program s"
    using is_present_run by blast
  let ?load = "if b then ret True else finit os (recording ld) rs name dep :: (_, 'e, bool) io"
  have run': "bindE ?load (\<lambda>ok. ret (ok, oc(name \<mapsto> ok))) s1 = (r, s')"
    using run None p(1) by (simp add: load_one_def bindE_def)
  have "\<exists>ok s2. ?load s1 = (Inr ok, s2) \<and> (program s2 = program s \<or> program s2 = program s @ [name])"
  proof (cases b)
    case False
    obtain f :: "'e + bool" and s2 where f: "finit os (recording ld) rs name dep s1 = (f, s2)" by fastforce
    with finit_run [OF assms(1) f] p(2) show ?thesis using False by auto
  qed (auto simp: p(2))
  then obtain ok s2 where "?load s1 = (Inr ok, s2)" "program s2 = program s \<or> program s2 = program s @ [name]"
    by blast
  moreover from this(1) run' have "r = Inr (ok, oc(name \<mapsto> ok))" "s' = s2" by (simp_all add: bindE_def)
  ultimately show ?thesis using once_update [OF assms(3) None] by auto
qed

lemma load_deps_run:
  fixes r :: "'e + bool \<times> outcome"
  assumes "quiet_loader ld" and "once (program s) oc" and "load_deps os (recording ld) rs ds oc s = (r, s')"
  shows "\<exists>ok oc' ns. r = Inr (ok, oc') \<and> once (program s') oc' \<and> oc \<subseteq>\<^sub>m oc' \<and> program s' = program s @ ns
    \<and> set ns \<subseteq> {n. Some n \<in> module_name_of ` set ds}
    \<and> (ok \<longrightarrow> (\<forall>d \<in> set ds. \<exists>n. module_name_of d = Some n \<and> oc' n = Some True))"
  using assms(2,3)
proof (induction ds arbitrary: oc s)
  case Nil
  then show ?case by auto
next
  case (Cons d ds)
  show ?case
  proof (cases "module_name_of d")
    case None
    then show ?thesis using Cons.prems by auto
  next
    case (Some n)
    obtain q :: "'e + bool \<times> outcome" and s1 where q: "load_one os (recording ld) rs n d oc s = (q, s1)" by fastforce
    from load_one_run [OF assms(1) q Cons.prems(1)] obtain ok1 oc1 where one: "q = Inr (ok1, oc1)"
      "once (program s1) oc1" "oc \<subseteq>\<^sub>m oc1" "oc1 n = Some ok1"
      and "program s1 = program s \<or> program s1 = program s @ [n]" by (elim exE conjE) (rule that)
    then obtain ns1 where ns1: "program s1 = program s @ ns1" "set ns1 \<subseteq> {n}"
      by (metis append.right_neutral empty_iff empty_set list.simps(15) order_refl subsetI)
    show ?thesis
    proof (cases ok1)
      case False
      then have "r = Inr (False, oc1)" "s' = s1" using Cons.prems(2) Some q one(1) by (simp_all add: bindE_def)
      moreover have "set ns1 \<subseteq> {n. Some n \<in> module_name_of ` set (d # ds)}" using ns1(2) Some by auto
      ultimately show ?thesis using one ns1(1) by (intro exI [of _ False] exI [of _ oc1] exI [of _ ns1]) simp
    next
      case True
      then have "load_deps os (recording ld) rs ds oc1 s1 = (r, s')"
        using Cons.prems(2) Some q one(1) by (simp add: bindE_def)
      note ih = Cons.IH [OF one(2) this]
      from ih obtain ok oc' ns where rest: "r = Inr (ok, oc')" "once (program s') oc'"
        "oc1 \<subseteq>\<^sub>m oc'" "program s' = program s1 @ ns" "set ns \<subseteq> {n. Some n \<in> module_name_of ` set ds}"
        "ok \<longrightarrow> (\<forall>d \<in> set ds. \<exists>n. module_name_of d = Some n \<and> oc' n = Some True)"
        by (elim exE conjE) (rule that, assumption+)
      have "oc' n = Some True" using rest(3) one(4) True by (auto simp: map_le_def dom_def)
      moreover have "set (ns1 @ ns) \<subseteq> {n. Some n \<in> module_name_of ` set (d # ds)}" using ns1(2) rest(5) Some by auto
      moreover have "program s' = program s @ ns1 @ ns" using ns1 rest(4) by simp
      moreover have "oc \<subseteq>\<^sub>m oc'" by (rule map_le_trans [OF one(3) rest(3)])
      ultimately show ?thesis
        using rest(1,2,6) Some by (intro exI [of _ ok] exI [of _ oc'] exI [of _ "ns1 @ ns"]) simp
    qed
  qed
qed

lemma load_listed_run:
  fixes r :: "'e + bool \<times> outcome"
  assumes "quiet_loader ld" and "once (program s) oc" and run: "load_listed os (recording ld) rs name oc s = (r, s')"
  shows "\<exists>ok oc' ns. r = Inr (ok, oc') \<and> once (program s') oc' \<and> oc \<subseteq>\<^sub>m oc' \<and> program s' = program s @ ns
    \<and> (ok \<longrightarrow> oc' name = Some True)
    \<and> (name \<in> set ns \<longrightarrow> (\<exists>entry. rs_deps rs name = Some entry \<and> (Some name \<in> module_name_of ` set (mod_deps entry)
          \<or> last ns = name \<and> (\<forall>d \<in> set (mod_deps entry). \<exists>n. module_name_of d = Some n \<and> oc' n = Some True))))"
proof (cases "oc name")
  case (Some ok)
  then have "r = Inr (ok, oc)" "s' = s" using run by (simp_all add: load_listed_def)
  then show ?thesis using Some assms(2) by simp
next
  case None
  obtain b s1 where p: "is_present os rs name s = (Inr b :: 'e + bool, s1)" "program s1 = program s"
    using is_present_run by blast
  show ?thesis
  proof (cases "b \<or> rs_deps rs name = None")
    case True
    then have "r = (if b then Inr (True, oc(name \<mapsto> True)) else Inr (False, oc))" "s' = s1"
      using run None p(1) by (auto simp: load_listed_def bindE_def split: if_splits)
    then show ?thesis using assms(2) p(2) once_update [OF assms(2) None, of True] by (cases b) auto
  next
    case False
    then obtain entry where entry: "rs_deps rs name = Some entry" and b: "\<not> b" by blast
    obtain q :: "'e + bool \<times> outcome" and s2
      where q: "load_deps os (recording ld) rs (rev (mod_deps entry)) oc s1 = (q, s2)" by fastforce
    have "once (program s1) oc" using assms(2) p(2) by simp
    from load_deps_run [OF assms(1) this q] obtain ok1 oc1 ns where deps: "q = Inr (ok1, oc1)"
      "once (program s2) oc1" "oc \<subseteq>\<^sub>m oc1" "program s2 = program s1 @ ns"
      "set ns \<subseteq> {n. Some n \<in> module_name_of ` set (mod_deps entry)}"
      "ok1 \<longrightarrow> (\<forall>d \<in> set (mod_deps entry). \<exists>n. module_name_of d = Some n \<and> oc1 n = Some True)"
      unfolding set_rev by (elim exE conjE) (rule that, assumption+)
    show ?thesis
    proof (cases ok1)
      case False
      then have "r = Inr (False, oc1)" "s' = s2" using run None p(1) entry b q deps(1)
        by (simp_all add: load_listed_def bindE_def)
      moreover have "name \<in> set ns \<longrightarrow> Some name \<in> module_name_of ` set (mod_deps entry)" using deps(5) by blast
      ultimately show ?thesis using deps(2-4) p(2) entry
        by (intro exI [of _ False] exI [of _ oc1] exI [of _ ns]) simp
    next
      case True
      then have one: "load_one os (recording ld) rs name (mod_path entry) oc1 s2 = (r, s')"
        using run None p(1) entry b q deps(1) by (simp add: load_listed_def bindE_def)
      from load_one_run [OF assms(1) this deps(2)] obtain ok oc' where last: "r = Inr (ok, oc')"
        "once (program s') oc'" "oc1 \<subseteq>\<^sub>m oc'" "oc' name = Some ok"
        "program s' = program s2 \<or> program s' = program s2 @ [name]"
        by (elim exE conjE) (rule that, assumption+)
      have kept: "\<forall>d \<in> set (mod_deps entry). \<exists>n. module_name_of d = Some n \<and> oc' n = Some True"
        using deps(6) True last(3) by (fastforce simp: map_le_def dom_def)
      have "oc \<subseteq>\<^sub>m oc'" by (rule map_le_trans [OF deps(3) last(3)])
      moreover have "name \<in> set ns \<longrightarrow> Some name \<in> module_name_of ` set (mod_deps entry)" using deps(5) by blast
      moreover have "program s' = program s @ ns \<or> program s' = program s @ ns @ [name]"
        using last(5) deps(4) p(2) by simp
      ultimately show ?thesis using last(1,2,4) entry kept
        by (elim disjE; intro exI [of _ ok] exI [of _ oc']) (auto intro: exI [of _ ns] exI [of _ "ns @ [name]"])
    qed
  qed
qed

lemma load_entries_run:
  fixes r :: "'e + string list \<times> outcome"
  assumes "quiet_loader ld" and "once (program s) oc" and "distinct names"
    and "fold_io (load_entry os (recording ld) rs) names (failed, oc) s = (r, s')"
  shows "\<exists>failed' oc'. r = Inr (failed @ failed', oc') \<and> once (program s') oc' \<and> oc \<subseteq>\<^sub>m oc' \<and> distinct failed'
    \<and> set failed' \<subseteq> set names \<and> (\<forall>n \<in> set names - set failed'. oc' n = Some True)"
  using assms(2-)
proof (induction names arbitrary: failed oc s)
  case Nil
  then show ?case by auto
next
  case (Cons n names)
  obtain q :: "'e + bool \<times> outcome" and s1 where q: "load_listed os (recording ld) rs n oc s = (q, s1)" by fastforce
  from load_listed_run [OF assms(1) Cons.prems(1) q] obtain ok oc1 where one: "q = Inr (ok, oc1)"
    "once (program s1) oc1" "oc \<subseteq>\<^sub>m oc1" "ok \<longrightarrow> oc1 n = Some True"
    by (elim exE conjE) (rule that, assumption+)
  let ?failed = "if ok then failed else failed @ [n]"
  have rest: "fold_io (load_entry os (recording ld) rs) names (?failed, oc1) s1 = (r, s')"
  proof -
    have "load_entry os (recording ld) rs n (failed, oc) s = (Inr (?failed, oc1) :: 'e + string list \<times> outcome, s1)"
      using q one(1) by (simp add: load_entry_def bindE_def)
    then show ?thesis using Cons.prems(3) by (simp add: bindE_def)
  qed
  have "distinct names" using Cons.prems(2) by simp
  from Cons.IH [OF one(2) this rest] obtain failed' oc' where ih: "r = Inr (?failed @ failed', oc')"
    "once (program s') oc'" "oc1 \<subseteq>\<^sub>m oc'" "distinct failed'" "set failed' \<subseteq> set names"
    "\<forall>n \<in> set names - set failed'. oc' n = Some True" by (elim exE conjE) (rule that, assumption+)
  have le: "oc \<subseteq>\<^sub>m oc'" by (rule map_le_trans [OF one(3) ih(3)])
  have n: "n \<notin> set failed'" using Cons.prems(2) ih(5) by auto
  show ?case
  proof (cases ok)
    case True
    then have "oc' n = Some True" using one(4) ih(3) by (auto simp: map_le_def dom_def)
    then show ?thesis using True ih le by (intro exI [of _ failed'] exI [of _ oc']) auto
  next
    case False
    then show ?thesis using ih le n by (intro exI [of _ "n # failed'"] exI [of _ oc']) auto
  qed
qed

lemma fold_failed_run:
  fixes r :: "'e + string list"
  assumes "fold_io (check_loaded os sys) names failed s = (r, s')" and "distinct (failed @ names)"
  shows "program s' = program s \<and> (\<exists>out. r = Inr out \<and> distinct out \<and> set out \<subseteq> set (failed @ names))"
  using assms
proof (induction names arbitrary: failed s)
  case Nil
  then show ?case by auto
next
  case (Cons n names)
  have quiet: "keeps_prog (is_loaded os sys n)" "never_fails (is_loaded os sys n :: (_, 'e, bool) io)"
    unfolding is_loaded_def by (intro prog_intros total_intros)+
  obtain b s1 where b: "is_loaded os sys n s = (Inr b :: 'e + bool, s1)"
    using quiet(2) unfolding never_fails_def by blast
  let ?failed = "if b then failed else failed @ [n]"
  from keeps_progD [OF quiet(1) b] have same: "program s1 = program s" .
  have "check_loaded os sys n failed s = (Inr ?failed :: 'e + string list, s1)"
    using b by (simp add: check_loaded_def bindE_def)
  then have "fold_io (check_loaded os sys) names ?failed s1 = (r, s')"
    using Cons.prems(1) by (simp add: bindE_def)
  moreover have "distinct (?failed @ names)" using Cons.prems(2) by auto
  ultimately have "program s' = program s1 \<and> (\<exists>out. r = Inr out \<and> distinct out \<and> set out \<subseteq> set (?failed @ names))"
    by (rule Cons.IH)
  then show ?case using same by (auto split: if_splits)
qed

lemma prepare_keeps: "keeps_prog (prepare os paths es)" "never_fails (prepare os paths es)"
  unfolding prepare_def read_or_none_def Let_def by (intro prog_intros total_intros)+

lemma read_config_keeps: "keeps_prog (read_config_dir os dir)"
proof -
  have "keeps_prog (fold_io (\<lambda>f es. caught (sys_text os (ReadText f)) (\<lambda>t. case t of
      Inl _ \<Rightarrow> ret es | Inr t \<Rightarrow> ret (add_file t es))) fs es)" for fs es
    by (induction fs arbitrary: es) (auto intro!: prog_intros)
  then show ?thesis unfolding read_config_dir_def by (intro prog_intros)
qed

text \<open>C24: Early modules are a best effort that never fails the boot, and no module is handed to the
  kernel twice: whatever the files of the image hold and the kernel answers, the names given to the
  loader are pairwise distinct, and the modules reported as not loaded are so too.\<close>

theorem early_modules_once:
  fixes s s' :: "('w, string list) machine" and r :: "'e + string list"
  assumes "quiet_loader ld" and "program s = []" and "load_with os paths (recording ld) s = (r, s')"
  shows "distinct (program s') \<and> (\<exists>failed. r = Inr failed \<and> distinct failed)"
proof -
  obtain c :: "'e + module_entry list" and s1
    where c: "read_config_dir os (path_join (sp_rootfs paths) CONFIG_DIR) s = (c, s1)" by fastforce
  have s1: "program s1 = []" using keeps_progD [OF read_config_keeps c] assms(2) by simp
  obtain es where es: "c = Inr es" "distinct (map entry_name es)"
    using resultsD_Inl [OF results_read_config] resultsD_Inr [OF results_read_config] c
    by (cases c) (fastforce simp: proper_entries_def)+
  show ?thesis
  proof (cases "es = []")
    case True
    then have "r = Inr []" "s' = s1" using assms(3) c es by (simp_all add: load_with_def bindE_def)
    then show ?thesis using s1 by simp
  next
    case False
    obtain rs s2 where p: "prepare os paths es s1 = (Inr rs :: 'e + resolved option, s2)"
      using prepare_keeps(2) unfolding never_fails_def by blast
    have s2: "program s2 = []" using keeps_progD [OF prepare_keeps(1) p] s1 by simp
    show ?thesis
    proof (cases rs)
      case None
      then have "fold_io (check_loaded os (sp_sys_module paths)) (map entry_name es) [] s2 = (r, s')"
        using assms(3) c es p False by (simp add: load_with_def bindE_def)
      from fold_failed_run [OF this] show ?thesis using es(2) s2 by auto
    next
      case (Some res)
      obtain q :: "'e + string list \<times> outcome" and s3
        where q: "fold_io (load_entry os (recording ld) res) (map entry_name es) ([], Map.empty) s2 = (q, s3)" by fastforce
      have "once (program s2) Map.empty" using s2 by (simp add: once_def)
      from load_entries_run [OF assms(1) this es(2) q] obtain failed oc where
        "q = Inr (failed, oc)" "once (program s3) oc" "distinct failed" by auto
      then show ?thesis
        using assms(3) c es p False Some q by (auto simp: load_with_def bindE_def once_def)
    qed
  qed
qed

text \<open>
  What \<open>depmod\<close> documents of a line of \<open>modules.dep\<close>: it lists all that the module needs, each dependency before
  what that dependency needs in turn. \<open>needs n\<close> names the modules that \<open>n\<close> uses.
\<close>

fun needs_later :: "(string \<Rightarrow> string list) \<Rightarrow> string list \<Rightarrow> bool" where
  "needs_later needs [] \<longleftrightarrow> True"
| "needs_later needs (d # ds) \<longleftrightarrow> (case module_name_of d of None \<Rightarrow> True
     | Some n \<Rightarrow> Some ` set (needs n) \<subseteq> module_name_of ` set ds) \<and> needs_later needs ds"

definition depmod_line :: "(string \<Rightarrow> string list) \<Rightarrow> string \<Rightarrow> mod_entry \<Rightarrow> bool" where
  "depmod_line needs name e \<longleftrightarrow>
     Some ` set (needs name) \<subseteq> module_name_of ` set (mod_deps e) \<and> needs_later needs (mod_deps e)"

definition depmod_text :: "(string \<Rightarrow> string list) \<Rightarrow> string \<Rightarrow> bool" where
  "depmod_text needs t \<longleftrightarrow> list_all (\<lambda>l. case parse_dep_line (\<lambda>_. True) l of None \<Rightarrow> True | Some (n, e) \<Rightarrow> depmod_line needs n e)
     (rust_lines t)"

text \<open>What a module needs is there when it is handed over, and not handed over with it or after it.\<close>

definition needs_met :: "(string \<Rightarrow> string list) \<Rightarrow> string list \<Rightarrow> outcome \<Rightarrow> bool" where
  "needs_met needs ns oc \<longleftrightarrow> (\<forall>a n b. ns = a @ n # b \<longrightarrow> (\<forall>m \<in> set (needs n). oc m = Some True \<and> m \<notin> set (n # b)))"

lemma depmod_lines:
  assumes "depmod_text needs t" and "parse_modules_dep t listed n = Some e"
  shows "depmod_line needs n e"
proof -
  from map_of_SomeD [OF assms(2) [unfolded parse_modules_dep_def]] obtain l
    where l: "l \<in> set (rust_lines t)" "parse_dep_line listed l = Some (n, e)"
    by (auto simp: map_filter_def)
  then have "parse_dep_line (\<lambda>_. True) l = Some (n, e)"
    unfolding parse_dep_line_def by (cases "split_once (CHR '':'') l") (auto split: option.splits if_splits)
  with l(1) assms(1) show ?thesis by (fastforce simp: depmod_text_def list_all_iff)
qed

lemma needs_later_append: "needs_later needs (xs @ ys) \<Longrightarrow> needs_later needs ys"
  by (induction xs) auto

lemma needs_met_le: "needs_met needs ns oc \<Longrightarrow> oc \<subseteq>\<^sub>m oc' \<Longrightarrow> needs_met needs ns oc'"
  unfolding needs_met_def by (metis domIff map_le_def option.distinct(1))

lemma needs_met_snoc:
  assumes "needs_met needs ns oc" and "oc name = None" and "\<forall>m \<in> set (needs name). oc m = Some True"
    and "oc \<subseteq>\<^sub>m oc'"
  shows "needs_met needs (ns @ [name]) oc'"
  unfolding needs_met_def
proof (intro allI impI ballI)
  fix a n b m assume split: "ns @ [name] = a @ n # b" and m: "m \<in> set (needs n)"
  have "oc m = Some True \<and> m \<notin> set (n # b)"
  proof (cases b rule: rev_cases)
    case Nil
    then have "n = name" using split by simp
    then show ?thesis using m assms(2,3) Nil by auto
  next
    case (snoc c x)
    then have "ns = a @ n # c" "x = name" using split by simp_all
    then have "oc m = Some True \<and> m \<notin> set (n # c)" using assms(1) m unfolding needs_met_def by blast
    then show ?thesis using assms(2) snoc \<open>x = name\<close> by auto
  qed
  moreover have "oc m = Some True \<Longrightarrow> oc' m = Some True" using assms(4) by (auto simp: map_le_def dom_def)
  ultimately show "oc' m = Some True \<and> m \<notin> set (n # b)" by blast
qed

lemma load_one_needs:
  fixes r :: "'e + bool \<times> outcome"
  assumes "quiet_loader ld" and "load_one os (recording ld) rs name dep oc s = (r, s')" and "once (program s) oc"
    and "needs_met needs (program s) oc" and "\<forall>m \<in> set (needs name). oc m = Some True"
  shows "\<exists>ok oc'. r = Inr (ok, oc') \<and> once (program s') oc' \<and> oc \<subseteq>\<^sub>m oc' \<and> oc' name = Some ok
    \<and> needs_met needs (program s') oc'"
proof -
  from load_one_run [OF assms(1-3)] obtain ok oc' where run: "r = Inr (ok, oc')" "once (program s') oc'"
    "oc \<subseteq>\<^sub>m oc'" "oc' name = Some ok" "program s' = program s \<or> program s' = program s @ [name]" by blast
  have "needs_met needs (program s') oc'"
  proof (cases "oc name")
    case (Some b)
    then have "program s' = program s" using assms(2) by (simp add: load_one_def)
    then show ?thesis using needs_met_le [OF assms(4) run(3)] by simp
  next
    case None
    show ?thesis using run(5) needs_met_le [OF assms(4) run(3)] needs_met_snoc [OF assms(4) None assms(5) run(3)] by auto
  qed
  then show ?thesis using run by blast
qed

lemma load_deps_needs:
  fixes r :: "'e + bool \<times> outcome"
  assumes "quiet_loader ld" and "once (program s) oc" and "needs_met needs (program s) oc"
    and "load_deps os (recording ld) rs ds oc s = (r, s')" and "needs_later needs (rev ds @ seen)"
    and "\<forall>m. Some m \<in> module_name_of ` set seen \<longrightarrow> oc m = Some True"
  shows "\<exists>ok oc'. r = Inr (ok, oc') \<and> once (program s') oc' \<and> oc \<subseteq>\<^sub>m oc' \<and> needs_met needs (program s') oc'
    \<and> (ok \<longrightarrow> (\<forall>m. Some m \<in> module_name_of ` set (rev ds @ seen) \<longrightarrow> oc' m = Some True))"
  using assms(2-)
proof (induction ds arbitrary: oc s seen)
  case Nil
  then show ?case by auto
next
  case (Cons d ds)
  show ?case
  proof (cases "module_name_of d")
    case None
    then show ?thesis using Cons.prems(1-3) by auto
  next
    case (Some n)
    obtain q :: "'e + bool \<times> outcome" and s1 where q: "load_one os (recording ld) rs n d oc s = (q, s1)" by fastforce
    have "needs_later needs (d # seen)" using Cons.prems(4) by (auto dest: needs_later_append [of _ "rev ds"])
    then have "\<forall>m \<in> set (needs n). oc m = Some True" using Some Cons.prems(5) by auto
    from load_one_needs [OF assms(1) q Cons.prems(1,2) this] obtain ok1 oc1 where one: "q = Inr (ok1, oc1)"
      "once (program s1) oc1" "oc \<subseteq>\<^sub>m oc1" "oc1 n = Some ok1" "needs_met needs (program s1) oc1" by blast
    show ?thesis
    proof (cases ok1)
      case False
      then show ?thesis using Cons.prems(3) Some q one by (auto simp: bindE_def)
    next
      case True
      then have run: "load_deps os (recording ld) rs ds oc1 s1 = (r, s')"
        using Cons.prems(3) Some q one(1) by (simp add: bindE_def)
      have "oc m = Some True \<Longrightarrow> oc1 m = Some True" for m using one(3) by (auto simp: map_le_def dom_def)
      then have "\<forall>m. Some m \<in> module_name_of ` set (d # seen) \<longrightarrow> oc1 m = Some True"
        using Cons.prems(5) one(4) True Some by auto
      from Cons.IH [OF one(2,5) run _ this] Cons.prems(4) obtain ok oc' where "r = Inr (ok, oc')"
        "once (program s') oc'" "oc1 \<subseteq>\<^sub>m oc'" "needs_met needs (program s') oc'"
        "ok \<longrightarrow> (\<forall>m. Some m \<in> module_name_of ` set (rev ds @ d # seen) \<longrightarrow> oc' m = Some True)" by auto
      then show ?thesis using map_le_trans [OF one(3)] by auto
    qed
  qed
qed

lemma load_listed_needs:
  fixes r :: "'e + bool \<times> outcome"
  assumes "quiet_loader ld" and "once (program s) oc" and "needs_met needs (program s) oc"
    and run: "load_listed os (recording ld) rs name oc s = (r, s')"
    and dep: "\<And>e. rs_deps rs name = Some e \<Longrightarrow> depmod_line needs name e"
  shows "\<exists>ok oc'. r = Inr (ok, oc') \<and> once (program s') oc' \<and> needs_met needs (program s') oc'"
proof (cases "oc name")
  case (Some ok)
  then show ?thesis using run assms(2,3) by (auto simp: load_listed_def)
next
  case None
  obtain b s1 where p: "is_present os rs name s = (Inr b :: 'e + bool, s1)" "program s1 = program s"
    using is_present_run by blast
  show ?thesis
  proof (cases "b \<or> rs_deps rs name = None")
    case True
    then have "r = (if b then Inr (True, oc(name \<mapsto> True)) else Inr (False, oc))" "s' = s1"
      using run None p(1) by (auto simp: load_listed_def bindE_def split: if_splits)
    then show ?thesis
      using assms(2,3) p(2) once_update [OF assms(2) None, of True] needs_met_le [OF assms(3), of "oc(name \<mapsto> True)"]
      by (cases b) auto
  next
    case False
    then obtain e where e: "rs_deps rs name = Some e" and b: "\<not> b" by blast
    obtain q :: "'e + bool \<times> outcome" and s2
      where q: "load_deps os (recording ld) rs (rev (mod_deps e)) oc s1 = (q, s2)" by fastforce
    have line: "Some ` set (needs name) \<subseteq> module_name_of ` set (mod_deps e)" "needs_later needs (rev (rev (mod_deps e)) @ [])"
      using dep [OF e] by (simp_all add: depmod_line_def)
    have "once (program s1) oc" "needs_met needs (program s1) oc" using assms(2,3) p(2) by simp_all
    from load_deps_needs [OF assms(1) this q line(2)] obtain ok1 oc1 where deps: "q = Inr (ok1, oc1)"
      "once (program s2) oc1" "needs_met needs (program s2) oc1"
      "ok1 \<longrightarrow> (\<forall>m. Some m \<in> module_name_of ` set (mod_deps e) \<longrightarrow> oc1 m = Some True)" by auto
    show ?thesis
    proof (cases ok1)
      case False
      then have "r = Inr (False, oc1)" "s' = s2" using run None p(1) e b q deps(1) by (simp_all add: load_listed_def bindE_def)
      then show ?thesis using deps(2,3) by blast
    next
      case True
      then have one: "load_one os (recording ld) rs name (mod_path e) oc1 s2 = (r, s')"
        using run None p(1) e b q deps(1) by (simp add: load_listed_def bindE_def)
      have "\<forall>m \<in> set (needs name). oc1 m = Some True" using deps(4) True line(1) by blast
      from load_one_needs [OF assms(1) one deps(2,3) this] show ?thesis by blast
    qed
  qed
qed

lemma load_entries_needs:
  fixes r :: "'e + string list \<times> outcome"
  assumes "quiet_loader ld" and "\<And>n e. rs_deps rs n = Some e \<Longrightarrow> depmod_line needs n e"
    and "once (program s) oc" and "needs_met needs (program s) oc"
    and "fold_io (load_entry os (recording ld) rs) names (failed, oc) s = (r, s')"
  shows "\<exists>failed' oc'. r = Inr (failed', oc') \<and> once (program s') oc' \<and> needs_met needs (program s') oc'"
  using assms(3-)
proof (induction names arbitrary: failed oc s)
  case Nil
  then show ?case by auto
next
  case (Cons n names)
  obtain q :: "'e + bool \<times> outcome" and s1 where q: "load_listed os (recording ld) rs n oc s = (q, s1)" by fastforce
  from load_listed_needs [OF assms(1) Cons.prems(1,2) q assms(2)] obtain ok oc1 where one: "q = Inr (ok, oc1)"
    "once (program s1) oc1" "needs_met needs (program s1) oc1" by blast
  have "load_entry os (recording ld) rs n (failed, oc) s
      = (Inr (if ok then failed else failed @ [n], oc1) :: 'e + string list \<times> outcome, s1)"
    using q one(1) by (simp add: load_entry_def bindE_def)
  then have "fold_io (load_entry os (recording ld) rs) names (if ok then failed else failed @ [n], oc1) s1 = (r, s')"
    using Cons.prems(3) by (simp add: bindE_def)
  from Cons.IH [OF one(2,3) this] show ?case .
qed

text \<open>The tables the loading works with are those of the text read.\<close>

lemma prepare_depmod:
  assumes text_doc: "\<And>p w t w'. os_text os (ReadText (path_join p MODULES_DEP)) w = (Inr t, w') \<Longrightarrow> depmod_text needs t"
  shows "results (\<lambda>_. True) (\<lambda>r. case r of None \<Rightarrow> True
    | Some rs \<Rightarrow> \<forall>n e. rs_deps rs n = Some e \<longrightarrow> depmod_line needs n e) (prepare os paths es)"
proof -
  have dep: "results (\<lambda>_. True) (\<lambda>d. case d of None \<Rightarrow> True | Some t \<Rightarrow> depmod_text needs t)
      (read_or_none os (path_join p MODULES_DEP))" for p
    unfolding read_or_none_def results_def
    by (auto simp: caught_def sys_text_def dest: text_doc split: sum.split prod.split)
  have any: "results (\<lambda>_. True) (\<lambda>_. True) (read_or_none os p)" for p by (rule results_any)
  show ?thesis
    unfolding prepare_def Let_def
    by (intro results_bindE [OF any] results_bindE [OF dep] result_intros results_cases)
      (auto dest: depmod_lines)
qed

text \<open>
  C25: Dependencies come first: with a \<open>modules.dep\<close> as \<open>depmod\<close> documents it, and whatever modules the
  configuration lists and in whatever order, each module handed to the kernel finds what it needs: each module
  it needs ends the run as loaded or present and is handed over, if at all, before it.
\<close>

theorem early_modules_deps_first:
  fixes s s' :: "('w, string list) machine" and r :: "'e + string list \<times> outcome"
  assumes "quiet_loader ld" and "program s0 = []"
    and "\<And>p w t w'. os_text os (ReadText (path_join p MODULES_DEP)) w = (Inr t, w') \<Longrightarrow> depmod_text needs t"
    and "prepare os paths es s0 = (Inr (Some rs) :: 'e + _, s)"
    and "fold_io (load_entry os (recording ld) rs) (map entry_name es) ([], Map.empty) s = (r, s')"
  shows "\<exists>failed oc. r = Inr (failed, oc) \<and> (\<forall>a n b. program s' = a @ n # b \<longrightarrow>
    (\<forall>m \<in> set (needs n). oc m = Some True \<and> m \<notin> set (n # b)))"
proof -
  have "program s = []" using keeps_progD [OF prepare_keeps(1) assms(4)] assms(2) by simp
  then have s: "once (program s) Map.empty" "needs_met needs (program s) Map.empty"
    by (simp_all add: once_def needs_met_def)
  have "\<forall>n e. rs_deps rs n = Some e \<longrightarrow> depmod_line needs n e"
    using resultsD_Inr [OF prepare_depmod [OF assms(3)] assms(4)] by simp
  then have tables: "\<And>n e. rs_deps rs n = Some e \<Longrightarrow> depmod_line needs n e" by blast
  from load_entries_needs [OF assms(1) tables s assms(5)] show ?thesis unfolding needs_met_def by blast
qed

text \<open>A device with one configuration file and a module that depends on another.\<close>

definition device_files :: "string \<Rightarrow> string option" where
  "device_files = [
     ''/r/etc/omnect/early-modules.d/a.conf'' \<mapsto> ''# boot'' @ [newline] @ ''vcan mtu=72'' @ [newline],
     OSRELEASE \<mapsto> ''6'' @ [newline],
     ''/r/lib/modules/6/modules.dep'' \<mapsto> ''net/vcan.ko: net/can-dev.ko.xz'' @ [newline],
     ''/r/lib/modules/6/modules.builtin'' \<mapsto> ''fs/ext4.ko'' @ [newline]]"

definition device_os :: "unit os" where
  "device_os = \<lparr>os_unit = \<lambda>_ w. (Inr (), w),
     os_text = \<lambda>c w. (case c of ReadText p \<Rightarrow> (case device_files p of
         Some t \<Rightarrow> Inr t | None \<Rightarrow> Inl (IoError NotFound [])) | _ \<Rightarrow> Inr [], w),
     os_bool = \<lambda>_ w. (False, w), os_num = \<lambda>_ w. (Inr 0, w), os_run = \<lambda>_ w. (Inl (IoError NotFound []), w),
     os_stat = \<lambda>_ w. (Inl (IoError NotFound []), w),
     os_entries = \<lambda>_ w. (Inr [Inr ''a.conf'', Inr ''readme''], w),
     os_addrs = \<lambda>_ w. (Inr [], w), os_delay = \<lambda>_ _. 1\<rparr>"

definition device_paths :: sys_paths where
  "device_paths = \<lparr>sp_rootfs = ''/r'', sp_osrelease = OSRELEASE, sp_firmware_path_param = FIRMWARE_PATH_PARAM,
     sp_sys_module = SYS_MODULE\<rparr>"

definition idle_loader_machine :: "(unit, string list) machine" where
  "idle_loader_machine = \<lparr>world = (), trace = [], clock = 0, program = []\<rparr>"

lemma device_config:
  "fst (read_config_dir device_os ''/r/etc/omnect/early-modules.d'' idle_loader_machine :: (unit + module_entry list) \<times> _)
   = Inr [\<lparr>entry_name = ''vcan'', entry_params = ''mtu=72''\<rparr>]"
  by code_simp

lemma early_modules_once_witness:
  "\<exists>s' failed. load_with device_os device_paths (recording (kernel_load device_os)) idle_loader_machine
       = (Inr failed :: unit + string list, s')
     \<and> distinct (program s') \<and> distinct failed"
proof -
  obtain r :: "unit + string list" and s' where
    run: "load_with device_os device_paths (recording (kernel_load device_os)) idle_loader_machine = (r, s')" by fastforce
  have "program idle_loader_machine = []" by (simp add: idle_loader_machine_def)
  from early_modules_once [OF quiet_kernel this run] run show ?thesis by fastforce
qed

definition device_needs :: "string \<Rightarrow> string list" where
  "device_needs n = (if n = ''vcan'' then [''can_dev''] else [])"

lemma device_table_ok: "depmod_text device_needs (''net/vcan.ko: net/can-dev.ko.xz'' @ [newline])"
  by code_simp

lemma device_dep_files:
  assumes "os_text device_os (ReadText (path_join p MODULES_DEP)) w = (Inr t, w')"
  shows "depmod_text device_needs t"
proof -
  have "take 3 (rev (path_join p MODULES_DEP)) = ''ped''"
    by (simp add: path_join_def MODULES_DEP_def)
  moreover have "device_files (path_join p MODULES_DEP) = Some t"
    using assms by (simp add: device_os_def split: option.splits)
  ultimately show ?thesis
    using device_table_ok by (auto simp: device_files_def OSRELEASE_def split: if_splits)
qed

definition device_entries :: "module_entry list" where
  "device_entries = [\<lparr>entry_name = ''vcan'', entry_params = ''mtu=72''\<rparr>]"

definition device_resolved :: resolved where
  "device_resolved = \<lparr>rs_rootfs = ''/r'', rs_sys_module = SYS_MODULE, rs_modules_dir = ''/r/lib/modules/6'',
     rs_builtin = [''ext4''], rs_deps = [''vcan'' \<mapsto> \<lparr>mod_path = ''net/vcan.ko'', mod_deps = [''net/can-dev.ko.xz'']\<rparr>],
     rs_params = [''vcan'' \<mapsto> ''mtu=72'']\<rparr>"

lemma device_line:
  "parse_dep_line (\<lambda>n. n = ''vcan'') ''net/vcan.ko: net/can-dev.ko.xz''
     = Some (''vcan'', \<lparr>mod_path = ''net/vcan.ko'', mod_deps = [''net/can-dev.ko.xz'']\<rparr>)"
  by code_simp

lemma device_lines: "rust_lines (''net/vcan.ko: net/can-dev.ko.xz'' @ [newline]) = [''net/vcan.ko: net/can-dev.ko.xz'']"
  by code_simp

lemma device_builtin: "parse_modules_builtin (''fs/ext4.ko'' @ [newline]) = [''ext4'']"
  by code_simp

lemma device_release: "trim (''6'' @ [newline]) = ''6''"
  by code_simp

lemma device_dirs:
  "path_join (path_join ''/r'' MODULES_DIR) ''6'' = ''/r/lib/modules/6''"
  "path_join ''/r/lib/modules/6'' MODULES_DEP = ''/r/lib/modules/6/modules.dep''"
  "path_join ''/r/lib/modules/6'' MODULES_BUILTIN = ''/r/lib/modules/6/modules.builtin''"
  by code_simp+

lemma device_contents:
  "device_files OSRELEASE = Some (''6'' @ [newline])"
  "device_files ''/r/lib/modules/6/modules.dep'' = Some (''net/vcan.ko: net/can-dev.ko.xz'' @ [newline])"
  "device_files ''/r/lib/modules/6/modules.builtin'' = Some (''fs/ext4.ko'' @ [newline])"
  by code_simp+

lemma device_read:
  assumes "device_files p = Some t"
  obtains s' where "read_or_none device_os p s = (Inr (Some t), s')"
  using assms that by (auto simp: read_or_none_def caught_def sys_text_def device_os_def)

lemma device_prepare:
  "\<exists>s'. prepare device_os device_paths device_entries s = (Inr (Some device_resolved) :: unit + _, s')"
proof -
  have table: "parse_modules_dep (''net/vcan.ko: net/can-dev.ko.xz'' @ [newline]) (\<lambda>n. n = ''vcan'')
      = [''vcan'' \<mapsto> \<lparr>mod_path = ''net/vcan.ko'', mod_deps = [''net/can-dev.ko.xz'']\<rparr>]"
    unfolding parse_modules_dep_def device_lines by (simp add: device_line map_filter_def)
  obtain s1 where s1: "read_or_none device_os OSRELEASE s = (Inr (Some (''6'' @ [newline])) :: unit + _, s1)"
    by (rule device_read [OF device_contents(1)])
  obtain s2 where s2: "read_or_none device_os ''/r/lib/modules/6/modules.dep'' s1
      = (Inr (Some (''net/vcan.ko: net/can-dev.ko.xz'' @ [newline])) :: unit + _, s2)"
    by (rule device_read [OF device_contents(2)])
  obtain s3 where s3: "read_or_none device_os ''/r/lib/modules/6/modules.builtin'' s2
      = (Inr (Some (''fs/ext4.ko'' @ [newline])) :: unit + _, s3)"
    by (rule device_read [OF device_contents(3)])
  obtain s4 where s4: "sys_unit device_os (WriteFile FIRMWARE_PATH_PARAM (path_join ''/r'' FIRMWARE_DIR)) s3 = (Inr (), s4)"
    by (simp add: sys_unit_def device_os_def)
  have "prepare device_os device_paths device_entries s = (Inr (Some device_resolved) :: unit + _, s4)"
    by (simp add: prepare_def bindE_def caught_def Let_def device_paths_def s1 [simplified] device_release [simplified]
        device_dirs [simplified] s2 [simplified] s3 [simplified] s4 [simplified] device_builtin [simplified]
        table [simplified] device_resolved_def device_entries_def)
  then show ?thesis ..
qed

lemma device_load_one:
  assumes "oc n = None" and "n \<noteq> ''ext4''"
  obtains s' where "load_one device_os (recording (kernel_load device_os)) device_resolved n d oc s = (Inr (True, oc(n \<mapsto> True)), s')"
    and "program s' = program s @ [n]"
  using assms that
  by (auto simp: load_one_def is_present_def is_loaded_def finit_def device_resolved_def sys_bool_def test_path_def bindE_def Let_def
      caught_def sys_unit_def device_os_def recording_def kernel_load_def modify_prog_def)

lemma device_dep_name: "module_name_of ''net/can-dev.ko.xz'' = Some ''can_dev''"
  by code_simp

lemma device_run:
  assumes "program s = []"
  obtains q s' where "fold_io (load_entry device_os (recording (kernel_load device_os)) device_resolved)
     (map entry_name device_entries) ([], Map.empty) s = (q, s')" and "program s' = [''can_dev'', ''vcan'']"
proof -
  obtain s1 where s1: "is_present device_os device_resolved ''vcan'' s = (Inr False :: 'a + _, s1)" "program s1 = []"
    using assms by (auto simp: is_present_def is_loaded_def sys_bool_def test_path_def device_os_def device_resolved_def)
  obtain s2 where s2: "load_one device_os (recording (kernel_load device_os)) device_resolved ''can_dev''
      ''net/can-dev.ko.xz'' Map.empty s1 = (Inr (True, [''can_dev'' \<mapsto> True]) :: 'a + _, s2)" "program s2 = [''can_dev'']"
    by (rule device_load_one [of Map.empty "''can_dev''" "''net/can-dev.ko.xz''" s1]) (use s1(2) in auto)
  obtain s3 where s3: "load_one device_os (recording (kernel_load device_os)) device_resolved ''vcan''
      ''net/vcan.ko'' [''can_dev'' \<mapsto> True] s2 = (Inr (True, [''can_dev'' \<mapsto> True, ''vcan'' \<mapsto> True]) :: 'a + _, s3)"
    "program s3 = [''can_dev'', ''vcan'']"
    by (rule device_load_one [of "[''can_dev'' \<mapsto> True]" "''vcan''" "''net/vcan.ko''" s2]) (use s2(2) in auto)
  have "rs_deps device_resolved ''vcan'' = Some \<lparr>mod_path = ''net/vcan.ko'', mod_deps = [''net/can-dev.ko.xz'']\<rparr>"
    by (simp add: device_resolved_def)
  then show ?thesis
    using s1 s2 s3 by (intro that) (simp_all add: load_entry_def load_listed_def bindE_def device_entries_def device_dep_name)
qed

lemma early_modules_deps_first_witness:
  "\<exists>rs s failed oc s'. prepare device_os device_paths device_entries idle_loader_machine = (Inr (Some rs) :: unit + _, s)
     \<and> fold_io (load_entry device_os (recording (kernel_load device_os)) rs) (map entry_name device_entries)
         ([], Map.empty) s = (Inr (failed, oc) :: unit + _, s')
     \<and> program s' = [''can_dev'', ''vcan''] \<and> oc ''can_dev'' = Some True"
proof -
  obtain s where prep: "prepare device_os device_paths device_entries idle_loader_machine
      = (Inr (Some device_resolved) :: unit + _, s)" using device_prepare by blast
  have idle: "program idle_loader_machine = []" by (simp add: idle_loader_machine_def)
  then have "program s = []" using keeps_progD [OF prepare_keeps(1) prep] by simp
  then obtain r :: "unit + string list \<times> outcome" and s' where
    run: "fold_io (load_entry device_os (recording (kernel_load device_os)) device_resolved) (map entry_name device_entries)
       ([], Map.empty) s = (r, s')" and order: "program s' = [''can_dev'', ''vcan'']" by (rule device_run)
  note deps_first = early_modules_deps_first [where needs = device_needs, OF quiet_kernel idle _ prep run]
  have "\<exists>failed oc. r = Inr (failed, oc) \<and> (\<forall>a n b. program s' = a @ n # b \<longrightarrow>
      (\<forall>m \<in> set (device_needs n). oc m = Some True \<and> m \<notin> set (n # b)))"
    by (rule deps_first) (rule device_dep_files)
  then obtain failed oc where "r = Inr (failed, oc)" and met: "\<forall>a n b. program s' = a @ n # b \<longrightarrow>
      (\<forall>m \<in> set (device_needs n). oc m = Some True \<and> m \<notin> set (n # b))" by blast
  moreover have "oc ''can_dev'' = Some True"
    using met [rule_format, of "[''can_dev'']" "''vcan''" "[]" "''can_dev''"] order by (simp add: device_needs_def)
  ultimately show ?thesis using prep run order by blast
qed

end
