(* ===== verification/Early_Init.thy ===== *)
theory Early_Init
  imports Fsck_Run
begin

text \<open>
  \<open>src/early_init.rs\<close>: the mounts everything else needs, and \<open>disable_printk_ratelimit\<close> of
  \<open>src/logging/kmsg.rs\<close>.
\<close>

record essential_mount =
  em_path :: string
  em_fstype :: string
  em_flags :: "mount_flag list"
  em_data :: "string option"

definition RUN_FLAGS :: "mount_flag list" where "RUN_FLAGS = [Ms_NoSuid, Ms_NoDev, Ms_StrictAtime]"

definition ESSENTIAL_MOUNTS :: "essential_mount list" where
  "ESSENTIAL_MOUNTS =
    [\<lparr>em_path = ''/dev'', em_fstype = ''devtmpfs'', em_flags = [], em_data = None\<rparr>,
     \<lparr>em_path = ''/proc'', em_fstype = ''proc'', em_flags = [], em_data = None\<rparr>,
     \<lparr>em_path = ''/sys'', em_fstype = ''sysfs'', em_flags = [], em_data = None\<rparr>,
     \<lparr>em_path = ''/run'', em_fstype = ''tmpfs'', em_flags = RUN_FLAGS, em_data = Some ''mode=0755''\<rparr>]"

definition PRINTK_DEVKMSG_PATH :: string where "PRINTK_DEVKMSG_PATH = ''/proc/sys/kernel/printk_devkmsg''"

definition disable_printk_ratelimit :: "'w os \<Rightarrow> (('w, 'p) machine, 'e, unit) io" where
  "disable_printk_ratelimit os = ignore (sys_unit os (WriteFile PRINTK_DEVKMSG_PATH (''on'' @ [newline])))"

definition do_mount :: "'w os \<Rightarrow> string \<Rightarrow> string \<Rightarrow> string \<Rightarrow> mount_flag list \<Rightarrow> string option \<Rightarrow>
    (('w, 'p) machine, early_init_error, unit) io" where
  "do_mount os source tgt fstype flags data = map_err (\<lambda>e. EarlyMountFailed tgt (show_io e))
     (sys_unit os (MountCall (Some source) tgt (Some fstype) flags data))"

definition mount_essential_filesystems :: "'w os \<Rightarrow> (('w, 'p) machine, early_init_error, unit) io" where
  "mount_essential_filesystems os =
     bindE (for_each ESSENTIAL_MOUNTS (\<lambda>m. do_mount os (em_fstype m) (em_path m) (em_fstype m) (em_flags m) (em_data m)))
       (\<lambda>_. disable_printk_ratelimit os)"

end
