(* ===== verification/Capture.thy ===== *)
theory Capture
  imports Rust_Str
begin

text \<open>
  \<open>src/logging/capture.rs\<close>: the copy of the log lines a flash mode writes to the boot partition. The two
  statics are the fields of \<open>capture_state\<close>; \<open>poisoned\<close> is the state of the lock around the buffer.
  The flash modes are the only callers of start and take; every log record of the program is offered
  to \<open>capture_record\<close>, in any order with them, which the step relation at the end describes.
\<close>

definition CAPTURE_MAX_LINES :: nat where "CAPTURE_MAX_LINES = 4096"

record capture_state =
  capturing :: bool
  capture_buffer :: "string list option"
  poisoned :: bool

definition capture_idle :: capture_state where
  "capture_idle = \<lparr>capturing = False, capture_buffer = None, poisoned = False\<rparr>"

definition stop_marker :: string where
  "stop_marker = ''log capture stopped after '' @ show_nat CAPTURE_MAX_LINES @ '' lines''"

definition push_bounded :: "string list \<Rightarrow> string \<Rightarrow> string list" where
  "push_bounded buffer l = (if length buffer < CAPTURE_MAX_LINES then buffer @ [l]
     else if length buffer = CAPTURE_MAX_LINES then buffer @ [stop_marker] else buffer)"

definition capture_line :: "string \<Rightarrow> string \<Rightarrow> string" where
  "capture_line level args = ''['' @ level @ ''] '' @ args"

definition capture_record :: "string \<Rightarrow> string \<Rightarrow> capture_state \<Rightarrow> capture_state" where
  "capture_record level args st = (if \<not> capturing st \<or> poisoned st then st
     else (case capture_buffer st of
         None \<Rightarrow> st
       | Some buffer \<Rightarrow> st\<lparr>capture_buffer := Some (push_bounded buffer (capture_line level args))\<rparr>))"

definition start_capture :: "capture_state \<Rightarrow> capture_state" where
  "start_capture st = (if poisoned st then st else st\<lparr>capture_buffer := Some [], capturing := True\<rparr>)"

definition take_capture :: "capture_state \<Rightarrow> string list \<times> capture_state" where
  "take_capture st = (if poisoned st then ([], st\<lparr>capturing := False\<rparr>)
     else ((case capture_buffer st of Some buffer \<Rightarrow> buffer | None \<Rightarrow> []),
           st\<lparr>capturing := False, capture_buffer := None\<rparr>))"

section \<open>The kernel log\<close>

text \<open>The lines \<open>src/logging/kmsg.rs\<close> writes to \<open>/dev/kmsg\<close>, and what a log record does to the capture.\<close>

datatype log_level = Error_Level | Warn_Level | Info_Level | Debug_Level | Trace_Level

definition LOG_PREFIX :: string where "LOG_PREFIX = ''omnect-os-initramfs: ''"
definition KMSG_PATH :: string where "KMSG_PATH = ''/dev/kmsg''"

definition level_str :: "log_level \<Rightarrow> string" where
  "level_str l = (case l of Error_Level \<Rightarrow> ''ERROR'' | Warn_Level \<Rightarrow> ''WARN'' | Info_Level \<Rightarrow> ''INFO''
     | Debug_Level \<Rightarrow> ''DEBUG'' | Trace_Level \<Rightarrow> ''TRACE'')"

definition level_to_kernel_prefix :: "log_level \<Rightarrow> string" where
  "level_to_kernel_prefix l = (case l of Error_Level \<Rightarrow> ''<3>'' | Warn_Level \<Rightarrow> ''<4>'' | Info_Level \<Rightarrow> ''<6>''
     | Debug_Level \<Rightarrow> ''<7>'' | Trace_Level \<Rightarrow> ''<7>'')"

definition kmsg_line :: "log_level \<Rightarrow> string \<Rightarrow> string" where
  "kmsg_line l args = level_to_kernel_prefix l @ LOG_PREFIX @ args @ [newline]"

definition log_record :: "log_level \<Rightarrow> string \<Rightarrow> capture_state \<Rightarrow> string \<times> capture_state" where
  "log_record l args st = (kmsg_line l args, capture_record (level_str l) args st)"

definition fatal_line :: "string \<Rightarrow> string" where
  "fatal_line message = ''<2>'' @ LOG_PREFIX @ ''FATAL: '' @ message @ [newline]"

definition direct_line :: "string \<Rightarrow> string" where
  "direct_line message = ''<6>'' @ LOG_PREFIX @ message @ [newline]"

section \<open>Runs\<close>

inductive capture_step :: "capture_state \<Rightarrow> capture_state \<Rightarrow> bool" where
  step_record: "capture_step st (capture_record level args st)"
| step_start: "capture_step st (start_capture st)"
| step_take: "capture_step st (snd (take_capture st))"
| step_poison: "capture_step st (st\<lparr>poisoned := True\<rparr>)"

inductive_cases capture_stepE: "capture_step st st'"

definition capture_reachable :: "capture_state \<Rightarrow> bool" where
  "capture_reachable st \<longleftrightarrow> capture_step\<^sup>*\<^sup>* capture_idle st"

definition capture_inv :: "capture_state \<Rightarrow> bool" where
  "capture_inv st \<longleftrightarrow> (capturing st \<longrightarrow> capture_buffer st \<noteq> None)
     \<and> (\<forall>b. capture_buffer st = Some b \<longrightarrow> length b \<le> Suc CAPTURE_MAX_LINES)"

lemma push_bounded_length: "length b \<le> Suc CAPTURE_MAX_LINES \<Longrightarrow> length (push_bounded b l) \<le> Suc CAPTURE_MAX_LINES"
  by (auto simp: push_bounded_def)

lemma capture_inv_step: "capture_step st st' \<Longrightarrow> capture_inv st \<Longrightarrow> capture_inv st'"
  by (induction rule: capture_step.induct)
     (auto simp: capture_inv_def capture_record_def start_capture_def take_capture_def push_bounded_length
        split: option.splits if_splits)

text \<open>However records, starts and takes interleave, a running capture always has a buffer behind it,
  and the buffer never grows past its bound and the one marker line.\<close>

lemma capture_bounded:
  assumes "capture_reachable st"
  shows "(capturing st \<longrightarrow> capture_buffer st \<noteq> None) \<and> length (fst (take_capture st)) \<le> Suc CAPTURE_MAX_LINES"
proof -
  from assms have "capture_inv st"
    unfolding capture_reachable_def
  proof (induction rule: rtranclp_induct)
    case (step y z)
    then show ?case using capture_inv_step by blast
  qed (simp add: capture_inv_def capture_idle_def)
  then show ?thesis by (auto simp: capture_inv_def take_capture_def split: option.split)
qed

section \<open>What a capture holds\<close>

definition capture_all :: "(string \<times> string) list \<Rightarrow> capture_state \<Rightarrow> capture_state" where
  "capture_all records = fold (\<lambda>(level, args). capture_record level args) records"

lemma push_full: "length c = Suc CAPTURE_MAX_LINES \<Longrightarrow> fold (\<lambda>l b. push_bounded b l) xs c = c"
  by (induction xs) (simp_all add: push_bounded_def)

lemma push_all:
  "length b \<le> CAPTURE_MAX_LINES \<Longrightarrow> fold (\<lambda>l b. push_bounded b l) ls b =
     (if length (b @ ls) \<le> CAPTURE_MAX_LINES then b @ ls else take CAPTURE_MAX_LINES (b @ ls) @ [stop_marker])"
proof (induction ls arbitrary: b)
  case (Cons l ls)
  show ?case
  proof (cases "length b = CAPTURE_MAX_LINES")
    case True
    then have "push_bounded b l = b @ [stop_marker]" by (simp add: push_bounded_def)
    then show ?thesis using True push_full [of "b @ [stop_marker]" ls] by simp
  next
    case False
    then have "push_bounded b l = b @ [l]" "length (b @ [l]) \<le> CAPTURE_MAX_LINES"
      using Cons.prems by (simp_all add: push_bounded_def)
    then show ?thesis using Cons.IH [of "b @ [l]"] by simp
  qed
qed simp

lemma capture_all_buffer:
  "capturing st \<Longrightarrow> \<not> poisoned st \<Longrightarrow> capture_buffer st = Some b \<Longrightarrow>
   capture_all rs st = st\<lparr>capture_buffer := Some (fold (\<lambda>l b. push_bounded b l) (map (\<lambda>(v, a). capture_line v a) rs) b)\<rparr>"
proof (induction rs arbitrary: st b)
  case (Cons r rs)
  obtain v a where r: "r = (v, a)" by (cases r)
  have step: "capture_record v a st = st\<lparr>capture_buffer := Some (push_bounded b (capture_line v a))\<rparr>"
    using Cons.prems by (simp add: capture_record_def)
  have "capture_all rs (capture_record v a st) = (capture_record v a st)\<lparr>capture_buffer :=
      Some (fold (\<lambda>l b. push_bounded b l) (map (\<lambda>(v, a). capture_line v a) rs) (push_bounded b (capture_line v a)))\<rparr>"
    by (rule Cons.IH) (simp_all add: step Cons.prems)
  then show ?case by (simp add: capture_all_def r step)
qed (simp add: capture_all_def)

text \<open>C37: Between a start and the next take, the capture holds the first lines in their order, each with its
  level, and one marker line when there were more.\<close>

theorem capture_keeps_first:
  assumes "\<not> poisoned st"
  shows "fst (take_capture (capture_all rs (start_capture st))) =
    (let ls = map (\<lambda>(level, args). capture_line level args) rs in
     if length ls \<le> CAPTURE_MAX_LINES then ls else take CAPTURE_MAX_LINES ls @ [stop_marker])"
proof -
  let ?st = "start_capture st"
  have st: "capturing ?st" "\<not> poisoned ?st" "capture_buffer ?st = Some []"
    using assms by (simp_all add: start_capture_def)
  show ?thesis
    unfolding capture_all_buffer [OF st]
    using st push_all [of "[]"] by (simp add: take_capture_def Let_def)
qed

lemma capture_bounded_witness:
  "length (fst (take_capture (capture_record ''INFO'' ''x'' (start_capture capture_idle)))) \<le> Suc CAPTURE_MAX_LINES"
proof -
  have "capture_step\<^sup>*\<^sup>* capture_idle (capture_record ''INFO'' ''x'' (start_capture capture_idle))"
    using step_start [of capture_idle] step_record [of "start_capture capture_idle" "''INFO''" "''x''"]
    by (rule converse_rtranclp_into_rtranclp [OF _ r_into_rtranclp])
  then show ?thesis using capture_bounded unfolding capture_reachable_def by blast
qed

lemma capture_keeps_first_witness:
  "fst (take_capture (capture_all [(''INFO'', ''a''), (''WARN'', ''b'')] (start_capture capture_idle)))
   = [''[INFO] a'', ''[WARN] b'']"
  using capture_keeps_first [of capture_idle "[(''INFO'', ''a''), (''WARN'', ''b'')]"]
  by (simp add: capture_idle_def capture_line_def CAPTURE_MAX_LINES_def)

end
