(* ===== verification/Kmsg.thy ===== *)
theory Kmsg
  imports Capture Program
begin

text \<open>
  The calls of \<open>src/logging/kmsg.rs\<close>: the logger, which hands the kernel a record with one write, and
  \<open>log_fatal\<close> and \<open>log_direct\<close>, which format straight into the file and so write it piece by piece.
\<close>

section \<open>The logger\<close>

definition kmsg_new :: "'w os \<Rightarrow> (('w, 'p) machine, io_error, unit) io" where
  "kmsg_new os = sys_unit os (OpenWrite KMSG_PATH)"

definition kmsg_log :: "'w os \<Rightarrow> log_level \<Rightarrow> string \<Rightarrow> capture_state \<Rightarrow> (('w, 'p) machine, 'e, capture_state) io" where
  "kmsg_log os level args cap = bindE (ignore (sys_unit os (WriteAll KMSG_PATH (fst (log_record level args cap)))))
     (\<lambda>_. ret (snd (log_record level args cap)))"

section \<open>Formatting into the file\<close>

text \<open>\<open>writeln!\<close> writes every literal piece and every argument by itself, stops at the first error, and
  makes no write for an empty piece.\<close>

definition write_pieces :: "'w os \<Rightarrow> string \<Rightarrow> string list \<Rightarrow> (('w, 'p) machine, io_error, unit) io" where
  "write_pieces os path ps = for_each (filter (\<lambda>p. p \<noteq> []) ps) (\<lambda>p. sys_unit os (WriteAll path p))"

definition fatal_pieces :: "string \<Rightarrow> string list" where
  "fatal_pieces message = [''<2>'', LOG_PREFIX, ''FATAL: '', message, [newline]]"

definition direct_pieces :: "string \<Rightarrow> string list" where
  "direct_pieces message = [''<6>'', LOG_PREFIX, message, [newline]]"

definition log_fatal :: "'w os \<Rightarrow> string \<Rightarrow> (('w, 'p) machine, 'e, unit) io" where
  "log_fatal os message = ignore (bindE (sys_unit os (OpenWrite KMSG_PATH))
     (\<lambda>_. write_pieces os KMSG_PATH (fatal_pieces message)))"

definition log_direct :: "'w os \<Rightarrow> string \<Rightarrow> (('w, 'p) machine, 'e, unit) io" where
  "log_direct os message = ignore (bindE (sys_unit os (OpenWrite KMSG_PATH))
     (\<lambda>_. write_pieces os KMSG_PATH (direct_pieces message)))"

section \<open>Facts\<close>

definition says :: "call \<Rightarrow> bool" where
  "says c \<longleftrightarrow> c = OpenWrite KMSG_PATH \<or> (\<exists>t. c = WriteAll KMSG_PATH t)"

lemma calls_write_pieces: "(\<And>t. P (WriteAll path t)) \<Longrightarrow> calls_only P (write_pieces os path ps)"
  unfolding write_pieces_def by (intro calls_intros)

lemma calls_log_fatal: "calls_only says (log_fatal os message)"
  unfolding log_fatal_def by (intro calls_intros calls_write_pieces) (simp_all add: says_def)

lemma calls_log_direct: "calls_only says (log_direct os message)"
  unfolding log_direct_def by (intro calls_intros calls_write_pieces) (simp_all add: says_def)

lemma fatal_pieces_line: "concat (fatal_pieces message) = fatal_line message"
  "concat (direct_pieces message) = direct_line message"
  by (simp_all add: fatal_pieces_def fatal_line_def direct_pieces_def direct_line_def)

lemma keeps_log_fatal: "keeps_prog (log_fatal os message)"
  unfolding log_fatal_def write_pieces_def by (intro prog_intros)

lemma log_fatal_program [simp]: "program (snd (log_fatal os message s)) = program s"
  by (rule keeps_log_fatal [unfolded keeps_prog_def, rule_format])

section \<open>Records of the kernel log\<close>

text \<open>A kernel that takes every write. One write to \<open>/dev/kmsg\<close> is one record of the kernel log, with the level
  that its own text begins with.\<close>

definition accepting :: "'w os \<Rightarrow> bool" where
  "accepting os \<longleftrightarrow> (\<forall>c w. \<exists>w'. os_unit os c w = (Inr (), w'))"

definition kmsg_records :: "(call \<times> bool) list \<Rightarrow> string list" where
  "kmsg_records t = concat (map (\<lambda>c. case c of (WriteAll p x, True) \<Rightarrow> if p = KMSG_PATH then [x] else [] | _ \<Rightarrow> []) t)"

lemma kmsg_records_append [simp]: "kmsg_records (t @ u) = kmsg_records t @ kmsg_records u"
  by (simp add: kmsg_records_def)

lemma accepted:
  assumes "accepting os"
  obtains s' where "sys_unit os c s = (Inr (), s')" and "trace s' = trace s @ [(c, True)]"
proof -
  obtain w where "os_unit os c (world s) = (Inr (), w)" using assms unfolding accepting_def by blast
  then show thesis
    by (intro that [of "record_call (os_delay os c (world s)) c True w s"]) (simp_all add: sys_unit_def)
qed

lemma write_pieces_records:
  assumes "accepting os"
  shows "\<exists>s'. write_pieces os KMSG_PATH ps s = (Inr (), s')
    \<and> kmsg_records (trace s') = kmsg_records (trace s) @ filter (\<lambda>p. p \<noteq> []) ps"
proof (induction ps arbitrary: s)
  case (Cons p ps)
  show ?case
  proof (cases "p = []")
    case False
    obtain s1 where s1: "sys_unit os (WriteAll KMSG_PATH p) s = (Inr (), s1)" "trace s1 = trace s @ [(WriteAll KMSG_PATH p, True)]"
      using accepted [OF assms] by blast
    then show ?thesis using Cons [of s1] False by (simp add: write_pieces_def bindE_def kmsg_records_def)
  qed (use Cons [of s] in \<open>simp add: write_pieces_def\<close>)
qed (simp add: write_pieces_def ret_def)

text \<open>The logger makes one record of a message, with its level; \<open>log_fatal\<close> makes five, and the level is
  in the first, which has no text.\<close>

lemma kmsg_log_records:
  assumes "accepting os"
  shows "kmsg_records (trace (snd (kmsg_log os l args cap s))) = kmsg_records (trace s) @ [kmsg_line l args]"
proof -
  obtain s1 where "sys_unit os (WriteAll KMSG_PATH (kmsg_line l args)) s = (Inr (), s1)"
      "trace s1 = trace s @ [(WriteAll KMSG_PATH (kmsg_line l args), True)]"
    using accepted [OF assms] by blast
  then show ?thesis by (simp add: kmsg_log_def log_record_def ignore_def bindE_def ret_def kmsg_records_def)
qed

lemma log_fatal_records:
  assumes "accepting os" and "message \<noteq> []"
  shows "kmsg_records (trace (snd (log_fatal os message s)))
    = kmsg_records (trace s) @ [''<2>'', ''omnect-os-initramfs: '', ''FATAL: '', message, [newline]]"
proof -
  obtain s1 where s1: "sys_unit os (OpenWrite KMSG_PATH) s = (Inr (), s1)" "trace s1 = trace s @ [(OpenWrite KMSG_PATH, True)]"
    using accepted [OF assms(1)] by blast
  obtain s2 where "write_pieces os KMSG_PATH (fatal_pieces message) s1 = (Inr (), s2)"
      "kmsg_records (trace s2) = kmsg_records (trace s1) @ filter (\<lambda>p. p \<noteq> []) (fatal_pieces message)"
    using write_pieces_records [OF assms(1)] by blast
  then show ?thesis
    using s1 assms(2) by (simp add: log_fatal_def ignore_def bindE_def kmsg_records_def fatal_pieces_def LOG_PREFIX_def)
qed

end
