(* ===== verification/Recovery.thy ===== *)
theory Recovery
  imports Kmsg
begin

text \<open>
  The recovery policy: \<open>decide\<close> of \<open>src/recovery.rs\<close> and its execution, \<open>handle_fatal_error\<close> with
  the halt loop and the shells of \<open>src/main.rs\<close>. The functions of the latter never return; the
  model takes the number of cycles their final loop has run, so that a statement for every
  number is a statement about the whole run.
\<close>

datatype action = Continue_Action | Reboot_Action | Halt_Action | Shell_Action

definition decide :: "recovery_class \<Rightarrow> bool \<Rightarrow> bool \<Rightarrow> action" where
  "decide cls is_release pending = (case cls of
     ContinueDegraded \<Rightarrow> Continue_Action
   | RebootToApply \<Rightarrow> Reboot_Action
   | Fatal \<Rightarrow> if pending then Reboot_Action else if is_release then Halt_Action else Shell_Action)"

definition FATAL_ERROR_SLEEP_SECS :: nat where "FATAL_ERROR_SLEEP_SECS = 60"
definition BASH_CMD :: string where "BASH_CMD = ''/bin/bash''"
definition SH_CMD :: string where "SH_CMD = ''/bin/sh''"

definition run_cycles :: "('s, unit, unit) io \<Rightarrow> nat \<Rightarrow> 's \<Rightarrow> 's" where
  "run_cycles body n = ((\<lambda>s. snd (body s)) ^^ n)"

text \<open>\<open>log_fatal\<close> as a step that returns nothing.\<close>

definition said :: "'w os \<Rightarrow> string \<Rightarrow> 'w init \<Rightarrow> 'w init" where
  "said os message s = snd ((log_fatal os message :: ('w init, unit, unit) io) s)"

definition halt_cycle :: "'w os \<Rightarrow> string \<Rightarrow> ('w init, unit, unit) io" where
  "halt_cycle os message = bindE (log_fatal os message) (\<lambda>_. sys_sleep os (FATAL_ERROR_SLEEP_SECS * 1000))"

definition halt_with_message :: "'w os \<Rightarrow> string \<Rightarrow> nat \<Rightarrow> 'w init \<Rightarrow> 'w init" where
  "halt_with_message os message n = run_cycles (halt_cycle os message) n"

text \<open>Before \<open>/dev\<close> is mounted the message goes to the console alone.\<close>

definition console_halt :: "'w os \<Rightarrow> nat \<Rightarrow> 'w init \<Rightarrow> 'w init" where
  "console_halt os n = run_cycles (sys_sleep os (FATAL_ERROR_SLEEP_SECS * 1000)) n"

definition emergency_shell_cycle :: "'w os \<Rightarrow> ('w init, unit, unit) io" where
  "emergency_shell_cycle os = caught (sys_run os (Spawn SH_CMD [] []))
     (\<lambda>r. case r of Inr _ \<Rightarrow> ret () | Inl _ \<Rightarrow> sys_sleep os (FATAL_ERROR_SLEEP_SECS * 1000))"

definition spawn_emergency_shell :: "'w os \<Rightarrow> nat \<Rightarrow> 'w init \<Rightarrow> 'w init" where
  "spawn_emergency_shell os n = run_cycles (emergency_shell_cycle os) n"

definition debug_shell_cycle :: "'w os \<Rightarrow> ('w init, unit, unit) io" where
  "debug_shell_cycle os = caught (sys_run os (Spawn BASH_CMD [''--init-file'', ''/dev/null''] []))
     (\<lambda>r. case r of Inr _ \<Rightarrow> ret ()
        | Inl _ \<Rightarrow> caught (sys_run os (Spawn SH_CMD [] []))
            (\<lambda>q. case q of Inr _ \<Rightarrow> ret () | Inl _ \<Rightarrow> sys_sleep os (FATAL_ERROR_SLEEP_SECS * 1000)))"

definition spawn_debug_shell :: "'w os \<Rightarrow> nat \<Rightarrow> 'w init \<Rightarrow> 'w init" where
  "spawn_debug_shell os n = run_cycles (debug_shell_cycle os) n"

text \<open>\<open>reboot(2)\<close> does not come back when it succeeds: then nothing follows.\<close>

definition recovery_class_str :: "recovery_class \<Rightarrow> string" where
  "recovery_class_str c = (case c of ContinueDegraded \<Rightarrow> ''ContinueDegraded'' | RebootToApply \<Rightarrow> ''RebootToApply''
     | Fatal \<Rightarrow> ''Fatal'')"

definition action_str :: "action \<Rightarrow> string" where
  "action_str a = (case a of Continue_Action \<Rightarrow> ''Continue'' | Reboot_Action \<Rightarrow> ''Reboot''
     | Halt_Action \<Rightarrow> ''Halt'' | Shell_Action \<Rightarrow> ''Shell'')"

definition policy_message :: "recovery_class \<Rightarrow> bool \<Rightarrow> action \<Rightarrow> initramfs_error \<Rightarrow> string" where
  "policy_message cls pending act err = ''fatal error (class='' @ recovery_class_str cls @ '', update_pending=''
     @ (if pending then ''true'' else ''false'') @ '', action='' @ action_str act @ ''): '' @ show_initramfs_error err"

definition run_action :: "'w os \<Rightarrow> initramfs_error \<Rightarrow> bool \<Rightarrow> nat \<Rightarrow> action \<Rightarrow> 'w init \<Rightarrow> 'w init" where
  "run_action os err is_release n act s = (case act of
     Reboot_Action \<Rightarrow> (case sys_unit os RebootCall s of
         (Inl e, s') \<Rightarrow> halt_with_message os (''reboot(2) returned unexpectedly after '' @ action_str act) n
           (said os (''reboot(2) failed: '' @ show_io e @ ''; halting'') s')
       | (Inr _, s') \<Rightarrow> s')
   | Halt_Action \<Rightarrow> halt_with_message os (''FATAL: '' @ show_initramfs_error err) n s
   | Shell_Action \<Rightarrow> spawn_debug_shell os n s
   | Continue_Action \<Rightarrow>
       (let s1 = said os (''BUG: ContinueDegraded reached handle_fatal_error for: '' @ show_initramfs_error err) s in
        if is_release then halt_with_message os (''FATAL (defensive): '' @ show_initramfs_error err) n s1
        else spawn_debug_shell os n s1))"

definition handle_fatal_error :: "'w os \<Rightarrow> initramfs_error \<Rightarrow> bool \<Rightarrow> nat \<Rightarrow> 'w init \<Rightarrow> 'w init" where
  "handle_fatal_error os err is_release n s =
     (let cls = recovery_class err; pending = update_pending (program s); act = decide cls is_release pending in
      run_action os err is_release n act (said os (policy_message cls pending act err) s))"

definition is_shell :: "call \<Rightarrow> bool" where
  "is_shell c \<longleftrightarrow> (case c of Spawn p _ _ \<Rightarrow> p = BASH_CMD \<or> p = SH_CMD | _ \<Rightarrow> False)"

text \<open>The calls a run of \<open>f\<close> from \<open>s\<close> has added.\<close>

definition new_calls :: "'w init \<Rightarrow> 'w init \<Rightarrow> (call \<times> bool) list" where
  "new_calls s s' = drop (length (trace s)) (trace s')"

lemma run_cycles_calls:
  assumes "calls_only P body"
  shows "\<exists>t. trace (run_cycles body n s) = trace s @ t \<and> (\<forall>c \<in> set t. P (fst c))"
proof (induction n)
  case (Suc n)
  then obtain t where t: "trace (run_cycles body n s) = trace s @ t" "\<forall>c \<in> set t. P (fst c)" by blast
  obtain u where u: "trace (snd (body (run_cycles body n s))) = trace (run_cycles body n s) @ u"
    "\<forall>c \<in> set u. P (fst c)"
    using assms by (auto simp: calls_only_def)
  then show ?case using t by (intro exI [of _ "t @ u"]) (auto simp: run_cycles_def)
qed (simp add: run_cycles_def)

definition dwells :: "call \<Rightarrow> bool" where
  "dwells c \<longleftrightarrow> says c \<or> c = SleepMs (of_nat (FATAL_ERROR_SLEEP_SECS * 1000))"

lemma dwells_not [simp]: "\<not> dwells RebootCall" "dwells c \<Longrightarrow> \<not> is_shell c"
  by (auto simp: dwells_def says_def is_shell_def)

lemma says_dwells: "says c \<Longrightarrow> dwells c"
  by (simp add: dwells_def)

lemma log_fatal_dwells: "calls_only dwells (log_fatal os message)"
  by (rule calls_only_mono [OF calls_log_fatal]) (rule says_dwells)

lemma said_calls: "\<exists>t. trace (said os message s) = trace s @ t \<and> (\<forall>c \<in> set t. dwells (fst c))"
  unfolding said_def by (rule log_fatal_dwells [unfolded calls_only_def, rule_format])

lemma said_program [simp]: "program (said os message s) = program s"
  by (simp add: said_def)

lemma halt_with_message_calls:
  "\<exists>t. trace (halt_with_message os message n s) = trace s @ t \<and> (\<forall>c \<in> set t. dwells (fst c))"
  unfolding halt_with_message_def halt_cycle_def
  by (rule run_cycles_calls) (intro calls_intros log_fatal_dwells; simp add: dwells_def)

lemma console_halt_calls:
  "\<exists>t. trace (console_halt os n s) = trace s @ t \<and> (\<forall>c \<in> set t. dwells (fst c))"
  unfolding console_halt_def by (rule run_cycles_calls) (intro calls_intros; simp add: dwells_def)

lemma new_calls_append [simp]: "trace s' = trace s @ t \<Longrightarrow> new_calls s s' = t"
  by (simp add: new_calls_def)

lemma debug_shell_calls:
  "\<exists>t. trace (spawn_debug_shell os n s) = trace s @ t
     \<and> (\<forall>c \<in> set t. is_shell (fst c) \<or> fst c = SleepMs (of_nat (FATAL_ERROR_SLEEP_SECS * 1000)))"
  unfolding spawn_debug_shell_def
  by (rule run_cycles_calls) (auto simp: debug_shell_cycle_def is_shell_def intro!: calls_intros)

definition reboots :: "recovery_class \<Rightarrow> bool \<Rightarrow> bool" where
  "reboots cls pending \<longleftrightarrow> cls = RebootToApply \<or> (cls = Fatal \<and> pending)"

lemma decide_reboot: "decide cls r p = Reboot_Action \<longleftrightarrow> reboots cls p"
  by (auto simp: decide_def reboots_def split: recovery_class.splits)

lemma decide_release: "decide cls True p \<noteq> Shell_Action"
  by (auto simp: decide_def split: recovery_class.splits)

definition reboot_calls :: "(call \<times> bool) list \<Rightarrow> nat" where
  "reboot_calls t = length (filter (\<lambda>c. fst c = RebootCall) t)"

definition shell_calls :: "(call \<times> bool) list \<Rightarrow> nat" where
  "shell_calls t = length (filter (\<lambda>c. is_shell (fst c)) t)"

definition quiet :: "(call \<times> bool) list \<Rightarrow> bool" where
  "quiet t \<longleftrightarrow> reboot_calls t = 0 \<and> shell_calls t = 0"

lemma counts_append [simp]:
  "reboot_calls (t @ u) = reboot_calls t + reboot_calls u" "shell_calls (t @ u) = shell_calls t + shell_calls u"
  by (simp_all add: reboot_calls_def shell_calls_def)

lemma dwells_quiet: "\<forall>c \<in> set t. dwells (fst c) \<Longrightarrow> quiet t"
  by (auto simp: quiet_def reboot_calls_def shell_calls_def filter_empty_conv)

lemma halt_quiet: obtains t where "trace (halt_with_message os message n s) = trace s @ t" "quiet t"
  using halt_with_message_calls [of os message n s] dwells_quiet by blast

lemma said_quiet: obtains t where "trace (said os message s) = trace s @ t" "quiet t"
  using said_calls [of os message s] dwells_quiet by blast

lemma debug_shell_counts:
  obtains t where "trace (spawn_debug_shell os n s) = trace s @ t" "reboot_calls t = 0"
proof -
  have "\<not> is_shell RebootCall" by (simp add: is_shell_def)
  then show ?thesis
    using debug_shell_calls [of os n s] that by (fastforce simp: reboot_calls_def filter_empty_conv)
qed

text \<open>What carrying out an action adds to the calls.\<close>

lemma run_action_counts:
  obtains t where "trace (run_action os err r n act s) = trace s @ t"
    and "reboot_calls t = (if act = Reboot_Action then 1 else 0)"
    and "r \<Longrightarrow> act \<noteq> Shell_Action \<Longrightarrow> shell_calls t = 0"
proof (cases act)
  case Reboot_Action
  obtain q s1 where q: "sys_unit os RebootCall s = (q, s1)" by fastforce
  then obtain ok where s1: "trace s1 = trace s @ [(RebootCall, ok)]"
    by (auto simp: sys_unit_def split: prod.splits)
  have one: "reboot_calls [(RebootCall, ok)] = 1" "shell_calls [(RebootCall, ok)] = 0"
    by (simp_all add: reboot_calls_def shell_calls_def is_shell_def)
  show thesis
  proof (cases q)
    case (Inl e)
    obtain t where t: "trace (said os (''reboot(2) failed: '' @ show_io e @ ''; halting'') s1) = trace s1 @ t" "quiet t"
      by (rule said_quiet)
    obtain u where u: "trace (halt_with_message os (''reboot(2) returned unexpectedly after '' @ action_str act) n
        (said os (''reboot(2) failed: '' @ show_io e @ ''; halting'') s1))
      = trace (said os (''reboot(2) failed: '' @ show_io e @ ''; halting'') s1) @ u" "quiet u"
      by (rule halt_quiet)
    show thesis
      using that [of "(RebootCall, ok) # t @ u"] counts_append [of "[(RebootCall, ok)]" "t @ u"] q Inl s1 t u one Reboot_Action
      by (simp add: run_action_def quiet_def)
  next
    case (Inr x)
    then show thesis using that [of "[(RebootCall, ok)]"] q s1 one Reboot_Action by (simp add: run_action_def)
  qed
next
  case Halt_Action
  then show thesis
    using halt_quiet [of os "''FATAL: '' @ show_initramfs_error err" n s] that by (auto simp: run_action_def quiet_def)
next
  case Shell_Action
  then show thesis using debug_shell_counts [of os n s] that by (auto simp: run_action_def)
next
  case Continue_Action
  let ?s1 = "said os (''BUG: ContinueDegraded reached handle_fatal_error for: '' @ show_initramfs_error err) s"
  obtain t where t: "trace ?s1 = trace s @ t" "quiet t" by (rule said_quiet)
  obtain u where u: "trace (run_action os err r n act s) = trace ?s1 @ u" "reboot_calls u = 0" "r \<Longrightarrow> shell_calls u = 0"
    using Continue_Action halt_quiet [of os "''FATAL (defensive): '' @ show_initramfs_error err" n ?s1]
      debug_shell_counts [of os n ?s1] that
    by (cases r) (auto simp: run_action_def Let_def quiet_def)
  show thesis using that [of "t @ u"] t u Continue_Action by (auto simp: quiet_def)
qed

lemma handle_fatal_error_counts:
  obtains t where "trace (handle_fatal_error os err r n s) = trace s @ t"
    and "reboot_calls t = (if reboots (recovery_class err) (update_pending (program s)) then 1 else 0)"
    and "r \<Longrightarrow> shell_calls t = 0"
proof -
  let ?act = "decide (recovery_class err) r (update_pending (program s))"
  let ?s1 = "said os (policy_message (recovery_class err) (update_pending (program s)) ?act err) s"
  obtain t where t: "trace ?s1 = trace s @ t" "quiet t" by (rule said_quiet)
  obtain u where u: "trace (run_action os err r n ?act ?s1) = trace ?s1 @ u"
      "reboot_calls u = (if ?act = Reboot_Action then 1 else 0)" "r \<Longrightarrow> ?act \<noteq> Shell_Action \<Longrightarrow> shell_calls u = 0"
    using run_action_counts [of os err r n ?act ?s1] by blast
  then show thesis
    using that [of "t @ u"] t decide_release [of "recovery_class err"] decide_reboot [of "recovery_class err" r]
    by (auto simp: handle_fatal_error_def Let_def quiet_def)
qed

text \<open>A machine that halts repeats its message, once in a cycle, after the line that says why it halts.\<close>

lemma said_records:
  assumes "accepting os" and "message \<noteq> []"
  shows "kmsg_records (trace (said os message s)) = kmsg_records (trace s) @ fatal_pieces message"
  using log_fatal_records [OF assms] by (simp add: said_def fatal_pieces_def LOG_PREFIX_def)

lemma halt_records:
  assumes "accepting os" and "message \<noteq> []"
  shows "kmsg_records (trace (halt_with_message os message n s))
    = kmsg_records (trace s) @ concat (replicate n (fatal_pieces message))"
proof (induction n)
  case (Suc n)
  let ?s = "halt_with_message os message n s"
  have "halt_with_message os message (Suc n) s = sleep_for os (FATAL_ERROR_SLEEP_SECS * 1000) (said os message ?s)"
    unfolding halt_with_message_def run_cycles_def funpow.simps comp_apply
    by (simp add: halt_cycle_def said_def log_fatal_def ignore_def bindE_def sys_sleep_def)
  moreover have "kmsg_records [(SleepMs ms, True)] = []" for ms by (simp add: kmsg_records_def)
  moreover have "concat (replicate (Suc n) (fatal_pieces message)) = concat (replicate n (fatal_pieces message)) @ fatal_pieces message"
    by (simp only: replicate_Suc replicate_append_same [symmetric] concat_append concat.simps append_Nil2)
  ultimately show ?case
    using Suc said_records [OF assms, of ?s] by (simp add: sleep_for_def)
qed (simp add: halt_with_message_def run_cycles_def)

lemma halted_machine_announces:
  assumes "accepting os" and "decide (recovery_class err) r (update_pending (program s)) = Halt_Action"
  shows "kmsg_records (trace (handle_fatal_error os err r n s)) = kmsg_records (trace s)
    @ fatal_pieces (policy_message (recovery_class err) (update_pending (program s)) Halt_Action err)
    @ concat (replicate n (fatal_pieces (''FATAL: '' @ show_initramfs_error err)))"
  using assms by (simp add: handle_fatal_error_def Let_def run_action_def halt_records said_records policy_message_def)

text \<open>
  C38: Recovery policy. Handling a fatal error reboots exactly once when the error is one a reboot
  applies, or when it is fatal while an update waits for its validation (the boot loader then
  rolls back), and never otherwise; and a release image starts no shell, whatever the error and
  however long the final loop runs.
\<close>

theorem fatal_error_policy:
  "reboot_calls (new_calls s (handle_fatal_error os err r n s))
     = (if reboots (recovery_class err) (update_pending (program s)) then 1 else 0) \<and>
   shell_calls (new_calls s (handle_fatal_error os err True n s)) = 0"
proof
  show "reboot_calls (new_calls s (handle_fatal_error os err r n s))
     = (if reboots (recovery_class err) (update_pending (program s)) then 1 else 0)"
    by (rule handle_fatal_error_counts [of os err r n s]) simp
  show "shell_calls (new_calls s (handle_fatal_error os err True n s)) = 0"
    by (rule handle_fatal_error_counts [of os err True n s]) simp
qed

end
