(* ===== verification/Boot_Sequence.thy ===== *)
theory Boot_Sequence
  imports Fsck_Run Overlayfs Layout Boot_Env
begin

text \<open>
  \<open>src/filesystem/boot_sequence.rs\<close>: checking and mounting the partitions, and the life of the
  fsck records: recorded in the status when fsck ran, written to the boot environment before a
  reboot can lose them, drained from there on the boot that follows.
\<close>

definition FSCK_LOG_SUBDIR :: string where "FSCK_LOG_SUBDIR = ''log/fsck''"

definition FSCK_PARTITIONS :: "partition_name list" where
  "FSCK_PARTITIONS = [Boot, Factory, Cert, Etc, Data]"

section \<open>Checking and mounting\<close>

definition fsck_and_record :: "'w os \<Rightarrow> string \<Rightarrow> partition_name \<Rightarrow> fs_type \<Rightarrow> ('w init, filesystem_error, unit) io" where
  "fsck_and_record os dev name t = caught (check_filesystem_lenient os dev t) (\<lambda>r. case r of
     Inr x \<Rightarrow> modify_ods (record_fsck_result name (fr_exit_code x) (fr_output x))
   | Inl (FsckRequiresReboot d c out) \<Rightarrow>
       bindE (modify_ods (record_fsck_result name c out)) (\<lambda>_. throw (FsckRequiresReboot d c out))
   | Inl e \<Rightarrow> throw e)"

definition mount_core_partitions :: "'w os \<Rightarrow> partition_layout \<Rightarrow> string \<Rightarrow> ('w init, initramfs_error, unit) io" where
  "mount_core_partitions os l rootfs = (case layout_get l RootCurrent of
     None \<Rightarrow> throw (Partition (DeviceDetection
       ''rootCurrent not found in partition map; cannot mount rootfs''))
   | Some root_device \<Rightarrow>
       bindE (map_err (\<lambda>e. Io (IoError OtherKind
                (''Failed to create rootfs mount point '' @ rootfs @ '': '' @ show_io e)))
                (sys_unit os (MakeDirs rootfs))) (\<lambda>_.
       bindE (map_err Filesystem
                (mount_fs os root_device rootfs (nodiratime (noatime ext4_readonly)))) (\<lambda>_.
       case layout_get l Boot of
         None \<Rightarrow> ret ()
       | Some boot_dev \<Rightarrow>
           (let boot_mount = path_join rootfs MP_BOOT in
            bindE (map_err Filesystem (is_path_mounted os boot_mount)) (\<lambda>mounted.
            if mounted then throw (Filesystem (MountFailed boot_dev boot_mount
              ''boot partition already mounted at start of mount_core_partitions''))
            else
              bindE (map_err Filesystem (fsck_and_record os boot_dev Boot Vfat)) (\<lambda>_.
              map_err Filesystem (mount_fs os boot_dev boot_mount vfat_options)))))))"

record partition_mount_spec =
  spec_partition :: partition_name
  spec_mount_point :: string
  spec_options :: mount_options
  spec_fstype :: fs_type

definition mount_tracked_partition :: "'w os \<Rightarrow> partition_layout \<Rightarrow> partition_mount_spec \<Rightarrow> string \<Rightarrow>
    ('w init, initramfs_error, unit) io" where
  "mount_tracked_partition os l spec rootfs = (case layout_get l (spec_partition spec) of
     None \<Rightarrow> ret ()
   | Some dev \<Rightarrow> (let mount_path = path_join rootfs (spec_mount_point spec) in
       bindE (map_err Filesystem (fsck_and_record os dev (spec_partition spec) (spec_fstype spec))) (\<lambda>_.
       bindE (map_err Filesystem (mount_fs os dev mount_path (spec_options spec))) (\<lambda>_.
       push_mount mount_path))))"

text \<open>The four blocks of \<open>mount_remaining_partitions\<close> have one shape.\<close>

definition mount_if_absent :: "'w os \<Rightarrow> partition_layout \<Rightarrow> string \<Rightarrow> partition_name \<Rightarrow> string \<Rightarrow>
    mount_options \<Rightarrow> ('w init, initramfs_error, unit) io" where
  "mount_if_absent os l rootfs p mount_point opts = (case layout_get l p of
     None \<Rightarrow> ret ()
   | Some dev \<Rightarrow> (let mount_path = path_join rootfs mount_point in
       bindE (map_err Filesystem (is_path_mounted os mount_path)) (\<lambda>mounted.
       if mounted then ret ()
       else bindE (map_err Filesystem (fsck_and_record os dev p Ext4)) (\<lambda>_.
            map_err Filesystem (mount_fs os dev mount_path opts)))))"

definition mount_remaining_partitions :: "'w os \<Rightarrow> partition_layout \<Rightarrow> string \<Rightarrow> ('w init, initramfs_error, unit) io" where
  "mount_remaining_partitions os l rootfs =
     bindE (mount_if_absent os l rootfs Factory MP_FACTORY_PARTITION (nodiratime (noatime ext4_readonly))) (\<lambda>_.
     bindE (mount_if_absent os l rootfs Cert MP_CERT_PARTITION (nodiratime (noatime ext4_readwrite))) (\<lambda>_.
     bindE (mount_if_absent os l rootfs Etc MP_ETC_PARTITION (nodiratime (noatime ext4_readwrite))) (\<lambda>_.
     bindE (mount_if_absent os l rootfs Data MP_DATA_PARTITION (nodiratime (noatime ext4_readwrite))) (\<lambda>_.
     map_err Filesystem (mount_tmpfs os (path_join rootfs MP_VAR_VOLATILE) [] None)))))"

section \<open>The records across a reboot\<close>

text \<open>\<open>SyncFile\<close> is \<open>File::sync_all\<close>; a file and its directory are flushed separately.\<close>

definition write_fsck_log :: "'w os \<Rightarrow> string \<Rightarrow> partition_name \<Rightarrow> string \<Rightarrow> (('w, 'p) machine, io_error, string) io" where
  "write_fsck_log os log_dir p out = (let log_path = path_join log_dir (partition_name_str p @ ''.log'') in
     bindE (create_root_only_dir os log_dir) (\<lambda>_.
     bindE (create_root_only_file os log_path) (\<lambda>_.
     bindE (sys_unit os (WriteFile log_path out)) (\<lambda>_.
     bindE (sys_unit os (SyncFile log_path)) (\<lambda>_.
     bindE (sys_unit os (SyncFile log_dir)) (\<lambda>_. ret log_path))))))"

text \<open>One turn of the loop of \<open>persist_fsck_results\<close>; the code iterates over a hash map.\<close>

definition persist_one :: "'w os \<Rightarrow> (('w, 'p) machine) boot_env option \<Rightarrow> string \<Rightarrow> bool \<Rightarrow>
    partition_name \<Rightarrow> fsck_status \<Rightarrow> (('w, 'p) machine, 'e, unit) io" where
  "persist_one os be log_dir data_mounted p r =
     (if is_clean (fsck_status_code r) then ret ()
      else bindE (case be of
             Some bl \<Rightarrow> ignore (save_fsck_status bl p (fsck_status_code r) (fsck_status_output r))
           | None \<Rightarrow> ret ()) (\<lambda>_.
        if fsck_status_output r \<noteq> [] \<and> data_mounted
        then ignore (write_fsck_log os log_dir p (fsck_status_output r)) else ret ()))"

definition persist_fsck_results :: "'w os \<Rightarrow> partition_name list \<Rightarrow> (('w, 'p) machine) boot_env option \<Rightarrow>
    string \<Rightarrow> ods_status \<Rightarrow> (('w, 'p) machine, 'e, unit) io" where
  "persist_fsck_results os order be rootfs st =
     (let data = path_join rootfs MP_DATA_PARTITION; log_dir = path_join data FSCK_LOG_SUBDIR in
      caught (is_path_mounted os data) (\<lambda>m.
      for_each order (\<lambda>p. case ods_fsck st p of
          None \<Rightarrow> ret ()
        | Some r \<Rightarrow> persist_one os be log_dir (m = Inr True) p r)))"

definition drain_one :: "('w init) boot_env \<Rightarrow> partition_name \<Rightarrow> ('w init, 'e, unit) io" where
  "drain_one bl p = caught (get_fsck_status bl p) (\<lambda>r. case r of
     Inl (InvalidValue k why) \<Rightarrow> ignore (clear_fsck_status bl p)
   | Inl _ \<Rightarrow> ret ()
   | Inr None \<Rightarrow> ret ()
   | Inr (Some x) \<Rightarrow>
       bindE (modify_ods (record_fsck_result p (rec_exit_code x) (rec_output x))) (\<lambda>_.
       ignore (clear_fsck_status bl p)))"

definition drain_fsck_env :: "('w init) boot_env option \<Rightarrow> ('w init, 'e, unit) io" where
  "drain_fsck_env be = (case be of
     None \<Rightarrow> ret () | Some bl \<Rightarrow> for_each FSCK_PARTITIONS (drain_one bl))"

end
