(* ===== verification/Switch_Root.thy ===== *)
theory Switch_Root
  imports Cmdline Mount
begin

text \<open>
  \<open>src/runtime/switch_root.rs\<close>: handing control to the init of the root file system. \<open>exec\<close> does
  not return when it succeeds; the model ends there with success. The deletion of the old root
  recurses along the directory tree the kernel shows; its fuel bounds the depth.
\<close>

definition RAMFS_MAGIC :: u64 where "RAMFS_MAGIC = 0x858458f6"
definition TMPFS_MAGIC :: u64 where "TMPFS_MAGIC = 0x01021994"
definition PROC_SELF_FD :: string where "PROC_SELF_FD = ''/proc/self/fd''"
definition DEFAULT_INIT :: string where "DEFAULT_INIT = ''/sbin/init''"

definition sw_other :: "string \<Rightarrow> initramfs_error" where
  "sw_other t = Io (IoError OtherKind t)"

definition init_path_from_cmdline :: "cmdline_config \<Rightarrow> string" where
  "init_path_from_cmdline cl = (case cmdline_get cl ''init'' of
     Some t \<Rightarrow> if t \<noteq> [] then t else DEFAULT_INIT | None \<Rightarrow> DEFAULT_INIT)"

section \<open>The init program\<close>

definition is_executable_file :: "'w os \<Rightarrow> string \<Rightarrow> (('w, 'p) machine, io_error, bool) io" where
  "is_executable_file os path = bindE (sys_stat os (Stat path)) (\<lambda>m.
     ret (st_is_file m \<and> st_mode m AND 0x49 \<noteq> 0))"

definition absolute_init :: "string \<Rightarrow> string" where
  "absolute_init requested = (if starts_with ''/'' requested then requested else slash # requested)"

definition resolve_init_path :: "'w os \<Rightarrow> string \<Rightarrow> string \<Rightarrow> (('w, 'p) machine, initramfs_error, string) io" where
  "resolve_init_path os new_root requested_init =
     (if ''..'' \<in> set (split_char slash requested_init)
      then throw (Io (IoError InvalidInput (''init path must not contain '' @ apos @ ''..'' @ apos @ '': '' @ requested_init)))
      else (let init_path = absolute_init requested_init;
                full_path = path_join new_root (dropWhile (\<lambda>c. c = slash) init_path)
            in bindE (map_err Io (is_executable_file os full_path)) (\<lambda>executable.
               if executable then ret init_path
               else throw (Io (IoError NotFound (''Init binary not found or not executable at ''
                      @ new_root @ '': '' @ init_path))))))"

section \<open>The old root\<close>

definition is_ram_fs :: "u64 \<Rightarrow> bool" where
  "is_ram_fs magic \<longleftrightarrow> (ucast magic :: u32) = ucast RAMFS_MAGIC \<or> magic = TMPFS_MAGIC"

text \<open>The open directory is named by the path it was opened with; \<open>Some\<close> holds its device.\<close>

definition open_initramfs_root :: "'w os \<Rightarrow> (('w, 'p) machine, 'e, u64 option) io" where
  "open_initramfs_root os = caught (sys_num os (FsMagic ''/'')) (\<lambda>r. case r of
     Inl _ \<Rightarrow> ret None
   | Inr magic \<Rightarrow> if \<not> is_ram_fs magic then ret None
       else caught (bindE (sys_unit os (OpenRead ''/'')) (\<lambda>_. sys_stat os (Stat ''/''))) (\<lambda>m. case m of
           Inl _ \<Rightarrow> ret None | Inr meta \<Rightarrow> ret (Some (st_dev meta))))"

record delete_count =
  n_deleted :: nat
  n_failed :: nat

definition count_deleted :: "delete_count \<Rightarrow> delete_count" where
  "count_deleted n = n\<lparr>n_deleted := n_deleted n + 1\<rparr>"
definition count_failed :: "delete_count \<Rightarrow> delete_count" where
  "count_failed n = n\<lparr>n_failed := n_failed n + 1\<rparr>"

definition count_result :: "delete_count \<Rightarrow> io_error + unit \<Rightarrow> delete_count" where
  "count_result n r = (case r of Inr _ \<Rightarrow> count_deleted n | Inl _ \<Rightarrow> count_failed n)"

text \<open>One entry of a directory; \<open>recurse\<close> deletes the contents of a directory.\<close>

definition delete_entry :: "'w os \<Rightarrow> u64 \<Rightarrow>
    (string \<Rightarrow> delete_count \<Rightarrow> (('w, 'p) machine, 'e, delete_count) io) \<Rightarrow>
    string \<Rightarrow> io_error + string \<Rightarrow> delete_count \<Rightarrow> (('w, 'p) machine, 'e, delete_count) io" where
  "delete_entry os dev recurse dir entry n = (case entry of
     Inl _ \<Rightarrow> ret n
   | Inr name \<Rightarrow> (let path = path_join dir name in
       caught (sys_stat os (Lstat path)) (\<lambda>m. case m of
         Inl _ \<Rightarrow> ret (count_failed n)
       | Inr meta \<Rightarrow>
           if st_dev meta \<noteq> dev then ret n
           else if st_is_dir meta then
             bindE (recurse path n) (\<lambda>n'.
             caught (sys_unit os (RemoveDir path)) (\<lambda>r. ret (count_result n' r)))
           else caught (sys_unit os (RemoveFile path)) (\<lambda>r. ret (count_result n r)))))"

fun delete_contents :: "nat \<Rightarrow> 'w os \<Rightarrow> u64 \<Rightarrow> string \<Rightarrow> delete_count \<Rightarrow>
    (('w, 'p) machine, 'e, delete_count) io" where
  "delete_contents 0 os dev dir n = ret n"
| "delete_contents (Suc fuel) os dev dir n =
     caught (sys_entries os (ReadDir dir)) (\<lambda>r. case r of
       Inl _ \<Rightarrow> ret (count_failed n)
     | Inr entries \<Rightarrow> fold_io (delete_entry os dev (delete_contents fuel os dev) dir) entries n)"

definition free_initramfs :: "nat \<Rightarrow> 'w os \<Rightarrow> string \<Rightarrow> u64 \<Rightarrow> (('w, 'p) machine, 'e, unit) io" where
  "free_initramfs fuel os fd dev =
     bindE (delete_contents fuel os dev (PROC_SELF_FD @ ''/'' @ fd) \<lparr>n_deleted = 0, n_failed = 0\<rparr>) (\<lambda>_. ret ())"

section \<open>Moving the mounts\<close>

text \<open>An arrow between blanks, in UTF-8.\<close>

definition right_arrow :: string where
  "right_arrow = [CHR '' '', CHR 0xE2, CHR 0x86, CHR 0x92, CHR '' '']"

definition move_call :: "string \<Rightarrow> string \<Rightarrow> call" where
  "move_call source tgt = MountCall (Some source) tgt None [Ms_Move] None"

definition move_mount :: "'w os \<Rightarrow> string \<Rightarrow> string \<Rightarrow> (('w, 'p) machine, initramfs_error, unit) io" where
  "move_mount os source tgt =
     map_err (\<lambda>e. sw_other (''Failed to move '' @ source @ right_arrow @ tgt @ '': '' @ show_io e))
       (sys_unit os (move_call source tgt))"

definition rollback_critical_mounts :: "'w os \<Rightarrow> string list \<Rightarrow> string \<Rightarrow> (('w, 'p) machine, 'e, unit) io" where
  "rollback_critical_mounts os moved new_root =
     for_each (rev moved) (\<lambda>name. ignore (move_mount os (path_join new_root name) (slash # name)))"

definition CRITICAL :: "string list" where "CRITICAL = [''dev'', ''proc'', ''sys'', ''run'']"

fun move_all :: "'w os \<Rightarrow> string \<Rightarrow> string list \<Rightarrow> string list \<Rightarrow>
    (('w, 'p) machine, initramfs_error, string list) io" where
  "move_all os new_root [] moved = ret moved"
| "move_all os new_root (name # names) moved =
     bindE (on_err (move_mount os (slash # name) (path_join new_root name))
              (rollback_critical_mounts os moved new_root :: (('w, 'p) machine, unit, unit) io))
       (\<lambda>_. move_all os new_root names (moved @ [name]))"

definition make_mountpoint :: "'w os \<Rightarrow> string \<Rightarrow> string \<Rightarrow> (('w, 'p) machine, initramfs_error, unit) io" where
  "make_mountpoint os new_root dir =
     map_err (\<lambda>e. sw_other (''Failed to create mountpoint '' @ new_root @ ''/'' @ dir @ '': '' @ show_io e))
       (sys_unit os (MakeDirs (path_join new_root dir)))"

text \<open>The moves up to the one that puts the new root at \<open>/\<close>: an error undoes what was moved.\<close>

definition enter_new_root :: "'w os \<Rightarrow> string \<Rightarrow> (('w, 'p) machine, initramfs_error, unit) io" where
  "enter_new_root os new_root =
     bindE (move_all os new_root CRITICAL []) (\<lambda>moved.
     bindE (on_err (map_err (\<lambda>e. sw_other (''Failed to chdir to new root: '' @ show_io e))
              (sys_unit os (Chdir new_root)))
            (rollback_critical_mounts os moved new_root :: (('w, 'p) machine, unit, unit) io)) (\<lambda>_.
     on_err (map_err (\<lambda>e. sw_other (''Failed to MS_MOVE new root to /: '' @ show_io e))
              (sys_unit os (move_call ''.'' ''/'')))
            (rollback_critical_mounts os moved new_root :: (('w, 'p) machine, unit, unit) io)))"

definition prepare_switch :: "'w os \<Rightarrow> string \<Rightarrow> cmdline_config \<Rightarrow>
    (('w, 'p) machine, initramfs_error, string \<times> u64 option) io" where
  "prepare_switch os new_root cl =
     bindE (sys_bool os (Exists new_root)) (\<lambda>there.
     if \<not> there then throw (Io (IoError NotFound (''New root does not exist: '' @ new_root)))
     else bindE (resolve_init_path os new_root (init_path_from_cmdline cl)) (\<lambda>init_full_path.
       bindE (open_initramfs_root os) (\<lambda>initramfs.
       bindE (for_each CRITICAL (make_mountpoint os new_root)) (\<lambda>_.
       ret (init_full_path, initramfs)))))"

definition hand_over :: "nat \<Rightarrow> 'w os \<Rightarrow> string \<Rightarrow> string \<Rightarrow> u64 option \<Rightarrow>
    (('w, 'p) machine, initramfs_error, unit) io" where
  "hand_over fuel os fd init_full_path initramfs =
     bindE (map_err (\<lambda>e. sw_other (''Failed to chroot: '' @ show_io e)) (sys_unit os (Chroot ''.''))) (\<lambda>_.
     bindE (map_err (\<lambda>e. sw_other (''Failed to chdir to /: '' @ show_io e)) (sys_unit os (Chdir ''/''))) (\<lambda>_.
     bindE (case initramfs of Some dev \<Rightarrow> free_initramfs fuel os fd dev | None \<Rightarrow> ret ()) (\<lambda>_.
     map_err (\<lambda>e. sw_other (''Failed to exec init: '' @ show_io e))
       (sys_unit os (ExecCall init_full_path [])))))"

definition switch_root :: "nat \<Rightarrow> 'w os \<Rightarrow> string \<Rightarrow> string \<Rightarrow> cmdline_config \<Rightarrow>
    (('w, 'p) machine, initramfs_error, unit) io" where
  "switch_root fuel os fd new_root cl =
     bindE (prepare_switch os new_root cl) (\<lambda>(init_full_path, initramfs).
     bindE (enter_new_root os new_root) (\<lambda>_.
     hand_over fuel os fd init_full_path initramfs))"

section \<open>A failed switch puts the mounts back\<close>

definition forward_move :: "string \<Rightarrow> string \<Rightarrow> call" where
  "forward_move new_root name = move_call (slash # name) (path_join new_root name)"

definition backward_move :: "string \<Rightarrow> string \<Rightarrow> call" where
  "backward_move new_root name = move_call (path_join new_root name) (slash # name)"

lemma unit_call_trace: "sys_unit os c s = (r, s') \<Longrightarrow> trace s' = trace s @ [(c, \<not> isl r)]"
  by (auto simp: sys_unit_def split: prod.splits)

lemma move_mount_trace:
  "move_mount os a b s = (r, s') \<Longrightarrow> trace s' = trace s @ [(move_call a b, \<not> isl r)]"
  by (auto simp: move_mount_def map_err_def split: prod.splits sum.splits dest: unit_call_trace)

definition move_back :: "'w os \<Rightarrow> string \<Rightarrow> string \<Rightarrow> (('w, 'p) machine, unit, unit) io" where
  "move_back os new_root name = ignore (move_mount os (path_join new_root name) (slash # name))"

lemma move_back_trace:
  "\<exists>ok. trace (snd (move_back os new_root n s)) = trace s @ [(backward_move new_root n, ok)]"
proof -
  obtain r s1 where m: "move_mount os (path_join new_root n) (slash # n) s = (r, s1)" by fastforce
  from move_mount_trace [OF m] m show ?thesis by (simp add: move_back_def backward_move_def)
qed

lemma move_back_each:
  "\<exists>oks. length oks = length ns \<and>
     trace (snd (for_each ns (move_back os new_root) s)) = trace s @ zip (map (backward_move new_root) ns) oks"
proof (induction ns arbitrary: s)
  case (Cons n ns)
  let ?s1 = "snd (move_back os new_root n s)"
  have e: "for_each (n # ns) (move_back os new_root) s = for_each ns (move_back os new_root) ?s1"
    by (simp add: bindE_def move_back_def)
  obtain ok where ok: "trace ?s1 = trace s @ [(backward_move new_root n, ok)]"
    using move_back_trace by blast
  obtain oks where "length oks = length ns" "trace (snd (for_each ns (move_back os new_root) ?s1))
      = trace ?s1 @ zip (map (backward_move new_root) ns) oks"
    using Cons.IH by blast
  then show ?case unfolding e ok by (intro exI [of _ "ok # oks"]) simp
qed simp

lemma rollback_trace:
  "\<exists>oks. length oks = length moved \<and>
     trace (snd ((rollback_critical_mounts os moved new_root :: (('w, 'p) machine, unit, unit) io) s))
     = trace s @ zip (map (backward_move new_root) (rev moved)) oks"
proof -
  have "rollback_critical_mounts os moved new_root
      = (for_each (rev moved) (move_back os new_root) :: (('w, 'p) machine, unit, unit) io)"
    by (simp add: rollback_critical_mounts_def move_back_def [abs_def])
  then show ?thesis using move_back_each [of "rev moved" os new_root s] by simp
qed

text \<open>A computation that makes one call and, when it fails, the moves back.\<close>

lemma guarded_call:
  assumes "on_err (map_err g (sys_unit os c)) (rollback_critical_mounts os moved new_root ::
      (('w, 'p) machine, unit, unit) io) s = (r, s')"
  shows "(r = Inr () \<and> trace s' = trace s @ [(c, True)]) \<or>
    (isl r \<and> (\<exists>oks. length oks = length moved \<and>
      trace s' = trace s @ [(c, False)] @ zip (map (backward_move new_root) (rev moved)) oks))"
proof -
  obtain q s1 where q: "sys_unit os c s = (q, s1)" by fastforce
  note t = unit_call_trace [OF q]
  show ?thesis
  proof (cases q)
    case (Inr u)
    then show ?thesis using assms q t by (auto simp: on_err_def map_err_def)
  next
    case (Inl e)
    then have s': "r = Inl (g e)" "s' = snd ((rollback_critical_mounts os moved new_root ::
        (('w, 'p) machine, unit, unit) io) s1)"
      using assms q by (auto simp: on_err_def map_err_def)
    then show ?thesis using rollback_trace [of moved os new_root s1] t Inl by auto
  qed
qed

text \<open>The shape of a failed attempt: what was moved, the failing step, and the moves back.\<close>

definition undone :: "string \<Rightarrow> (call \<times> bool) list \<Rightarrow> bool" where
  "undone new_root t \<longleftrightarrow> (\<exists>k failing oks. k \<le> length CRITICAL \<and> length oks = k \<and>
     t = map (\<lambda>n. (forward_move new_root n, True)) (take k CRITICAL) @ failing
         @ zip (map (backward_move new_root) (rev (take k CRITICAL))) oks
     \<and> (failing = [(forward_move new_root (CRITICAL ! k), False)] \<and> k < length CRITICAL
       \<or> failing = [(Chdir new_root, False)] \<and> k = length CRITICAL
       \<or> failing = [(Chdir new_root, True), (move_call ''.'' ''/'', False)] \<and> k = length CRITICAL))"

definition moved_trace :: "string \<Rightarrow> string list \<Rightarrow> (call \<times> bool) list" where
  "moved_trace new_root ns = map (\<lambda>n. (forward_move new_root n, True)) ns"

lemma move_all_trace:
  "moved @ names = CRITICAL \<Longrightarrow> trace s = t0 @ moved_trace new_root moved \<Longrightarrow>
   move_all os new_root names moved s = (r, s') \<Longrightarrow>
   (r = Inr CRITICAL \<and> trace s' = t0 @ moved_trace new_root CRITICAL)
   \<or> (isl r \<and> (\<exists>t. trace s' = t0 @ t \<and> undone new_root t))"
proof (induction names arbitrary: moved s)
  case Nil
  then show ?case by simp
next
  case (Cons name names)
  let ?step = "on_err (move_mount os (slash # name) (path_join new_root name))
      (rollback_critical_mounts os moved new_root :: (('a, 'b) machine, unit, unit) io)"
  obtain q s1 where q: "?step s = (q, s1)" by fastforce
  have c: "CRITICAL ! length moved = name" "take (length moved) CRITICAL = moved"
      "length moved < length CRITICAL"
    by (simp_all flip: Cons.prems(1))
  have "(q = Inr () \<and> trace s1 = trace s @ [(forward_move new_root name, True)]) \<or>
    (isl q \<and> (\<exists>oks. length oks = length moved \<and> trace s1 = trace s @ [(forward_move new_root name, False)]
       @ zip (map (backward_move new_root) (rev moved)) oks))"
    using guarded_call [OF q [unfolded move_mount_def]] by (simp add: forward_move_def)
  then show ?case
  proof
    assume ok: "q = Inr () \<and> trace s1 = trace s @ [(forward_move new_root name, True)]"
    have "move_all os new_root names (moved @ [name]) s1 = (r, s')"
      using Cons.prems(3) q ok by (simp add: bindE_def)
    then show ?thesis
      using Cons.IH [of "moved @ [name]" s1] Cons.prems(1,2) ok by (simp add: moved_trace_def)
  next
    assume bad: "isl q \<and> (\<exists>oks. length oks = length moved \<and> trace s1 = trace s
       @ [(forward_move new_root name, False)] @ zip (map (backward_move new_root) (rev moved)) oks)"
    then have "s' = s1" "isl r" using Cons.prems(3) q by (auto simp: bindE_def split: sum.splits)
    moreover obtain oks where "length oks = length moved"
      "trace s1 = t0 @ moved_trace new_root moved @ [(forward_move new_root name, False)]
         @ zip (map (backward_move new_root) (rev moved)) oks"
      using bad Cons.prems(2) by auto
    moreover from this(1) have "undone new_root (moved_trace new_root moved
         @ [(forward_move new_root name, False)] @ zip (map (backward_move new_root) (rev moved)) oks)"
      unfolding undone_def moved_trace_def
      by (intro exI [of _ "length moved"] exI [of _ "[(forward_move new_root name, False)]"]
          exI [of _ oks]) (use c in simp)
    ultimately show ?thesis by auto
  qed
qed

lemma enter_new_root_trace:
  "case enter_new_root os new_root s of
     (Inr _, s') \<Rightarrow> trace s' = trace s @ moved_trace new_root CRITICAL
         @ [(Chdir new_root, True), (move_call ''.'' ''/'', True)]
   | (Inl _, s') \<Rightarrow> (\<exists>t. trace s' = trace s @ t \<and> undone new_root t)"
proof -
  let ?returned = "rollback_critical_mounts os CRITICAL new_root :: (('a, 'b) machine, unit, unit) io"
  let ?cd = "on_err (map_err (\<lambda>e. sw_other (''Failed to chdir to new root: '' @ show_io e))
    (sys_unit os (Chdir new_root))) ?returned"
  let ?mv = "on_err (map_err (\<lambda>e. sw_other (''Failed to MS_MOVE new root to /: '' @ show_io e))
    (sys_unit os (move_call ''.'' ''/''))) ?returned"
  have fin: "undone new_root (moved_trace new_root CRITICAL @ failing
      @ zip (map (backward_move new_root) (rev CRITICAL)) oks)"
    if "length oks = length CRITICAL" and "failing = [(Chdir new_root, False)]
      \<or> failing = [(Chdir new_root, True), (move_call ''.'' ''/'', False)]" for failing oks
    unfolding undone_def moved_trace_def
    by (intro exI [of _ "length CRITICAL"] exI [of _ failing] exI [of _ oks]) (use that in simp)
  obtain r1 s1 where m: "move_all os new_root CRITICAL [] s = (r1, s1)" by fastforce
  have all: "(r1 = Inr CRITICAL \<and> trace s1 = trace s @ moved_trace new_root CRITICAL)
      \<or> (isl r1 \<and> (\<exists>t. trace s1 = trace s @ t \<and> undone new_root t))"
    using move_all_trace [of "[]" CRITICAL s "trace s", OF _ _ m] by (simp add: moved_trace_def)
  obtain r2 s2 where cd: "?cd s1 = (r2, s2)" by fastforce
  obtain r3 s3 where mv: "?mv s2 = (r3, s3)" by fastforce
  consider "isl r1" | "r1 = Inr CRITICAL" "isl r2" | "r1 = Inr CRITICAL" "r2 = Inr ()"
    using all by (cases r2) auto
  then show ?thesis
  proof cases
    case 1
    then show ?thesis using all m by (auto simp: enter_new_root_def bindE_def split: sum.splits)
  next
    case 2
    then obtain oks where "length oks = length CRITICAL" "trace s2 = trace s1 @ [(Chdir new_root, False)]
        @ zip (map (backward_move new_root) (rev CRITICAL)) oks"
      using guarded_call [OF cd] by auto
    then show ?thesis using 2 all m cd fin [of oks "[(Chdir new_root, False)]"]
      by (auto simp: enter_new_root_def bindE_def split: sum.splits)
  next
    case 3
    then have t2: "trace s2 = trace s @ moved_trace new_root CRITICAL @ [(Chdir new_root, True)]"
      using guarded_call [OF cd] all by auto
    have e: "enter_new_root os new_root s = (r3, s3)"
      unfolding enter_new_root_def bindE_Inr [of "move_all os new_root CRITICAL []", OF m [unfolded 3(1)]]
        bindE_Inr [of ?cd, OF cd [unfolded 3(2)]]
      by (rule mv)
    show ?thesis
    proof (cases r3)
      case (Inr u)
      then show ?thesis using e t2 guarded_call [OF mv] by auto
    next
      case (Inl x)
      then obtain oks where "length oks = length CRITICAL" "trace s3 = trace s2 @ [(move_call ''.'' ''/'', False)]
          @ zip (map (backward_move new_root) (rev CRITICAL)) oks"
        using guarded_call [OF mv] by auto
      then show ?thesis
        using e t2 Inl fin [of oks "[(Chdir new_root, True), (move_call ''.'' ''/'', False)]"] by auto
    qed
  qed
qed

text \<open>
  C26: A failed switch undoes itself. Entering the new root either moves the four mounts, changes
  into the root and makes it the root of the mount tree, in this order; or it fails at one step, and
  then every mount moved before that step is moved back, the last one first.
\<close>

theorem enter_new_root_undone:
  "case enter_new_root os new_root s of
     (Inr _, s') \<Rightarrow> trace s' = trace s @ moved_trace new_root CRITICAL
         @ [(Chdir new_root, True), (move_call ''.'' ''/'', True)]
   | (Inl _, s') \<Rightarrow> (\<exists>t. trace s' = trace s @ t \<and> undone new_root t)"
  by (rule enter_new_root_trace)

section \<open>The old root is deleted on its own device only\<close>

text \<open>A file stays on its device: what \<open>lstat\<close> tells about the device of a path.\<close>

definition device_known :: "'w os \<Rightarrow> (string \<Rightarrow> u64) \<Rightarrow> bool" where
  "device_known os device_of \<longleftrightarrow>
     (\<forall>p w m w'. os_stat os (Lstat p) w = (Inr m, w') \<longrightarrow> st_dev m = device_of p)"

definition deletes_on :: "(string \<Rightarrow> u64) \<Rightarrow> u64 \<Rightarrow> call \<Rightarrow> bool" where
  "deletes_on device_of dev c \<longleftrightarrow> (case c of
     RemoveFile p \<Rightarrow> device_of p = dev | RemoveDir p \<Rightarrow> device_of p = dev
   | ReadDir _ \<Rightarrow> True | Lstat _ \<Rightarrow> True | _ \<Rightarrow> False)"

lemma deletes_on_simps:
  "deletes_on device_of dev (RemoveFile p) = (device_of p = dev)"
  "deletes_on device_of dev (RemoveDir p) = (device_of p = dev)"
  "deletes_on device_of dev (ReadDir p)" "deletes_on device_of dev (Lstat p)"
  by (simp_all add: deletes_on_def)

lemma calls_only_stat_then:
  assumes "P (Lstat p)" and "\<And>e. calls_only P (f (Inl e))"
    and "\<And>m w w'. os_stat os (Lstat p) w = (Inr m, w') \<Longrightarrow> calls_only P (f (Inr m))"
  shows "calls_only P (caught (sys_stat os (Lstat p)) f :: (('w, 'p) machine, 'e, 'a) io)"
  unfolding calls_only_def
proof
  fix s :: "('w, 'p) machine"
  obtain r s1 where r: "sys_stat os (Lstat p) s = (r, s1)" by fastforce
  then have t: "trace s1 = trace s @ [(Lstat p, \<not> isl r)]" and o': "os_stat os (Lstat p) (world s) = (r, world s1)"
    by (auto simp: sys_stat_def split: prod.splits)
  have c: "calls_only P (f r)" using assms(2,3) o' by (cases r) auto
  obtain q s2 where q: "f r s1 = (q, s2)" by fastforce
  obtain u where "trace s2 = trace s1 @ u" "\<forall>c \<in> set u. P (fst c)"
    using calls_only_split [OF c q] by blast
  then show "\<exists>t. trace (snd (caught (sys_stat os (Lstat p)) f s)) = trace s @ t \<and> (\<forall>c \<in> set t. P (fst c))"
    using r q t assms(1) by (intro exI [of _ "(Lstat p, \<not> isl r) # u"]) (auto simp: caught_def)
qed

lemma delete_entry_calls:
  assumes "device_known os device_of" and rec: "\<And>p n. calls_only (deletes_on device_of dev) (recurse p n)"
  shows "calls_only (deletes_on device_of dev) (delete_entry os dev recurse dir entry n)"
proof (cases entry)
  case (Inr name)
  let ?p = "path_join dir name"
  have "calls_only (deletes_on device_of dev) (if st_dev meta \<noteq> dev then ret n
      else if st_is_dir meta then bindE (recurse ?p n) (\<lambda>n'.
        caught (sys_unit os (RemoveDir ?p)) (\<lambda>r. ret (count_result n' r)))
      else caught (sys_unit os (RemoveFile ?p)) (\<lambda>r. ret (count_result n r)))"
    if "os_stat os (Lstat ?p) w = (Inr meta, w')" for meta w w'
    using assms(1) that
    by (intro calls_intros rec) (use assms(1) that in \<open>simp_all add: deletes_on_simps device_known_def, metis+\<close>)
  then show ?thesis
    unfolding delete_entry_def Let_def Inr sum.case
    by (intro calls_only_stat_then) (simp_all add: deletes_on_simps calls_intros)
qed (simp add: delete_entry_def calls_intros)

text \<open>
  C30: Freeing the initramfs touches nothing else. Whatever the directory tree looks like and however
  deep it is followed, every file and directory that is deleted lies on the device of the old root;
  nothing on a mounted file system is removed, and nothing but reading and deleting happens.
\<close>

theorem delete_same_device:
  assumes "device_known os device_of"
  shows "calls_only (deletes_on device_of dev) (delete_contents fuel os dev dir n)"
proof (induction fuel arbitrary: dir n)
  case (Suc fuel)
  show ?case
    unfolding delete_contents.simps
    by (intro calls_intros delete_entry_calls [OF assms] Suc) (simp add: deletes_on_simps)
qed (simp add: calls_intros)

section \<open>The whole switch\<close>

text \<open>Any machine on which every call works; the root is a tmpfs, and it is empty.\<close>

definition program_stat :: file_stat where
  "program_stat = \<lparr>st_uid = 0, st_gid = 0, st_mode = 0x1ED, st_dev = 7, st_rdev = 0,
     st_len = 0, st_is_file = True, st_is_dir = False, st_is_block = False\<rparr>"

definition willing_os :: "unit os" where
  "willing_os = \<lparr>os_unit = \<lambda>_ w. (Inr (), w), os_text = \<lambda>_ w. (Inl (IoError NotFound []), w),
     os_bool = \<lambda>_ w. (True, w), os_num = \<lambda>_ w. (Inr TMPFS_MAGIC, w),
     os_run = \<lambda>_ w. (Inl (IoError NotFound []), w),
     os_stat = \<lambda>_ w. (Inr program_stat, w),
     os_entries = \<lambda>_ w. (Inr [Inr ''init''], w), os_addrs = \<lambda>_ w. (Inr [], w), os_delay = \<lambda>_ _. 1\<rparr>"

lemma delete_same_device_witness:
  "calls_only (deletes_on (\<lambda>_. 7) 7) (delete_contents 3 willing_os 7 ''/proc/self/fd/5''
     \<lparr>n_deleted = 0, n_failed = 0\<rparr>)"
  by (rule delete_same_device) (auto simp: device_known_def willing_os_def program_stat_def)

definition quiet_call :: "call \<Rightarrow> bool" where
  "quiet_call c \<longleftrightarrow> (case c of MountCall _ _ _ _ _ \<Rightarrow> False | Chroot _ \<Rightarrow> False | ExecCall _ _ \<Rightarrow> False
     | RemoveFile _ \<Rightarrow> False | RemoveDir _ \<Rightarrow> False | _ \<Rightarrow> True)"

definition freeing_call :: "call \<Rightarrow> bool" where
  "freeing_call c \<longleftrightarrow> (case c of RemoveFile _ \<Rightarrow> True | RemoveDir _ \<Rightarrow> True | ReadDir _ \<Rightarrow> True
     | Lstat _ \<Rightarrow> True | _ \<Rightarrow> False)"

lemma delete_entry_frees:
  "(\<And>p n. calls_only freeing_call (recurse p n)) \<Longrightarrow>
   calls_only freeing_call (delete_entry os dev recurse dir entry n)"
  unfolding delete_entry_def Let_def by (intro calls_intros) (simp_all add: freeing_call_def)

lemma delete_contents_calls: "calls_only freeing_call (delete_contents fuel os dev dir n)"
proof (induction fuel arbitrary: dir n)
  case (Suc fuel)
  show ?case
    unfolding delete_contents.simps
    by (intro calls_intros delete_entry_frees Suc) (simp add: freeing_call_def)
qed (simp add: calls_intros)

lemma absolute_init_starts: "starts_with ''/'' (absolute_init p)"
  by (auto simp: absolute_init_def str_simps)

lemma absolute_init_pieces:
  "''..'' \<notin> set (split_char slash p) \<Longrightarrow> ''..'' \<notin> set (split_char slash (absolute_init p))"
  using split_char_append [of slash "[]" p] by (auto simp: absolute_init_def split_char_def)

lemma resolve_init_path_value:
  assumes "resolve_init_path os new_root p s = (Inr q, s')"
  shows "q = absolute_init p \<and> ''..'' \<notin> set (split_char slash p)"
  using assms by (auto simp: resolve_init_path_def bindE_eq_Inr Let_def split: if_splits)

lemma prepare_calls: "calls_only quiet_call (prepare_switch os new_root cl)"
  unfolding prepare_switch_def resolve_init_path_def is_executable_file_def open_initramfs_root_def
    make_mountpoint_def Let_def
  by (intro calls_intros) (simp_all add: quiet_call_def)

lemma free_calls: "calls_only freeing_call (case i of Some dev \<Rightarrow> free_initramfs fuel os fd dev | None \<Rightarrow> ret ())"
  unfolding free_initramfs_def by (intro calls_intros delete_contents_calls)

lemma hand_over_trace:
  assumes "hand_over fuel os fd p i s = (Inr (), s')"
  shows "\<exists>u. trace s' = trace s @ [(Chroot ''.'', True), (Chdir ''/'', True)] @ u @ [(ExecCall p [], True)]
    \<and> (\<forall>c \<in> set u. freeing_call (fst c))"
proof -
  obtain s1 s2 s3 where chroot: "sys_unit os (Chroot ''.'') s = (Inr (), s1)"
    and chdir: "sys_unit os (Chdir ''/'') s1 = (Inr (), s2)"
    and free: "(case i of Some dev \<Rightarrow> free_initramfs fuel os fd dev | None \<Rightarrow> ret ()) s2
      = (Inr () :: initramfs_error + unit, s3)"
    and exec: "sys_unit os (ExecCall p []) s3 = (Inr (), s')"
    using assms by (auto simp: hand_over_def bindE_eq_Inr)
  obtain u where "trace s3 = trace s2 @ u" "\<forall>c \<in> set u. freeing_call (fst c)"
    using calls_only_split [OF free_calls free] by blast
  then show ?thesis
    using unit_call_trace [OF chroot] unit_call_trace [OF chdir] unit_call_trace [OF exec]
    by (intro exI [of _ u]) auto
qed

text \<open>
  C9: Control is handed over in order. When the switch succeeds, the four mounts were moved, the new
  root became the root of the mount tree and of the process, only then files of the old root were
  deleted, and the last call started an init given by an absolute path without a step upwards.
\<close>

theorem switch_root_order:
  assumes "switch_root fuel os fd new_root cl s = (Inr (), s')"
  shows "\<exists>t u p. trace s' = trace s @ t @ moved_trace new_root CRITICAL
        @ [(Chdir new_root, True), (move_call ''.'' ''/'', True), (Chroot ''.'', True), (Chdir ''/'', True)]
        @ u @ [(ExecCall p [], True)]
    \<and> (\<forall>c \<in> set t. quiet_call (fst c)) \<and> (\<forall>c \<in> set u. freeing_call (fst c))
    \<and> starts_with ''/'' p \<and> ''..'' \<notin> set (split_char slash p)"
proof -
  obtain p i s1 s2 where pre: "prepare_switch os new_root cl s = (Inr (p, i), s1)"
    and enter: "enter_new_root os new_root s1 = (Inr (), s2)"
    and over: "hand_over fuel os fd p i s2 = (Inr (), s')"
    using assms by (auto simp: switch_root_def bindE_eq_Inr)
  obtain t where t: "trace s1 = trace s @ t" "\<forall>c \<in> set t. quiet_call (fst c)"
    using calls_only_split [OF prepare_calls pre] by blast
  have p: "p = absolute_init (init_path_from_cmdline cl)"
      "''..'' \<notin> set (split_char slash (init_path_from_cmdline cl))"
    using pre by (auto simp: prepare_switch_def bindE_eq_Inr split: if_splits dest: resolve_init_path_value)
  have e: "trace s2 = trace s1 @ moved_trace new_root CRITICAL
      @ [(Chdir new_root, True), (move_call ''.'' ''/'', True)]"
    using enter_new_root_trace [where os = os and new_root = new_root and s = s1] enter by simp
  obtain u where "trace s' = trace s2 @ [(Chroot ''.'', True), (Chdir ''/'', True)] @ u @ [(ExecCall p [], True)]"
    "\<forall>c \<in> set u. freeing_call (fst c)"
    using hand_over_trace [OF over] by blast
  then show ?thesis
    using t e p absolute_init_starts absolute_init_pieces
    by (intro exI [of _ t] exI [of _ u] exI [of _ p]) auto
qed

lemma willing_calls:
  "sys_unit willing_os c s = (Inr (), record_call 1 c True () s)"
  "sys_bool willing_os c s = (Inr True, record_call 1 c True () s)"
  "sys_num willing_os c s = (Inr TMPFS_MAGIC, record_call 1 c True () s)"
  "sys_entries willing_os c s = (Inr [Inr ''init''], record_call 1 c True () s)"
  "sys_stat willing_os c s = (Inr program_stat, record_call 1 c True () s)"
  by (simp_all add: willing_os_def sys_unit_def sys_bool_def sys_num_def sys_entries_def sys_stat_def
      test_path_def)

lemma willing_enter: "fst (enter_new_root willing_os new_root s) = Inr ()"
  by (simp add: enter_new_root_def CRITICAL_def move_mount_def bindE_def on_err_def map_err_def willing_calls)

lemma willing_hand_over: "fst (hand_over 1 willing_os fd p i s) = Inr ()"
  by (cases i) (simp_all add: hand_over_def free_initramfs_def bindE_def caught_def map_err_def
      willing_calls delete_entry_def Let_def program_stat_def)

lemma switch_root_order_witness:
  "\<exists>s' p t. switch_root 1 willing_os ''5'' ''/rootfs'' Map.empty
      \<lparr>world = (), trace = [], clock = 0, program = ()\<rparr> = (Inr (), s') \<and> trace s' = t @ [(ExecCall p [], True)]"
proof -
  let ?s = "\<lparr>world = (), trace = [], clock = 0, program = ()\<rparr>"
  have "fst (prepare_switch willing_os ''/rootfs'' Map.empty ?s) = Inr (''/sbin/init'', Some 7)"
    by (simp add: prepare_switch_def bindE_def caught_def map_err_def willing_calls resolve_init_path_def
        is_executable_file_def open_initramfs_root_def is_ram_fs_def init_path_from_cmdline_def
        cmdline_get_def DEFAULT_INIT_def split_char_def absolute_init_def str_simps CRITICAL_def
        make_mountpoint_def program_stat_def Let_def)
  then obtain s1 where s1: "prepare_switch willing_os ''/rootfs'' Map.empty ?s = (Inr (''/sbin/init'', Some 7), s1)"
    by (metis prod.collapse)
  obtain s2 where s2: "enter_new_root willing_os ''/rootfs'' s1 = (Inr (), s2)"
    using willing_enter [of "''/rootfs''" s1] by (metis prod.collapse)
  obtain s' where "hand_over 1 willing_os ''5'' ''/sbin/init'' (Some 7) s2 = (Inr (), s')"
    using willing_hand_over [of "''5''" "''/sbin/init''" "Some 7" s2] by (metis prod.collapse)
  then have s': "switch_root 1 willing_os ''5'' ''/rootfs'' Map.empty ?s = (Inr (), s')"
    using s1 s2 by (simp add: switch_root_def bindE_def)
  obtain t u p where e: "trace s' = trace ?s @ t @ moved_trace ''/rootfs'' CRITICAL
        @ [(Chdir ''/rootfs'', True), (move_call ''.'' ''/'', True), (Chroot ''.'', True), (Chdir ''/'', True)]
        @ u @ [(ExecCall p [], True)]"
    using switch_root_order [OF s'] by blast
  have "trace s' = (trace ?s @ t @ moved_trace ''/rootfs'' CRITICAL
        @ [(Chdir ''/rootfs'', True), (move_call ''.'' ''/'', True), (Chroot ''.'', True), (Chdir ''/'', True)]
        @ u) @ [(ExecCall p [], True)]"
    unfolding e by simp
  then show ?thesis using s' by blast
qed

end
