(* ===== verification/Ods.thy ===== *)
theory Ods
  imports Overlayfs Boot_Env
begin

text \<open>
  \<open>src/runtime/omnect_device_service.rs\<close>: the runtime files omnect-device-service reads, and the
  handling of the update flags of the boot environment. The JSON serialiser is a parameter: it
  gives the text of a status, or an error text.
\<close>

section \<open>Constants\<close>

definition ODS_RUNTIME_DIR :: string where "ODS_RUNTIME_DIR = ''/run/omnect-device-service''"
definition ODS_STATUS_FILE :: string where "ODS_STATUS_FILE = ''omnect-os-initramfs.json''"
definition UPDATE_VALIDATE_FILE :: string where "UPDATE_VALIDATE_FILE = ''omnect_validate_update''"
definition UPDATE_VALIDATE_FAILED_FILE :: string where
  "UPDATE_VALIDATE_FAILED_FILE = ''omnect_validate_update_failed''"
definition BOOTLOADER_UPDATED_FILE :: string where "BOOTLOADER_UPDATED_FILE = ''omnect_bootloader_updated''"
definition UPDATE_VALIDATION_CONF :: string where
  "UPDATE_VALIDATION_CONF = ''omnect-device-service/update_validation_conf.json''"
definition ODS_USER :: string where "ODS_USER = ''omnect_device_service''"
definition ODS_GROUP :: string where "ODS_GROUP = ''omnect_device_service''"
definition TRIGGER_FILE_CONTENT :: string where "TRIGGER_FILE_CONTENT = ''1''"

datatype file_permission = DirStandard | FileRestricted | FileReadable

definition permission_bits :: "file_permission \<Rightarrow> u32" where
  "permission_bits m = (case m of DirStandard \<Rightarrow> 0x1FD | FileRestricted \<Rightarrow> 0x180 | FileReadable \<Rightarrow> 0x1A4)"

definition other_error :: "string \<Rightarrow> initramfs_error" where
  "other_error why = Io (IoError OtherKind why)"

section \<open>User and group of the service\<close>

text \<open>The second colon-separated field after the name, in the first line of that name that has one.\<close>

fun find_id :: "string \<Rightarrow> string list \<Rightarrow> string option" where
  "find_id name [] = None"
| "find_id name (l # ls) = (case split_char (CHR '':'') l of
     n # _ # num # _ \<Rightarrow> if n = name then Some num else find_id name ls
   | _ \<Rightarrow> find_id name ls)"

definition lookup_uid :: "'w os \<Rightarrow> string \<Rightarrow> string \<Rightarrow> (('w, 'p) machine, initramfs_error, u32) io" where
  "lookup_uid os rootfs username = (let passwd = path_join rootfs ''etc/passwd'' in
     bindE (map_err (\<lambda>e. other_error (''Failed to read '' @ passwd @ '': '' @ show_io e))
              (sys_text os (ReadText passwd))) (\<lambda>content.
     case find_id username (rust_lines content) of
       Some num \<Rightarrow> (case parse_u32 num of Some uid \<Rightarrow> ret uid
         | None \<Rightarrow> throw (other_error (''Invalid UID for '' @ username @ '': '' @ uint_error_text (2 ^ 32) num)))
     | None \<Rightarrow> throw (other_error (''user '' @ username @ '' not found in '' @ passwd))))"

definition lookup_gid :: "'w os \<Rightarrow> string \<Rightarrow> string \<Rightarrow> (('w, 'p) machine, initramfs_error, u32) io" where
  "lookup_gid os rootfs groupname = (let grp = path_join rootfs ''etc/group'' in
     bindE (map_err (\<lambda>e. other_error (''Failed to read '' @ grp @ '': '' @ show_io e))
              (sys_text os (ReadText grp))) (\<lambda>content.
     case find_id groupname (rust_lines content) of
       Some num \<Rightarrow> (case parse_u32 num of Some gid \<Rightarrow> ret gid
         | None \<Rightarrow> throw (other_error (''Invalid GID for '' @ groupname @ '': '' @ uint_error_text (2 ^ 32) num)))
     | None \<Rightarrow> throw (other_error (''group '' @ groupname @ '' not found in '' @ grp))))"

definition set_ownership :: "'w os \<Rightarrow> string \<Rightarrow> u32 \<Rightarrow> u32 \<Rightarrow> (('w, 'p) machine, initramfs_error, unit) io" where
  "set_ownership os path uid gid =
     map_err (\<lambda>e. other_error (''Failed to chown '' @ path @ '': '' @ show_io e))
       (sys_unit os (Chown path uid gid))"

definition set_mode :: "'w os \<Rightarrow> string \<Rightarrow> file_permission \<Rightarrow> (('w, 'p) machine, initramfs_error, unit) io" where
  "set_mode os path mode =
     map_err (\<lambda>e. other_error (''Failed to chmod '' @ path @ '': '' @ show_io e))
       (sys_unit os (Chmod path (permission_bits mode)))"

section \<open>Files\<close>

definition write_status_file :: "'w os \<Rightarrow> (ods_status \<Rightarrow> string + string) \<Rightarrow> string \<Rightarrow> ods_status \<Rightarrow>
    (('w, 'p) machine, initramfs_error, unit) io" where
  "write_status_file os json ods_dir status = (let status_path = path_join ods_dir ODS_STATUS_FILE in
     case json status of
       Inl why \<Rightarrow> throw (other_error (''Failed to serialize ODS status: '' @ why))
     | Inr t \<Rightarrow> map_err (\<lambda>e. other_error (''Failed to write ODS status to '' @ status_path @ '': '' @ show_io e))
         (sys_unit os (WriteFile status_path t)))"

definition write_trigger_file :: "'w os \<Rightarrow> string \<Rightarrow> string \<Rightarrow> file_permission \<Rightarrow> u32 \<Rightarrow> u32 \<Rightarrow>
    (('w, 'p) machine, initramfs_error, unit) io" where
  "write_trigger_file os ods_dir name mode uid gid = (let path = path_join ods_dir name in
     bindE (map_err (\<lambda>e. other_error (''Failed to write '' @ path @ '': '' @ show_io e))
              (sys_unit os (WriteFile path TRIGGER_FILE_CONTENT))) (\<lambda>_.
     bindE (set_ownership os path uid gid) (\<lambda>_. set_mode os path mode)))"

definition remove_update_validation_conf :: "'w os \<Rightarrow> string \<Rightarrow> (('w, 'p) machine, 'e, unit) io" where
  "remove_update_validation_conf os rootfs = ignore (sys_unit os (RemoveFile
     (path_join (path_join (path_join rootfs MP_DATA_PARTITION) PATH_VAR_LIB) UPDATE_VALIDATION_CONF)))"

section \<open>Update flags\<close>

definition read_flag :: "'s boot_env \<Rightarrow> boot_env_key \<Rightarrow> ('s, initramfs_error, bool) io" where
  "read_flag be k = map_err Bootloader (is_flag_set be k)"

definition clear_flag :: "'s boot_env \<Rightarrow> boot_env_key \<Rightarrow> ('s, 'e, unit) io" where
  "clear_flag be k = ignore (set_env be k None)"

definition ensure_first_boot_marker :: "'s boot_env \<Rightarrow> ('s, 'e, bool) io" where
  "ensure_first_boot_marker be = caught (is_first_boot_done be) (\<lambda>r.
     if r = Inr True then ret True
     else caught (set_first_boot_done be) (\<lambda>w. ret (w = Inr ())))"

definition clear_update_flag :: "'s boot_env \<Rightarrow> boot_env_key \<Rightarrow> bool \<Rightarrow> ('s, 'e, unit) io" where
  "clear_update_flag be k marker_set = (if marker_set then clear_flag be k else ret ())"

definition handle_update_validation :: "'w os \<Rightarrow> string \<Rightarrow> string \<Rightarrow> ('w, 'p) machine boot_env \<Rightarrow>
    u32 \<Rightarrow> u32 \<Rightarrow> (('w, 'p) machine, initramfs_error, unit) io" where
  "handle_update_validation os ods_dir rootfs be uid gid =
     bindE (read_flag be ValidateUpdate) (\<lambda>validate_update.
     bindE (read_flag be ValidateUpdateFailed) (\<lambda>validate_update_failed.
     if validate_update \<and> validate_update_failed then throw ConflictingUpdateFlags
     else
       bindE (if \<not> validate_update then remove_update_validation_conf os rootfs else ret ()) (\<lambda>_.
       bindE (read_flag be BootloaderUpdated) (\<lambda>bootloader_updated.
       bindE (if validate_update \<or> validate_update_failed \<or> bootloader_updated
              then ensure_first_boot_marker be else ret False) (\<lambda>marker_set.
       bindE (if validate_update
              then write_trigger_file os ods_dir UPDATE_VALIDATE_FILE FileReadable uid gid
              else ret ()) (\<lambda>_.
       bindE (if validate_update_failed
              then bindE (write_trigger_file os ods_dir UPDATE_VALIDATE_FAILED_FILE FileReadable uid gid)
                     (\<lambda>_. clear_update_flag be ValidateUpdateFailed marker_set)
              else ret ()) (\<lambda>_.
       if bootloader_updated
       then bindE (write_trigger_file os ods_dir BOOTLOADER_UPDATED_FILE FileRestricted uid gid)
              (\<lambda>_. clear_update_flag be BootloaderUpdated marker_set)
       else ret ())))))))"

definition create_ods_runtime_files :: "'w os \<Rightarrow> (ods_status \<Rightarrow> string + string) \<Rightarrow> ods_status \<Rightarrow>
    ('w, 'p) machine boot_env option \<Rightarrow> string \<Rightarrow> string \<Rightarrow> (('w, 'p) machine, initramfs_error, unit) io" where
  "create_ods_runtime_files os json status be rootfs ods_dir =
     bindE (lookup_uid os rootfs ODS_USER) (\<lambda>uid.
     bindE (lookup_gid os rootfs ODS_GROUP) (\<lambda>gid.
     bindE (map_err (\<lambda>e. other_error (''Failed to create ODS runtime dir: '' @ show_io e))
              (sys_unit os (MakeDirs ods_dir))) (\<lambda>_.
     bindE (set_ownership os ods_dir uid gid) (\<lambda>_.
     bindE (set_mode os ods_dir DirStandard) (\<lambda>_.
     bindE (write_status_file os json ods_dir status) (\<lambda>_.
     bindE (set_ownership os (path_join ods_dir ODS_STATUS_FILE) uid gid) (\<lambda>_.
     bindE (set_mode os (path_join ods_dir ODS_STATUS_FILE) FileRestricted) (\<lambda>_.
     case be of
       Some b \<Rightarrow> handle_update_validation os ods_dir rootfs b uid gid
     | None \<Rightarrow> ret ()))))))))"

end
