(* ===== verification/Normal.thy ===== *)
theory Normal
  imports Boot_Sequence Init_Setup Fs_Link Switch_Root Ods Mode
begin

text \<open>
  \<open>src/mode/normal.rs\<close>: the normal boot. \<open>order\<close> is the order in which the map of the fsck results
  is iterated, which the hash map leaves open; \<open>json\<close> writes the status, \<open>links\<close> parses the
  configuration of the links.
\<close>

definition resize_succeeded :: "features \<Rightarrow> ods_status \<Rightarrow> bool" where
  "resize_succeeded ft st = (if resize_data_enabled ft then ods_resize_data st = None else True)"

definition extra_bootargs_applied_ok :: "ods_status \<Rightarrow> bool" where
  "extra_bootargs_applied_ok st = (ods_extra_bootargs st = None)"

definition write_first_boot_marker :: "bool \<Rightarrow> 's boot_env option \<Rightarrow> ('s, 'e, unit) io" where
  "write_first_boot_marker first_boot be =
     (if first_boot then (case be of Some b \<Rightarrow> ignore (set_first_boot_done b) | None \<Rightarrow> ret ())
      else ret ())"

text \<open>The condition under which the first boot counts as done.\<close>

definition first_boot_complete :: "features \<Rightarrow> ods_status \<Rightarrow> bool" where
  "first_boot_complete ft st \<longleftrightarrow>
     ods_first_boot st \<and> resize_succeeded ft st \<and> extra_bootargs_applied_ok st"

text \<open>The status is in the memory of the program; the handler owns it from here on.\<close>

definition run_normal :: "nat \<Rightarrow> features \<Rightarrow> 'w os \<Rightarrow> (ods_status \<Rightarrow> string + string) \<Rightarrow> links_parser \<Rightarrow>
    partition_name list \<Rightarrow> string \<Rightarrow> cmdline_config \<Rightarrow> partition_layout \<Rightarrow> string \<Rightarrow>
    'w init boot_env option \<Rightarrow> ('w init, initramfs_error, unit) io" where
  "run_normal fuel ft os json links order fd cl layout rootfs be =
     caught (mount_remaining_partitions os layout rootfs) (\<lambda>mount_result.
     bindE (get_prog ods) (\<lambda>st.
     bindE (persist_fsck_results os order be rootfs st) (\<lambda>_.
     bindE (lift_res mount_result) (\<lambda>_.
     bindE (map_err Filesystem (setup_raw_rootfs_mount os rootfs)) (\<lambda>_.
     bindE (map_err Filesystem (setup_etc_overlay os rootfs)) (\<lambda>_.
     bindE (map_err Filesystem (setup_data_overlay ft os rootfs)) (\<lambda>_.
     bindE (create_fs_links os links rootfs) (\<lambda>_.
     bindE (drain_fsck_env be) (\<lambda>_.
     bindE (get_prog ods) (\<lambda>status.
     bindE (create_ods_runtime_files os json status be rootfs ODS_RUNTIME_DIR) (\<lambda>_.
     bindE (write_first_boot_marker (first_boot_complete ft status) be) (\<lambda>_.
     switch_root fuel os fd rootfs cl))))))))))))"

lemma run_normal_mount_failed:
  fixes os :: "'w os" and s s1 :: "'w init"
  assumes "mount_remaining_partitions os layout rootfs s = (Inl e, s1)"
  shows "run_normal fuel ft os json links order fd cl layout rootfs be s =
    (Inl e, snd ((persist_fsck_results os order be rootfs (ods (program s1)) :: ('w init, initramfs_error, unit) io) s1))"
proof -
  have "never_fails (persist_fsck_results os order be rootfs (ods (program s1)) :: ('w init, initramfs_error, unit) io)"
    unfolding persist_fsck_results_def persist_one_def Let_def by (intro total_intros)
  then have "\<exists>u s2. (persist_fsck_results os order be rootfs (ods (program s1))
      :: ('w init, initramfs_error, unit) io) s1 = (Inr u, s2)" by (simp add: never_fails_def)
  then obtain u s2 where p: "(persist_fsck_results os order be rootfs (ods (program s1))
      :: ('w init, initramfs_error, unit) io) s1 = (Inr u, s2)" by blast
  show ?thesis
    unfolding run_normal_def caught_apply [where m = "mount_remaining_partitions os layout rootfs" and s = s, OF assms] by (simp add: bindE_def get_prog_def p)
qed

context env_store
begin

lemma marker_step:
  assumes "storable FIRST_BOOT_DONE" and "inv s" and "write_first_boot_marker b (Some be) s = (r, s')"
  shows "r = Inr () \<and> inv s' \<and> (\<forall>k. k \<noteq> FirstBootDone \<longrightarrow> lookup s' k = lookup s k)
    \<and> lookup s' FirstBootDone \<in> {lookup s FirstBootDone, Some FIRST_BOOT_DONE}
    \<and> (\<not> b \<longrightarrow> s' = s) \<and> (b \<and> never_fails (set_first_boot_done be) \<longrightarrow> lookup s' FirstBootDone = Some FIRST_BOOT_DONE)"
proof (cases b)
  case True
  obtain q s1 where q: "set_env be FirstBootDone (Some FIRST_BOOT_DONE) s = (q, s1)" by fastforce
  have "storable t" if "Some FIRST_BOOT_DONE = Some t" for t using assms(1) that by simp
  note law = set_law [OF assms(2) this q]
  have rs: "r = Inr ()" "s' = s1"
    using assms(3) True q by (simp_all add: write_first_boot_marker_def set_first_boot_done_def)
  have "never_fails (set_first_boot_done be) \<longrightarrow> q = Inr ()"
    using never_failsD [of "set_first_boot_done be" s q s1] q by (auto simp: set_first_boot_done_def)
  then show ?thesis using law True by (cases "q = Inr ()") (simp_all add: rs)
qed (use assms in \<open>simp add: write_first_boot_marker_def\<close>)

end

text \<open>
  C27: The first-boot gate. The marker is set only when this is the first boot and neither the resize
  of the data partition nor the boot arguments failed; without that the environment is not even
  called. A failing write is no error of the boot, and no other variable changes.
\<close>

theorem first_boot_gate:
  assumes "env_store be lookup storable ready" and "storable FIRST_BOOT_DONE" and "ready s"
    and "write_first_boot_marker (first_boot_complete ft st) (Some be) s = (r, s')"
  shows "r = Inr () \<and> (\<forall>k. k \<noteq> FirstBootDone \<longrightarrow> lookup s' k = lookup s k)
    \<and> (lookup s' FirstBootDone \<noteq> lookup s FirstBootDone \<longrightarrow> lookup s' FirstBootDone = Some ''1''
        \<and> ods_first_boot st \<and> (resize_data_enabled ft \<longrightarrow> ods_resize_data st = None) \<and> ods_extra_bootargs st = None)
    \<and> (\<not> first_boot_complete ft st \<longrightarrow> s' = s)
    \<and> (first_boot_complete ft st \<longrightarrow> never_fails (set_first_boot_done be) \<longrightarrow> lookup s' FirstBootDone = Some ''1'')"
proof -
  note step = env_store.marker_step [OF assms]
  show ?thesis
  proof (cases "first_boot_complete ft st")
    case True
    then have "ods_first_boot st" "resize_data_enabled ft \<longrightarrow> ods_resize_data st = None" "ods_extra_bootargs st = None"
      by (simp_all add: first_boot_complete_def resize_succeeded_def extra_bootargs_applied_ok_def split: if_splits)
    then show ?thesis using step True unfolding FIRST_BOOT_DONE_def by blast
  next
    case False
    then have "s' = s" using step by blast
    then show ?thesis using step False by simp
  qed
qed

definition first_status :: ods_status where "first_status = ods_new\<lparr>ods_first_boot := True\<rparr>"

lemma first_boot_gate_witness:
  "\<exists>r s'. write_first_boot_marker (first_boot_complete all_modes first_status) (Some mock_boot_env) mock_new
      = (r :: unit + unit, s') \<and> r = Inr () \<and> mock_lookup s' ValidateUpdate = None"
proof -
  obtain r s' where run: "write_first_boot_marker (first_boot_complete all_modes first_status)
      (Some mock_boot_env) mock_new = (r :: unit + unit, s')" by fastforce
  have "mock_inv mock_new" by (simp add: mock_inv_def mock_new_def)
  from first_boot_gate [OF mock.env_store_axioms TrueI this run]
  have "r = Inr ()" and "\<forall>k. k \<noteq> FirstBootDone \<longrightarrow> mock_lookup s' k = mock_lookup mock_new k"
    by blast+
  moreover have "mock_lookup mock_new ValidateUpdate = None" by (simp add: mock_lookup_def mock_new_def)
  ultimately have "mock_lookup s' ValidateUpdate = None" by simp
  with run \<open>r = Inr ()\<close> show ?thesis by blast
qed

end
