(* ===== verification/Wipe.thy ===== *)
theory Wipe
  imports Errors
begin

text \<open>
  \<open>src/mode/factory_reset/wipe.rs\<close>: overwriting a partition with random data or discarding its
  blocks. A file is named by its path; \<open>OpenWriteExcl\<close> is the open with \<open>O_EXCL\<close>, which the kernel
  refuses for a mounted device, and writes follow each other from where the last one ended.
\<close>

definition WIPE_CHUNK_SIZE :: u64 where "WIPE_CHUNK_SIZE = 1048576"
definition WIPE_PROGRESS_INTERVAL :: u64 where "WIPE_PROGRESS_INTERVAL = 1073741824"
definition URANDOM_PATH :: string where "URANDOM_PATH = ''/dev/urandom''"

definition wipe_failed :: "string \<Rightarrow> string \<Rightarrow> factory_reset_error" where
  "wipe_failed device why = WipeFailed device why"

definition open_device :: "'w os \<Rightarrow> string \<Rightarrow> (('w, 'p) machine, factory_reset_error, unit) io" where
  "open_device os device = map_err (\<lambda>e. wipe_failed device (''cannot open device: '' @ show_io e))
     (sys_unit os (OpenWriteExcl device))"

definition device_size :: "'w os \<Rightarrow> string \<Rightarrow> (('w, 'p) machine, factory_reset_error, u64) io" where
  "device_size os device = map_err (\<lambda>e. wipe_failed device (''cannot determine size: '' @ show_io e))
     (bindE (sys_num os (SeekEnd device)) (\<lambda>size.
      bindE (sys_unit os (SeekWrite device 0)) (\<lambda>_. ret size)))"

text \<open>The remainder is clamped as a \<open>u64\<close>; the result fits every \<open>usize\<close>.\<close>

definition chunk_len :: "u64 \<Rightarrow> u64 \<Rightarrow> u64" where
  "chunk_len len written = min (len - written) WIPE_CHUNK_SIZE"

lemma chunk_len_le: "written \<le> len \<Longrightarrow> unat (chunk_len len written) \<le> unat len - unat written"
  by (auto simp: chunk_len_def min_def unat_sub_le word_le_nat_alt)

lemma chunk_len_pos: "written < len \<Longrightarrow> 0 < unat (chunk_len len written)"
  by (auto simp: chunk_len_def min_def WIPE_CHUNK_SIZE_def unat_gt_0 word_less_nat_alt
      unat_sub_le order_less_imp_le)

lemma written_step:
  assumes "written < len"
  shows "unat (written + chunk_len len written) = unat written + unat (chunk_len len written)"
proof -
  have "unat written + unat (chunk_len len written) \<le> unat len"
    using chunk_len_le [of written len] assms by (simp add: word_less_nat_alt word_le_nat_alt)
  then have "unat written + unat (chunk_len len written) < 2 ^ LENGTH(64)"
    using unsigned_less [of len] by (meson le_less_trans)
  then show ?thesis by (simp add: unat_word_ariths)
qed

function overwrite_loop :: "'w os \<Rightarrow> string \<Rightarrow> u64 \<Rightarrow> u64 \<Rightarrow> u64 \<Rightarrow> u64 \<Rightarrow>
    (('w, 'p) machine, io_error, unit) io" where
  "overwrite_loop os device len interval written next_step =
     (if written < len then
        bindE (sys_text os (ReadExact URANDOM_PATH (chunk_len len written))) (\<lambda>buf.
        bindE (sys_unit os (WriteAll device buf)) (\<lambda>_.
        if written + chunk_len len written \<ge> next_step
        then bindE (sys_unit os (SyncFile device)) (\<lambda>_.
             overwrite_loop os device len interval (written + chunk_len len written)
               (saturating_add next_step interval))
        else overwrite_loop os device len interval (written + chunk_len len written) next_step))
      else sys_unit os (SyncFile device))"
  by pat_completeness auto

termination
proof (relation "measure (\<lambda>(os, device, len, interval, written, next_step). unat len - unat written)",
    goal_cases)
  case 1
  show ?case by simp
qed (use written_step chunk_len_le chunk_len_pos in
  \<open>auto simp: word_less_nat_alt word_le_nat_alt intro!: diff_less_mono2\<close>)

declare overwrite_loop.simps [simp del]

definition overwrite_with_random :: "'w os \<Rightarrow> string \<Rightarrow> u64 \<Rightarrow> u64 \<Rightarrow> (('w, 'p) machine, io_error, unit) io" where
  "overwrite_with_random os device len interval =
     bindE (sys_unit os (OpenRead URANDOM_PATH)) (\<lambda>_.
     bindE (sys_unit os (SeekWrite device 0)) (\<lambda>_.
     overwrite_loop os device len interval 0 interval))"

definition wipe_random :: "'w os \<Rightarrow> string \<Rightarrow> (('w, 'p) machine, factory_reset_error, unit) io" where
  "wipe_random os device =
     bindE (open_device os device) (\<lambda>_.
     bindE (device_size os device) (\<lambda>len.
     map_err (\<lambda>e. wipe_failed device (''random overwrite failed: '' @ show_io e))
       (overwrite_with_random os device len WIPE_PROGRESS_INTERVAL)))"

definition wipe_discard :: "'w os \<Rightarrow> string \<Rightarrow> (('w, 'p) machine, factory_reset_error, unit) io" where
  "wipe_discard os device =
     bindE (open_device os device) (\<lambda>_.
     bindE (device_size os device) (\<lambda>len.
     map_err (\<lambda>e. wipe_failed device (''BLKDISCARD failed: '' @ show_io e))
       (sys_unit os (Ioctl device ''BLKDISCARD'' [0, len]))))"

section \<open>Every byte is overwritten\<close>

text \<open>The bytes written to a device by the successful calls of a trace.\<close>

definition bytes_written :: "string \<Rightarrow> (call \<times> bool) list \<Rightarrow> nat" where
  "bytes_written device t = sum_list (map (\<lambda>(c, ok). case c of
     WriteAll p buf \<Rightarrow> if ok \<and> p = device then length buf else 0 | _ \<Rightarrow> 0) t)"

lemma bytes_written_append [simp]:
  "bytes_written d (t @ u) = bytes_written d t + bytes_written d u"
  by (simp add: bytes_written_def)

lemma bytes_written_simps [simp]:
  "bytes_written d [] = 0"
  "bytes_written d ((SyncFile p, ok) # t) = bytes_written d t"
  "bytes_written d ((ReadExact p n, ok) # t) = bytes_written d t"
  "bytes_written d ((OpenRead p, ok) # t) = bytes_written d t"
  "bytes_written d ((SeekWrite p n, ok) # t) = bytes_written d t"
  "bytes_written d ((OpenWriteExcl p, ok) # t) = bytes_written d t"
  "bytes_written d ((SeekEnd p, ok) # t) = bytes_written d t"
  "bytes_written d ((WriteAll d buf, ok) # t) = (if ok then length buf else 0) + bytes_written d t"
  by (simp_all add: bytes_written_def)

text \<open>\<open>read_exact\<close> gives the number of bytes asked for.\<close>

definition exact_reads :: "'w os \<Rightarrow> bool" where
  "exact_reads os \<longleftrightarrow> (\<forall>p n w buf w'. os_text os (ReadExact p n) w = (Inr buf, w') \<longrightarrow> length buf = unat n)"

definition last_synced :: "string \<Rightarrow> (call \<times> bool) list \<Rightarrow> bool" where
  "last_synced device t \<longleftrightarrow> t \<noteq> [] \<and> last t = (SyncFile device, True)"

lemma sys_unit_trace: "sys_unit os c s = (r, s') \<Longrightarrow> trace s' = trace s @ [(c, \<not> isl r)]"
  by (auto simp: sys_unit_def split: prod.splits)

lemma sys_text_trace: "sys_text os c s = (r, s') \<Longrightarrow> trace s' = trace s @ [(c, \<not> isl r)]"
  by (auto simp: sys_text_def split: prod.splits)

lemma sys_num_trace: "sys_num os c s = (r, s') \<Longrightarrow> trace s' = trace s @ [(c, \<not> isl r)]"
  by (auto simp: sys_num_def split: prod.splits)

lemma sys_text_value:
  "sys_text os c s = (Inr x, s') \<Longrightarrow> \<exists>w. os_text os c (world s) = (Inr x, w)"
  by (auto simp: sys_text_def split: prod.splits)

lemma overwrite_loop_bytes:
  "exact_reads os \<Longrightarrow> written \<le> len \<Longrightarrow>
   overwrite_loop (os :: 'w os) device len interval written next_step (s :: ('w, 'p) machine) = (Inr (), s') \<Longrightarrow>
    bytes_written device (trace s') = bytes_written device (trace s) + (unat len - unat written)
    \<and> last_synced device (trace s')"
proof (induction os device len interval written next_step arbitrary: s rule: overwrite_loop.induct)
  case (1 os device len interval written next_step)
  show ?case
  proof (cases "written < len")
    case False
    then have "sys_unit os (SyncFile device) s = (Inr (), s')" and "written = len"
      using "1.prems"(2,3) by (simp_all add: overwrite_loop.simps)
    from sys_unit_trace [OF this(1)] \<open>written = len\<close> show ?thesis by (simp add: last_synced_def)
  next
    case True
    define n where "n = chunk_len len written"
    have n1: "unat (written + n) = unat written + unat n" using written_step [OF True] by (simp add: n_def)
    have n2: "unat n \<le> unat len - unat written" using chunk_len_le [of written len] "1.prems"(2) by (simp add: n_def)
    have le: "written + n \<le> len" and lt: "unat written < unat len"
      using n1 n2 True by (simp_all add: word_le_nat_alt word_less_nat_alt)
    define again :: "(('w, 'p) machine, io_error, unit) io" where "again = (if written + n \<ge> next_step
        then bindE (sys_unit os (SyncFile device)) (\<lambda>_.
             overwrite_loop os device len interval (written + n) (saturating_add next_step interval))
        else overwrite_loop os device len interval (written + n) next_step)"
    obtain buf s1 s2 where
      rd: "sys_text os (ReadExact URANDOM_PATH n) s = (Inr buf, s1)"
      and wr: "sys_unit os (WriteAll device buf) s1 = (Inr (), s2)"
      and rest: "again s2 = (Inr (), s')"
      using "1.prems"(3) True unfolding overwrite_loop.simps [of os device len interval written] again_def n_def
      by (auto simp: bindE_eq_Inr split: if_splits)
    have len: "length buf = unat n"
      using "1.prems"(1) sys_text_value [OF rd] by (auto simp: exact_reads_def)
    have b2: "bytes_written device (trace s2) = bytes_written device (trace s) + unat n"
      using sys_text_trace [OF rd] sys_unit_trace [OF wr] len by simp
    have "bytes_written device (trace s') = bytes_written device (trace s2) + (unat len - unat (written + n))
        \<and> last_synced device (trace s')"
    proof (cases "written + n \<ge> next_step")
      case False
      then show ?thesis using rest "1.IH"(2) [OF True] "1.prems"(1) le by (simp add: again_def n_def)
    next
      case sync: True
      then obtain s3 where s3: "sys_unit os (SyncFile device) s2 = (Inr (), s3)"
        and r3: "overwrite_loop os device len interval (written + n) (saturating_add next_step interval) s3
          = (Inr (), s')"
        using rest by (auto simp: again_def bindE_eq_Inr)
      show ?thesis
        using "1.IH"(1) [OF True _ "1.prems"(1)] sync le r3 sys_unit_trace [OF s3] by (simp add: n_def)
    qed
    then show ?thesis using b2 n1 n2 lt by simp
  qed
qed

text \<open>
  C31: A random wipe overwrites the whole device. When it succeeds, it has written exactly as many
  bytes as the size it was told when it had opened the device - the loop neither stops early nor runs over - and its last
  step is a successful flush.
\<close>

theorem wipe_random_complete:
  assumes "exact_reads os" and "wipe_random os device s = (Inr (), s')"
  shows "\<exists>len a b. open_device os device s = (Inr (), a) \<and> device_size os device a = (Inr len, b)
    \<and> bytes_written device (trace s') = bytes_written device (trace s) + unat len
    \<and> last_synced device (trace s')"
proof -
  obtain s1 s2 s3 s4 s5 len where
    op: "sys_unit os (OpenWriteExcl device) s = (Inr (), s1)"
    and size: "sys_num os (SeekEnd device) s1 = (Inr len, s2)"
    and rewind: "sys_unit os (SeekWrite device 0) s2 = (Inr (), s3)"
    and ur: "sys_unit os (OpenRead URANDOM_PATH) s3 = (Inr (), s4)"
    and start: "sys_unit os (SeekWrite device 0) s4 = (Inr (), s5)"
    and loop: "overwrite_loop os device len WIPE_PROGRESS_INTERVAL 0 WIPE_PROGRESS_INTERVAL s5 = (Inr (), s')"
    using assms(2)
    by (auto simp: wipe_random_def open_device_def device_size_def overwrite_with_random_def bindE_eq_Inr)
  have "bytes_written device (trace s') = bytes_written device (trace s5) + unat len
      \<and> last_synced device (trace s')"
    using overwrite_loop_bytes [OF assms(1) _ loop] by simp
  moreover have "bytes_written device (trace s5) = bytes_written device (trace s)"
    using sys_unit_trace [OF op] sys_num_trace [OF size] sys_unit_trace [OF rewind]
      sys_unit_trace [OF ur] sys_unit_trace [OF start] by simp
  moreover have "open_device os device s = (Inr (), s1)" "device_size os device s1 = (Inr len, s3)"
    using op size rewind by (simp_all add: open_device_def device_size_def bindE_def map_err_def)
  ultimately show ?thesis by auto
qed

text \<open>A device of three bytes.\<close>

definition three_byte_os :: "unit os" where
  "three_byte_os = \<lparr>os_unit = \<lambda>_ w. (Inr (), w),
     os_text = \<lambda>c w. (case c of ReadExact _ n \<Rightarrow> Inr (replicate (unat n) (CHR ''x'')) | _ \<Rightarrow> Inl (IoError NotFound []), w),
     os_bool = \<lambda>_ w. (True, w), os_num = \<lambda>_ w. (Inr 3, w),
     os_run = \<lambda>_ w. (Inl (IoError NotFound []), w),
     os_stat = \<lambda>_ w. (Inl (IoError NotFound []), w), os_entries = \<lambda>_ w. (Inr [], w),
     os_addrs = \<lambda>_ w. (Inr [], w), os_delay = \<lambda>_ _. 1\<rparr>"

lemma wipe_random_complete_witness:
  "\<exists>s'. wipe_random three_byte_os ''/dev/sda8'' \<lparr>world = (), trace = [], clock = 0, program = ()\<rparr> = (Inr (), s')
     \<and> bytes_written ''/dev/sda8'' (trace s') = 3"
proof -
  let ?s = "\<lparr>world = (), trace = [], clock = 0, program = ()\<rparr>"
  have "exact_reads three_byte_os" by (auto simp: exact_reads_def three_byte_os_def)
  moreover have "fst (wipe_random three_byte_os ''/dev/sda8'' ?s) = Inr ()" by code_simp
  then obtain s' where s': "wipe_random three_byte_os ''/dev/sda8'' ?s = (Inr (), s')"
    by (metis prod.collapse)
  ultimately obtain len a c where "device_size three_byte_os ''/dev/sda8'' (a :: (unit, unit) machine) = (Inr len, c)"
    and b: "bytes_written ''/dev/sda8'' (trace s') = bytes_written ''/dev/sda8'' (trace ?s) + unat len"
    using wipe_random_complete [of three_byte_os "''/dev/sda8''" ?s s'] by blast
  then have "len = 3" by (auto simp: device_size_def bindE_def map_err_def sys_num_def sys_unit_def three_byte_os_def)
  then show ?thesis using s' b by simp
qed

end
