(* ===== verification/Factory_Reset.thy ===== *)
theory Factory_Reset
  imports Normal Wipe
begin

text \<open>
  \<open>src/mode/factory_reset/mod.rs\<close>: the factory reset, from the trigger to the status. The mounts the
  reset tracks are the field \<open>tracked\<close> of the memory; the two traits of the file are records of
  functions, with the real instances below.
\<close>

section \<open>Status\<close>

definition FACTORY_RESET_BACKUP_DIR :: string where
  "FACTORY_RESET_BACKUP_DIR = ''/tmp/factory_reset/backup''"
definition DATA_PARTITION_LABEL :: string where "DATA_PARTITION_LABEL = ''data''"
definition ETC_PARTITION_LABEL :: string where "ETC_PARTITION_LABEL = ''etc''"

record reset_failure_signal =
  signal_partition :: partition_name
  signal_reason :: string

record retry_report =
  report_retried :: "partition_name list"
  report_reformat_failed :: "partition_name list"
  report_exhausted :: "reset_failure_signal option"

type_synonym reset_outcome = "factory_reset_status \<times> reset_failure_signal option"

definition error_text :: "initramfs_error \<Rightarrow> string" where
  "error_text e = (case e of FactoryReset inner \<Rightarrow> show_factory_reset_error inner | _ \<Rightarrow> show_initramfs_error e)"

definition failure_status_code :: "initramfs_error \<Rightarrow> factory_reset_status_code" where
  "failure_status_code e = (case e of
     FactoryReset f \<Rightarrow> (case f of
         InvalidConfig _ \<Rightarrow> Invalid | MissingField _ \<Rightarrow> ConfigError | InvalidPreserve _ \<Rightarrow> ConfigError
       | _ \<Rightarrow> ResetError)
   | _ \<Rightarrow> ResetError)"

definition aborted_status :: "initramfs_error \<Rightarrow> factory_reset_status" where
  "aborted_status e = \<lparr>reset_status = failure_status_code e, reset_error = Some (error_text e),
     reset_context = None, reset_paths = [], data_wiped = False\<rparr>"

definition destructive_phase_failure_status :: "initramfs_error \<Rightarrow> string list \<Rightarrow> factory_reset_status" where
  "destructive_phase_failure_status e paths = \<lparr>reset_status = ResetError, reset_error = Some (error_text e),
     reset_context = None, reset_paths = paths, data_wiped = True\<rparr>"

definition join_context :: "string option \<Rightarrow> string option \<Rightarrow> string option" where
  "join_context first second = (case (first, second) of
     (Some a, Some b) \<Rightarrow> Some (a @ CONTEXT_SEPARATOR @ b)
   | (Some a, None) \<Rightarrow> Some a
   | (None, Some b) \<Rightarrow> Some b
   | (None, None) \<Rightarrow> None)"

definition retry_note :: "partition_name list \<Rightarrow> string option" where
  "retry_note retried = (if retried = [] then None
     else Some (join_with '','' (map partition_name_str retried) @ '' reformatted twice''))"

definition mkfs_failed_note :: "partition_name list \<Rightarrow> string" where
  "mkfs_failed_note failed = join_with '','' (map partition_name_str failed) @ '': mkfs failed twice''"

definition exhausted_status :: "reset_failure_signal \<Rightarrow> partition_name list \<Rightarrow> string list \<Rightarrow> factory_reset_status" where
  "exhausted_status signal retried preserve_list = \<lparr>reset_status = ResetError,
     reset_error = Some (signal_reason signal), reset_context = retry_note retried,
     reset_paths = preserve_list, data_wiped = True\<rparr>"

definition exhausted_outcome :: "reset_failure_signal \<Rightarrow> partition_name list \<Rightarrow> string list \<Rightarrow> reset_outcome" where
  "exhausted_outcome signal retried preserve_list = (exhausted_status signal retried preserve_list, Some signal)"

definition restored_status :: "partition_name list \<Rightarrow> partition_name list \<Rightarrow> restore_result \<Rightarrow> string list \<Rightarrow>
    factory_reset_status" where
  "restored_status retried reformat_failed restore preserve_list =
     (let note = retry_note retried;
          st = \<lambda>code err ctx. \<lparr>reset_status = code, reset_error = err, reset_context = ctx,
                 reset_paths = preserve_list, data_wiped = True\<rparr> in
      case restore of
        RestoreSuccess \<Rightarrow>
          if reformat_failed \<noteq> [] then st ResetError (Some (mkfs_failed_note reformat_failed)) note
          else if retried \<noteq> [] then st Warning None note
          else st Success None note
      | PartialFailure context err \<Rightarrow>
          st ResetError (Some (if reformat_failed = [] then err
                 else mkfs_failed_note reformat_failed @ CONTEXT_SEPARATOR @ err))
             (join_context note (Some context)))"

definition apply_wipe_note :: "factory_reset_status \<Rightarrow> string option \<Rightarrow> factory_reset_status" where
  "apply_wipe_note st wipe_note = (case wipe_note of
     None \<Rightarrow> st
   | Some note \<Rightarrow> st\<lparr>reset_status := ResetError, reset_error := join_context (Some note) (reset_error st)\<rparr>)"

section \<open>Wipe\<close>

record 's wipe_ops =
  op_wipe_random :: "string \<Rightarrow> ('s, factory_reset_error, unit) io"
  op_wipe_discard :: "string \<Rightarrow> ('s, factory_reset_error, unit) io"

definition real_wipe_ops :: "'w os \<Rightarrow> ('w, 'p) machine wipe_ops" where
  "real_wipe_ops os = \<lparr>op_wipe_random = wipe_random os, op_wipe_discard = wipe_discard os\<rparr>"

definition wipe_one :: "(string \<Rightarrow> ('s, factory_reset_error, unit) io) \<Rightarrow> partition_name \<times> string \<Rightarrow>
    string list \<Rightarrow> ('s, 'e, string list) io" where
  "wipe_one wipe p notes = caught (wipe (snd p)) (\<lambda>r. case r of
     Inr _ \<Rightarrow> ret notes
   | Inl e \<Rightarrow> ret (notes @ [partition_name_str (fst p) @ '': '' @ show_factory_reset_error e]))"

definition wipe_partitions :: "reset_mode \<Rightarrow> string \<Rightarrow> string \<Rightarrow> 's wipe_ops \<Rightarrow> ('s, 'e, string option) io" where
  "wipe_partitions mode data etc ops =
     (let run = \<lambda>wipe. bindE (fold_io (wipe_one wipe) [(Etc, etc), (Data, data)] [])
           (\<lambda>notes. ret (if notes \<noteq> [] then Some (join_with CONTEXT_SEPARATOR notes) else None)) in
      case mode of
        ResetMode1 \<Rightarrow> ret None
      | ResetMode2 \<Rightarrow> run (op_wipe_random ops)
      | ResetMode3 \<Rightarrow> run (op_wipe_discard ops))"

definition wipe_and_rebuild :: "reset_mode \<Rightarrow> string \<Rightarrow> string \<Rightarrow> 's wipe_ops \<Rightarrow> ('s, 'e, reset_outcome) io \<Rightarrow>
    ('s, 'e, reset_outcome) io" where
  "wipe_and_rebuild mode data etc ops rebuild =
     bindE (wipe_partitions mode data etc ops) (\<lambda>wipe_note.
     bindE rebuild (\<lambda>(status, signal).
     ret (apply_wipe_note status wipe_note, signal)))"

section \<open>Mount\<close>

definition factory_reset_mount :: "features \<Rightarrow> 'w os \<Rightarrow> partition_layout \<Rightarrow> string \<Rightarrow>
    ('w init, initramfs_error, unit) io" where
  "factory_reset_mount ft os layout rootfs =
     bindE (mount_tracked_partition os layout \<lparr>spec_partition = Factory, spec_mount_point = MP_FACTORY_PARTITION,
              spec_options = ext4_readonly, spec_fstype = Ext4\<rparr> rootfs) (\<lambda>_.
     bindE (mount_tracked_partition os layout \<lparr>spec_partition = Etc, spec_mount_point = MP_ETC_PARTITION,
              spec_options = ext4_readwrite, spec_fstype = Ext4\<rparr> rootfs) (\<lambda>_.
     bindE (mount_tracked_partition os layout \<lparr>spec_partition = Data, spec_mount_point = MP_DATA_PARTITION,
              spec_options = ext4_readwrite, spec_fstype = Ext4\<rparr> rootfs) (\<lambda>_.
     bindE (map_err Filesystem (setup_etc_overlay_tracked os rootfs)) (\<lambda>_.
     map_err Filesystem (setup_data_overlay_tracked ft os rootfs)))))"

definition resolve_failed_partition :: "initramfs_error \<Rightarrow> string \<Rightarrow> string \<Rightarrow> string \<Rightarrow> partition_name option" where
  "resolve_failed_partition err rootfs data_dev etc_dev = (case err of
     Filesystem fe \<Rightarrow> (case fe of
         MountFailed src_path _ _ \<Rightarrow>
           if path_eq src_path data_dev then Some Data
           else if path_eq src_path etc_dev then Some Etc else None
       | OverlayFailed target _ \<Rightarrow>
           if path_starts_with (path_join rootfs MP_DATA_PARTITION) target
              \<or> path_eq target (path_join rootfs PATH_HOME) then Some Data
           else if path_starts_with (path_join rootfs MP_ETC_PARTITION) target
              \<or> path_eq target (path_join rootfs PATH_ETC) then Some Etc else None
       | _ \<Rightarrow> None)
   | _ \<Rightarrow> None)"

section \<open>Reformat\<close>

record 's reformat_ops =
  op_reformat :: "string \<Rightarrow> string \<Rightarrow> ('s, initramfs_error, unit) io"
  op_mount_all :: "('s, initramfs_error, unit) io"

definition reformat_failed_error :: "string \<Rightarrow> filesystem_error \<Rightarrow> initramfs_error" where
  "reformat_failed_error device e = FactoryReset (ReformatFailed device (show_filesystem_error e))"

definition unmount_quietly :: "'w os \<Rightarrow> ('w init, unit, unit) io" where
  "unmount_quietly os = ignore (unmount_tracked os)"

definition real_reformat_ops :: "features \<Rightarrow> 'w os \<Rightarrow> partition_layout \<Rightarrow> string \<Rightarrow> 'w init reformat_ops" where
  "real_reformat_ops ft os layout rootfs =
     \<lparr>op_reformat = (\<lambda>device label. map_err (reformat_failed_error device) (reformat_ext4 os device label)),
      op_mount_all = on_err (factory_reset_mount ft os layout rootfs) (unmount_quietly os)\<rparr>"

definition reformat_one :: "'s reformat_ops \<Rightarrow> partition_name \<times> string \<times> string \<Rightarrow>
    partition_name list \<times> partition_name list \<Rightarrow>
    ('s, 'e, partition_name list \<times> partition_name list) io" where
  "reformat_one ops p acc = (case p of (part, device, label) \<Rightarrow>
     caught (op_reformat ops device label) (\<lambda>first. case first of
         Inr _ \<Rightarrow> ret acc
       | Inl _ \<Rightarrow> caught (op_reformat ops device label) (\<lambda>second. case second of
             Inr _ \<Rightarrow> ret (fst acc @ [part], snd acc)
           | Inl _ \<Rightarrow> ret (fst acc @ [part], snd acc @ [part]))))"

definition reformat_and_mount_with_retry :: "string \<Rightarrow> string \<Rightarrow> string \<Rightarrow> 's reformat_ops \<Rightarrow>
    ('s, initramfs_error, retry_report) io" where
  "reformat_and_mount_with_retry rootfs data_dev etc_dev ops =
     bindE (fold_io (reformat_one ops)
              [(Data, data_dev, DATA_PARTITION_LABEL), (Etc, etc_dev, ETC_PARTITION_LABEL)] ([], []))
       (\<lambda>(retried, failed).
     caught (op_mount_all ops) (\<lambda>r. case r of
         Inr _ \<Rightarrow> ret \<lparr>report_retried = retried, report_reformat_failed = failed, report_exhausted = None\<rparr>
       | Inl e \<Rightarrow> (case resolve_failed_partition e rootfs data_dev etc_dev of
             Some part \<Rightarrow> ret \<lparr>report_retried = retried, report_reformat_failed = failed,
               report_exhausted = Some \<lparr>signal_partition = part, signal_reason = show_initramfs_error e\<rparr>\<rparr>
           | None \<Rightarrow> throw e)))"

record reformat_targets =
  tg_data_dev :: string
  tg_etc_dev :: string
  tg_preserve_list :: "string list"
  tg_backed_up :: "string list"
  tg_backup_dir :: string

definition run_destructive_phase :: "features \<Rightarrow> 'w os \<Rightarrow> partition_layout \<Rightarrow> string \<Rightarrow> reformat_targets \<Rightarrow>
    ('w init, initramfs_error, reset_outcome) io" where
  "run_destructive_phase ft os layout rootfs tg =
     bindE (reformat_and_mount_with_retry rootfs (tg_data_dev tg) (tg_etc_dev tg)
              (real_reformat_ops ft os layout rootfs)) (\<lambda>report.
     case report_exhausted report of
       Some signal \<Rightarrow> bindE (ignore (unmount_tracked os)) (\<lambda>_.
         ret (exhausted_outcome signal (report_retried report) (tg_preserve_list tg)))
     | None \<Rightarrow>
         bindE (on_err (restore_all os rootfs (tg_backed_up tg) (tg_backup_dir tg)) (unmount_quietly os)) (\<lambda>result.
         bindE (map_err Filesystem (unmount_tracked os)) (\<lambda>_.
         ret (restored_status (report_retried report) (report_reformat_failed report) result
                (tg_preserve_list tg), None))))"

section \<open>The reset\<close>

definition or_mount_error :: "string \<Rightarrow> string option \<Rightarrow> initramfs_error + string" where
  "or_mount_error what dev = (case dev of
     Some d \<Rightarrow> Inr d | None \<Rightarrow> Inl (FactoryReset (MountError (what @ '' partition not found in layout''))))"

text \<open>Before the destructive phase: what to keep, and the backup of it.\<close>

definition prepare_reset :: "features \<Rightarrow> 'j json_lib \<Rightarrow> 'w os \<Rightarrow> partition_layout \<Rightarrow> string \<Rightarrow>
    factory_reset_config \<Rightarrow> ('w init, initramfs_error, reformat_targets) io" where
  "prepare_reset ft js os layout rootfs config =
     bindE (modify_prog (\<lambda>p. p\<lparr>tracked := []\<rparr>)) (\<lambda>_.
     bindE (on_err (factory_reset_mount ft os layout rootfs) (unmount_quietly os)) (\<lambda>_.
     bindE (on_err (build_preserve_list js os config rootfs) (unmount_quietly os)) (\<lambda>preserve_list.
     bindE (on_err (backup_all os rootfs preserve_list FACTORY_RESET_BACKUP_DIR) (unmount_quietly os)) (\<lambda>backed_up.
     bindE (map_err Filesystem (unmount_tracked os)) (\<lambda>_.
     bindE (lift_res (or_mount_error ''data'' (layout_get layout Data))) (\<lambda>data_dev.
     bindE (lift_res (or_mount_error ''etc'' (layout_get layout Etc))) (\<lambda>etc_dev.
     ret \<lparr>tg_data_dev = data_dev, tg_etc_dev = etc_dev, tg_preserve_list = preserve_list,
          tg_backed_up = backed_up, tg_backup_dir = FACTORY_RESET_BACKUP_DIR\<rparr>)))))))"

definition rebuild :: "features \<Rightarrow> 'w os \<Rightarrow> partition_layout \<Rightarrow> string \<Rightarrow> reformat_targets \<Rightarrow>
    ('w init, 'e, reset_outcome) io" where
  "rebuild ft os layout rootfs tg = caught (run_destructive_phase ft os layout rootfs tg) (\<lambda>r. case r of
     Inr pair \<Rightarrow> ret pair
   | Inl e \<Rightarrow> ret (destructive_phase_failure_status e (tg_preserve_list tg), None))"

definition run_reset :: "features \<Rightarrow> 'j json_lib \<Rightarrow> 'w os \<Rightarrow> partition_layout \<Rightarrow> string \<Rightarrow>
    factory_reset_config \<Rightarrow> ('w init, initramfs_error, reset_outcome) io" where
  "run_reset ft js os layout rootfs config =
     bindE (prepare_reset ft js os layout rootfs config) (\<lambda>tg.
     wipe_and_rebuild (reset_mode_field config) (tg_data_dev tg) (tg_etc_dev tg) (real_wipe_ops os)
       (rebuild ft os layout rootfs tg))"

definition persist_exhausted_signal :: "reset_failure_signal option \<Rightarrow> 's boot_env option \<Rightarrow> ('s, 'e, unit) io" where
  "persist_exhausted_signal signal be = (case signal of
     None \<Rightarrow> ret ()
   | Some sig \<Rightarrow> (case be of
         None \<Rightarrow> ret ()
       | Some bl \<Rightarrow> ignore (save_factory_reset_failure bl (signal_partition sig) (signal_reason sig))))"

definition outcome_of :: "factory_reset_trigger \<Rightarrow> (factory_reset_config \<Rightarrow> ('s, initramfs_error, reset_outcome) io) \<Rightarrow>
    ('s, 'e, reset_outcome) io" where
  "outcome_of trigger reset = (case trigger of
     Rejected e \<Rightarrow> ret (aborted_status (FactoryReset e), None)
   | Accepted config \<Rightarrow> caught (reset config) (\<lambda>r. case r of
         Inr pair \<Rightarrow> ret pair | Inl e \<Rightarrow> ret (aborted_status e, None)))"

definition answer_trigger :: "'w init boot_env option \<Rightarrow> factory_reset_trigger \<Rightarrow>
    (factory_reset_config \<Rightarrow> ('w init, initramfs_error, reset_outcome) io) \<Rightarrow> ('w init, 'e, unit) io" where
  "answer_trigger be trigger reset =
     bindE (case be of Some bl \<Rightarrow> ignore (set_env bl FactoryResetKey None) | None \<Rightarrow> ret ()) (\<lambda>_.
     bindE (outcome_of trigger reset) (\<lambda>(status, signal).
     bindE (persist_exhausted_signal signal be) (\<lambda>_.
     modify_ods (set_factory_reset status))))"

definition run_factory_reset :: "nat \<Rightarrow> features \<Rightarrow> 'w os \<Rightarrow> 'j json_lib \<Rightarrow> (ods_status \<Rightarrow> string + string) \<Rightarrow>
    links_parser \<Rightarrow> partition_name list \<Rightarrow> string \<Rightarrow> cmdline_config \<Rightarrow> partition_layout \<Rightarrow> string \<Rightarrow>
    'w init boot_env option \<Rightarrow> factory_reset_trigger \<Rightarrow> ('w init, initramfs_error, unit) io" where
  "run_factory_reset fuel ft os js json links order fd cl layout rootfs be trigger =
     bindE (answer_trigger be trigger (run_reset ft js os layout rootfs)) (\<lambda>_.
     run_normal fuel ft os json links order fd cl layout rootfs be)"

end
