(* ===== verification/Init.thy ===== *)
theory Init
  imports Flash Early_Modules Early_Init Recovery Boot_Env_Impl Factory_Reset Capture
begin

text \<open>
  \<open>src/lib.rs\<close> and \<open>main\<close> of \<open>src/main.rs\<close>: the whole boot, from the first mount to the hand-over, the
  flash, or the policy for a fatal error.
\<close>

definition ROOTFS_DIR :: string where "ROOTFS_DIR = ''/rootfs''"

section \<open>What the boot environment says\<close>

definition set_update_pending :: "bool \<Rightarrow> ('w init, 'e, unit) io" where
  "set_update_pending v = modify_prog (\<lambda>p. p\<lparr>update_pending := v\<rparr>)"

definition read_update_pending :: "('w init, 'e, bool) io" where
  "read_update_pending = get_prog update_pending"

definition update_pending_from_env :: "'s boot_env_state \<Rightarrow> ('s, 'e, bool) io" where
  "update_pending_from_env env = (case available env of
     Some bl \<Rightarrow> caught (is_flag_set bl ValidateUpdate) (\<lambda>r. case r of Inr b \<Rightarrow> ret b | Inl _ \<Rightarrow> ret False)
   | None \<Rightarrow> ret False)"

text \<open>A flag that cannot be read counts as set.\<close>

definition set_or_unknown :: "('s, boot_env_error, bool) io \<Rightarrow> ('s, 'e, bool) io" where
  "set_or_unknown m = caught m (\<lambda>r. case r of Inr b \<Rightarrow> ret b | Inl _ \<Rightarrow> ret True)"

fun none_set :: "'s boot_env \<Rightarrow> boot_env_key list \<Rightarrow> ('s, 'e, bool) io" where
  "none_set bl [] = ret True"
| "none_set bl (k # ks) = bindE (set_or_unknown (is_flag_set bl k)) (\<lambda>b. if b then ret False else none_set bl ks)"

definition detect_first_boot :: "'s boot_env_state \<Rightarrow> ('s, 'e, bool) io" where
  "detect_first_boot env = (case available env of
     None \<Rightarrow> ret False
   | Some bl \<Rightarrow> bindE (set_or_unknown (is_first_boot_done bl)) (\<lambda>b.
       if b then ret False else none_set bl UPDATE_FLAGS))"

definition apply_boot_env_decision :: "'w os \<Rightarrow> partition_name list \<Rightarrow> 'w init boot_env_decision \<Rightarrow>
    initramfs_error + unit \<Rightarrow> string \<Rightarrow> ('w init, initramfs_error, 'w init boot_env_state) io" where
  "apply_boot_env_decision os order decision core_result rootfs = (case decision of
     Continue_With env \<Rightarrow>
       bindE (get_prog ods) (\<lambda>st.
       bindE (persist_fsck_results os order (available env) rootfs st) (\<lambda>_.
       bindE (lift_res core_result) (\<lambda>_.
       bindE (case env of
           Degraded e \<Rightarrow> modify_ods (set_degraded_boot (show_boot_env_error e)) | Available _ \<Rightarrow> ret ()) (\<lambda>_.
       ret env))))
   | Abort e \<Rightarrow> bindE (lift_res core_result) (\<lambda>_. throw e))"

section \<open>The boot\<close>

text \<open>The library functions and the build constants, the order in which hash maps are walked, the open
  directory of the root file system, and what the log capture holds at the end of a flash.\<close>

record 'j setting =
  st_features :: features
  st_libraries :: "'j libraries"
  st_build :: build_values
  st_order :: "partition_name list"
  st_root_fd :: string
  st_captured :: "string list"

type_synonym ('w, 'a) boot = "('w init, initramfs_error stop, 'a) io"

text \<open>What every boot does first, up to the mode.\<close>

definition prepare_boot :: "'j setting \<Rightarrow> 'w os \<Rightarrow> config \<Rightarrow> string \<Rightarrow>
    ('w init, initramfs_error, partition_layout \<times> 'w init boot_env_state) io" where
  "prepare_boot st os cfg rootfs = (let ft = st_features st in
     bindE (map_err Partition (detect_root_device ft os (cmdline cfg))) (\<lambda>root_device.
     bindE (map_err Partition (lift_res (new_layout (table ft) root_device))) (\<lambda>layout.
     bindE (map_err Partition (create_omnect_symlinks os (st_order st) layout)) (\<lambda>_.
     bindE (modify_prog (\<lambda>p. p\<lparr>ods := ods_new\<rparr>)) (\<lambda>_.
     caught (mount_core_partitions os layout rootfs) (\<lambda>core_result.
     caught (open_boot_env ft os) (\<lambda>opened.
     bindE (apply_boot_env_decision os (st_order st) (classify_boot_env opened (release_image ft)) core_result rootfs) (\<lambda>env.
     bindE (bindE (update_pending_from_env env) set_update_pending) (\<lambda>_.
     bindE (detect_first_boot env) (\<lambda>first.
     bindE (modify_ods (\<lambda>status. status\<lparr>ods_first_boot := first\<rparr>)) (\<lambda>_.
     ret (layout, env))))))))))))"

text \<open>\<open>serde_json::to_string_pretty\<close> on the status.\<close>

definition status_json :: "'j setting \<Rightarrow> ods_status \<Rightarrow> string + string" where
  "status_json st status = lib_pretty_json (st_libraries st) (status_value (st_order st) status)"

definition dispatch_mode :: "nat \<Rightarrow> 'j setting \<Rightarrow> 'w os \<Rightarrow> config \<Rightarrow> partition_layout \<Rightarrow> string \<Rightarrow>
    'w init boot_env option \<Rightarrow> boot_mode \<Rightarrow> ('w, unit) boot" where
  "dispatch_mode fuel st os cfg layout rootfs be mode = (let ft = st_features st; libs = st_libraries st in
     case mode of
       NormalMode \<Rightarrow> or_fail id (run_normal fuel ft os (status_json st) (lib_links libs) (st_order st)
         (st_root_fd st) (cmdline cfg) layout rootfs be)
     | FactoryResetMode trigger \<Rightarrow> or_fail id (run_factory_reset fuel ft os (lib_json libs) (status_json st)
         (lib_links libs) (st_order st) (st_root_fd st) (cmdline cfg) layout rootfs be trigger)
     | FlashBootMode fc \<Rightarrow> fail_with initramfs_error.Flash
         (run_flash fuel ft libs os (st_build st) be layout rootfs fc (st_captured st)))"

definition is_flash :: "boot_mode \<Rightarrow> bool" where
  "is_flash mode = (case mode of FlashBootMode _ \<Rightarrow> True | _ \<Rightarrow> False)"

definition run_init :: "nat \<Rightarrow> 'j setting \<Rightarrow> 'w os \<Rightarrow> ('w, unit) boot" where
  "run_init fuel st os = (let ft = st_features st; libs = st_libraries st; rootfs = ROOTFS_DIR in
     bindE (or_fail id (load_config os)) (\<lambda>cfg.
     bindE (or_fail id (prepare_boot st os cfg rootfs)) (\<lambda>(layout, env).
     bindE (or_fail id (detect_mode ft os (lib_json libs) (lib_base64 libs) (available env))) (\<lambda>mode.
     bindE (if is_flash mode then ret ()
       else bindE (or_fail id (run_init_setup ft os layout env rootfs)) (\<lambda>_.
         if early_modules_enabled ft then load_early_modules os rootfs else ret ())) (\<lambda>_.
     dispatch_mode fuel st os cfg layout rootfs (available env) mode)))))"

section \<open>The program\<close>

definition open_logger :: "'w os \<Rightarrow> ('w init, initramfs_error, unit) io" where
  "open_logger os = map_err (\<lambda>e. Io (IoError OtherKind (''Failed to open kmsg: '' @ show_io e))) (kmsg_new os)"

text \<open>The run of \<open>main\<close>, with \<open>n\<close> turns of the loop it may end in. The global logger is set once, so
  setting it cannot fail.\<close>

definition run_main :: "nat \<Rightarrow> nat \<Rightarrow> 'j setting \<Rightarrow> 'w os \<Rightarrow> 'w init \<Rightarrow> 'w init" where
  "run_main fuel n st os s = (let release = release_image (st_features st) in
     case mount_essential_filesystems os s of
       (Inl _, s1) \<Rightarrow> if release then console_halt os n s1 else spawn_emergency_shell os n s1
     | (Inr _, s1) \<Rightarrow> (case open_logger os s1 of
         (Inl e, s2) \<Rightarrow> handle_fatal_error os e release n (said os (show_initramfs_error e) s2)
       | (Inr _, s2) \<Rightarrow> (case run_init fuel st os s2 of
           (Inl (Failed e), s3) \<Rightarrow> handle_fatal_error os e release n s3
         | (_, s3) \<Rightarrow> s3)))"

end
