(* ===== verification/Fsck_Records.thy ===== *)
theory Fsck_Records
  imports Boot_Sequence Env_Store
begin

text \<open>
  The fsck records across a reboot. The locale \<open>record_store\<close> states what a boot environment
  promises about records; inside it the life of a record is followed from the boot whose fsck
  asked for a reboot to the status file of the next one. The in-memory environment, placed in the
  world, provides the contract.
\<close>

definition log_call :: "call \<Rightarrow> bool" where
  "log_call c \<longleftrightarrow> (case c of MakeDirs _ \<Rightarrow> True | Chmod _ _ \<Rightarrow> True | CreateFile _ \<Rightarrow> True
     | WriteFile _ _ \<Rightarrow> True | SyncFile _ \<Rightarrow> True | ReadText _ \<Rightarrow> True | _ \<Rightarrow> False)"

text \<open>
  A record read may be gone afterwards (GRUB consumes the files it reads), a failing write or
  clear changes nothing, and writing the log files does not touch the records.
\<close>

locale record_store =
  fixes os :: "'w os" and be :: "('w init) boot_env"
    and frec :: "'w \<Rightarrow> partition_name \<Rightarrow> fsck_record option"
  assumes save_law: "save_fsck_status be p code out s = (r, s') \<Longrightarrow>
      frec (world s') = (if r = Inr () then (frec (world s))(p \<mapsto> \<lparr>rec_exit_code = code, rec_output = out\<rparr>)
                         else frec (world s)) \<and> program s' = program s"
    and get_law: "get_fsck_status be p s = (q, s') \<Longrightarrow>
      (\<forall>l. l \<noteq> p \<longrightarrow> frec (world s') l = frec (world s) l) \<and> program s' = program s
      \<and> (\<forall>x. q = Inr x \<longrightarrow> x = frec (world s) p)"
    and clear_law: "clear_fsck_status be p s = (r, s') \<Longrightarrow>
      (\<forall>l. l \<noteq> p \<longrightarrow> frec (world s') l = frec (world s) l) \<and> program s' = program s"
    and log_unit: "log_call c \<Longrightarrow> os_unit os c w = (u, w') \<Longrightarrow> frec w' = frec w"
    and log_text: "log_call c \<Longrightarrow> os_text os c w = (v, w') \<Longrightarrow> frec w' = frec w"
begin

abbreviation keeps_frec :: "('w init, 'e, 'a) io \<Rightarrow> bool" where
  "keeps_frec m \<equiv> \<forall>f. keeps (\<lambda>s. frec (world s) = f) m"

lemma log_unit_keeps: "log_call c \<Longrightarrow> keeps (\<lambda>s. frec (world s) = f) (sys_unit os c)"
  using log_unit by (fastforce simp: keeps_def sys_unit_def split: prod.split)

lemma log_text_keeps: "log_call c \<Longrightarrow> keeps (\<lambda>s. frec (world s) = f) (sys_text os c)"
  using log_text by (fastforce simp: keeps_def sys_text_def split: prod.split)

lemma write_fsck_log_keeps: "keeps (\<lambda>s. frec (world s) = f) (write_fsck_log os log_dir p out)"
  unfolding write_fsck_log_def create_root_only_dir_def create_root_only_file_def Let_def
  by (intro keeps_intros log_unit_keeps) (simp_all add: log_call_def)

lemma is_path_mounted_keeps: "keeps (\<lambda>s. frec (world s) = f) (is_path_mounted os path)"
  unfolding is_path_mounted_def by (intro keeps_intros log_text_keeps) (simp_all add: log_call_def)

text \<open>Persisting: every record that is not clean is in the environment afterwards.\<close>

lemma persist_one_frec:
  assumes "\<not> is_clean (fsck_status_code r)" and "never_fails (save_fsck_status be p (fsck_status_code r) (fsck_status_output r))"
    and "persist_one os (Some be) log_dir mounted p r s = (q, s')"
  shows "frec (world s') = (frec (world s))(p \<mapsto>
    \<lparr>rec_exit_code = fsck_status_code r, rec_output = fsck_status_output r\<rparr>)"
proof -
  obtain s1 where s1: "save_fsck_status be p (fsck_status_code r) (fsck_status_output r) s = (Inr (), s1)"
    using assms(2) by (auto simp: never_fails_def)
  have k: "keeps (\<lambda>s. frec (world s) = f)
      (if fsck_status_output r \<noteq> [] \<and> mounted
       then ignore (write_fsck_log os log_dir p (fsck_status_output r)) else ret ())" for f
    by (intro keeps_intros write_fsck_log_keeps)
  show ?thesis
    using assms(1,3) s1 save_law [OF s1] keepsD2 [OF k refl, of s1 q s']
    by (simp add: persist_one_def bindE_def)
qed

lemma persist_one_clean:
  "is_clean (fsck_status_code r) \<Longrightarrow> persist_one os (Some be) log_dir mounted p r s = (Inr (), s)"
  by (simp add: persist_one_def)

lemma persist_one_total: "never_fails (persist_one os b log_dir mounted p r)"
  unfolding persist_one_def by (intro total_intros)

lemma persist_loop:
  fixes q :: "'x + unit"
  assumes "\<And>p c out. never_fails (save_fsck_status be p c out)"
  shows "for_each order (\<lambda>p. case ods_fsck st p of None \<Rightarrow> ret ()
      | Some r \<Rightarrow> persist_one os (Some be) log_dir mounted p r) s = (q, s') \<Longrightarrow>
    frec (world s') p = (case ods_fsck st p of
       Some r \<Rightarrow> if p \<in> set order \<and> \<not> is_clean (fsck_status_code r)
         then Some \<lparr>rec_exit_code = fsck_status_code r, rec_output = fsck_status_output r\<rparr>
         else frec (world s) p
     | None \<Rightarrow> frec (world s) p)"
proof (induction order arbitrary: s)
  case Nil
  then show ?case by (auto split: option.split)
next
  case (Cons l order)
  define body :: "partition_name \<Rightarrow> ('w init, 'x, unit) io"
    where "body = (\<lambda>p. case ods_fsck st p of None \<Rightarrow> ret ()
      | Some r \<Rightarrow> persist_one os (Some be) log_dir mounted p r)"
  have "never_fails (body l)"
    unfolding body_def by (intro total_intros persist_one_total)
  then obtain s1 where s1: "body l s = (Inr (), s1)" by (auto simp: never_fails_def)
  have rest: "for_each order body s1 = (q, s')"
    using Cons.prems s1 by (simp add: body_def bindE_def)
  have step: "frec (world s1) = (case ods_fsck st l of
      Some r \<Rightarrow> if is_clean (fsck_status_code r) then frec (world s)
        else (frec (world s))(l \<mapsto> \<lparr>rec_exit_code = fsck_status_code r, rec_output = fsck_status_output r\<rparr>)
    | None \<Rightarrow> frec (world s))"
  proof (cases "ods_fsck st l")
    case None
    then show ?thesis using s1 by (simp add: body_def)
  next
    case (Some r)
    then have one: "persist_one os (Some be) log_dir mounted l r s = (Inr () :: 'x + unit, s1)"
      using s1 by (simp add: body_def)
    show ?thesis
    proof (cases "is_clean (fsck_status_code r)")
      case True
      then show ?thesis using one Some by (simp add: persist_one_def)
    next
      case False
      then show ?thesis using persist_one_frec [OF False assms one] Some by simp
    qed
  qed
  note ih = Cons.IH [OF rest [unfolded body_def]]
  show ?case
  proof (cases "p = l")
    case True
    then show ?thesis using ih step by (cases "ods_fsck st l") auto
  next
    case False
    then have "frec (world s1) p = frec (world s) p"
      using step by (simp split: option.splits)
    then show ?thesis using ih False by (simp split: option.split)
  qed
qed

text \<open>Draining: the record of each listed partition reaches the status.\<close>

lemma drain_one_step:
  assumes "never_fails (get_fsck_status be p)" and "drain_one be p s = (q, s')"
  shows "ods (program s') = (case frec (world s) p of
      Some x \<Rightarrow> record_fsck_result p (rec_exit_code x) (rec_output x) (ods (program s))
    | None \<Rightarrow> ods (program s))"
    and "l \<noteq> p \<Longrightarrow> frec (world s') l = frec (world s) l"
    and "q = Inr ()"
proof -
  obtain x s1 where g: "get_fsck_status be p s = (Inr x, s1)"
    using assms(1) by (fastforce simp: never_fails_def)
  note law = get_law [OF g]
  define s2 where "s2 = (case x of None \<Rightarrow> s1 | Some y \<Rightarrow>
    s1\<lparr>program := (program s1)\<lparr>ods := record_fsck_result p (rec_exit_code y) (rec_output y) (ods (program s1))\<rparr>\<rparr>)"
  obtain r s3 where c: "clear_fsck_status be p s2 = (r, s3)" by fastforce
  have s': "s' = (if x = None then s1 else s3)" and q: "q = Inr ()"
    using assms(2) g c
    by (auto simp: drain_one_def caught_def bindE_def modify_ods_def modify_prog_def s2_def
        split: option.splits)
  then show "q = Inr ()" by simp
  show "ods (program s') = (case frec (world s) p of
      Some x \<Rightarrow> record_fsck_result p (rec_exit_code x) (rec_output x) (ods (program s))
    | None \<Rightarrow> ods (program s))"
    using law clear_law [OF c] s' by (auto simp: s2_def split: option.splits)
  show "frec (world s') l = frec (world s) l" if "l \<noteq> p"
    using law clear_law [OF c] s' that by (auto simp: s2_def split: option.splits)
qed

lemma drain_loop:
  fixes q :: "'x + unit"
  assumes "\<And>p. never_fails (get_fsck_status be p)"
  shows "distinct ps \<Longrightarrow> for_each ps (drain_one be) s = (q, s') \<Longrightarrow>
    ods_fsck (ods (program s')) p = (if p \<in> set ps then
       (case frec (world s) p of
          Some x \<Rightarrow> if is_clean (rec_exit_code x) then ods_fsck (ods (program s)) p
            else Some \<lparr>fsck_status_code = rec_exit_code x, fsck_status_output = rec_output x\<rparr>
        | None \<Rightarrow> ods_fsck (ods (program s)) p)
     else ods_fsck (ods (program s)) p)"
proof (induction ps arbitrary: s)
  case (Cons l ps)
  obtain r :: "'x + unit" and s1 where s1: "drain_one be l s = (r, s1)" by fastforce
  note step = drain_one_step [OF assms s1]
  have rest: "for_each ps (drain_one be) s1 = (q, s')"
    using Cons.prems(2) s1 step(3) by (simp add: bindE_def)
  note ih = Cons.IH [OF _ rest]
  show ?case
  proof (cases "p = l")
    case True
    then have "p \<notin> set ps" using Cons.prems(1) by simp
    then have "ods_fsck (ods (program s')) p = ods_fsck (ods (program s1)) p"
      using ih Cons.prems(1) by simp
    then show ?thesis using step(1) True by (simp add: record_fsck_result_def split: option.split)
  next
    case False
    have "frec (world s1) p = frec (world s) p" by (rule step(2) [OF False])
    moreover have "ods_fsck (ods (program s1)) p = ods_fsck (ods (program s)) p"
      using step(1) False record_fsck_result_other [of l p] by (auto split: option.splits)
    ultimately show ?thesis using ih Cons.prems(1) False by (simp cong: option.case_cong split: option.split)
  qed
qed simp

text \<open>A reboot keeps the world and starts the program afresh.\<close>

lemma survives_reboot:
  fixes q :: "'x + unit"
  assumes "\<And>p c out. never_fails (save_fsck_status be p c out)" and "\<And>p. never_fails (get_fsck_status be p)"
    and "ods_fsck st p = Some r" and "\<not> is_clean (fsck_status_code r)"
    and "p \<in> set order" and "p \<in> set FSCK_PARTITIONS"
    and "persist_fsck_results os order (Some be) rootfs st s = (q, s1)"
    and "drain_fsck_env (Some be) \<lparr>world = world s1, trace = [], clock = 0, program = initial_program\<rparr> = (q', s2)"
  shows "ods_fsck (ods (program s2)) p = Some r"
proof -
  define data where "data = path_join rootfs MP_DATA_PARTITION"
  obtain m s0 where m: "is_path_mounted os data s = (m, s0)" by fastforce
  have loop: "for_each order (\<lambda>p. case ods_fsck st p of None \<Rightarrow> ret ()
      | Some r \<Rightarrow> persist_one os (Some be) (path_join data FSCK_LOG_SUBDIR) (m = Inr True) p r) s0 = (q, s1)"
    using assms(7) m unfolding data_def by (simp add: persist_fsck_results_def Let_def caught_def)
  have f: "frec (world s1) p = Some \<lparr>rec_exit_code = fsck_status_code r, rec_output = fsck_status_output r\<rparr>"
    using persist_loop [OF assms(1) loop, of p] assms(3,4,5) by simp
  have "distinct FSCK_PARTITIONS" by (simp add: FSCK_PARTITIONS_def)
  then show ?thesis
    using drain_loop [OF assms(2) _ assms(8) [unfolded drain_fsck_env_def option.case], of p]
      f assms(4,6) by simp
qed

end

text \<open>A boot environment over the world alone, as an operation on the machine.\<close>

definition on_world :: "('w, 'e, 'a) io \<Rightarrow> (('w, 'p) machine, 'e, 'a) io" where
  "on_world m = (\<lambda>s. case m (world s) of (r, w) \<Rightarrow> (r, s\<lparr>world := w\<rparr>))"

definition env_in_world :: "'w boot_env \<Rightarrow> ('w, 'p) machine boot_env" where
  "env_in_world b = \<lparr>get_env = \<lambda>k. on_world (get_env b k), set_env = \<lambda>k v. on_world (set_env b k v),
     save_fsck_status = \<lambda>p c out. on_world (save_fsck_status b p c out),
     get_fsck_status = \<lambda>p. on_world (get_fsck_status b p),
     clear_fsck_status = \<lambda>p. on_world (clear_fsck_status b p)\<rparr>"

definition mock_run :: "call \<Rightarrow> mock_env \<Rightarrow> (io_error + cmd_output) \<times> mock_env" where
  "mock_run c w = (Inl (IoError NotFound []), w)"

interpretation mock_records: record_store "quiet_os mock_run" "env_in_world mock_boot_env" mock_fsck
  by unfold_locales
     (auto simp: env_in_world_def on_world_def mock_boot_env_def mock_save_fsck_status_def
       mock_get_fsck_status_def mock_clear_fsck_status_def quiet_os_def fun_eq_iff
       split: if_splits)


text \<open>An environment of records alone that never fails.\<close>

definition memory_env :: "(partition_name \<Rightarrow> fsck_record option) boot_env" where
  "memory_env = \<lparr>get_env = \<lambda>_. ret None, set_env = \<lambda>_ _. ret (),
     save_fsck_status = \<lambda>p code out m. (Inr (), m(p \<mapsto> \<lparr>rec_exit_code = code, rec_output = out\<rparr>)),
     get_fsck_status = \<lambda>p m. (Inr (m p), m),
     clear_fsck_status = \<lambda>p m. (Inr (), m(p := None))\<rparr>"

definition memory_os :: "(partition_name \<Rightarrow> fsck_record option) os" where
  "memory_os = quiet_os (\<lambda>c w. (Inl (IoError NotFound []), w))"

interpretation memory_records: record_store memory_os "env_in_world memory_env" id
  by unfold_locales
     (auto simp: env_in_world_def on_world_def memory_env_def memory_os_def quiet_os_def fun_eq_iff)

definition sample_fsck :: fsck_status where
  "sample_fsck = \<lparr>fsck_status_code = 3, fsck_status_output = ''fixed''\<rparr>"

definition sample_machine :: "(partition_name \<Rightarrow> fsck_record option) init" where
  "sample_machine = \<lparr>world = Map.empty, trace = [], clock = 0, program = initial_program\<rparr>"

definition sample_status :: ods_status where
  "sample_status = ods_new\<lparr>ods_fsck := [Data \<mapsto> sample_fsck]\<rparr>"


end
