(* ===== verification/Update_Flags.thy ===== *)
theory Update_Flags
  imports Ods Fsck_Records
begin

text \<open>
  What \<open>handle_update_validation\<close> does to the boot environment, for every environment that keeps
  the contract of \<open>env_store\<close> and is not touched by the runtime files.
\<close>

text \<open>The calls that write the runtime files.\<close>

definition runtime_call :: "string \<Rightarrow> string \<Rightarrow> call \<Rightarrow> bool" where
  "runtime_call ods_dir rootfs c \<longleftrightarrow> (case c of
     WriteFile p _ \<Rightarrow> \<exists>n. p = path_join ods_dir n
   | Chown _ _ _ \<Rightarrow> True | Chmod _ _ \<Rightarrow> True
   | RemoveFile p \<Rightarrow> p = path_join (path_join (path_join rootfs MP_DATA_PARTITION) PATH_VAR_LIB) UPDATE_VALIDATION_CONF
   | _ \<Rightarrow> False)"

text \<open>After the marker: the trigger files and the clearing of the flags.\<close>

definition after_marker :: "'w os \<Rightarrow> string \<Rightarrow> ('w, 'p) machine boot_env \<Rightarrow> u32 \<Rightarrow> u32 \<Rightarrow> bool \<Rightarrow> bool \<Rightarrow>
    bool \<Rightarrow> bool \<Rightarrow> (('w, 'p) machine, initramfs_error, unit) io" where
  "after_marker os ods_dir be uid gid vu vf bu marker_set =
     bindE (if vu then write_trigger_file os ods_dir UPDATE_VALIDATE_FILE FileReadable uid gid
            else ret ()) (\<lambda>_.
     bindE (if vf then bindE (write_trigger_file os ods_dir UPDATE_VALIDATE_FAILED_FILE FileReadable uid gid)
                     (\<lambda>_. clear_update_flag be ValidateUpdateFailed marker_set)
            else ret ()) (\<lambda>_.
     if bu then bindE (write_trigger_file os ods_dir BOOTLOADER_UPDATED_FILE FileRestricted uid gid)
              (\<lambda>_. clear_update_flag be BootloaderUpdated marker_set)
     else ret ()))"

lemma handle_update_validation_split:
  "handle_update_validation os ods_dir rootfs be uid gid =
     bindE (read_flag be ValidateUpdate) (\<lambda>vu.
     bindE (read_flag be ValidateUpdateFailed) (\<lambda>vf.
     if vu \<and> vf then throw ConflictingUpdateFlags
     else bindE (if \<not> vu then remove_update_validation_conf os rootfs else ret ()) (\<lambda>_.
       bindE (read_flag be BootloaderUpdated) (\<lambda>bu.
       bindE (if vu \<or> vf \<or> bu then ensure_first_boot_marker be else ret False)
         (\<lambda>marker_set. after_marker os ods_dir be uid gid vu vf bu marker_set)))))"
  unfolding handle_update_validation_def after_marker_def by (rule refl)

locale runtime_env = env_store be lookup storable inv
  for be :: "('w, 'p) machine boot_env" and lookup storable inv +
  fixes os :: "'w os" and ods_dir rootfs :: string
  assumes storable_marker: "storable FIRST_BOOT_DONE"
    and runtime_law: "runtime_call ods_dir rootfs c \<Longrightarrow> inv s \<Longrightarrow> sys_unit os c s = (r, s') \<Longrightarrow>
      inv s' \<and> lookup s' = lookup s"
begin

text \<open>
  The state of the flags while the update is handled, from the environment \<open>start\<close> on, with the
  bit that says whether the marker is known to be set.
\<close>

definition flags_inv :: "(boot_env_key \<Rightarrow> string option) \<Rightarrow> bool \<Rightarrow> ('w, 'p) machine \<Rightarrow> bool" where
  "flags_inv start marker s \<longleftrightarrow> inv s
     \<and> (\<forall>k. k \<notin> {FirstBootDone, ValidateUpdateFailed, BootloaderUpdated} \<longrightarrow> lookup s k = start k)
     \<and> lookup s FirstBootDone \<in> {start FirstBootDone, Some FIRST_BOOT_DONE}
     \<and> (marker \<longrightarrow> lookup s FirstBootDone = Some FIRST_BOOT_DONE)
     \<and> (\<not> marker \<longrightarrow> lookup s ValidateUpdateFailed = start ValidateUpdateFailed
                    \<and> lookup s BootloaderUpdated = start BootloaderUpdated)"

lemma runtime_keeps:
  "runtime_call ods_dir rootfs c \<Longrightarrow> keeps (flags_inv start marker) (sys_unit os c)"
  using runtime_law unfolding keeps_def flags_inv_def by (metis prod.collapse)

lemma get_keeps: "keeps (flags_inv start marker) (get_env be k)"
  using get_law unfolding keeps_def flags_inv_def by (metis prod.collapse)

lemma read_flag_keeps: "keeps (flags_inv start marker) (read_flag be k)"
  unfolding read_flag_def is_flag_set_def by (intro keeps_intros get_keeps)

lemma clear_flag_keeps:
  assumes "k \<in> {ValidateUpdateFailed, BootloaderUpdated}" and marker
  shows "keeps (flags_inv start marker) (clear_flag be k)"
  unfolding clear_flag_def
proof (rule keeps_ignore, rule keepsI)
  fix s assume i: "flags_inv start marker s"
  obtain r s' where s': "set_env be k None s = (r, s')" by fastforce
  have "inv s" using i by (simp add: flags_inv_def)
  from unset_law [OF this s'] have
    "inv s' \<and> lookup s' = (if r = Inr () then (lookup s)(k := None) else lookup s)" .
  then show "flags_inv start marker (snd (set_env be k None s))"
    using i assms s' by (auto simp: flags_inv_def split: if_splits)
qed

lemma clear_update_flag_keeps:
  "k \<in> {ValidateUpdateFailed, BootloaderUpdated} \<Longrightarrow>
   keeps (flags_inv start marker) (clear_update_flag be k marker)"
  unfolding clear_update_flag_def by (intro keeps_intros clear_flag_keeps) simp_all

lemma write_trigger_keeps:
  "keeps (flags_inv start marker) (write_trigger_file os ods_dir name mode uid gid)"
  unfolding write_trigger_file_def set_ownership_def set_mode_def Let_def
  by (intro keeps_intros runtime_keeps) (auto simp: runtime_call_def)

lemma remove_conf_keeps:
  "keeps (flags_inv start marker) (remove_update_validation_conf os rootfs)"
  unfolding remove_update_validation_conf_def
  by (intro keeps_intros runtime_keeps) (simp add: runtime_call_def)

text \<open>The answer of \<open>ensure_first_boot_marker\<close> tells whether the marker is set.\<close>

lemma ensure_marker:
  assumes i: "flags_inv start False s" and r: "ensure_first_boot_marker be s = (r, s')"
  shows "\<exists>m. r = Inr m \<and> flags_inv start m s'"
proof -
  obtain d s1 where d: "is_first_boot_done be s = (d, s1)" by fastforce
  have "keeps (flags_inv start False) (is_first_boot_done be)"
    unfolding is_first_boot_done_def by (intro keeps_intros get_keeps)
  then have i1: "flags_inv start False s1" using i d by (metis keepsD2)
  show ?thesis
  proof (cases "d = Inr True")
    case True
    obtain v where v: "get_env be FirstBootDone s = (Inr v, s1)" "v = Some FIRST_BOOT_DONE"
      using d True by (auto simp: is_first_boot_done_def bindE_eq_Inr)
    have "inv s" using i by (simp add: flags_inv_def)
    from get_law [OF this v(1)] have "lookup s1 FirstBootDone = Some FIRST_BOOT_DONE"
      using v(2) by simp
    then have "flags_inv start True s1" using i1 by (simp add: flags_inv_def)
    then show ?thesis using r d True by (auto simp: ensure_first_boot_marker_def caught_def)
  next
    case False
    obtain w s2 where w: "set_first_boot_done be s1 = (w, s2)" by fastforce
    then have set: "set_env be FirstBootDone (Some FIRST_BOOT_DONE) s1 = (w, s2)"
      by (simp add: set_first_boot_done_def)
    have "inv s1" using i1 by (simp add: flags_inv_def)
    from set_law [OF this _ set] storable_marker have
      "inv s2 \<and> lookup s2 = (if w = Inr () then (lookup s1)(FirstBootDone := Some FIRST_BOOT_DONE)
         else lookup s1)" by simp
    then have "flags_inv start (w = Inr ()) s2" using i1 by (auto simp: flags_inv_def)
    then show ?thesis using r d w False by (auto simp: ensure_first_boot_marker_def caught_def)
  qed
qed

lemma after_marker_keeps: "keeps (flags_inv start m) (after_marker os ods_dir be uid gid vu vf bu m)"
  unfolding after_marker_def
  by (intro keeps_intros write_trigger_keeps clear_update_flag_keeps) simp_all

lemma flags_inv_start: "inv s \<Longrightarrow> flags_inv (lookup s) False s"
  by (simp add: flags_inv_def)

lemma marker_step:
  assumes "flags_inv start False s"
    and "bindE (if b then ensure_first_boot_marker be else ret False) (after_marker os ods_dir be uid gid vu vf bu) s = (r, s')"
  shows "\<exists>m. flags_inv start m s'"
proof (cases b)
  case True
  obtain q :: "initramfs_error + bool" and s1 where q: "ensure_first_boot_marker be s = (q, s1)" by fastforce
  then obtain m where m: "q = Inr m" "flags_inv start m s1" using ensure_marker [OF assms(1)] by blast
  then have "after_marker os ods_dir be uid gid vu vf bu m s1 = (r, s')"
    using assms(2) q True by (simp add: bindE_def)
  then show ?thesis using keepsD2 [OF after_marker_keeps m(2)] by blast
next
  case False
  then have "after_marker os ods_dir be uid gid vu vf bu False s = (r, s')" using assms(2) by simp
  then show ?thesis using keepsD2 [OF after_marker_keeps assms(1)] by blast
qed

lemma update_flags_safe:
  assumes "inv s" and "handle_update_validation os ods_dir rootfs be uid gid s = (r, s')"
  shows "\<exists>m. flags_inv (lookup s) m s'"
proof -
  let ?I = "flags_inv (lookup s) False"
  note start = flags_inv_start [OF assms(1)]
  obtain q1 s1 where q1: "read_flag be ValidateUpdate s = (q1, s1)" by fastforce
  have i1: "?I s1" using keepsD2 [OF read_flag_keeps start q1] .
  obtain q2 s2 where q2: "read_flag be ValidateUpdateFailed s1 = (q2, s2)" by fastforce
  have i2: "?I s2" using keepsD2 [OF read_flag_keeps i1 q2] .
  consider "s' = s1" | "s' = s2" | vu vf where "q1 = Inr vu" "q2 = Inr vf"
    "bindE (if \<not> vu then remove_update_validation_conf os rootfs else ret ()) (\<lambda>_.
       bindE (read_flag be BootloaderUpdated) (\<lambda>bu.
       bindE (if vu \<or> vf \<or> bu then ensure_first_boot_marker be else ret False)
         (after_marker os ods_dir be uid gid vu vf bu))) s2 = (r, s')"
    using assms(2) q1 q2 unfolding handle_update_validation_split
    by (cases q1; cases q2) (auto simp: bindE_def split: if_splits)
  then show ?thesis
  proof cases
    case (3 vu vf)
    obtain q3 s3 where q3: "(if \<not> vu then remove_update_validation_conf os rootfs else ret ()) s2
      = (q3 :: initramfs_error + unit, s3)" by fastforce
    have "keeps ?I (if \<not> vu then remove_update_validation_conf os rootfs else ret ())"
      by (intro keeps_intros remove_conf_keeps)
    from keepsD2 [OF this i2 q3] have i3: "?I s3" .
    obtain q4 s4 where q4: "read_flag be BootloaderUpdated s3 = (q4, s4)" by fastforce
    have i4: "?I s4" using keepsD2 [OF read_flag_keeps i3 q4] .
    show ?thesis
      using 3(3) q3 q4 i3 i4 marker_step [OF i4]
      by (cases q3; cases q4) (auto simp: bindE_eq_Inr bindE_eq_Inl bindE_Inl bindE_Inr)
  qed (use i1 i2 in blast)+
qed

end

section \<open>Instances\<close>

text \<open>Any environment in the world, beside an operating system that leaves the world alone.\<close>

lemma runtime_env_quiet:
  fixes lookup :: "'w \<Rightarrow> boot_env_key \<Rightarrow> string option"
  assumes "env_store b lookup storable ready" and "storable FIRST_BOOT_DONE"
  shows "runtime_env (env_in_world b :: ('w, 'p) machine boot_env) (\<lambda>s. lookup (world s)) storable
    (\<lambda>s. ready (world s)) (quiet_os run) ods_dir rootfs"
proof unfold_locales
  fix s :: "('w, 'p) machine" and k r s'
  assume i: "ready (world s)" and g: "get_env (env_in_world b) k s = (r, s')"
  then obtain w where w: "get_env b k (world s) = (r, w)" "s' = s\<lparr>world := w\<rparr>"
    by (auto simp: env_in_world_def on_world_def split: prod.splits)
  show "ready (world s') \<and> lookup (world s') = lookup (world s) \<and> (\<forall>v. r = Inr v \<longrightarrow> v = lookup (world s) k)"
    using env_store.get_law [OF assms(1) i w(1)] w(2) by simp
next
  fix s :: "('w, 'p) machine" and v k q s'
  assume i: "ready (world s)" and v: "\<And>t. v = Some t \<Longrightarrow> storable t"
    and g: "set_env (env_in_world b) k v s = (q, s')"
  then obtain w where w: "set_env b k v (world s) = (q, w)" "s' = s\<lparr>world := w\<rparr>"
    by (auto simp: env_in_world_def on_world_def split: prod.splits)
  show "ready (world s') \<and>
      lookup (world s') = (if q = Inr () then (lookup (world s))(k := v) else lookup (world s))"
    using env_store.set_law [OF assms(1) i v w(1)] w(2) by simp
next
  show "storable FIRST_BOOT_DONE" by (rule assms(2))
next
  fix c and s :: "('w, 'p) machine" and r s'
  assume "ready (world s)" and "sys_unit (quiet_os run) c s = (r, s')"
  then show "ready (world s') \<and> lookup (world s') = lookup (world s)"
    by (auto simp: sys_unit_def quiet_os_def)
qed

interpretation mock_runtime: runtime_env "env_in_world mock_boot_env" "\<lambda>s. mock_lookup (world s)"
  "\<lambda>_. True" "\<lambda>s. mock_inv (world s)" "quiet_os mock_run" ODS_RUNTIME_DIR "''/rootfs''"
  by (rule runtime_env_quiet [OF mock.env_store_axioms]) simp

text \<open>
  C19: Update flags. Handling an update changes no variable but the first-boot marker and the two
  flags it clears; the marker only ever becomes its value; and a flag is different afterwards only
  if the marker is set, so a boot after an update is never taken for a first boot.
\<close>

theorem update_flags_need_marker:
  assumes "runtime_env be lookup storable ready os ods_dir rootfs" and "ready s"
    and "handle_update_validation os ods_dir rootfs be uid gid s = (r, s')"
  shows "(\<forall>k. k \<notin> {FirstBootDone, ValidateUpdateFailed, BootloaderUpdated} \<longrightarrow> lookup s' k = lookup s k)
    \<and> lookup s' FirstBootDone \<in> {lookup s FirstBootDone, Some FIRST_BOOT_DONE}
    \<and> (lookup s' FirstBootDone = Some FIRST_BOOT_DONE
       \<or> lookup s' ValidateUpdateFailed = lookup s ValidateUpdateFailed
         \<and> lookup s' BootloaderUpdated = lookup s BootloaderUpdated)"
  using runtime_env.update_flags_safe [OF assms]
  by (auto simp: runtime_env.flags_inv_def [OF assms(1)])

definition updated_machine :: "mock_env init" where
  "updated_machine = \<lparr>world = with_env BootloaderUpdated ''1'' mock_new, trace = [], clock = 0,
     program = initial_program\<rparr>"

lemma update_flags_need_marker_witness:
  "mock_lookup (world (snd (handle_update_validation (quiet_os mock_run) ODS_RUNTIME_DIR ''/rootfs''
      (env_in_world mock_boot_env) 1000 1000 updated_machine))) ValidateUpdate
   = mock_lookup (world updated_machine) ValidateUpdate"
proof -
  have "mock_inv (world updated_machine)"
    by (simp add: mock_inv_def updated_machine_def with_env_def mock_new_def)
  from update_flags_need_marker [OF mock_runtime.runtime_env_axioms this, of 1000 1000]
  show ?thesis by (meson boot_env_key.distinct emptyE insertE surjective_pairing)
qed

end
