(* ===== verification/Trace_Logic.thy ===== *)
theory Trace_Logic
  imports World
begin

text \<open>
  Derived rules for what a computation does to the trace. \<open>brings Q m\<close>: running \<open>m\<close> appends calls to
  the trace, and its result and these calls satisfy \<open>Q\<close>. \<open>all_ok P m\<close> is the case of most clients:
  when \<open>m\<close> gives a value, every call it made that satisfies \<open>P\<close> has succeeded.
\<close>

definition brings :: "('e + 'a \<Rightarrow> (call \<times> bool) list \<Rightarrow> bool) \<Rightarrow> (('w, 'p) machine, 'e, 'a) io \<Rightarrow> bool" where
  "brings Q m \<longleftrightarrow> (\<forall>s. \<exists>t. trace (snd (m s)) = trace s @ t \<and> Q (fst (m s)) t)"

lemma bringsI: "(\<And>s r s'. m s = (r, s') \<Longrightarrow> \<exists>t. trace s' = trace s @ t \<and> Q r t) \<Longrightarrow> brings Q m"
  unfolding brings_def by (metis prod.collapse)

lemma bringsD: "brings Q m \<Longrightarrow> m s = (r, s') \<Longrightarrow> \<exists>t. trace s' = trace s @ t \<and> Q r t"
  unfolding brings_def by (metis fst_conv snd_conv)

lemma brings_mono: "brings Q m \<Longrightarrow> (\<And>r t. Q r t \<Longrightarrow> R r t) \<Longrightarrow> brings R m"
  unfolding brings_def by meson

lemma brings_conj: "brings Q m \<Longrightarrow> brings R m \<Longrightarrow> brings (\<lambda>r t. Q r t \<and> R r t) m"
  unfolding brings_def by (metis same_append_eq)

lemma brings_calls: "calls_only P m \<Longrightarrow> brings (\<lambda>_ t. \<forall>c \<in> set t. P (fst c)) m"
  unfolding brings_def calls_only_def by meson

lemma brings_pure:
  "Q (Inr x) [] \<Longrightarrow> brings Q (ret x)" "Q (Inl e) [] \<Longrightarrow> brings Q (throw e)" "Q r [] \<Longrightarrow> brings Q (lift_res r)"
  by (simp_all add: brings_def)

lemma brings_caught:
  assumes "brings Q m" and "\<And>r. brings (R r) (f r)" and "\<And>r t q u. Q r t \<Longrightarrow> R r q u \<Longrightarrow> S q (t @ u)"
  shows "brings S (caught m f)"
proof (rule bringsI)
  fix s q s'
  assume run: "caught m f s = (q, s')"
  obtain r s1 where m: "m s = (r, s1)" by fastforce
  then have f: "f r s1 = (q, s')" using run by (simp add: caught_def)
  obtain t u where "trace s1 = trace s @ t" "Q r t" "trace s' = trace s1 @ u" "R r q u"
    using bringsD [OF assms(1) m] bringsD [OF assms(2) f] by blast
  then show "\<exists>t. trace s' = trace s @ t \<and> S q t" using assms(3) by (intro exI [of _ "t @ u"]) simp
qed

lemma brings_bindE:
  assumes m: "brings Q m" and f: "\<And>x. brings (R x) (f x)"
    and e: "\<And>e t. Q (Inl e) t \<Longrightarrow> S (Inl e) t"
    and i: "\<And>x t q u. Q (Inr x) t \<Longrightarrow> R x q u \<Longrightarrow> S q (t @ u)"
  shows "brings S (bindE m f)"
proof (rule bringsI)
  fix s q s'
  assume run: "bindE m f s = (q, s')"
  obtain r s1 where ms: "m s = (r, s1)" by fastforce
  obtain t where t: "trace s1 = trace s @ t" "Q r t" using bringsD [OF m ms] by blast
  show "\<exists>t. trace s' = trace s @ t \<and> S q t"
  proof (cases r)
    case (Inl x)
    then have "q = Inl x" "s' = s1" using run ms by (simp_all add: bindE_def)
    then show ?thesis using t Inl e by blast
  next
    case (Inr x)
    then have fs: "f x s1 = (q, s')" using run ms by (simp add: bindE_def)
    obtain u where "trace s' = trace s1 @ u" "R x q u" using bringsD [OF f fs] by blast
    then show ?thesis using t Inr i by (intro exI [of _ "t @ u"]) simp
  qed
qed

lemma brings_map_err:
  assumes "brings Q m" and "\<And>e t. Q (Inl e) t \<Longrightarrow> R (Inl (g e)) t" and "\<And>x t. Q (Inr x) t \<Longrightarrow> R (Inr x) t"
  shows "brings R (map_err g m)"
proof (rule bringsI)
  fix s r s'
  assume "map_err g m s = (r, s')"
  then obtain q where "m s = (q, s')" "r = (case q of Inl e \<Rightarrow> Inl (g e) | Inr x \<Rightarrow> Inr x)"
    by (auto simp: map_err_def split: prod.splits sum.splits)
  then show "\<exists>t. trace s' = trace s @ t \<and> R r t"
    using bringsD [OF assms(1)] assms(2,3) by (fastforce split: sum.splits)
qed

lemma brings_on_err:
  assumes "brings Q m" and "calls_only P c" and "\<And>e t u. Q (Inl e) t \<Longrightarrow> \<forall>x \<in> set u. P (fst x) \<Longrightarrow> R (Inl e) (t @ u)"
    and "\<And>x t. Q (Inr x) t \<Longrightarrow> R (Inr x) t"
  shows "brings R (on_err m c)"
proof (rule bringsI)
  fix s r s'
  assume run: "on_err m c s = (r, s')"
  obtain q s1 where m: "m s = (q, s1)" by fastforce
  obtain t where t: "trace s1 = trace s @ t" "Q q t" using bringsD [OF assms(1) m] by blast
  show "\<exists>t. trace s' = trace s @ t \<and> R r t"
  proof (cases q)
    case (Inl e)
    obtain d s2 where d: "c s1 = (d, s2)" by fastforce
    from calls_only_split [OF assms(2) d] obtain u where "trace s2 = trace s1 @ u" "\<forall>x \<in> set u. P (fst x)"
      by blast
    moreover have "r = Inl e" "s' = s2" using run m d Inl by (simp_all add: on_err_def)
    ultimately show ?thesis using t Inl assms(3) by (intro exI [of _ "t @ u"]) simp
  next
    case (Inr x)
    then show ?thesis using run m t assms(4) by (auto simp: on_err_def)
  qed
qed

text \<open>A fold carries an invariant over the elements done, the accumulator and the calls.\<close>

lemma brings_fold_io:
  assumes "\<And>ys x a. x \<in> set xs \<Longrightarrow> brings (\<lambda>r t. \<forall>b. r = Inr b \<longrightarrow> (\<forall>u. I ys a u \<longrightarrow> I (ys @ [x]) b (u @ t))) (f x a)"
  shows "brings (\<lambda>r t. \<forall>b. r = Inr b \<longrightarrow> (\<forall>u. I ys a u \<longrightarrow> I (ys @ xs) b (u @ t))) (fold_io f xs a)"
  using assms
proof (induction xs arbitrary: a ys)
  case Nil
  show ?case unfolding fold_io.simps by (rule brings_pure) simp
next
  case (Cons x xs)
  let ?done = "\<lambda>ys a r t. \<forall>b. r = Inr b \<longrightarrow> (\<forall>u. I ys a u \<longrightarrow> I (ys @ x # xs) b (u @ t))"
  have step: "brings (\<lambda>r t. \<forall>b. r = Inr b \<longrightarrow> (\<forall>u. I ys a u \<longrightarrow> I (ys @ [x]) b (u @ t))) (f x a)"
    by (rule Cons.prems) simp
  have rest: "brings (\<lambda>r t. \<forall>c. r = Inr c \<longrightarrow> (\<forall>u. I (ys @ [x]) b u \<longrightarrow> I ((ys @ [x]) @ xs) c (u @ t))) (fold_io f xs b)" for b
    using Cons.prems by (intro Cons.IH) simp
  show ?case unfolding fold_io.simps
  proof (rule brings_bindE [OF step rest])
    fix b t q u
    assume "\<forall>b'. Inr b = Inr b' \<longrightarrow> (\<forall>u. I ys a u \<longrightarrow> I (ys @ [x]) b' (u @ t))"
      and "\<forall>c. q = Inr c \<longrightarrow> (\<forall>v. I (ys @ [x]) b v \<longrightarrow> I ((ys @ [x]) @ xs) c (v @ u))"
    then have "I (ys @ x # xs) c ((v @ t) @ u)" if "q = Inr c" "I ys a v" for c v using that by auto
    then show "?done ys a q (t @ u)" by simp
  qed simp
qed

lemma brings_fold_start:
  assumes "\<And>ys x a. x \<in> set xs \<Longrightarrow> brings (\<lambda>r t. \<forall>b. r = Inr b \<longrightarrow> (\<forall>u. I ys a u \<longrightarrow> I (ys @ [x]) b (u @ t))) (f x a)"
    and "I [] a []"
  shows "brings (\<lambda>r t. \<forall>b. r = Inr b \<longrightarrow> I xs b t) (fold_io f xs a)"
proof (rule brings_mono [OF brings_fold_io [where I = I and ys = "[]", OF assms(1)]])
  fix r t
  assume "\<forall>b. r = Inr b \<longrightarrow> (\<forall>u. I [] a u \<longrightarrow> I ([] @ xs) b (u @ t))"
  then have "\<forall>b. r = Inr b \<longrightarrow> I ([] @ xs) b ([] @ t)" using assms(2) by blast
  then show "\<forall>b. r = Inr b \<longrightarrow> I xs b t" by simp
qed

lemma brings_any: "calls_only P m \<Longrightarrow> brings (\<lambda>_ _. True) m"
  by (rule brings_mono [OF brings_calls]) simp_all

section \<open>Success needs success\<close>

abbreviation oks :: "(call \<Rightarrow> bool) \<Rightarrow> (call \<times> bool) list \<Rightarrow> bool" where
  "oks P t \<equiv> \<forall>c \<in> set t. P (fst c) \<longrightarrow> snd c"

definition all_ok :: "(call \<Rightarrow> bool) \<Rightarrow> (('w, 'p) machine, 'e, 'a) io \<Rightarrow> bool" where
  "all_ok P m \<longleftrightarrow> brings (\<lambda>r t. \<not> isl r \<longrightarrow> oks P t) m"

named_theorems ok_intros "rules that build all_ok from the parts of a program"

lemma all_okD: "all_ok P m \<Longrightarrow> m s = (Inr x, s') \<Longrightarrow> \<exists>t. trace s' = trace s @ t \<and> oks P t"
  unfolding all_ok_def using bringsD by fastforce

lemma all_ok_calls: "calls_only (\<lambda>c. \<not> P c) m \<Longrightarrow> all_ok P m"
  unfolding all_ok_def by (rule brings_mono [OF brings_calls]) auto

lemma all_ok_pure [ok_intros]: "all_ok P (ret x)" "all_ok P (throw e)" "all_ok P (lift_res r)"
  by (simp_all add: all_ok_def brings_pure)

lemma all_ok_bindE [ok_intros]:
  "all_ok P m \<Longrightarrow> (\<And>x. all_ok P (f x)) \<Longrightarrow> all_ok P (bindE m f)"
  unfolding all_ok_def by (erule brings_bindE [where R = "\<lambda>_ r t. \<not> isl r \<longrightarrow> oks P t"]) auto

lemma all_ok_map_err [ok_intros]: "all_ok P m \<Longrightarrow> all_ok P (map_err g m)"
  unfolding all_ok_def by (erule brings_map_err) simp_all

lemma all_ok_if [ok_intros]:
  "(b \<Longrightarrow> all_ok P m) \<Longrightarrow> (\<not> b \<Longrightarrow> all_ok P n) \<Longrightarrow> all_ok P (if b then m else n)"
  by simp

lemma brings_sys:
  "brings (\<lambda>r t. t = [(c, \<not> isl r)]) (sys_unit os c)" "brings (\<lambda>r t. t = [(c, \<not> isl r)]) (sys_text os c)"
  "brings (\<lambda>r t. t = [(c, \<not> isl r)]) (sys_num os c)" "brings (\<lambda>r t. t = [(c, \<not> isl r)]) (sys_stat os c)"
  "brings (\<lambda>r t. t = [(c, r = Inr True)]) (sys_bool os c)"
  "brings (\<lambda>r t. t = [(c, \<exists>out. r = Inr out \<and> success out)]) (sys_run os c)"
  by (auto simp: brings_def sys_unit_def sys_text_def sys_num_def sys_stat_def sys_bool_def test_path_def
      sys_run_def split: prod.split sum.split)

lemma all_ok_sys [ok_intros]:
  "all_ok P (sys_unit os c)" "all_ok P (sys_text os c)" "all_ok P (sys_num os c)" "all_ok P (sys_stat os c)"
  unfolding all_ok_def by (rule brings_mono [OF brings_sys(1)] brings_mono [OF brings_sys(2)]
    brings_mono [OF brings_sys(3)] brings_mono [OF brings_sys(4)]; simp)+

text \<open>A command whose exit status is checked.\<close>

lemma brings_checked:
  "brings (\<lambda>r t. t = [(c, \<not> isl r)])
     (bindE (map_err g (sys_run os c)) (\<lambda>out. if \<not> success out then throw (e out) else ret ()))"
  by (rule bringsI) (auto simp: bindE_def map_err_def sys_run_def split: prod.splits sum.splits if_splits)

lemma all_ok_checked [ok_intros]:
  "all_ok P (bindE (map_err g (sys_run os c)) (\<lambda>out. if \<not> success out then throw (e out) else ret ()))"
  unfolding all_ok_def by (rule brings_mono [OF brings_checked]) simp

end
