(* ===== verification/Reset_Safety.thy ===== *)
theory Reset_Safety
  imports Factory_Reset Trace_Logic
begin

text \<open>
  What a factory reset may destroy and when: nothing before the backup is complete, and a reset that
  reports success has formatted, wiped and restored everything.
\<close>

section \<open>Calls that destroy data\<close>

definition destroys :: "call \<Rightarrow> bool" where
  "destroys c \<longleftrightarrow> (case c of
     Spawn prog _ _ \<Rightarrow> prog \<in> {MKFS_EXT4_CMD, TUNE2FS_CMD}
   | OpenWriteExcl _ \<Rightarrow> True | WriteAll _ _ \<Rightarrow> True | WriteSome _ _ \<Rightarrow> True | Ioctl _ _ _ \<Rightarrow> True
   | SetLen _ _ \<Rightarrow> True | _ \<Rightarrow> False)"

abbreviation harmless :: "call \<Rightarrow> bool" where "harmless c \<equiv> \<not> destroys c"

lemma harmless_simps [simp]:
  "harmless (SpawnEnv e p a i)" "harmless (MountCall src tgt fs fl d)" "harmless (UmountCall p)"
  "harmless (ReadText p)" "harmless (WriteFile p t)" "harmless (Exists p)" "harmless (IsDir p)"
  "harmless (MakeDirs p)" "harmless (MakeDir p)" "harmless (ReadDir p)" "harmless (Lstat p)"
  "harmless (Stat p)" "harmless (Chown p u g)" "harmless (Chmod p m)"
  "harmless (Spawn CP_CMD a i)" "harmless (Spawn FR_CP_CMD a i)" "harmless (Spawn FR_SYNC_CMD a i)"
  by (simp_all add: destroys_def CP_CMD_def FR_CP_CMD_def FR_SYNC_CMD_def MKFS_EXT4_CMD_def TUNE2FS_CMD_def)

lemma harmless_unmount: "calls_only harmless (unmount_tracked os)"
  unfolding unmount_tracked_def by (intro calls_intros) simp

lemma harmless_quietly: "calls_only harmless (unmount_quietly os)"
  unfolding unmount_quietly_def by (intro calls_intros harmless_unmount)

lemma harmless_check: "calls_only harmless (check_filesystem_lenient os dev t)"
  unfolding check_filesystem_lenient_def check_filesystem_def check_filesystem_with_def run_fsck_def
    disable_kmsg_ratelimit_def enable_kmsg_ratelimit_def fsck_command_def
  by (intro calls_intros) simp_all

lemma harmless_record: "calls_only harmless (fsck_and_record os dev name t)"
proof -
  have "calls_only harmless (case r of
      Inr x \<Rightarrow> modify_ods (record_fsck_result name (fr_exit_code x) (fr_output x))
    | Inl (FsckRequiresReboot d c out) \<Rightarrow>
        bindE (modify_ods (record_fsck_result name c out)) (\<lambda>_. throw (FsckRequiresReboot d c out))
    | Inl e \<Rightarrow> throw e)" for r :: "filesystem_error + fsck_result"
    by (cases r; cases "projl r") (auto intro!: calls_intros)
  then show ?thesis unfolding fsck_and_record_def by (intro calls_only_caught harmless_check)
qed

lemma harmless_tracked: "calls_only harmless (mount_tracked_partition os l spec rootfs)"
  unfolding mount_tracked_partition_def Let_def by (intro calls_intros harmless_record) simp

lemma harmless_overlay: "calls_only harmless (mount_overlay os lower upper work tgt)"
  "calls_only harmless (bind_mount os source tgt)" "calls_only harmless (ensure_dir os p)"
  unfolding mount_overlay_def bind_mount_def ensure_dir_def mount_bind_def Let_def
  by (intro calls_intros; simp)+

lemma harmless_etc: "calls_only harmless (setup_etc_overlay_tracked os rootfs)"
  unfolding setup_etc_overlay_tracked_def ensure_overlay_dirs_def is_upper_dir_empty_def
    copy_directory_contents_def Let_def
  by (intro calls_intros harmless_overlay) simp_all

lemma harmless_data: "calls_only harmless (setup_data_overlay_tracked ft os rootfs)"
  unfolding setup_data_overlay_tracked_def setup_home_overlay_def ensure_overlay_dirs_def Let_def
  by (intro calls_intros harmless_overlay)

lemma harmless_mount: "calls_only harmless (factory_reset_mount ft os layout rootfs)"
  unfolding factory_reset_mount_def by (intro calls_intros harmless_tracked harmless_etc harmless_data)

lemma harmless_preserve: "calls_only harmless (build_preserve_list js os config rootfs)"
  unfolding build_preserve_list_def collect_key_def collect_application_paths_def collect_one_def
    read_key_config_def Let_def
  by (intro calls_intros) simp_all

lemma harmless_cp: "calls_only harmless (run_cp os args e)" "calls_only harmless (run_sync os)"
  unfolding run_cp_def run_sync_def by (intro calls_intros; simp)+

lemma harmless_backup: "calls_only harmless (backup_all os rootfs l dir)"
  unfolding backup_all_def backup_path_def Let_def by (intro calls_intros harmless_cp) simp_all

lemma harmless_prepare: "calls_only harmless (prepare_reset ft js os layout rootfs config)"
  unfolding prepare_reset_def
  by (intro calls_intros harmless_mount harmless_preserve harmless_backup harmless_unmount harmless_quietly)

section \<open>The backup comes first\<close>

definition backup_call :: "string \<Rightarrow> string \<Rightarrow> call" where
  "backup_call rootfs p = Spawn FR_CP_CMD [''--parents'', ''-a'', path_join rootfs (trim_start_slash p),
     FACTORY_RESET_BACKUP_DIR] []"

lemma brings_cp: "brings (\<lambda>r t. t = [(Spawn FR_CP_CMD args [], \<not> isl r)]) (run_cp os args e)"
  unfolding run_cp_def by (rule brings_checked)

text \<open>A path that is not copied was not there.\<close>

definition source_missing :: "string \<Rightarrow> string \<Rightarrow> (call \<times> bool) list \<Rightarrow> bool" where
  "source_missing rootfs p t \<longleftrightarrow> (Exists (path_join rootfs (trim_start_slash p)), False) \<in> set t"

lemma brings_backup_path:
  "brings (\<lambda>r t. (r = Inr True \<longrightarrow> (backup_call rootfs p, True) \<in> set t) \<and> (r = Inr False \<longrightarrow> source_missing rootfs p t))
     (backup_path os rootfs p FACTORY_RESET_BACKUP_DIR)"
proof -
  have synced: "brings (\<lambda>r t. r \<noteq> Inr False) (bindE (run_sync os) (\<lambda>_. ret True))"
    by (rule brings_bindE [OF brings_any [OF harmless_cp(2)], where R = "\<lambda>_ r t. r \<noteq> Inr False"])
       (simp_all add: brings_pure)
  have copy: "brings (\<lambda>r t. (r = Inr True \<longrightarrow> (backup_call rootfs p, True) \<in> set t) \<and> r \<noteq> Inr False)
      (bindE (run_cp os [''--parents'', ''-a'', path_join rootfs (trim_start_slash p), FACTORY_RESET_BACKUP_DIR] e)
        (\<lambda>_. bindE (run_sync os) (\<lambda>_. ret True)))" for e
    by (rule brings_bindE [OF brings_cp synced]) (simp_all add: backup_call_def)
  show ?thesis
    unfolding backup_path_def Let_def
    by (rule brings_bindE [OF brings_sys(5), where R = "\<lambda>there r t. if there
          then (r = Inr True \<longrightarrow> (backup_call rootfs p, True) \<in> set t) \<and> r \<noteq> Inr False else r = Inr False"])
       (auto intro!: brings_pure copy simp: source_missing_def split: if_splits)
qed

text \<open>The list that is returned: every path on it has been copied, and every other was missing.\<close>

definition backed_up_in :: "string \<Rightarrow> string list \<Rightarrow> string list \<Rightarrow> (call \<times> bool) list \<Rightarrow> bool" where
  "backed_up_in rootfs wanted l t \<longleftrightarrow> (\<forall>p \<in> set l. (backup_call rootfs p, True) \<in> set t)
     \<and> (\<forall>p \<in> set wanted. p \<in> set l \<or> source_missing rootfs p t)"

lemma brings_backup:
  "brings (\<lambda>r t. \<forall>l. r = Inr l \<longrightarrow> backed_up_in rootfs wanted l t)
     (backup_all os rootfs wanted FACTORY_RESET_BACKUP_DIR)"
proof -
  let ?step = "\<lambda>p l. bindE (backup_path os rootfs p FACTORY_RESET_BACKUP_DIR) (\<lambda>done. ret (if done then l @ [p] else l))"
  have step: "brings (\<lambda>r t. \<forall>b. r = Inr b \<longrightarrow> (\<forall>u. backed_up_in rootfs ys l u \<longrightarrow> backed_up_in rootfs (ys @ [p]) b (u @ t))) (?step p l)" for ys p l
    by (rule brings_bindE [OF brings_backup_path, where R = "\<lambda>d r t. t = [] \<and> r = Inr (if d then l @ [p] else l)"])
       (auto simp: backed_up_in_def source_missing_def brings_pure split: if_splits)
  have fold: "brings (\<lambda>r t. \<forall>l. r = Inr l \<longrightarrow> backed_up_in rootfs wanted l t) (fold_io ?step wanted [])"
    by (rule brings_fold_start [where I = "backed_up_in rootfs", OF step]) (simp add: backed_up_in_def)
  show ?thesis
    unfolding backup_all_def
    by (rule brings_bindE [OF brings_any [OF calls_only_map_err [OF calls_only_sys(1), where P = "\<lambda>_. True"]] fold])
       (auto simp: backed_up_in_def source_missing_def)
qed

text \<open>A preparation that succeeds has destroyed nothing, and has the backup of what it hands over.\<close>

definition prepared :: "string \<Rightarrow> initramfs_error + reformat_targets \<Rightarrow> (call \<times> bool) list \<Rightarrow> bool" where
  "prepared rootfs r t \<longleftrightarrow> (\<forall>c \<in> set t. harmless (fst c)) \<and> (\<forall>tg. r = Inr tg \<longrightarrow>
     tg_backup_dir tg = FACTORY_RESET_BACKUP_DIR \<and> backed_up_in rootfs (tg_preserve_list tg) (tg_backed_up tg) t)"

lemma backed_up_in_append: "backed_up_in rootfs w l u \<Longrightarrow> backed_up_in rootfs w l (t @ u)"
  "backed_up_in rootfs w l t \<Longrightarrow> backed_up_in rootfs w l (t @ u)"
  by (auto simp: backed_up_in_def source_missing_def)

lemma brings_prepare: "brings (prepared rootfs) (prepare_reset ft js os layout rootfs config)"
proof -
  let ?handed = "\<lambda>r t. \<forall>tg. r = Inr tg \<longrightarrow> tg_backup_dir tg = FACTORY_RESET_BACKUP_DIR
    \<and> backed_up_in rootfs (tg_preserve_list tg) (tg_backed_up tg) t"
  let ?rest = "\<lambda>preserved backed. bindE (map_err Filesystem (unmount_tracked os)) (\<lambda>_.
     bindE (lift_res (or_mount_error ''data'' (layout_get layout Data))) (\<lambda>data_dev.
     bindE (lift_res (or_mount_error ''etc'' (layout_get layout Etc))) (\<lambda>etc_dev.
     ret \<lparr>tg_data_dev = data_dev, tg_etc_dev = etc_dev, tg_preserve_list = preserved,
          tg_backed_up = backed, tg_backup_dir = FACTORY_RESET_BACKUP_DIR\<rparr>)))"
  have rest: "brings (\<lambda>r t. \<forall>tg. r = Inr tg \<longrightarrow> tg_backup_dir tg = FACTORY_RESET_BACKUP_DIR
      \<and> tg_backed_up tg = backed \<and> tg_preserve_list tg = preserved) (?rest preserved backed)" for preserved backed
  proof (rule bringsI)
    fix s r s'
    assume run: "?rest preserved backed s = (r, s')"
    have "calls_only harmless (?rest preserved backed)" by (intro calls_intros harmless_unmount)
    from calls_only_split [OF this run] run
    show "\<exists>t. trace s' = trace s @ t \<and> (\<forall>tg. r = Inr tg \<longrightarrow> tg_backup_dir tg = FACTORY_RESET_BACKUP_DIR
      \<and> tg_backed_up tg = backed \<and> tg_preserve_list tg = preserved)"
      by (auto simp: bindE_eq_Inr)
  qed
  have backup: "brings (\<lambda>r t. \<forall>l. r = Inr l \<longrightarrow> backed_up_in rootfs preserved l t)
      (on_err (backup_all os rootfs preserved FACTORY_RESET_BACKUP_DIR) (unmount_quietly os))" for preserved
    by (rule brings_on_err [OF brings_backup harmless_quietly]) auto
  have after_list: "brings ?handed (bindE (on_err (backup_all os rootfs preserved FACTORY_RESET_BACKUP_DIR)
      (unmount_quietly os)) (?rest preserved))" for preserved
    by (rule brings_bindE [OF backup rest]) (auto simp: backed_up_in_append)
  have after_mount: "brings ?handed (bindE (on_err (build_preserve_list js os config rootfs) (unmount_quietly os))
      (\<lambda>preserved. bindE (on_err (backup_all os rootfs preserved FACTORY_RESET_BACKUP_DIR)
      (unmount_quietly os)) (?rest preserved)))"
    by (rule brings_bindE [OF brings_any [OF calls_only_on_err [OF harmless_preserve harmless_quietly]] after_list])
       (auto simp: backed_up_in_append)
  have all: "brings ?handed (bindE (on_err (factory_reset_mount ft os layout rootfs) (unmount_quietly os))
      (\<lambda>_. bindE (on_err (build_preserve_list js os config rootfs) (unmount_quietly os))
      (\<lambda>preserved. bindE (on_err (backup_all os rootfs preserved FACTORY_RESET_BACKUP_DIR)
      (unmount_quietly os)) (?rest preserved))))"
    by (rule brings_bindE [OF brings_any [OF calls_only_on_err [OF harmless_mount harmless_quietly]] after_mount])
       (auto simp: backed_up_in_append)
  have "brings ?handed (prepare_reset ft js os layout rootfs config)"
    unfolding prepare_reset_def
    by (rule brings_bindE [OF brings_any [OF calls_only_prog(2) [where P = "\<lambda>_. True"]] all])
       (auto simp: backed_up_in_append)
  from brings_conj [OF brings_calls [OF harmless_prepare] this] show ?thesis
    by (rule brings_mono) (auto simp: prepared_def)
qed

section \<open>Success means that everything was done\<close>

definition mkfs_call :: "string \<Rightarrow> call" where
  "mkfs_call dev = Spawn MKFS_EXT4_CMD [''-F'', ''-q'', dev] []"

lemma brings_reformat:
  "brings (\<lambda>r t. \<not> isl r \<longrightarrow> (mkfs_call dev, True) \<in> set t \<and> oks destroys t) (reformat_ext4 os dev label)"
  unfolding reformat_ext4_def format_command_def
  by (rule brings_bindE [OF brings_checked brings_checked]) (auto simp: mkfs_call_def)

lemma all_ok_overwrite: "all_ok P (overwrite_loop os device len interval written next_step)"
proof (induction os device len interval written next_step rule: overwrite_loop.induct)
  case (1 os device len interval written next_step)
  show ?case
    by (subst overwrite_loop.simps) (intro ok_intros "1.IH"; assumption)
qed

lemma brings_opened:
  assumes "all_ok P rest"
  shows "brings (\<lambda>r t. \<not> isl r \<longrightarrow> (OpenWriteExcl dev, True) \<in> set t \<and> oks P t)
    (bindE (open_device os dev) (\<lambda>_. rest))"
proof -
  have "brings (\<lambda>r t. t = [(OpenWriteExcl dev, \<not> isl r)]) (open_device os dev)"
    unfolding open_device_def by (rule brings_map_err [OF brings_sys(1)]) simp_all
  from brings_bindE [OF this assms [unfolded all_ok_def]] show ?thesis by auto
qed

lemma brings_wipe:
  assumes "wipe = wipe_random os \<or> wipe = wipe_discard os"
  shows "brings (\<lambda>r t. \<not> isl r \<longrightarrow> (OpenWriteExcl dev, True) \<in> set t \<and> oks P t) (wipe dev)"
proof -
  have "brings (\<lambda>r t. \<not> isl r \<longrightarrow> (OpenWriteExcl dev, True) \<in> set t \<and> oks P t) (wipe_random os dev)"
    unfolding wipe_random_def device_size_def overwrite_with_random_def
    by (intro brings_opened ok_intros all_ok_overwrite)
  moreover have "brings (\<lambda>r t. \<not> isl r \<longrightarrow> (OpenWriteExcl dev, True) \<in> set t \<and> oks P t) (wipe_discard os dev)"
    unfolding wipe_discard_def device_size_def by (intro brings_opened ok_intros)
  ultimately show ?thesis using assms by auto
qed

text \<open>No wipe note: a mode that wipes has wiped both devices, and no call of it failed.\<close>

definition wiped :: "reset_mode \<Rightarrow> string \<Rightarrow> string \<Rightarrow> (call \<times> bool) list \<Rightarrow> bool" where
  "wiped mode data etc t \<longleftrightarrow> (mode \<noteq> ResetMode1 \<longrightarrow> (\<forall>dev \<in> {data, etc}. (OpenWriteExcl dev, True) \<in> set t))"

lemma brings_wipe_one:
  assumes "wipe = wipe_random os \<or> wipe = wipe_discard os"
  shows "brings (\<lambda>r t. \<forall>b. r = Inr b \<longrightarrow> (\<forall>u.
      (a = [] \<longrightarrow> (\<forall>d \<in> set ys. (OpenWriteExcl (snd d), True) \<in> set u) \<and> oks destroys u) \<longrightarrow>
      b = [] \<longrightarrow> (\<forall>d \<in> set (ys @ [x]). (OpenWriteExcl (snd d), True) \<in> set (u @ t)) \<and> oks destroys (u @ t)))
    (wipe_one wipe x a)"
  unfolding wipe_one_def
  by (rule brings_caught [OF brings_wipe [OF assms, of "snd x" destroys],
        where R = "\<lambda>q r t. t = [] \<and> (\<forall>b. r = Inr b \<longrightarrow> b = [] \<longrightarrow> a = [] \<and> \<not> isl q)"])
     (auto split: sum.split intro!: brings_pure)

lemma brings_wipe_partitions:
  "brings (\<lambda>r t. r = Inr None \<longrightarrow> wiped mode data etc t \<and> oks destroys t)
     (wipe_partitions mode data etc (real_wipe_ops os))"
proof -
  let ?I = "\<lambda>ys a t. a = [] \<longrightarrow> (\<forall>d \<in> set ys. (OpenWriteExcl (snd d), True) \<in> set t) \<and> oks destroys t"
  have run: "brings (\<lambda>r t. r = Inr None \<longrightarrow> (\<forall>dev \<in> {data, etc}. (OpenWriteExcl dev, True) \<in> set t) \<and> oks destroys t)
      (bindE (fold_io (wipe_one wipe) [(Etc, etc), (Data, data)] [])
        (\<lambda>notes. ret (if notes \<noteq> [] then Some (join_with CONTEXT_SEPARATOR notes) else None)))"
    if "wipe = wipe_random os \<or> wipe = wipe_discard os" for wipe
    by (rule brings_bindE [OF brings_fold_start [where I = ?I, OF brings_wipe_one [OF that]],
          where R = "\<lambda>notes r t. t = [] \<and> (r = Inr None \<longrightarrow> notes = [])"])
       (auto intro!: brings_pure)
  show ?thesis
    unfolding wipe_partitions_def Let_def real_wipe_ops_def
    by (cases mode)
       (auto simp: wiped_def simp del: fold_io.simps intro!: brings_pure brings_mono [OF run])
qed

definition restored :: "string \<Rightarrow> string \<Rightarrow> (call \<times> bool) list \<Rightarrow> bool" where
  "restored rootfs p t \<longleftrightarrow> (let src = backup_source rootfs p FACTORY_RESET_BACKUP_DIR in
     (\<exists>dest. (Spawn FR_CP_CMD [''-a'', src, dest] [], True) \<in> set t) \<or> (Exists src, False) \<in> set t)"

lemma harmless_parents: "calls_only harmless (create_parent_dirs os rootfs d b)"
proof -
  have "calls_only harmless (missing_ancestors os rootfs dirs acc)" for dirs acc
  proof (induction os rootfs dirs acc rule: missing_ancestors.induct)
    case (2 os rootfs dir dirs acc)
    then show ?case unfolding missing_ancestors.simps by (intro calls_intros) simp_all
  qed (simp only: missing_ancestors.simps calls_only_pure)
  then show ?thesis
    unfolding create_parent_dirs_def recreate_dir_def by (intro calls_intros) simp_all
qed

lemma harmless_restore: "calls_only harmless (restore_path os rootfs p dir)"
  unfolding restore_path_def Let_def by (intro calls_intros harmless_cp harmless_parents) simp_all

lemma brings_restore_path:
  "brings (\<lambda>r t. \<not> isl r \<longrightarrow> restored rootfs p t) (restore_path os rootfs p FACTORY_RESET_BACKUP_DIR)"
proof -
  let ?src = "backup_source rootfs p FACTORY_RESET_BACKUP_DIR"
  have copy: "brings (\<lambda>r t. \<not> isl r \<longrightarrow> (Spawn FR_CP_CMD [''-a'', ?src, d] [], True) \<in> set t)
      (bindE (run_cp os [''-a'', ?src, d] e) (\<lambda>_. run_sync os))" for d e
    by (rule brings_bindE [OF brings_cp brings_any [OF harmless_cp(2)]]) simp_all
  have "brings (\<lambda>r t. \<not> isl r \<longrightarrow> (Spawn FR_CP_CMD [''-a'', ?src, d] [], True) \<in> set t)
      (bindE (map_err g (create_parent_dirs os rootfs d b)) (\<lambda>_. bindE (run_cp os [''-a'', ?src, d] e) (\<lambda>_. run_sync os)))"
    for d e g b
    by (rule brings_bindE [OF brings_any [OF calls_only_map_err [OF harmless_parents]] copy]) auto
  then have present: "brings (\<lambda>r t. \<not> isl r \<longrightarrow> restored rootfs p t)
      (bindE (map_err g (create_parent_dirs os rootfs d b)) (\<lambda>_. bindE (run_cp os [''-a'', ?src, d] e) (\<lambda>_. run_sync os)))"
    for d e g b
    by (rule brings_mono) (auto simp: restored_def Let_def)
  show ?thesis
    unfolding restore_path_def Let_def
    by (rule brings_bindE [OF brings_sys(5), where R = "\<lambda>there r t. (there \<longrightarrow> \<not> isl r \<longrightarrow> restored rootfs p t) \<and> (\<not> there \<longrightarrow> t = [])"])
       (auto simp: restored_def Let_def intro!: brings_pure brings_mono [OF present])
qed

lemma restored_append: "restored rootfs p t \<Longrightarrow> restored rootfs p (c # t)" "restored rootfs p u \<Longrightarrow> restored rootfs p (u @ t)" "restored rootfs p t \<Longrightarrow> restored rootfs p (u @ t)"
  by (auto simp: restored_def Let_def)

lemma brings_restore_one:
  "brings (\<lambda>r t. \<forall>b. r = Inr b \<longrightarrow> (\<forall>u. (snd a = None \<longrightarrow> (\<forall>q \<in> set ys. restored rootfs q u)) \<longrightarrow>
      snd b = None \<longrightarrow> (\<forall>q \<in> set (ys @ [p]). restored rootfs q (u @ t))))
    (restore_one os rootfs FACTORY_RESET_BACKUP_DIR p a)"
proof -
  let ?q = "\<lambda>r t. \<forall>b. r = Inr b \<longrightarrow> snd b = None \<longrightarrow> snd a = None \<and> restored rootfs p t"
  have there: "brings ?q (caught (restore_path os rootfs p FACTORY_RESET_BACKUP_DIR) (\<lambda>r. case r of
      Inr _ \<Rightarrow> ret a | Inl e \<Rightarrow> ret (fst a @ [trim_start_slash p @ '':restore''], Some (show_initramfs_error e))))"
    by (rule brings_caught [OF brings_restore_path, where R = "\<lambda>q r t. t = [] \<and> (\<forall>b. r = Inr b \<longrightarrow> snd b = None \<longrightarrow> snd a = None \<and> \<not> isl q)"])
       (auto split: sum.split intro!: brings_pure)
  have "brings ?q (if \<not> x then ret (fst a @ [trim_start_slash p @ '':missing-backup''], Some (''backup missing for '' @ p))
      else caught (restore_path os rootfs p FACTORY_RESET_BACKUP_DIR) (\<lambda>r. case r of
        Inr _ \<Rightarrow> ret a | Inl e \<Rightarrow> ret (fst a @ [trim_start_slash p @ '':restore''], Some (show_initramfs_error e))))" for x
    by (cases x) (simp_all only: simp_thms if_True if_False there, rule brings_pure, simp)
  then have "brings ?q (restore_one os rootfs FACTORY_RESET_BACKUP_DIR p a)"
    unfolding restore_one_def
    by (rule brings_bindE [OF brings_sys(5)]) (simp_all add: restored_append)
  then show ?thesis by (rule brings_mono) (auto simp: restored_append)
qed

lemma brings_restore_all:
  "brings (\<lambda>r t. (\<forall>c \<in> set t. harmless (fst c)) \<and> (r = Inr RestoreSuccess \<longrightarrow> (\<forall>p \<in> set l. restored rootfs p t)))
     (restore_all os rootfs l FACTORY_RESET_BACKUP_DIR)"
proof -
  have "calls_only harmless (restore_all os rootfs l FACTORY_RESET_BACKUP_DIR)"
    unfolding restore_all_def restore_one_def by (intro calls_intros harmless_restore) simp_all
  moreover have "brings (\<lambda>r t. r = Inr RestoreSuccess \<longrightarrow> (\<forall>p \<in> set l. restored rootfs p t))
      (restore_all os rootfs l FACTORY_RESET_BACKUP_DIR)"
    unfolding restore_all_def
    by (rule brings_bindE [OF brings_fold_start [where I = "\<lambda>ys a t. snd a = None \<longrightarrow> (\<forall>p \<in> set ys. restored rootfs p t)",
          OF brings_restore_one], where R = "\<lambda>a r t. t = [] \<and> (r = Inr RestoreSuccess \<longrightarrow> snd a = None)"])
       (auto intro!: brings_pure split: option.split_asm)
  ultimately show ?thesis by (intro brings_conj brings_calls)
qed

section \<open>The destructive phase\<close>

definition formatted :: "string \<Rightarrow> (call \<times> bool) list \<Rightarrow> bool" where
  "formatted dev t \<longleftrightarrow> (mkfs_call dev, True) \<in> set t"

lemma brings_reformat_one:
  "brings (\<lambda>r t. \<forall>b. r = Inr b \<longrightarrow> (\<forall>u.
      (fst a = [] \<longrightarrow> snd a = [] \<and> (\<forall>d \<in> set ys. formatted (fst (snd d)) u) \<and> oks destroys u) \<longrightarrow>
      fst b = [] \<longrightarrow> snd b = [] \<and> (\<forall>d \<in> set (ys @ [x]). formatted (fst (snd d)) (u @ t)) \<and> oks destroys (u @ t)))
    (reformat_one (real_reformat_ops ft os layout rootfs) x a)"
proof -
  let ?attempt = "\<lambda>dev label. map_err (reformat_failed_error dev) (reformat_ext4 os dev label)"
  have once: "brings (\<lambda>r t. \<not> isl r \<longrightarrow> formatted dev t \<and> oks destroys t) (?attempt dev label)" for dev label
    by (rule brings_map_err [OF brings_reformat]) (simp_all add: formatted_def)
  have again: "brings (\<lambda>r t. \<forall>b. r = Inr b \<longrightarrow> fst b \<noteq> [])
      (caught (?attempt dev label) (\<lambda>second. case second of
        Inr _ \<Rightarrow> ret (fst a @ [part], snd a) | Inl _ \<Rightarrow> ret (fst a @ [part], snd a @ [part])))" for dev label part
    by (rule brings_caught [OF once, where R = "\<lambda>_ r t. \<forall>b. r = Inr b \<longrightarrow> fst b \<noteq> []"])
       (auto split: sum.split intro!: brings_pure)
  obtain part dev label where x: "x = (part, dev, label)" by (cases x)
  have "brings (\<lambda>r t. \<forall>b. r = Inr b \<longrightarrow> fst b = [] \<longrightarrow> b = a \<and> formatted dev t \<and> oks destroys t)
      (reformat_one (real_reformat_ops ft os layout rootfs) x a)"
    unfolding reformat_one_def x real_reformat_ops_def reformat_ops.simps prod.case
    by (rule brings_caught [OF once, where R = "\<lambda>q r t. \<forall>b. r = Inr b \<longrightarrow> fst b = [] \<longrightarrow> \<not> isl q \<and> b = a \<and> t = []"])
       (fastforce split: sum.split intro!: brings_pure brings_mono [OF again])+
  then show ?thesis by (rule brings_mono) (auto simp: x formatted_def)
qed

lemma brings_retry:
  "brings (\<lambda>r t. \<forall>rep. r = Inr rep \<longrightarrow> report_retried rep = [] \<longrightarrow>
      report_reformat_failed rep = [] \<and> formatted data_dev t \<and> formatted etc_dev t \<and> oks destroys t)
    (reformat_and_mount_with_retry rootfs data_dev etc_dev (real_reformat_ops ft os layout rootfs))"
proof -
  let ?done = "\<lambda>(retried, failed) t. retried = [] \<longrightarrow> failed = [] \<and> formatted data_dev t \<and> formatted etc_dev t \<and> oks destroys t"
  have fold: "brings (\<lambda>r t. \<forall>b. r = Inr b \<longrightarrow> ?done b t)
      (fold_io (reformat_one (real_reformat_ops ft os layout rootfs))
        [(Data, data_dev, DATA_PARTITION_LABEL), (Etc, etc_dev, ETC_PARTITION_LABEL)] ([], []))"
    by (rule brings_mono [OF brings_fold_start [where I = "\<lambda>ys a t. fst a = [] \<longrightarrow> snd a = [] \<and>
          (\<forall>d \<in> set ys. formatted (fst (snd d)) t) \<and> oks destroys t", OF brings_reformat_one]]) auto
  have all: "calls_only harmless (op_mount_all (real_reformat_ops ft os layout rootfs))"
    unfolding real_reformat_ops_def by (simp add: calls_only_on_err harmless_mount harmless_quietly)
  have mount: "brings (\<lambda>r t. (\<forall>c \<in> set t. harmless (fst c)) \<and> (\<forall>rep. r = Inr rep \<longrightarrow>
      report_retried rep = fst b \<and> report_reformat_failed rep = snd b))
    (case b of (retried, failed) \<Rightarrow> caught (op_mount_all (real_reformat_ops ft os layout rootfs)) (\<lambda>r. case r of
         Inr _ \<Rightarrow> ret \<lparr>report_retried = retried, report_reformat_failed = failed, report_exhausted = None\<rparr>
       | Inl e \<Rightarrow> (case resolve_failed_partition e rootfs data_dev etc_dev of
             Some part \<Rightarrow> ret \<lparr>report_retried = retried, report_reformat_failed = failed,
               report_exhausted = Some \<lparr>signal_partition = part, signal_reason = show_initramfs_error e\<rparr>\<rparr>
           | None \<Rightarrow> throw e)))" for b
    unfolding prod.case_eq_if
    by (rule brings_caught [OF brings_calls [OF all], where R = "\<lambda>_ r t. t = [] \<and> (\<forall>rep. r = Inr rep \<longrightarrow>
          report_retried rep = fst b \<and> report_reformat_failed rep = snd b)"])
       (auto split: sum.split option.split intro!: brings_pure)
  show ?thesis
    unfolding reformat_and_mount_with_retry_def
    by (rule brings_bindE [OF fold mount]) (auto simp: formatted_def)
qed

text \<open>What the status of a destructive phase says of the calls made.\<close>

definition reported :: "string \<Rightarrow> reformat_targets \<Rightarrow> reset_outcome \<Rightarrow> (call \<times> bool) list \<Rightarrow> bool" where
  "reported rootfs tg out t \<longleftrightarrow> data_wiped (fst out) \<and> reset_paths (fst out) = tg_preserve_list tg
     \<and> reset_status (fst out) \<in> {Success, Warning, ResetError}
     \<and> (reset_status (fst out) \<noteq> ResetError \<longrightarrow> snd out = None \<and> reset_error (fst out) = None
          \<and> (\<forall>p \<in> set (tg_backed_up tg). restored rootfs p t))
     \<and> (reset_status (fst out) = Success \<longrightarrow> reset_context (fst out) = None)"

definition honest :: "string \<Rightarrow> reformat_targets \<Rightarrow> reset_outcome \<Rightarrow> (call \<times> bool) list \<Rightarrow> bool" where
  "honest rootfs tg out t \<longleftrightarrow> reported rootfs tg out t \<and> (reset_status (fst out) = Success \<longrightarrow>
     formatted (tg_data_dev tg) t \<and> formatted (tg_etc_dev tg) t \<and> oks destroys t)"

lemma reported_append: "reported rootfs tg out u \<Longrightarrow> reported rootfs tg out (t @ u)"
  "reported rootfs tg out t \<Longrightarrow> reported rootfs tg out (t @ u)"
  by (auto simp: reported_def restored_append)

lemma reported_error:
  "data_wiped st \<Longrightarrow> reset_paths st = tg_preserve_list tg \<Longrightarrow> reset_status st = ResetError \<Longrightarrow> reported rootfs tg (st, sig) t"
  by (simp add: reported_def)

lemma restored_status_cases:
  "reset_status (restored_status retried failed result l) \<noteq> ResetError \<longleftrightarrow> result = RestoreSuccess \<and> failed = []"
  "reset_status (restored_status retried failed result l) = Success \<longleftrightarrow> result = RestoreSuccess \<and> failed = [] \<and> retried = []"
  "reset_status (restored_status retried failed result l) \<in> {Success, Warning, ResetError}"
  "data_wiped (restored_status retried failed result l)" "reset_paths (restored_status retried failed result l) = l"
  "failed = [] \<Longrightarrow> reset_error (restored_status retried failed RestoreSuccess l) = None"
  "reset_context (restored_status [] failed RestoreSuccess l) = None"
  by (cases result; simp add: restored_status_def retry_note_def Let_def)+

lemma brings_destructive:
  assumes "tg_backup_dir tg = FACTORY_RESET_BACKUP_DIR"
  shows "brings (\<lambda>r t. \<forall>out. r = Inr out \<longrightarrow> honest rootfs tg out t) (run_destructive_phase ft os layout rootfs tg)"
proof -
  define rest where "rest (report :: retry_report) = (case report_exhausted report of
       Some signal \<Rightarrow> bindE (ignore (unmount_tracked os)) (\<lambda>_.
         ret (exhausted_outcome signal (report_retried report) (tg_preserve_list tg)))
     | None \<Rightarrow>
         bindE (on_err (restore_all os rootfs (tg_backed_up tg) (tg_backup_dir tg)) (unmount_quietly os)) (\<lambda>result.
         bindE (map_err Filesystem (unmount_tracked os)) (\<lambda>_.
         ret (restored_status (report_retried report) (report_reformat_failed report) result
                (tg_preserve_list tg), None))))" for report
  have restore: "brings (\<lambda>r t. (\<forall>c \<in> set t. harmless (fst c)) \<and> (r = Inr RestoreSuccess \<longrightarrow> (\<forall>p \<in> set (tg_backed_up tg). restored rootfs p t)))
      (on_err (restore_all os rootfs (tg_backed_up tg) (tg_backup_dir tg)) (unmount_quietly os))"
    unfolding assms by (rule brings_on_err [OF brings_restore_all harmless_quietly]) auto
  have finish: "brings (\<lambda>r t. (\<forall>c \<in> set t. harmless (fst c)) \<and> (\<forall>out. r = Inr out \<longrightarrow> out = x))
      (bindE (map_err Filesystem (unmount_tracked os)) (\<lambda>_. ret x))" for x :: reset_outcome
    by (rule brings_bindE [OF brings_calls [OF calls_only_map_err [OF harmless_unmount]],
          where R = "\<lambda>_ r t. t = [] \<and> r = Inr x"]) (auto intro!: brings_pure)
  have reports: "reported rootfs tg (restored_status retried failed result (tg_preserve_list tg), None) t
      \<and> (reset_status (restored_status retried failed result (tg_preserve_list tg)) = Success \<longrightarrow> retried = [])"
    if "result = RestoreSuccess \<longrightarrow> (\<forall>p \<in> set (tg_backed_up tg). restored rootfs p t)" for retried failed result t
    using that restored_status_cases(3) [of retried failed result "tg_preserve_list tg"]
    by (auto simp: reported_def restored_status_cases)
  let ?says = "\<lambda>report r t. (\<forall>c \<in> set t. harmless (fst c)) \<and> (\<forall>out. r = Inr out \<longrightarrow> reported rootfs tg out t
      \<and> (reset_status (fst out) = Success \<longrightarrow> report_retried report = []))"
  have rest: "brings (?says report) (rest report)" for report
  proof (cases "report_exhausted report")
    case None
    show ?thesis unfolding rest_def None option.case
      by (rule brings_bindE [OF restore finish]) (auto simp: restored_append reports restored_status_cases)
  next
    case (Some signal)
    have "brings (?says report) (bindE (ignore (unmount_tracked os)) (\<lambda>_.
         ret (exhausted_outcome signal (report_retried report) (tg_preserve_list tg))))"
      by (rule brings_bindE [OF brings_calls [OF calls_only_ignore [OF harmless_unmount]],
            where R = "\<lambda>_ r t. t = [] \<and> r = Inr (exhausted_outcome signal (report_retried report) (tg_preserve_list tg))"])
         (auto intro!: brings_pure reported_error simp: exhausted_outcome_def exhausted_status_def)
    then show ?thesis by (simp add: rest_def Some)
  qed
  show ?thesis
    unfolding run_destructive_phase_def rest_def [symmetric]
    by (rule brings_bindE [OF brings_retry rest])
       (auto simp: honest_def reported_append formatted_def)
qed

lemma brings_rebuild:
  assumes "tg_backup_dir tg = FACTORY_RESET_BACKUP_DIR"
  shows "brings (\<lambda>r t. \<exists>out. r = Inr out \<and> honest rootfs tg out t) (rebuild ft os layout rootfs tg)"
  unfolding rebuild_def
  by (rule brings_caught [OF brings_destructive [OF assms], where R = "\<lambda>q r t. t = [] \<and> r = (case q of
        Inr out \<Rightarrow> Inr out | Inl e \<Rightarrow> Inr (destructive_phase_failure_status e (tg_preserve_list tg), None))"])
     (auto split: sum.splits intro!: brings_pure reported_error simp: honest_def destructive_phase_failure_status_def)

definition honest_reset :: "reset_mode \<Rightarrow> string \<Rightarrow> reformat_targets \<Rightarrow> reset_outcome \<Rightarrow> (call \<times> bool) list \<Rightarrow> bool" where
  "honest_reset mode rootfs tg out t \<longleftrightarrow> honest rootfs tg out t
     \<and> (reset_status (fst out) \<noteq> ResetError \<longrightarrow> wiped mode (tg_data_dev tg) (tg_etc_dev tg) t)"

lemma never_fails_wipe: "never_fails (wipe_partitions mode data etc ops)"
  unfolding wipe_partitions_def wipe_one_def Let_def fold_io.simps
  by (cases mode) (auto intro!: total_intros)

lemma brings_wipe_and_rebuild:
  assumes "tg_backup_dir tg = FACTORY_RESET_BACKUP_DIR"
  shows "brings (\<lambda>r t. \<exists>out. r = Inr out \<and> honest_reset mode rootfs tg out t)
    (wipe_and_rebuild mode (tg_data_dev tg) (tg_etc_dev tg) (real_wipe_ops os) (rebuild ft os layout rootfs tg))"
proof -
  have noted: "brings (\<lambda>r t. \<exists>st sig. r = Inr (apply_wipe_note st n, sig) \<and> honest rootfs tg (st, sig) t)
      (bindE (rebuild ft os layout rootfs tg) (\<lambda>(status, signal). ret (apply_wipe_note status n, signal)))" for n
    by (rule brings_bindE [OF brings_rebuild [OF assms], where R = "\<lambda>x r t. t = [] \<and> r = Inr (apply_wipe_note (fst x) n, snd x)"])
       (auto intro!: brings_pure split: prod.split)
  have never: "brings (\<lambda>r t. \<exists>n. r = Inr n \<and> (n = None \<longrightarrow> wiped mode (tg_data_dev tg) (tg_etc_dev tg) t \<and> oks destroys t))
      (wipe_partitions mode (tg_data_dev tg) (tg_etc_dev tg) (real_wipe_ops os))"
  proof (rule bringsI)
    let ?w = "wipe_partitions mode (tg_data_dev tg) (tg_etc_dev tg) (real_wipe_ops os)"
    fix s r s'
    assume run: "?w s = (r, s')"
    from never_failsD [OF never_fails_wipe run] obtain n where "r = Inr n" by blast
    then show "\<exists>t. trace s' = trace s @ t \<and> (\<exists>n. r = Inr n \<and> (n = None \<longrightarrow> wiped mode (tg_data_dev tg) (tg_etc_dev tg) t \<and> oks destroys t))"
      using bringsD [OF brings_wipe_partitions run] by auto
  qed
  show ?thesis
    unfolding wipe_and_rebuild_def
  proof (rule brings_bindE [OF never noted])
    fix n t q u
    assume t: "\<exists>m. Inr n = Inr m \<and> (m = None \<longrightarrow> wiped mode (tg_data_dev tg) (tg_etc_dev tg) t \<and> oks destroys t)"
      and "\<exists>st sig. q = Inr (apply_wipe_note st n, sig) \<and> honest rootfs tg (st, sig) u"
    then obtain st sig where q: "q = Inr (apply_wipe_note st n, sig)" and h: "honest rootfs tg (st, sig) u" by blast
    show "\<exists>out. q = Inr out \<and> honest_reset mode rootfs tg out (t @ u)"
    proof (cases n)
      case None
      then show ?thesis using q t h
        by (auto simp: honest_reset_def honest_def apply_wipe_note_def reported_append formatted_def wiped_def)
    next
      case (Some text_of_note)
      then have "reset_status (apply_wipe_note st n) = ResetError" "data_wiped (apply_wipe_note st n)"
        "reset_paths (apply_wipe_note st n) = tg_preserve_list tg"
        using h by (simp_all add: apply_wipe_note_def honest_def reported_def)
      then show ?thesis using q by (auto simp: honest_reset_def honest_def intro!: reported_error)
    qed
  qed auto
qed

section \<open>The whole reset\<close>

lemma prepare_targets:
  assumes "prepare_reset ft js os layout rootfs config s = (Inr tg, s1)"
  shows "layout_get layout Data = Some (tg_data_dev tg)" and "layout_get layout Etc = Some (tg_etc_dev tg)"
  using assms by (auto simp: prepare_reset_def or_mount_error_def elim!: bindE_InrE split: option.splits)

lemma run_reset_split:
  assumes run: "run_reset ft js os layout rootfs config s = (r, s')"
  obtains u v where "trace s' = trace s @ u @ v" and "\<forall>c \<in> set u. \<not> destroys (fst c)" and "case r of
       Inl e \<Rightarrow> v = []
     | Inr out \<Rightarrow> \<exists>tg s1. prepare_reset ft js os layout rootfs config s = (Inr tg, s1) \<and> trace s1 = trace s @ u
         \<and> backed_up_in rootfs (tg_preserve_list tg) (tg_backed_up tg) u
         \<and> honest_reset (reset_mode_field config) rootfs tg out v"
proof -
  let ?later = "\<lambda>tg. wipe_and_rebuild (reset_mode_field config) (tg_data_dev tg) (tg_etc_dev tg) (real_wipe_ops os)
       (rebuild ft os layout rootfs tg)"
  obtain q s1 where q: "prepare_reset ft js os layout rootfs config s = (q, s1)" by fastforce
  obtain u where u: "trace s1 = trace s @ u" "prepared rootfs q u" using bringsD [OF brings_prepare q] by blast
  then have harmless: "\<forall>c \<in> set u. \<not> destroys (fst c)" by (auto simp: prepared_def)
  show thesis
  proof (cases q)
    case (Inl e)
    then have "r = Inl e" "s' = s1" using run q by (simp_all add: run_reset_def bindE_def)
    then show thesis using u harmless by (intro that [of u "[]"]) simp_all
  next
    case (Inr tg)
    then have later: "?later tg s1 = (r, s')" using run q by (simp add: run_reset_def bindE_def)
    have dir: "tg_backup_dir tg = FACTORY_RESET_BACKUP_DIR" using u Inr by (simp add: prepared_def)
    obtain v out where "trace s' = trace s1 @ v" "r = Inr out" "honest_reset (reset_mode_field config) rootfs tg out v"
      using bringsD [OF brings_wipe_and_rebuild [OF dir] later] by blast
    then show thesis using u harmless q Inr by (intro that [of u v]) (auto simp: prepared_def)
  qed
qed

text \<open>
  C2: A factory reset that is given up has destroyed nothing. When the reset returns an error, no
  partition was formatted, opened for writing or discarded. When it returns a status, everything that
  destroys comes after the preparation of this run, which has read the list of the paths to preserve and made a complete backup:
  the status names the paths of that list, every one that existed had been copied before, and unless the status is
  an error each of these was restored.
\<close>

theorem reset_backup_first:
  assumes "run_reset ft js os layout rootfs config s = (r, s')"
  shows "\<exists>before after. trace s' = trace s @ before @ after \<and> (\<forall>c \<in> set before. \<not> destroys (fst c)) \<and> (case r of
      Inl e \<Rightarrow> after = []
    | Inr out \<Rightarrow> \<exists>tg s1. prepare_reset ft js os layout rootfs config s = (Inr tg, s1) \<and> trace s1 = trace s @ before
        \<and> data_wiped (fst out) \<and> reset_paths (fst out) = tg_preserve_list tg
        \<and> (\<forall>p \<in> set (tg_preserve_list tg). source_missing rootfs p before
            \<or> (backup_call rootfs p, True) \<in> set before
               \<and> (reset_status (fst out) \<noteq> ResetError \<longrightarrow> restored rootfs p after)))"
proof (rule run_reset_split [OF assms])
  fix u v
  assume uv: "trace s' = trace s @ u @ v" "\<forall>c \<in> set u. \<not> destroys (fst c)"
    and r: "case r of Inl e \<Rightarrow> v = [] | Inr out \<Rightarrow> \<exists>tg s1. prepare_reset ft js os layout rootfs config s = (Inr tg, s1)
      \<and> trace s1 = trace s @ u \<and> backed_up_in rootfs (tg_preserve_list tg) (tg_backed_up tg) u
      \<and> honest_reset (reset_mode_field config) rootfs tg out v"
  show ?thesis
  proof (cases r)
    case (Inl e)
    then show ?thesis using uv r by auto
  next
    case (Inr out)
    then obtain tg s1 where tg: "prepare_reset ft js os layout rootfs config s = (Inr tg, s1)" "trace s1 = trace s @ u"
        and b: "backed_up_in rootfs (tg_preserve_list tg) (tg_backed_up tg) u" and rep: "reported rootfs tg out v"
      using r by (auto simp: honest_reset_def honest_def)
    have "\<forall>p \<in> set (tg_preserve_list tg). source_missing rootfs p u
        \<or> (backup_call rootfs p, True) \<in> set u \<and> (reset_status (fst out) \<noteq> ResetError \<longrightarrow> restored rootfs p v)"
      using b rep unfolding backed_up_in_def reported_def by (metis (no_types, lifting))
    moreover have "data_wiped (fst out)" "reset_paths (fst out) = tg_preserve_list tg" using rep by (simp_all add: reported_def)
    ultimately show ?thesis
      using uv tg Inr by (intro exI [of _ u] exI [of _ v]) simp
  qed
qed



section \<open>A machine on which everything works\<close>

definition calm_os :: "unit os" where
  "calm_os = \<lparr>os_unit = \<lambda>_ w. (Inr (), w), os_text = \<lambda>_ w. (Inr [], w), os_bool = \<lambda>_ w. (True, w),
     os_num = \<lambda>_ w. (Inr 0, w), os_run = \<lambda>_ w. (Inr (exit_with 0 []), w),
     os_stat = \<lambda>_ w. (Inr program_stat, w), os_entries = \<lambda>_ w. (Inr [], w),
     os_addrs = \<lambda>_ w. (Inr [], w), os_delay = \<lambda>_ _. 1\<rparr>"

definition disk_layout :: partition_layout where
  "disk_layout = \<lparr>partitions = [Data \<mapsto> ''/dev/sda7'', Etc \<mapsto> ''/dev/sda6''], root_dev = sda_root ''/dev/sda2''\<rparr>"

definition plain_reset :: factory_reset_config where
  "plain_reset = \<lparr>reset_mode_field = ResetMode2, preserve = []\<rparr>"

abbreviation works :: "('a \<Rightarrow> bool) \<Rightarrow> (unit init, 'e, 'a) io \<Rightarrow> bool" where
  "works P m \<equiv> results (\<lambda>_. False) P m"

abbreviation works_ok :: "(unit init, 'e, 'a) io \<Rightarrow> bool" where
  "works_ok m \<equiv> works (\<lambda>_. True) m"

lemma works_sys:
  "works_ok (sys_unit calm_os c)" "works (\<lambda>x. x = []) (sys_text calm_os c)" "works (\<lambda>x. x) (sys_bool calm_os c)"
  "works (\<lambda>x. x = 0) (sys_num calm_os c)" "works (\<lambda>x. x = exit_with 0 []) (sys_run calm_os c)"
  "works_ok (sys_stat calm_os c)" "works (\<lambda>x. x = []) (sys_entries calm_os c)"
  by (simp_all add: results_def calm_os_def sys_unit_def sys_text_def sys_bool_def sys_num_def sys_run_def
      sys_stat_def sys_entries_def test_path_def)

lemma works_unit: "works_ok (sys_unit calm_os c)" by (rule works_sys)

lemma works_map_err: "works P m \<Longrightarrow> works P (map_err g m)"
  by (rule results_map_err) simp

lemma works_then: "works_ok m \<Longrightarrow> (\<And>x. works P (f x)) \<Longrightarrow> works P (bindE m f)"
  by (rule results_bindE)

lemma works_checked:
  "works_ok (bindE (map_err g (sys_run calm_os c)) (\<lambda>out. if \<not> success out then throw (e out) else ret ()))"
  by (rule results_bindE [OF works_map_err [OF works_sys(5)]]) (simp add: success_def exit_with_def results_pure)

lemma works_memory: "works_ok (get_prog f)" "works_ok (modify_prog g)" "works_ok (ret x)" "works_ok (lift_res (Inr x))"
  by (simp_all add: results_def get_prog_def modify_prog_def)

lemma works_lift: "works P (lift_res (Inr x)) \<longleftrightarrow> P x" "works P (ret x) \<longleftrightarrow> P x"
  by (simp_all add: results_def)

lemma works_unmount: "works_ok (unmount_tracked calm_os)"
proof -
  have "works_ok (unmount_all calm_os ps None)" for ps
  proof (induction ps)
    case (Cons p ps)
    show ?case unfolding unmount_all.simps umount_def
      by (rule results_caught_after [OF works_map_err [OF works_unit]]) (simp_all add: Cons.IH)
  qed (simp add: results_def)
  then show ?thesis
    unfolding unmount_tracked_def by (intro works_then works_memory)
qed

lemma works_check: "works_ok (fsck_and_record calm_os dev name t)"
proof -
  have lossy: "utf8_lossy [] = []" by code_simp
  have run: "works (\<lambda>x. x = (0, [])) (run_fsck calm_os dev t force)" for force
    unfolding run_fsck_def
    by (rule results_bindE [OF works_map_err [OF works_sys(5)]])
       (simp add: results_pure exit_with_def fsck_code_of_status_def lossy)
  have never: "never_fails m \<Longrightarrow> works_ok m" for m :: "(unit init, filesystem_error, unit) io"
    unfolding never_fails_def results_def by (metis fst_conv old.sum.simps(6))
  have safe: "evaluate_fsck dev t 0 out = Inr \<lparr>fr_device = dev, fr_exit_code = 0, fr_output = out\<rparr>" for out
    by (simp add: evaluate_fsck_def is_reboot_required_def is_mount_safe_def FSCK_OK_def)
  have "works_ok (check_filesystem_with dev t (run_fsck calm_os dev t))"
    unfolding check_filesystem_with_def
  proof (rule results_bindE [OF run], clarify)
    show "works_ok (if needs_full_check t 0 [] then bindE (run_fsck calm_os dev t True)
        (\<lambda>(c', full). lift_res (evaluate_fsck dev t c' ([] @ full))) else lift_res (evaluate_fsck dev t 0 []))"
      by (auto intro!: results_bindE [OF run] results_pure simp: safe)
  qed
  note checked = this
  have "works_ok (caught (check_filesystem_with dev t (run_fsck calm_os dev t))
      (\<lambda>r. bindE (enable_kmsg_ratelimit calm_os) (\<lambda>_. lift_res r)))"
  proof (rule results_caught_after [OF checked])
    show "works_ok (bindE (enable_kmsg_ratelimit calm_os) (\<lambda>_. lift_res (Inr x :: filesystem_error + fsck_result)))" for x
      by (rule works_then [OF never [OF never_fails_ratelimit(2)]]) (simp add: works_lift)
  qed simp
  then have "works_ok (check_filesystem calm_os dev t)"
    unfolding check_filesystem_def by (intro works_then [OF never [OF never_fails_ratelimit(1)]])
  then have "works_ok (check_filesystem_lenient calm_os dev t)"
    unfolding check_filesystem_lenient_def
    by (rule results_caught_after) (simp_all add: tolerate_failure_def works_lift)
  then show ?thesis
    unfolding fsck_and_record_def
    by (rule results_caught_after) (simp_all add: modify_ods_def works_memory)
qed

lemma works_mount: "works_ok (factory_reset_mount ft calm_os layout rootfs)"
proof -
  have fs: "works_ok (mount_fs calm_os source tgt opts)" for source tgt opts
    unfolding mount_fs_def by (intro works_map_err works_unit)
  have dir: "works_ok (ensure_dir calm_os p)" for p
    unfolding ensure_dir_def by (rule results_bindE [OF works_sys(3)]) (simp add: works_memory)
  have push: "works_ok (push_mount p)" for p by (simp add: push_mount_def works_memory)
  have "works_ok (mount_tracked_partition calm_os layout spec rootfs)" for spec
    unfolding mount_tracked_partition_def Let_def
    by (intro result_intros works_then works_map_err works_check fs push works_memory)
  moreover have overlay: "works_ok (mount_overlay calm_os l u w t)" for l u w t
    unfolding mount_overlay_def Let_def by (intro works_map_err fs)
  moreover have bind: "works_ok (bind_mount calm_os a b)" for a b
    unfolding bind_mount_def mount_bind_def by (intro works_then dir fs)
  moreover have "works_ok (setup_etc_overlay_tracked calm_os rootfs)"
  proof -
    have copy: "works_ok (copy_directory_contents calm_os a b)" for a b
      unfolding copy_directory_contents_def by (rule results_bindE [OF works_sys(3)]) (simp add: works_checked)
    have empty: "works_ok (is_upper_dir_empty calm_os a)" for a
      unfolding is_upper_dir_empty_def
      by (rule results_bindE [OF works_sys(3)])
         (simp add: results_bindE [OF works_map_err [OF works_sys(7)]] works_memory)
    show ?thesis
      unfolding setup_etc_overlay_tracked_def ensure_overlay_dirs_def Let_def
      by (intro works_then results_if dir empty copy overlay push works_memory)
  qed
  moreover have "works_ok (setup_data_overlay_tracked ft calm_os rootfs)"
    unfolding setup_data_overlay_tracked_def setup_home_overlay_def ensure_overlay_dirs_def Let_def
    by (intro works_then results_if dir overlay bind push works_memory)
  ultimately show ?thesis
    unfolding factory_reset_mount_def by (intro works_then works_map_err)
qed

lemma works_quietly: "works_ok m \<Longrightarrow> works_ok (on_err m (unmount_quietly calm_os))"
  by (rule results_on_err)

lemma works_cp: "works_ok (run_cp calm_os args e)" "works_ok (run_sync calm_os)"
  unfolding run_cp_def run_sync_def by (rule works_checked)+

lemma works_prepare:
  "works (\<lambda>tg. tg_backup_dir tg = FACTORY_RESET_BACKUP_DIR)
     (prepare_reset ft word_json calm_os disk_layout rootfs plain_reset)"
proof -
  have list: "works_ok (build_preserve_list word_json calm_os plain_reset rootfs)"
    by (simp add: build_preserve_list_def plain_reset_def Let_def results_def)
  have path: "works_ok (backup_path calm_os rootfs p dir)" for p dir
    unfolding backup_path_def Let_def
    by (rule results_bindE [OF works_sys(3)]) (simp add: works_then works_cp works_memory)
  have backup: "works_ok (backup_all calm_os rootfs l dir)" for l dir
    unfolding backup_all_def by (intro works_then works_map_err works_unit results_fold_io path works_memory) simp
  show ?thesis
    unfolding prepare_reset_def disk_layout_def
    by (intro works_then works_memory works_quietly works_mount list backup works_map_err works_unmount)
       (simp_all add: layout_get_def or_mount_error_def works_lift)
qed

lemma works_destructive:
  "works (\<lambda>out. reset_status (fst out) = Success) (run_destructive_phase ft calm_os disk_layout rootfs tg)"
proof -
  have "works_ok (reformat_ext4 calm_os dev label)" for dev label
    unfolding reformat_ext4_def format_command_def by (intro works_then works_checked)
  then have "works (\<lambda>b. b = a) (reformat_one (real_reformat_ops ft calm_os disk_layout rootfs) x a)" for x a
    unfolding reformat_one_def real_reformat_ops_def reformat_ops.simps prod.case_eq_if
    by (intro results_caught_after [OF works_map_err]) (simp_all add: results_pure)
  then have fold: "works (\<lambda>b. b = ([], [])) (fold_io (reformat_one (real_reformat_ops ft calm_os disk_layout rootfs)) xs ([], []))" for xs
    by (intro results_fold_io) simp_all
  have "works_ok (op_mount_all (real_reformat_ops ft calm_os disk_layout rootfs))"
    unfolding real_reformat_ops_def reformat_ops.simps by (intro works_quietly works_mount)
  then have retry: "works (\<lambda>rep. report_retried rep = [] \<and> report_reformat_failed rep = [] \<and> report_exhausted rep = None)
      (reformat_and_mount_with_retry rootfs d e (real_reformat_ops ft calm_os disk_layout rootfs))" for d e
    unfolding reformat_and_mount_with_retry_def
    by (intro results_bindE [OF fold]) (auto intro!: results_caught_after results_pure)
  have parents: "works_ok (create_parent_dirs calm_os rootfs d b)" for d b
  proof -
    have "works (\<lambda>l. l = []) (missing_ancestors calm_os rootfs dirs [])" for dirs
    proof (cases dirs)
      case (Cons dir rest)
      have "works (\<lambda>l. l = []) (caught (sys_stat calm_os (Lstat dir)) (\<lambda>r. case r of
          Inr _ \<Rightarrow> ret [] | Inl _ \<Rightarrow> missing_ancestors calm_os rootfs rest ([] @ [dir])))"
        by (rule results_caught_after [OF works_sys(6)]) (simp_all add: results_pure)
      then show ?thesis unfolding Cons missing_ancestors.simps by (rule results_if [rotated]) (simp add: results_pure)
    qed (simp add: results_def)
    then show ?thesis
      unfolding create_parent_dirs_def
      by (rule results_bindE) (simp add: results_bindE [OF works_sys(3)] works_memory)
  qed
  have "works_ok (restore_path calm_os rootfs p dir)" for p dir
    unfolding restore_path_def Let_def
    by (rule results_bindE [OF works_sys(3)]) (simp add: works_then works_map_err parents works_cp works_memory)
  then have "works (\<lambda>a. snd a = None) (restore_one calm_os rootfs dir p a)" if "snd a = None" for dir p a
    unfolding restore_one_def using that
    by (intro results_bindE [OF works_sys(3)]) (auto intro!: results_caught_after results_pure)
  then have restore: "works (\<lambda>r. r = RestoreSuccess) (restore_all calm_os rootfs l dir)" for l dir
    unfolding restore_all_def
    by (intro results_bindE [where Q = "\<lambda>a. snd a = None"] results_fold_io) (auto intro!: results_pure)
  show ?thesis
    unfolding run_destructive_phase_def
    by (rule results_bindE [OF retry])
       (auto intro!: results_bindE [OF results_on_err [OF restore]] works_then works_map_err works_unmount
         results_pure simp: restored_status_def Let_def)
qed

lemma works_wipe: "works_ok (wipe_random calm_os device)"
proof -
  have size: "works (\<lambda>n. n = 0) (device_size calm_os device)"
    unfolding device_size_def
    by (intro results_map_err results_bindE [OF works_sys(4)] results_bindE [OF works_unit]) (simp add: works_lift)
  have fill: "works_ok (overwrite_with_random calm_os device 0 interval)" for interval
    unfolding overwrite_with_random_def
    by (intro works_then works_unit) (simp add: overwrite_loop.simps works_unit)
  show ?thesis
    unfolding wipe_random_def open_device_def
    by (intro works_then works_map_err works_unit results_bindE [OF size]) (simp add: works_map_err fill)
qed

lemma works_run_reset:
  "works (\<lambda>out. reset_status (fst out) = Success) (run_reset ft word_json calm_os disk_layout rootfs plain_reset)"
proof -
  have one: "works (\<lambda>l. l = []) (wipe_one (op_wipe_random (real_wipe_ops calm_os)) p [])" for p
    unfolding wipe_one_def real_wipe_ops_def wipe_ops.simps prod.case_eq_if
    by (rule results_caught_after [OF works_wipe]) (simp_all add: works_lift)
  have wipe: "works (\<lambda>n. n = None) (wipe_partitions ResetMode2 d e (real_wipe_ops calm_os))" for d e
    unfolding wipe_partitions_def Let_def reset_mode.case
    by (rule results_bindE [OF results_fold_io [where P = "\<lambda>l. l = []"]]) (simp_all add: one works_lift)
  have rebuilt: "works (\<lambda>out. reset_status (fst out) = Success) (rebuild ft calm_os disk_layout rootfs tg)" for tg
    unfolding rebuild_def by (rule results_caught_after [OF works_destructive]) (simp_all add: works_lift)
  have "works (\<lambda>out. reset_status (fst out) = Success) (wipe_and_rebuild ResetMode2 d e (real_wipe_ops calm_os)
      (rebuild ft calm_os disk_layout rootfs tg))" for d e tg
    unfolding wipe_and_rebuild_def
    by (rule results_bindE [OF wipe], rule results_bindE [OF rebuilt]) (auto simp: works_lift apply_wipe_note_def)
  then show ?thesis
    unfolding run_reset_def by (intro results_bindE [OF works_prepare]) (simp add: plain_reset_def)
qed

text \<open>The theorems at that machine: the reset runs to its end and reports success.\<close>

abbreviation calm_reset :: "(unit init, initramfs_error, reset_outcome) io" where
  "calm_reset \<equiv> run_reset all_modes word_json calm_os disk_layout ''/rootfs'' plain_reset"

lemma calm_reset_runs: "\<exists>st sig s'. calm_reset blank_machine = (Inr (st, sig), s') \<and> reset_status st = Success"
proof -
  obtain r s' where run: "calm_reset blank_machine = (r, s')" by fastforce
  show ?thesis
  proof (cases r)
    case (Inl e)
    then show ?thesis using resultsD_Inl [OF works_run_reset] run by blast
  next
    case (Inr out)
    then show ?thesis using resultsD_Inr [OF works_run_reset] run by (cases out) fastforce
  qed
qed

lemma reset_backup_first_witness:
  "\<exists>st sig s'. calm_reset blank_machine = (Inr (st, sig), s') \<and> data_wiped st
     \<and> (\<exists>before after. trace s' = trace blank_machine @ before @ after \<and> (\<forall>c \<in> set before. \<not> destroys (fst c)))"
proof -
  obtain st sig s' where run: "calm_reset blank_machine = (Inr (st, sig), s')" using calm_reset_runs by blast
  show ?thesis using run reset_backup_first [OF run] by auto
qed



end
