(* ===== verification/Bmap_Checks.thy ===== *)
theory Bmap_Checks
  imports Bmap Trace_Logic
begin

text \<open>
  What the block map of \<open>src/mode/flash/bmap/\<close> promises: a parsed map is well formed, the gaps of an area
  are exactly its unmapped bytes, and a copy puts nothing on the destination but the mapped ranges,
  each with the content its checksum names.
\<close>

section \<open>Well-formed maps\<close>

definition range_start :: "mapped_range \<Rightarrow> nat" where
  "range_start r = unat (br_offset (mr_bytes r))"

definition range_stop :: "mapped_range \<Rightarrow> nat" where
  "range_stop r = unat (br_offset (mr_bytes r)) + unat (br_len (mr_bytes r))"

abbreviation before :: "mapped_range \<Rightarrow> mapped_range \<Rightarrow> bool" where
  "before r q \<equiv> range_stop r \<le> range_start q"

definition range_ok :: "u64 \<Rightarrow> mapped_range \<Rightarrow> bool" where
  "range_ok limit r \<longleftrightarrow> range_start r < range_stop r \<and> range_stop r \<le> unat limit \<and> length (mr_sha256 r) = SHA256_LEN"

definition checked_bmap :: "bmap \<Rightarrow> bool" where
  "checked_bmap b \<longleftrightarrow> ranges b \<noteq> [] \<and> sorted_wrt before (ranges b) \<and> list_all (range_ok (image_size b)) (ranges b)"

lemma hex_decode_length: "hex_decode t = Some d \<Longrightarrow> length t = 2 * length d"
  by (induction t arbitrary: d rule: hex_decode.induct) (auto split: option.splits)

lemma checksum_length: "checksum_from_hex t = Inr d \<Longrightarrow> length d = SHA256_LEN"
  by (auto simp: checksum_from_hex_def sha256_from_hex_def dest: hex_decode_length split: option.splits if_splits)

lemma block_span_le: "block_span t = Inr (lo, hi) \<Longrightarrow> lo \<le> hi"
  by (auto simp: block_span_def Let_def not_less split: sum.splits prod.splits option.splits if_splits)

lemma div_ceil_bound:
  assumes "hi < div_ceil n k" and "k \<noteq> 0"
  shows "unat hi * unat k < unat n"
proof -
  have k: "0 < unat k" using assms(2) by (simp add: unat_gt_0)
  show ?thesis
  proof (cases "n mod k > 0")
    case True
    then have "hi < n div k + 1" using assms(1) by (simp add: div_ceil_def)
    then have "unat hi \<le> unat (n div k)" by (metis less_Suc_eq_le unatSuc add.commute unat_0 unat_mono word_less_nat_alt less_zeroE)
    then have "unat hi * unat k \<le> unat n div unat k * unat k" using mult_le_mono1 by (simp only: unat_div)
    moreover have "0 < unat n mod unat k" using True by (simp add: unat_mod word_less_nat_alt)
    ultimately show ?thesis using div_mult_mod_eq [of "unat n" "unat k"] by linarith
  next
    case False
    then have "Suc (unat hi) \<le> unat n div unat k" using assms(1) by (simp add: div_ceil_def word_less_nat_alt unat_div)
    then have "Suc (unat hi) * unat k \<le> unat n" using k less_eq_div_iff_mult_less_eq by blast
    then show ?thesis using k by simp
  qed
qed

lemma add_range_ok:
  assumes add: "add_range k n count r st = Inr st'" and count: "count = div_ceil n k" and k: "k \<noteq> 0"
  obtains q where "rs_ranges st' = rs_ranges st @ [q]" and "range_ok n q"
    and "unat (rs_next_free st) \<le> range_start q" and "unat (rs_next_free st') = range_stop q"
proof -
  obtain lo hi offset e m d where span: "block_span (xr_blocks r) = Inr (lo, hi)"
    and off: "checked_mul lo k = Some offset"
    and e: "Option.bind (checked_add hi 1) (\<lambda>n. checked_mul n k) = Some e"
    and hi: "hi < count" and free: "rs_next_free st \<le> offset"
    and sum: "checksum_from_hex (xr_chksum r) = Inr d"
    and st': "st' = \<lparr>rs_mapped = m, rs_next_free = min e n,
      rs_ranges = rs_ranges st @ [\<lparr>mr_bytes = \<lparr>br_offset = offset, br_len = min e n - offset\<rparr>, mr_sha256 = d\<rparr>]\<rparr>"
    using add by (auto simp: add_range_def Let_def not_less not_le split: sum.splits prod.splits option.splits if_splits)
  have o_nat: "unat offset = unat lo * unat k" using off by (rule checked_mul_Some)
  have "unat e = (unat hi + 1) * unat k"
    using e by (auto simp: bind_eq_Some_conv dest!: checked_mul_Some checked_add_Some)
  moreover have lo: "unat lo \<le> unat hi" using block_span_le [OF span] by (simp add: word_le_nat_alt)
  moreover have "0 < unat k" using k by (simp add: unat_gt_0)
  ultimately have e_gt: "unat offset < unat e" using o_nat 
    by (metis Suc_eq_plus1 le_imp_less_Suc mult_less_mono1)
  have "unat lo * unat k \<le> unat hi * unat k" using lo by (rule mult_le_mono1)
  then have n_gt: "unat offset < unat n" using div_ceil_bound [OF hi [unfolded count] k] o_nat by linarith
  have stop: "offset < min e n" using e_gt n_gt by (simp add: word_less_nat_alt)
  then have len: "unat (min e n - offset) = unat (min e n) - unat offset" using unat_sub_le less_imp_le by blast
  let ?q = "\<lparr>mr_bytes = \<lparr>br_offset = offset, br_len = min e n - offset\<rparr>, mr_sha256 = d\<rparr>"
  have q: "range_start ?q = unat offset" "range_stop ?q = unat (min e n)"
    using stop by (simp_all add: range_start_def range_stop_def len word_less_nat_alt)
  have "unat (min e n) \<le> unat n" by (simp add: min_def word_le_nat_alt)
  then have "range_ok n ?q" using stop checksum_length [OF sum] by (simp add: range_ok_def q word_less_nat_alt)
  then show ?thesis using st' free q by (intro that [of ?q]) (simp_all add: word_le_nat_alt)
qed

definition range_inv :: "u64 \<Rightarrow> range_state \<Rightarrow> bool" where
  "range_inv n st \<longleftrightarrow> sorted_wrt before (rs_ranges st) \<and> list_all (range_ok n) (rs_ranges st)
     \<and> (\<forall>q \<in> set (rs_ranges st). range_stop q \<le> unat (rs_next_free st))"

lemma add_ranges_inv:
  "add_ranges k n count rs st = Inr st' \<Longrightarrow> count = div_ceil n k \<Longrightarrow> k \<noteq> 0 \<Longrightarrow> range_inv n st \<Longrightarrow> range_inv n st'"
proof (induction rs arbitrary: st)
  case (Cons r rs)
  then obtain st1 where one: "add_range k n count r st = Inr st1" and rest: "add_ranges k n count rs st1 = Inr st'"
    by (auto split: sum.splits)
  obtain q where q: "rs_ranges st1 = rs_ranges st @ [q]" "range_ok n q"
      "unat (rs_next_free st) \<le> range_start q" "unat (rs_next_free st1) = range_stop q"
    using add_range_ok [OF one Cons.prems(2,3)] by blast
  then have "range_inv n st1"
    using Cons.prems(4) by (fastforce simp: range_inv_def sorted_wrt_append range_ok_def)
  then show ?case using Cons.IH rest Cons.prems by blast
qed simp

text \<open>C23: Whatever an XML parser and a digest function give, a map that is accepted is not empty, its ranges
  are sorted and do not overlap, none is empty, all end inside the image, and every checksum has the
  length of a digest.\<close>

theorem parse_bmap_checked:
  assumes "parse_bmap xml sha256 t = Inr b"
  shows "checked_bmap b"
proof -
  obtain x :: xml_bmap and k st where k: "k \<noteq> 0"
    and add: "add_ranges k (image_size b) (div_ceil (image_size b) k) (xb_ranges x)
        \<lparr>rs_mapped = 0, rs_next_free = 0, rs_ranges = []\<rparr> = Inr st"
    and b: "ranges b = rs_ranges st" "rs_ranges st \<noteq> []"
    using assms by (clarsimp simp: parse_bmap_def split: sum.splits if_splits)
  have "range_inv (image_size b) st"
    by (rule add_ranges_inv [OF add refl k]) (simp add: range_inv_def)
  then show ?thesis using b by (simp add: checked_bmap_def range_inv_def)
qed

section \<open>Gaps\<close>

definition bytes_of :: "byte_range \<Rightarrow> nat set" where
  "bytes_of a = {unat (br_offset a) ..< unat (br_offset a) + unat (br_len a)}"

lemma bytes_of_range: "bytes_of (mr_bytes r) = {range_start r ..< range_stop r}"
  by (simp add: bytes_of_def range_start_def range_stop_def)

definition mapped_bytes :: "mapped_range list \<Rightarrow> nat set" where
  "mapped_bytes rs = (\<Union>r \<in> set rs. bytes_of (mr_bytes r))"

lemma mapped_after:
  "sorted_wrt before (r # rs) \<Longrightarrow> list_all (range_ok n) rs \<Longrightarrow> x \<in> mapped_bytes rs \<Longrightarrow> range_stop r \<le> x"
  by (auto simp: mapped_bytes_def bytes_of_range)

lemma bytes_of_gap: "c \<le> e \<Longrightarrow> bytes_of \<lparr>br_offset = c, br_len = e - c\<rparr> = {unat c ..< unat e}"
  by (simp add: bytes_of_def unat_sub_le word_le_nat_alt)

lemma cut_range:
  fixes a b c e :: nat
  assumes "a < b" and "a < e" and m: "\<And>x. x \<in> M \<Longrightarrow> b \<le> x"
  shows "{c ..< a} \<union> ({max c b ..< e} - M) = {c ..< e} - ({a ..< b} \<union> M)"
proof (rule set_eqI)
  fix x
  show "x \<in> {c ..< a} \<union> ({max c b ..< e} - M) \<longleftrightarrow> x \<in> {c ..< e} - ({a ..< b} \<union> M)"
  proof (cases "x < b")
    case True
    then have "x \<notin> M" using m leD by blast
    then show ?thesis using True assms(1,2) by (simp; linarith)
  next
    case False
    then show ?thesis using assms(1,2) by simp
  qed
qed

lemma gaps_bytes:
  assumes "sorted_wrt before rs" and "list_all (range_ok n) rs"
  shows "(\<Union>g \<in> set (gaps_from rs area_end cursor). bytes_of g) = {unat cursor ..< unat area_end} - mapped_bytes rs"
  using assms
proof (induction rs arbitrary: cursor)
  case Nil
  show ?case using word_less_nat_alt [of cursor area_end]
    by (cases "cursor < area_end") (simp_all add: bytes_of_gap mapped_bytes_def)
next
  case (Cons r rs)
  let ?start = "br_offset (mr_bytes r)" and ?len = "br_len (mr_bytes r)"
  have ok: "range_ok n r" using Cons.prems by simp
  have nat: "unat ?start = range_start r" by (simp add: range_start_def)
  have "unat n < 2 ^ LENGTH(64)" by (rule unsigned_less)
  then have "range_stop r < 2 ^ 64" using ok by (simp add: range_ok_def)
  then have stop: "unat (?start + ?len) = range_stop r" by (simp add: range_stop_def unat_word_ariths)
  have after: "range_stop r \<le> x" if "x \<in> mapped_bytes rs" for x
    by (rule mapped_after [where n = n, OF Cons.prems(1) _ that]) (use Cons.prems(2) in simp)
  have split: "mapped_bytes (r # rs) = {range_start r ..< range_stop r} \<union> mapped_bytes rs"
    by (simp add: mapped_bytes_def bytes_of_range)
  show ?case
  proof (cases "area_end \<le> ?start")
    case True
    then have "unat area_end \<le> range_start r" using nat by (simp add: word_le_nat_alt)
    then have "x \<notin> mapped_bytes (r # rs)" if "x < unat area_end" for x
      using that after [of x] ok unfolding split range_ok_def by (simp; linarith)
    then have "{unat cursor ..< unat area_end} - mapped_bytes (r # rs) = {unat cursor ..< unat area_end}"
      by (simp add: Diff_triv disjoint_iff)
    then show ?thesis using True word_less_nat_alt [of cursor area_end]
      by (cases "cursor < area_end") (simp_all add: bytes_of_gap)
  next
    case False
    let ?rest = "\<Union>g \<in> set (gaps_from rs area_end (max cursor (?start + ?len))). bytes_of g"
    let ?first = "{unat cursor ..< range_start r}"
    have in_area: "range_start r < unat area_end" using False nat by (simp add: word_le_nat_alt)
    have max_nat: "unat (max cursor (?start + ?len)) = max (unat cursor) (range_stop r)"
      by (simp add: max_def word_le_nat_alt stop)
    have rest: "?rest = {max (unat cursor) (range_stop r) ..< unat area_end} - mapped_bytes rs"
      using Cons.IH [of "max cursor (?start + ?len)"] Cons.prems by (simp add: max_nat)
    have "(\<Union>g \<in> set (gaps_from (r # rs) area_end cursor). bytes_of g) = ?first \<union> ?rest"
      using False nat word_less_nat_alt [of cursor ?start]
      by (cases "cursor < ?start") (simp_all add: Let_def bytes_of_gap)
    also have "\<dots> = {unat cursor ..< unat area_end} - mapped_bytes (r # rs)"
      unfolding rest split by (rule cut_range) (use in_area ok after in \<open>simp_all add: range_ok_def\<close>)
    finally show ?thesis .
  qed
qed

text \<open>C22: The gaps of an area that ends below the largest offset are exactly the bytes of the area that no
  range of the map writes.\<close>

theorem unmapped_exact:
  assumes "checked_bmap b" and "unat (br_offset area) + unat (br_len area) < 2 ^ 64"
  shows "(\<Union>g \<in> set (unmapped b area). bytes_of g) = bytes_of area - mapped_bytes (ranges b)"
proof -
  have "unat (saturating_end area) = unat (br_offset area) + unat (br_len area)"
    using assms(2) by (simp add: saturating_end_def saturating_add_unat)
  then show ?thesis
    using gaps_bytes [of "ranges b" "image_size b" "saturating_end area" "br_offset area"] assms(1)
    by (simp add: unmapped_def checked_bmap_def bytes_of_def)
qed

section \<open>Copies\<close>

text \<open>What a run of calls puts on a file: the position of its cursor and the bytes written so far. A failed
  write counts like one that got through, so the domain bounds what a run can have touched.\<close>

definition put :: "(nat \<Rightarrow> char option) \<Rightarrow> nat \<Rightarrow> string \<Rightarrow> nat \<Rightarrow> char option" where
  "put m p w = (\<lambda>i. if p \<le> i \<and> i < p + length w then Some (w ! (i - p)) else m i)"

definition replay_call :: "string \<Rightarrow> call \<Rightarrow> nat \<times> (nat \<Rightarrow> char option) \<Rightarrow> nat \<times> (nat \<Rightarrow> char option)" where
  "replay_call d c st = (case c of
     SeekWrite e n \<Rightarrow> if e = d then (unat n, snd st) else st
   | WriteAll e w \<Rightarrow> if e = d then (fst st + length w, put (snd st) (fst st) w) else st
   | _ \<Rightarrow> st)"

definition replay :: "string \<Rightarrow> (call \<times> bool) list \<Rightarrow> nat \<times> (nat \<Rightarrow> char option) \<Rightarrow> nat \<times> (nat \<Rightarrow> char option)" where
  "replay d t = fold (replay_call d) (map fst t)"

definition written_image :: "string \<Rightarrow> (call \<times> bool) list \<Rightarrow> nat \<Rightarrow> char option" where
  "written_image d t = snd (replay d t (0, Map.empty))"

fun moves :: "string \<Rightarrow> call \<Rightarrow> bool" where
  "moves d (SeekWrite e n) = (e = d)"
| "moves d (WriteAll e w) = (e = d)"
| "moves d _ = False"

text \<open>A run without a seek appends one string at the cursor.\<close>

definition appends :: "string \<Rightarrow> string \<Rightarrow> (call \<times> bool) list \<Rightarrow> bool" where
  "appends d w t \<longleftrightarrow> (\<forall>p m. replay d t (p, m) = (p + length w, put m p w))"

lemma put_Nil [simp]: "put m p [] = m"
  by (auto simp: put_def fun_eq_iff)

lemma put_put: "put (put m p v) (p + length v) w = put m p (v @ w)"
  by (auto simp: put_def fun_eq_iff nth_append)

lemma put_at: "i < length w \<Longrightarrow> put m p w (p + i) = Some (w ! i)"
  by (simp add: put_def)

lemma put_other: "i < p \<or> p + length w \<le> i \<Longrightarrow> put m p w i = m i"
  by (auto simp: put_def)

lemma dom_put: "dom (put m p w) = {p ..< p + length w} \<union> dom m"
  by (auto simp: put_def split: if_splits)

lemma replay_append: "replay d (t @ u) st = replay d u (replay d t st)"
  by (simp add: replay_def)

lemma replay_calm: "\<forall>c \<in> set t. \<not> moves d (fst c) \<Longrightarrow> replay d t st = st"
proof (induction t arbitrary: st)
  case (Cons c t)
  have "replay_call d (fst c) st = st" using Cons.prems by (auto simp: replay_call_def split: call.split)
  then show ?case using Cons by (simp add: replay_def)
qed (simp add: replay_def)

lemma appends_calm: "\<forall>c \<in> set t. \<not> moves d (fst c) \<Longrightarrow> appends d [] t"
  by (simp add: appends_def replay_calm)

lemma appends_append: "appends d v t \<Longrightarrow> appends d w u \<Longrightarrow> appends d (v @ w) (t @ u)"
  by (simp add: appends_def replay_append put_put add.assoc)

lemma appends_write: "appends d w [(WriteAll d w, ok)]"
  by (simp add: appends_def replay_def replay_call_def)

lemma input_read_calm: "calls_only (\<lambda>c. \<not> moves d c) (input_read os src n)"
  unfolding input_read_def by (cases src) (simp_all add: calls_only_sys)

text \<open>Every chunk is appended, and a pass that succeeds has appended exactly what was asked for.\<close>

definition passed :: "string \<Rightarrow> u64 \<Rightarrow> string \<Rightarrow> string stop + string \<times> u64 \<Rightarrow> (call \<times> bool) list \<Rightarrow> bool" where
  "passed d left acc r t \<longleftrightarrow> (\<exists>w. appends d w t \<and> length w \<le> unat left
     \<and> (\<forall>acc' pos'. r = Inr (acc', pos') \<longrightarrow> acc' = acc @ w \<and> length w = unat left))"

lemma passed_fails: "(\<And>x. r \<noteq> Inr x) \<Longrightarrow> \<forall>c \<in> set t. \<not> moves d (fst c) \<Longrightarrow> passed d left acc r t"
  unfolding passed_def by (intro exI [of _ "[]"]) (simp add: appends_calm)

lemma passed_step:
  assumes "appends d v t" and "passed d left' (acc @ v) r u" and "unat left = length v + unat left'"
  shows "passed d left acc r (t @ u)"
proof -
  obtain w where "appends d w u" "length w \<le> unat left'"
      "\<forall>acc' pos'. r = Inr (acc', pos') \<longrightarrow> acc' = (acc @ v) @ w \<and> length w = unat left'"
    using assms(2) by (auto simp: passed_def)
  then show ?thesis
    unfolding passed_def using assms(1,3) by (intro exI [of _ "v @ w"]) (simp add: appends_append)
qed

lemma passed_calm: "\<forall>c \<in> set t. \<not> moves d (fst c) \<Longrightarrow> passed d left acc r u \<Longrightarrow> passed d left acc r (t @ u)"
  by (rule passed_step [OF appends_calm]) simp_all

lemma brings_write_sink:
  "brings (\<lambda>r t. appends d buf t \<and> (\<forall>a. r = Inr a \<longrightarrow> a = acc @ buf)) (write_sink os d buf acc)"
  unfolding write_sink_def or_fail_def
  by (rule brings_bindE [OF brings_map_err [OF brings_sys(1), where R = "\<lambda>r t. appends d buf t"],
        where R = "\<lambda>_ r t. t = [] \<and> r = Inr (acc @ buf)"])
     (simp_all add: appends_write brings_pure)

lemma pass_chunk:
  assumes left: "0 < left" and buf: "buf \<noteq> []" "length buf \<le> unat (raw_chunk_len left COPY_BUFFER_SIZE)"
    and k: "\<And>a. brings (passed d (left - of_nat (length buf)) a) (k a)"
  shows "brings (passed d left acc) (bindE (write_sink os d buf acc) k)"
proof (rule brings_bindE [where R = "\<lambda>a. passed d (left - of_nat (length buf)) a", OF brings_write_sink k])
  have "unat (raw_chunk_len left COPY_BUFFER_SIZE) \<le> unat left"
    by (simp add: raw_chunk_len_def min_def word_le_nat_alt)
  then have n: "unat left = length buf + unat (left - of_nat (length buf))"
    using pass_left(2) [OF left buf] buf(2) by simp
  then show "passed d left acc (Inl e) t" if "appends d buf t \<and> (\<forall>a. Inl e = Inr a \<longrightarrow> a = acc @ buf)" for e t
    using that unfolding passed_def by (intro exI [of _ buf]) simp
  show "passed d left acc q (t @ u)"
    if "appends d buf t \<and> (\<forall>a. Inr x = Inr a \<longrightarrow> a = acc @ buf)" "passed d (left - of_nat (length buf)) x q u" for x t q u
    using that n by (auto intro: passed_step)
qed

lemma pass_through_writes: "brings (passed d left acc) (pass_through os src (write_sink os d) left acc pos)"
proof (induction "unat left" arbitrary: left acc pos rule: less_induct)
  case less
  show ?case
  proof (cases "0 < left")
    case False
    then have "left = 0" by (simp add: word_gt_0)
    then show ?thesis
      by (subst pass_through.simps) (auto intro!: brings_pure simp: passed_def appends_calm)
  next
    case True
    show ?thesis
      unfolding pass_through.simps [of os src "write_sink os d" left] if_P [OF True]
    proof (rule brings_bindE [where R = "\<lambda>_. passed d left acc", OF brings_calls [OF calls_only_stop(1) [OF input_read_calm [of d]]]], goal_cases)
      case (1 buf)
      show ?case
        using True by (auto intro!: brings_pure passed_fails pass_chunk less.hyps pass_left(1) simp: failing_def not_less)
    qed (simp_all add: passed_fails passed_calm)
  qed
qed

lemma pass_through_calls:
  fixes sink :: "('w, 'p) machine sink"
  assumes "\<And>n. calls_only P (input_read os src n :: (('w, 'p) machine, io_error, string) io)"
    and "\<And>b a. calls_only P (sink b a)"
  shows "calls_only P (pass_through os src sink left acc pos)"
proof (induction "unat left" arbitrary: left acc pos rule: less_induct)
  case less
  show ?case
    unfolding pass_through.simps [of os src sink left]
    using assms by (auto intro!: calls_intros less.hyps pass_left(1) simp: not_less)
qed

lemma skip_to_calm: "calls_only (\<lambda>c. \<not> moves d c) (skip_to os src pos tgt)"
  unfolding skip_to_def
  by (auto intro!: calls_intros pass_through_calls input_read_calm split: sum.split source.split)

lemma replay_seek: "replay d [(SeekWrite d n, ok)] st = (unat n, snd st)"
  by (simp add: replay_def replay_call_def)

text \<open>Copying a range changes at most its bytes; with success they have a content with the right digest.\<close>

definition copied :: "(string \<Rightarrow> string) \<Rightarrow> string \<Rightarrow> mapped_range \<Rightarrow> string stop + u64 \<Rightarrow> (call \<times> bool) list \<Rightarrow> bool" where
  "copied sha256 d q r t \<longleftrightarrow> (\<exists>w. (\<forall>st. snd (replay d t st) = put (snd st) (range_start q) w)
     \<and> length w \<le> unat (br_len (mr_bytes q))
     \<and> (\<not> isl r \<longrightarrow> length w = unat (br_len (mr_bytes q)) \<and> sha256 w = mr_sha256 q))"

lemma copied_fails:
  "isl r \<Longrightarrow> (\<And>st. snd (replay d t st) = snd st) \<Longrightarrow> copied sha256 d q r t"
  unfolding copied_def by (intro exI [of _ "[]"]) simp

lemma copied_calm: "\<forall>c \<in> set t. \<not> moves d (fst c) \<Longrightarrow> copied sha256 d q r u \<Longrightarrow> copied sha256 d q r (t @ u)"
  by (simp add: copied_def replay_append replay_calm)

lemma copied_pass:
  assumes "passed d (br_len (mr_bytes q)) [] p u" and "isl p \<Longrightarrow> isl r" and "\<not> isl r \<Longrightarrow> sha256 (fst (projr p)) = mr_sha256 q"
  shows "copied sha256 d q r ((SeekWrite d (br_offset (mr_bytes q)), ok) # u)"
proof -
  obtain w where w: "appends d w u" "length w \<le> unat (br_len (mr_bytes q))"
      "\<And>acc pos. p = Inr (acc, pos) \<Longrightarrow> acc = w \<and> length w = unat (br_len (mr_bytes q))"
    using assms(1) by (auto simp: passed_def)
  have "snd (replay d ((SeekWrite d (br_offset (mr_bytes q)), ok) # u) st) = put (snd st) (range_start q) w" for st
    using w(1) replay_append [of d "[(SeekWrite d (br_offset (mr_bytes q)), ok)]" u st]
    by (simp add: replay_seek appends_def range_start_def)
  moreover have "length w = unat (br_len (mr_bytes q)) \<and> sha256 w = mr_sha256 q" if "\<not> isl r"
    using assms(2) assms(3) [OF that] that w(3) by (cases p) auto
  ultimately show ?thesis using w(2) unfolding copied_def by blast
qed

lemma brings_copy_mapped: "brings (copied sha256 d q) (copy_mapped sha256 os src d q pos)"
proof -
  let ?n = "br_len (mr_bytes q)" and ?off = "br_offset (mr_bytes q)"
  let ?checked = "\<lambda>r u. \<exists>p. passed d ?n [] p u \<and> (isl p \<longrightarrow> isl r) \<and> (\<not> isl r \<longrightarrow> sha256 (fst (projr p)) = mr_sha256 q)"
  have pass: "brings ?checked (bindE (pass_through os src (write_sink os d) ?n [] pos') (\<lambda>(bytes, pos''). if sha256 bytes \<noteq> mr_sha256 q
      then failing e else ret pos''))" for pos' e
  proof (rule brings_bindE [where R = "\<lambda>x r t. t = [] \<and> (\<not> isl r \<longrightarrow> sha256 (fst x) = mr_sha256 q)", OF pass_through_writes])
    show "?checked (Inl e) t" if "passed d ?n [] (Inl e) t" for e t using that by (intro exI [of _ "Inl e"]) simp
    show "?checked r (t @ u)" if "passed d ?n [] (Inr x) t" "u = [] \<and> (\<not> isl r \<longrightarrow> sha256 (fst x) = mr_sha256 q)" for x t r u
      using that by (intro exI [of _ "Inr x"]) simp
  qed (auto intro!: brings_pure simp: failing_def split: prod.split)
  have seek: "brings (copied sha256 d q) (bindE (or_fail g (sys_unit os (SeekWrite d ?off))) (\<lambda>_.
      bindE (pass_through os src (write_sink os d) ?n [] pos') (\<lambda>(bytes, pos''). if sha256 bytes \<noteq> mr_sha256 q
      then failing e else ret pos'')))" for g pos' e
    unfolding or_fail_def
  proof (rule brings_bindE [where R = "\<lambda>_. ?checked", OF brings_map_err [OF brings_sys(1), where R = "\<lambda>r t. \<exists>ok. t = [(SeekWrite d ?off, ok)]"] pass])
    show "copied sha256 d q (Inl e) t" if "\<exists>ok. t = [(SeekWrite d ?off, ok)]" for e t
      using that by (auto intro!: copied_fails simp: replay_seek)
    show "copied sha256 d q r (t @ u)" if "\<exists>ok. t = [(SeekWrite d ?off, ok)]" "?checked r u" for t u r
      using that by (auto intro!: copied_pass)
  qed blast+
  show ?thesis
    unfolding copy_mapped_def Let_def
    by (rule brings_bindE [where R = "\<lambda>_. copied sha256 d q", OF brings_calls [OF skip_to_calm [of d]] seek])
       (auto intro: copied_fails copied_calm simp: replay_calm)
qed

section \<open>The whole copy\<close>

definition verified :: "(string \<Rightarrow> string) \<Rightarrow> (nat \<Rightarrow> char option) \<Rightarrow> mapped_range \<Rightarrow> bool" where
  "verified sha256 m q \<longleftrightarrow> (\<exists>w. length w = unat (br_len (mr_bytes q)) \<and> sha256 w = mr_sha256 q
     \<and> (\<forall>i < length w. m (range_start q + i) = Some (w ! i)))"

definition image_of :: "(string \<Rightarrow> string) \<Rightarrow> string \<Rightarrow> mapped_range list \<Rightarrow> (call \<times> bool) list \<Rightarrow> bool" where
  "image_of sha256 d rs t \<longleftrightarrow> (\<forall>st. dom (snd (replay d t st)) = dom (snd st) \<union> mapped_bytes rs
     \<and> (\<forall>q \<in> set rs. verified sha256 (snd (replay d t st)) q))"

lemma mapped_append: "mapped_bytes (rs @ [q]) = mapped_bytes rs \<union> bytes_of (mr_bytes q)"
  by (auto simp: mapped_bytes_def)

lemma verified_put:
  assumes "verified sha256 m r" and "before r q"
  shows "verified sha256 (put m (range_start q) w) r"
proof -
  have "put m (range_start q) w (range_start r + i) = m (range_start r + i)" if "i < unat (br_len (mr_bytes r))" for i
    using that assms(2) by (intro put_other) (simp add: range_start_def range_stop_def)
  then show ?thesis using assms(1) unfolding verified_def by metis
qed

lemma image_of_step:
  assumes "image_of sha256 d rs t" and "copied sha256 d q (Inr pos) u" and "\<forall>r \<in> set rs. before r q"
  shows "image_of sha256 d (rs @ [q]) (t @ u)"
proof -
  obtain w where w: "\<And>st. snd (replay d u st) = put (snd st) (range_start q) w"
      "length w = unat (br_len (mr_bytes q))" "sha256 w = mr_sha256 q"
    using assms(2) by (auto simp: copied_def)
  have q: "verified sha256 (put m (range_start q) w) q" for m
    using w by (auto simp: verified_def intro!: exI [of _ w] put_at)
  have "verified sha256 (snd (replay d (t @ u) st)) r" if "r \<in> set (rs @ [q])" for st r
  proof (cases "r = q")
    case False
    then have "r \<in> set rs" using that by simp
    then have "verified sha256 (snd (replay d t st)) r" using assms(1) unfolding image_of_def by blast
    then show ?thesis using assms(3) \<open>r \<in> set rs\<close> by (simp add: replay_append w(1) verified_put)
  qed (simp add: replay_append w(1) q)
  moreover have "dom (snd (replay d (t @ u) st)) = dom (snd st) \<union> mapped_bytes (rs @ [q])" for st
  proof -
    have "dom (snd (replay d t st)) = dom (snd st) \<union> mapped_bytes rs" using assms(1) unfolding image_of_def by blast
    then show ?thesis
      by (simp only: replay_append w(1) dom_put mapped_append bytes_of_def range_start_def w(2)) blast
  qed
  ultimately show ?thesis by (simp add: image_of_def)
qed

lemma brings_fold_all:
  assumes "\<And>x a. x \<in> set xs \<Longrightarrow> brings (\<lambda>_ t. G t) (f x a)" and "G []" and "\<And>t u. G t \<Longrightarrow> G u \<Longrightarrow> G (t @ u)"
  shows "brings (\<lambda>_ t. G t) (fold_io f xs a)"
  using assms(1)
proof (induction xs arbitrary: a)
  case Nil
  show ?case unfolding fold_io.simps by (rule brings_pure) (rule assms(2))
next
  case (Cons x xs)
  then show ?case
    unfolding fold_io.simps by (intro brings_bindE [where Q = "\<lambda>_. G" and R = "\<lambda>_ _. G"]) (auto intro: assms(3))
qed

text \<open>No run, whether it fails or not, touches more than the mapped bytes.\<close>

definition within :: "string \<Rightarrow> nat set \<Rightarrow> (call \<times> bool) list \<Rightarrow> bool" where
  "within d S t \<longleftrightarrow> (\<forall>st. dom (snd (replay d t st)) \<subseteq> dom (snd st) \<union> S)"

lemma within_append: "within d S t \<Longrightarrow> within d S u \<Longrightarrow> within d S (t @ u)"
  unfolding within_def replay_append by blast

lemma within_calm: "\<forall>c \<in> set t. \<not> moves d (fst c) \<Longrightarrow> within d S t"
  by (simp add: within_def replay_calm)

lemma copied_within: "copied sha256 d q r t \<Longrightarrow> q \<in> set rs \<Longrightarrow> within d (mapped_bytes rs) t"
proof -
  assume "copied sha256 d q r t" and q: "q \<in> set rs"
  then obtain w where w: "\<And>st. snd (replay d t st) = put (snd st) (range_start q) w"
      "length w \<le> unat (br_len (mr_bytes q))"
    unfolding copied_def by blast
  have "{range_start q ..< range_start q + length w} \<subseteq> bytes_of (mr_bytes q)"
    using w(2) by (auto simp: bytes_of_range range_start_def range_stop_def)
  also have "\<dots> \<subseteq> mapped_bytes rs" using q by (auto simp: mapped_bytes_def)
  finally show ?thesis by (auto simp: within_def w(1) dom_put)
qed

lemma brings_copy_ranges:
  assumes "sorted_wrt before rs"
  shows "brings (\<lambda>r t. within d (mapped_bytes rs) t \<and> (\<not> isl r \<longrightarrow> image_of sha256 d rs t))
    (fold_io (copy_mapped sha256 os src d) rs pos)"
proof -
  let ?I = "\<lambda>ys (_ :: u64) t. sorted_wrt before ys \<longrightarrow> image_of sha256 d ys t"
  have "brings (\<lambda>r t. \<forall>b. r = Inr b \<longrightarrow> ?I rs b t) (fold_io (copy_mapped sha256 os src d) rs pos)"
  proof (rule brings_fold_start)
    show "brings (\<lambda>r t. \<forall>b. r = Inr b \<longrightarrow> (\<forall>u. ?I ys a u \<longrightarrow> ?I (ys @ [q]) b (u @ t))) (copy_mapped sha256 os src d q a)" for ys q a
      by (rule brings_mono [OF brings_copy_mapped]) (auto simp: sorted_wrt_append intro: image_of_step)
  qed (simp add: image_of_def replay_def mapped_bytes_def)
  moreover have "brings (\<lambda>_ t. within d (mapped_bytes rs) t) (fold_io (copy_mapped sha256 os src d) rs pos)"
    by (rule brings_fold_all) (auto intro: brings_mono [OF brings_copy_mapped] copied_within within_append within_calm)
  ultimately show ?thesis
    by (rule brings_mono [OF brings_conj]) (use assms in \<open>metis sum.collapse(2)\<close>)
qed

lemma all_ok_fold_io: "(\<And>x a. x \<in> set xs \<Longrightarrow> all_ok P (f x a)) \<Longrightarrow> all_ok P (fold_io f xs a)"
  by (induction xs arbitrary: a) (auto intro: ok_intros)

lemma all_ok_stop: "all_ok P m \<Longrightarrow> all_ok P (or_fail g m)" "all_ok P k \<Longrightarrow> all_ok P (fail_with h k)" "all_ok P (failing e)"
  by (simp_all add: or_fail_def fail_with_def failing_def all_ok_map_err all_ok_pure)

lemma pass_through_ok:
  fixes sink :: "('w, 'p) machine sink"
  assumes "\<And>b a. all_ok P (sink b a)"
  shows "all_ok P (pass_through os src sink left acc pos)"
proof (induction "unat left" arbitrary: left acc pos rule: less_induct)
  case less
  have "all_ok P (input_read os src n :: (('w, 'p) machine, io_error, string) io)" for n
    unfolding input_read_def by (cases src) (simp_all add: all_ok_sys)
  then show ?case
    unfolding pass_through.simps [of os src sink left]
    using assms by (auto intro!: ok_intros all_ok_stop less.hyps pass_left(1) simp: not_less)
qed

lemma copy_mapped_ok: "all_ok (moves d) (copy_mapped sha256 os src d q pos)"
  unfolding copy_mapped_def Let_def write_sink_def
  by (auto intro!: ok_intros all_ok_stop pass_through_ok all_ok_calls [OF skip_to_calm] split: prod.split)

lemma copy_stream_ok: "all_ok (moves d) (copy_stream sha256 os b src d)"
  unfolding copy_stream_def
  by (auto intro!: ok_intros all_ok_stop all_ok_fold_io copy_mapped_ok all_ok_calls [OF skip_to_calm]
      all_ok_calls [OF input_read_calm])

definition stream_ok :: "(string \<Rightarrow> string) \<Rightarrow> string \<Rightarrow> mapped_range list \<Rightarrow> 'e + 'a \<Rightarrow> (call \<times> bool) list \<Rightarrow> bool" where
  "stream_ok sha256 d rs r t \<longleftrightarrow> within d (mapped_bytes rs) t \<and> (\<not> isl r \<longrightarrow> image_of sha256 d rs t)"

lemma stream_ok_append:
  "stream_ok sha256 d rs (Inr x) t \<Longrightarrow> \<forall>c \<in> set u. \<not> moves d (fst c) \<Longrightarrow> stream_ok sha256 d rs r (t @ u)"
  by (auto simp: stream_ok_def within_def image_of_def replay_append replay_calm)

lemma stream_ok_prepend:
  "\<forall>c \<in> set u. \<not> moves d (fst c) \<Longrightarrow> stream_ok sha256 d rs r t \<Longrightarrow> stream_ok sha256 d rs r (u @ t)"
  by (auto simp: stream_ok_def within_def image_of_def replay_append replay_calm)

lemma stream_ok_fails: "\<forall>c \<in> set t. \<not> moves d (fst c) \<Longrightarrow> stream_ok sha256 d rs (Inl e) t"
  by (simp add: stream_ok_def within_calm)

lemma stream_ok_err: "stream_ok sha256 d rs (Inl e) t \<Longrightarrow> stream_ok sha256 d rs (Inl e') t"
  and stream_ok_value: "stream_ok sha256 d rs (Inr x) t \<Longrightarrow> stream_ok sha256 d rs (Inr x') t"
  by (simp_all add: stream_ok_def)

lemma brings_copy_stream:
  assumes "sorted_wrt before (ranges b)"
  shows "brings (stream_ok sha256 d (ranges b)) (copy_stream sha256 os b src d)"
  unfolding copy_stream_def
proof (rule brings_bindE [where Q = "stream_ok sha256 d (ranges b)" and R = "\<lambda>_ _ u. \<forall>c \<in> set u. \<not> moves d (fst c)"])
  show "brings (stream_ok sha256 d (ranges b)) (fold_io (copy_mapped sha256 os src d) (ranges b) 0)"
    unfolding stream_ok_def by (rule brings_copy_ranges [OF assms])
qed (auto intro!: brings_calls calls_intros skip_to_calm input_read_calm
    intro: stream_ok_append stream_ok_err)

lemma stream_ok_after:
  assumes "calls_only (\<lambda>c. \<not> moves d c) m" and "\<And>x. brings (stream_ok sha256 d rs) (f x)"
  shows "brings (stream_ok sha256 d rs) (bindE m f)"
  by (rule brings_bindE [OF brings_calls [OF assms(1)] assms(2)]) (auto intro: stream_ok_prepend stream_ok_fails)

lemma brings_copy_bmap:
  assumes "sorted_wrt before (ranges b)"
  shows "brings (stream_ok sha256 (destination_path dst) (ranges b)) (copy_bmap sha256 os b src dst)"
proof -
  let ?d = "destination_path dst"
  have calm: "calls_only (\<lambda>c. \<not> moves ?d c) (sys_unit os c)" if "\<not> moves ?d c" for c
    using that by (rule calls_only_sys)
  have stream: "brings (stream_ok sha256 ?d (ranges b)) (bindE (fail_with f (copy_stream sha256 os b src ?d))
      (\<lambda>_. or_fail g (sys_unit os (SyncFile ?d))))" for f :: "string \<Rightarrow> flash_error" and g
    unfolding fail_with_def
    by (rule brings_bindE [OF brings_map_err [OF brings_copy_stream [OF assms], where R = "stream_ok sha256 ?d (ranges b)"],
          where R = "\<lambda>_ _ u. \<forall>c \<in> set u. \<not> moves ?d (fst c)"])
       (auto intro!: brings_calls calls_only_stop(1) calm intro: stream_ok_append stream_ok_err stream_ok_value)
  have "calls_only (\<lambda>c. \<not> moves ?d c) (case dst of DeviceDest p \<Rightarrow> sys_unit os (OpenWrite p)
      | FileDest p \<Rightarrow> bindE (sys_unit os (OpenTruncate p)) (\<lambda>_. sys_unit os (SetLen p n)))" for n
    by (cases dst) (simp_all add: calls_intros)
  then show ?thesis
    unfolding copy_bmap_def Let_def open_existing_for_write_def
    by (intro stream_ok_after stream calls_only_stop(1) calm) simp
qed

lemma copy_bmap_ok: "all_ok (moves (destination_path dst)) (copy_bmap sha256 os b src dst)"
  unfolding copy_bmap_def Let_def open_existing_for_write_def
  by (auto intro!: ok_intros all_ok_stop copy_stream_ok split: destination.split)

text \<open>C4: A copy of a checked map, whatever the source, the decoder and the kernel answer, writes only mapped bytes
  of the destination, also when it fails; when it succeeds, the bytes written are exactly the mapped ones,
  every range holds a content whose digest is the one of the map, and no seek or write of the destination
  has failed.\<close>

theorem copy_bmap_verified:
  assumes "checked_bmap b" and "copy_bmap sha256 os b src dst s = (r, s')" and "d = destination_path dst"
  shows "\<exists>t. trace s' = trace s @ t \<and> dom (written_image d t) \<subseteq> mapped_bytes (ranges b)
    \<and> (\<not> isl r \<longrightarrow> dom (written_image d t) = mapped_bytes (ranges b)
         \<and> list_all (verified sha256 (written_image d t)) (ranges b) \<and> (\<forall>c \<in> set t. moves d (fst c) \<longrightarrow> snd c))"
proof -
  have "sorted_wrt before (ranges b)" using assms(1) by (simp add: checked_bmap_def)
  from bringsD [OF brings_conj [OF brings_copy_bmap [OF this] copy_bmap_ok [unfolded all_ok_def]] assms(2)]
  obtain t where t: "trace s' = trace s @ t" "stream_ok sha256 d (ranges b) r t" "\<not> isl r \<longrightarrow> oks (moves d) t"
    unfolding assms(3) by blast
  have "dom (written_image d t) \<subseteq> mapped_bytes (ranges b)"
    using t(2) by (force simp: stream_ok_def within_def written_image_def)
  moreover have "dom (written_image d t) = mapped_bytes (ranges b) \<and> list_all (verified sha256 (written_image d t)) (ranges b)"
    if "\<not> isl r" using t(2) that by (force simp: stream_ok_def image_of_def written_image_def list_all_iff)
  ultimately show ?thesis using t by blast
qed

section \<open>A small map\<close>

text \<open>Three blocks of four bytes, the first and the last are mapped; every string has the digest \<open>zero_digest\<close>.\<close>

definition zero_digest :: string where "zero_digest = replicate 32 (CHR 0x00)"

definition small_xml :: xml_bmap where
  "small_xml = (let zeros = replicate 64 (CHR ''0'') in
     \<lparr>xb_version = ''2.0'', xb_image_size = '' 12 '', xb_block_size = ''4'', xb_blocks_count = ''3'',
      xb_mapped_blocks_count = ''2'', xb_checksum_type = ''sha256'', xb_file_checksum = zeros,
      xb_ranges = [\<lparr>xr_chksum = zeros, xr_blocks = ''0''\<rparr>, \<lparr>xr_chksum = zeros, xr_blocks = ''2-2''\<rparr>]\<rparr>)"

definition small_bmap :: bmap where
  "small_bmap = \<lparr>image_size = 12, ranges =
     [\<lparr>mr_bytes = \<lparr>br_offset = 0, br_len = 4\<rparr>, mr_sha256 = zero_digest\<rparr>,
      \<lparr>mr_bytes = \<lparr>br_offset = 8, br_len = 4\<rparr>, mr_sha256 = zero_digest\<rparr>]\<rparr>"

lemmas parse_eval = parse_number_def parse_u64_def parse_uint_def parse_digits_def digits_val_def digit_val_def is_digit_def
  trim_def trim_start_def trim_end_def is_ws_def

lemma hex_zeros: "hex_decode (replicate (2 * n) (CHR ''0'')) = Some (replicate n (CHR 0x00))"
  by (induction n) (simp_all add: hex_val_def char_of_eq_iff)

lemma small_checksum: "checksum_from_hex (replicate 64 (CHR ''0'')) = Inr zero_digest"
  using hex_zeros [of 32]
  by (simp add: checksum_from_hex_def sha256_from_hex_def SHA256_LEN_def zero_digest_def trim_def trim_start_def trim_end_def is_ws_def
      del: replicate.simps)

lemma small_trims: "trim (replicate 64 (CHR ''0'')) = replicate 64 (CHR ''0'')" "trim ''sha256'' = ''sha256''"
  by (simp_all add: trim_def trim_start_def trim_end_def is_ws_def numeral_eq_Suc)

lemma small_numbers:
  "parse_number ''ImageSize'' '' 12 '' = Inr 12" "parse_number ''BlockSize'' ''4'' = Inr 4"
  "parse_number ''BlocksCount'' ''3'' = Inr 3" "parse_number ''MappedBlocksCount'' ''2'' = Inr 2"
  by (simp_all add: parse_eval)

lemma small_version: "check_version ''2.0'' = Inr ()"
  by (simp add: check_version_def SUPPORTED_MAJOR_VERSION_def parse_eval)

lemma small_spans: "block_span ''0'' = Inr (0, 0)" "block_span ''2-2'' = Inr (2, 2)"
  by (simp_all add: block_span_def parse_eval)

lemma small_sum: "check_file_checksum (\<lambda>_. zero_digest) t (replicate 64 (CHR ''0'')) = Inr ()"
  by (simp only: check_file_checksum_def Let_def small_trims small_checksum sum.case) simp

lemma small_ranges:
  "add_ranges 4 12 3 (xb_ranges small_xml) \<lparr>rs_mapped = 0, rs_next_free = 0, rs_ranges = []\<rparr>
   = Inr \<lparr>rs_mapped = 2, rs_next_free = 12, rs_ranges = ranges small_bmap\<rparr>"
  by (simp add: small_xml_def small_bmap_def Let_def add_range_def small_spans small_checksum checked_mul_def checked_add_def
      del: replicate.simps)

lemma parse_small: "parse_bmap (\<lambda>_. Inr small_xml) (\<lambda>_. zero_digest) ''<bmap/>'' = Inr small_bmap"
proof -
  have "div_ceil 12 4 = 3" by (simp add: div_ceil_def)
  moreover have "small_bmap = \<lparr>image_size = 12, ranges = ranges small_bmap\<rparr>" "ranges small_bmap \<noteq> []"
    by (simp_all add: small_bmap_def)
  ultimately show ?thesis
    using small_ranges unfolding parse_bmap_def
    by (simp add: small_xml_def Let_def small_version small_trims small_numbers small_sum CHECKSUM_TYPE_def
        del: replicate.simps add_ranges.simps)
qed

lemma small_checked: "checked_bmap small_bmap"
  by (simp add: checked_bmap_def small_bmap_def range_ok_def range_start_def range_stop_def zero_digest_def SHA256_LEN_def)

lemma parse_bmap_checked_witness: "checked_bmap small_bmap"
  using parse_small by (rule parse_bmap_checked)

lemma unmapped_exact_witness:
  "(\<Union>g \<in> set (unmapped small_bmap \<lparr>br_offset = 0, br_len = 10\<rparr>). bytes_of g) = {0..<10} - ({0..<4} \<union> {8..<12})"
  using unmapped_exact [OF small_checked, of "\<lparr>br_offset = 0, br_len = 10\<rparr>"]
  by (simp add: bytes_of_def mapped_bytes_def small_bmap_def)

text \<open>A source that gives its bytes in short reads.\<close>

definition short_source :: "string os" where
  "short_source = \<lparr>os_unit = \<lambda>_ w. (Inr (), w),
     os_text = \<lambda>c w. (case c of ReadDecoded _ n \<Rightarrow> (Inr (take (min 3 (unat n)) w), drop (min 3 (unat n)) w) | _ \<Rightarrow> (Inr [], w)),
     os_bool = \<lambda>_ w. (True, w), os_num = \<lambda>_ w. (Inr 0, w),
     os_run = \<lambda>_ w. (Inr \<lparr>exit_code = Some 0, stdout = [], stderr = [], signal_text = []\<rparr>, w),
     os_stat = \<lambda>_ w. (Inl (IoError NotFound []), w), os_entries = \<lambda>_ w. (Inr [], w), os_addrs = \<lambda>_ w. (Inr [], w),
     os_delay = \<lambda>_ _. 0\<rparr>"

definition short_run :: "(flash_error stop + unit) \<times> (string, unit) machine" where
  "short_run = copy_bmap (\<lambda>_. zero_digest) short_source small_bmap (XzSource ''/fifo'') (DeviceDest ''/dev/sda'')
     \<lparr>world = ''head....tail'', trace = [], clock = 0, program = ()\<rparr>"

lemma short_run_ok: "\<not> isl (fst short_run)"
  by code_simp

lemma copy_bmap_verified_witness:
  "dom (written_image ''/dev/sda'' (trace (snd short_run))) = {0..<4} \<union> {8..<12}"
proof -
  have "copy_bmap (\<lambda>_. zero_digest) short_source small_bmap (XzSource ''/fifo'') (DeviceDest ''/dev/sda'')
     \<lparr>world = ''head....tail'', trace = [], clock = 0, program = ()\<rparr> = (fst short_run, snd short_run)"
    by (simp add: short_run_def)
  from copy_bmap_verified [OF small_checked this, of "''/dev/sda''"] short_run_ok
  show ?thesis by (auto simp: destination_path_def small_bmap_def mapped_bytes_def bytes_of_def)
qed

end
