(* ===== verification/Raw_Copy.thy ===== *)
theory Raw_Copy
  imports Rawio
begin

text \<open>
  \<open>copy_range\<close> of \<open>src/mode/flash/rawio.rs\<close> against what \<open>read(2)\<close> and \<open>write(2)\<close> promise. The contract is
  the locale \<open>raw_files\<close>: a read gives a prefix of what is left of the source, a write takes a prefix of what it is
  given, both may be interrupted, and only so often. \<open>disk_os\<close>, a disk with a schedule of short transfers
  and interrupts, fulfils it.
\<close>

lemma call_or_failE:
  assumes "bindE (or_fail g (sys_unit os c)) f s = (r, s')"
    and "\<exists>e. r = Inl (Failed e) \<Longrightarrow> P" and "\<And>s1. os_unit os c (world s) = (Inr (), world s1) \<Longrightarrow> f () s1 = (r, s') \<Longrightarrow> P"
  shows P
  using assms by (auto simp: bindE_def or_fail_def map_err_def sys_unit_def split: prod.splits sum.splits)
    (metis world_record_call)

text \<open>The part of what is left of the source that a copy with \<open>n\<close> bytes behind it still has to hand over.\<close>

definition asked :: "u64 option \<Rightarrow> u64 \<Rightarrow> string \<Rightarrow> string" where
  "asked len n xs = (case len of Some l \<Rightarrow> take (unat l - unat n) xs | None \<Rightarrow> xs)"

locale raw_files =
  fixes os :: "'w os" and src :: string and dst :: string
    and content :: "'w \<Rightarrow> string" and left :: "'w \<Rightarrow> string" and out :: "'w \<Rightarrow> string" and patience :: "'w \<Rightarrow> nat"
  assumes read: "os_text os (ReadSome src n) w = (Inr b, w') \<Longrightarrow> 0 < n \<Longrightarrow>
      left w = b @ left w' \<and> out w' = out w \<and> length b \<le> unat n \<and> (b = [] \<longrightarrow> left w = []) \<and> patience w' \<le> patience w"
    and read_error: "os_text os (ReadSome src n) w = (Inl e, w') \<Longrightarrow>
      left w' = left w \<and> out w' = out w \<and> (io_kind_of e = Interrupted \<longrightarrow> patience w' < patience w)"
    and wrote: "os_num os (WriteSome dst b) w = (Inr k, w') \<Longrightarrow>
      unat k \<le> length b \<and> out w' = out w @ take (unat k) b \<and> left w' = left w \<and> patience w' \<le> patience w"
    and write_error: "os_num os (WriteSome dst b) w = (Inl e, w') \<Longrightarrow>
      left w' = left w \<and> out w' = out w \<and> (io_kind_of e = Interrupted \<longrightarrow> patience w' < patience w)"
    and open_source: "os_unit os (OpenRead src) w = (Inr (), w') \<Longrightarrow> content w' = content w \<and> patience w' \<le> patience w"
    and seek_source: "os_unit os (SeekRead src n) w = (Inr (), w') \<Longrightarrow>
      left w' = drop (unat n) (content w) \<and> patience w' \<le> patience w"
    and open_dest: "os_unit os (OpenWrite dst) w = (Inr (), w') \<Longrightarrow> left w' = left w \<and> patience w' \<le> patience w"
    and seek_dest: "os_unit os (SeekWrite dst n) w = (Inr (), w') \<Longrightarrow> left w' = left w \<and> out w' = [] \<and> patience w' \<le> patience w"
    and sync_dest: "os_unit os (SyncFile dst) w = (Inr (), w') \<Longrightarrow> out w' = out w"
begin

text \<open>Writing a chunk hands over all of it, and with one unit of fuel for each byte and each interrupt it is never
  cut short.\<close>

lemma write_chunk:
  assumes "write_loop fuel os fl dst buf n s = (r, s')" and "n \<le> length buf"
    and "length buf - n + patience (world s) \<le> fuel"
  shows "r \<noteq> Inl Running \<and> r \<noteq> Inl Panicked \<and> (\<forall>x. r = Inr x \<longrightarrow> out (world s') = out (world s) @ drop n buf
      \<and> left (world s') = left (world s) \<and> patience (world s') \<le> patience (world s))"
  using assms
proof (induction fuel arbitrary: n s)
  case 0
  then show ?case by (subst (asm) write_loop.simps) (auto split: if_splits)
next
  case (Suc fuel)
  show ?case
  proof (cases "n = length buf")
    case True
    then show ?thesis using Suc.prems(1) by (subst (asm) write_loop.simps) auto
  next
    case False
    obtain q s1 where s1: "sys_num os (WriteSome dst (drop n buf)) s = (q, s1)" by fastforce
    then have os: "os_num os (WriteSome dst (drop n buf)) (world s) = (q, world s1)"
      by (auto simp: sys_num_def split: prod.splits)
    note step = Suc.prems(1) [unfolded write_loop.simps [of "Suc fuel"]]
    show ?thesis
    proof (cases q)
      case (Inl e)
      note w = write_error [OF os [unfolded Inl]]
      show ?thesis
      proof (cases "io_kind_of e = Interrupted")
        case True
        then have "write_loop fuel os fl dst buf n s1 = (r, s')"
          using step False Suc.prems(2) Inl s1 by (auto simp: caught_def split: if_splits)
        then have "r \<noteq> Inl Running \<and> r \<noteq> Inl Panicked \<and> (\<forall>x. r = Inr x \<longrightarrow> out (world s') = out (world s1) @ drop n buf
            \<and> left (world s') = left (world s1) \<and> patience (world s') \<le> patience (world s1))"
          by (rule Suc.IH) (use w True Suc.prems(2,3) in auto)
        then show ?thesis using w True by auto
      next
        case False
        then show ?thesis
          using step \<open>n \<noteq> length buf\<close> Suc.prems(2) Inl s1 by (auto simp: caught_def failing_def split: if_splits)
      qed
    next
      case (Inr k)
      note w = wrote [OF os [unfolded Inr]]
      show ?thesis
      proof (cases "k = 0")
        case True
        then show ?thesis using step False Suc.prems(2) Inr s1 by (auto simp: caught_def failing_def split: if_splits)
      next
        case False
        then have k: "0 < unat k" by (simp add: unat_gt_0)
        have "write_loop fuel os fl dst buf (n + unat k) s1 = (r, s')"
          using step \<open>n \<noteq> length buf\<close> False Suc.prems(2) Inr s1 by (auto simp: caught_def split: if_splits)
        then have "r \<noteq> Inl Running \<and> r \<noteq> Inl Panicked \<and> (\<forall>x. r = Inr x \<longrightarrow>
            out (world s') = out (world s1) @ drop (n + unat k) buf \<and> left (world s') = left (world s1)
            \<and> patience (world s') \<le> patience (world s1))"
          by (rule Suc.IH) (use w k Suc.prems(2,3) in auto)
        moreover have "take (unat k) (drop n buf) @ drop (n + unat k) buf = drop n buf"
          by (metis append_take_drop_id drop_drop add.commute)
        ultimately show ?thesis using w by auto
      qed
    qed
  qed
qed

lemma copy_all:
  assumes "copy_loop fuel os fl src dst len n s = (r, s')"
    and "length (left (world s)) + patience (world s) < fuel" and "unat n + length (left (world s)) < 2 ^ 64"
    and "\<And>l. len = Some l \<Longrightarrow> n \<le> l"
  shows "r \<noteq> Inl Running \<and> r \<noteq> Inl Panicked \<and> (\<forall>m. r = Inr m \<longrightarrow>
      out (world s') = out (world s) @ asked len n (left (world s))
      \<and> unat m = unat n + length (asked len n (left (world s))) \<and> (\<forall>l. len = Some l \<longrightarrow> m = l))"
  using assms
proof (induction fuel arbitrary: n s)
  case (Suc fuel)
  let ?want = "case len of Some l \<Rightarrow> raw_chunk_len (l - n) COPY_BUFFER_SIZE | None \<Rightarrow> COPY_BUFFER_SIZE"
  note step = Suc.prems(1) [unfolded copy_loop.simps [of "Suc fuel"]]
  show ?case
  proof (cases "len = Some n")
    case True
    then show ?thesis using step by (auto simp: asked_def)
  next
    case False
    then have more: "\<not> (case len of Some l \<Rightarrow> l \<le> n | None \<Rightarrow> False)" and lt: "\<And>l. len = Some l \<Longrightarrow> n < l"
      using Suc.prems(4) by (auto split: option.splits)
    have want: "0 < ?want" using lt by (auto simp: raw_chunk_len_def COPY_BUFFER_SIZE_def word_gt_0 min_def split: option.split)
    obtain q s1 where s1: "sys_text os (ReadSome src ?want) s = (q, s1)" by fastforce
    then have os: "os_text os (ReadSome src ?want) (world s) = (q, world s1)"
      by (auto simp: sys_text_def split: prod.splits)
    show ?thesis
    proof (cases q)
      case (Inl e)
      note w = read_error [OF os [unfolded Inl]]
      show ?thesis
      proof (cases "io_kind_of e = Interrupted")
        case True
        then have "copy_loop fuel os fl src dst len n s1 = (r, s')"
          using step more Inl s1 by (auto simp: caught_def Let_def split: if_splits)
        then show ?thesis using Suc.IH [of n s1] w True Suc.prems(2,3,4) by auto
      next
        case False
        then show ?thesis using step more Inl s1 by (auto simp: caught_def failing_def Let_def split: if_splits)
      qed
    next
      case (Inr b)
      note w = read [OF os [unfolded Inr] want]
      show ?thesis
      proof (cases "b = []")
        case True
        then show ?thesis
          using step more Inr s1 w lt by (auto simp: caught_def failing_def asked_def Let_def split: if_splits option.splits)
      next
        case False
        then have len_b: "0 < length b" by simp
        let ?n = "n + of_nat (length b)"
        have room: "length b \<le> unat l - unat n \<and> unat n \<le> unat l" if "len = Some l" for l
          using w lt [OF that] that by (auto simp: raw_chunk_len_def min_def unat_sub_le word_le_nat_alt word_less_nat_alt split: if_splits)
        have n: "unat ?n = unat n + length b"
          using w Suc.prems(3) by (simp add: unat_word_ariths unat_of_nat)
        have rec: "bindE (write_loop fuel os fl dst b 0) (\<lambda>_. copy_loop fuel os fl src dst len ?n) s1 = (r, s')"
          using step more Inr s1 False by (auto simp: caught_def Let_def split: if_splits)
        obtain p s2 where p: "write_loop fuel os fl dst b 0 s1 = (p, s2)" by fastforce
        have wr: "p \<noteq> Inl Running \<and> p \<noteq> Inl Panicked \<and> (\<forall>x. p = Inr x \<longrightarrow> out (world s2) = out (world s1) @ drop 0 b
            \<and> left (world s2) = left (world s1) \<and> patience (world s2) \<le> patience (world s1))"
          by (rule write_chunk [OF p]) (use w Suc.prems(2) in auto)
        show ?thesis
        proof (cases p)
          case (Inl e)
          then show ?thesis using rec p wr by (auto simp: bindE_def)
        next
          case (Inr x)
          have "copy_loop fuel os fl src dst len ?n s2 = (r, s')" using rec p Inr by (simp add: bindE_def)
          then have "r \<noteq> Inl Running \<and> r \<noteq> Inl Panicked \<and> (\<forall>m. r = Inr m \<longrightarrow>
              out (world s') = out (world s2) @ asked len ?n (left (world s2))
              \<and> unat m = unat ?n + length (asked len ?n (left (world s2))) \<and> (\<forall>l. len = Some l \<longrightarrow> m = l))"
          proof (rule Suc.IH)
            show "?n \<le> l" if "len = Some l" for l using room [OF that] n unfolding word_le_nat_alt by linarith
            have sz: "length (left (world s)) = length b + length (left (world s1))" using w by (metis length_append)
            have s2: "length (left (world s2)) = length (left (world s1))" "patience (world s2) \<le> patience (world s)"
              using w wr Inr by auto
            show "length (left (world s2)) + patience (world s2) < fuel" using sz s2 len_b Suc.prems(2) by linarith
            show "unat ?n + length (left (world s2)) < 2 ^ 64" using sz s2 n Suc.prems(3) by linarith
          qed
          moreover have "asked len n (b @ left (world s1)) = b @ asked len ?n (left (world s1))"
            using w room n by (auto simp: asked_def split: option.split)
          ultimately show ?thesis using w wr Inr n by auto
        qed
      qed
    qed
  qed
qed simp

text \<open>The whole copy, from the opening of the two files to the sync.\<close>

lemma copy_range_exact:
  assumes run: "copy_range fuel os src src_offset dst dst_offset len s = (r, s')"
    and fuel: "length (content (world s)) + patience (world s) < fuel" and small: "length (content (world s)) < 2 ^ 64"
  shows "r \<noteq> Inl Running \<and> r \<noteq> Inl Panicked \<and> (\<forall>m. r = Inr m \<longrightarrow>
      out (world s') = asked len 0 (drop (unat src_offset) (content (world s)))
      \<and> unat m = length (asked len 0 (drop (unat src_offset) (content (world s)))) \<and> (\<forall>l. len = Some l \<longrightarrow> m = l))"
proof -
  let ?asked = "asked len 0 (drop (unat src_offset) (content (world s)))"
  let ?goal = "r \<noteq> Inl Running \<and> r \<noteq> Inl Panicked \<and> (\<forall>m. r = Inr m \<longrightarrow>
      out (world s') = ?asked \<and> unat m = length ?asked \<and> (\<forall>l. len = Some l \<longrightarrow> m = l))"
  have failed: ?goal if "\<exists>e. r = Inl (Failed e)" using that by auto
  from run show ?thesis
    unfolding copy_range_def Let_def open_existing_for_write_def
  proof (elim call_or_failE failed)
    fix s1 s2 s3 s4
    assume s1: "os_unit os (OpenRead src) (world s) = (Inr (), world s1)"
      and s2: "os_unit os (SeekRead src src_offset) (world s1) = (Inr (), world s2)"
      and s3: "os_unit os (OpenWrite dst) (world s2) = (Inr (), world s3)"
      and s4: "os_unit os (SeekWrite dst dst_offset) (world s3) = (Inr (), world s4)"
      and loop: "bindE (copy_loop fuel os (CopyFailed src dst) src dst len 0) (\<lambda>copied.
        bindE (or_fail (\<lambda>e. CopyFailed src dst (''syncing destination'' @ '': '' @ show_io e)) (sys_unit os (SyncFile dst)))
          (\<lambda>_. ret copied)) s4 = (r, s')"
    have start: "left (world s4) = drop (unat src_offset) (content (world s))" "out (world s4) = []"
        "patience (world s4) \<le> patience (world s)"
      using open_source [OF s1] seek_source [OF s2] open_dest [OF s3] seek_dest [OF s4] by auto
    obtain q s5 where q: "copy_loop fuel os (CopyFailed src dst) src dst len 0 s4 = (q, s5)" by fastforce
    have all: "q \<noteq> Inl Running \<and> q \<noteq> Inl Panicked \<and> (\<forall>m. q = Inr m \<longrightarrow>
        out (world s5) = out (world s4) @ asked len 0 (left (world s4))
        \<and> unat m = unat (0 :: u64) + length (asked len 0 (left (world s4))) \<and> (\<forall>l. len = Some l \<longrightarrow> m = l))"
      by (rule copy_all [OF q]) (use start fuel small in auto)
    show ?goal
    proof (cases q)
      case (Inl e)
      then show ?thesis using loop q all by (auto simp: bindE_def)
    next
      case (Inr m)
      have "bindE (or_fail (\<lambda>e. CopyFailed src dst (''syncing destination'' @ '': '' @ show_io e)) (sys_unit os (SyncFile dst)))
          (\<lambda>_. ret m) s5 = (r, s')" using loop q Inr by (simp add: bindE_def)
      then show ?thesis
        by (rule call_or_failE) (use all start Inr sync_dest in auto)
    qed
  qed
qed

end

section \<open>A disk with a schedule\<close>

text \<open>\<open>sd_turns\<close> says what each transfer does: 0 is an interrupt, \<open>k\<close> moves at most \<open>k\<close> bytes; after that every
  transfer moves all it can.\<close>

record sched_disk =
  sd_source :: string
  sd_left :: string
  sd_out :: string
  sd_turns :: "nat list"

definition next_turn :: "sched_disk \<Rightarrow> nat option \<times> sched_disk" where
  "next_turn w = (case sd_turns w of [] \<Rightarrow> (None, w) | k # ks \<Rightarrow> (Some k, w\<lparr>sd_turns := ks\<rparr>))"

definition disk_read :: "nat \<Rightarrow> sched_disk \<Rightarrow> (io_error + string) \<times> sched_disk" where
  "disk_read n w = (case next_turn w of (turn, w') \<Rightarrow>
     if turn = Some 0 then (Inl (IoError Interrupted []), w')
     else (let k = (case turn of Some k \<Rightarrow> min k n | None \<Rightarrow> n) in
       (Inr (take k (sd_left w)), w'\<lparr>sd_left := drop k (sd_left w)\<rparr>)))"

definition disk_write :: "string \<Rightarrow> sched_disk \<Rightarrow> (io_error + u64) \<times> sched_disk" where
  "disk_write b w = (case next_turn w of (turn, w') \<Rightarrow>
     if turn = Some 0 then (Inl (IoError Interrupted []), w')
     else (let k = of_nat (case turn of Some k \<Rightarrow> min k (length b) | None \<Rightarrow> length b) in
       (Inr k, w'\<lparr>sd_out := sd_out w @ take (unat k) b\<rparr>)))"

definition disk_os :: "sched_disk os" where
  "disk_os = \<lparr>os_unit = \<lambda>c w. (Inr (), case c of SeekRead _ n \<Rightarrow> w\<lparr>sd_left := drop (unat n) (sd_source w)\<rparr>
       | SeekWrite _ _ \<Rightarrow> w\<lparr>sd_out := []\<rparr> | _ \<Rightarrow> w),
     os_text = \<lambda>c w. (case c of ReadSome _ n \<Rightarrow> disk_read (unat n) w | _ \<Rightarrow> (Inr [], w)),
     os_bool = \<lambda>_ w. (True, w),
     os_num = \<lambda>c w. (case c of WriteSome _ b \<Rightarrow> disk_write b w | _ \<Rightarrow> (Inr 0, w)),
     os_run = \<lambda>_ w. (Inl (IoError NotFound []), w), os_stat = \<lambda>_ w. (Inl (IoError NotFound []), w),
     os_entries = \<lambda>_ w. (Inr [], w), os_addrs = \<lambda>_ w. (Inr [], w), os_delay = \<lambda>_ _. 0\<rparr>"

interpretation disk: raw_files disk_os src dst sd_source sd_left sd_out "\<lambda>w. length (sd_turns w)" for src dst
proof (unfold_locales, goal_cases)
  case (1 n w b w')
  then have "0 < unat n" by (simp add: unat_gt_0 word_gt_0)
  then show ?case using 1(1)
    by (auto simp: disk_os_def disk_read_def next_turn_def Let_def min_def split: list.splits if_splits option.splits prod.splits)
next
  case (2 n w e w')
  then show ?case
    by (auto simp: disk_os_def disk_read_def next_turn_def Let_def split: list.splits if_splits option.splits prod.splits)
next
  case (3 b w k w')
  have small: "unat (of_nat m :: u64) \<le> m" for m by (simp add: unat_of_nat)
  have "unat (of_nat (min m (length b)) :: u64) \<le> length b" for m using small [of "min m (length b)"] by simp
  then show ?case using 3 small
    by (auto simp: disk_os_def disk_write_def next_turn_def Let_def split: list.splits if_splits option.splits prod.splits)
next
  case (4 b w e w')
  then show ?case
    by (auto simp: disk_os_def disk_write_def next_turn_def Let_def split: list.splits if_splits option.splits prod.splits)
qed (auto simp: disk_os_def)

text \<open>C11: On a disk with any schedule of short reads, short writes and interrupts, a copy comes back within fuel for one
  transfer per byte and interrupt; when it succeeds, the bytes it has written from the offset on are the ones asked
  for, in order, and the count it returns is their number.\<close>

theorem copy_range_scheduled:
  assumes "copy_range fuel disk_os src src_offset dst dst_offset len s = (r, s')"
    and "length (sd_source (world s)) + length (sd_turns (world s)) < fuel" and "length (sd_source (world s)) < 2 ^ 64"
  shows "(\<exists>e. r = Inl (Failed e)) \<or> (\<exists>m. r = Inr m \<and>
      sd_out (world s') = asked len 0 (drop (unat src_offset) (sd_source (world s)))
      \<and> unat m = length (sd_out (world s')) \<and> (\<forall>l. len = Some l \<longrightarrow> m = l))"
  using disk.copy_range_exact [OF assms] by (metis stop.exhaust sum.exhaust)

definition torn_disk :: sched_disk where
  "torn_disk = \<lparr>sd_source = ''..abcdef'', sd_left = [], sd_out = [], sd_turns = [3, 0, 2, 0, 5, 1]\<rparr>"

definition torn_start :: "(sched_disk, unit) machine" where
  "torn_start = \<lparr>world = torn_disk, trace = [], clock = 0, program = ()\<rparr>"

lemma copy_range_scheduled_witness:
  "\<exists>s'. copy_range 30 disk_os ''/dev/sda1'' 2 ''/dev/sdb1'' 0 (Some 5) torn_start = (Inr 5, s') \<and> sd_out (world s') = ''abcde''"
proof -
  obtain r s' where run: "copy_range 30 disk_os ''/dev/sda1'' 2 ''/dev/sdb1'' 0 (Some 5) torn_start = (r, s')" by fastforce
  have "\<not> isl (fst (copy_range 30 disk_os ''/dev/sda1'' 2 ''/dev/sdb1'' 0 (Some 5) torn_start))" by code_simp
  then have "\<not> isl r" using run by simp
  then show ?thesis
    using copy_range_scheduled [OF run] run by (auto simp: torn_start_def torn_disk_def asked_def)
qed

end
