(* ===== verification/Sfdisk_Facts.thy ===== *)
theory Sfdisk_Facts
  imports Sfdisk
begin

text \<open>
  What the rewriting of a partition table in \<open>src/mode/flash/sfdisk.rs\<close> keeps and what it changes: a field
  that is set reads back as the value it was set to, and of all the lines of a dump only the one of the data
  partition and the one that depends on the kind of the table change.
\<close>

section \<open>Fields\<close>

lemma split_once_str_same:
  "split_once_str p (a @ p @ b) = Some (a, b) \<Longrightarrow> split_once_str p (a @ p @ b') = Some (a, b')"
proof (induction a)
  case Nil
  show ?case
  proof (cases "p @ b'")
    case (Cons c cs)
    then have "strip_prefix p (c # cs) = Some b'" using strip_prefix_append [of p b'] by (simp del: strip_prefix_Some)
    then show ?thesis by (simp add: Cons del: strip_prefix_Some)
  qed simp
next
  case (Cons c a)
  have none: "strip_prefix p (c # a @ p @ b) = None"
    using Cons.prems by (auto simp del: strip_prefix_Some split: option.splits)
  have "strip_prefix p (c # a @ p @ b') = None"
  proof (rule ccontr)
    assume "\<not> ?thesis"
    then obtain r where r: "c # a @ p @ b' = p @ r" by auto
    then have "take (length p) ((c # a @ p) @ b') = p" by (metis append_Cons append_assoc append_eq_conv_conj)
    moreover have "take (length p) ((c # a @ p) @ b') = take (length p) (c # a @ p)" by (subst take_append) simp
    ultimately have "take (length p) (c # a @ p) = p" by simp
    then have "c # a @ p @ b = p @ drop (length p) (c # a @ p) @ b"
      by (metis append_Cons append_assoc append_take_drop_id)
    then show False using none strip_prefix_None by blast
  qed
  moreover have "split_once_str p (a @ p @ b) = Some (a, b)"
    using Cons.prems none by (auto split: option.splits)
  ultimately show ?case using Cons.IH by simp
qed

lemma trim_end_shape: "\<exists>w. s = trim_end s @ w \<and> list_all is_ws w"
proof -
  have "s = rev (dropWhile is_ws (rev s)) @ rev (takeWhile is_ws (rev s))"
    by (metis rev_append rev_rev_ident takeWhile_dropWhile_id)
  then show ?thesis unfolding trim_end_def by (intro exI [of _ "rev (takeWhile is_ws (rev s))"]) (auto simp: list_all_iff dest: set_takeWhileD)
qed

lemma trim_word: "ds \<noteq> [] \<Longrightarrow> list_all is_digit ds \<Longrightarrow> list_all is_ws a \<Longrightarrow> list_all is_ws b \<Longrightarrow> trim (a @ ds @ b) = ds"
proof -
  assume ds: "ds \<noteq> []" "list_all is_digit ds" and ws: "list_all is_ws a" "list_all is_ws b"
  have digit: "\<not> is_ws c" if "c \<in> set ds" for c using that ds(2) is_ws_not_digit by (auto simp: list_all_iff)
  have "trim_start (a @ ds @ b) = ds @ b"
    using ws(1) ds(1) digit by (cases ds) (auto simp: trim_start_def list_all_iff dropWhile_append)
  moreover have "trim_end ds = ds"
    using digit ds(1) by (cases ds rule: rev_cases) (auto simp: trim_end_def)
  ultimately show ?thesis using ws(2) by (simp add: trim_def trim_end_append_ws list_all_iff)
qed

lemma digits_then_space:
  assumes "ds \<noteq> []" and "list_all is_digit ds" and "t \<noteq> [] \<Longrightarrow> \<not> is_digit (hd t)" and "parse_u64 (trim_end (ds @ t)) = Some n"
  shows "list_all is_ws t"
proof -
  obtain w where w: "ds @ t = trim_end (ds @ t) @ w" "list_all is_ws w" using trim_end_shape by blast
  have "trim_end (ds @ t) \<noteq> []" using assms(4) by (auto simp: parse_u64_def parse_uint_def parse_digits_def)
  then have "hd (trim_end (ds @ t)) = hd ds" using w(1) assms(1) by (metis hd_append2)
  then have "hd (trim_end (ds @ t)) \<noteq> CHR ''+''" using assms(1,2) not_digit(1) by (metis list.set_sel(1) list_all_iff)
  then have digits: "list_all is_digit (trim_end (ds @ t))"
    using assms(4) by (auto simp: parse_u64_def parse_uint_def parse_digits_def split: list.splits if_splits option.splits)
  have "takeWhile is_digit (ds @ t) = ds"
    using assms(2,3) by (cases t) (auto simp: list_all_iff takeWhile_all)
  moreover have "takeWhile is_digit (trim_end (ds @ t) @ w) = trim_end (ds @ t)"
    using digits w(2) is_ws_not_digit by (cases w) (auto simp: list_all_iff takeWhile_all)
  ultimately have "trim_end (ds @ t) = ds" using w(1) by metis
  then show ?thesis using w by (metis same_append_eq)
qed

text \<open>C15: A field that holds a number and is set reads back as the new value, and nothing else of the line
  changes but the digits of the old number.\<close>

theorem set_field_roundtrip:
  assumes parsed: "parse_field_u64 l field = Inr old" and set: "set_field_u64 l field v = Inr l'"
  shows "parse_field_u64 l' field = Inr v \<and> (\<exists>a ds t. l = a @ ds @ t \<and> l' = a @ show_word v @ t \<and> list_all is_digit ds)"
proof -
  let ?cut = "takeWhile (\<lambda>c. c \<noteq> CHR '','')"
  obtain b r where sp: "split_once_str field l = Some (b, r)" using set by (auto simp: set_field_u64_def split: option.splits)
  define ws ds t where def: "ws = takeWhile is_ws r" "ds = takeWhile is_digit (dropWhile is_ws r)"
    "t = dropWhile is_digit (dropWhile is_ws r)"
  have r: "r = ws @ ds @ t" by (simp add: def)
  have ds: "ds \<noteq> []" "list_all is_digit ds" and ws: "list_all is_ws ws"
    and l': "l' = b @ field @ ws @ show_word v @ t"
    using set sp by (auto simp: set_field_u64_def def list_all_iff dest: set_takeWhileD split: if_splits)
  have word: "show_word v \<noteq> []" "list_all is_digit (show_word v)"
    using show_word_digits by (auto simp: list_all_iff)
  have comma: "\<not> is_ws CHR '',''" "\<not> is_digit CHR '',''" by (simp_all add: is_ws_def is_digit_def)
  have no_comma: "CHR '','' \<notin> set ws" "CHR '','' \<notin> set ds" "CHR '','' \<notin> set (show_word v)"
    using ws ds(2) word(2) comma by (meson list_all_iff)+
  have cut: "?cut (ws @ d @ t) = ws @ d @ ?cut t" if "CHR '','' \<notin> set d" for d
    using no_comma(1) that takeWhile_all [of ws "\<lambda>c. c \<noteq> CHR '',''" "d @ t"] takeWhile_all [of d "\<lambda>c. c \<noteq> CHR '',''" t]
    by fastforce
  have "parse_u64 (trim (ws @ ds @ ?cut t)) = Some old"
    using parsed sp cut [OF no_comma(2)] by (simp add: parse_field_u64_def field_value_def r split: option.splits)
  moreover have "trim_start (ws @ ds @ ?cut t) = ds @ ?cut t"
    using ws ds is_ws_not_digit by (cases ds) (auto simp: trim_start_def list_all_iff dropWhile_append)
  moreover have "t \<noteq> [] \<Longrightarrow> \<not> is_digit (hd t)" unfolding def(3) by (rule hd_dropWhile)
  then have "?cut t \<noteq> [] \<Longrightarrow> \<not> is_digit (hd (?cut t))" by (cases t) (simp_all split: if_splits)
  ultimately have "list_all is_ws (?cut t)" using digits_then_space [OF ds] by (simp add: trim_def)
  then have "trim (?cut (ws @ show_word v @ t)) = show_word v"
    using cut [OF no_comma(3)] word ws by (simp add: trim_word)
  moreover have "split_once_str field l' = Some (b, ws @ show_word v @ t)"
    using split_once_str_same [of field b r "ws @ show_word v @ t"] split_once_str_Some [OF sp] sp l' by simp
  ultimately have "parse_field_u64 l' field = Inr v" by (simp add: parse_field_u64_def field_value_def)
  moreover have "l = (b @ field @ ws) @ ds @ t" "l' = (b @ field @ ws) @ show_word v @ t"
    using split_once_str_Some [OF sp] r l' by simp_all
  ultimately show ?thesis using ds(2) by blast
qed


section \<open>The dump\<close>

text \<open>The second line is the first with the number after the field's first occurrence replaced.\<close>

definition number_replaced :: "string \<Rightarrow> nat \<Rightarrow> string \<Rightarrow> string \<Rightarrow> bool" where
  "number_replaced field n l l' \<longleftrightarrow> (\<exists>a ws ds t. split_once_str field l = Some (a, ws @ ds @ t) \<and> l = a @ field @ ws @ ds @ t
     \<and> l' = a @ field @ ws @ show_nat n @ t \<and> list_all is_ws ws \<and> list_all is_digit ds \<and> ds \<noteq> [])"

lemma set_field_replaces: "set_field_u64 l field v = Inr l' \<Longrightarrow> number_replaced field (unat v) l l'"
proof -
  assume set: "set_field_u64 l field v = Inr l'"
  then obtain b r where sp: "split_once_str field l = Some (b, r)" by (auto simp: set_field_u64_def split: option.splits)
  define ws ds t where def: "ws = takeWhile is_ws r" "ds = takeWhile is_digit (dropWhile is_ws r)"
    "t = dropWhile is_digit (dropWhile is_ws r)"
  have r: "r = ws @ ds @ t" by (simp add: def)
  have "ds \<noteq> []" "l' = b @ field @ ws @ show_word v @ t"
    using set sp by (auto simp: set_field_u64_def def split: if_splits)
  moreover have "list_all is_ws ws" "list_all is_digit ds" by (auto simp: def list_all_iff dest: set_takeWhileD)
  ultimately show ?thesis
    using sp split_once_str_Some [OF sp] unfolding number_replaced_def r show_word_def by blast
qed

text \<open>What a rewritten table is: the line of the data partition has the new size, and one more line follows it,
  the last usable block of a GPT or the size of the extended container of a DOS table.\<close>

definition follows_data :: "table_kind \<Rightarrow> nat \<Rightarrow> nat \<Rightarrow> string list \<Rightarrow> nat \<Rightarrow> string \<Rightarrow> bool" where
  "follows_data t start sectors ls j l' \<longleftrightarrow> (case t of
     Gpt \<Rightarrow> starts_with LAST_LBA_FIELD (trim_start (ls ! j)) \<and> 1 \<le> start + sectors
       \<and> number_replaced LAST_LBA_FIELD (start + sectors - 1) (ls ! j) l'
   | Dos \<Rightarrow> sfdisk_partition_number (ls ! j) = Some PARTITION_NUM_EXTENDED
       \<and> (\<exists>container. parse_field_u64 (ls ! j) START_FIELD = Inr container \<and> unat container \<le> start
            \<and> number_replaced SIZE_FIELD (start - unat container + sectors) (ls ! j) l'))"

lemma position_of_Some: "position_of P xs = Some i \<Longrightarrow> i < length xs \<and> P (xs ! i) \<and> (\<forall>k < i. \<not> P (xs ! k))"
proof (induction xs arbitrary: i)
  case (Cons x xs)
  then show ?case by (auto simp: less_Suc_eq_0_disj split: if_splits)
qed simp

lemma rewrite_layout_specific_follows:
  assumes "rewrite_layout_specific t ls start sectors = Inr ls'"
  obtains j l' where "j < length ls" and "ls' = ls[j := l']" and "follows_data t (unat start) (unat sectors) ls j l'"
proof (cases t)
  case Gpt
  then obtain j e last_lba l' where *: "position_of (\<lambda>l. starts_with LAST_LBA_FIELD (trim_start l)) ls = Some j"
      "checked_add start sectors = Some e" "checked_sub e 1 = Some last_lba" "set_field_u64 (ls ! j) LAST_LBA_FIELD last_lba = Inr l'"
      "ls' = ls[j := l']"
    using assms by (auto simp: rewrite_layout_specific_def rewrite_gpt_def Option.bind_eq_Some_conv split: option.splits sum.splits)
  then have "unat last_lba = unat start + unat sectors - 1" "1 \<le> unat start + unat sectors"
    using checked_add_Some [OF *(2)] checked_sub_Some [OF *(3)] by simp_all
  then have "follows_data t (unat start) (unat sectors) ls j l'"
    using position_of_Some [OF *(1)] set_field_replaces [OF *(4)] Gpt by (simp add: follows_data_def)
  then show ?thesis using that position_of_Some [OF *(1)] *(5) by blast
next
  case Dos
  then obtain j container gap new l' where *: "position_of (\<lambda>l. sfdisk_partition_number l = Some PARTITION_NUM_EXTENDED) ls = Some j"
      "parse_field_u64 (ls ! j) START_FIELD = Inr container" "checked_sub start container = Some gap"
      "checked_add gap sectors = Some new" "set_field_u64 (ls ! j) SIZE_FIELD new = Inr l'" "ls' = ls[j := l']"
    using assms by (auto simp: rewrite_layout_specific_def rewrite_dos_def find_partition_line_def split: option.splits sum.splits)
  have "follows_data t (unat start) (unat sectors) ls j l'"
    using position_of_Some [OF *(1)] *(2) checked_sub_Some [OF *(3)] checked_add_Some [OF *(4)] set_field_replaces [OF *(5)] Dos
    by (auto simp: follows_data_def)
  then show ?thesis using that position_of_Some [OF *(1)] *(6) by blast
qed

text \<open>C14: A rewritten dump is the old one, line by line, but for two numbers: the size of the data partition is twice the
  configured number of KiB, and the last usable block, or the size of the extended container, follows it without wrapping.\<close>

theorem rewrite_dump_exact:
  assumes "rewrite_dump t device dump data_size_kb = Inr dump'"
  shows "\<exists>i start l j l'. i < length (rust_lines dump) \<and> j < length (rust_lines dump)
    \<and> sfdisk_partition_number (rust_lines dump ! i) = Some (PARTITION_NUM_DATA t)
    \<and> parse_field_u64 (rust_lines dump ! i) START_FIELD = Inr start
    \<and> number_replaced SIZE_FIELD (2 * unat data_size_kb) (rust_lines dump ! i) l
    \<and> follows_data t (unat start) (2 * unat data_size_kb) ((rust_lines dump)[i := l]) j l'
    \<and> dump' = join_with [newline] ((rust_lines dump)[i := l, j := l']) @ [newline]"
proof -
  obtain i start sectors l ls' where
    *: "find_partition_line (rust_lines dump) (PARTITION_NUM_DATA t) = Some i"
       "parse_field_u64 (rust_lines dump ! i) START_FIELD = Inr start" "checked_mul data_size_kb SECTORS_PER_KB = Some sectors"
       "set_field_u64 (rust_lines dump ! i) SIZE_FIELD sectors = Inr l"
       "rewrite_layout_specific t ((rust_lines dump)[i := l]) start sectors = Inr ls'"
       "dump' = join_with [newline] ls' @ [newline]"
    using assms by (auto simp: rewrite_dump_def Let_def split: option.splits sum.splits)
  have sectors: "unat sectors = 2 * unat data_size_kb" using checked_mul_Some [OF *(3)] by (simp add: SECTORS_PER_KB_def)
  obtain j l' where **: "j < length (rust_lines dump)" "ls' = (rust_lines dump)[i := l, j := l']"
      "follows_data t (unat start) (unat sectors) ((rust_lines dump)[i := l]) j l'"
    using rewrite_layout_specific_follows [OF *(5)] by (metis length_list_update)
  show ?thesis
  proof (rule exI [of _ i], rule exI [of _ start], rule exI [of _ l], rule exI [of _ j], rule exI [of _ l'], intro conjI)
  qed (use * ** sectors set_field_replaces [OF *(4)] position_of_Some [OF *(1) [unfolded find_partition_line_def]] in simp_all)
qed

section \<open>A small table\<close>

definition small_lines :: "string list" where
  "small_lines = [''unit: sectors'', ''last-lba: 99'', ''sector-size: 512'', [], ''/dev/sda7 : start=  40, size=  8, type=X'']"

definition small_dump :: string where
  "small_dump = concat (map (\<lambda>l. l @ [newline]) small_lines)"

definition data_line :: string where "data_line = ''/dev/sda7 : start=  40, size=  8, type=X''"

lemmas number_eval = parse_u64_def parse_uint_def parse_digits_def digits_val_def digit_val_def is_digit_def
  trim_def trim_start_def trim_end_def is_ws_def

lemma set_field_roundtrip_witness: "parse_field_u64 ''/dev/sda7 : start=  40, size=  100, type=X'' SIZE_FIELD = Inr 100"
proof -
  have "parse_field_u64 data_line SIZE_FIELD = Inr 8"
    by (simp add: data_line_def parse_field_u64_def field_value_def SIZE_FIELD_def number_eval)
  moreover have "show_word (100 :: u64) = ''100''" by (simp add: show_word_def show_nat.simps digit_char_def char_of_eq_iff)
  then have "set_field_u64 data_line SIZE_FIELD 100 = Inr ''/dev/sda7 : start=  40, size=  100, type=X''"
    by (simp add: data_line_def set_field_u64_def SIZE_FIELD_def number_eval Let_def)
  ultimately show ?thesis using set_field_roundtrip by blast
qed

lemma small_dump_lines: "rust_lines small_dump = small_lines"
  unfolding small_dump_def by (rule rust_lines_unlines) (auto simp: small_lines_def)

lemma small_scale: "verify_sector_scale small_dump = Inr ()"
  by (simp add: verify_sector_scale_def small_dump_lines small_lines_def UNIT_FIELD_PREFIX_def SECTOR_SIZE_FIELD_PREFIX_def
      field_value_def UNIT_SECTORS_VALUE_def parse_field_u64_def SECTOR_SIZE_def starts_with_def number_eval)

lemma small_find: "find_partition_line small_lines 7 = Some 4"
proof -
  have "map split_ws small_lines = [[''unit:'', ''sectors''], [''last-lba:'', ''99''], [''sector-size:'', ''512''], [],
      [''/dev/sda7'', '':'', ''start='', ''40,'', ''size='', ''8,'', ''type=X'']]"
    by code_simp
  moreover have "partition_suffix ''/dev/sda7'' = Some 7"
  proof -
    have "file_name ''/dev/sda7'' = Some ''sda7''" by code_simp
    then show ?thesis by (simp add: partition_suffix_def parse_u32_def parse_uint_def parse_digits_def digits_val_def digit_val_def is_digit_def)
  qed
  ultimately show ?thesis
    by (simp add: find_partition_line_def small_lines_def sfdisk_partition_number_def DEVICE_LINE_PREFIX_def starts_with_def)
qed

lemma small_fields:
  "parse_field_u64 (small_lines ! 4) START_FIELD = Inr 40"
  "set_field_u64 (small_lines ! 4) SIZE_FIELD 100 = Inr ''/dev/sda7 : start=  40, size=  100, type=X''"
  "set_field_u64 (small_lines ! 1) LAST_LBA_FIELD 139 = Inr ''last-lba: 139''"
  by (simp_all add: small_lines_def parse_field_u64_def field_value_def set_field_u64_def START_FIELD_def SIZE_FIELD_def
      LAST_LBA_FIELD_def number_eval Let_def show_word_def show_nat.simps digit_char_def char_of_eq_iff)

lemma small_layout:
  "rewrite_layout_specific Gpt (small_lines[4 := l]) 40 100 = Inr (small_lines[4 := l, 1 := ''last-lba: 139''])"
  using small_fields(3)
  by (simp add: rewrite_layout_specific_def rewrite_gpt_def small_lines_def LAST_LBA_FIELD_def trim_start_def is_ws_def
      starts_with_def checked_add_def checked_sub_def)

lemma rewrite_small: "rewrite_dump Gpt ''/dev/sda'' small_dump 50
  = Inr (join_with [newline] (small_lines[4 := ''/dev/sda7 : start=  40, size=  100, type=X'', 1 := ''last-lba: 139'']) @ [newline])"
  by (simp only: rewrite_dump_def Let_def small_scale small_dump_lines small_find small_fields small_layout PARTITION_NUM_DATA_def
      SECTORS_PER_KB_def SECTOR_SIZE_def sum.case option.case table_kind.case) (simp add: checked_mul_def small_fields small_layout)

lemma rewrite_dump_exact_witness: "\<exists>i l. i < length small_lines \<and> number_replaced SIZE_FIELD 100 (small_lines ! i) l"
  using rewrite_dump_exact [OF rewrite_small] by (auto simp: small_dump_lines)

end
