(* ===== verification/Guarded.thy ===== *)
theory Guarded
  imports Trace_Logic
begin

text \<open>
  Derived rules for programs that check first and act then. \<open>guarded N A m s\<close>: the calls the run of \<open>m\<close> from \<open>s\<close> makes
  are a prefix of calls satisfying \<open>N\<close>, and after it nothing and \<open>m\<close> has failed, or, from a state on that this prefix has
  led to, calls that satisfy \<open>A\<close> together with that state and the result. The rules hand every state of the run on, so that
  \<open>A\<close> can say of the state that it was reached from \<open>s\<close> by the checks of this very run.
\<close>

lemma brings_sure:
  assumes "calls_only P m" and "never_fails m"
  shows "brings (\<lambda>r t. \<not> isl r \<and> (\<forall>c \<in> set t. P (fst c))) m"
proof (rule bringsI)
  fix s r s'
  assume run: "m s = (r, s')"
  obtain t where "trace s' = trace s @ t" "\<forall>c \<in> set t. P (fst c)" using calls_only_split [OF assms(1) run] by blast
  moreover have "\<not> isl r" using never_failsD [OF assms(2) run] by auto
  ultimately show "\<exists>t. trace s' = trace s @ t \<and> \<not> isl r \<and> (\<forall>c \<in> set t. P (fst c))" by blast
qed

definition guarded :: "(call \<Rightarrow> bool) \<Rightarrow> (('w, 'p) machine \<Rightarrow> 'e + 'a \<Rightarrow> (call \<times> bool) list \<Rightarrow> bool) \<Rightarrow>
    (('w, 'p) machine, 'e, 'a) io \<Rightarrow> ('w, 'p) machine \<Rightarrow> bool" where
  "guarded N A m s \<longleftrightarrow> (\<exists>t u. trace (snd (m s)) = trace s @ t @ u \<and> (\<forall>c \<in> set t. N (fst c))
     \<and> (isl (fst (m s)) \<and> u = [] \<or> (\<exists>s2. trace s2 = trace s @ t \<and> A s2 (fst (m s)) u)))"

lemma guardedD:
  "guarded N A m s \<Longrightarrow> m s = (r, s') \<Longrightarrow> \<exists>t u. trace s' = trace s @ t @ u \<and> (\<forall>c \<in> set t. N (fst c))
     \<and> (isl r \<and> u = [] \<or> (\<exists>s2. trace s2 = trace s @ t \<and> A s2 r u))"
  unfolding guarded_def by (metis fst_conv snd_conv)

lemma guarded_fails [simp]: "guarded N A (throw e) s" "guarded N A (lift_res (Inl e)) s"
  by (auto simp: guarded_def)

lemma guarded_if: "(b \<Longrightarrow> guarded N A m s) \<Longrightarrow> (\<not> b \<Longrightarrow> guarded N A n s) \<Longrightarrow> guarded N A (if b then m else n) s"
  by simp

text \<open>What comes before the check only makes harmless calls; what follows may use what it returned and where it led.\<close>

lemma guarded_after:
  assumes m: "calls_only N m" and f: "\<And>x s1. m s = (Inr x, s1) \<Longrightarrow> guarded N A (f x) s1"
  shows "guarded N A (bindE m f) s"
proof -
  obtain r s1 where run: "m s = (r, s1)" by fastforce
  obtain t where t: "trace s1 = trace s @ t" "\<forall>c \<in> set t. N (fst c)" using calls_only_split [OF m run] by blast
  show ?thesis
  proof (cases r)
    case (Inl e)
    then show ?thesis using run t by (auto simp: guarded_def bindE_def)
  next
    case (Inr x)
    obtain v u where "trace (snd (f x s1)) = trace s1 @ v @ u" "\<forall>c \<in> set v. N (fst c)"
        "isl (fst (f x s1)) \<and> u = [] \<or> (\<exists>s2. trace s2 = trace s1 @ v \<and> A s2 (fst (f x s1)) u)"
      using f [of x s1] run Inr unfolding guarded_def by blast
    then show ?thesis
      using run t Inr unfolding guarded_def by (intro exI [of _ "t @ v"] exI [of _ u]) (auto simp: bindE_def)
  qed
qed

text \<open>The check itself, and what is done once it has passed.\<close>

lemma guarded_check:
  assumes m: "calls_only N m" and f: "\<And>x. brings (R x) (f x)"
    and act: "\<And>x s1 r u. m s = (Inr x, s1) \<Longrightarrow> R x r u \<Longrightarrow> A s1 r u"
  shows "guarded N A (bindE m f) s"
proof -
  obtain r s1 where run: "m s = (r, s1)" by fastforce
  obtain t where t: "trace s1 = trace s @ t" "\<forall>c \<in> set t. N (fst c)" using calls_only_split [OF m run] by blast
  show ?thesis
  proof (cases r)
    case (Inl e)
    then show ?thesis using run t by (auto simp: guarded_def bindE_def)
  next
    case (Inr x)
    obtain q s2 where q: "f x s1 = (q, s2)" by fastforce
    obtain u where "trace s2 = trace s1 @ u" "R x q u" using bringsD [OF f q] by blast
    then show ?thesis
      using run q t Inr act [of x s1 q u] unfolding guarded_def
      by (intro exI [of _ t] exI [of _ u]) (auto simp: bindE_def)
  qed
qed

end
