(* ===== verification/Clone_Safety.thy ===== *)
theory Clone_Safety
  imports Clone Guarded "HOL-Library.Sublist"
begin

text \<open>
  What the clone of \<open>src/mode/flash/clone.rs\<close> may change, and when: nothing before the destination has been
  resolved and found to be a whole disk other than the booted one, and after that only this disk, its partitions and
  the firmware's boot entries. The locale states what the sequence relies on, the interpretation shows that the
  operations of \<open>RealCloneOps\<close> keep to it.
\<close>

section \<open>What a call can change\<close>

text \<open>The command lines that write, with the device they write to; the firmware's variables are the place \<open>efivarfs\<close>.\<close>

definition tool_within :: "(string \<Rightarrow> bool) \<Rightarrow> string \<Rightarrow> string list \<Rightarrow> bool" where
  "tool_within P cmd args \<longleftrightarrow>
     (cmd = SFDISK_CMD \<and> (\<exists>d. args = [SFDISK_DUMP_FLAG, d]))
   \<or> (cmd = SFDISK_CMD \<and> (\<exists>d. args = [d] \<and> P d))
   \<or> (cmd = SFDISK_CMD \<and> (\<exists>d n u. args = part_uuid_args d n u \<and> P d))
   \<or> (cmd = MKFS_EXT4_CMD \<and> (\<exists>d. args = [''-F'', ''-q'', d] \<and> P d))
   \<or> (cmd = TUNE2FS_CMD \<and> (\<exists>d label. args = [d, ''-c'', ''-1'', ''-i'', ''0'', ''-L'', label] \<and> P d))
   \<or> (cmd = FATLABEL_CMD \<and> (\<exists>d. args = [''-i'', ''-r'', d] \<and> P d))
   \<or> (cmd = E2IMAGE_CMD \<and> (\<exists>src d. args = [''-ra'', ''-p'', src, d] \<and> P d))
   \<or> (cmd = EFIBOOTMGR_CMD \<and> P (fs_type_str Efivarfs))"

text \<open>A mount can change what it mounts. Reading, waiting, unmounting and syncing change nothing; every call that is
  not listed counts as a change.\<close>

definition changes_within :: "(string \<Rightarrow> bool) \<Rightarrow> call \<Rightarrow> bool" where
  "changes_within P c = (case c of
     Spawn cmd args _ \<Rightarrow> tool_within P cmd args
   | SpawnChild cmd args \<Rightarrow> tool_within P cmd args
   | MountCall src _ _ _ _ \<Rightarrow> (case src of Some d \<Rightarrow> P d | None \<Rightarrow> False)
   | MakeDirs p \<Rightarrow> P p | WriteFile p _ \<Rightarrow> P p | CopyFile _ p \<Rightarrow> P p
   | OpenWrite p \<Rightarrow> P p | WriteSome p _ \<Rightarrow> P p | WriteAll p _ \<Rightarrow> P p | SeekWrite p _ \<Rightarrow> P p | SyncFile p \<Rightarrow> P p
   | ReadText _ \<Rightarrow> True | Exists _ \<Rightarrow> True | Canonicalize _ \<Rightarrow> True | Stat _ \<Rightarrow> True | SleepMs _ \<Rightarrow> True
   | OpenRead _ \<Rightarrow> True | SeekRead _ _ \<Rightarrow> True | ReadSome _ _ \<Rightarrow> True | ReadExact _ _ \<Rightarrow> True
   | UmountCall _ \<Rightarrow> True | SyncAll \<Rightarrow> True
   | MakePipe \<Rightarrow> True | ClonePipe \<Rightarrow> True | WriteStdin _ _ \<Rightarrow> True | ReadChild _ _ \<Rightarrow> True | WaitChild _ \<Rightarrow> True
   | _ \<Rightarrow> False)"

abbreviation changes_nothing :: "call \<Rightarrow> bool" where
  "changes_nothing \<equiv> changes_within (\<lambda>_. False)"

lemma tool_within_mono: "tool_within P cmd args \<Longrightarrow> (\<And>p. P p \<Longrightarrow> Q p) \<Longrightarrow> tool_within Q cmd args"
  unfolding tool_within_def by (elim disjE conjE exE) (simp_all add: part_uuid_args_def)

lemma changes_within_mono: "changes_within P c \<Longrightarrow> (\<And>p. P p \<Longrightarrow> Q p) \<Longrightarrow> changes_within Q c"
  by (cases c) (auto simp: changes_within_def elim: tool_within_mono split: option.splits)

text \<open>The destination of a clone: the disk, its partitions, and the places the boot partition is mounted at.\<close>

definition clone_area :: "string \<Rightarrow> string \<Rightarrow> bool" where
  "clone_area dst p \<longleftrightarrow> p = dst \<or> (\<exists>n. p = destination_partition dst n) \<or> p = fs_type_str Efivarfs
     \<or> prefix CLONE_BOOT p \<or> prefix EFI_BOOT p"

section \<open>The sequence\<close>

locale clone_tools =
  fixes ops :: "('w, 'p) machine clone_ops" and quiet :: "call \<Rightarrow> bool" and confined :: "string \<Rightarrow> call \<Rightarrow> bool"
    and approved :: "string \<Rightarrow> string \<Rightarrow> ('w, 'p) machine \<Rightarrow> ('w, 'p) machine \<Rightarrow> bool"
  assumes quiet_confined: "quiet c \<Longrightarrow> confined dst c"
    and quiet_ops: "calls_only quiet (co_fresh_uuid ops)" "calls_only quiet (co_resolve_destination ops dst)"
      "calls_only quiet (co_validate_destination ops dst src)" "calls_only quiet (co_unmount_rootfs ops rootfs)"
      "calls_only quiet (co_dump ops src)" "calls_only quiet (co_verify_partitions ops dst)" "calls_only quiet (co_sync ops)"
    and approves: "co_validate_destination ops dst src s = (Inr x, s2) \<Longrightarrow> approved dst src s s2"
    and confined_disk: "calls_only (confined dst) (co_apply ops dst dump)"
      "calls_only (confined dst) (co_set_part_uuid ops dst n uuid)"
      "calls_only (confined dst) (co_copy_range ops src a dst b len)"
    and confined_part: "calls_only (confined dst) (co_copy_range ops src a (destination_partition dst n) b len)"
      "calls_only (confined dst) (co_reformat ops (destination_partition dst n) label)"
      "calls_only (confined dst) (co_e2image ops src (destination_partition dst n))"
      "calls_only (confined dst) (co_new_volume_id ops (destination_partition dst n))"
      "calls_only (confined dst) (co_write_grubenv ops (destination_partition dst n))"
    and confined_efi: "calls_only (confined dst) (op_mount_efivarfs (co_efi ops))"
      "calls_only (confined dst) (op_efibootmgr (co_efi ops) args)"
      "calls_only (confined dst) (op_write_entry_dump (co_efi ops) (destination_partition dst n) content)"
begin

lemma loud: "calls_only quiet m \<Longrightarrow> calls_only (confined dst) m"
  by (erule calls_only_mono) (rule quiet_confined)

lemma handle_efi_confined: "calls_only (confined dst) (handle_efi (co_efi ops) dst (destination_partition dst n))"
  unfolding handle_efi_def by (intro calls_intros confined_efi)

lemma finish_confined: "calls_only (confined dst) (finish_clone ft ops constants dst uuids)"
  unfolding finish_clone_def Let_def
  by (auto intro!: calls_intros confined_disk confined_part handle_efi_confined split: bootloader_kind.split prod.split)

lemma clone_onto_confined: "calls_only (confined dst) (clone_onto ft ops constants l src dst uuids)"
  unfolding clone_onto_def Let_def copy_partition_def
  by (intro calls_intros finish_confined confined_disk confined_part loud quiet_ops)

lemma fresh_uuids_quiet: "calls_only quiet (fresh_uuids t ops)"
  unfolding fresh_uuids_def by (cases t) (auto intro!: calls_intros quiet_ops)

text \<open>What a run from \<open>s\<close> has done when it may begin to write: the destination it was asked for is resolved and approved.\<close>

definition settled :: "table_kind \<Rightarrow> string \<Rightarrow> string \<Rightarrow> string \<Rightarrow> ('w, 'p) machine \<Rightarrow> ('w, 'p) machine \<Rightarrow> bool" where
  "settled t requested dst src s s2 \<longleftrightarrow> (\<exists>uuids a b. fresh_uuids t ops s = (Inr uuids, a)
     \<and> co_resolve_destination ops requested a = (Inr dst, b) \<and> approved dst src b s2)"

lemma clone_guarded:
  "guarded quiet (\<lambda>s2 _ u. \<exists>dst. settled (table ft) requested dst (base (root_dev l)) s s2 \<and> (\<forall>c \<in> set u. confined dst (fst c)))
     (clone_with ft ops constants l rootfs requested) s"
  unfolding clone_with_def Let_def
proof (rule guarded_after [OF fresh_uuids_quiet], rule guarded_after [OF quiet_ops(2)])
  fix uuids a dst b
  assume "fresh_uuids (table ft) ops s = (Inr uuids, a)" and "co_resolve_destination ops requested a = (Inr dst, b)"
  then have settle: "approved dst src b s2 \<Longrightarrow> settled (table ft) requested dst src s s2" for src s2
    unfolding settled_def by blast
  have rest: "calls_only (confined dst) (bindE (co_unmount_rootfs ops rootfs)
      (\<lambda>_. bindE (clone_onto ft ops constants l (base (root_dev l)) dst uuids) (\<lambda>_. co_sync ops)))"
    by (intro calls_intros clone_onto_confined loud quiet_ops)
  show "guarded quiet (\<lambda>s2 _ u. \<exists>dst. settled (table ft) requested dst (base (root_dev l)) s s2 \<and> (\<forall>c \<in> set u. confined dst (fst c)))
     (bindE (co_validate_destination ops dst (base (root_dev l))) (\<lambda>_. bindE (co_unmount_rootfs ops rootfs)
      (\<lambda>_. bindE (clone_onto ft ops constants l (base (root_dev l)) dst uuids) (\<lambda>_. co_sync ops)))) b"
    by (rule guarded_check [OF quiet_ops(3) brings_calls [OF rest]]) (use approves settle in blast)
qed

end

section \<open>The operations of the program\<close>

text \<open>The two devices are block devices with different numbers, and the destination is the whole disk it belongs to.\<close>

definition approved :: "'w os \<Rightarrow> devnum_codec \<Rightarrow> string \<Rightarrow> string \<Rightarrow> ('w, 'p) machine \<Rightarrow> ('w, 'p) machine \<Rightarrow> bool" where
  "approved os dn dst src s s2 \<longleftrightarrow> (\<exists>dst_dev src_dev a b. block_devnum os dst s = (Inr dst_dev, a)
     \<and> block_devnum os src a = (Inr src_dev, b) \<and> dst_dev \<noteq> src_dev
     \<and> whole_disk_devnum os dn SYS_DEV_BLOCK dst_dev b = (Inr (Some dst_dev) :: flash_error stop + u64 option, s2))"

lemma or_fail_InrE: "or_fail g m s = (Inr x, s1) \<Longrightarrow> m s = (Inr x, s1)"
  by (auto simp: or_fail_def map_err_def split: prod.splits sum.splits)

lemma refusal_None: "refusal d disk src = None \<Longrightarrow> d \<noteq> src \<and> disk = Some d"
  by (auto simp: refusal_def split: if_splits option.splits)

lemma validate_approves:
  assumes "validate_destination os dn dst src s = (Inr x, s2)"
  shows "approved os dn dst src s s2"
proof -
  have "validate_devices os dn SYS_DEV_BLOCK dst src s = (Inr x, s2)" using assms by (simp add: validate_destination_def)
  then show ?thesis
    unfolding validate_devices_def Let_def
  proof (elim bindE_InrE)
    fix dst_dev a src_dev b disk c
    assume d: "or_fail (InvalidDestination dst) (block_devnum os dst) s = (Inr dst_dev, a)"
      and m: "or_fail (\<lambda>why. InvalidDestination dst (''the booted disk '' @ src @ '': '' @ why)) (block_devnum os src) a = (Inr src_dev, b)"
      and w: "whole_disk_devnum os dn SYS_DEV_BLOCK dst_dev b = (Inr disk :: flash_error stop + u64 option, c)"
      and r: "(case refusal dst_dev disk src_dev of None \<Rightarrow> ret ()
        | Some why \<Rightarrow> if why = REASON_IDENTICAL_DISK \<or> why = REASON_SOURCE_PARTITION
            then failing (InvalidDestination dst (why @ '' '' @ src)) else failing (InvalidDestination dst why)) c = (Inr x, s2)"
    have "refusal dst_dev disk src_dev = None" "c = s2"
      using r by (auto simp: failing_def split: option.splits if_splits)
    then have "dst_dev \<noteq> src_dev" "disk = Some dst_dev" "c = s2" using refusal_None by auto
    then show ?thesis
      unfolding approved_def using or_fail_InrE [OF d] or_fail_InrE [OF m] w by blast
  qed
qed

lemma clone_area_place:
  "clone_area dst dst" "clone_area dst (destination_partition dst n)" "clone_area dst (fs_type_str Efivarfs)"
  "clone_area dst CLONE_BOOT" "clone_area dst EFI_BOOT"
  by (auto simp: clone_area_def)

lemma clone_area_files:
  "parent (path_join CLONE_BOOT GRUBENV_TARGET) = Some p \<Longrightarrow> clone_area dst p"
  "clone_area dst (path_join CLONE_BOOT GRUBENV_TARGET)"
  "parent (path_join EFI_BOOT EFI_ENTRY_DUMP_FILE) = Some p \<Longrightarrow> clone_area dst p"
  "clone_area dst (path_join EFI_BOOT EFI_ENTRY_DUMP_FILE)"
proof -
  have files: "parent (path_join CLONE_BOOT GRUBENV_TARGET) = Some (CLONE_BOOT @ ''/EFI/BOOT'')"
      "path_join CLONE_BOOT GRUBENV_TARGET = CLONE_BOOT @ ''/'' @ GRUBENV_TARGET"
      "parent (path_join EFI_BOOT EFI_ENTRY_DUMP_FILE) = Some (EFI_BOOT @ ''/EFI/BOOT'')"
      "path_join EFI_BOOT EFI_ENTRY_DUMP_FILE = EFI_BOOT @ ''/'' @ EFI_ENTRY_DUMP_FILE"
    by code_simp+
  show "clone_area dst (path_join CLONE_BOOT GRUBENV_TARGET)" "clone_area dst (path_join EFI_BOOT EFI_ENTRY_DUMP_FILE)"
    by (simp_all add: clone_area_def files(2,4))
  show "parent (path_join CLONE_BOOT GRUBENV_TARGET) = Some p \<Longrightarrow> clone_area dst p"
    "parent (path_join EFI_BOOT EFI_ENTRY_DUMP_FILE) = Some p \<Longrightarrow> clone_area dst p"
    by (auto simp: clone_area_def files(1,3))
qed

text \<open>The single calls, as far as the sequence makes them.\<close>

lemma within_calls:
  "changes_within P (ReadText p)" "changes_within P (Exists p)" "changes_within P (Canonicalize p)" "changes_within P (Stat p)"
  "changes_within P (SleepMs ms)" "changes_within P (OpenRead p)" "changes_within P (SeekRead p n)" "changes_within P (ReadSome p n)"
  "changes_within P (ReadExact p n)" "changes_within P (UmountCall p)" "changes_within P SyncAll" "changes_within P MakePipe"
  "changes_within P ClonePipe" "changes_within P (WriteStdin p w)" "changes_within P (ReadChild p n)" "changes_within P (WaitChild p)"
  "P p \<Longrightarrow> changes_within P (OpenWrite p)" "P p \<Longrightarrow> changes_within P (WriteSome p w)" "P p \<Longrightarrow> changes_within P (SeekWrite p n)"
  "P p \<Longrightarrow> changes_within P (SyncFile p)" "P p \<Longrightarrow> changes_within P (MakeDirs p)" "P p \<Longrightarrow> changes_within P (CopyFile q p)"
  "P p \<Longrightarrow> changes_within P (WriteFile p w)" "P p \<Longrightarrow> changes_within P (MountCall (Some p) m fs fl d)"
  by (simp_all add: changes_within_def)

lemma within_tools:
  "changes_within P (Spawn SFDISK_CMD [SFDISK_DUMP_FLAG, d] i)"
  "P d \<Longrightarrow> changes_within P (SpawnChild SFDISK_CMD [d])"
  "P d \<Longrightarrow> changes_within P (Spawn SFDISK_CMD (part_uuid_args d n u) i)"
  "P d \<Longrightarrow> changes_within P (Spawn MKFS_EXT4_CMD [''-F'', ''-q'', d] i)"
  "P d \<Longrightarrow> changes_within P (Spawn TUNE2FS_CMD [d, ''-c'', ''-1'', ''-i'', ''0'', ''-L'', label] i)"
  "P d \<Longrightarrow> changes_within P (Spawn FATLABEL_CMD [''-i'', ''-r'', d] i)"
  "P d \<Longrightarrow> changes_within P (SpawnChild E2IMAGE_CMD [''-ra'', ''-p'', src, d])"
  "P (fs_type_str Efivarfs) \<Longrightarrow> changes_within P (Spawn EFIBOOTMGR_CMD args i)"
  unfolding changes_within_def call.case tool_within_def by blast+

lemma within_mount_fs: "P source \<Longrightarrow> source \<noteq> [] \<Longrightarrow> calls_only (changes_within P) (mount_fs os source tgt opts)"
  unfolding mount_fs_def by (auto intro!: calls_intros within_calls)

lemmas within_intros = calls_intros within_calls within_tools

section \<open>Before the check\<close>

lemma wait_for_block_trace:
  "\<exists>t. trace (snd (wait_for_block_loop os start dst secs s)) = trace s @ t \<and> (\<forall>c \<in> set t. changes_within P (fst c))"
proof (induction os start dst secs s rule: wait_for_block_loop.induct)
  case (1 os start dst secs s)
  obtain found s1 where run: "test_path os (Exists dst) s = (found, s1)" by fastforce
  have s1: "trace s1 = trace s @ [(Exists dst, found)]" using run by (auto simp: test_path_def split: prod.splits)
  show ?case
  proof (cases "found \<or> secs * 1000 \<le> clock s1 - start")
    case True
    then show ?thesis
      using run s1 by (subst wait_for_block_loop.simps) (auto simp: within_calls)
  next
    case False
    let ?s2 = "sleep_for os DEST_DEVICE_POLL_INTERVAL_MS s1"
    obtain t where t: "trace (snd (wait_for_block_loop os start dst secs ?s2)) = trace ?s2 @ t" "\<forall>c \<in> set t. changes_within P (fst c)"
      using 1 [OF run [symmetric]] False by auto
    have "trace ?s2 = trace s1 @ [(SleepMs (of_nat DEST_DEVICE_POLL_INTERVAL_MS), True)]" by (simp add: sleep_for_def)
    then show ?thesis
      using run s1 t False by (subst wait_for_block_loop.simps) (auto simp: within_calls)
  qed
qed

lemma wait_for_block_calls: "calls_only (changes_within P) (wait_for_block_loop os start dst secs)"
  unfolding calls_only_def using wait_for_block_trace by blast

lemma resolve_calls: "calls_only (changes_within P) (resolve_destination os dst)"
proof -
  have "calls_only (changes_within P) (wait_for_block_device os dst secs)" for secs
    using wait_for_block_calls unfolding calls_only_def wait_for_block_device_def by blast
  then show ?thesis unfolding resolve_destination_def by (intro within_intros)
qed

lemma devnum_calls: "calls_only (changes_within P) (block_devnum os p)" "calls_only (changes_within P) (whole_disk_devnum os dn dir devnum)"
  unfolding block_devnum_def whole_disk_devnum_def Let_def by (auto intro!: within_intros split: sum.split)

lemma validate_calls: "calls_only (changes_within P) (validate_destination os dn dst src)"
  unfolding validate_destination_def validate_devices_def Let_def
  by (auto intro!: within_intros devnum_calls split: option.split)

lemma unmount_rootfs_calls: "calls_only (changes_within P) (unmount_rootfs os rootfs)"
  unfolding unmount_rootfs_def sync_filesystems_def unmount_if_mounted_def is_path_mounted_def umount_def
  by (auto intro!: within_intros)

lemma dump_calls: "calls_only (changes_within P) (dump_table os device)"
  unfolding dump_table_def Let_def by (auto intro!: within_intros)

lemma verify_calls: "calls_only (changes_within P) (verify_destination_partitions t os dst)"
  unfolding verify_destination_partitions_def verify_partition_def by (auto intro!: within_intros split: sum.split)

lemma fresh_uuid_calls: "calls_only (changes_within P) (fresh_uuid uuid_text os)"
  unfolding fresh_uuid_def by (intro within_intros)

section \<open>After the check\<close>

lemma apply_calls: "P dst \<Longrightarrow> calls_only (changes_within P) (apply_table os dst dump)"
  unfolding apply_table_def Let_def by (auto intro!: within_intros split: sum.split)

lemma part_uuid_calls: "P dst \<Longrightarrow> calls_only (changes_within P) (set_part_uuid os dst n uuid)"
  unfolding set_part_uuid_def Let_def by (auto intro!: within_intros)

lemma write_loop_calls: "P dst \<Longrightarrow> calls_only (changes_within P) (write_loop fuel os g dst buf n)"
proof (induction fuel arbitrary: n)
  case 0
  then show ?case by (subst write_loop.simps) (auto intro!: within_intros)
next
  case (Suc fuel)
  then show ?case by (subst write_loop.simps) (auto intro!: within_intros split: sum.split)
qed

lemma copy_loop_calls: "P dst \<Longrightarrow> calls_only (changes_within P) (copy_loop fuel os g src dst len n)"
proof (induction fuel arbitrary: n)
  case 0
  then show ?case by (subst copy_loop.simps) (auto intro!: within_intros)
next
  case (Suc fuel)
  then show ?case
    by (subst copy_loop.simps) (auto intro!: within_intros write_loop_calls simp: Let_def split: sum.split option.split)
qed

lemma copy_range_calls: "P dst \<Longrightarrow> calls_only (changes_within P) (copy_range fuel os src a dst b len)"
  unfolding copy_range_def Let_def open_existing_for_write_def by (intro within_intros copy_loop_calls)

lemma reformat_calls: "P device \<Longrightarrow> calls_only (changes_within P) (reformat_ext4 os device label)"
  unfolding reformat_ext4_def format_command_def by (auto intro!: within_intros)

lemma e2image_output_calls: "calls_only (changes_within P) (e2image_output fuel os tail)"
  by (induction fuel arbitrary: tail) (auto intro!: within_intros split: sum.split)

lemma e2image_calls: "P dst \<Longrightarrow> calls_only (changes_within P) (run_e2image fuel os src dst)"
  unfolding run_e2image_def by (auto intro!: within_intros e2image_output_calls)

lemma volume_id_calls: "P boot \<Longrightarrow> calls_only (changes_within P) (new_volume_id os boot)"
  unfolding new_volume_id_def Let_def by (auto intro!: within_intros)

lemma with_mount_calls:
  assumes "P source" and "source \<noteq> []" and "P tgt" and "calls_only (changes_within P) (work tgt)"
  shows "calls_only (changes_within P) (with_mount os source tgt options work)"
  unfolding with_mount_def umount_def
proof (intro calls_only_bindE calls_only_stop calls_only_attempt calls_only_caught within_mount_fs assms)
qed (auto intro!: within_intros assms split: sum.split)

lemma grubenv_calls:
  assumes "clone_area dst boot" and "boot \<noteq> []"
  shows "calls_only (changes_within (clone_area dst))
    (with_mount os boot CLONE_BOOT vfat_options (\<lambda>m. copy_grubenv os (path_join m GRUBENV_TARGET)))"
  unfolding copy_grubenv_def using assms
  by (auto intro!: with_mount_calls within_intros clone_area_place clone_area_files(1,2))

lemma efi_calls:
  "calls_only (changes_within (clone_area dst)) (mount_efivarfs os)"
  "calls_only (changes_within (clone_area dst)) (efibootmgr os args)"
  "clone_area dst boot \<Longrightarrow> boot \<noteq> [] \<Longrightarrow> calls_only (changes_within (clone_area dst)) (write_entry_dump os boot content)"
proof -
  have some: "fs_type_str Efivarfs \<noteq> []" by (simp add: fs_type_str_def)
  show "calls_only (changes_within (clone_area dst)) (mount_efivarfs os)"
    unfolding mount_efivarfs_def is_path_mounted_def
    by (intro calls_only_bindE calls_only_if calls_only_stop calls_only_map_err calls_only_pure calls_only_sys within_calls
        within_mount_fs clone_area_place some)
  show "calls_only (changes_within (clone_area dst)) (efibootmgr os args)"
    unfolding efibootmgr_def by (auto intro!: within_intros clone_area_place)
  show "clone_area dst boot \<Longrightarrow> boot \<noteq> [] \<Longrightarrow> calls_only (changes_within (clone_area dst)) (write_entry_dump os boot content)"
    unfolding write_entry_dump_def Let_def
    by (auto intro!: with_mount_calls within_intros clone_area_place clone_area_files(3,4))
qed

lemma destination_nonempty: "destination_partition dst n \<noteq> []"
  by (simp add: destination_partition_def partition_path_def)

interpretation clone: clone_tools "real_clone_ops fuel ft uuid_text dn os" changes_nothing
  "\<lambda>dst. changes_within (clone_area dst)" "approved os dn"
  for fuel :: nat and ft :: features and uuid_text :: "string \<Rightarrow> string" and dn :: devnum_codec and os :: "'w os"
proof (unfold_locales, goal_cases)
qed (auto simp: real_clone_ops_def real_efi_ops_def sync_filesystems_def intro: changes_within_mono validate_approves
  intro!: fresh_uuid_calls resolve_calls validate_calls unmount_rootfs_calls dump_calls verify_calls within_intros apply_calls
    part_uuid_calls copy_range_calls reformat_calls e2image_calls volume_id_calls grubenv_calls efi_calls clone_area_place
    destination_nonempty)

text \<open>The run from \<open>s\<close> has drawn its UUIDs, resolved the destination it was asked for to \<open>dst\<close>, and, in \<open>s2\<close>, approved it.\<close>

definition destination_approved :: "nat \<Rightarrow> features \<Rightarrow> (string \<Rightarrow> string) \<Rightarrow> devnum_codec \<Rightarrow> 'w os \<Rightarrow> string \<Rightarrow> string \<Rightarrow> string \<Rightarrow>
    ('w, 'p) machine \<Rightarrow> ('w, 'p) machine \<Rightarrow> bool" where
  "destination_approved fuel ft uuid_text dn os requested dst src s s2 \<longleftrightarrow> (\<exists>uuids a b.
     fresh_uuids (table ft) (real_clone_ops fuel ft uuid_text dn os) s = (Inr uuids, a)
     \<and> (resolve_destination os requested :: (('w, 'p) machine, string) flash) a = (Inr dst, b) \<and> approved os dn dst src b s2)"

text \<open>C3: Whatever the machine answers and whatever fails, a clone changes nothing before the resolved destination was found to be a
  whole disk other than the booted one, and after that nothing but this disk, its partitions, the files of its boot
  partition and the firmware's boot entries.\<close>

theorem clone_only_destination:
  fixes s s' :: "('w, 'p) machine"
  assumes "run_clone fuel ft uuid_text dn os raw l rootfs requested s = (r, s')"
  shows "\<exists>t u. trace s' = trace s @ t @ u \<and> (\<forall>c \<in> set t. changes_nothing (fst c))
    \<and> (isl r \<and> u = [] \<or> (\<exists>dst (s2 :: ('w, 'p) machine). trace s2 = trace s @ t
          \<and> destination_approved fuel ft uuid_text dn os requested dst (base (root_dev l)) s s2
          \<and> (\<forall>c \<in> set u. changes_within (clone_area dst) (fst c))))"
proof (cases "clone_constants_of ft raw")
  case (Inl e)
  then have "s' = s" "isl r" using assms by (auto simp: run_clone_def failing_def)
  then show ?thesis by (intro exI [of _ "[]"]) simp
next
  case (Inr constants)
  then have "clone_with ft (real_clone_ops fuel ft uuid_text dn os) constants l rootfs requested s = (r, s')"
    using assms by (simp add: run_clone_def)
  from guardedD [OF clone.clone_guarded this] show ?thesis
    unfolding clone.settled_def destination_approved_def by (simp add: real_clone_ops_def) blast
qed

text \<open>A second disk that passes the check, and a first one whose table cannot be rewritten.\<close>

definition two_disks :: "unit os" where
  "two_disks = \<lparr>os_unit = \<lambda>_ w. (Inr (), w),
     os_text = \<lambda>c w. (case c of Canonicalize p \<Rightarrow> (Inr p, w) | _ \<Rightarrow> (Inr [], w)),
     os_bool = \<lambda>c w. (case c of Exists p \<Rightarrow> (\<not> ends_with ''partition'' p, w) | _ \<Rightarrow> (True, w)), os_num = \<lambda>_ w. (Inr 0, w),
     os_run = \<lambda>_ w. (Inr \<lparr>exit_code = Some 0, stdout = [], stderr = [], signal_text = []\<rparr>, w),
     os_stat = \<lambda>c w. (case c of
         Stat p \<Rightarrow> (Inr \<lparr>st_uid = 0, st_gid = 0, st_mode = 0, st_dev = 0, st_rdev = (if p = ''/dev/sdb'' then 2 else 1),
           st_len = 0, st_is_file = False, st_is_dir = False, st_is_block = True\<rparr>, w)
       | _ \<Rightarrow> (Inl (IoError NotFound []), w)),
     os_entries = \<lambda>_ w. (Inr [], w), os_addrs = \<lambda>_ w. (Inr [], w), os_delay = \<lambda>_ _. 0\<rparr>"

definition small_codec :: devnum_codec where
  "small_codec = \<lparr>major = \<lambda>n. n div 16, minor = \<lambda>n. n mod 16, makedev = \<lambda>a b. 16 * a + b\<rparr>"

abbreviation fresh_machine :: "(unit, unit) machine" where
  "fresh_machine \<equiv> \<lparr>world = (), trace = [], clock = 0, program = ()\<rparr>"

definition two_disks_layout :: partition_layout where
  "two_disks_layout = \<lparr>partitions = Map.empty,
     root_dev = \<lparr>base = ''/dev/sda'', partition_sep = [], root_partition = ''/dev/sda2''\<rparr>\<rparr>"

definition two_disks_run :: "(flash_error stop + unit) \<times> (unit, unit) machine" where
  "two_disks_run = run_clone 9 all_modes id small_codec two_disks
     \<lparr>cb_data_size = Some 50, cb_bootloader_start = None, cb_uboot_env1_start = None, cb_uboot_env2_start = None, cb_uboot_env_size = None\<rparr>
     two_disks_layout ''/rootfs'' ''/dev/sdb'' fresh_machine"

lemma two_disks_approved: "\<exists>s2. approved two_disks small_codec ''/dev/sdb'' ''/dev/sda'' fresh_machine (s2 :: (unit, unit) machine)"
proof -
  have "fst (validate_destination two_disks small_codec ''/dev/sdb'' ''/dev/sda'' fresh_machine) = Inr ()" by code_simp
  then have "validate_destination two_disks small_codec ''/dev/sdb'' ''/dev/sda'' fresh_machine
      = (Inr (), snd (validate_destination two_disks small_codec ''/dev/sdb'' ''/dev/sda'' fresh_machine))"
    by (metis prod.collapse)
  then show ?thesis using validate_approves by blast
qed

lemma clone_only_destination_witness:
  "\<exists>t u. trace (snd two_disks_run) = t @ u \<and> (\<forall>c \<in> set t. changes_nothing (fst c))
    \<and> (isl (fst two_disks_run) \<and> u = [] \<or> (\<exists>dst (s2 :: (unit, unit) machine). destination_approved 9 all_modes id small_codec two_disks ''/dev/sdb'' dst ''/dev/sda'' fresh_machine s2
          \<and> (\<forall>c \<in> set u. changes_within (clone_area dst) (fst c))))"
proof -
  have "run_clone 9 all_modes id small_codec two_disks
     \<lparr>cb_data_size = Some 50, cb_bootloader_start = None, cb_uboot_env1_start = None, cb_uboot_env2_start = None, cb_uboot_env_size = None\<rparr>
     two_disks_layout ''/rootfs'' ''/dev/sdb'' fresh_machine = (fst two_disks_run, snd two_disks_run)"
    by (simp add: two_disks_run_def)
  from clone_only_destination [OF this] show ?thesis by (simp add: two_disks_layout_def) blast
qed

end
