(* ===== verification/Flash_Writes.thy ===== *)
theory Flash_Writes
  imports Scp Guarded Bmap_Checks
begin

text \<open>
  When the flash modes 2 and 3 (\<open>src/mode/flash/scp.rs\<close>, \<open>src/mode/flash/url.rs\<close>) write to the running disk: the
  download only after its digest and its size were checked and then exactly its size, and a run that has written and
  then fails says so, so that no log is written to a disk whose file systems are half overwritten.
\<close>

section \<open>Writing a disk\<close>

definition raw_write :: "string \<Rightarrow> call \<Rightarrow> bool" where
  "raw_write disk c = (case c of OpenWrite p \<Rightarrow> p = disk | WriteAll p _ \<Rightarrow> p = disk | WriteSome p _ \<Rightarrow> p = disk | _ \<Rightarrow> False)"

abbreviation calm :: "string \<Rightarrow> call \<Rightarrow> bool" where
  "calm disk c \<equiv> \<not> raw_write disk c"

lemma calm_calls [simp]:
  "calm disk (ReadText p)" "calm disk (Exists p)" "calm disk (Stat p)" "calm disk (SleepMs ms)" "calm disk (OpenRead p)"
  "calm disk (ReadBounded p n)" "calm disk (ReadSome p n)" "calm disk (UmountCall p)" "calm disk SyncAll"
  "calm disk (MakeDirs p)" "calm disk (MountCall src p fs fl d)" "calm disk NetAddrs" "calm disk (DecodedSize p)"
  "calm disk (SeekEnd p)" "calm disk (SpawnEnv e cmd args i)" "calm disk (Spawn cmd args i)" "calm disk (Ioctl p o_name vals)"
  "calm disk (ReadDecoded p n)" "calm disk (SyncFile p)" "calm disk (WriteFile p w)" "calm disk (SeekWrite p n)"
  "calm disk (MakeFifo p md)" "calm disk (Chown p a b)" "calm disk (RemoveFile p)" "calm disk (OpenNonblock p)"
  "calm disk (OpenTruncate p)" "calm disk (SetLen p n)" "calm disk (IsFile p)" "calm disk (SeekRead p n)" "calm disk (ReadToEnd p)" "calm disk (CreateFile p)"
  "p \<noteq> disk \<Longrightarrow> calm disk (WriteAll p w)" "p \<noteq> disk \<Longrightarrow> calm disk (OpenWrite p)"
  by (simp_all add: raw_write_def)

section \<open>What does not write\<close>

lemma calm_mount: "calls_only (calm disk) (mount_fs os source tgt opts)" "calls_only (calm disk) (umount os p)"
  "calls_only (calm disk) (is_path_mounted os p)" "calls_only (calm disk) (sync_filesystems os)"
  unfolding mount_fs_def umount_def is_path_mounted_def sync_filesystems_def by (auto intro!: calls_intros)

lemma calm_devnum: "calls_only (calm disk) (block_devnum os p)" "calls_only (calm disk) (whole_disk_devnum os dn dir devnum)"
  unfolding block_devnum_def whole_disk_devnum_def Let_def by (auto intro!: calls_intros split: sum.split)

lemma calm_unmount: "calls_only (calm disk) (unmount_target_disk os dn rootfs d)"
  unfolding unmount_target_disk_def unmount_rootfs_def unmount_if_mounted_def mounts_backed_by_def disk_of_def
  by (auto intro!: calls_intros calm_mount calm_devnum split: option.split sum.split prod.split)

lemma calm_attempt_wait:
  assumes "calls_only (calm disk) poll" and "\<And>ms. calls_only (calm disk) (no_sleep ops ms)"
  shows "calls_only (calm disk) (wait_for fuel ops what timeout interval poll waited)"
proof (induction fuel arbitrary: waited)
  case (Suc fuel)
  then show ?case using assms by (auto intro!: calls_intros simp: Let_def split: sum.split option.split)
qed (simp add: calls_only_pure)

lemma calm_visible: "calls_only (calm disk) (run_visible os cmd args)"
  unfolding run_visible_def run_inherited_def child_call_def by (auto intro!: calls_intros)

lemma calm_bring_up: "calls_only (calm disk) (bring_up os need)"
  unfolding bring_up_def bring_up_with_def real_net_ops_def net_ops.simps
  by (auto intro!: calls_intros calm_attempt_wait calm_visible)

lemma calm_dropbear: "calls_only (calm disk) (start_dropbear os)"
  unfolding start_dropbear_def by (auto intro!: calls_intros calm_mount calm_visible)

lemma calm_download: "calls_only (calm disk) (download ft os u tgt n)" "calls_only (calm disk) (available_ram os)"
  unfolding download_def available_ram_def child_call_def Let_def by (auto intro!: calls_intros split: option.split)

lemma calm_sha_file: "calls_only (calm disk) (read_sha256_file os p)"
  unfolding read_sha256_file_def read_small_text_def by (auto intro!: calls_intros)

lemma calm_digest: "calls_only (calm disk) (sha256_of fuel sha256 os p)"
proof -
  have "calls_only (calm disk) (digest_loop fuel os p seen)" for seen
    by (induction fuel arbitrary: seen) (auto intro!: calls_intros)
  then show ?thesis unfolding sha256_of_def by (auto intro!: calls_intros)
qed

lemma calm_sizes: "calls_only (calm disk) (image_size_of os p)" "calls_only (calm disk) (device_len os d)"
  unfolding image_size_of_def device_len_def by (auto intro!: calls_intros)

lemma calm_with_mount:
  "(\<And>m. calls_only (calm disk) (work m)) \<Longrightarrow> calls_only (calm disk) (with_mount os source tgt options work)"
  unfolding with_mount_def by (auto intro!: calls_intros calm_mount split: sum.split)

lemma calm_efi: "calls_only (calm disk) (handle_efi (real_efi_ops os) d boot)"
  unfolding handle_efi_def real_efi_ops_def efi_ops.simps mount_efivarfs_def efibootmgr_def write_entry_dump_def Let_def
  by (auto intro!: calls_intros calm_mount calm_with_mount split: option.split)

lemma calm_new_table: "calls_only (calm disk) (new_table ft (reread_partition_table os d) (real_efi_ops os) d boot)"
  unfolding new_table_def reread_partition_table_def by (auto intro!: calls_intros calm_efi split: bootloader_kind.split)

section \<open>The download\<close>

text \<open>The number of bytes handed to the disk.\<close>

definition sent_by :: "string \<Rightarrow> call \<Rightarrow> nat" where
  "sent_by disk c = (case c of WriteAll p w \<Rightarrow> if p = disk then length w else 0 | _ \<Rightarrow> 0)"

definition sent :: "string \<Rightarrow> (call \<times> bool) list \<Rightarrow> nat" where
  "sent disk t = (\<Sum>c \<leftarrow> t. sent_by disk (fst c))"

lemma sent_simps [simp]: "sent disk [] = 0" "sent disk (t @ u) = sent disk t + sent disk u"
  "sent disk (c # t) = sent_by disk (fst c) + sent disk t"
  by (simp_all add: sent_def)

lemma sent_calm: "\<forall>c \<in> set t. calm disk (fst c) \<Longrightarrow> sent disk t = 0"
  by (induction t) (auto simp: sent_by_def raw_write_def split: call.split)

definition fills :: "string \<Rightarrow> nat \<Rightarrow> 'e + 'a \<Rightarrow> (call \<times> bool) list \<Rightarrow> bool" where
  "fills disk n r t \<longleftrightarrow> sent disk t \<le> n \<and> (\<not> isl r \<longrightarrow> sent disk t = n)"

lemma fills_calm: "\<forall>c \<in> set t. calm disk (fst c) \<Longrightarrow> fills disk n r u \<Longrightarrow> fills disk n r (t @ u)"
  by (simp add: fills_def sent_calm)

lemma fills_failed: "\<forall>c \<in> set t. calm disk (fst c) \<Longrightarrow> fills disk n (Inl e) t"
  by (simp add: fills_def sent_calm)

text \<open>What a computation that makes no write adds to one that fills the disk.\<close>

lemma brings_fills_after:
  assumes "calls_only (calm disk) m" and "\<And>x. brings (fills disk n) (f x)"
  shows "brings (fills disk n) (bindE m f)"
  by (rule brings_bindE [OF brings_calls [OF assms(1)] assms(2)]) (auto intro: fills_calm fills_failed)

lemma brings_fills_before:
  assumes "brings (fills disk n) m" and "\<And>x. calls_only (calm disk) (f x)"
  shows "brings (fills disk n) (bindE m f)"
  by (rule brings_bindE [OF assms(1) brings_calls [OF assms(2)]]) (auto simp: fills_def sent_calm)

lemma brings_if: "(b \<Longrightarrow> brings Q m) \<Longrightarrow> (\<not> b \<Longrightarrow> brings Q n) \<Longrightarrow> brings Q (if b then m else n)"
  by simp

lemma brings_decode_step:
  fixes os :: "'w os"
  assumes "\<And>grown. unat limit - unat grown < unat limit - unat written \<Longrightarrow> grown \<le> limit \<Longrightarrow>
      brings (fills disk (unat limit - unat grown)) (decode_into os img disk limit grown :: (('w, 'p) machine, string stop, unit) io)"
    and "count_chunk limit written buf = Some grown" and "buf \<noteq> []" and "length buf \<le> unat COPY_BUFFER_SIZE"
  shows "brings (fills disk (unat limit - unat written)) (bindE (or_fail g (sys_unit os (WriteAll disk buf)))
      (\<lambda>_. decode_into os img disk limit grown) :: (('w, 'p) machine, string stop, unit) io)"
proof (rule brings_bindE)
  note more = count_chunk_more [OF assms(2-4)]
  show "brings (\<lambda>_ t. \<exists>b. t = [(WriteAll disk buf, b)]) (or_fail g (sys_unit os (WriteAll disk buf)) :: (('w, 'p) machine, string stop, unit) io)"
    unfolding or_fail_def by (rule brings_map_err [OF brings_sys(1)]) auto
  show "brings (fills disk (unat limit - unat grown)) (decode_into os img disk limit grown :: (('w, 'p) machine, string stop, unit) io)"
    by (rule assms(1) [OF more(3,2)])
  fix e :: "string stop" and t :: "(call \<times> bool) list"
  assume "\<exists>b. t = [(WriteAll disk buf, b)]"
  then show "fills disk (unat limit - unat written) (Inl e) t"
    using more(1,2) by (auto simp: fills_def sent_by_def word_le_nat_alt)
next
  note more = count_chunk_more [OF assms(2-4)]
  fix q :: "string stop + unit" and t u :: "(call \<times> bool) list"
  assume "\<exists>b. t = [(WriteAll disk buf, b)]" and "fills disk (unat limit - unat grown) q u"
  then show "fills disk (unat limit - unat written) q (t @ u)"
    using more(1,2) by (auto simp: fills_def sent_by_def word_le_nat_alt)
qed

lemma brings_decode_into: "written \<le> limit \<Longrightarrow> brings (fills disk (unat limit - unat written)) (decode_into os img disk limit written)"
proof (induction "unat limit - unat written" arbitrary: written rule: less_induct)
  case less
  show ?case
  proof (subst decode_into.simps, rule brings_fills_after, goal_cases)
    case 1
    show ?case by (intro calls_intros calm_calls)
  next
    case (2 buf)
    then show ?case
      using less.prems by (intro brings_if) (auto simp: failing_def fills_def not_less intro!: brings_pure intro: brings_decode_step less.hyps)
  qed
qed

lemma fills_map: "fills disk n (Inl e) t \<Longrightarrow> fills disk n (Inl e') t" "fills disk n (Inr x) t \<Longrightarrow> fills disk n (Inr y) t"
  by (simp_all add: fills_def)

lemma brings_write_image: "brings (fills disk (unat n)) (write_image os img disk n)"
proof -
  have "brings (fills disk (unat n)) (decode_into os img disk n 0)" using brings_decode_into [of 0 n] by simp
  then have "brings (fills disk (unat n)) (bindE (decode_into os img disk n 0)
      (\<lambda>_. or_fail (\<lambda>e. ''syncing destination: '' @ show_io e) (sys_unit os (SyncFile disk))))"
    by (rule brings_fills_before) (intro calls_intros calm_calls)
  then have all: "brings (fills disk (unat n)) (fail_with g (bindE (decode_into os img disk n 0)
      (\<lambda>_. or_fail (\<lambda>e. ''syncing destination: '' @ show_io e) (sys_unit os (SyncFile disk)))))" for g :: "string \<Rightarrow> flash_error"
    unfolding fail_with_def by (rule brings_map_err) (auto intro: fills_map)
  have opened: "brings (fills disk (unat n)) (bindE (or_fail g (sys_unit os (OpenWrite disk))) f)"
    if "\<And>x. brings (fills disk (unat n)) (f x)" for g :: "io_error \<Rightarrow> flash_error" and f :: "unit \<Rightarrow> (_, unit) flash"
    unfolding or_fail_def
    by (rule brings_bindE [OF brings_map_err [OF brings_sys(1), where R = "\<lambda>_ t. \<exists>b. t = [(OpenWrite disk, b)]"] that])
      (auto simp: fills_def sent_by_def)
  show ?thesis
    unfolding write_image_def Let_def open_existing_for_write_def
    by (intro brings_fills_after opened all calls_intros calm_calls)
qed

text \<open>Everything before the sha256 file is read, and reading it.\<close>

definition url_fetched :: "nat \<Rightarrow> features \<Rightarrow> (string \<Rightarrow> string) \<Rightarrow> devnum_codec \<Rightarrow> 'w os \<Rightarrow> partition_layout \<Rightarrow> string \<Rightarrow> url \<Rightarrow>
    (('w, 'p) machine, string) flash" where
  "url_fetched fuel ft sha256 dn os l rootfs sha256_url = (let ops = real_url_ops fuel ft sha256 dn os;
       sha256_file = path_join DOWNLOAD_DIR SHA256_FILE_NAME in
     bindE (lift_res (boot_for_efi ft l)) (\<lambda>_.
     bindE (uo_unmount ops rootfs (base (root_dev l))) (\<lambda>_.
     bindE (uo_bring_up_network ops Lease) (\<lambda>_.
     bindE (uo_download ops sha256_url sha256_file MAX_SHA256_FILE_LEN) (\<lambda>_.
     read_sha256_file os sha256_file)))))"

text \<open>What the run from \<open>s\<close> has found when it opens the disk, in \<open>s2\<close>: the image it downloaded has the digest that the
  sha256 file it downloaded names, and it is not empty and fits the disk.\<close>

definition checked_download :: "nat \<Rightarrow> features \<Rightarrow> (string \<Rightarrow> string) \<Rightarrow> (string \<Rightarrow> string) \<Rightarrow> devnum_codec \<Rightarrow> 'w os \<Rightarrow> partition_layout \<Rightarrow>
    string \<Rightarrow> url \<Rightarrow> url \<Rightarrow> u64 \<Rightarrow> ('w, 'p) machine \<Rightarrow> ('w, 'p) machine \<Rightarrow> bool" where
  "checked_download fuel ft sha256 hex_error dn os l rootfs image_url sha256_url n s s2 \<longleftrightarrow>
     (let img = path_join DOWNLOAD_DIR IMAGE_FILE_NAME in \<exists>t expected disk_len s0 a b c.
        url_fetched fuel ft sha256 dn os l rootfs sha256_url s = (Inr t, s0) \<and> expected_sha256 hex_error t = Inr expected
        \<and> download_image (real_url_ops fuel ft sha256 dn os) image_url img s0 = (Inr (), a)
        \<and> sha256_of fuel sha256 os img a = (Inr expected, b) \<and> image_size_of os img b = (Inr n, c)
        \<and> device_len os (base (root_dev l)) c = (Inr disk_len, s2) \<and> 0 < n \<and> n \<le> disk_len)"

lemma calm_check_image: "calls_only (calm disk) (check_image (real_url_ops fuel ft sha256 dn os) d img expected)"
  unfolding check_image_def real_url_ops_def url_ops.simps by (intro calls_intros calm_digest calm_sizes)

lemma failing_Inr [simp]: "failing e s \<noteq> (Inr x, s')"
  by (simp add: failing_def)

lemma if_failing_InrE: "(if b then failing e else m) s = (Inr x, s') \<Longrightarrow> \<not> b \<and> m s = (Inr x, s')"
  by (simp split: if_splits)

lemma check_imageE:
  "check_image ops disk img expected a = (Inr n, s2) \<Longrightarrow> \<exists>b c disk_len. uo_sha256_of ops img a = (Inr expected, b) \<and> uo_image_size ops img b = (Inr n, c)
    \<and> uo_device_len ops disk c = (Inr disk_len, s2) \<and> 0 < n \<and> n \<le> disk_len"
  unfolding check_image_def
proof (erule bindE_InrE, drule if_failing_InrE, erule conjE, erule bindE_InrE, drule if_failing_InrE, erule conjE,
    erule bindE_InrE, drule if_failing_InrE, goal_cases)
  case (1 actual b m c disk_len d)
  then have "actual = expected" "m = n" "d = s2" "0 < n" "n \<le> disk_len" by (auto simp: word_gt_0 not_less)
  then show ?case using 1 by blast
qed

lemma check_image_checks:
  assumes "check_image (real_url_ops fuel ft sha256 dn os) disk img expected a = (Inr n, s2)"
  shows "\<exists>b c disk_len. sha256_of fuel sha256 os img a = (Inr expected, b) \<and> image_size_of os img b = (Inr n, c)
    \<and> device_len os disk c = (Inr disk_len, s2) \<and> 0 < n \<and> n \<le> disk_len"
  using check_imageE [OF assms] by (simp add: real_url_ops_def)

lemma calm_url_ops:
  "calls_only (calm disk) (uo_unmount (real_url_ops fuel ft sha256 dn os) rootfs d)"
  "calls_only (calm disk) (uo_bring_up_network (real_url_ops fuel ft sha256 dn os) need)"
  "calls_only (calm disk) (uo_download (real_url_ops fuel ft sha256 dn os) u p m)"
  "calls_only (calm disk) (uo_read_sha256_file (real_url_ops fuel ft sha256 dn os) p)"
  "calls_only (calm disk) (download_image (real_url_ops fuel ft sha256 dn os) u p)"
  unfolding real_url_ops_def url_ops.simps download_image_def
  by (auto intro!: calls_intros calm_unmount calm_bring_up calm_download calm_sha_file split: option.split)

lemma guarded_url:
  fixes os :: "'w os"
  shows "guarded (calm (base (root_dev l))) (\<lambda>s2 r u. \<exists>n. checked_download fuel ft sha256 hex_error dn os l rootfs image_url sha256_url n s s2
        \<and> fills (base (root_dev l)) (unat n) r u)
     (run_url fuel ft sha256 hex_error dn os l rootfs image_url sha256_url :: (('w, 'p) machine, unit) flash) s"
    (is "guarded ?calm ?done _ _")
proof -
  let ?disk = "base (root_dev l)" and ?ops = "real_url_ops fuel ft sha256 dn os :: ('w, 'p) machine url_ops"
    and ?img = "path_join DOWNLOAD_DIR IMAGE_FILE_NAME"
  have after: "brings (fills ?disk (unat n)) (bindE (uo_write_image ?ops ?img ?disk n)
      (\<lambda>_. bindE (new_table ft (uo_reread_table ?ops ?disk) (uo_efi ?ops) ?disk boot) (\<lambda>_. uo_sync ?ops)))" for n boot
    unfolding real_url_ops_def url_ops.simps
    by (intro brings_fills_before brings_write_image calls_intros calm_new_table calm_mount)
  have checks: "guarded ?calm ?done (bindE (check_image ?ops ?disk ?img expected) (\<lambda>n. bindE (uo_write_image ?ops ?img ?disk n)
      (\<lambda>_. bindE (new_table ft (uo_reread_table ?ops ?disk) (uo_efi ?ops) ?disk boot) (\<lambda>_. uo_sync ?ops)))) a"
    if "url_fetched fuel ft sha256 dn os l rootfs sha256_url s = (Inr t, s0)" "expected_sha256 hex_error t = Inr expected"
      "download_image ?ops image_url ?img s0 = (Inr (), a)" for expected boot t s0 a
    by (rule guarded_check [OF calm_check_image after], drule check_image_checks)
      (use that in \<open>fastforce simp: checked_download_def Let_def\<close>)
  show ?thesis
    unfolding run_url_def url_with_def Let_def
  proof (rule guarded_after [OF calls_only_pure(3)], rule guarded_after [OF calm_url_ops(1)], rule guarded_after [OF calm_url_ops(2)],
      rule guarded_after [OF calm_url_ops(3)], rule guarded_after [OF calm_url_ops(4)], rule guarded_after [OF calls_only_pure(3)],
      rule guarded_after [OF calm_url_ops(5)], goal_cases)
    case (1 boot s1 x2 s2 x3 s3 x4 s4 t s5 expected s6 x7 s7)
    then have "url_fetched fuel ft sha256 dn os l rootfs sha256_url s = (Inr t, s5)"
      by (simp add: url_fetched_def Let_def bindE_def real_url_ops_def)
    moreover have "expected_sha256 hex_error t = Inr expected" "s6 = s5" using 1(6) by (auto split: sum.splits)
    ultimately show ?case using 1(7) by (intro checks) simp_all
  qed
qed

text \<open>C5: A download that is flashed writes nothing to the disk before the image this run has downloaded was read back with the digest
  the sha256 file names and was found to fit, it never writes more than the size that was checked, and exactly that much when
  it succeeds.\<close>

theorem download_checked_first:
  fixes s s' :: "('w, 'p) machine"
  assumes "run_url fuel ft sha256 hex_error dn os l rootfs image_url sha256_url s = (r, s')"
  shows "\<exists>t u. trace s' = trace s @ t @ u \<and> (\<forall>c \<in> set t. calm (base (root_dev l)) (fst c))
    \<and> (isl r \<and> u = [] \<or> (\<exists>s2 n. trace s2 = trace s @ t
          \<and> checked_download fuel ft sha256 hex_error dn os l rootfs image_url sha256_url n s (s2 :: ('w, 'p) machine)
          \<and> sent (base (root_dev l)) u \<le> unat n \<and> (\<not> isl r \<longrightarrow> sent (base (root_dev l)) u = unat n)))"
  using guardedD [OF guarded_url assms] unfolding fills_def by blast

text \<open>A disk of eight bytes, an image of four, and a digest function that gives zeros for everything.\<close>

definition small_download :: "unit os" where
  "small_download = \<lparr>os_unit = \<lambda>_ w. (Inr (), w),
     os_text = \<lambda>c w. (case c of ReadBounded _ _ \<Rightarrow> (Inr (replicate 64 (CHR ''0'')), w) | _ \<Rightarrow> (Inr [], w)),
     os_bool = \<lambda>_ w. (False, w), os_num = \<lambda>c w. (case c of SeekEnd _ \<Rightarrow> (Inr 8, w) | _ \<Rightarrow> (Inr 4, w)),
     os_run = \<lambda>_ w. (Inr \<lparr>exit_code = Some 1, stdout = [], stderr = [], signal_text = []\<rparr>, w),
     os_stat = \<lambda>_ w. (Inl (IoError NotFound []), w), os_entries = \<lambda>_ w. (Inr [], w), os_addrs = \<lambda>_ w. (Inr [], w),
     os_delay = \<lambda>_ _. 0\<rparr>"

abbreviation small_start :: "(unit, unit) machine" where
  "small_start \<equiv> \<lparr>world = (), trace = [], clock = 0, program = ()\<rparr>"

definition one_disk_layout :: partition_layout where
  "one_disk_layout = \<lparr>partitions = [Boot \<mapsto> ''/dev/sda1''],
     root_dev = \<lparr>base = ''/dev/sda'', partition_sep = [], root_partition = ''/dev/sda2''\<rparr>\<rparr>"

definition identity_codec :: devnum_codec where
  "identity_codec = \<lparr>major = \<lambda>_. 8, minor = id, makedev = \<lambda>_ n. n\<rparr>"

definition small_url_run :: "(flash_error stop + unit) \<times> (unit, unit) machine" where
  "small_url_run = run_url 9 all_modes (\<lambda>_. zero_digest) id identity_codec small_download one_disk_layout ''/rootfs''
     (Url ''https://host/wic.xz'') (Url ''https://host/wic.xz.sha256'') small_start"

lemma download_checked_first_witness:
  "\<exists>t u. trace (snd small_url_run) = t @ u \<and> (\<forall>c \<in> set t. calm ''/dev/sda'' (fst c))
    \<and> (isl (fst small_url_run) \<and> u = [] \<or> (\<exists>n. 0 < n \<and> sent ''/dev/sda'' u \<le> unat (n :: u64)))"
proof -
  have "run_url 9 all_modes (\<lambda>_. zero_digest) id identity_codec small_download one_disk_layout ''/rootfs''
     (Url ''https://host/wic.xz'') (Url ''https://host/wic.xz.sha256'') small_start = (fst small_url_run, snd small_url_run)"
    by (simp add: small_url_run_def)
  from download_checked_first [OF this] show ?thesis
    by (simp add: one_disk_layout_def checked_download_def Let_def) blast
qed

section \<open>Saying so\<close>

text \<open>The new partition table has been read.\<close>

definition reread :: "string \<Rightarrow> call \<times> bool" where
  "reread disk = (Ioctl disk ''BLKRRPART'' [], True)"

definition stores :: "string \<Rightarrow> call \<Rightarrow> bool" where
  "stores disk c = (case c of WriteAll p _ \<Rightarrow> p = disk | _ \<Rightarrow> False)"

definition wrote :: "string \<Rightarrow> (call \<times> bool) list \<Rightarrow> bool" where
  "wrote disk t \<longleftrightarrow> list_ex (\<lambda>c. stores disk (fst c)) t"

lemma stores_calm: "calm disk c \<Longrightarrow> \<not> stores disk c"
  by (cases c) (simp_all add: stores_def raw_write_def)

lemma wrote_simps [simp]: "\<not> wrote disk []" "wrote disk (t @ u) \<longleftrightarrow> wrote disk t \<or> wrote disk u"
  by (simp_all add: wrote_def)

lemma wrote_none: "\<forall>c \<in> set t. \<not> stores disk (fst c) \<Longrightarrow> \<not> wrote disk t"
  by (auto simp: wrote_def list_ex_iff)

text \<open>\<open>fails_as M\<close>: an error satisfies \<open>M\<close>, given the calls that were made; \<open>flagged\<close>: it does if the disk has been
  written. A fact about an error must not be lost when there were more calls before.\<close>

definition fails_as :: "(flash_error stop \<Rightarrow> (call \<times> bool) list \<Rightarrow> bool) \<Rightarrow> flash_error stop + 'a \<Rightarrow> (call \<times> bool) list \<Rightarrow> bool" where
  "fails_as M r t \<longleftrightarrow> (\<forall>e. r = Inl e \<longrightarrow> M e t)"

definition flagged :: "string \<Rightarrow> (flash_error stop \<Rightarrow> (call \<times> bool) list \<Rightarrow> bool) \<Rightarrow> flash_error stop + 'a \<Rightarrow>
    (call \<times> bool) list \<Rightarrow> bool" where
  "flagged disk M r t \<longleftrightarrow> (wrote disk t \<longrightarrow> fails_as M r t)"

lemma flagged_value: "flagged disk M (Inr x) t" "fails_as M (Inr x) t" "fails_as M r t \<Longrightarrow> flagged disk M r t"
  by (simp_all add: flagged_def fails_as_def)

lemma brings_flagged_none: "calls_only (\<lambda>c. \<not> stores disk c) m \<Longrightarrow> brings (flagged disk M) m"
  by (rule brings_mono [OF brings_calls]) (auto simp: flagged_def wrote_none)

lemma calls_stores: "calls_only (calm disk) m \<Longrightarrow> calls_only (\<lambda>c. \<not> stores disk c) m"
  by (erule calls_only_mono) (rule stores_calm)

locale write_reports =
  fixes disk :: string and M :: "flash_error stop \<Rightarrow> (call \<times> bool) list \<Rightarrow> bool"
  assumes later: "M e u \<Longrightarrow> M e (t @ u)"
begin

lemma fails_later: "fails_as M r u \<Longrightarrow> fails_as M r (t @ u)"
  using later by (simp add: fails_as_def)

lemma clean_first:
  assumes "calls_only (\<lambda>c. \<not> stores disk c) m" and "\<And>x. brings (flagged disk M) (f x)"
  shows "brings (flagged disk M) (bindE m f)"
  by (rule brings_bindE [OF brings_calls [OF assms(1)] assms(2)]) (auto simp: flagged_def wrote_none fails_later)

lemma preparing:
  assumes "calls_only (calm disk) m" and "\<And>x. brings (flagged disk M) (f x)"
  shows "brings (flagged disk M) (bindE m f)"
  using assms by (intro clean_first calls_stores)

lemma finishing:
  assumes "brings (flagged disk M) m" and "\<And>x. brings (fails_as M) (f x)"
  shows "brings (flagged disk M) (bindE m f)"
  by (rule brings_bindE [OF assms]) (auto simp: flagged_def fails_as_def later)

lemma failing_so:
  assumes "brings (fails_as M) m" and "\<And>x. brings (fails_as M) (f x)"
  shows "brings (fails_as M) (bindE m f)"
  by (rule brings_bindE [OF assms]) (auto simp: fails_as_def later)

lemma each: "(\<And>x. x \<in> set xs \<Longrightarrow> brings (fails_as M) (f x)) \<Longrightarrow> brings (fails_as M) (for_each xs f)"
proof (induction xs)
  case Nil
  show ?case unfolding for_each.simps by (rule brings_pure) (simp add: fails_as_def)
next
  case (Cons x xs)
  then show ?case unfolding for_each.simps by (intro failing_so) simp_all
qed

end

text \<open>The two facts: the error keeps the log off the disk, or the new table has been read; the error tells that
  the disk is partly written.\<close>

definition log_safe :: "string \<Rightarrow> flash_error stop \<Rightarrow> (call \<times> bool) list \<Rightarrow> bool" where
  "log_safe disk e t \<longleftrightarrow> (\<forall>x. e = Failed x \<longrightarrow> keeps_log (Inl x) \<longrightarrow> reread disk \<in> set t)"

definition marked :: "flash_error stop \<Rightarrow> (call \<times> bool) list \<Rightarrow> bool" where
  "marked e t \<longleftrightarrow> (\<forall>x. e = Failed x \<longrightarrow> is_partly_written x)"

lemma partly_written_keeps_off: "is_partly_written x \<Longrightarrow> \<not> keeps_log (Inl x)"
  by (cases x) (simp_all add: is_partly_written_def keeps_log_def)

lemma marked_log_safe: "marked e t \<Longrightarrow> log_safe disk e t"
  using partly_written_keeps_off by (auto simp: marked_def log_safe_def)

interpretation log: write_reports disk "log_safe disk" for disk :: string
  by unfold_locales (auto simp: log_safe_def)

interpretation mark: write_reports disk marked for disk :: string
  by unfold_locales (auto simp: marked_def)

lemma brings_partly:
  "brings (\<lambda>_ _. True) m \<Longrightarrow> brings (fails_as marked) (fail_with (\<lambda>why. partly_written disk (g why)) m)"
  unfolding fail_with_def
  by (erule brings_map_err) (auto simp: fails_as_def marked_def is_partly_written_def partly_written_def split: stop.splits)

lemma brings_log_safe: "brings (fails_as marked) m \<Longrightarrow> brings (fails_as (log_safe disk)) m"
  "brings (flagged disk marked) m \<Longrightarrow> brings (flagged disk (log_safe disk)) m"
  by (erule brings_mono; auto simp: fails_as_def flagged_def intro: marked_log_safe)+

section \<open>The new partition table\<close>

lemma brings_reread: "brings (\<lambda>r t. \<not> isl r \<longrightarrow> reread disk \<in> set t) (reread_partition_table os disk)"
proof -
  have "brings (\<lambda>r t. \<not> isl r \<longrightarrow> reread disk \<in> set t)
      (bindE (sys_unit os (OpenRead disk)) (\<lambda>_. sys_unit os (Ioctl disk ''BLKRRPART'' [])))"
    by (rule brings_bindE [OF brings_sys(1) brings_sys(1)]) (auto simp: reread_def)
  then show ?thesis
    unfolding reread_partition_table_def or_fail_def by (rule brings_map_err) auto
qed

lemma brings_after_reread:
  assumes "brings (\<lambda>_ _. True) m"
  shows "brings (fails_as (log_safe disk)) (bindE (fail_with (StalePartitionTable disk) (reread_partition_table os disk)) (\<lambda>_. m))"
proof (rule brings_bindE)
  show "brings (\<lambda>r t. fails_as (log_safe disk) r t \<and> (\<not> isl r \<longrightarrow> reread disk \<in> set t))
      (fail_with (StalePartitionTable disk) (reread_partition_table os disk))"
    unfolding fail_with_def
    by (rule brings_map_err [OF brings_reread]) (auto simp: fails_as_def log_safe_def keeps_log_def split: stop.splits)
qed (use assms in \<open>auto simp: fails_as_def log_safe_def\<close>)

lemma brings_new_table:
  "brings (fails_as (log_safe disk))
     (bindE (new_table ft (reread_partition_table os disk) (real_efi_ops os) disk boot) (\<lambda>_. sync_filesystems os))"
  unfolding new_table_def bindE_assoc
  by (rule brings_after_reread, rule brings_any [where P = "calm disk"])
    (auto intro!: calls_intros calm_efi calm_mount split: bootloader_kind.split)

section \<open>The download reports its writes\<close>

lemma brings_write_honest: "brings (flagged disk (log_safe disk)) (write_image os img disk n)"
proof -
  have "brings (\<lambda>_ _. True) (bindE (decode_into os img disk n 0) (\<lambda>_. or_fail g (sys_unit os (SyncFile disk))))" for g
    using brings_decode_into [of 0 n disk]
    by (intro brings_bindE [where R = "\<lambda>_ _ _. True"]) (auto intro: brings_mono brings_any [where P = "calm disk"] intro!: calls_intros)
  then show ?thesis
    unfolding write_image_def Let_def open_existing_for_write_def
    by (intro log.clean_first brings_log_safe(2) brings_mono [OF brings_partly] flagged_value(3) calls_intros) (simp_all add: stores_def)
qed

lemma url_reports: "brings (flagged (base (root_dev l)) (log_safe (base (root_dev l))))
  (run_url fuel ft sha256 hex_error dn os l rootfs image_url sha256_url)"
proof -
  let ?ops = "real_url_ops fuel ft sha256 dn os" and ?disk = "base (root_dev l)"
  have last: "brings (fails_as (log_safe ?disk))
      (bindE (new_table ft (uo_reread_table ?ops ?disk) (uo_efi ?ops) ?disk boot) (\<lambda>_. uo_sync ?ops))" for boot
    using brings_new_table by (simp add: real_url_ops_def)
  have wr: "brings (flagged ?disk (log_safe ?disk)) (uo_write_image ?ops img ?disk n)" for img n
    using brings_write_honest by (simp add: real_url_ops_def)
  show ?thesis
    unfolding run_url_def url_with_def Let_def
    by (intro log.preparing calls_only_pure(3) calm_url_ops calm_check_image log.finishing wr last)
qed

section \<open>The upload reports its writes\<close>

lemma calm_upload_files:
  "calls_only (calm disk) (create_owned_fifo os p uid gid)" "calls_only (calm disk) (remove_file os p)"
  "calls_only (calm disk) (remove_fifo os p)" "calls_only (calm disk) (read_bmap xml sha256 os p)"
  unfolding create_owned_fifo_def remove_file_def remove_fifo_def read_bmap_def read_small_text_def
  by (auto intro!: calls_intros split: sum.split)

lemma calm_wait_for_bmap: "calls_only (calm disk) (wait_for_bmap fuel os p interval)"
proof (induction fuel)
  case (Suc fuel)
  then show ?case
    by (auto intro!: calls_intros simp: bmap_is_complete_def read_tail_def split: sum.split)
qed (simp only: wait_for_bmap.simps calls_only_pure)

lemma calm_read: "calls_only (calm disk) (input_read os src n)"
  unfolding input_read_def by (cases src) (simp_all add: calls_only_sys)

lemma calm_skip: "calls_only (calm disk) (skip_to os src pos tgt)"
  unfolding skip_to_def by (auto intro!: calls_intros pass_through_calls calm_read split: sum.split source.split)

lemma copy_mapped_other: "p \<noteq> disk \<Longrightarrow> calls_only (calm disk) (copy_mapped sha256 os src p q pos)"
  unfolding copy_mapped_def Let_def
  by (auto intro!: calls_intros pass_through_calls calm_read calm_skip simp: write_sink_def split: prod.split)

lemma copy_bmap_other:
  assumes "destination_path dst \<noteq> disk"
  shows "calls_only (calm disk) (copy_bmap sha256 os b src dst)"
proof -
  have "calls_only (calm disk) (copy_stream sha256 os b src (destination_path dst))"
    unfolding copy_stream_def using assms by (auto intro!: calls_intros copy_mapped_other calm_read calm_skip)
  then show ?thesis
    unfolding copy_bmap_def Let_def open_existing_for_write_def using assms
    by (auto intro!: calls_intros simp: destination_path_def split: destination.split)
qed

lemma calm_verified_source:
  "up_decoded up \<noteq> disk \<Longrightarrow> calls_only (calm disk) (verified_source ft (real_scp_ops fuel xml sha256 dn os) up bm)"
  unfolding verified_source_def by (auto intro!: calls_intros copy_bmap_other simp: real_scp_ops_def destination_path_def)

lemma zero_range_any: "calls_only (\<lambda>_. True) (zero_range os disk area)"
proof -
  have "calls_only (\<lambda>_. True) (zero_loop os disk left)" for left
  proof (induction "unat left" arbitrary: left rule: less_induct)
    case less
    then show ?case by (subst zero_loop.simps) (auto intro!: calls_intros chunk_left)
  qed
  then show ?thesis unfolding zero_range_def open_existing_for_write_def by (intro calls_intros) simp_all
qed

lemma calm_scp_ops:
  "calls_only (calm disk) (so_unmount (real_scp_ops fuel xml sha256 dn os) rootfs d)"
  "calls_only (calm disk) (so_bring_up_network (real_scp_ops fuel xml sha256 dn os))"
  "calls_only (calm disk) (so_start_dropbear (real_scp_ops fuel xml sha256 dn os))"
  "calls_only (calm disk) (so_create_fifo (real_scp_ops fuel xml sha256 dn os) p owner)"
  "calls_only (calm disk) (so_tell_operator (real_scp_ops fuel xml sha256 dn os) line)"
  "calls_only (calm disk) (so_wait_for_bmap (real_scp_ops fuel xml sha256 dn os) p)"
  "calls_only (calm disk) (so_read_bmap (real_scp_ops fuel xml sha256 dn os) p)"
  "calls_only (calm disk) (so_device_len (real_scp_ops fuel xml sha256 dn os) d)"
  "calls_only (calm disk) (so_remove (real_scp_ops fuel xml sha256 dn os) p)"
  "calls_only (calm disk) (so_remove_fifo (real_scp_ops fuel xml sha256 dn os) p)"
  unfolding real_scp_ops_def scp_ops.simps
  by (intro calm_unmount calm_bring_up calm_dropbear calm_upload_files calls_only_pure calm_wait_for_bmap calm_sizes)+

lemma calm_clear_upload: "calls_only (calm disk) (clear_upload ft (real_scp_ops fuel xml sha256 dn os) up)"
  unfolding clear_upload_def by (intro calls_intros calm_scp_ops)

lemma clear_upload_never_fails: "never_fails (clear_upload ft (real_scp_ops fuel xml sha256 dn os) up)"
  unfolding clear_upload_def real_scp_ops_def scp_ops.simps remove_file_def remove_fifo_def
  by (intro total_intros)

text \<open>What an attempt does once it begins to write.\<close>

lemma flash_once_writes:
  fixes os :: "'w os"
  shows "brings (fails_as marked) (bindE (fail_with (partly_written disk)
      (so_bmap_copy (real_scp_ops fuel xml sha256 dn os) bm src (DeviceDest disk))) (\<lambda>_. for_each areas
      (\<lambda>area. fail_with (partly_written disk) (so_zero_range (real_scp_ops fuel xml sha256 dn os) disk area)))
      :: (('w, 'p) machine, unit) flash)"
proof (rule mark.failing_so)
  have "brings (\<lambda>_ _. True) (copy_bmap sha256 os bm src (DeviceDest disk) :: (('w, 'p) machine, unit) flash)"
    by (rule brings_mono [OF copy_bmap_ok [unfolded all_ok_def]]) simp
  from brings_partly [where g = "\<lambda>e. e" and disk = disk, OF this]
  show "brings (fails_as marked) (fail_with (partly_written disk)
      (so_bmap_copy (real_scp_ops fuel xml sha256 dn os) bm src (DeviceDest disk)) :: (('w, 'p) machine, unit) flash)"
    by (simp add: real_scp_ops_def)
  show "brings (fails_as marked) (for_each areas (\<lambda>area. fail_with (partly_written disk)
      (so_zero_range (real_scp_ops fuel xml sha256 dn os) disk area)) :: (('w, 'p) machine, unit) flash)"
    using brings_partly [where g = "\<lambda>e. e" and disk = disk, OF brings_any [OF zero_range_any]]
    by (intro mark.each) (simp add: real_scp_ops_def)
qed

lemma flash_once_marks:
  assumes "up_decoded up \<noteq> disk"
  shows "brings (flagged disk marked) (flash_once ft (real_scp_ops fuel xml sha256 dn os) up disk head ip)"
proof -
  have rest: "brings (flagged disk marked) (bindE (verified_source ft (real_scp_ops fuel xml sha256 dn os) up bm) (\<lambda>src.
      bindE (fail_with (partly_written disk) (so_bmap_copy (real_scp_ops fuel xml sha256 dn os) bm src (DeviceDest disk))) (\<lambda>_.
      for_each (unmapped bm head) (\<lambda>area. fail_with (partly_written disk) (so_zero_range (real_scp_ops fuel xml sha256 dn os) disk area)))))" for bm
    by (intro mark.preparing calm_verified_source assms brings_mono [OF flash_once_writes] flagged_value(3))
  show ?thesis
    unfolding flash_once_def
    by (intro mark.preparing calm_scp_ops brings_if rest brings_flagged_none [OF calls_stores] calls_only_stop(3))
qed

text \<open>A repeated attempt that began on a written disk fails as marked whatever it does itself.\<close>

lemma brings_attempt:
  assumes "brings Q m" and "\<And>r. brings (R r) (f r)"
    and "\<And>e t. Q (Inl e) t \<Longrightarrow> (\<And>x. e \<noteq> Failed x) \<Longrightarrow> S (Inl (case e of Running \<Rightarrow> Running | _ \<Rightarrow> Panicked)) t"
    and "\<And>e t q u. Q (Inl (Failed e)) t \<Longrightarrow> R (Inl e) q u \<Longrightarrow> S q (t @ u)"
    and "\<And>x t q u. Q (Inr x) t \<Longrightarrow> R (Inr x) q u \<Longrightarrow> S q (t @ u)"
  shows "brings S (attempt m f)"
  unfolding attempt_def
proof (rule brings_caught [OF assms(1)])
  show "brings (\<lambda>q u. case r of Inl (Failed e) \<Rightarrow> R (Inl e) q u | Inl Running \<Rightarrow> q = Inl Running \<and> u = []
      | Inl Panicked \<Rightarrow> q = Inl Panicked \<and> u = [] | Inr x \<Rightarrow> R (Inr x) q u)
    (case r of Inl (Failed e) \<Rightarrow> f (Inl e) | Inl Running \<Rightarrow> throw Running | Inl Panicked \<Rightarrow> throw Panicked | Inr x \<Rightarrow> f (Inr x))" for r
    using assms(2) by (auto simp: brings_pure split: sum.split stop.split)
next
  fix r t q u
  assume "Q r t" and "case r of Inl (Failed e) \<Rightarrow> R (Inl e) q u | Inl Running \<Rightarrow> q = Inl Running \<and> u = []
      | Inl Panicked \<Rightarrow> q = Inl Panicked \<and> u = [] | Inr x \<Rightarrow> R (Inr x) q u"
  then show "S q (t @ u)"
    using assms(3) [of Running t] assms(3) [of Panicked t] assms(4,5) by (auto split: sum.splits stop.splits)
qed

definition marks_after :: "bool \<Rightarrow> string \<Rightarrow> flash_error stop + 'a \<Rightarrow> (call \<times> bool) list \<Rightarrow> bool" where
  "marks_after written disk r t \<longleftrightarrow> (written \<or> wrote disk t \<longrightarrow> fails_as marked r t)"

lemma brings_clean_value:
  "calls_only (calm disk) m \<Longrightarrow> never_fails m \<Longrightarrow> brings (\<lambda>r t. \<not> isl r \<and> \<not> wrote disk t) m"
  by (rule brings_mono [OF brings_sure]) (auto simp: wrote_none stores_calm)

lemma brings_again:
  assumes clear: "calls_only (calm disk) m" "never_fails m" and fifo: "calls_only (calm disk) k"
    and again: "brings (marks_after written disk) l"
  shows "brings (marks_after written disk) (bindE m (\<lambda>_. attempt k (\<lambda>c. case c of
      Inl e \<Rightarrow> failing (if written then partly_written disk e else e) | Inr _ \<Rightarrow> l)))"
proof (rule brings_bindE [OF brings_clean_value [OF clear]])
  show "brings (marks_after written disk) (attempt k (\<lambda>c. case c of
      Inl e \<Rightarrow> failing (if written then partly_written disk e else e) | Inr _ \<Rightarrow> l))"
  proof (rule brings_attempt [OF brings_calls [OF fifo]])
    show "brings (marks_after written disk) (case c of Inl e \<Rightarrow> failing (if written then partly_written disk e else e) | Inr _ \<Rightarrow> l)" for c
      using again by (cases c) (auto simp: failing_def marks_after_def fails_as_def marked_def partly_written_def is_partly_written_def intro!: brings_pure)
  qed (auto simp: marks_after_def fails_as_def marked_def wrote_none stores_calm split: stop.splits)
qed (auto simp: marks_after_def fails_as_def marked_def)

lemma flash_until_done_marks:
  fixes os :: "'w os"
  assumes "up_decoded up \<noteq> disk"
  shows "brings (marks_after written disk)
    (flash_until_done n ft (real_scp_ops fuel xml sha256 dn os) up owner disk head ip written :: (('w, 'p) machine, unit) flash)"
proof (induction n arbitrary: written)
  case 0
  show ?case unfolding flash_until_done.simps by (rule brings_pure) (simp add: marks_after_def fails_as_def marked_def)
next
  case (Suc n)
  show ?case
    unfolding flash_until_done.simps Let_def
  proof (rule brings_attempt [where R = "\<lambda>r. case r of
      Inl e \<Rightarrow> marks_after (written \<or> is_partly_written e) disk | Inr _ \<Rightarrow> \<lambda>q u. \<not> isl q \<and> u = []",
      OF flash_once_marks [OF assms]], goal_cases)
    case (1 r)
    then show ?case
      using calm_clear_upload calm_scp_ops(4) Suc.IH clear_upload_never_fails by (cases r) (auto intro!: brings_again brings_pure)
  qed (auto simp: marks_after_def flagged_def fails_as_def marked_def isl_def split: stop.splits)
qed

text \<open>The whole of mode 2.\<close>

lemma scp_reports:
  assumes "base (root_dev l) \<noteq> up_decoded upload_in_home"
  shows "brings (flagged (base (root_dev l)) (log_safe (base (root_dev l)))) (run_scp fuel ft xml sha256 dn os raw l rootfs)"
proof (cases "scp_constants_of raw")
  case (Inl e)
  then show ?thesis
    unfolding run_scp_def scp_with_def by (simp add: failing_def brings_pure flagged_def)
next
  case (Inr constants)
  let ?ops = "real_scp_ops fuel xml sha256 dn os" and ?disk = "base (root_dev l)"
  have last: "brings (fails_as (log_safe ?disk))
      (bindE (new_table ft (so_reread_table ?ops ?disk) (so_efi ?ops) ?disk boot) (\<lambda>_. so_sync ?ops))" for boot
    using brings_new_table by (simp add: real_scp_ops_def)
  have flash: "brings (flagged ?disk (log_safe ?disk)) (flash_until_done fuel ft ?ops upload_in_home owner ?disk head ip False)" for owner head ip
    using assms by (intro brings_log_safe(2) brings_mono [OF flash_until_done_marks]) (auto simp: marks_after_def flagged_def)
  show ?thesis
    unfolding run_scp_def scp_with_def Inr sum.case Let_def
    by (intro log.preparing calls_only_pure(3) calm_scp_ops log.finishing flash last)
qed

end
