(* ===== verification/Milestones.thy ===== *)
theory Milestones
  imports Trace_Logic Flash_Base "HOL-Library.Sublist"
begin

text \<open>
  Derived rules for what a successful run must have done: \<open>makes cs m\<close> says that whenever \<open>m\<close> gives a value, the calls
  \<open>cs\<close> are among those it has made, in this order and each with success. Loops and clean-ups in between may make more.
  \<open>gives\<close> is for the runs of concrete machines.
\<close>

abbreviation done_in :: "call list \<Rightarrow> (call \<times> bool) list \<Rightarrow> bool" where
  "done_in cs t \<equiv> subseq (map (\<lambda>c. (c, True)) cs) t"

definition makes :: "call list \<Rightarrow> (('w, 'p) machine, 'e, 'a) io \<Rightarrow> bool" where
  "makes cs m \<longleftrightarrow> brings (\<lambda>r t. \<not> isl r \<longrightarrow> done_in cs t) m"

named_theorems makes_intros "rules that build makes from the parts of a program"

lemma makesD: "makes cs m \<Longrightarrow> m s = (Inr x, s') \<Longrightarrow> \<exists>t. trace s' = trace s @ t \<and> done_in cs t"
  unfolding makes_def using bringsD by fastforce

lemma calls_any: "calls_only P m \<Longrightarrow> calls_only (\<lambda>_. True) m"
  by (rule calls_only_mono) simp_all

lemma brings_calls_any: "brings R m \<Longrightarrow> calls_only (\<lambda>_. True) m"
  unfolding calls_only_def by (metis bringsD prod.collapse)

lemma done_in_single: "done_in [c] t \<Longrightarrow> (c, True) \<in> set t"
  by (auto dest: list_emb_set)

lemma makes_calls: "calls_only (\<lambda>_. True) m \<Longrightarrow> makes [] m"
  unfolding makes_def by (rule brings_mono [OF brings_any]) simp_all

lemma makes_pure: "makes [] (ret x)" "makes cs (throw e)" "makes cs (failing f)" "makes [] (lift_res r)"
  by (simp_all add: makes_def failing_def brings_pure)

lemma makes_bindE: "makes cs m \<Longrightarrow> (\<And>x. makes ds (f x)) \<Longrightarrow> makes (cs @ ds) (bindE m f)"
  unfolding makes_def
  by (erule brings_bindE [where R = "\<lambda>_ r t. \<not> isl r \<longrightarrow> done_in ds t"]) (auto intro: list_emb_append_mono)

lemma makes_skip: "calls_only (\<lambda>_. True) m \<Longrightarrow> (\<And>x. makes ds (f x)) \<Longrightarrow> makes ds (bindE m f)"
  using makes_bindE [OF makes_calls, of m ds f] by simp

lemma makes_last: "makes cs m \<Longrightarrow> (\<And>x. calls_only (\<lambda>_. True) (f x)) \<Longrightarrow> makes cs (bindE m f)"
  using makes_bindE [of cs m "[]" f] makes_calls by fastforce

lemma makes_map_err [makes_intros]: "makes cs m \<Longrightarrow> makes cs (map_err g m)"
  unfolding makes_def by (erule brings_map_err) simp_all

lemma makes_stop [makes_intros]: "makes cs m \<Longrightarrow> makes cs (or_fail g m)" "makes cs k \<Longrightarrow> makes cs (fail_with h k)"
  unfolding or_fail_def fail_with_def by (simp_all add: makes_map_err)

lemma makes_if: "(b \<Longrightarrow> makes cs m) \<Longrightarrow> (\<not> b \<Longrightarrow> makes cs n) \<Longrightarrow> makes cs (if b then m else n)"
  by simp

lemma makes_sys [makes_intros]:
  "makes [c] (sys_unit os c)" "makes [c] (sys_text os c)" "makes [c] (sys_num os c)" "makes [c] (sys_stat os c)"
  unfolding makes_def by (rule brings_mono [OF brings_sys(1)] brings_mono [OF brings_sys(2)]
    brings_mono [OF brings_sys(3)] brings_mono [OF brings_sys(4)]; simp)+

text \<open>A command whose exit status is checked, with what follows it.\<close>

lemma makes_checked:
  assumes "\<And>out. makes ds (f out)"
  shows "makes (c # ds) (bindE (or_fail g (sys_run os c)) (\<lambda>out. if \<not> success out then failing (e out) else f out))"
  unfolding makes_def
proof (rule brings_bindE)
  show "brings (\<lambda>r t. t = [(c, \<exists>out. r = Inr out \<and> success out)]) (or_fail g (sys_run os c))"
    unfolding or_fail_def by (rule brings_map_err [OF brings_sys(6)]) simp_all
  show "brings (\<lambda>r t. \<not> isl r \<longrightarrow> success out \<and> done_in ds t) (if \<not> success out then failing (e out) else f out)" for out
    using assms [of out] by (auto simp: makes_def failing_def intro!: brings_pure)
qed auto

lemma makes_for_each:
  "(\<And>x. x \<in> set xs \<Longrightarrow> makes (g x) (f x)) \<Longrightarrow> makes (concat (map g xs)) (for_each xs f)"
proof (induction xs)
  case Nil
  show ?case by (simp add: makes_def brings_def)
next
  case (Cons x xs)
  then show ?case by (simp add: makes_bindE)
qed

text \<open>What a \<open>match\<close> on a result does after an error must end with an error itself.\<close>

definition fails :: "(('w, 'p) machine, 'e, 'a) io \<Rightarrow> bool" where
  "fails m \<longleftrightarrow> brings (\<lambda>r _. isl r) m"

named_theorems fails_intros "rules that build fails from the parts of a program"

lemma fails_pure [fails_intros]: "fails (throw e)" "fails (failing f)" "fails (lift_res (Inl g))"
  by (simp_all add: fails_def failing_def brings_pure)

lemma fails_bindE [fails_intros]: "calls_only (\<lambda>_. True) m \<Longrightarrow> (\<And>x. fails (f x)) \<Longrightarrow> fails (bindE m f)"
  unfolding fails_def by (rule brings_bindE [OF brings_calls]) auto

lemma fails_caught [fails_intros]: "calls_only (\<lambda>_. True) m \<Longrightarrow> (\<And>r. fails (f r)) \<Longrightarrow> fails (caught m f)"
  unfolding fails_def by (rule brings_caught [OF brings_calls]) auto

lemma makes_caught:
  assumes "makes cs m" and "\<And>x. makes ds (f (Inr x))" and "\<And>e. fails (f (Inl e))"
  shows "makes (cs @ ds) (caught m f)"
  unfolding makes_def
proof (rule brings_caught)
  show "brings (\<lambda>r t. \<not> isl r \<longrightarrow> done_in cs t) m" using assms(1) by (simp add: makes_def)
  show "brings (\<lambda>q t. isl r \<and> isl q \<or> \<not> isl r \<and> (\<not> isl q \<longrightarrow> done_in ds t)) (f r)" for r
    using assms(2,3) by (cases r) (auto simp: makes_def fails_def)
qed (auto intro: list_emb_append_mono)

lemma makes_with_mount:
  assumes "makes cs (work tgt)"
  shows "makes cs (with_mount os source tgt options work)"
proof -
  have umount: "calls_only (\<lambda>_. True) (umount os tgt)" unfolding umount_def by (intro calls_intros) simp_all
  have mount: "calls_only (\<lambda>_. True) (mount_fs os source tgt options)" unfolding mount_fs_def by (intro calls_intros) simp_all
  have clean: "makes (cs @ []) (attempt (work tgt) (\<lambda>result. caught (umount os tgt) (\<lambda>u. case (u, result) of
      (Inl e, Inr _) \<Rightarrow> failing (FlashFilesystem e) | (_, Inr x) \<Rightarrow> ret x | (_, Inl e) \<Rightarrow> failing e)))"
    unfolding attempt_def
  proof (rule makes_caught [OF assms], goal_cases)
    case (1 x)
    show ?case
      by (simp, rule makes_calls) (auto intro!: calls_intros umount split: sum.split)
  next
    case (2 e)
    show ?case by (cases e) (auto intro!: fails_intros umount split: sum.split)
  qed
  then show ?thesis
    unfolding with_mount_def by (auto intro!: makes_skip calls_intros mount)
qed

section \<open>Operations that succeed\<close>

text \<open>\<open>gives x m\<close>: from every state \<open>m\<close> comes back with \<open>x\<close>. The small machines of the witnesses are run with these
  rules, one operation after the other.\<close>

definition gives :: "'a \<Rightarrow> ('s, 'e, 'a) io \<Rightarrow> bool" where
  "gives x m \<longleftrightarrow> (\<forall>s. \<exists>s'. m s = (Inr x, s'))"

lemma gives_pure: "gives x (ret x)" "gives x (lift_res (Inr x))"
  by (simp_all add: gives_def)

lemma gives_bindE: "gives x m \<Longrightarrow> gives y (f x) \<Longrightarrow> gives y (bindE m f)"
  unfolding gives_def by (metis bindE_eq_Inr)

lemma gives_caught: "gives x m \<Longrightarrow> gives y (f (Inr x)) \<Longrightarrow> gives y (caught m f)"
  by (auto simp: gives_def caught_def split: prod.split) (metis prod.inject)

lemma gives_map_err: "gives x m \<Longrightarrow> gives x (map_err g m)"
  by (simp add: gives_def)

lemma gives_stop: "gives x m \<Longrightarrow> gives x (or_fail g m)" "gives x k \<Longrightarrow> gives x (fail_with h k)"
  "gives x n \<Longrightarrow> gives y (f (Inr x)) \<Longrightarrow> gives y (attempt n f)"
  by (auto simp: or_fail_def fail_with_def attempt_def intro: gives_map_err gives_caught)

lemma gives_for_each: "(\<And>x. x \<in> set xs \<Longrightarrow> gives () (f x)) \<Longrightarrow> gives () (for_each xs f)"
proof (induction xs)
  case (Cons x xs)
  then show ?case by (auto intro!: gives_bindE [of "()"])
qed (simp add: gives_def)

lemma givesE:
  assumes "gives x m"
  obtains s' where "m s = (Inr x, s')"
  using assms unfolding gives_def by blast

end
