(* ===== verification/Flash_Safety.thy ===== *)
theory Flash_Safety
  imports Flash Clone_Safety Flash_Writes Milestones
begin

text \<open>
  The flash modes as \<open>src/mode/flash/mod.rs\<close> starts them: an attempt of mode 2 opens the running disk only for a block
  map that fits it and, where there is room for it, for an image that has been checked as a whole; and a run
  that leaves the running disk half written keeps its log off it.
\<close>

section \<open>No log on a broken disk\<close>

text \<open>A run of mode 2 or 3 that succeeds has had the kernel read the new partition table.\<close>

lemma makes_new_table:
  "makes [Ioctl disk ''BLKRRPART'' []] (bindE (new_table ft (reread_partition_table os disk) (real_efi_ops os) disk boot)
     (\<lambda>_. sync_filesystems os))"
proof -
  have "makes [Ioctl disk ''BLKRRPART'' []] (reread_partition_table os disk)"
    unfolding reread_partition_table_def by (intro makes_stop makes_skip [OF _ makes_sys(1)] calls_intros) simp
  moreover have "calls_only (\<lambda>_. True) (case bootloader ft of Grub \<Rightarrow> handle_efi (real_efi_ops os) disk boot | UBoot \<Rightarrow> ret ())"
    by (cases "bootloader ft") (auto intro!: calls_intros calls_any [OF calm_efi])
  ultimately show ?thesis
    unfolding new_table_def
    by (intro makes_last [OF makes_last [OF makes_stop(2)]] calls_any [OF calm_mount(4)])
qed

lemma run_url_rereads:
  "makes [Ioctl (base (root_dev l)) ''BLKRRPART'' []] (run_url fuel ft sha256 hex_error dn os l rootfs image_url sha256_url)"
proof -
  have wr: "calls_only (\<lambda>_. True) (uo_write_image (real_url_ops fuel ft sha256 dn os) img d n)" for img d n
    using brings_calls_any [OF brings_write_honest] by (simp add: real_url_ops_def)
  have last: "makes [Ioctl d ''BLKRRPART'' []] (bindE (new_table ft (uo_reread_table (real_url_ops fuel ft sha256 dn os) d)
      (uo_efi (real_url_ops fuel ft sha256 dn os)) d boot) (\<lambda>_. uo_sync (real_url_ops fuel ft sha256 dn os)))" for d boot
    using makes_new_table by (simp add: real_url_ops_def)
  show ?thesis
    unfolding run_url_def url_with_def Let_def
    by (intro makes_skip calls_only_pure(3) calls_any [OF calm_url_ops(1)] calls_any [OF calm_url_ops(2)] calls_any [OF calm_url_ops(3)]
        calls_any [OF calm_url_ops(4)] calls_any [OF calm_url_ops(5)] calls_any [OF calm_check_image] wr last)
qed

lemma run_scp_rereads:
  assumes "base (root_dev l) \<noteq> up_decoded upload_in_home"
  shows "makes [Ioctl (base (root_dev l)) ''BLKRRPART'' []] (run_scp fuel ft xml sha256 dn os raw l rootfs)"
proof (cases "scp_constants_of raw")
  case (Inl e)
  then show ?thesis unfolding run_scp_def scp_with_def by (simp add: makes_pure)
next
  case (Inr constants)
  let ?ops = "real_scp_ops fuel xml sha256 dn os" and ?disk = "base (root_dev l)"
  have flash: "calls_only (\<lambda>_. True) (flash_until_done fuel ft ?ops upload_in_home owner ?disk head ip False)" for owner head ip
    using assms by (intro brings_calls_any [OF flash_until_done_marks]) simp
  have last: "makes [Ioctl ?disk ''BLKRRPART'' []] (bindE (new_table ft (so_reread_table ?ops ?disk) (so_efi ?ops) ?disk boot)
      (\<lambda>_. so_sync ?ops))" for boot
    using makes_new_table by (simp add: real_scp_ops_def)
  show ?thesis
    unfolding run_scp_def scp_with_def Inr sum.case Let_def
    by (intro makes_skip calls_only_pure(3) calls_any [OF calm_scp_ops(1)] calls_any [OF calm_scp_ops(2)] calls_any [OF calm_scp_ops(3)]
        calls_any [OF calm_scp_ops(4)] flash last)
qed

text \<open>A run that fails otherwise has either kept its hands off the disk, or has read the new table, or says so.\<close>

lemma selected_mode_reports:
  assumes "fc_mode fc \<noteq> FlashMode1" and "base (root_dev l) \<noteq> up_decoded upload_in_home"
  shows "brings (\<lambda>r t. wrote (base (root_dev l)) t \<longrightarrow> reread (base (root_dev l)) \<in> set t
      \<or> (\<exists>e. r = Inl e \<and> (\<forall>x. e = Failed x \<longrightarrow> \<not> keeps_log (Inl x))))
    (run_selected_mode fuel ft libs os bv l rootfs fc)"
proof -
  let ?disk = "base (root_dev l)"
  have "brings (flagged ?disk (log_safe ?disk)) (run_selected_mode fuel ft libs os bv l rootfs fc)"
  proof (cases "fc_mode fc")
    case FlashMode3
    then show ?thesis
      unfolding run_selected_mode_def lift_env_def
      by (auto intro!: log.preparing calls_intros url_reports split: sum.split)
  qed (use assms scp_reports in \<open>auto simp: run_selected_mode_def\<close>)
  moreover have "makes [Ioctl ?disk ''BLKRRPART'' []] (run_selected_mode fuel ft libs os bv l rootfs fc)"
  proof (cases "fc_mode fc")
    case FlashMode3
    then show ?thesis
      unfolding run_selected_mode_def lift_env_def
      by (auto intro!: makes_skip calls_intros run_url_rereads split: sum.split)
  qed (use assms run_scp_rereads in \<open>auto simp: run_selected_mode_def\<close>)
  ultimately show ?thesis
    unfolding makes_def
    by (rule brings_mono [OF brings_conj])
      (auto simp: flagged_def fails_as_def log_safe_def reread_def isl_def subseq_singleton_left)
qed

text \<open>What \<open>run\<close> does after the mode has ended.\<close>

abbreviation after_mode :: "'w os \<Rightarrow> partition_layout \<Rightarrow> flash_config \<Rightarrow> string list \<Rightarrow> flash_error + unit \<Rightarrow>
    (('w, 'p) machine, unit) flash" where
  "after_mode os l fc captured outcome \<equiv>
     bindE (if keeps_log outcome then persist_log l (log_file (fc_mode fc)) captured (write_log os) else ret ()) (\<lambda>_.
     bindE (sync_filesystems os) (\<lambda>_. lift_env outcome))"

lemma calls_with_mount:
  assumes "\<And>m. calls_only (\<lambda>_. True) (work m)"
  shows "calls_only (\<lambda>_. True) (with_mount os source tgt options work)"
  unfolding with_mount_def mount_fs_def umount_def by (auto intro!: calls_intros assms split: sum.split)

lemma after_mode_calls: "calls_only (\<lambda>_. True) (after_mode os l fc captured outcome)"
proof -
  have "calls_only (\<lambda>_. True) (write_log os p name ls)" for p name ls
    unfolding write_log_def create_root_only_file_def Let_def by (intro calls_with_mount calls_intros; simp)
  then show ?thesis
    unfolding persist_log_def sync_filesystems_def lift_env_def by (auto intro!: calls_intros split: sum.split)
qed

lemma after_mode_unlogged:
  assumes "\<not> keeps_log outcome" and "after_mode os l fc captured outcome s = (r, s')"
  shows "isl r \<and> (\<exists>u. trace s' = trace s @ u \<and> (\<forall>c \<in> set u. fst c = SyncAll))"
proof -
  obtain e where e: "outcome = Inl e" using assms(1) by (cases outcome) (simp_all add: keeps_log_def)
  have "calls_only (\<lambda>c. c = SyncAll) (after_mode os l fc captured outcome)"
    using assms(1) unfolding e sync_filesystems_def lift_env_def by (simp, intro calls_intros) simp
  from calls_only_split [OF this assms(2)] show ?thesis
    using assms(2) by (auto simp: e lift_env_def bindE_def failing_def split: prod.splits sum.splits if_splits)
qed

lemma bindE_attempt:
  assumes "m s = (outcome, s2)"
  shows "bindE (attempt m f) g s = (case outcome of Inl (Failed e) \<Rightarrow> bindE (f (Inl e)) g s2
      | Inl Running \<Rightarrow> (Inl Running, s2) | Inl Panicked \<Rightarrow> (Inl Panicked, s2) | Inr x \<Rightarrow> bindE (f (Inr x)) g s2)"
  using assms by (auto simp: attempt_def caught_def bindE_def throw_def split: sum.split stop.split)

lemma run_flash_parts:
  fixes s s' :: "('w, 'p) machine"
  assumes "run_flash fuel ft libs os bv be l rootfs fc captured s = (r, s')"
  obtains s1 outcome s2 u where
    "(case be of Some bl \<Rightarrow> clear_flash_triggers ft bl | None \<Rightarrow> ret ()) s = (Inr () :: flash_error stop + unit, s1)"
    and "run_selected_mode fuel ft libs os bv l rootfs fc s1 = (outcome, s2)" and "trace s' = trace s2 @ u"
    and "(\<exists>e. outcome = Inl e \<and> (\<forall>x. e = Failed x \<longrightarrow> \<not> keeps_log (Inl x))) \<longrightarrow> (\<forall>c \<in> set u. fst c = SyncAll)"
proof -
  let ?clear = "(case be of Some bl \<Rightarrow> clear_flash_triggers ft bl | None \<Rightarrow> ret ()) :: (('w, 'p) machine, unit) flash"
  let ?stop = "\<lambda>_. caught (sys_unit os (terminal_call (fc_mode fc))) (\<lambda>r. case r of
         Inl e \<Rightarrow> failing (FlashIo e) | Inr _ \<Rightarrow> throw Running) :: (('w, 'p) machine, unit) flash"
  have "never_fails ?clear"
    unfolding clear_flash_triggers_def unset_best_effort_def by (auto intro!: total_intros split: option.split)
  then obtain s1 where s1: "?clear s = (Inr (), s1)" unfolding never_fails_def by (metis (full_types) old.unit.exhaust)
  obtain outcome s2 where s2: "run_selected_mode fuel ft libs os bv l rootfs fc s1 = (outcome, s2)" by fastforce
  have run: "(case outcome of Inl (Failed e) \<Rightarrow> bindE (after_mode os l fc captured (Inl e)) ?stop s2
      | Inl Running \<Rightarrow> (Inl Running, s2) | Inl Panicked \<Rightarrow> (Inl Panicked, s2)
      | Inr x \<Rightarrow> bindE (after_mode os l fc captured (Inr x)) ?stop s2) = (r, s')"
    using assms unfolding run_flash_def run_and_persist_def bindE_assoc bindE_Inr [where m = ?clear, OF s1]
      bindE_attempt [where m = "run_selected_mode fuel ft libs os bv l rootfs fc", OF s2] .
  have tail: "calls_only (\<lambda>_. True) (bindE (after_mode os l fc captured x) ?stop)" for x
    by (rule calls_only_bindE [OF after_mode_calls]) (auto intro!: calls_intros split: sum.split)
  show thesis
  proof (cases "\<exists>e. outcome = Inl (Failed e) \<and> \<not> keeps_log (Inl e)")
    case True
    then obtain e where e: "outcome = Inl (Failed e)" "\<not> keeps_log (Inl e)" by blast
    obtain q s3 where q: "after_mode os l fc captured (Inl e) s2 = (q :: flash_error stop + unit, s3)" by fastforce
    from after_mode_unlogged [OF e(2) q] obtain u where "isl q" "trace s3 = trace s2 @ u" "\<forall>c \<in> set u. fst c = SyncAll" by blast
    moreover have "s' = s3" using run e(1) q \<open>isl q\<close> by (auto simp: bindE_def isl_def)
    ultimately show thesis using that [OF s1 s2] by blast
  next
    case False
    have "\<exists>u. trace s' = trace s2 @ u \<and> (\<forall>e. outcome = Inl e \<longrightarrow> (\<forall>x. e \<noteq> Failed x) \<longrightarrow> u = [])"
    proof (cases outcome)
      case (Inl e)
      then show ?thesis using run calls_only_split [OF tail] by (cases e) (fastforce | simp)+
    next
      case (Inr x)
      then show ?thesis using run calls_only_split [OF tail] by fastforce
    qed
    then show thesis using that [OF s1 s2] False by fastforce
  qed
qed

text \<open>
  C16: A broken disk gets no log. When mode 2 or mode 3 has written to the running disk and the kernel has not read the new
  partition table, all that \<open>run\<close> still does after the mode is to sync: the log is not written, so neither is the data
  partition mounted, and the machine is neither rebooted nor switched off by the mode.
\<close>

theorem broken_disk_gets_no_log:
  fixes s s' :: "('w, 'p) machine"
  assumes "run_flash fuel ft libs os bv be l rootfs fc captured s = (r, s')"
    and "fc_mode fc \<noteq> FlashMode1" and "base (root_dev l) \<noteq> up_decoded upload_in_home"
  shows "\<exists>s1 outcome s2 t u.
      (case be of Some bl \<Rightarrow> clear_flash_triggers ft bl | None \<Rightarrow> ret ()) s = (Inr () :: flash_error stop + unit, s1)
    \<and> run_selected_mode fuel ft libs os bv l rootfs fc s1 = (outcome, s2)
    \<and> trace s2 = trace s1 @ t \<and> trace s' = trace s2 @ u
    \<and> (wrote (base (root_dev l)) t \<longrightarrow> reread (base (root_dev l)) \<in> set t \<or> (\<forall>c \<in> set u. fst c = SyncAll))"
proof -
  obtain s1 outcome s2 u where run: "(case be of Some bl \<Rightarrow> clear_flash_triggers ft bl | None \<Rightarrow> ret ()) s = (Inr () :: flash_error stop + unit, s1)"
    "run_selected_mode fuel ft libs os bv l rootfs fc s1 = (outcome, s2)" "trace s' = trace s2 @ u"
    and after: "(\<exists>e. outcome = Inl e \<and> (\<forall>x. e = Failed x \<longrightarrow> \<not> keeps_log (Inl x))) \<longrightarrow> (\<forall>c \<in> set u. fst c = SyncAll)"
    by (rule run_flash_parts [OF assms(1)])
  obtain t where "trace s2 = trace s1 @ t" "wrote (base (root_dev l)) t \<longrightarrow> reread (base (root_dev l)) \<in> set t
      \<or> (\<exists>e. outcome = Inl e \<and> (\<forall>x. e = Failed x \<longrightarrow> \<not> keeps_log (Inl x)))"
    using bringsD [OF selected_mode_reports [OF assms(2,3)] run(2)] by blast
  then show ?thesis using run after by blast
qed

section \<open>An upload is checked before it is flashed\<close>

text \<open>What the attempt that began in \<open>s\<close> has found when it opens the disk, in \<open>s2\<close>: the block map that was uploaded is accepted and
  its image fits the disk; and unless the image is flashed as it comes in, a pass over the upload has succeeded.\<close>

definition checked_upload :: "nat \<Rightarrow> features \<Rightarrow> (string \<Rightarrow> string + xml_bmap) \<Rightarrow> (string \<Rightarrow> string) \<Rightarrow> devnum_codec \<Rightarrow> 'w os \<Rightarrow> upload \<Rightarrow>
    string \<Rightarrow> u32 \<Rightarrow> ('w, 'p) machine \<Rightarrow> ('w, 'p) machine \<Rightarrow> bool" where
  "checked_upload fuel ft xml sha256 dn os up disk ip s s2 \<longleftrightarrow>
     (let ops = real_scp_ops fuel xml sha256 dn os in \<exists>bm disk_len a b s0 s1 c.
        so_tell_operator ops (bmap_instruction ip) s = (Inr (), a) \<and> so_wait_for_bmap ops (up_bmap up) a = (Inr (), b)
        \<and> read_bmap xml sha256 os (up_bmap up) b = (Inr bm, s0) \<and> device_len os disk s0 = (Inr disk_len, s1)
        \<and> image_size bm \<le> disk_len \<and> so_tell_operator ops (image_instruction ip) s1 = (Inr (), c)
        \<and> (if flash_mode_2_direct ft then s2 = c
           else copy_bmap sha256 os bm (XzSource (up_fifo up)) (FileDest (up_decoded up)) c = (Inr (), s2)))"

lemma verified_source_checks:
  assumes "verified_source ft (real_scp_ops fuel xml sha256 dn os) up bm c = (Inr src, s2)"
  shows "if flash_mode_2_direct ft then s2 = c
    else copy_bmap sha256 os bm (XzSource (up_fifo up)) (FileDest (up_decoded up)) c = (Inr (), s2)"
  using assms by (auto simp: verified_source_def real_scp_ops_def elim!: bindE_InrE split: if_splits)

lemma guarded_flash_once:
  fixes os :: "'w os"
  assumes "up_decoded up \<noteq> disk"
  shows "guarded (calm disk) (\<lambda>s2 r u. checked_upload fuel ft xml sha256 dn os up disk ip s s2 \<and> fails_as marked r u)
     (flash_once ft (real_scp_ops fuel xml sha256 dn os) up disk head ip :: (('w, 'p) machine, unit) flash) s"
  unfolding flash_once_def
proof (rule guarded_after [OF calm_scp_ops(5)], rule guarded_after [OF calm_scp_ops(6)], rule guarded_after [OF calm_scp_ops(7)],
    rule guarded_after [OF calm_scp_ops(8)], rule guarded_if, goal_cases)
  case 1
  then show ?case by (simp add: failing_def)
next
  case (2 x1 a x2 b bm s0 disk_len s1)
  show ?case
  proof (rule guarded_after [OF calm_scp_ops(5)], rule guarded_check [OF calm_verified_source [OF assms] flash_once_writes],
      drule verified_source_checks, goal_cases)
    case (1 x3 c src s2 r u)
    then show ?case
      using 2 unfolding checked_upload_def Let_def
      by (intro conjI exI [of _ bm] exI [of _ disk_len] exI [of _ a] exI [of _ b] exI [of _ s0] exI [of _ s1] exI [of _ c])
        (simp_all add: real_scp_ops_def not_less)
  qed
qed


section \<open>Small runs\<close>

text \<open>Mode 3 with no image URL set.\<close>

definition no_libraries :: "unit libraries" where
  "no_libraries = \<lparr>lib_json = \<lparr>json_parse = \<lambda>_. Inl [], json_get = \<lambda>_ _. None, json_u64 = \<lambda>_. None,
       json_array = \<lambda>_. None, json_str = \<lambda>_. None, json_text = \<lambda>_. []\<rparr>,
     lib_pretty_json = \<lambda>_. Inr [], lib_links = \<lambda>_. Inr [], lib_base64 = Inr, lib_uuid_text = id,
     lib_xml = \<lambda>_. Inr small_xml, lib_sha256 = \<lambda>_. zero_digest, lib_hex_error = id, lib_devnum = small_codec\<rparr>"


definition no_build :: build_values where
  "no_build = \<lparr>bv_clone = \<lparr>cb_data_size = None, cb_bootloader_start = None, cb_uboot_env1_start = None,
       cb_uboot_env2_start = None, cb_uboot_env_size = None\<rparr>,
     bv_scp = \<lparr>sb_boot_start = None, sb_boot_size = None, sb_omnect_user_id = None\<rparr>\<rparr>"

abbreviation empty_machine :: "(string, unit) machine" where
  "empty_machine \<equiv> \<lparr>world = [], trace = [], clock = 0, program = ()\<rparr>"

text \<open>A network with an address, a download of four bytes with the right digest, and a disk that refuses the first write.\<close>

definition refusing_disk :: "unit os" where
  "refusing_disk = \<lparr>os_unit = \<lambda>c w. (if stores ''/dev/sda'' c then Inl (IoError OtherKind ''EIO'') else Inr (), w),
     os_text = \<lambda>c w. (case c of ReadBounded _ _ \<Rightarrow> Inr (replicate 64 (CHR ''0''))
        | ReadDecoded _ _ \<Rightarrow> Inr ''abcd''
        | ReadText p \<Rightarrow> Inr (if p = MEMINFO_PATH then ''MemAvailable: 1048576 kB'' else []) | _ \<Rightarrow> Inr [], w),
     os_bool = \<lambda>_ w. (False, w), os_num = \<lambda>c w. (case c of SeekEnd _ \<Rightarrow> Inr 8 | _ \<Rightarrow> Inr 4, w),
     os_run = \<lambda>_ w. (Inr \<lparr>exit_code = Some 0, stdout = [], stderr = [], signal_text = []\<rparr>, w),
     os_stat = \<lambda>_ w. (Inr \<lparr>st_uid = 0, st_gid = 0, st_mode = 0, st_dev = 0, st_rdev = 7, st_len = 0,
       st_is_file = False, st_is_dir = False, st_is_block = True\<rparr>, w),
     os_entries = \<lambda>_ w. (Inr [], w), os_addrs = \<lambda>_ w. (Inr [(FLASH_INTERFACE, Some (V4 0x0A000001))], w), os_delay = \<lambda>_ _. 0\<rparr>"

lemma refusing_calls:
  "\<not> stores ''/dev/sda'' c \<Longrightarrow> gives () (sys_unit refusing_disk c)"
  "gives (replicate 64 (CHR ''0'')) (sys_text refusing_disk (ReadBounded p n))"
  "gives ''abcd'' (sys_text refusing_disk (ReadDecoded p n))" "gives [] (sys_text refusing_disk (ReadSome p n))"
  "gives (if p = MEMINFO_PATH then ''MemAvailable: 1048576 kB'' else []) (sys_text refusing_disk (ReadText p))"
  "gives 8 (sys_num refusing_disk (SeekEnd p))" "gives 4 (sys_num refusing_disk (DecodedSize p))"
  "gives \<lparr>exit_code = Some 0, stdout = [], stderr = [], signal_text = []\<rparr> (sys_run refusing_disk d)"
  "gives \<lparr>st_uid = 0, st_gid = 0, st_mode = 0, st_dev = 0, st_rdev = 7, st_len = 0,
     st_is_file = False, st_is_dir = False, st_is_block = True\<rparr> (sys_stat refusing_disk e)"
  "gives [(FLASH_INTERFACE, Some (V4 0x0A000001))] (sys_addrs refusing_disk NetAddrs)"
  by (auto simp: gives_def refusing_disk_def sys_unit_def sys_text_def sys_num_def sys_run_def sys_stat_def sys_addrs_def)

lemma stores_only [simp]: "\<not> stores d (OpenRead p)" "\<not> stores d (OpenWrite p)" "\<not> stores d (MakeDirs p)" "\<not> stores d SyncAll"
  by (simp_all add: stores_def)

lemma gives_wait:
  assumes "gives (Some v) poll"
  shows "gives v (wait_for NET_POLLS ops what timeout interval poll 0)"
proof -
  have polls: "NET_POLLS = Suc 121" by (simp add: NET_POLLS_def)
  show ?thesis unfolding polls wait_for.simps Let_def by (rule gives_stop(3) [OF assms]) (simp add: gives_pure)
qed

lemma refusing_network: "gives 0x0A000001 (bring_up refusing_disk Lease)"
proof -
  have tool: "gives () (run_visible refusing_disk cmd args)" for cmd args
    unfolding run_visible_def run_inherited_def
    by (intro gives_stop(1) gives_bindE [OF gives_map_err [OF refusing_calls(8)]]) (simp add: success_def gives_pure)
  have link: "gives (Some ()) (bindE (run_visible refusing_disk IP_CMD IP_LINK_ARGS) (\<lambda>u. ret (Some u)))"
    by (rule gives_bindE [OF tool gives_pure(1)])
  have lease: "gives () (bindE (or_fail (PathIo TMP_DIR) (sys_unit refusing_disk (MakeDirs TMP_DIR)))
      (\<lambda>_. run_visible refusing_disk DHCPCD_CMD [FLASH_INTERFACE]))"
    by (intro gives_bindE [OF gives_stop(1) [OF refusing_calls(1)] tool]) simp
  have address: "gives (Some 0x0A000001) (bindE (or_fail g (sys_addrs refusing_disk NetAddrs))
      (\<lambda>addrs. ret (ipv4_of addrs FLASH_INTERFACE Lease)))" for g
    by (rule gives_bindE [OF gives_stop(1) [OF refusing_calls(10)]]) (simp add: need_accepts_def is_link_local_def gives_pure)
  show ?thesis
    unfolding bring_up_with_def bring_up_def real_net_ops_def net_ops.simps
    by (rule gives_bindE [OF gives_wait [OF link]], rule gives_bindE [OF lease], rule gives_wait [OF address])
qed

lemma refusing_text: "p \<noteq> MEMINFO_PATH \<Longrightarrow> gives [] (sys_text refusing_disk (ReadText p))"
  using refusing_calls(5) [of p] by simp

lemma rust_lines_Nil: "rust_lines [] = []"
  by code_simp

lemma refusing_unmount: "gives () (unmount_target_disk refusing_disk dn rootfs d)"
proof -
  have "''/proc/mounts'' \<noteq> MEMINFO_PATH" by (simp add: MEMINFO_PATH_def)
  note mounts = refusing_text [OF this]
  have unmounted: "gives False (is_path_mounted refusing_disk p)" for p
    unfolding is_path_mounted_def
    by (rule gives_bindE [OF gives_map_err [OF mounts]]) (simp add: gives_pure rust_lines_Nil)
  have off: "gives () (unmount_if_mounted refusing_disk p)" for p
    unfolding unmount_if_mounted_def by (rule gives_bindE [OF gives_stop(1) [OF unmounted]]) (simp add: gives_pure)
  have sync: "gives () (sync_filesystems refusing_disk)"
    unfolding sync_filesystems_def ignore_def by (simp add: gives_def split: prod.split)
  have root: "gives () (unmount_rootfs refusing_disk rootfs)"
    unfolding unmount_rootfs_def by (intro gives_bindE [OF sync] gives_for_each off)
  have dev: "gives 7 (block_devnum refusing_disk d)"
    unfolding block_devnum_def by (rule gives_bindE [OF gives_map_err [OF refusing_calls(9)]]) (simp add: gives_pure)
  have points: "gives [] (mounts_backed_by [] disk k)" for disk and k :: "string \<Rightarrow> ((unit, 'p) machine, 'e, u64 option) io"
    unfolding mounts_backed_by_def rust_lines_Nil
    by (rule gives_bindE [of "[]"]) (simp_all add: gives_pure deepest_first_def)
  show ?thesis
    unfolding unmount_target_disk_def
    by (intro gives_bindE [OF root] gives_bindE [OF gives_stop(1) [OF dev]]
        gives_bindE [OF gives_stop(1) [OF mounts [folded PROC_MOUNTS_def]]] gives_bindE [OF points]) (simp add: gives_pure)
qed

lemma refusing_download: "gives () (download ft refusing_disk u p n)"
  unfolding download_def Let_def
  by (rule gives_bindE [of "()"])
    (auto simp: success_def gives_pure split: option.split intro!: gives_stop(1) gives_bindE [OF gives_stop(1) [OF refusing_calls(8)]] refusing_calls(1))

lemma zeros_valid: "valid_utf8 (replicate 64 (CHR ''0''))"
  by (rule valid_utf8_ascii) simp

lemma refusing_digest_file: "gives (replicate 64 (CHR ''0'')) (read_sha256_file refusing_disk p)"
  unfolding read_sha256_file_def read_small_text_def
  by (intro gives_bindE [OF gives_stop(1) [OF gives_bindE [OF refusing_calls(1) refusing_calls(2)]]])
    (simp_all add: gives_pure MAX_SHA256_FILE_LEN_def zeros_valid)

lemma small_meminfo: "mem_available ''MemAvailable: 1048576 kB'' = Some 1073741824"
proof -
  have "rust_lines ''MemAvailable: 1048576 kB'' = [''MemAvailable: 1048576 kB'']" by code_simp
  moreover have "mem_line ''MemAvailable: 1048576 kB'' = Some 1073741824"
  proof -
    have p1: "strip_prefix MEM_AVAILABLE_KEY ''MemAvailable: 1048576 kB'' = Some '' 1048576 kB''" by code_simp
    have p2: "strip_suffix ''kB'' (trim '' 1048576 kB'') = Some ''1048576 ''" by code_simp
    have p3: "trim ''1048576 '' = ''1048576''" by code_simp
    have "parse_digits ''1048576'' = Some 1048576"
      by (simp add: parse_digits_def digits_val_def digit_val_def is_digit_def)
    then have p4: "parse_u64 ''1048576'' = Some 1048576" by (simp add: parse_u64_def parse_uint_def)
    have p5: "checked_mul (1048576 :: u64) KIB = Some 1073741824" by (simp add: checked_mul_def KIB_def)
    show ?thesis by (simp only: mem_line_def p1 p2 p3 p4 p5 bind.simps)
  qed
  ultimately show ?thesis by (simp add: mem_available_def)
qed

lemma refusing_ram: "gives 1073741824 (available_ram refusing_disk)"
  unfolding available_ram_def using refusing_calls(5) [of MEMINFO_PATH]
  by (intro gives_bindE [OF gives_stop(1) [where x = "''MemAvailable: 1048576 kB''"]]) (simp_all add: gives_pure small_meminfo)

lemma small_image_len: "max_image_len 1073741824 = Some 939524096"
  by (simp add: max_image_len_def checked_sub_def RAM_RESERVE_def)

lemma refusing_image:
  "gives () (download_image (real_url_ops fuel ft sha256 dn refusing_disk) u img)"
  "gives 4 (check_image (real_url_ops (Suc fuel) ft (\<lambda>_. zero_digest) dn refusing_disk) d img zero_digest)"
proof -
  show "gives () (download_image (real_url_ops fuel ft sha256 dn refusing_disk) u img)"
    unfolding download_image_def real_url_ops_def url_ops.simps
    by (rule gives_bindE [OF refusing_ram]) (simp add: small_image_len refusing_download)
  have bytes: "gives [] (digest_loop (Suc fuel) refusing_disk img [])"
    unfolding digest_loop.simps by (rule gives_bindE [OF gives_stop(1) [OF refusing_calls(4)]]) (simp add: gives_pure)
  have digest: "gives zero_digest (sha256_of (Suc fuel) (\<lambda>_. zero_digest) refusing_disk img)"
    unfolding sha256_of_def
    by (rule gives_bindE [OF gives_stop(1) [OF refusing_calls(1)]], simp, rule gives_bindE [OF bytes]) (rule gives_pure)
  have size: "gives 4 (image_size_of refusing_disk img)" "gives 8 (device_len refusing_disk d)"
    unfolding image_size_of_def device_len_def
    by (intro gives_bindE [OF gives_stop(1) [OF refusing_calls(1)]] gives_stop(1) [OF refusing_calls(7)]
      gives_stop(1) [OF gives_bindE [OF refusing_calls(1) refusing_calls(6)]]; simp)+
  show "gives 4 (check_image (real_url_ops (Suc fuel) ft (\<lambda>_. zero_digest) dn refusing_disk) d img zero_digest)"
    unfolding check_image_def real_url_ops_def url_ops.simps
    by (rule gives_bindE [OF digest], simp, rule gives_bindE [OF size(1)], simp, rule gives_bindE [OF size(2)]) (simp add: gives_pure)
qed

lemma refusing_write:
  obtains s' where "write_image refusing_disk img ''/dev/sda'' 4 s
     = (Inl (Failed (DiskPartlyWritten ''/dev/sda'' (CopyFailed img ''/dev/sda'' ''writing destination: EIO''))), s')"
    and "\<exists>t. trace s' = trace s @ t \<and> wrote ''/dev/sda'' t"
proof -
  obtain s1 where s1: "sys_unit refusing_disk (OpenRead img) s = (Inr (), s1)" using refusing_calls(1) [of "OpenRead img"] by (auto simp: gives_def)
  obtain s2 where s2: "sys_unit refusing_disk (OpenWrite ''/dev/sda'') s1 = (Inr (), s2)"
    using refusing_calls(1) [of "OpenWrite ''/dev/sda''"] by (auto simp: gives_def)
  obtain s3 where s3: "sys_text refusing_disk (ReadDecoded img COPY_BUFFER_SIZE) s2 = (Inr ''abcd'', s3)" using refusing_calls(3) unfolding gives_def by blast
  obtain s4 where s4: "sys_unit refusing_disk (WriteAll ''/dev/sda'' ''abcd'') s3 = (Inl (IoError OtherKind ''EIO''), s4)"
    by (simp add: refusing_disk_def sys_unit_def stores_def)
  obtain t1 where t1: "trace s3 = trace s @ t1"
    using bringsD [OF brings_sys(1) s1] bringsD [OF brings_sys(1) s2] bringsD [OF brings_sys(2) s3] by auto
  have t2: "trace s4 = trace s3 @ [(WriteAll ''/dev/sda'' ''abcd'', False)]" using bringsD [OF brings_sys(1) s4] by simp
  have chunk: "\<not> unat COPY_BUFFER_SIZE < length ''abcd''" "count_chunk 4 0 ''abcd'' \<noteq> None"
    by (simp_all add: COPY_BUFFER_SIZE_def count_chunk_def checked_add_def)
  have "write_image refusing_disk img ''/dev/sda'' 4 s
     = (Inl (Failed (DiskPartlyWritten ''/dev/sda'' (CopyFailed img ''/dev/sda'' ''writing destination: EIO''))), s4)"
    using s1 s2 s3 s4 chunk
    by (simp add: write_image_def Let_def open_existing_for_write_def or_fail_def fail_with_def failing_def bindE_def map_err_def
        decode_into.simps [of _ _ _ _ 0] partly_written_def show_io_def)
  moreover have "wrote ''/dev/sda'' (t1 @ [(WriteAll ''/dev/sda'' ''abcd'', False)])" by (simp add: wrote_def stores_def)
  ultimately show thesis using that t1 t2 by (metis append.assoc)
qed

definition download_config :: flash_config where
  "download_config = (flash_config_new FlashMode3)\<lparr>fc_image_url := EnvSet (Url ''https://host/wic.xz''),
     fc_sha256_url := EnvSet (Url ''https://host/wic.xz.sha256'')\<rparr>"

lemma zeros_expected: "expected_sha256 id (replicate 64 (CHR ''0'')) = Inr zero_digest"
  by code_simp

lemma refusing_run:
  fixes s :: "(unit, 'p) machine"
  obtains e s' where "run_selected_mode 9 all_modes no_libraries refusing_disk no_build one_disk_layout ''/rootfs'' download_config s
     = (Inl (Failed e), s')" and "\<not> keeps_log (Inl e)" and "\<exists>t. trace s' = trace s @ t \<and> wrote ''/dev/sda'' t"
proof -
  let ?ops = "real_url_ops 9 all_modes (\<lambda>_. zero_digest) small_codec refusing_disk :: (unit, 'p) machine url_ops"
  let ?img = "path_join DOWNLOAD_DIR IMAGE_FILE_NAME" and ?sum = "path_join DOWNLOAD_DIR SHA256_FILE_NAME"
  have grub: "boot_for_efi all_modes one_disk_layout = Inr ''/dev/sda1''"
    by (simp add: boot_for_efi_def all_modes_def one_disk_layout_def layout_partition_def layout_get_def)
  have disk: "base (root_dev one_disk_layout) = ''/dev/sda''" by (simp add: one_disk_layout_def)
  have net: "gives () (bindE (bring_up refusing_disk Lease) (\<lambda>_. ret ()))" by (rule gives_bindE [OF refusing_network gives_pure(1)])
  obtain s1 where s1: "uo_unmount ?ops ''/rootfs'' ''/dev/sda'' s = (Inr (), s1)"
    using refusing_unmount unfolding real_url_ops_def url_ops.simps gives_def by blast
  obtain s2 where s2: "uo_bring_up_network ?ops Lease s1 = (Inr (), s2)"
    using net unfolding real_url_ops_def url_ops.simps gives_def by blast
  obtain s3 where s3: "uo_download ?ops (Url ''https://host/wic.xz.sha256'') ?sum MAX_SHA256_FILE_LEN s2 = (Inr (), s3)"
    using refusing_download unfolding real_url_ops_def url_ops.simps gives_def by blast
  obtain s4 where s4: "uo_read_sha256_file ?ops ?sum s3 = (Inr (replicate 64 (CHR ''0'')), s4)"
    using refusing_digest_file unfolding real_url_ops_def url_ops.simps gives_def by blast
  obtain s5 where s5: "download_image ?ops (Url ''https://host/wic.xz'') ?img s4 = (Inr (), s5)"
    using refusing_image(1) unfolding gives_def by blast
  obtain s6 where s6: "check_image ?ops ''/dev/sda'' ?img zero_digest s5 = (Inr 4, s6)"
    using refusing_image(2) [of 8, simplified] unfolding gives_def by blast
  obtain s7 where s7: "write_image refusing_disk ?img ''/dev/sda'' 4 s6
     = (Inl (Failed (DiskPartlyWritten ''/dev/sda'' (CopyFailed ?img ''/dev/sda'' ''writing destination: EIO''))), s7)"
    and t7: "\<exists>t. trace s7 = trace s6 @ t \<and> wrote ''/dev/sda'' t" by (rule refusing_write)
  obtain t1 t2 t3 t4 t5 t6 where "trace s1 = trace s @ t1" "trace s2 = trace s1 @ t2" "trace s3 = trace s2 @ t3"
    "trace s4 = trace s3 @ t4" "trace s5 = trace s4 @ t5" "trace s6 = trace s5 @ t6"
    using calls_only_split [OF calls_any [OF calm_url_ops(1)] s1] calls_only_split [OF calls_any [OF calm_url_ops(2)] s2] calls_only_split [OF calls_any [OF calm_url_ops(3)] s3]
      calls_only_split [OF calls_any [OF calm_url_ops(4)] s4] calls_only_split [OF calls_any [OF calm_url_ops(5)] s5] calls_only_split [OF calls_any [OF calm_check_image] s6]
    by (elim exE conjE) (rule that, assumption+)
  then have "trace s6 = trace s @ (t1 @ t2 @ t3 @ t4 @ t5 @ t6)" by simp
  moreover obtain t7 where "trace s7 = trace s6 @ t7" "wrote ''/dev/sda'' t7" using t7 by blast
  ultimately have "trace s7 = trace s @ ((t1 @ t2 @ t3 @ t4 @ t5 @ t6) @ t7)" "wrote ''/dev/sda'' ((t1 @ t2 @ t3 @ t4 @ t5 @ t6) @ t7)"
    by simp_all
  then have "\<exists>t. trace s7 = trace s @ t \<and> wrote ''/dev/sda'' t" by blast
  moreover have "run_selected_mode 9 all_modes no_libraries refusing_disk no_build one_disk_layout ''/rootfs'' download_config s
     = (Inl (Failed (DiskPartlyWritten ''/dev/sda'' (CopyFailed ?img ''/dev/sda'' ''writing destination: EIO''))), s7)"
  proof -
    have wr: "uo_write_image ?ops = write_image refusing_disk" by (simp add: real_url_ops_def)
    have "run_url 9 all_modes (\<lambda>_. zero_digest) id small_codec refusing_disk one_disk_layout ''/rootfs''
        (Url ''https://host/wic.xz'') (Url ''https://host/wic.xz.sha256'') s
      = (Inl (Failed (DiskPartlyWritten ''/dev/sda'' (CopyFailed ?img ''/dev/sda'' ''writing destination: EIO''))), s7)"
      by (simp only: run_url_def url_with_def Let_def disk grub zeros_expected wr bindE_def lift_res_def ret_def sum.case prod.case
          s1 s2 s3 s4 s5 s6 s7)
    then show ?thesis
      by (simp add: run_selected_mode_def download_config_def flash_config_new_def env_value_of_def lift_env_def no_libraries_def
          bindE_def)
  qed
  ultimately show thesis using that by (simp add: keeps_log_def)
qed

lemma broken_disk_gets_no_log_witness:
  "\<exists>s2 e t u. run_selected_mode 9 all_modes no_libraries refusing_disk no_build one_disk_layout ''/rootfs'' download_config small_start
       = (Inl (Failed e), s2)
     \<and> trace s2 = t \<and> wrote ''/dev/sda'' t
     \<and> trace (snd (run_flash 9 all_modes no_libraries refusing_disk no_build None one_disk_layout ''/rootfs'' download_config
         [''line''] small_start)) = t @ u
     \<and> (reread ''/dev/sda'' \<in> set t \<or> (\<forall>c \<in> set u. fst c = SyncAll))"
proof -
  obtain r s' where run: "run_flash 9 all_modes no_libraries refusing_disk no_build None one_disk_layout ''/rootfs'' download_config
      [''line''] small_start = (r, s')" by fastforce
  have mode: "fc_mode download_config \<noteq> FlashMode1" by (simp add: download_config_def flash_config_new_def)
  have disk: "base (root_dev one_disk_layout) = ''/dev/sda''" by (simp add: one_disk_layout_def)
  have "base (root_dev one_disk_layout) \<noteq> up_decoded upload_in_home" unfolding disk by code_simp
  from broken_disk_gets_no_log [OF run mode this] obtain outcome s2 t u where shape:
    "run_selected_mode 9 all_modes no_libraries refusing_disk no_build one_disk_layout ''/rootfs'' download_config small_start = (outcome, s2)"
    "trace s2 = t" "trace s' = trace s2 @ u"
    "wrote ''/dev/sda'' t \<longrightarrow> reread ''/dev/sda'' \<in> set t \<or> (\<forall>c \<in> set u. fst c = SyncAll)"
    by (auto simp: disk)
  moreover obtain e where "outcome = Inl (Failed e)" "wrote ''/dev/sda'' t"
    by (rule refusing_run [where s = small_start]) (use shape in auto)
  ultimately show ?thesis using run by auto
qed

end
