(* ===== verification/Efi_Safety.thy ===== *)
theory Efi_Safety
  imports Efi Guarded
begin

text \<open>
  The order of \<open>handle_efi\<close> in \<open>src/mode/flash/efi.rs\<close>: a machine is never left without a boot entry, since the old
  entries are only deleted once the new one is there, and no entry is deleted that was not there before it.
\<close>

definition deletes_entry :: "call \<Rightarrow> bool" where
  "deletes_entry c = (case c of Spawn cmd args _ \<Rightarrow> cmd = EFIBOOTMGR_CMD \<and> (case args of
     [flag, _, action] \<Rightarrow> flag = ''-b'' \<and> action = ''-B'' | _ \<Rightarrow> False) | _ \<Rightarrow> False)"

text \<open>From \<open>s\<close> on the entries were listed and then, in \<open>s2\<close>, the new one was there.\<close>

definition entry_created :: "'w os \<Rightarrow> string \<Rightarrow> string \<Rightarrow> ('w, 'p) machine \<Rightarrow> ('w, 'p) machine \<Rightarrow> bool" where
  "entry_created os disk listing s s2 \<longleftrightarrow> (\<exists>a b out. mount_efivarfs os s = (Inr () :: flash_error stop + unit, a)
     \<and> efibootmgr os [] a = (Inr listing, b) \<and> efibootmgr os (entry_args disk) b = (Inr out, s2))"

lemma efibootmgr_calls: "calls_only (\<lambda>c. c = Spawn EFIBOOTMGR_CMD args []) (efibootmgr os args)"
  unfolding efibootmgr_def by (auto intro!: calls_intros)

lemma keeps_entries:
  "calls_only (\<lambda>c. \<not> deletes_entry c) (mount_efivarfs os)" "calls_only (\<lambda>c. \<not> deletes_entry c) (efibootmgr os [])"
  "calls_only (\<lambda>c. \<not> deletes_entry c) (write_entry_dump os boot content)"
proof -
  show "calls_only (\<lambda>c. \<not> deletes_entry c) (mount_efivarfs os)"
    unfolding mount_efivarfs_def is_path_mounted_def by (auto intro!: calls_intros simp: deletes_entry_def)
  show "calls_only (\<lambda>c. \<not> deletes_entry c) (efibootmgr os [])"
    by (rule calls_only_mono [OF efibootmgr_calls]) (simp add: deletes_entry_def)
  show "calls_only (\<lambda>c. \<not> deletes_entry c) (write_entry_dump os boot content)"
    unfolding write_entry_dump_def with_mount_def umount_def Let_def
    by (auto intro!: calls_intros simp: deletes_entry_def split: option.split sum.split)
qed

lemma create_keeps_entries: "calls_only (\<lambda>c. \<not> deletes_entry c) (efibootmgr os (entry_args disk))"
  by (rule calls_only_mono [OF efibootmgr_calls]) (simp add: deletes_entry_def entry_args_def)

text \<open>Of what was there before: the identifiers of the lines of the first listing.\<close>

definition deletes_only :: "string list \<Rightarrow> call \<Rightarrow> bool" where
  "deletes_only ids c \<longleftrightarrow> (deletes_entry c \<longrightarrow> (\<exists>i \<in> set ids. c = Spawn EFIBOOTMGR_CMD (delete_args i) []))"

lemma delete_listed: "i \<in> set ids \<Longrightarrow> calls_only (deletes_only ids) (efibootmgr os (delete_args i))"
  by (rule calls_only_mono [OF efibootmgr_calls]) (auto simp: deletes_only_def)

lemma deletes_nothing: "calls_only (\<lambda>c. \<not> deletes_entry c) m \<Longrightarrow> calls_only (deletes_only ids) m"
  by (erule calls_only_mono) (simp add: deletes_only_def)

lemma verbose_keeps_entries: "calls_only (\<lambda>c. \<not> deletes_entry c) (efibootmgr os [''-v''])"
  by (rule calls_only_mono [OF efibootmgr_calls]) (simp add: deletes_entry_def)

text \<open>The listing and the new entry are one step: the entries are deleted after both.\<close>

definition list_and_create :: "'w os \<Rightarrow> string \<Rightarrow> (('w, 'p) machine, string) flash" where
  "list_and_create os disk = bindE (efibootmgr os []) (\<lambda>listing. bindE (efibootmgr os (entry_args disk)) (\<lambda>_. ret listing))"

definition delete_and_keep :: "'w os \<Rightarrow> string \<Rightarrow> string \<Rightarrow> (('w, 'p) machine, unit) flash" where
  "delete_and_keep os boot listing =
     bindE (for_each (boot_entry_ids listing) (\<lambda>i. bindE (efibootmgr os (delete_args i)) (\<lambda>_. ret ()))) (\<lambda>_.
     bindE (efibootmgr os [''-v'']) (\<lambda>content. write_entry_dump os boot content))"

lemma handle_efi_steps: "handle_efi (real_efi_ops os) disk boot
    = bindE (mount_efivarfs os) (\<lambda>_. bindE (list_and_create os disk) (delete_and_keep os boot))"
  by (simp add: handle_efi_def real_efi_ops_def list_and_create_def delete_and_keep_def bindE_assoc)

lemma list_and_create_created:
  "mount_efivarfs os s = (Inr () :: flash_error stop + unit, a) \<Longrightarrow> list_and_create os disk a = (Inr listing, s2) \<Longrightarrow> entry_created os disk listing s s2"
  unfolding list_and_create_def entry_created_def by (elim bindE_InrE) (intro exI conjI; simp)

lemma list_and_create_calls: "calls_only (\<lambda>c. \<not> deletes_entry c) (list_and_create os disk)"
  unfolding list_and_create_def by (intro calls_intros keeps_entries create_keeps_entries)

lemma delete_and_keep_calls: "calls_only (deletes_only (boot_entry_ids listing)) (delete_and_keep os boot listing)"
  unfolding delete_and_keep_def by (intro calls_intros delete_listed deletes_nothing verbose_keeps_entries keeps_entries)

lemma guarded_efi:
  "guarded (\<lambda>c. \<not> deletes_entry c) (\<lambda>s2 _ u. \<exists>listing. entry_created os disk listing s s2
       \<and> (\<forall>c \<in> set u. deletes_only (boot_entry_ids listing) (fst c))) (handle_efi (real_efi_ops os) disk boot) s"
  unfolding handle_efi_steps
proof (rule guarded_after [OF keeps_entries(1)], rule guarded_check [OF list_and_create_calls brings_calls [OF delete_and_keep_calls]], goal_cases)
  case (1 x a listing s2 r u)
  then have "entry_created os disk listing s s2" by (intro list_and_create_created) simp_all
  then show ?case using 1(3) by blast
qed

text \<open>C21: Whatever fails, no boot entry is deleted before a new one has been created, and only entries that were listed before it
  was are deleted.\<close>

theorem efi_deletes_after_create:
  fixes s s' :: "('w, 'p) machine"
  assumes "handle_efi (real_efi_ops os) disk boot s = (r, s')"
  shows "\<exists>t u. trace s' = trace s @ t @ u \<and> (\<forall>c \<in> set t. \<not> deletes_entry (fst c))
    \<and> (isl r \<and> u = [] \<or> (\<exists>listing s2. trace s2 = trace s @ t \<and> entry_created os disk listing s (s2 :: ('w, 'p) machine)
          \<and> (\<forall>c \<in> set u. deletes_entry (fst c) \<longrightarrow> (\<exists>i \<in> set (boot_entry_ids listing). fst c = Spawn EFIBOOTMGR_CMD (delete_args i) []))))"
  using guardedD [OF guarded_efi assms] unfolding deletes_only_def by blast

section \<open>A small run\<close>

text \<open>A firmware with one old entry.\<close>

definition one_entry :: "unit os" where
  "one_entry = \<lparr>os_unit = \<lambda>_ w. (Inr (), w), os_text = \<lambda>_ w. (Inr [], w), os_bool = \<lambda>_ w. (True, w), os_num = \<lambda>_ w. (Inr 0, w),
     os_run = \<lambda>_ w. (Inr \<lparr>exit_code = Some 0, stdout = ''Boot0001* old'', stderr = [], signal_text = []\<rparr>, w),
     os_stat = \<lambda>_ w. (Inl (IoError NotFound []), w), os_entries = \<lambda>_ w. (Inr [], w), os_addrs = \<lambda>_ w. (Inr [], w),
     os_delay = \<lambda>_ _. 0\<rparr>"

definition one_entry_run :: "(flash_error stop + unit) \<times> (unit, unit) machine" where
  "one_entry_run = handle_efi (real_efi_ops one_entry) ''/dev/sda'' ''/dev/sda1'' \<lparr>world = (), trace = [], clock = 0, program = ()\<rparr>"

lemma one_entry_ids: "boot_entry_ids ''Boot0001* old'' = [''0001'']"
  by code_simp

lemma one_entry_text: "utf8_lossy ''Boot0001* old'' = ''Boot0001* old''"
  by code_simp

lemma one_entry_deleted: "\<not> isl (fst one_entry_run)"
  by (simp add: one_entry_run_def handle_efi_def real_efi_ops_def mount_efivarfs_def is_path_mounted_def efibootmgr_def
      write_entry_dump_def with_mount_def mount_fs_def umount_def attempt_def or_fail_def map_err_def bindE_def caught_def
      sys_unit_def sys_text_def sys_run_def one_entry_def one_entry_ids one_entry_text success_def Let_def
      del: utf8_lossy.simps split: option.split)

lemma efi_deletes_after_create_witness:
  "\<exists>listing (s2 :: (unit, unit) machine). entry_created one_entry ''/dev/sda'' listing \<lparr>world = (), trace = [], clock = 0, program = ()\<rparr> s2"
proof -
  have "handle_efi (real_efi_ops one_entry) ''/dev/sda'' ''/dev/sda1'' \<lparr>world = (), trace = [], clock = 0, program = ()\<rparr>
      = (fst one_entry_run, snd one_entry_run)"
    by (simp add: one_entry_run_def)
  from efi_deletes_after_create [OF this] one_entry_deleted show ?thesis by blast
qed

end
