(* ===== verification/Unmount_Facts.thy ===== *)
theory Unmount_Facts
  imports Unmount_Disk "HOL-Library.Multiset"
begin

text \<open>
  The order \<open>src/mode/flash/unmount.rs\<close> unmounts in, and the decoding of the kernel's escapes in \<open>/proc/mounts\<close>.
\<close>

section \<open>Deepest first\<close>

lemma set_insert_deep [simp]: "set (insert_deep p qs) = insert p (set qs)"
  by (induction qs) auto

lemma mset_insert_deep [simp]: "mset (insert_deep p qs) = add_mset p (mset qs)"
  by (induction qs) simp_all

lemma sorted_insert_deep:
  "sorted_wrt (\<lambda>p q. path_depth q \<le> path_depth p) qs \<Longrightarrow> sorted_wrt (\<lambda>p q. path_depth q \<le> path_depth p) (insert_deep p qs)"
  by (induction qs) auto

lemma filter_insert_deep:
  "sorted_wrt (\<lambda>p q. path_depth q \<le> path_depth p) qs \<Longrightarrow>
   filter (\<lambda>q. path_depth q = n) (insert_deep p qs) = filter (\<lambda>q. path_depth q = n) (p # qs)"
  by (induction qs) (auto simp: filter_empty_conv)

lemma sorted_deepest_first: "sorted_wrt (\<lambda>p q. path_depth q \<le> path_depth p) (deepest_first ps)"
  by (induction ps) (simp_all add: deepest_first_def sorted_insert_deep)

lemma filter_deepest_first: "filter (\<lambda>q. path_depth q = n) (deepest_first ps) = filter (\<lambda>q. path_depth q = n) ps"
proof (induction ps)
  case (Cons p ps)
  then show ?case
    using filter_insert_deep [OF sorted_deepest_first [of ps], of n p] by (simp add: deepest_first_def)
qed (simp add: deepest_first_def)

lemma mset_deepest_first: "mset (deepest_first ps) = mset ps"
  by (induction ps) (simp_all add: deepest_first_def)

lemma sorted_wrt_split: "sorted_wrt P (a @ q # b) \<Longrightarrow> p \<in> set b \<Longrightarrow> P q p"
  by (simp add: sorted_wrt_append)

text \<open>The mount points of a disk are unmounted each as often as it was listed, in an order that is stable, and a mount point
  below another one always goes before it.\<close>

lemma deepest_first_nested:
  "mset (deepest_first ps) = mset ps
   \<and> (\<forall>n. filter (\<lambda>q. path_depth q = n) (deepest_first ps) = filter (\<lambda>q. path_depth q = n) ps)
   \<and> (\<forall>a q b p. deepest_first ps = a @ q # b \<longrightarrow> p \<in> set b \<longrightarrow> \<not> strict_prefix (components q) (components p))"
proof (intro conjI allI impI notI)
  fix a q b p
  assume "deepest_first ps = a @ q # b" and "p \<in> set b" and nested: "strict_prefix (components q) (components p)"
  then have "path_depth p \<le> path_depth q" using sorted_wrt_split [of _ a q b p] sorted_deepest_first [of ps] by simp
  moreover have "path_depth q < path_depth p" using nested by (simp add: path_depth_def prefix_length_less)
  ultimately show False by simp
qed (simp_all add: mset_deepest_first filter_deepest_first)

section \<open>The escapes of the kernel\<close>

text \<open>How the kernel prints a path: white space and the backslash as a backslash and three octal digits.\<close>

definition kernel_char :: "char \<Rightarrow> string" where
  "kernel_char c = (if c \<in> {CHR '' '', tab_char, newline, CHR 0x5C}
     then (let n = of_char c in [CHR 0x5C, digit_char (n div 64), digit_char (n div 8 mod 8), digit_char (n mod 8)]) else [c])"

definition kernel_escaped :: "string \<Rightarrow> string" where
  "kernel_escaped p = concat (map kernel_char p)"

text \<open>The same, with a table of the escapes.\<close>

definition escape_char :: "(string \<times> char) list \<Rightarrow> char \<Rightarrow> string" where
  "escape_char es c = (case find (\<lambda>e. snd e = c) es of Some e \<Rightarrow> fst e | None \<Rightarrow> [c])"

lemma kernel_char_table: "kernel_char c = escape_char MOUNTS_ESCAPES c"
  by (auto simp: kernel_char_def escape_char_def MOUNTS_ESCAPES_def digit_char_def char_of_eq_iff)

definition octal :: "string \<Rightarrow> bool" where
  "octal e \<longleftrightarrow> (\<exists>x y z. e = [CHR 0x5C, x, y, z] \<and> x \<noteq> CHR 0x5C \<and> y \<noteq> CHR 0x5C \<and> z \<noteq> CHR 0x5C)"

lemma starts_with_append: "starts_with e (e @ cs)"
  by (simp add: starts_with_def strip_prefix_append del: strip_prefix_Some)

lemma starts_with_octal: "octal esc \<Longrightarrow> starts_with esc (c # cs) \<Longrightarrow> c = CHR 0x5C \<and> take 4 (c # cs) = esc"
  unfolding octal_def starts_with_iff by (elim exE conjE) simp

lemma replace_hit: "e \<noteq> [] \<Longrightarrow> replace_all e r (e @ cs) = r @ replace_all e r cs"
  using starts_with_append [of e cs] by (cases e) simp_all

lemma replace_miss: "octal esc \<Longrightarrow> \<not> starts_with esc (c # cs) \<Longrightarrow> replace_all esc r (c # cs) = c # replace_all esc r cs"
  by (cases esc) simp_all

lemma replace_skip: "octal esc \<Longrightarrow> c \<noteq> CHR 0x5C \<Longrightarrow> replace_all esc r (c # cs) = c # replace_all esc r cs"
  using starts_with_octal by (blast intro: replace_miss)

lemma replace_other:
  assumes "octal esc" and "octal e" and "e \<noteq> esc"
  shows "replace_all esc r (e @ cs) = e @ replace_all esc r cs"
proof -
  obtain x y z where e: "e = [CHR 0x5C, x, y, z]" "x \<noteq> CHR 0x5C" "y \<noteq> CHR 0x5C" "z \<noteq> CHR 0x5C"
    using assms(2) by (auto simp: octal_def)
  have "\<not> starts_with esc (CHR 0x5C # x # y # z # cs)"
    using starts_with_octal [OF assms(1), of "CHR 0x5C" "x # y # z # cs"] assms(3) e(1) by auto
  then have "replace_all esc r (CHR 0x5C # x # y # z # cs) = CHR 0x5C # replace_all esc r (x # y # z # cs)"
    by (rule replace_miss [OF assms(1)])
  then show ?thesis using e replace_skip [OF assms(1)] by simp
qed

lemma decode_one:
  assumes esc: "octal esc" and es: "\<forall>e \<in> set es. octal (fst e) \<and> fst e \<noteq> esc \<and> snd e \<noteq> d"
    and slash: "CHR 0x5C \<in> insert d (snd ` set es)"
  shows "replace_all esc [d] (concat (map (escape_char ((esc, d) # es)) p)) = concat (map (escape_char es) p)"
proof (induction p)
  case Nil
  then show ?case using esc by (auto simp: octal_def)
next
  case (Cons c p)
  let ?rest = "concat (map (escape_char ((esc, d) # es)) p)"
  consider (hit) "c = d" | (other) e where "c \<noteq> d" "find (\<lambda>e. snd e = c) es = Some e"
    | (skip) "c \<noteq> d" "find (\<lambda>e. snd e = c) es = None" by (cases "find (\<lambda>e. snd e = c) es") auto
  then show ?case
  proof cases
    case hit
    then have "find (\<lambda>e. snd e = c) es = None" using es by (auto simp: find_None_iff)
    moreover have "replace_all esc [d] (esc @ ?rest) = [d] @ replace_all esc [d] ?rest"
      using esc by (intro replace_hit) (auto simp: octal_def)
    moreover have "escape_char ((esc, d) # es) c = esc" "escape_char es c = [c]" using hit calculation(1) by (simp_all add: escape_char_def)
    ultimately show ?thesis using hit Cons.IH by simp
  next
    case (other e)
    then have "octal (fst e)" "fst e \<noteq> esc" using es by (auto simp: find_Some_iff)
    from replace_other [OF esc this, of "[d]" ?rest]
    have "replace_all esc [d] (fst e @ ?rest) = fst e @ replace_all esc [d] ?rest" .
    moreover have "escape_char ((esc, d) # es) c = fst e" "escape_char es c = fst e" using other by (simp_all add: escape_char_def)
    ultimately show ?thesis using Cons.IH by simp
  next
    case skip
    then have "c \<noteq> CHR 0x5C" using slash by (auto simp: find_None_iff)
    from replace_skip [OF esc this, of "[d]" ?rest]
    have "replace_all esc [d] (c # ?rest) = c # replace_all esc [d] ?rest" .
    moreover have "escape_char ((esc, d) # es) c = [c]" "escape_char es c = [c]" using skip by (simp_all add: escape_char_def)
    ultimately show ?thesis using Cons.IH by simp
  qed
qed

text \<open>C35: Whatever a mount point is called, the name the code works with is the one the kernel has escaped.\<close>

theorem decode_mounts_field_roundtrip: "decode_mounts_field (kernel_escaped p) = p"
proof -
  have octals: "octal ([CHR 0x5C] @ ''040'')" "octal ([CHR 0x5C] @ ''011'')" "octal ([CHR 0x5C] @ ''012'')" "octal ([CHR 0x5C] @ ''134'')"
    by (simp_all add: octal_def)
  have none: "concat (map (escape_char []) p) = p" by (induction p) (simp_all add: escape_char_def)
  show ?thesis
    unfolding decode_mounts_field_def kernel_escaped_def kernel_char_table MOUNTS_ESCAPES_def foldl.simps prod.case
    using octals none by (subst decode_one; simp)+
qed

end
