(* ===== verification/Boot_Safety.thy ===== *)
theory Boot_Safety
  imports Boot_Sequence Init_Setup Guarded
begin

text \<open>
  The order of the checks in \<open>src/filesystem/boot_sequence.rs\<close> and \<open>src/filesystem/resize_data.rs\<close>: a partition is
  checked before it is mounted, and the data file system is only resized after a strict check.
\<close>

section \<open>Checked, then mounted\<close>

text \<open>Every device in the trace that is mounted and does not belong to \<open>S\<close> has been given to \<open>fsck\<close> before.\<close>

definition checked_first :: "string set \<Rightarrow> (call \<times> bool) list \<Rightarrow> bool" where
  "checked_first S t \<longleftrightarrow> (\<forall>a dev tgt fs fl d ok b. t = a @ (MountCall (Some dev) tgt fs fl d, ok) # b \<longrightarrow>
     dev \<in> S \<or> (\<exists>ty force run. (fsck_command dev ty force, run) \<in> set a))"

definition mounts :: "call \<Rightarrow> bool" where
  "mounts c = (case c of MountCall src _ _ _ _ \<Rightarrow> src \<noteq> None | _ \<Rightarrow> False)"

lemma checked_first_none: "\<forall>c \<in> set t. \<not> mounts (fst c) \<Longrightarrow> checked_first S t"
  by (auto simp: checked_first_def mounts_def)

lemma checked_first_append:
  assumes "checked_first S t" and "checked_first S u"
  shows "checked_first S (t @ u)"
  unfolding checked_first_def
proof (intro allI impI)
  fix a dev tgt fs fl d ok b
  assume split: "t @ u = a @ (MountCall (Some dev) tgt fs fl d, ok) # b"
  then consider (left) c where "t = a @ (MountCall (Some dev) tgt fs fl d, ok) # c"
    | (right) c where "a = t @ c" "u = c @ (MountCall (Some dev) tgt fs fl d, ok) # b"
    by (auto simp: append_eq_append_conv2 append_eq_Cons_conv)
  then show "dev \<in> S \<or> (\<exists>ty force run. (fsck_command dev ty force, run) \<in> set a)"
  proof cases
    case left
    then show ?thesis using assms(1) unfolding checked_first_def by blast
  next
    case right
    then have "dev \<in> S \<or> (\<exists>ty force run. (fsck_command dev ty force, run) \<in> set c)"
      using assms(2) unfolding checked_first_def by blast
    then show ?thesis using right(1) by auto
  qed
qed

lemma checked_first_mount:
  "source \<in> S \<or> (\<exists>ty force run. (fsck_command source ty force, run) \<in> set t) \<Longrightarrow> \<forall>c \<in> set t. \<not> mounts (fst c) \<Longrightarrow>
   checked_first S (t @ [(MountCall (if source = [] then None else Some source) tgt fs fl d, ok)])"
  by (auto simp: checked_first_def mounts_def append_eq_append_conv2 append_eq_Cons_conv Cons_eq_append_conv split: if_splits)

lemma brings_checked_bindE:
  assumes "brings (\<lambda>_. checked_first S) m" and "\<And>x. brings (\<lambda>_. checked_first S) (f x)"
  shows "brings (\<lambda>_. checked_first S) (bindE m f)"
  by (rule brings_bindE [OF assms]) (auto intro: checked_first_append)

lemma brings_checked_none: "calls_only (\<lambda>c. \<not> mounts c) m \<Longrightarrow> brings (\<lambda>_. checked_first S) m"
  by (rule brings_mono [OF brings_calls]) (auto intro: checked_first_none)

section \<open>A check runs fsck\<close>

lemma mounts_simps [simp]:
  "\<not> mounts (SpawnEnv e p a i)" "\<not> mounts (Spawn p a i)" "\<not> mounts (ReadText p)" "\<not> mounts (WriteFile p w)" "\<not> mounts (MakeDirs p)"
  by (simp_all add: mounts_def)

definition runs_fsck :: "string \<Rightarrow> fs_type \<Rightarrow> (call \<times> bool) list \<Rightarrow> bool" where
  "runs_fsck dev ty t \<longleftrightarrow> (\<exists>run. (fsck_command dev ty False, run) \<in> set t) \<and> (\<forall>c \<in> set t. \<not> mounts (fst c))"

lemma brings_run_fsck: "brings (\<lambda>_. runs_fsck dev ty) (run_fsck os dev ty False)"
  unfolding run_fsck_def
  by (rule brings_bindE [OF brings_map_err [OF brings_sys(6), where R = "\<lambda>_ t. \<exists>b. t = [(fsck_command dev ty False, b)]"]
        brings_pure(1) [where Q = "\<lambda>_ t. t = []"]])
    (auto simp: runs_fsck_def fsck_command_def)

lemma quiet_fsck: "calls_only (\<lambda>c. \<not> mounts c) (run_fsck os dev ty force)"
  unfolding run_fsck_def fsck_command_def by (auto intro!: calls_intros)

lemma quiet_ratelimit: "calls_only (\<lambda>c. \<not> mounts c) (disable_kmsg_ratelimit os)" "calls_only (\<lambda>c. \<not> mounts c) (enable_kmsg_ratelimit os)"
  unfolding disable_kmsg_ratelimit_def enable_kmsg_ratelimit_def by (auto intro!: calls_intros split: sum.split option.split)

lemma disable_never_fails: "never_fails (disable_kmsg_ratelimit os)"
  unfolding disable_kmsg_ratelimit_def by (auto intro!: total_intros split: sum.split)

lemma runs_fsck_append: "runs_fsck dev ty t \<Longrightarrow> \<forall>c \<in> set u. \<not> mounts (fst c) \<Longrightarrow> runs_fsck dev ty (t @ u)"
  "\<forall>c \<in> set u. \<not> mounts (fst c) \<Longrightarrow> runs_fsck dev ty t \<Longrightarrow> runs_fsck dev ty (u @ t)"
  by (auto simp: runs_fsck_def)

lemma brings_check: "brings (\<lambda>_. runs_fsck dev ty) (check_filesystem os dev ty)"
proof -
  have "brings (\<lambda>_. runs_fsck dev ty) (check_filesystem_with dev ty (run_fsck os dev ty))"
    unfolding check_filesystem_with_def
    by (rule brings_bindE [OF brings_run_fsck brings_calls [where P = "\<lambda>c. \<not> mounts c"]])
      (auto intro!: calls_intros quiet_fsck runs_fsck_append(1) split: prod.split)
  then have "brings (\<lambda>_. runs_fsck dev ty) (caught (check_filesystem_with dev ty (run_fsck os dev ty))
      (\<lambda>r. bindE (enable_kmsg_ratelimit os) (\<lambda>_. lift_res r)))"
    by (rule brings_caught [OF _ brings_calls [where P = "\<lambda>c. \<not> mounts c"]])
      (auto intro!: calls_intros quiet_ratelimit runs_fsck_append(1))
  then show ?thesis
    unfolding check_filesystem_def
    by (rule brings_bindE [OF brings_sure [OF quiet_ratelimit(1) disable_never_fails]]) (auto intro: runs_fsck_append(2))
qed

lemma brings_lenient: "brings (\<lambda>_. runs_fsck dev ty) (check_filesystem_lenient os dev ty)"
  unfolding check_filesystem_lenient_def
  by (rule brings_caught [OF brings_check brings_calls [where P = "\<lambda>c. \<not> mounts c"]])
    (auto intro!: calls_intros runs_fsck_append(1))

lemma brings_fsck_and_record: "brings (\<lambda>_. runs_fsck dev ty) (fsck_and_record os dev name ty)"
  unfolding fsck_and_record_def
proof (rule brings_caught [OF brings_lenient brings_calls [where P = "\<lambda>c. \<not> mounts c"]])
  fix r :: "filesystem_error + fsck_result"
  show "calls_only (\<lambda>c. \<not> mounts c) (case r of
      Inr x \<Rightarrow> modify_ods (record_fsck_result name (fr_exit_code x) (fr_output x))
    | Inl (FsckRequiresReboot d c out) \<Rightarrow>
        bindE (modify_ods (record_fsck_result name c out)) (\<lambda>_. throw (FsckRequiresReboot d c out))
    | Inl e \<Rightarrow> throw e)"
    by (cases r; cases "projl r") (auto intro!: calls_intros)
qed (auto intro: runs_fsck_append(1))

text \<open>Checking a device and then mounting it.\<close>

lemma brings_check_then_mount:
  "brings (\<lambda>_. checked_first S) (bindE (map_err g (fsck_and_record os dev name ty)) (\<lambda>_. map_err h (mount_fs os dev tgt opts)))"
proof -
  have check: "brings (\<lambda>_. runs_fsck dev ty) (map_err g (fsck_and_record os dev name ty))"
    by (rule brings_map_err [OF brings_fsck_and_record])
  have mount: "brings (\<lambda>_ t. \<exists>fs fl d ok. t = [(MountCall (if dev = [] then None else Some dev) tgt fs fl d, ok)])
      (map_err h (mount_fs os dev tgt opts))"
    unfolding mount_fs_def by (rule brings_map_err [OF brings_map_err [OF brings_sys(1)]]) auto
  show ?thesis
  proof (rule brings_bindE [OF check mount])
    fix t u :: "(call \<times> bool) list" and q :: "'d + unit"
    assume "runs_fsck dev ty t" and "\<exists>fs fl d ok. u = [(MountCall (if dev = [] then None else Some dev) tgt fs fl d, ok)]"
    then show "checked_first S (t @ u)" unfolding runs_fsck_def by (elim conjE exE) (hypsubst, rule checked_first_mount, auto)
  qed (auto simp: runs_fsck_def intro!: checked_first_none)
qed

text \<open>Mounting what needs no check.\<close>

lemma brings_mount_exempt: "source \<in> S \<Longrightarrow> brings (\<lambda>_. checked_first S) (map_err h (mount_fs os source tgt opts))"
  unfolding mount_fs_def
  by (rule brings_map_err [OF brings_map_err [OF brings_sys(1), where R = "\<lambda>_. checked_first S"]])
    (auto simp: checked_first_def append_eq_Cons_conv Cons_eq_append_conv split: if_splits)

lemma quiet_mounted: "calls_only (\<lambda>c. \<not> mounts c) (is_path_mounted os p)"
  unfolding is_path_mounted_def by (auto intro!: calls_intros)

definition exempt :: "partition_layout \<Rightarrow> string set" where
  "exempt l = {dev. layout_get l RootCurrent = Some dev} \<union> {fs_type_str Tmpfs}"

lemma core_checked: "brings (\<lambda>_. checked_first (exempt l)) (mount_core_partitions os l rootfs)"
proof (cases "layout_get l RootCurrent")
  case None
  then show ?thesis unfolding mount_core_partitions_def by (auto intro!: brings_pure checked_first_none)
next
  case (Some root)
  have boot: "brings (\<lambda>_. checked_first (exempt l)) (case layout_get l Boot of None \<Rightarrow> ret () | Some boot_dev \<Rightarrow>
      (let boot_mount = path_join rootfs MP_BOOT in
       bindE (map_err Filesystem (is_path_mounted os boot_mount)) (\<lambda>mounted.
       if mounted then throw (Filesystem (MountFailed boot_dev boot_mount
         ''boot partition already mounted at start of mount_core_partitions''))
       else bindE (map_err Filesystem (fsck_and_record os boot_dev Boot Vfat)) (\<lambda>_.
         map_err Filesystem (mount_fs os boot_dev boot_mount vfat_options)))))"
    unfolding Let_def
    by (cases "layout_get l Boot") (auto intro!: brings_pure checked_first_none
      brings_checked_bindE [OF brings_checked_none [OF calls_only_map_err [OF quiet_mounted]]] brings_check_then_mount)
  have exempt: "root \<in> exempt l" using Some by (simp add: exempt_def)
  show ?thesis
    unfolding mount_core_partitions_def using Some
    by (auto intro!: brings_checked_bindE [OF brings_checked_none] brings_checked_bindE [OF brings_mount_exempt [OF exempt]] boot
      calls_intros)
qed

lemma absent_checked: "brings (\<lambda>_. checked_first S) (mount_if_absent os l rootfs p mount_point opts)"
  unfolding mount_if_absent_def Let_def
  by (cases "layout_get l p") (auto intro!: brings_pure checked_first_none
    brings_checked_bindE [OF brings_checked_none [OF calls_only_map_err [OF quiet_mounted]]] brings_check_then_mount)

lemma remaining_checked: "brings (\<lambda>_. checked_first (exempt l)) (mount_remaining_partitions os l rootfs)"
  unfolding mount_remaining_partitions_def mount_tmpfs_def
  by (intro brings_checked_bindE absent_checked brings_mount_exempt) (simp add: exempt_def)

lemma tracked_checked: "brings (\<lambda>_. checked_first S) (mount_tracked_partition os l spec rootfs)"
proof (cases "layout_get l (spec_partition spec)")
  case None
  then show ?thesis unfolding mount_tracked_partition_def by (auto intro!: brings_pure checked_first_none)
next
  case (Some dev)
  then show ?thesis
    unfolding mount_tracked_partition_def Let_def
    by (simp add: bindE_assoc [symmetric])
      (intro brings_checked_bindE [OF brings_check_then_mount] brings_checked_none calls_only_ods)
qed


section \<open>Checked, then resized\<close>

definition resizes :: "call \<Rightarrow> bool" where
  "resizes c = (case c of Spawn cmd _ _ \<Rightarrow> cmd = RESIZE2FS_CMD | _ \<Rightarrow> False)"

definition resizes_only :: "string \<Rightarrow> call \<Rightarrow> bool" where
  "resizes_only dev c \<longleftrightarrow> (resizes c \<longrightarrow> c = Spawn RESIZE2FS_CMD [''-f'', dev] [])"

lemma run_cmd_calls: "(\<And>a. P (Spawn cmd args a)) \<Longrightarrow> calls_only P (run_cmd os cmd args)"
  unfolding run_cmd_def by (auto intro!: calls_intros)

lemma no_resize: "cmd \<noteq> RESIZE2FS_CMD \<Longrightarrow> calls_only (\<lambda>c. \<not> resizes c) (run_cmd os cmd args)"
  by (rule run_cmd_calls) (simp add: resizes_def)

lemma make_room_calls: "calls_only (\<lambda>c. \<not> resizes c) (make_room t os disk)"
  unfolding make_room_def find_extended_partition_def
  by (auto intro!: calls_intros no_resize simp: SGDISK_CMD_def PARTED_CMD_def RESIZE2FS_CMD_def split: table_kind.split option.split)

lemma check_calls: "calls_only (\<lambda>c. \<not> resizes c) (check_filesystem os dev ty)"
  unfolding check_filesystem_def check_filesystem_with_def run_fsck_def disable_kmsg_ratelimit_def enable_kmsg_ratelimit_def fsck_command_def
  by (intro calls_intros) (simp_all add: resizes_def)

text \<open>From \<open>s\<close> on the disk was made ready for the larger partition, and then the check passed, in \<open>s2\<close>.\<close>

definition found_sound :: "table_kind \<Rightarrow> 'w os \<Rightarrow> string \<Rightarrow> string \<Rightarrow> 'w init \<Rightarrow> 'w init \<Rightarrow> bool" where
  "found_sound t os disk dev s s2 \<longleftrightarrow> (\<exists>nr a b x y. partition_number dev = Some nr \<and> make_room t os disk s = (Inr x, a)
     \<and> run_cmd os PARTED_CMD (resizepart_args disk (show_word nr)) a = (Inr y, b)
     \<and> (\<exists>z. check_filesystem os dev Ext4 b = (Inr z, s2)))"

lemma guarded_resize:
  assumes dev: "layout_get l Data = Some dev"
  shows "guarded (\<lambda>c. \<not> resizes c) (\<lambda>s2 _ u. found_sound t os (base (root_dev l)) dev s s2
     \<and> (\<forall>c \<in> set u. resizes_only dev (fst c))) (resize_if_needed t os l) s"
proof (cases "partition_number dev")
  case None
  then show ?thesis by (simp add: resize_if_needed_def dev Let_def)
next
  case (Some nr)
  have room: "calls_only (\<lambda>c. \<not> resizes c) (run_cmd os PARTED_CMD args)" for args
    by (rule no_resize) (simp add: PARTED_CMD_def RESIZE2FS_CMD_def)
  have rest: "calls_only (resizes_only dev) (bindE (run_cmd os RESIZE2FS_CMD [''-f'', dev]) (\<lambda>_. bindE (run_cmd os SYNC_CMD []) (\<lambda>_. ret ())))"
    by (auto intro!: calls_intros simp: run_cmd_def resizes_only_def resizes_def SYNC_CMD_def RESIZE2FS_CMD_def)
  show ?thesis
    unfolding resize_if_needed_def dev Some option.case Let_def
    by (rule guarded_after [OF make_room_calls], rule guarded_after [OF room],
        rule guarded_check [OF calls_only_map_err [OF check_calls] brings_calls [OF rest]])
      (auto simp: found_sound_def Some)
qed

text \<open>C32: The data file system is only handed to \<open>resize2fs\<close> after a strict check of it, made in this run once the partition was
  enlarged, has passed, and no other device is.\<close>

theorem resize_after_check:
  fixes s s' :: "'w init"
  assumes "resize_if_needed t os l s = (r, s')" and "layout_get l Data = Some dev"
  shows "\<exists>a u. trace s' = trace s @ a @ u \<and> (\<forall>c \<in> set a. \<not> resizes (fst c))
    \<and> (isl r \<and> u = [] \<or> (\<exists>s2. trace s2 = trace s @ a \<and> found_sound t os (base (root_dev l)) dev s (s2 :: 'w init)
          \<and> (\<forall>c \<in> set u. resizes (fst c) \<longrightarrow> fst c = Spawn RESIZE2FS_CMD [''-f'', dev] [])))"
  using guardedD [OF guarded_resize [OF assms(2)] assms(1)] unfolding resizes_only_def by blast

section \<open>A machine on which everything works\<close>

definition working_os :: "unit os" where
  "working_os = \<lparr>os_unit = \<lambda>_ w. (Inr (), w), os_text = \<lambda>_ w. (Inr [], w), os_bool = \<lambda>_ w. (True, w), os_num = \<lambda>_ w. (Inr 0, w),
     os_run = \<lambda>_ w. (Inr \<lparr>exit_code = Some 0, stdout = [], stderr = [], signal_text = []\<rparr>, w),
     os_stat = \<lambda>_ w. (Inl (IoError NotFound []), w), os_entries = \<lambda>_ w. (Inr [], w), os_addrs = \<lambda>_ w. (Inr [], w),
     os_delay = \<lambda>_ _. 0\<rparr>"

definition boot_disk :: partition_layout where
  "boot_disk = \<lparr>partitions = [RootCurrent \<mapsto> ''/dev/sda2'', Boot \<mapsto> ''/dev/sda1'', Data \<mapsto> ''/dev/sda7''],
     root_dev = \<lparr>base = ''/dev/sda'', partition_sep = [], root_partition = ''/dev/sda2''\<rparr>\<rparr>"

abbreviation cold_start :: "unit init" where
  "cold_start \<equiv> \<lparr>world = (), trace = [], clock = 0, program = initial_program\<rparr>"

definition data_mount :: partition_mount_spec where
  "data_mount = \<lparr>spec_partition = Data, spec_mount_point = MP_DATA_PARTITION, spec_options = ext4_readwrite, spec_fstype = Ext4\<rparr>"


lemma resize_after_check_witness:
  "\<exists>a u. trace (snd (resize_if_needed Gpt working_os boot_disk cold_start)) = a @ u \<and> (\<forall>c \<in> set a. \<not> resizes (fst c))
    \<and> (\<forall>c \<in> set u. resizes (fst c) \<longrightarrow> fst c = Spawn RESIZE2FS_CMD [''-f'', ''/dev/sda7''] [])"
proof -
  have "layout_get boot_disk Data = Some ''/dev/sda7''" by (simp add: layout_get_def boot_disk_def)
  from resize_after_check [OF prod.collapse [symmetric] this, of Gpt working_os cold_start]
  obtain a u where "trace (snd (resize_if_needed Gpt working_os boot_disk cold_start)) = a @ u" "\<forall>c \<in> set a. \<not> resizes (fst c)"
      and u: "u = [] \<or> (\<forall>c \<in> set u. resizes (fst c) \<longrightarrow> fst c = Spawn RESIZE2FS_CMD [''-f'', ''/dev/sda7''] [])"
    unfolding machine.simps append_Nil by blast
  then show ?thesis by (intro exI [of _ a] exI [of _ u]) auto
qed

end
