(* ===== verification/Build_Config.thy ===== *)
theory Build_Config
  imports Flash Trace_Logic
begin

text \<open>
  \<open>build.rs\<close>: the build script. It refuses a build without exactly one boot loader and one kind of
  partition table, reads the constants the Yocto build passes in environment variables, and writes them as Rust
  source into \<open>OUT_DIR\<close>, from where \<open>src/config/mod.rs\<close> includes them; \<open>from_build\<close> of the
  flash modes 1 and 2 picks the ones a mode uses. A variable that is not Unicode counts as absent, as it does for
  \<open>env::var(..).ok()\<close>. A panic is the error of the run, with its message; what the script prints for
  cargo is the list \<open>rerun_directives\<close>, the warning about a value that is no number is left out.
\<close>

section \<open>Names and texts\<close>

definition env_var_of :: "build_constant \<Rightarrow> string" where
  "env_var_of c = (case c of
     UbootEnv1Start \<Rightarrow> ''OMNECT_PART_OFFSET_UBOOT_ENV1''
   | UbootEnv2Start \<Rightarrow> ''OMNECT_PART_OFFSET_UBOOT_ENV2''
   | UbootEnvSize \<Rightarrow> ''OMNECT_PART_SIZE_UBOOT_ENV''
   | DataSize \<Rightarrow> ''OMNECT_PART_SIZE_DATA''
   | BootloaderStart \<Rightarrow> ''BOOTLOADER_SEEK''
   | BootStart \<Rightarrow> ''OMNECT_PART_OFFSET_BOOT''
   | BootSize \<Rightarrow> ''OMNECT_PART_SIZE_BOOT''
   | OmnectUserId \<Rightarrow> ''OMNECT_USER_ID'')"

definition rerun_directives :: "string list" where
  "rerun_directives = map (\<lambda>v. ''cargo:rerun-if-env-changed='' @ v)
     [''OMNECT_PART_OFFSET_UBOOT_ENV1'', ''OMNECT_PART_OFFSET_UBOOT_ENV2'', ''OMNECT_PART_SIZE_UBOOT_ENV'',
      ''OMNECT_PART_SIZE_DATA'', ''BOOTLOADER_SEEK'', ''OMNECT_PART_OFFSET_BOOT'', ''OMNECT_PART_SIZE_BOOT'',
      ''OMNECT_USER_ID'']"

type_synonym build_env = "string \<Rightarrow> string option"

text \<open>The constants an environment defines.\<close>

definition build_constants :: "build_env \<Rightarrow> build_constant \<Rightarrow> u64 option" where
  "build_constants env c = read_u64_env (env (env_var_of c))"

definition fmt_option :: "u64 option \<Rightarrow> string" where
  "fmt_option v = (case v of Some n \<Rightarrow> ''Some('' @ show_word n @ ''_u64)'' | None \<Rightarrow> ''None'')"

definition constant_line :: "build_constant \<Rightarrow> u64 option \<Rightarrow> string" where
  "constant_line c v = ''pub const '' @ build_constant_str c @ '': Option<u64> = '' @ fmt_option v @ '';''"

definition generated_lines :: "(build_constant \<Rightarrow> u64 option) \<Rightarrow> string list" where
  "generated_lines v =
    [''// Auto-generated by build.rs from Yocto environment variables. Do not edit.'',
     [],
     ''/// Start of the first U-Boot environment bank (in KB).'',
     constant_line UbootEnv1Start (v UbootEnv1Start),
     ''/// Start of the second U-Boot environment bank (in KB).'',
     constant_line UbootEnv2Start (v UbootEnv2Start),
     ''/// Size of the U-Boot environment (in KB).'',
     constant_line UbootEnvSize (v UbootEnvSize),
     ''/// Initial size of the data partition (in KB).'',
     constant_line DataSize (v DataSize),
     ''/// Start of the bootloader area (in KB), where a machine keeps one.'',
     constant_line BootloaderStart (v BootloaderStart),
     ''/// Start of the boot partition (in KB).'',
     constant_line BootStart (v BootStart),
     ''/// Size of the boot partition (in KB).'',
     constant_line BootSize (v BootSize),
     ''/// Numeric id of the omnect user and its group.'',
     constant_line OmnectUserId (v OmnectUserId)]"

definition generated_text :: "(build_constant \<Rightarrow> u64 option) \<Rightarrow> string" where
  "generated_text v = concat (map (\<lambda>l. l @ [newline]) (generated_lines v))"

section \<open>The script\<close>

definition build_main :: "build_env \<Rightarrow> 'w os \<Rightarrow> (('w, 'p) machine, string, unit) io" where
  "build_main env os =
     (let has = (\<lambda>v. env v \<noteq> None) in
      case check_feature_flags (has ''CARGO_FEATURE_GRUB'') (has ''CARGO_FEATURE_UBOOT'')
             (has ''CARGO_FEATURE_GPT'') (has ''CARGO_FEATURE_DOS'') of
        BuildPanic msg \<Rightarrow> throw msg
      | BuildOk \<Rightarrow>
          (case env ''OUT_DIR'' of
             None \<Rightarrow> throw ''OUT_DIR not set: NotPresent''
           | Some out_dir \<Rightarrow>
               (let dest = path_join out_dir ''build_config.rs'' in
                map_err (\<lambda>e. ''Failed to write '' @ dest @ '': '' @ show_io e)
                  (sys_unit os (WriteFile dest (generated_text (build_constants env)))))))"

text \<open>What the modes 1 and 2 take of the constants.\<close>

definition clone_from_build :: "(build_constant \<Rightarrow> u64 option) \<Rightarrow> clone_build" where
  "clone_from_build v = \<lparr>cb_data_size = v DataSize, cb_bootloader_start = v BootloaderStart,
     cb_uboot_env1_start = v UbootEnv1Start, cb_uboot_env2_start = v UbootEnv2Start,
     cb_uboot_env_size = v UbootEnvSize\<rparr>"

definition scp_from_build :: "(build_constant \<Rightarrow> u64 option) \<Rightarrow> scp_build" where
  "scp_from_build v = \<lparr>sb_boot_start = v BootStart, sb_boot_size = v BootSize,
     sb_omnect_user_id = v OmnectUserId\<rparr>"

section \<open>The generated source\<close>

text \<open>No constant keeps a stale value: a change of any variable that is read reruns the script.\<close>

lemma rerun_directives_complete:
  "''cargo:rerun-if-env-changed='' @ env_var_of c \<in> set rerun_directives"
  by (cases c) (simp_all add: rerun_directives_def env_var_of_def)

lemma env_var_of_inj: "env_var_of c = env_var_of d \<longleftrightarrow> c = d"
  by (cases c; cases d) (simp_all add: env_var_of_def)

lemma build_constant_str_inj: "build_constant_str c = build_constant_str d \<longleftrightarrow> c = d"
  by (cases c; cases d) (simp_all add: build_constant_str_def)

lemma fmt_option_inj: "fmt_option v = fmt_option w \<longleftrightarrow> v = w"
  by (cases v; cases w; simp add: fmt_option_def)

lemma digit_no_newline: "newline \<notin> set (show_word (n :: u64))"
  using show_nat_chars not_digit by (auto simp: show_word_def)

lemma build_constant_str_no_newline: "newline \<notin> set (build_constant_str c)"
  by (cases c) (simp_all add: build_constant_str_def)

lemma fmt_option_no_newline: "newline \<notin> set (fmt_option v)"
  using digit_no_newline by (cases v) (simp_all add: fmt_option_def)

lemma constant_line_shape: "newline \<notin> set (constant_line c v)" "last (constant_line c v) = CHR '';''"
  using build_constant_str_no_newline fmt_option_no_newline by (simp_all add: constant_line_def)

lemma generated_text_lines: "rust_lines (generated_text v) = generated_lines v"
  unfolding generated_text_def
  by (rule rust_lines_unlines) (auto simp: generated_lines_def constant_line_shape)

text \<open>
  A build that succeeds has selected one boot loader and one kind of table and has written one file, in which every
  constant has its own line with the value of its variable.
\<close>

lemma build_main_writes:
  assumes "build_main env os s = (Inr (), s')"
  shows "\<exists>dir txt. env ''OUT_DIR'' = Some dir
    \<and> trace s' = trace s @ [(WriteFile (path_join dir ''build_config.rs'') txt, True)]
    \<and> (\<forall>c. constant_line c (build_constants env c) \<in> set (rust_lines txt))
    \<and> (env ''CARGO_FEATURE_GRUB'' = None) = (env ''CARGO_FEATURE_UBOOT'' \<noteq> None)
    \<and> (env ''CARGO_FEATURE_GPT'' = None) = (env ''CARGO_FEATURE_DOS'' \<noteq> None)"
proof -
  have listed: "constant_line c (v c) \<in> set (generated_lines v)" for c v
    by (cases c) (simp_all add: generated_lines_def)
  have flags: "check_feature_flags (env ''CARGO_FEATURE_GRUB'' \<noteq> None) (env ''CARGO_FEATURE_UBOOT'' \<noteq> None)
      (env ''CARGO_FEATURE_GPT'' \<noteq> None) (env ''CARGO_FEATURE_DOS'' \<noteq> None) = BuildOk"
    using assms by (auto simp: build_main_def Let_def split: build_result.splits)
  then obtain dir where dir: "env ''OUT_DIR'' = Some dir"
    using assms by (auto simp: build_main_def Let_def split: option.splits)
  have wrote: "sys_unit os (WriteFile (path_join dir ''build_config.rs'') (generated_text (build_constants env))) s = (Inr (), s')"
    using assms flags dir by (simp add: build_main_def Let_def)
  obtain t where "trace s' = trace s @ t"
      "t = [(WriteFile (path_join dir ''build_config.rs'') (generated_text (build_constants env)), True)]"
    using bringsD [OF brings_sys(1) wrote] by auto
  then show ?thesis using dir flags listed
    by (intro exI [of _ dir] exI [of _ "generated_text (build_constants env)"])
       (auto simp: generated_text_lines check_feature_flags_ok)
qed

section \<open>From the environment to the bytes of the disk\<close>

text \<open>A constant that is refused is named: it is missing, or it has a value.\<close>

definition refused :: "(build_constant \<Rightarrow> u64 option) \<Rightarrow> flash_error \<Rightarrow> bool" where
  "refused v e \<longleftrightarrow> (\<exists>c. e = MissingBuildConstant c \<and> v c = None)
     \<or> (\<exists>c why n. e = InvalidBuildConstant c why \<and> v c = Some n)"

lemma refused_simps [simp]:
  "refused v (MissingBuildConstant c) \<longleftrightarrow> v c = None"
  "refused v (InvalidBuildConstant c why) \<longleftrightarrow> v c \<noteq> None"
  by (auto simp: refused_def)

definition exact_area :: "(build_constant \<Rightarrow> u64 option) \<Rightarrow> byte_range option \<Rightarrow> bool" where
  "exact_area v area \<longleftrightarrow> (case area of
     None \<Rightarrow> v BootloaderStart = None
   | Some a \<Rightarrow> (\<exists>start stop. v BootloaderStart = Some start \<and> v UbootEnv1Start = Some stop
       \<and> unat (br_offset a) = 1024 * unat start \<and> unat (br_offset a) + unat (br_len a) = 1024 * unat stop))"

definition exact_env :: "(build_constant \<Rightarrow> u64 option) \<Rightarrow> uboot_env \<Rightarrow> bool" where
  "exact_env v ue \<longleftrightarrow> (\<exists>sz one. v UbootEnvSize = Some sz \<and> v UbootEnv1Start = Some one
     \<and> unat (ue_size ue) = 1024 * unat sz
     \<and> map unat (ue_offsets ue) = map (\<lambda>kb. 1024 * unat kb) (one # (case v UbootEnv2Start of None \<Rightarrow> [] | Some two \<Rightarrow> [two])))"

lemma kb_to_bytes_Inr: "kb_to_bytes kb c = Inr b \<Longrightarrow> unat b = 1024 * unat kb"
  using kb_to_bytes_exact [of kb c] by simp

lemma kb_to_bytes_Inl: "kb_to_bytes kb c = Inl e \<Longrightarrow> \<exists>why. e = InvalidBuildConstant c why"
  using kb_to_bytes_exact [of kb c] by simp

lemma bootloader_area_exact:
  "case bootloader_area_of (clone_from_build v) of Inl e \<Rightarrow> refused v e | Inr area \<Rightarrow> exact_area v area"
proof (cases "v BootloaderStart")
  case None
  then show ?thesis by (simp add: bootloader_area_of_def clone_from_build_def exact_area_def)
next
  case start: (Some start)
  show ?thesis
  proof (cases "v UbootEnv1Start")
    case None
    then show ?thesis by (simp add: bootloader_area_of_def clone_from_build_def or_missing_def start)
  next
    case stop: (Some stop)
    have "unat stop = unat start + unat len" if "checked_sub stop start = Some len" for len
      using checked_sub_Some [OF that] by simp
    then show ?thesis
      by (auto simp: bootloader_area_of_def clone_from_build_def or_missing_def start stop exact_area_def algebra_simps
          dest!: kb_to_bytes_Inl kb_to_bytes_Inr split: option.split sum.split)
  qed
qed

lemma cb_data_size_from [simp]: "cb_data_size (clone_from_build v) = v DataSize"
  by (simp add: clone_from_build_def)

lemma scp_constants_exact:
  "case scp_constants_of (scp_from_build v) of Inl e \<Rightarrow> refused v e
    | Inr sc \<Rightarrow> \<exists>start sz i. v BootStart = Some start \<and> v BootSize = Some sz \<and> v OmnectUserId = Some i
        \<and> unat (sc_head_bytes sc) = 1024 * (unat start + unat sz) \<and> unat (sc_omnect_user_id sc) = unat i"
  by (auto simp: scp_constants_of_def scp_from_build_def head_kib_def unsigned_ucast_eq take_bit_nat_eq_self
      dest!: kb_to_bytes_Inl kb_to_bytes_Inr checked_add_Some split: option.split sum.split)

lemma uboot_env_exact:
  "case uboot_env_of (clone_from_build v) of Inl e \<Rightarrow> refused v e | Inr ue \<Rightarrow> exact_env v ue"
  by (auto simp: uboot_env_of_def clone_from_build_def or_missing_def exact_env_def
      dest!: kb_to_bytes_Inl kb_to_bytes_Inr split: option.split sum.split)

text \<open>
  C36: Whatever the build passes in its environment, the constants the flash modes 1 and 2 work with are the exact byte
  values of the KiB numbers in the variables: the boot loader area reaches from its start to the first boot environment,
  the boot environment banks lie where they are said to lie, the head of the disk ends with the boot partition, and the
  user id is the number itself. A constant that cannot be used so is refused by name.
\<close>

theorem build_constants_exact:
  "(case clone_constants_of ft (clone_from_build (build_constants env)) of
      Inl e \<Rightarrow> refused (build_constants env) e
    | Inr cc \<Rightarrow> build_constants env DataSize = Some (cc_data_size_kb cc)
        \<and> exact_area (build_constants env) (cc_bootloader_area cc)
        \<and> (case cc_uboot_env cc of None \<Rightarrow> bootloader ft = Grub
             | Some ue \<Rightarrow> bootloader ft = UBoot \<and> exact_env (build_constants env) ue))
   \<and> (case scp_constants_of (scp_from_build (build_constants env)) of
      Inl e \<Rightarrow> refused (build_constants env) e
    | Inr sc \<Rightarrow> \<exists>start sz i. build_constants env BootStart = Some start \<and> build_constants env BootSize = Some sz
        \<and> build_constants env OmnectUserId = Some i
        \<and> unat (sc_head_bytes sc) = 1024 * (unat start + unat sz) \<and> unat (sc_omnect_user_id sc) = unat i)"
proof (rule conjI)
  let ?v = "build_constants env"
  show "case clone_constants_of ft (clone_from_build ?v) of Inl e \<Rightarrow> refused ?v e
    | Inr cc \<Rightarrow> ?v DataSize = Some (cc_data_size_kb cc) \<and> exact_area ?v (cc_bootloader_area cc)
        \<and> (case cc_uboot_env cc of None \<Rightarrow> bootloader ft = Grub
             | Some ue \<Rightarrow> bootloader ft = UBoot \<and> exact_env ?v ue)"
    using bootloader_area_exact [of ?v] uboot_env_exact [of ?v]
    by (auto simp: clone_constants_of_def or_missing_def split: option.split sum.splits bootloader_kind.split)
  show "case scp_constants_of (scp_from_build ?v) of Inl e \<Rightarrow> refused ?v e
    | Inr sc \<Rightarrow> \<exists>start sz i. ?v BootStart = Some start \<and> ?v BootSize = Some sz \<and> ?v OmnectUserId = Some i
        \<and> unat (sc_head_bytes sc) = 1024 * (unat start + unat sz) \<and> unat (sc_omnect_user_id sc) = unat i"
    by (rule scp_constants_exact)
qed

end
