(* ===== verification/Boot_Calls.thy ===== *)
theory Boot_Calls
  imports Init Guarded
begin

text \<open>
  What a boot may do to the machine as long as nobody has asked for a flash or a factory reset.
  \<open>ordinary\<close> is the set of calls of a normal boot: a dozen tools, none of which formats, flashes or wipes; no
  open device, no raw write, no ioctl, no reboot and no shell; \<open>plain\<close> leaves out the exec of the init as well, and
  \<open>boot_call\<close> admits it for the one init the kernel command line names. The lemmas go through every function of
  \<open>run_init\<close> on its way to the normal boot.
\<close>

section \<open>Ordinary calls\<close>

definition BOOT_TOOLS :: "string list" where
  "BOOT_TOOLS = [BLKID_CMD, GZIP_CMD, GUNZIP_CMD, BASE64_CMD, GRUB_EDITENV_CMD, FW_PRINTENV_CMD, FW_SETENV_CMD,
     CP_CMD, SGDISK_CMD, PARTED_CMD, RESIZE2FS_CMD, SYNC_CMD]"

definition ordinary :: "call \<Rightarrow> bool" where
  "ordinary c \<longleftrightarrow> (case c of
     Spawn prog _ _ \<Rightarrow> prog \<in> set BOOT_TOOLS
   | SpawnEnv _ prog _ _ \<Rightarrow> prog = FSCK_CMD
   | OpenWrite p \<Rightarrow> p = KMSG_PATH
   | OpenWriteExcl _ \<Rightarrow> False | OpenTruncate _ \<Rightarrow> False | OpenNonblock _ \<Rightarrow> False
   | WriteAll _ _ \<Rightarrow> False | WriteSome _ _ \<Rightarrow> False | SetLen _ _ \<Rightarrow> False | Ioctl _ _ _ \<Rightarrow> False
   | SpawnChild _ _ \<Rightarrow> False | WriteStdin _ _ \<Rightarrow> False | RebootCall \<Rightarrow> False | PowerOffCall \<Rightarrow> False
   | _ \<Rightarrow> True)"

lemma ordinary_simps [simp]:
  "ordinary (Spawn prog a i) \<longleftrightarrow> prog \<in> set BOOT_TOOLS" "ordinary (SpawnEnv v prog a i) \<longleftrightarrow> prog = FSCK_CMD"
  "ordinary (OpenWrite p) \<longleftrightarrow> p = KMSG_PATH"
  "ordinary (MountCall src tgt ty fl d)" "ordinary (UmountCall p)" "ordinary (ReadText p)" "ordinary (WriteFile p t)"
  "ordinary (CreateFile p)" "ordinary (Exists p)" "ordinary (IsFile p)" "ordinary (IsDir p)" "ordinary (IsSymlink p)"
  "ordinary (MakeDirs p)" "ordinary (MakeDir p)" "ordinary (RemoveFile p)" "ordinary (RemoveDir p)"
  "ordinary (MakeSymlink p l)" "ordinary (ReadLink p)" "ordinary (Canonicalize p)" "ordinary (Chown p u g)"
  "ordinary (Chmod p m)" "ordinary (FsMagic p)" "ordinary SyncAll" "ordinary (SyncFile p)"
  "ordinary (SleepMs n)" "ordinary (ExecCall p a)" "ordinary (Chroot p)" "ordinary (Chdir p)"
  "ordinary (LoadModule p t z)" "ordinary (Stat p)" "ordinary (Lstat p)" "ordinary (ReadDir p)" "ordinary (OpenRead p)"
  by (simp_all add: ordinary_def)

lemma boot_tools [simp]:
  "BLKID_CMD \<in> set BOOT_TOOLS" "GZIP_CMD \<in> set BOOT_TOOLS" "GUNZIP_CMD \<in> set BOOT_TOOLS" "BASE64_CMD \<in> set BOOT_TOOLS"
  "GRUB_EDITENV_CMD \<in> set BOOT_TOOLS" "FW_PRINTENV_CMD \<in> set BOOT_TOOLS" "FW_SETENV_CMD \<in> set BOOT_TOOLS"
  "CP_CMD \<in> set BOOT_TOOLS" "SGDISK_CMD \<in> set BOOT_TOOLS" "PARTED_CMD \<in> set BOOT_TOOLS"
  "RESIZE2FS_CMD \<in> set BOOT_TOOLS" "SYNC_CMD \<in> set BOOT_TOOLS"
  by (simp_all add: BOOT_TOOLS_def)

text \<open>A plain call leaves the program running; the one ordinary call that does not is the exec of the init.\<close>

definition plain :: "call \<Rightarrow> bool" where
  "plain c \<longleftrightarrow> (case c of ExecCall _ _ \<Rightarrow> False | _ \<Rightarrow> ordinary c)"

lemma plain_simps [simp]:
  "plain (Spawn prog a i) \<longleftrightarrow> prog \<in> set BOOT_TOOLS" "plain (SpawnEnv v prog a i) \<longleftrightarrow> prog = FSCK_CMD"
  "plain (OpenWrite p) \<longleftrightarrow> p = KMSG_PATH"
  "plain (MountCall src tgt ty fl d)" "plain (UmountCall p)" "plain (ReadText p)" "plain (WriteFile p t)"
  "plain (CreateFile p)" "plain (Exists p)" "plain (IsFile p)" "plain (IsDir p)" "plain (IsSymlink p)"
  "plain (MakeDirs p)" "plain (MakeDir p)" "plain (RemoveFile p)" "plain (RemoveDir p)"
  "plain (MakeSymlink p l)" "plain (ReadLink p)" "plain (Canonicalize p)" "plain (Chown p u g)"
  "plain (Chmod p m)" "plain (FsMagic p)" "plain SyncAll" "plain (SyncFile p)"
  "plain (SleepMs n)" "plain (Chroot p)" "plain (Chdir p)"
  "plain (LoadModule p t z)" "plain (Stat p)" "plain (Lstat p)" "plain (ReadDir p)" "plain (OpenRead p)"
  by (simp_all add: plain_def)

lemma plain_ordinary: "plain c \<Longrightarrow> ordinary c"
  by (cases c) (simp_all add: plain_def)

text \<open>The calls of a normal boot: the init that is handed over to is the one the kernel command line names.\<close>

definition init_call :: "cmdline_config \<Rightarrow> call" where
  "init_call cl = ExecCall (absolute_init (init_path_from_cmdline cl)) []"

definition boot_call :: "cmdline_config \<Rightarrow> call \<Rightarrow> bool" where
  "boot_call cl c \<longleftrightarrow> plain c \<or> c = init_call cl"

lemma plain_boot: "calls_only plain m \<Longrightarrow> calls_only (boot_call cl) m"
  by (erule calls_only_mono) (simp add: boot_call_def)

lemma boot_call_ordinary: "boot_call cl c \<Longrightarrow> ordinary c"
  by (auto simp: boot_call_def init_call_def plain_ordinary)

named_theorems plain_calls "functions that only make plain calls"

text \<open>What one step has returned may be used for what follows.\<close>

lemma calls_only_bindE_results:
  assumes m: "calls_only P m" and q: "results E Q m" and f: "\<And>x. Q x \<Longrightarrow> calls_only P (f x)"
  shows "calls_only P (bindE m f)"
  unfolding calls_only_def
proof
  fix s
  obtain r s1 where run: "m s = (r, s1)" by fastforce
  obtain t where t: "trace s1 = trace s @ t" "\<forall>c \<in> set t. P (fst c)" using calls_only_split [OF m run] by blast
  show "\<exists>t. trace (snd (bindE m f s)) = trace s @ t \<and> (\<forall>c \<in> set t. P (fst c))"
  proof (cases r)
    case (Inl e)
    then show ?thesis using run t by (auto simp: bindE_def)
  next
    case (Inr x)
    then have "Q x" using resultsD_Inr [OF q] run by blast
    then obtain u where "trace (snd (f x s1)) = trace s1 @ u" "\<forall>c \<in> set u. P (fst c)"
      using f unfolding calls_only_def by blast
    then show ?thesis using run t Inr by (intro exI [of _ "t @ u"]) (auto simp: bindE_def)
  qed
qed

lemma calls_only_caught_results:
  assumes m: "calls_only P m" and q: "results E Q m" and e: "\<And>e. E e \<Longrightarrow> calls_only P (f (Inl e))"
    and i: "\<And>x. Q x \<Longrightarrow> calls_only P (f (Inr x))"
  shows "calls_only P (caught m f)"
proof -
  let ?m = "\<lambda>s. (Inr (fst (m s)), snd (m s))" and ?Q = "\<lambda>r. case r of Inl e \<Rightarrow> E e | Inr x \<Rightarrow> Q x"
  have "calls_only P (bindE ?m f)"
  proof (rule calls_only_bindE_results)
    show "calls_only P ?m" using m by (simp add: calls_only_def)
    show "results (\<lambda>_. True) ?Q ?m" using q by (auto simp: results_def)
    show "calls_only P (f r)" if "?Q r" for r using that e i by (cases r) simp_all
  qed
  moreover have "caught m f = bindE ?m f"
    by (simp add: caught_def bindE_def fun_eq_iff split: prod.split)
  ultimately show ?thesis by simp
qed

section \<open>Boot environments\<close>

definition env_calls :: "(call \<Rightarrow> bool) \<Rightarrow> (('w, 'p) machine) boot_env \<Rightarrow> bool" where
  "env_calls P bl \<longleftrightarrow> (\<forall>k. calls_only P (get_env bl k)) \<and> (\<forall>k v. calls_only P (set_env bl k v))
     \<and> (\<forall>p c out. calls_only P (save_fsck_status bl p c out)) \<and> (\<forall>p. calls_only P (get_fsck_status bl p))
     \<and> (\<forall>p. calls_only P (clear_fsck_status bl p))"

lemma env_callsD [calls_intros]:
  assumes "env_calls P bl"
  shows "calls_only P (get_env bl k)" "calls_only P (set_env bl k v)" "calls_only P (save_fsck_status bl p c out)"
    "calls_only P (get_fsck_status bl p)" "calls_only P (clear_fsck_status bl p)"
  using assms by (simp_all add: env_calls_def)

lemma plain_fsck_text [plain_calls]:
  "calls_only plain (encode_fsck_output os c out)" "calls_only plain (unpack_fsck_text os t)"
  "calls_only plain (decode_fsck_output os t)" "calls_only plain (sync_filesystems os)"
  unfolding encode_fsck_output_def unpack_fsck_text_def decode_fsck_output_def sync_filesystems_def
  by (intro calls_intros; simp split: option.split add: calls_intros)+

lemma plain_get_fsck_env:
  assumes "\<And>k. calls_only plain (get k)"
  shows "calls_only plain (get_fsck_env os get p)"
proof -
  have "calls_only plain (case u of
      Inl e \<Rightarrow> ret None
    | Inr None \<Rightarrow> throw (invalid_fsck_record (FsckStatus p) ''does not unpack'')
    | Inr (Some raw) \<Rightarrow> (case parse_fsck_text raw of
        Some r \<Rightarrow> ret (Some r) | None \<Rightarrow> throw (invalid_fsck_record (FsckStatus p) ''has no exit code'')))" for u :: "io_error + string option"
    by (auto intro!: calls_intros)
  then show ?thesis unfolding get_fsck_env_def by (intro calls_intros assms plain_calls)
qed

lemma plain_grub:
  "calls_only plain (run_grub_editenv os args)" "calls_only plain (grub_get_env os k)"
  "calls_only plain (grub_set_env os k v)"
proof -
  show run: "calls_only plain (run_grub_editenv os args)" for args :: "string list"
    unfolding run_grub_editenv_def by (intro calls_intros) simp
  show "calls_only plain (grub_get_env os k)" "calls_only plain (grub_set_env os k v)"
    unfolding grub_get_env_def grub_set_env_def by (intro calls_intros run plain_calls)+
qed

lemma plain_fsck_file:
  "calls_only plain (save_fsck_to_file os p encoded)" "calls_only plain (get_fsck_from_file os p)"
  "calls_only plain (clear_fsck_file os p)"
  unfolding save_fsck_to_file_def get_fsck_from_file_def clear_fsck_file_def Let_def
  by (intro calls_intros plain_calls; simp)+

lemma plain_grub_fsck:
  "calls_only plain (grub_save_fsck_status os p c out)" "calls_only plain (grub_get_fsck_status os p)"
  "calls_only plain (grub_clear_fsck_status os p)"
  unfolding grub_save_fsck_status_def grub_get_fsck_status_def grub_clear_fsck_status_def write_boot_fsck_record_def
  by (cases "for_partition p"; simp only: fsck_channel.case;
      intro calls_intros plain_calls plain_grub plain_fsck_file plain_get_fsck_env)+

lemma env_calls_grub: "env_calls plain (grub_boot_env os)"
  by (simp add: env_calls_def grub_boot_env_def plain_grub plain_grub_fsck)

lemma plain_uboot:
  "calls_only plain (uboot_get_env os k)" "calls_only plain (uboot_set_env os k v)"
  unfolding uboot_get_env_def uboot_set_env_def run_fw_printenv_def run_fw_setenv_def Let_def
  by (intro calls_intros; simp)+

lemma plain_default_save: "calls_only plain (default_save_fsck_status os (uboot_set_env os) p c out)"
  unfolding default_save_fsck_status_def by (intro calls_intros plain_uboot plain_calls)

lemma env_calls_uboot: "env_calls plain (uboot_boot_env os)"
  by (simp add: env_calls_def uboot_boot_env_def plain_uboot plain_default_save plain_get_fsck_env
      default_clear_fsck_status_def)

lemma plain_open_env [plain_calls]: "calls_only plain (open_boot_env ft os)"
  unfolding open_boot_env_def new_grub_boot_env_def
  by (cases "bootloader ft") (auto intro!: calls_intros)

lemma open_env_results: "results (\<lambda>_. True) (env_calls plain) (open_boot_env ft os)"
proof -
  have "results (\<lambda>_. True) (env_calls plain) (new_grub_boot_env os)"
    unfolding new_grub_boot_env_def by (auto intro!: results_bindE result_intros env_calls_grub)
  then show ?thesis
    unfolding open_boot_env_def by (cases "bootloader ft") (auto intro!: result_intros env_calls_uboot)
qed

section \<open>Devices, partitions, mounts\<close>

lemma plain_wait_loop:
  "\<exists>t. trace (snd (wait_for_device_loop os start dev s)) = trace s @ t \<and> (\<forall>c \<in> set t. plain (fst c))"
proof (induction os start dev s rule: wait_for_device_loop.induct)
  case (1 os start dev s)
  obtain found s1 where probe: "test_path os (Exists dev) s = (found, s1)" by fastforce
  then have tr: "trace s1 = trace s @ [(Exists dev, found)]" using trace_test_path [of os "Exists dev" s] by simp
  show ?case
  proof (cases "found \<or> DEVICE_WAIT_TIMEOUT_SECS * 1000 < clock s1 - start")
    case True
    then show ?thesis using probe tr by (subst wait_for_device_loop.simps) auto
  next
    case False
    then obtain t where "trace (snd (wait_for_device_loop os start dev (sleep_for os DEVICE_POLL_INTERVAL_MS s1)))
        = trace (sleep_for os DEVICE_POLL_INTERVAL_MS s1) @ t" "\<forall>c \<in> set t. plain (fst c)"
      using 1 [OF probe [symmetric]] by auto
    then show ?thesis
      using probe tr False by (subst wait_for_device_loop.simps) (auto simp: trace_sleep_for)
  qed
qed

lemma plain_blkid_loop:
  "\<exists>t. trace (snd (blkid_loop os start u s)) = trace s @ t \<and> (\<forall>c \<in> set t. plain (fst c))"
proof (induction os start u s rule: blkid_loop.induct)
  case (1 os start u s)
  obtain r s1 where run: "sys_run os (Spawn BLKID_CMD [''--uuid'', u] []) s = (r, s1)" by fastforce
  have v: "trace s1 = trace s @ [(Spawn BLKID_CMD [''--uuid'', u] [], \<exists>out. r = Inr out \<and> success out)]"
    using bringsD [OF brings_sys(6) run] by auto
  show ?case
  proof (cases "\<exists>out. r = Inr out \<and> exit_code out = Some 2 \<and> \<not> DEVICE_WAIT_TIMEOUT_SECS * 1000 \<le> clock s1 - start")
    case True
    then obtain out where out: "r = Inr out" "exit_code out = Some 2" "\<not> DEVICE_WAIT_TIMEOUT_SECS * 1000 \<le> clock s1 - start"
      by blast
    then have "exit_code out \<noteq> Some 0" by simp
    then obtain t where "trace (snd (blkid_loop os start u (sleep_for os DEVICE_POLL_INTERVAL_MS s1)))
        = trace (sleep_for os DEVICE_POLL_INTERVAL_MS s1) @ t" "\<forall>c \<in> set t. plain (fst c)"
      using 1 [OF run [symmetric] out(1)] out by auto
    then show ?thesis
      using run v out by (subst blkid_loop.simps) (auto simp: trace_sleep_for)
  next
    case False
    then have "trace (snd (blkid_loop os start u s)) = trace s1"
      using run by (subst blkid_loop.simps) (auto split: sum.split)
    then show ?thesis using v by auto
  qed
qed

lemma plain_detect_root [plain_calls]: "calls_only plain (detect_root_device ft os cl)"
proof -
  have wait: "calls_only plain (wait_for_device os dev)" for dev
    unfolding calls_only_def wait_for_device_def using plain_wait_loop by blast
  have blkid: "calls_only plain (\<lambda>s. blkid_loop os (clock s) u s)" for u
    unfolding calls_only_def using plain_blkid_loop by blast
  show ?thesis
    unfolding detect_root_device_def device_from_fsuuid_def device_from_path_def
    by (cases "bootloader ft"; simp only: bootloader_kind.case; intro calls_intros wait blkid)
qed

lemma plain_config [plain_calls]: "calls_only plain (load_config os)"
  unfolding load_config_def by (intro calls_intros) simp

lemma plain_symlinks [plain_calls]: "calls_only plain (create_omnect_symlinks os order l)"
  unfolding create_omnect_symlinks_def create_symlink_dir_def create_symlink_def or_else_def
  by (intro calls_intros; simp)

lemma plain_essential [plain_calls]: "calls_only plain (mount_essential_filesystems os)"
  unfolding mount_essential_filesystems_def do_mount_def disable_printk_ratelimit_def
  by (intro calls_intros; simp)

lemma plain_check [plain_calls]:
  "calls_only plain (check_filesystem os dev ty)" "calls_only plain (check_filesystem_lenient os dev ty)"
  unfolding check_filesystem_lenient_def check_filesystem_def check_filesystem_with_def run_fsck_def
    disable_kmsg_ratelimit_def enable_kmsg_ratelimit_def fsck_command_def
  by (intro calls_intros; simp)+

lemma plain_fsck_and_record [plain_calls]: "calls_only plain (fsck_and_record os dev name ty)"
proof -
  have "calls_only plain (case r of
      Inr x \<Rightarrow> modify_ods (record_fsck_result name (fr_exit_code x) (fr_output x))
    | Inl (FsckRequiresReboot d c out) \<Rightarrow>
        bindE (modify_ods (record_fsck_result name c out)) (\<lambda>_. throw (FsckRequiresReboot d c out))
    | Inl e \<Rightarrow> throw e)" for r :: "filesystem_error + fsck_result"
    by (cases r; cases "projl r") (auto intro!: calls_intros)
  then show ?thesis unfolding fsck_and_record_def by (intro calls_only_caught plain_calls)
qed

lemma plain_is_mounted [plain_calls]: "calls_only plain (is_path_mounted os p)"
  unfolding is_path_mounted_def by (intro calls_intros) simp

lemma plain_core [plain_calls]: "calls_only plain (mount_core_partitions os l rootfs)"
  unfolding mount_core_partitions_def Let_def by (intro calls_intros plain_calls; simp)

lemma plain_remaining [plain_calls]: "calls_only plain (mount_remaining_partitions os l rootfs)"
  unfolding mount_remaining_partitions_def mount_if_absent_def mount_tmpfs_def Let_def
  by (intro calls_intros plain_calls; simp)

lemma plain_overlay_parts [plain_calls]:
  "calls_only plain (mount_overlay os lower upper work tgt)" "calls_only plain (bind_mount os source tgt)"
  "calls_only plain (ensure_dir os p)" "calls_only plain (copy_directory_contents os src dst)"
  "calls_only plain (is_upper_dir_empty os p)"
  unfolding mount_overlay_def bind_mount_def ensure_dir_def mount_bind_def copy_directory_contents_def
    is_upper_dir_empty_def Let_def
  by (intro calls_intros; simp)+

lemma plain_write_log [plain_calls]: "calls_only plain (write_fsck_log os dir p out)"
  unfolding write_fsck_log_def create_root_only_dir_def create_root_only_file_def Let_def
  by (intro calls_intros; simp)

lemma plain_persist [plain_calls]:
  assumes "pred_option (env_calls plain) be"
  shows "calls_only plain (persist_fsck_results os order be rootfs st)"
  using assms unfolding persist_fsck_results_def persist_one_def Let_def
  by (intro calls_intros plain_calls; simp)

lemma plain_drain [plain_calls]:
  assumes "pred_option (env_calls plain) be"
  shows "calls_only plain (drain_fsck_env be)"
proof -
  have clear: "calls_only plain (case r of
      Inl (InvalidValue k why) \<Rightarrow> ignore (clear_fsck_status bl p)
    | Inl _ \<Rightarrow> ret ()
    | Inr None \<Rightarrow> ret ()
    | Inr (Some x) \<Rightarrow> bindE (modify_ods (record_fsck_result p (rec_exit_code x) (rec_output x))) (\<lambda>_.
        ignore (clear_fsck_status bl p)))"
    if "env_calls plain bl" for bl :: "'a init boot_env" and p and r :: "boot_env_error + fsck_record option"
    using that by (cases r; cases "projl r"; cases "projr r") (auto intro!: calls_intros)
  show ?thesis
    using assms unfolding drain_fsck_env_def drain_one_def
    by (cases be) (auto intro!: calls_intros clear)
qed

section \<open>The boot mode\<close>

lemma plain_clear_triggers [plain_calls]:
  assumes "env_calls P bl"
  shows "calls_only P (clear_flash_triggers ft bl)" "calls_only P (clear_flash_and_reset_triggers ft bl)"
  unfolding clear_flash_and_reset_triggers_def clear_flash_triggers_def unset_best_effort_def
  by (intro calls_intros assms)+

lemma plain_detect_reset:
  assumes "env_calls plain bl"
  shows "calls_only plain (detect_reset ft js bl)"
  using assms unfolding detect_reset_def
  by (auto intro!: calls_intros split: option.split sum.split)

lemma plain_flash_config:
  assumes "env_calls plain bl"
  shows "calls_only plain (build_flash_config b64 bl m)"
  using assms unfolding build_flash_config_def read_url_def
  by (cases m) (auto intro!: calls_intros split: sum.split)

lemma plain_detect_flash:
  assumes "env_calls plain bl"
  shows "calls_only plain (detect_flash ft b64 bl m)"
  using assms unfolding detect_flash_def Let_def
  by (intro calls_intros plain_calls plain_flash_config)

lemma plain_detect [plain_calls]:
  assumes "pred_option (env_calls plain) be"
  shows "calls_only plain (detect_mode ft os js b64 be)"
proof (cases be)
  case None
  show ?thesis
    unfolding detect_mode_def detect_with_def enforce_flag_def None option.case by (intro calls_intros; simp)
next
  case (Some bl)
  then have "env_calls plain bl" using assms by simp
  then show ?thesis
    unfolding detect_mode_def detect_with_def enforce_flag_def Some option.case
    by (intro calls_intros plain_detect_flash plain_detect_reset; simp)
qed

section \<open>Set-up, modules and the normal boot\<close>

lemma plain_init_setup [plain_calls]:
  assumes "pred_option (env_calls plain) (available be)"
  shows "calls_only plain (run_init_setup ft os l be rootfs)"
proof -
  have args: "calls_only plain (run_extra_bootargs os be rootfs)"
    using assms unfolding run_extra_bootargs_def read_extra_bootargs_def read_bootargs_file_def apply_extra_bootargs_def
      bootargs_failed_def Let_def
    by (cases "available be") (auto intro!: calls_intros plain_calls)
  have cmd: "prog \<in> set BOOT_TOOLS \<Longrightarrow> calls_only plain (run_cmd os prog args)" for prog args
    unfolding run_cmd_def by (intro calls_intros) simp
  have room: "calls_only plain (make_room t os disk)" for t disk
    unfolding make_room_def find_extended_partition_def
    by (cases t; simp only: table_kind.case; intro calls_intros cmd; simp)
  have handle: "calls_only plain (handle_resize_result r)" for r
  proof -
    have "calls_only plain (handle_resize_result (Inl (ResizeData e)))" for e
    proof (cases e)
      case (ResizeFilesystem f)
      then show ?thesis by (cases f) (auto simp: handle_resize_result_def intro!: calls_intros)
    qed (auto simp: handle_resize_result_def intro!: calls_intros)
    then show ?thesis by (cases r; cases "projl r") (auto simp: handle_resize_result_def intro!: calls_intros)
  qed
  show ?thesis
    unfolding run_init_setup_def run_resize_data_def attempt_resize_def resize_if_needed_def Let_def
    by (intro calls_intros args cmd room handle plain_calls; simp)
qed

lemma plain_modules [plain_calls]: "calls_only plain (load_early_modules os rootfs)"
proof -
  have one: "calls_only plain (load_one os (kernel_load os) rs name path oc)" for rs name path oc
    unfolding load_one_def is_present_def is_loaded_def finit_def kernel_load_def Let_def
    by (intro calls_intros; simp)
  have deps: "calls_only plain (load_deps os (kernel_load os) rs ds oc)" for rs ds oc
    by (induction ds arbitrary: oc) (auto intro!: calls_intros one split: option.split)
  have listed: "calls_only plain (load_listed os (kernel_load os) rs name oc)" for rs name oc
    unfolding load_listed_def is_present_def is_loaded_def by (intro calls_intros one deps; simp)
  show ?thesis
    unfolding load_early_modules_def load_with_def read_config_dir_def prepare_def read_or_none_def load_entry_def
      check_loaded_def is_loaded_def Let_def
    by (intro calls_intros listed; simp)
qed

lemma plain_links [plain_calls]: "calls_only plain (create_fs_links os links rootfs)"
proof -
  have link: "calls_only plain (create_link os rootfs e)" for e
    unfolding create_link_def replace_existing_def or_else_def Let_def by (intro calls_intros; simp)
  show ?thesis
    unfolding create_fs_links_def create_links_from_list_def load_fs_link_config_def load_config_file_def Let_def
    by (intro calls_intros link; simp)
qed

lemma plain_ods [plain_calls]:
  assumes "pred_option (env_calls plain) be"
  shows "calls_only plain (create_ods_runtime_files os json st be rootfs dir)"
proof -
  have flags: "calls_only plain (read_flag bl k)" "calls_only plain (clear_update_flag bl k b)"
    "calls_only plain (ensure_first_boot_marker bl)" if "env_calls plain bl" for bl k b
    unfolding read_flag_def clear_update_flag_def clear_flag_def ensure_first_boot_marker_def is_flag_set_def
      is_first_boot_done_def set_first_boot_done_def by (intro calls_intros that)+
  have trigger: "calls_only plain (write_trigger_file os dir name m uid gid)" for name m uid gid
    unfolding write_trigger_file_def set_ownership_def set_mode_def Let_def by (intro calls_intros; simp)
  have validation: "calls_only plain (handle_update_validation os dir rootfs bl uid gid)" if "env_calls plain bl" for bl uid gid
    unfolding handle_update_validation_def remove_update_validation_conf_def
    by (intro calls_intros flags [OF that] trigger; simp)
  show ?thesis
    using assms unfolding create_ods_runtime_files_def lookup_uid_def lookup_gid_def write_status_file_def
      set_ownership_def set_mode_def Let_def
    by (intro calls_intros validation; simp)
qed

lemma plain_free: "calls_only plain (free_initramfs fuel os fd dev)"
proof -
  have "calls_only plain (delete_contents fuel os dev dir n)" for dev dir n
    using delete_contents_calls by (rule calls_only_mono) (auto simp: freeing_call_def plain_def ordinary_def split: call.splits)
  then show ?thesis unfolding free_initramfs_def by (intro calls_intros; simp)
qed

lemma boot_hand_over: "calls_only (boot_call cl) (hand_over fuel os fd (absolute_init (init_path_from_cmdline cl)) i)"
  unfolding hand_over_def
  by (intro calls_intros plain_boot [OF plain_free]) (simp_all add: boot_call_def init_call_def)

lemma prepared_init:
  "results (\<lambda>_. True) (\<lambda>(p, _). p = absolute_init (init_path_from_cmdline cl)) (prepare_switch os new_root cl)"
  by (rule resultsI) (auto simp: prepare_switch_def bindE_eq_Inr split: if_splits dest: resolve_init_path_value)

lemma boot_switch_root: "calls_only (boot_call cl) (switch_root fuel os fd new_root cl)"
proof -
  have prepare: "calls_only plain (prepare_switch os new_root cl)"
    unfolding prepare_switch_def resolve_init_path_def is_executable_file_def open_initramfs_root_def make_mountpoint_def Let_def
    by (intro calls_intros; simp)
  have rollback: "calls_only plain (rollback_critical_mounts os moved new_root)" for moved
    unfolding rollback_critical_mounts_def move_mount_def move_call_def by (intro calls_intros; simp)
  have move: "calls_only plain (move_all os new_root names moved)" for names moved
    by (induction names arbitrary: moved)
       (auto intro!: calls_intros rollback simp: move_mount_def move_call_def)
  have enter: "calls_only plain (enter_new_root os new_root)"
    unfolding enter_new_root_def move_call_def by (intro calls_intros move rollback; simp)
  show ?thesis
    unfolding switch_root_def
  proof (rule calls_only_bindE_results [OF plain_boot [OF prepare] prepared_init])
    fix x :: "string \<times> u64 option"
    assume "case x of (p, _) \<Rightarrow> p = absolute_init (init_path_from_cmdline cl)"
    then show "calls_only (boot_call cl) (case x of (p, i) \<Rightarrow>
        bindE (enter_new_root os new_root) (\<lambda>_. hand_over fuel os fd p i))"
      by (cases x) (auto intro!: calls_intros boot_hand_over plain_boot [OF enter])
  qed
qed

lemma boot_normal:
  assumes "pred_option (env_calls plain) be"
  shows "calls_only (boot_call cl) (run_normal fuel ft os json links order fd cl l rootfs be)"
proof -
  have marker: "calls_only plain (write_first_boot_marker b be)" for b
    using assms unfolding write_first_boot_marker_def set_first_boot_done_def by (cases be) (auto intro!: calls_intros)
  have overlays: "calls_only plain (setup_raw_rootfs_mount os rootfs)" "calls_only plain (setup_etc_overlay os rootfs)"
    "calls_only plain (setup_data_overlay ft os rootfs)"
    unfolding setup_raw_rootfs_mount_def setup_etc_overlay_def setup_data_overlay_def untracked_def
      setup_etc_overlay_tracked_def setup_data_overlay_tracked_def setup_home_overlay_def ensure_overlay_dirs_def
      mount_bind_private_def Let_def
    by (intro calls_intros plain_calls; simp)+
  note parts = plain_boot [OF plain_remaining] plain_boot [OF overlays(1)] plain_boot [OF overlays(2)]
    plain_boot [OF overlays(3)] plain_boot [OF plain_links] plain_boot [OF marker] plain_boot [OF plain_ods [OF assms]]
    plain_boot [OF plain_persist [OF assms]] plain_boot [OF plain_drain [OF assms]]
  show ?thesis
    unfolding run_normal_def Let_def by (intro calls_intros parts boot_switch_root)
qed

section \<open>The whole way\<close>

abbreviation plain_env :: "('w, 'p) machine boot_env_state \<Rightarrow> bool" where
  "plain_env env \<equiv> pred_option (env_calls plain) (available env)"

lemma plain_decision:
  assumes "\<And>env. d = Continue_With env \<Longrightarrow> plain_env env"
  shows "calls_only plain (apply_boot_env_decision os order d core rootfs)"
    and "results (\<lambda>_. True) plain_env (apply_boot_env_decision os order d core rootfs)"
proof -
  show "calls_only plain (apply_boot_env_decision os order d core rootfs)"
  proof (cases d)
    case (Continue_With env)
    have "calls_only plain (case env of
        Degraded e \<Rightarrow> modify_ods (set_degraded_boot (show_boot_env_error e)) | Available _ \<Rightarrow> ret ())"
      by (cases env) (simp_all add: calls_intros)
    then show ?thesis
      unfolding apply_boot_env_decision_def Continue_With boot_env_decision.case
      by (intro calls_intros plain_persist assms Continue_With)
  next
    case (Abort e)
    then show ?thesis by (simp add: apply_boot_env_decision_def calls_intros)
  qed
  show "results (\<lambda>_. True) plain_env (apply_boot_env_decision os order d core rootfs)"
  proof (cases d)
    case (Continue_With env)
    have "plain_env env" using assms Continue_With by blast
    then show ?thesis
      unfolding apply_boot_env_decision_def Continue_With boot_env_decision.case
      by (intro results_bindE [OF results_any] result_intros) simp
  next
    case (Abort e)
    then show ?thesis by (auto simp: apply_boot_env_decision_def results_def bindE_def split: sum.split)
  qed
qed

lemma plain_first_boot:
  assumes "plain_env env"
  shows "calls_only plain (update_pending_from_env env)" "calls_only plain (detect_first_boot env)"
proof -
  have flag: "calls_only plain (set_or_unknown (is_flag_set bl k))" if "env_calls plain bl" for bl k
    using that unfolding set_or_unknown_def is_flag_set_def by (intro calls_intros)
  have flags: "calls_only plain (none_set bl ks)" if "env_calls plain bl" for bl ks
  proof (induction ks)
    case (Cons k ks)
    show ?case unfolding none_set.simps by (intro calls_intros flag that Cons.IH)
  qed (simp only: none_set.simps, intro calls_intros)
  show "calls_only plain (update_pending_from_env env)"
    using assms unfolding update_pending_from_env_def is_flag_set_def by (cases "available env") (auto intro!: calls_intros)
  show "calls_only plain (detect_first_boot env)"
    using assms unfolding detect_first_boot_def set_or_unknown_def is_first_boot_done_def
    by (cases "available env") (auto intro!: calls_intros flags)
qed

lemma plain_classified:
  assumes "classify_boot_env opened rel = Continue_With env" and "pred_sum (\<lambda>_. True) (env_calls plain) opened"
  shows "plain_env env"
  using assms by (auto simp: classify_boot_env_def available_def split: sum.splits if_splits)

text \<open>What \<open>run_init\<close> does once the environment was opened, or not.\<close>

definition after_open :: "'j setting \<Rightarrow> 'w os \<Rightarrow> partition_layout \<Rightarrow> string \<Rightarrow> initramfs_error + unit \<Rightarrow>
    boot_env_error + 'w init boot_env \<Rightarrow> ('w init, initramfs_error, partition_layout \<times> 'w init boot_env_state) io" where
  "after_open st os layout rootfs core_result opened =
     bindE (apply_boot_env_decision os (st_order st) (classify_boot_env opened (release_image (st_features st))) core_result rootfs) (\<lambda>env.
     bindE (bindE (update_pending_from_env env) set_update_pending) (\<lambda>_.
     bindE (detect_first_boot env) (\<lambda>first.
     bindE (modify_ods (\<lambda>status. status\<lparr>ods_first_boot := first\<rparr>)) (\<lambda>_.
     ret (layout, env)))))"

lemma plain_after_open:
  assumes "pred_sum (\<lambda>_. True) (env_calls plain) opened"
  shows "calls_only plain (after_open st os layout rootfs core opened)"
    and "results (\<lambda>_. True) (\<lambda>(l, env). plain_env env) (after_open st os layout rootfs core opened)"
proof -
  note decision = plain_decision [OF plain_classified [OF _ assms]]
  show "calls_only plain (after_open st os layout rootfs core opened)"
    unfolding after_open_def
  proof (rule calls_only_bindE_results [OF decision])
    fix env :: "'a init boot_env_state"
    assume env: "plain_env env"
    show "calls_only plain (bindE (bindE (update_pending_from_env env) set_update_pending) (\<lambda>_.
        bindE (detect_first_boot env) (\<lambda>first.
        bindE (modify_ods (\<lambda>status. status\<lparr>ods_first_boot := first\<rparr>)) (\<lambda>_. ret (layout, env)))))"
      unfolding set_update_pending_def by (intro calls_intros plain_first_boot env)
  qed
  show "results (\<lambda>_. True) (\<lambda>(l, env). plain_env env) (after_open st os layout rootfs core opened)"
    unfolding after_open_def
  proof (rule results_bindE [OF decision(2)])
    fix env :: "'a init boot_env_state"
    assume env: "plain_env env"
    show "results (\<lambda>_. True) (\<lambda>(l, env). plain_env env) (bindE (bindE (update_pending_from_env env) set_update_pending) (\<lambda>_.
        bindE (detect_first_boot env) (\<lambda>first.
        bindE (modify_ods (\<lambda>status. status\<lparr>ods_first_boot := first\<rparr>)) (\<lambda>_. ret (layout, env)))))"
      by (intro results_bindE [OF results_any] results_pure) (simp add: env)
  qed
qed

lemma prepare_boot_after_open: "prepare_boot st os cfg rootfs =
     bindE (map_err Partition (detect_root_device (st_features st) os (cmdline cfg))) (\<lambda>root_device.
     bindE (map_err Partition (lift_res (new_layout (table (st_features st)) root_device))) (\<lambda>layout.
     bindE (map_err Partition (create_omnect_symlinks os (st_order st) layout)) (\<lambda>_.
     bindE (modify_prog (\<lambda>p. p\<lparr>ods := ods_new\<rparr>)) (\<lambda>_.
     caught (mount_core_partitions os layout rootfs) (\<lambda>core_result.
     caught (open_boot_env (st_features st) os) (after_open st os layout rootfs core_result))))))"
  unfolding prepare_boot_def after_open_def Let_def ..

lemma plain_prepare_boot:
  "calls_only plain (prepare_boot st os cfg rootfs)"
  "results (\<lambda>_. True) (\<lambda>(l, env). plain_env env) (prepare_boot st os cfg rootfs)"
proof -
  show "calls_only plain (prepare_boot st os cfg rootfs)"
    unfolding prepare_boot_after_open
    by (intro calls_only_bindE calls_only_caught [where m = "mount_core_partitions os l r" for l r] calls_only_map_err
        calls_only_prog calls_only_pure plain_calls
        calls_only_caught_results [OF plain_open_env open_env_results] plain_after_open) simp_all
  show "results (\<lambda>_. True) (\<lambda>(l, env). plain_env env) (prepare_boot st os cfg rootfs)"
    unfolding prepare_boot_after_open
    by (intro results_bindE [OF results_any] results_caught [where m = "mount_core_partitions os l r" for l r]
        results_caught_after [OF open_env_results] plain_after_open) simp_all
qed

end
