(* ===== verification/Tool_Calls.thy ===== *)
theory Tool_Calls
  imports Boot_Calls Bmap_Checks
begin

text \<open>
  Which programs the whole of \<open>omnect-os-init\<close> starts, in every mode. \<open>known_tool\<close> is the set of calls that start no
  program, or one of the tools the source names; neither a shell nor the exec of an init is among them. The lemmas go
  through the flash modes and the factory reset; the rest of the boot makes plain calls, up to the exec of the init.
\<close>

section \<open>The tools\<close>

definition MODE_TOOLS :: "string list" where
  "MODE_TOOLS = [MKFS_EXT4_CMD, TUNE2FS_CMD, FR_SYNC_CMD, FR_CP_CMD, SFDISK_CMD, E2IMAGE_CMD, FATLABEL_CMD,
     EFIBOOTMGR_CMD, IP_CMD, DHCPCD_CMD, DROPBEAR_CMD, CURL_CMD]"

definition known_tool :: "call \<Rightarrow> bool" where
  "known_tool c \<longleftrightarrow> (case c of
     Spawn prog _ _ \<Rightarrow> prog \<in> set (BOOT_TOOLS @ MODE_TOOLS)
   | SpawnEnv _ prog _ _ \<Rightarrow> prog = FSCK_CMD \<or> prog \<in> set MODE_TOOLS
   | SpawnChild prog _ \<Rightarrow> prog \<in> set MODE_TOOLS
   | ExecCall _ _ \<Rightarrow> False
   | _ \<Rightarrow> True)"

lemma known_tool_simps [simp]:
  "known_tool (Spawn prog a i) \<longleftrightarrow> prog \<in> set BOOT_TOOLS \<or> prog \<in> set MODE_TOOLS"
  "known_tool (SpawnEnv v prog a i) \<longleftrightarrow> prog = FSCK_CMD \<or> prog \<in> set MODE_TOOLS"
  "known_tool (SpawnChild prog a) \<longleftrightarrow> prog \<in> set MODE_TOOLS" "\<not> known_tool (ExecCall p args)"
  by (simp_all add: known_tool_def)

definition starts_program :: "call \<Rightarrow> bool" where
  "starts_program c \<longleftrightarrow> (case c of Spawn _ _ _ \<Rightarrow> True | SpawnEnv _ _ _ _ \<Rightarrow> True | SpawnChild _ _ \<Rightarrow> True
     | ExecCall _ _ \<Rightarrow> True | _ \<Rightarrow> False)"

lemma known_tool_others [simp]: "\<not> starts_program c \<Longrightarrow> known_tool c"
  by (cases c) (simp_all add: known_tool_def starts_program_def)

lemma starts_program_simps [simp]:
  "\<not> starts_program (MountCall a1 a2 a3 a4 a5)" "\<not> starts_program (UmountCall p)" "\<not> starts_program (ReadText p)"
  "\<not> starts_program (WriteFile p t)" "\<not> starts_program (CreateFile p)" "\<not> starts_program (Exists p)"
  "\<not> starts_program (IsFile p)" "\<not> starts_program (IsDir p)" "\<not> starts_program (IsSymlink p)"
  "\<not> starts_program (MakeDirs p)" "\<not> starts_program (MakeDir p)" "\<not> starts_program (RemoveFile p)"
  "\<not> starts_program (RemoveDir p)" "\<not> starts_program (MakeSymlink p t)" "\<not> starts_program (ReadLink p)"
  "\<not> starts_program (Canonicalize p)" "\<not> starts_program (Chown p u g)" "\<not> starts_program (Chmod p m)"
  "\<not> starts_program (CopyFile p t)" "\<not> starts_program (FsMagic p)" "\<not> starts_program (SyncAll)"
  "\<not> starts_program (SyncFile p)" "\<not> starts_program (SleepMs n)" "\<not> starts_program (RebootCall)"
  "\<not> starts_program (Chroot p)" "\<not> starts_program (Chdir p)"
  "\<not> starts_program (LoadModule p t z)" "\<not> starts_program (Stat p)" "\<not> starts_program (Lstat p)"
  "\<not> starts_program (ReadDir p)" "\<not> starts_program (OpenRead p)" "\<not> starts_program (OpenWrite p)"
  "\<not> starts_program (OpenWriteExcl p)" "\<not> starts_program (OpenTruncate p)" "\<not> starts_program (OpenNonblock p)"
  "\<not> starts_program (SeekEnd p)" "\<not> starts_program (SeekRead p n)" "\<not> starts_program (SeekWrite p n)"
  "\<not> starts_program (ReadSome p n)" "\<not> starts_program (ReadExact p n)" "\<not> starts_program (ReadBounded p n)"
  "\<not> starts_program (ReadToEnd p)" "\<not> starts_program (ReadDecoded p n)" "\<not> starts_program (DecodedSize p)"
  "\<not> starts_program (WriteSome p t)" "\<not> starts_program (WriteAll p t)" "\<not> starts_program (SetLen p n)"
  "\<not> starts_program (Ioctl p t ns)" "\<not> starts_program (MakeFifo p m)" "\<not> starts_program (MakePipe)"
  "\<not> starts_program (ClonePipe)" "\<not> starts_program (WriteStdin p t)" "\<not> starts_program (ReadChild p n)"
  "\<not> starts_program (WaitChild p)" "\<not> starts_program (NetAddrs)" "\<not> starts_program (PowerOffCall)"
  by (simp_all add: starts_program_def)

lemma mode_tools [simp]:
  "MKFS_EXT4_CMD \<in> set MODE_TOOLS" "TUNE2FS_CMD \<in> set MODE_TOOLS" "FR_SYNC_CMD \<in> set MODE_TOOLS"
  "FR_CP_CMD \<in> set MODE_TOOLS" "SFDISK_CMD \<in> set MODE_TOOLS" "E2IMAGE_CMD \<in> set MODE_TOOLS"
  "FATLABEL_CMD \<in> set MODE_TOOLS" "EFIBOOTMGR_CMD \<in> set MODE_TOOLS" "IP_CMD \<in> set MODE_TOOLS"
  "DHCPCD_CMD \<in> set MODE_TOOLS" "DROPBEAR_CMD \<in> set MODE_TOOLS" "CURL_CMD \<in> set MODE_TOOLS"
  by (simp_all add: MODE_TOOLS_def)

lemma tools_no_shell: "SH_CMD \<notin> set (BOOT_TOOLS @ MODE_TOOLS)" "BASH_CMD \<notin> set (BOOT_TOOLS @ MODE_TOOLS)"
  by (simp_all add: BOOT_TOOLS_def MODE_TOOLS_def SH_CMD_def BASH_CMD_def BLKID_CMD_def GZIP_CMD_def GUNZIP_CMD_def
      BASE64_CMD_def GRUB_EDITENV_CMD_def FW_PRINTENV_CMD_def FW_SETENV_CMD_def CP_CMD_def SGDISK_CMD_def PARTED_CMD_def
      RESIZE2FS_CMD_def SYNC_CMD_def MKFS_EXT4_CMD_def TUNE2FS_CMD_def FR_SYNC_CMD_def FR_CP_CMD_def SFDISK_CMD_def
      E2IMAGE_CMD_def FATLABEL_CMD_def EFIBOOTMGR_CMD_def IP_CMD_def DHCPCD_CMD_def DROPBEAR_CMD_def CURL_CMD_def)

lemma known_no_shell: "known_tool c \<Longrightarrow> \<not> is_shell c"
  using tools_no_shell by (cases c) (auto simp: is_shell_def)

lemma plain_known: "plain c \<Longrightarrow> known_tool c"
  by (cases c) (simp_all add: plain_def ordinary_def known_tool_def)

lemma known_plain: "calls_only plain m \<Longrightarrow> calls_only known_tool m"
  by (rule calls_only_mono [OF _ plain_known])

lemma env_calls_known: "env_calls plain bl \<Longrightarrow> env_calls known_tool bl"
  unfolding env_calls_def by (intro conjI allI known_plain) blast+

text \<open>In every mode, the init the command line names may be handed over to at the end.\<close>

definition mode_call :: "cmdline_config \<Rightarrow> call \<Rightarrow> bool" where
  "mode_call cl c \<longleftrightarrow> known_tool c \<or> c = init_call cl"

lemma mode_known: "calls_only known_tool m \<Longrightarrow> calls_only (mode_call cl) m"
  by (erule calls_only_mono) (simp add: mode_call_def)

lemma boot_mode_call: "boot_call cl c \<Longrightarrow> mode_call cl c"
  by (auto simp: boot_call_def mode_call_def plain_known)

lemma mode_boot: "calls_only (boot_call cl) m \<Longrightarrow> calls_only (mode_call cl) m"
  by (erule calls_only_mono) (rule boot_mode_call)

named_theorems known_calls "functions that only start known tools"

section \<open>Devices and files of the flash modes\<close>

lemma known_mounts [known_calls]:
  "calls_only known_tool (mount_fs os source tgt opts)" "calls_only known_tool (umount os p)"
  "calls_only known_tool (is_path_mounted os p)" "calls_only known_tool (sync_filesystems os)"
  unfolding mount_fs_def umount_def is_path_mounted_def sync_filesystems_def by (intro calls_intros; simp)+

lemma known_devnum [known_calls]:
  "calls_only known_tool (block_devnum os p)" "calls_only known_tool (whole_disk_devnum os dn dir devnum)"
  unfolding block_devnum_def whole_disk_devnum_def Let_def by (intro calls_intros; simp)+

lemma known_unmount [known_calls]:
  "calls_only known_tool (unmount_rootfs os rootfs)" "calls_only known_tool (unmount_target_disk os dn rootfs d)"
  unfolding unmount_target_disk_def unmount_rootfs_def unmount_if_mounted_def mounts_backed_by_def disk_of_def
  by (intro calls_intros known_calls; simp)+

lemma known_with_mount [known_calls]:
  "(\<And>m. calls_only known_tool (work m)) \<Longrightarrow> calls_only known_tool (with_mount os source tgt options work)"
  unfolding with_mount_def by (auto intro!: calls_intros known_calls split: sum.split)

lemma known_table [known_calls]:
  "calls_only known_tool (dump_table os d)" "calls_only known_tool (apply_table os d dump)"
  "calls_only known_tool (set_part_uuid os d n uuid)" "calls_only known_tool (reread_partition_table os d)"
  "calls_only known_tool (device_len os d)"
  unfolding dump_table_def apply_table_def set_part_uuid_def reread_partition_table_def device_len_def Let_def
  by (intro calls_intros; simp)+

lemma known_efi [known_calls]: "calls_only known_tool (handle_efi (real_efi_ops os) d boot)"
  unfolding handle_efi_def real_efi_ops_def efi_ops.simps mount_efivarfs_def efibootmgr_def write_entry_dump_def Let_def
  by (intro calls_intros known_calls; simp)

lemma known_reformat [known_calls]: "calls_only known_tool (reformat_ext4 os device label)"
  unfolding reformat_ext4_def format_command_def by (intro calls_intros; simp)

section \<open>Mode 1\<close>

lemma known_write_loop: "calls_only known_tool (write_loop fuel os g dst buf n)"
proof (induction fuel arbitrary: n)
  case 0
  then show ?case by (subst write_loop.simps) (auto intro!: calls_intros)
next
  case (Suc fuel)
  then show ?case by (subst write_loop.simps) (auto intro!: calls_intros split: sum.split)
qed

lemma known_copy_loop: "calls_only known_tool (copy_loop fuel os g src dst len n)"
proof (induction fuel arbitrary: n)
  case 0
  show ?case by (subst copy_loop.simps) (auto intro!: calls_intros)
next
  case (Suc fuel)
  then show ?case
    by (subst copy_loop.simps) (auto intro!: calls_intros known_write_loop simp: Let_def split: sum.split option.split)
qed

lemma known_copy_range [known_calls]: "calls_only known_tool (copy_range fuel os src a dst b len)"
  unfolding copy_range_def Let_def open_existing_for_write_def by (intro calls_intros known_copy_loop; simp)

lemma known_block_loop:
  "\<exists>t. trace (snd (wait_for_block_loop os start dst secs s)) = trace s @ t \<and> (\<forall>c \<in> set t. known_tool (fst c))"
proof (induction os start dst secs s rule: wait_for_block_loop.induct)
  case (1 os start dst secs s)
  obtain found s1 where run: "test_path os (Exists dst) s = (found, s1)" by fastforce
  then have s1: "trace s1 = trace s @ [(Exists dst, found)]" using trace_test_path [of os "Exists dst" s] by simp
  show ?case
  proof (cases "found \<or> secs * 1000 \<le> clock s1 - start")
    case True
    then show ?thesis using run s1 by (subst wait_for_block_loop.simps) auto
  next
    case False
    then show ?thesis
      using 1 [OF run [symmetric]] run s1 by (subst wait_for_block_loop.simps) (auto simp: trace_sleep_for)
  qed
qed

lemma known_wait_block: "calls_only known_tool (wait_for_block_device os dst secs)"
  unfolding calls_only_def wait_for_block_device_def using known_block_loop by blast

lemma known_destination [known_calls]:
  "calls_only known_tool (resolve_destination os dst)" "calls_only known_tool (validate_destination os dn dst src)"
  "calls_only known_tool (verify_destination_partitions t os dst)"
proof -
  show "calls_only known_tool (resolve_destination os dst)"
    unfolding resolve_destination_def by (intro calls_intros known_wait_block; simp)
  show "calls_only known_tool (validate_destination os dn dst src)"
    unfolding validate_destination_def validate_devices_def Let_def by (intro calls_intros known_calls)
  show "calls_only known_tool (verify_destination_partitions t os dst)"
    unfolding verify_destination_partitions_def verify_partition_def by (intro calls_intros; simp)
qed

lemma known_e2image [known_calls]: "calls_only known_tool (run_e2image fuel os src dst)"
proof -
  have "calls_only known_tool (e2image_output n os tail)" for n tail
    by (induction n arbitrary: tail) (auto intro!: calls_intros split: sum.split)
  then show ?thesis unfolding run_e2image_def by (intro calls_intros; simp)
qed

lemma known_clone_tools [known_calls]:
  "calls_only known_tool (fresh_uuid uuid_text os)" "calls_only known_tool (new_volume_id os boot)"
  "calls_only known_tool (copy_grubenv os tgt)"
  unfolding fresh_uuid_def new_volume_id_def copy_grubenv_def Let_def by (intro calls_intros; simp)+

lemma known_clone [known_calls]: "calls_only known_tool (run_clone fuel ft uuid_text dn os raw l rootfs requested)"
  unfolding run_clone_def clone_with_def clone_onto_def finish_clone_def fresh_uuids_def copy_partition_def Let_def
    real_clone_ops_def clone_ops.simps
  by (auto intro!: calls_intros known_calls split: sum.split option.split bootloader_kind.split table_kind.split prod.split)

section \<open>Modes 2 and 3\<close>

lemma known_wait_for:
  assumes "calls_only known_tool poll" and "\<And>ms. calls_only known_tool (no_sleep ops ms)"
  shows "calls_only known_tool (wait_for fuel ops what timeout interval poll waited)"
proof (induction fuel arbitrary: waited)
  case (Suc fuel)
  then show ?case using assms by (auto intro!: calls_intros simp: Let_def split: sum.split option.split)
qed (simp only: wait_for.simps calls_only_pure)

lemma known_visible: "cmd \<in> set MODE_TOOLS \<Longrightarrow> calls_only known_tool (run_visible os cmd args)"
  unfolding run_visible_def run_inherited_def child_call_def by (intro calls_intros) simp

lemma known_network [known_calls]:
  "calls_only known_tool (bring_up os need)" "calls_only known_tool (start_dropbear os)"
  unfolding bring_up_def bring_up_with_def real_net_ops_def net_ops.simps start_dropbear_def
  by (auto intro!: calls_intros known_wait_for known_visible known_calls)

lemma known_small_text [known_calls]: "calls_only known_tool (read_small_text os p n f)"
  unfolding read_small_text_def by (intro calls_intros) simp_all

lemma known_download [known_calls]:
  "calls_only known_tool (download ft os u tgt n)" "calls_only known_tool (available_ram os)"
  "calls_only known_tool (read_sha256_file os p)" "calls_only known_tool (image_size_of os p)"
  unfolding download_def available_ram_def child_call_def read_sha256_file_def image_size_of_def Let_def
  by (auto intro!: calls_intros known_calls split: option.split)

lemma known_digest [known_calls]: "calls_only known_tool (sha256_of fuel sha256 os p)"
proof -
  have "calls_only known_tool (digest_loop fuel os p seen)" for seen
    by (induction fuel arbitrary: seen) (auto intro!: calls_intros)
  then show ?thesis unfolding sha256_of_def by (auto intro!: calls_intros)
qed

lemma known_write_image [known_calls]: "calls_only known_tool (write_image os img disk limit)"
proof -
  have "calls_only known_tool (decode_into os img disk limit written)" for written
  proof (induction "unat limit - unat written" arbitrary: written rule: less_induct)
    case less
    show ?case
      by (subst decode_into.simps) (auto intro!: calls_intros less count_chunk_more(3) simp: not_less)
  qed
  then show ?thesis unfolding write_image_def open_existing_for_write_def Let_def by (intro calls_intros; simp)
qed

lemma known_new_table [known_calls]:
  "calls_only known_tool (new_table ft (reread_partition_table os d) (real_efi_ops os) d boot)"
  unfolding new_table_def by (auto intro!: calls_intros known_calls split: bootloader_kind.split)

lemma known_url [known_calls]:
  "calls_only known_tool (run_url fuel ft sha256 hex_error dn os l rootfs image_url sha256_url)"
  unfolding run_url_def url_with_def real_url_ops_def url_ops.simps download_image_def check_image_def Let_def
  by (auto intro!: calls_intros known_calls split: option.split)

lemma known_mapped:
  "calls_only known_tool (copy_mapped sha256 os src out r pos)" "calls_only known_tool (skip_to os src pos n)"
  unfolding copy_mapped_def skip_to_def write_sink_def Let_def
  by (auto intro!: calls_intros pass_through_calls simp: input_read_def split: source.split sum.split)

lemma known_bmap_copy [known_calls]: "calls_only known_tool (copy_bmap sha256 os b src dst)"
  unfolding copy_bmap_def copy_stream_def open_existing_for_write_def input_read_def Let_def
  by (auto intro!: calls_intros known_mapped split: source.split destination.split)

lemma known_upload [known_calls]:
  "calls_only known_tool (create_owned_fifo os p uid gid)" "calls_only known_tool (remove_file os p)"
  "calls_only known_tool (remove_fifo os p)" "calls_only known_tool (read_bmap xml sha256 os p)"
  unfolding create_owned_fifo_def remove_file_def remove_fifo_def read_bmap_def
  by (auto intro!: calls_intros known_calls split: sum.split)

lemma known_wait_bmap [known_calls]: "calls_only known_tool (wait_for_bmap fuel os p interval)"
proof (induction fuel)
  case (Suc fuel)
  then show ?case
    by (auto intro!: calls_intros simp: bmap_is_complete_def read_tail_def split: sum.split)
qed (simp only: wait_for_bmap.simps calls_only_pure)

lemma known_zero [known_calls]: "calls_only known_tool (zero_range os disk area)"
proof -
  have "calls_only known_tool (zero_loop os disk left)" for left
  proof (induction "unat left" arbitrary: left rule: less_induct)
    case less
    then show ?case by (subst zero_loop.simps) (auto intro!: calls_intros chunk_left)
  qed
  then show ?thesis unfolding zero_range_def open_existing_for_write_def by (intro calls_intros) simp_all
qed

lemma known_flash_once: "calls_only known_tool (flash_once ft (real_scp_ops fuel xml sha256 dn os) up disk head ip)"
  unfolding flash_once_def verified_source_def real_scp_ops_def scp_ops.simps
  by (auto intro!: calls_intros known_calls)

lemma known_scp_ops:
  "calls_only known_tool (so_unmount (real_scp_ops fuel xml sha256 dn os) rootfs d)"
  "calls_only known_tool (so_bring_up_network (real_scp_ops fuel xml sha256 dn os))"
  "calls_only known_tool (so_start_dropbear (real_scp_ops fuel xml sha256 dn os))"
  "calls_only known_tool (so_create_fifo (real_scp_ops fuel xml sha256 dn os) p owner)"
  "calls_only known_tool (new_table ft (so_reread_table (real_scp_ops fuel xml sha256 dn os) d)
     (so_efi (real_scp_ops fuel xml sha256 dn os)) d boot)"
  "calls_only known_tool (so_sync (real_scp_ops fuel xml sha256 dn os))"
  "calls_only known_tool (clear_upload ft (real_scp_ops fuel xml sha256 dn os) up)"
  unfolding clear_upload_def real_scp_ops_def scp_ops.simps by (auto intro!: calls_intros known_calls)

lemma known_until_done:
  "calls_only known_tool (flash_until_done n ft (real_scp_ops fuel xml sha256 dn os) up owner disk head ip b)"
proof (induction n arbitrary: b)
  case (Suc n)
  show ?case
    unfolding flash_until_done.simps Let_def by (intro calls_intros known_flash_once known_scp_ops Suc)
qed (simp only: flash_until_done.simps calls_only_pure)

lemma known_scp [known_calls]: "calls_only known_tool (run_scp fuel ft xml sha256 dn os raw l rootfs)"
  unfolding run_scp_def scp_with_def Let_def by (intro calls_intros known_until_done known_scp_ops)

lemma known_flash [known_calls]:
  assumes "pred_option (env_calls known_tool) be"
  shows "calls_only known_tool (run_flash fuel ft libs os bv be l rootfs fc captured)"
proof -
  have mode: "calls_only known_tool (run_selected_mode fuel ft libs os bv l rootfs fc)"
    unfolding run_selected_mode_def lift_env_def by (cases "fc_mode fc") (auto intro!: calls_intros known_calls split: sum.split)
  have logged: "calls_only known_tool (write_log os p n ls)" for p n ls
    unfolding write_log_def create_root_only_file_def Let_def by (intro known_with_mount calls_intros; simp)
  have clear: "calls_only known_tool (case be of Some bl \<Rightarrow> clear_flash_triggers ft bl | None \<Rightarrow> ret ())"
    using assms by (cases be) (auto intro!: calls_intros plain_clear_triggers)
  have final: "known_tool (terminal_call m)" for m
    by (cases m) (simp_all add: terminal_call_def terminal_action_def)
  show ?thesis
    unfolding run_flash_def run_and_persist_def persist_log_def lift_env_def
    by (intro calls_intros clear mode logged final known_calls)
qed

section \<open>The factory reset\<close>

lemma known_overwrite: "calls_only known_tool (overwrite_loop os d len interval written next_step)"
proof (induction "unat len - unat written" arbitrary: written next_step rule: less_induct)
  case less
  have "unat len - unat (written + chunk_len len written) < unat len - unat written" if "written < len"
    using written_step [OF that] chunk_len_pos [OF that] that by (simp add: word_less_nat_alt)
  then show ?case by (subst overwrite_loop.simps) (auto intro!: calls_intros less)
qed

lemma known_wipe: "calls_only known_tool (wipe_random os d)" "calls_only known_tool (wipe_discard os d)"
  unfolding wipe_random_def wipe_discard_def overwrite_with_random_def open_device_def device_size_def
  by (intro calls_intros known_overwrite; simp)+

lemma known_cp: "calls_only known_tool (run_cp os args e)" "calls_only known_tool (run_sync os)"
  unfolding run_cp_def run_sync_def by (intro calls_intros; simp)+

lemma known_missing: "calls_only known_tool (missing_ancestors os rootfs dirs acc)"
  by (induction dirs arbitrary: acc) (auto intro!: calls_intros split: sum.split)

lemma known_restore: "calls_only known_tool (restore_all os rootfs ps dir)" "calls_only known_tool (backup_all os rootfs ps dir)"
  unfolding restore_all_def restore_one_def restore_path_def create_parent_dirs_def recreate_dir_def backup_all_def
    backup_path_def Let_def
  by (intro calls_intros known_cp known_missing; simp)+

lemma known_reset_mount: "calls_only known_tool (factory_reset_mount ft os layout rootfs)"
  unfolding factory_reset_mount_def mount_tracked_partition_def setup_etc_overlay_tracked_def setup_data_overlay_tracked_def
    setup_home_overlay_def ensure_overlay_dirs_def Let_def
  by (intro calls_intros known_plain [OF plain_fsck_and_record] plain_overlay_parts [THEN known_plain]; simp)

lemma known_unmount_tracked: "calls_only known_tool (unmount_tracked os)" "calls_only known_tool (unmount_quietly os)"
  unfolding unmount_quietly_def unmount_tracked_def by (intro calls_intros; simp)+

lemma known_prepare: "calls_only known_tool (prepare_reset ft js os layout rootfs config)"
  unfolding prepare_reset_def build_preserve_list_def collect_key_def collect_application_paths_def collect_one_def
    read_key_config_def Let_def
  by (intro calls_intros known_reset_mount known_restore known_unmount_tracked; simp)

lemma known_rebuild: "calls_only known_tool (rebuild ft os layout rootfs tg)"
  unfolding rebuild_def run_destructive_phase_def reformat_and_mount_with_retry_def reformat_one_def
    real_reformat_ops_def reformat_ops.simps
  by (intro calls_intros known_reset_mount known_restore known_unmount_tracked known_reformat)

lemma known_run_reset: "calls_only known_tool (run_reset ft js os layout rootfs config)"
  unfolding run_reset_def wipe_and_rebuild_def wipe_partitions_def wipe_one_def real_wipe_ops_def wipe_ops.simps Let_def
  by (cases "reset_mode_field config"; simp only: reset_mode.case; intro calls_intros known_prepare known_rebuild known_wipe)

lemma known_answer:
  assumes "pred_option (env_calls plain) be"
  shows "calls_only known_tool (answer_trigger be trigger (run_reset ft js os layout rootfs))"
proof -
  have "pred_option (env_calls known_tool) be" using assms env_calls_known by (cases be) simp_all
  then show ?thesis
    unfolding answer_trigger_def outcome_of_def persist_exhausted_signal_def save_factory_reset_failure_def
    by (cases be; cases trigger) (auto intro!: calls_intros known_run_reset split: option.split)
qed

lemma mode_factory_reset:
  assumes "pred_option (env_calls plain) be"
  shows "calls_only (mode_call cl) (run_factory_reset fuel ft os js json links order fd cl layout rootfs be trigger)"
  unfolding run_factory_reset_def
  by (intro calls_intros mode_known [OF known_answer [OF assms]] mode_boot [OF boot_normal [OF assms]])

end
