(* ===== verification/Whole_Boot.thy ===== *)
theory Whole_Boot
  imports Tool_Calls
begin

text \<open>
  The run of \<open>main\<close> as a whole, put together from the calls of its parts: what \<open>run_init\<close> does before and after the
  boot mode is known, and what the policy for a fatal error adds.
\<close>

section \<open>Before and after the boot mode is known\<close>

text \<open>\<open>run_init\<close> up to the point where the boot mode is known.\<close>

definition mode_found :: "'j setting \<Rightarrow> 'w os \<Rightarrow>
    ('w, config \<times> partition_layout \<times> 'w init boot_env_state \<times> boot_mode) boot" where
  "mode_found st os =
     bindE (or_fail id (load_config os)) (\<lambda>cfg.
     bindE (or_fail id (prepare_boot st os cfg ROOTFS_DIR)) (\<lambda>(layout, env).
     bindE (or_fail id (detect_mode (st_features st) os (lib_json (st_libraries st)) (lib_base64 (st_libraries st)) (available env)))
       (\<lambda>mode. ret (cfg, layout, env, mode))))"

text \<open>A run from \<open>s\<close> has just found, in the state \<open>s2\<close>, that the boot environment it has opened asks for \<open>mode\<close>.\<close>

definition asked_for :: "'j setting \<Rightarrow> 'w os \<Rightarrow> 'w init \<Rightarrow> 'w init \<Rightarrow> boot_mode \<Rightarrow> bool" where
  "asked_for st os s s2 mode \<longleftrightarrow> (\<exists>s0 s1 cfg layout env.
     mount_essential_filesystems os s = (Inr () :: early_init_error + unit, s0) \<and> open_logger os s0 = (Inr (), s1)
     \<and> mode_found st os s1 = (Inr (cfg, layout, env, mode), s2))"

text \<open>With the command line of the run at hand, which names the init.\<close>

definition asked_with :: "'j setting \<Rightarrow> 'w os \<Rightarrow> 'w init \<Rightarrow> 'w init \<Rightarrow> cmdline_config \<Rightarrow> boot_mode \<Rightarrow> bool" where
  "asked_with st os s s2 cl mode \<longleftrightarrow> (\<exists>s0 s1 cfg layout env.
     mount_essential_filesystems os s = (Inr () :: early_init_error + unit, s0) \<and> open_logger os s0 = (Inr (), s1)
     \<and> mode_found st os s1 = (Inr (cfg, layout, env, mode), s2) \<and> cl = cmdline cfg)"

lemma asked_with_for: "asked_with st os s s2 cl mode \<Longrightarrow> asked_for st os s s2 mode"
  unfolding asked_with_def asked_for_def by blast

text \<open>The command line of a run, as it was read after the early mounts.\<close>

definition run_cmdline :: "'w os \<Rightarrow> 'w init \<Rightarrow> cmdline_config option" where
  "run_cmdline os s = (case mount_essential_filesystems os s of
     (Inl e :: early_init_error + unit, s0) \<Rightarrow> None
   | (Inr _, s0) \<Rightarrow> (case open_logger os s0 of
       (Inl _, s1) \<Rightarrow> None
     | (Inr _, s1) \<Rightarrow> (case load_config os s1 of (Inl _, _) \<Rightarrow> None | (Inr cfg, _) \<Rightarrow> Some (cmdline cfg))))"

lemma asked_with_cmdline: "asked_with st os s s2 cl mode \<Longrightarrow> run_cmdline os s = Some cl"
  by (auto simp: asked_with_def run_cmdline_def mode_found_def or_fail_def elim!: bindE_InrE)

text \<open>What \<open>run_init\<close> does in a mode, and the calls that may make.\<close>

abbreviation boot_in_mode :: "nat \<Rightarrow> 'j setting \<Rightarrow> 'w os \<Rightarrow> config \<Rightarrow> partition_layout \<Rightarrow> 'w init boot_env_state \<Rightarrow>
    boot_mode \<Rightarrow> ('w, unit) boot" where
  "boot_in_mode fuel st os cfg layout env mode \<equiv>
     bindE (if is_flash mode then ret ()
       else bindE (or_fail id (run_init_setup (st_features st) os layout env ROOTFS_DIR)) (\<lambda>_.
         if early_modules_enabled (st_features st) then load_early_modules os ROOTFS_DIR else ret ())) (\<lambda>_.
     dispatch_mode fuel st os cfg layout ROOTFS_DIR (available env) mode)"

abbreviation mode_calls :: "cmdline_config \<Rightarrow> boot_mode \<Rightarrow> (call \<times> bool) list \<Rightarrow> bool" where
  "mode_calls cl mode u \<equiv> (\<forall>c \<in> set u. mode_call cl (fst c)) \<and> (mode = NormalMode \<longrightarrow> (\<forall>c \<in> set u. ordinary (fst c)))"

lemma boot_in_mode_known:
  assumes "plain_env env"
  shows "calls_only (mode_call (cmdline cfg)) (boot_in_mode fuel st os cfg layout env mode)"
proof -
  have known: "pred_option (env_calls known_tool) (available env)"
    using assms env_calls_known by (cases "available env") simp_all
  have "calls_only (mode_call (cmdline cfg)) (dispatch_mode fuel st os cfg layout rootfs (available env) mode)" for rootfs
    unfolding dispatch_mode_def Let_def
    by (cases mode; simp only: boot_mode.case;
        intro calls_intros mode_boot [OF boot_normal [OF assms]] mode_factory_reset assms mode_known [OF known_flash [OF known]])
  then show ?thesis
    by (intro calls_only_bindE calls_only_if calls_only_pure calls_only_stop
        mode_known [OF known_plain [OF plain_init_setup [OF assms]]] mode_known [OF known_plain [OF plain_modules]])
qed

lemma boot_in_mode_normal:
  assumes "plain_env env"
  shows "calls_only (boot_call (cmdline cfg)) (boot_in_mode fuel st os cfg layout env NormalMode)"
  unfolding dispatch_mode_def Let_def boot_mode.case
  by (intro calls_intros plain_boot [OF plain_init_setup [OF assms]] plain_boot [OF plain_modules] boot_normal assms)

lemma boot_in_mode_calls:
  assumes "plain_env env"
  shows "brings (\<lambda>_ u. mode_calls (cmdline cfg) mode u) (boot_in_mode fuel st os cfg layout env mode)"
proof (cases "mode = NormalMode")
  case True
  show ?thesis
    unfolding True
    by (rule brings_mono [OF brings_calls [OF boot_in_mode_normal [OF assms]]]) (auto intro: boot_mode_call dest: boot_call_ordinary)
next
  case False
  show ?thesis by (rule brings_mono [OF brings_calls [OF boot_in_mode_known [OF assms]]]) (simp add: False)
qed

lemma run_init_found:
  "run_init fuel st os = bindE (mode_found st os) (\<lambda>(cfg, layout, env, mode). boot_in_mode fuel st os cfg layout env mode)"
  unfolding run_init_def mode_found_def Let_def split_def by (simp only: bindE_assoc bindE_ret fst_conv snd_conv)

lemma mode_found_env:
  assumes "mode_found st os s = (Inr (cfg, layout, env, mode), s2)"
  shows "plain_env env"
proof -
  obtain s1 s2 where "prepare_boot st os cfg ROOTFS_DIR s1 = (Inr (layout, env), s2)"
    using assms by (auto simp: mode_found_def or_fail_def elim!: bindE_InrE)
  then show ?thesis using resultsD_Inr [OF plain_prepare_boot(2)] by fastforce
qed

lemma prepared_plain:
  "results (\<lambda>_. True) (\<lambda>(l, env). plain_env env) (or_fail id (prepare_boot st os cfg rootfs))"
  unfolding or_fail_def
  by (rule results_map_err [where E = "\<lambda>_. True"]) (auto intro: results_mono [OF plain_prepare_boot(2)])

lemma mode_found_plain: "calls_only plain (mode_found st os)"
  unfolding mode_found_def
proof (rule calls_only_bindE, goal_cases)
  case 1
  show ?case by (intro calls_intros plain_calls)
next
  case (2 cfg)
  show ?case
  proof (rule calls_only_bindE_results [OF _ prepared_plain], goal_cases)
    case 1
    show ?case by (intro calls_intros plain_prepare_boot)
  next
    case (2 p)
    then show ?case by (cases p) (auto intro!: calls_intros plain_detect)
  qed
qed

lemma run_init_shape:
  assumes run: "run_init fuel st os s = (r, s')"
  obtains t u where "trace s' = trace s @ t @ u" and "\<forall>c \<in> set t. plain (fst c)"
    and "u = [] \<or> (\<exists>s2 cfg layout env mode. mode_found st os s = (Inr (cfg, layout, env, mode), s2)
      \<and> trace s2 = trace s @ t \<and> mode_calls (cmdline cfg) mode u)"
proof -
  obtain q s2 where q: "mode_found st os s = (q, s2)" by fastforce
  obtain t where t: "trace s2 = trace s @ t" "\<forall>c \<in> set t. plain (fst c)"
    using calls_only_split [OF mode_found_plain q] by blast
  show thesis
  proof (cases q)
    case (Inl e)
    then show thesis using run q t that [of t "[]"] by (simp add: run_init_found bindE_def)
  next
    case (Inr x)
    obtain cfg layout env mode where x: "x = (cfg, layout, env, mode)" by (cases x)
    have go: "boot_in_mode fuel st os cfg layout env mode s2 = (r, s')"
      using run q Inr x by (simp add: run_init_found bindE_def)
    have "plain_env env" using mode_found_env q Inr x by blast
    then obtain u where "trace s' = trace s2 @ u" "mode_calls (cmdline cfg) mode u"
      using bringsD [OF boot_in_mode_calls go] by blast
    then show thesis using that [of t u] q t Inr x by auto
  qed
qed

section \<open>The last resort\<close>

definition last_resort :: "call \<Rightarrow> bool" where
  "last_resort c \<longleftrightarrow> c = RebootCall \<or> (\<exists>n. c = SleepMs n) \<or> says c \<or> is_shell c"

lemma dwells_last_resort: "dwells c \<Longrightarrow> last_resort c"
  by (auto simp: dwells_def last_resort_def)

lemma last_resort_console:
  "\<exists>u. trace (console_halt os n s) = trace s @ u \<and> (\<forall>c \<in> set u. last_resort (fst c) \<and> \<not> is_shell (fst c))"
  using console_halt_calls [of os n s] dwells_last_resort dwells_not(2) by blast

lemma last_resort_cycles:
  assumes "calls_only last_resort body"
  shows "\<exists>u. trace (run_cycles body n s) = trace s @ u \<and> (\<forall>c \<in> set u. last_resort (fst c))"
  using run_cycles_calls [OF assms] .

lemma last_resort_shells:
  "calls_only last_resort (debug_shell_cycle os)" "calls_only last_resort (emergency_shell_cycle os)"
  unfolding debug_shell_cycle_def emergency_shell_cycle_def
  by (intro calls_intros; simp add: last_resort_def is_shell_def)+

lemmas last_resort_spawn =
  last_resort_cycles [OF last_resort_shells(1), folded spawn_debug_shell_def]
  last_resort_cycles [OF last_resort_shells(2), folded spawn_emergency_shell_def]

lemma last_resort_halt:
  "\<exists>u. trace (halt_with_message os message n s) = trace s @ u \<and> (\<forall>c \<in> set u. last_resort (fst c) \<and> \<not> is_shell (fst c))"
  using halt_with_message_calls [of os message n s] dwells_last_resort dwells_not(2) by blast

lemma last_resort_said:
  obtains u where "trace (said os message s) = trace s @ u" and "\<forall>c \<in> set u. last_resort (fst c) \<and> \<not> is_shell (fst c)"
  using said_calls [of os message s] dwells_last_resort dwells_not(2) by blast

lemma last_resort_action:
  assumes "release \<Longrightarrow> act \<noteq> Shell_Action"
  shows "\<exists>u. trace (run_action os e release n act s) = trace s @ u
     \<and> (\<forall>c \<in> set u. last_resort (fst c) \<and> (release \<longrightarrow> \<not> is_shell (fst c)))"
proof (cases act)
  case Reboot_Action
  obtain q s1 where q: "sys_unit os RebootCall s = (q, s1)" by fastforce
  have s1: "trace s1 = trace s @ [(RebootCall, \<not> isl q)]" using bringsD [OF brings_sys(1) q] by auto
  have reboot: "last_resort RebootCall" "\<not> is_shell RebootCall" by (simp_all add: last_resort_def is_shell_def)
  show ?thesis
  proof (cases q)
    case (Inl err)
    let ?s2 = "said os (''reboot(2) failed: '' @ show_io err @ ''; halting'') s1"
    obtain t where t: "trace ?s2 = trace s1 @ t" "\<forall>c \<in> set t. last_resort (fst c) \<and> \<not> is_shell (fst c)"
      by (rule last_resort_said)
    obtain u where "trace (run_action os e release n act s) = trace ?s2 @ u"
        "\<forall>c \<in> set u. last_resort (fst c) \<and> \<not> is_shell (fst c)"
      using last_resort_halt [of os "''reboot(2) returned unexpectedly after '' @ action_str act" n ?s2] q Inl Reboot_Action
      by (auto simp: run_action_def)
    then show ?thesis using s1 t reboot by (intro exI [of _ "(RebootCall, False) # t @ u"]) (auto simp: Inl)
  qed (use q s1 reboot Reboot_Action in \<open>auto simp: run_action_def\<close>)
next
  case Halt_Action
  then show ?thesis using last_resort_halt [of os "''FATAL: '' @ show_initramfs_error e" n s] by (auto simp: run_action_def)
next
  case Shell_Action
  then show ?thesis using assms last_resort_spawn(1) [of os n s] by (auto simp: run_action_def)
next
  case Continue_Action
  let ?s1 = "said os (''BUG: ContinueDegraded reached handle_fatal_error for: '' @ show_initramfs_error e) s"
  obtain t where t: "trace ?s1 = trace s @ t" "\<forall>c \<in> set t. last_resort (fst c) \<and> \<not> is_shell (fst c)"
    by (rule last_resort_said)
  obtain u where u: "trace (run_action os e release n act s) = trace ?s1 @ u"
      "\<forall>c \<in> set u. last_resort (fst c) \<and> (release \<longrightarrow> \<not> is_shell (fst c))"
    using last_resort_halt [of os "''FATAL (defensive): '' @ show_initramfs_error e" n ?s1]
      last_resort_spawn(1) [of os n ?s1] Continue_Action
    by (cases release) (auto simp: run_action_def Let_def)
  show ?thesis using t u by (intro exI [of _ "t @ u"]) auto
qed

lemma last_resort_policy:
  "\<exists>u. trace (handle_fatal_error os e release n s) = trace s @ u
     \<and> (\<forall>c \<in> set u. last_resort (fst c) \<and> (release \<longrightarrow> \<not> is_shell (fst c)))"
proof -
  let ?act = "decide (recovery_class e) release (update_pending (program s))"
  let ?s1 = "said os (policy_message (recovery_class e) (update_pending (program s)) ?act e) s"
  have "release \<Longrightarrow> ?act \<noteq> Shell_Action" using decide_release by auto
  then obtain u where u: "trace (run_action os e release n ?act ?s1) = trace ?s1 @ u"
      "\<forall>c \<in> set u. last_resort (fst c) \<and> (release \<longrightarrow> \<not> is_shell (fst c))"
    using last_resort_action by blast
  obtain t where t: "trace ?s1 = trace s @ t" "\<forall>c \<in> set t. last_resort (fst c) \<and> \<not> is_shell (fst c)"
    by (rule last_resort_said)
  show ?thesis using t u by (intro exI [of _ "t @ u"]) (auto simp: handle_fatal_error_def Let_def)
qed

lemma plain_logger: "calls_only plain (open_logger os)"
  unfolding open_logger_def kmsg_new_def by (intro calls_intros) simp

text \<open>Every run of \<open>main\<close>: plain calls, then those of the mode that was asked for, then the last resort.\<close>

lemma run_main_shape:
  obtains t u v where "trace (run_main fuel n st os s) = trace s @ t @ u @ v" and "\<forall>c \<in> set t. plain (fst c)"
    and "u = [] \<or> (\<exists>s2 cl mode. trace s2 = trace s @ t \<and> asked_with st os s s2 cl mode \<and> mode_calls cl mode u)"
    and "\<forall>c \<in> set v. last_resort (fst c) \<and> (release_image (st_features st) \<longrightarrow> \<not> is_shell (fst c))"
proof -
  let ?rel = "release_image (st_features st)"
  obtain r1 s1 where m1: "mount_essential_filesystems os s = (r1 :: early_init_error + unit, s1)" by fastforce
  obtain t1 where t1: "trace s1 = trace s @ t1" "\<forall>c \<in> set t1. plain (fst c)"
    using calls_only_split [OF plain_essential m1] by blast
  show thesis
  proof (cases r1)
    case (Inl e)
    obtain v where "trace (run_main fuel n st os s) = trace s1 @ v"
      "\<forall>c \<in> set v. last_resort (fst c) \<and> (?rel \<longrightarrow> \<not> is_shell (fst c))"
      using last_resort_console [of os n s1] last_resort_spawn(2) [of os n s1] m1 Inl
      by (cases ?rel) (auto simp: run_main_def Let_def)
    then show thesis using t1 that [of t1 "[]" v] by simp
  next
    case (Inr x)
    obtain r2 s2 where m2: "open_logger os s1 = (r2, s2)" by fastforce
    obtain t2 where t2: "trace s2 = trace s1 @ t2" "\<forall>c \<in> set t2. plain (fst c)"
      using calls_only_split [OF plain_logger m2] by blast
    show thesis
    proof (cases r2)
      case (Inl e)
      then have *: "run_main fuel n st os s = handle_fatal_error os e ?rel n (said os (show_initramfs_error e) s2)"
        using m1 m2 Inr by (simp add: run_main_def Let_def)
      obtain w where w: "trace (said os (show_initramfs_error e) s2) = trace s2 @ w"
        "\<forall>c \<in> set w. last_resort (fst c) \<and> \<not> is_shell (fst c)" by (rule last_resort_said)
      obtain v where "trace (run_main fuel n st os s) = trace (said os (show_initramfs_error e) s2) @ v"
        "\<forall>c \<in> set v. last_resort (fst c) \<and> (?rel \<longrightarrow> \<not> is_shell (fst c))"
        using last_resort_policy [of os e ?rel n "said os (show_initramfs_error e) s2"] unfolding * by blast
      then show thesis by (intro that [of "t1 @ t2" "[]" "w @ v"]) (use t1 t2 w in auto)
    next
      case (Inr y)
      obtain r3 s3 where m3: "run_init fuel st os s2 = (r3, s3)" by fastforce
      obtain t u where tu: "trace s3 = trace s2 @ t @ u" "\<forall>c \<in> set t. plain (fst c)"
        "u = [] \<or> (\<exists>s4 cfg layout env mode. mode_found st os s2 = (Inr (cfg, layout, env, mode), s4)
          \<and> trace s4 = trace s2 @ t \<and> mode_calls (cmdline cfg) mode u)"
        by (rule run_init_shape [OF m3])
      obtain v where v: "trace (run_main fuel n st os s) = trace s3 @ v"
        "\<forall>c \<in> set v. last_resort (fst c) \<and> (?rel \<longrightarrow> \<not> is_shell (fst c))"
      proof (cases "\<exists>e. r3 = Inl (Failed e)")
        case True
        then obtain e where "r3 = Inl (Failed e)" by blast
        then have "run_main fuel n st os s = handle_fatal_error os e ?rel n s3"
          using m1 m2 m3 \<open>r1 = Inr x\<close> Inr by (simp add: run_main_def Let_def)
        then show thesis using last_resort_policy [of os e ?rel n s3] that by auto
      next
        case False
        then have "run_main fuel n st os s = s3"
          using m1 m2 m3 \<open>r1 = Inr x\<close> Inr by (auto simp: run_main_def Let_def split: sum.split stop.split)
        then show thesis using that [of "[]"] by simp
      qed
      show thesis
      proof (rule that [of "t1 @ t2 @ t" u v])
        have "mount_essential_filesystems os s = (Inr () :: early_init_error + unit, s1)" "open_logger os s1 = (Inr (), s2)"
          using m1 m2 \<open>r1 = Inr x\<close> Inr by simp_all
        then show "u = [] \<or> (\<exists>s4 cl mode. trace s4 = trace s @ (t1 @ t2 @ t) \<and> asked_with st os s s4 cl mode \<and> mode_calls cl mode u)"
          using tu(3) t1(1) t2(1) unfolding asked_with_def by (metis append.assoc)
      qed (use t1 t2 tu v in auto)
    qed
  qed
qed

end
