(* ===== verification/Clone_Run.thy ===== *)
theory Clone_Run
  imports Clone_Safety Sfdisk_Facts Milestones
begin

text \<open>
  Two disks and tools that do what they are asked to, for the theorems that speak of a clone that succeeds: each operation
  of \<open>src/mode/flash/clone.rs\<close> comes back with its value there, from every state. The proofs go through the operations one
  by one, so that no run has to be evaluated as a whole.
\<close>

section \<open>Two disks and willing tools\<close>

definition willing_tools :: "unit os" where
  "willing_tools = two_disks\<lparr>os_run := \<lambda>c w. (Inr \<lparr>exit_code = Some 0,
     stdout = (if c = Spawn SFDISK_CMD [SFDISK_DUMP_FLAG, ''/dev/sda''] [] then small_dump else []),
     stderr = [], signal_text = []\<rparr>, w)\<rparr>"

definition willing_layout :: partition_layout where
  "willing_layout = \<lparr>partitions = [Boot \<mapsto> ''/dev/sda1'', Factory \<mapsto> ''/dev/sda4'', Cert \<mapsto> ''/dev/sda5''],
     root_dev = \<lparr>base = ''/dev/sda'', partition_sep = [], root_partition = ''/dev/sda2''\<rparr>\<rparr>"

lemma gives_sys:
  "gives () (sys_unit willing_tools c)"
  "gives (case c of Canonicalize p \<Rightarrow> p | _ \<Rightarrow> []) (sys_text willing_tools c)"
  "gives \<lparr>exit_code = Some 0, stdout = (if c = Spawn SFDISK_CMD [SFDISK_DUMP_FLAG, ''/dev/sda''] [] then small_dump else []),
     stderr = [], signal_text = []\<rparr> (sys_run willing_tools c)"
  "gives (\<not> ends_with ''partition'' p) (sys_bool willing_tools (Exists p))"
  "gives \<lparr>st_uid = 0, st_gid = 0, st_mode = 0, st_dev = 0, st_rdev = (if p = ''/dev/sdb'' then 2 else 1), st_len = 0,
     st_is_file = False, st_is_dir = False, st_is_block = True\<rparr> (sys_stat willing_tools (Stat p))"
  by (auto simp: gives_def willing_tools_def two_disks_def sys_unit_def sys_text_def sys_run_def sys_bool_def test_path_def
      sys_stat_def split: call.split)

lemma gives_run: "gives y (f \<lparr>exit_code = Some 0, stdout = (if c = Spawn SFDISK_CMD [SFDISK_DUMP_FLAG, ''/dev/sda''] [] then small_dump else []),
     stderr = [], signal_text = []\<rparr>) \<Longrightarrow> gives y (bindE (or_fail g (sys_run willing_tools c)) (\<lambda>out. if \<not> success out then failing (e out) else f out))"
  by (rule gives_bindE [OF gives_stop(1) [OF gives_sys(3)]]) (simp add: success_def)

lemma gives_copy: "gives 0 (copy_range (Suc n) willing_tools src a dst b None)"
proof -
  have loop: "gives 0 (copy_loop (Suc n) willing_tools g src dst None 0)" for g
    by (subst copy_loop.simps, simp add: Let_def, rule gives_caught [OF gives_sys(2)]) (simp add: gives_pure)
  show ?thesis
    unfolding copy_range_def Let_def open_existing_for_write_def
    by (intro gives_bindE [OF gives_stop(1) [OF gives_sys(1)]] gives_bindE [OF loop] gives_pure)
qed

section \<open>The operations of a clone\<close>

lemma gives_tools:
  "gives () (set_part_uuid willing_tools dst num uuid)" "gives () (new_volume_id willing_tools boot)"
  "gives () (apply_table willing_tools dst dump)" "gives () (reformat_ext4 willing_tools device label)"
  unfolding set_part_uuid_def new_volume_id_def apply_table_def reformat_ext4_def format_command_def Let_def
  subgoal by (rule gives_run) (rule gives_pure)
  subgoal by (rule gives_run) (rule gives_pure)
  subgoal
    by (rule gives_bindE [OF gives_stop(1) [OF gives_sys(1)]], rule gives_caught [OF gives_sys(1)], simp, rule gives_run, rule gives_pure)
  subgoal
    by (rule gives_bindE [of "()"]; rule gives_bindE [OF gives_map_err [OF gives_sys(3)]]; simp add: success_def gives_pure)
  done

lemma gives_dump: "gives small_dump (dump_table willing_tools ''/dev/sda'')"
proof -
  have "utf8_lossy small_dump = small_dump" by code_simp
  then show ?thesis unfolding dump_table_def Let_def by (intro gives_run) (simp add: gives_pure)
qed

lemma gives_bootmgr: "gives [] (efibootmgr willing_tools args)"
proof -
  have "utf8_lossy [] = []" "EFIBOOTMGR_CMD \<noteq> SFDISK_CMD" by code_simp+
  then show ?thesis unfolding efibootmgr_def by (intro gives_run) (simp add: gives_pure)
qed

lemma gives_verify: "gives () (verify_destination_partitions t willing_tools dst)"
  unfolding verify_destination_partitions_def verify_partition_def
  by (intro gives_for_each gives_caught [OF gives_sys(5)]) (simp add: gives_pure)

lemma gives_uuid: "gives [] (fresh_uuid id willing_tools)"
  unfolding fresh_uuid_def
  by (rule gives_bindE [OF gives_stop(1) [OF gives_bindE [OF gives_sys(1) gives_sys(2)]]]) (simp add: gives_pure)

lemma gives_resolved: "gives ''/dev/sdb'' (resolve_destination willing_tools ''/dev/sdb'')"
proof -
  have "\<not> ends_with ''partition'' ''/dev/sdb''" by code_simp
  then have "gives () (wait_for_block_device willing_tools ''/dev/sdb'' secs)" for secs
    by (simp add: gives_def wait_for_block_device_def wait_for_block_loop.simps willing_tools_def two_disks_def test_path_def)
  then show ?thesis
    unfolding resolve_destination_def
    using gives_stop(1) [OF gives_sys(2) [of "Canonicalize ''/dev/sdb''"]] by (auto intro!: gives_bindE)
qed

abbreviation sdb_node :: string where
  "sdb_node \<equiv> path_join SYS_DEV_BLOCK (show_word (major small_codec 2) @ '':'' @ show_word (minor small_codec 2))"

lemma gives_nodes:
  "gives True (sys_bool willing_tools (Exists sdb_node))"
  "gives False (sys_bool willing_tools (Exists (path_join sdb_node ''partition'')))"
proof -
  have "\<not> ends_with ''partition'' sdb_node" "ends_with ''partition'' (path_join sdb_node ''partition'')" by code_simp+
  then show "gives True (sys_bool willing_tools (Exists sdb_node))"
      "gives False (sys_bool willing_tools (Exists (path_join sdb_node ''partition'')))"
    using gives_sys(4) [of sdb_node] gives_sys(4) [of "path_join sdb_node ''partition''"] by simp_all
qed

lemma gives_devnum:
  "gives (if p = ''/dev/sdb'' then 2 else 1) (block_devnum willing_tools p)"
  "gives (Some 2) (whole_disk_devnum willing_tools small_codec SYS_DEV_BLOCK 2)"
  unfolding block_devnum_def whole_disk_devnum_def Let_def
  by (rule gives_bindE [OF gives_map_err [OF gives_sys(5)]], simp add: gives_pure)
    (rule gives_bindE [OF gives_nodes(1)], simp only: not_True_eq_False if_False, rule gives_bindE [OF gives_nodes(2)],
     simp add: gives_pure)

lemma gives_validated: "gives () (validate_destination willing_tools small_codec ''/dev/sdb'' ''/dev/sda'')"
  unfolding validate_destination_def validate_devices_def Let_def
  by (rule gives_bindE [OF gives_stop(1) [OF gives_devnum(1)]], rule gives_bindE [OF gives_stop(1) [OF gives_devnum(1)]],
      simp, rule gives_bindE [OF gives_devnum(2)]) (simp add: refusal_def gives_pure)

lemma gives_sync: "gives () (sync_filesystems willing_tools)"
  by (simp add: sync_filesystems_def gives_def)

lemma gives_unmapped: "gives False (is_path_mounted willing_tools p)"
proof -
  have "rust_lines [] = []" by code_simp
  then show ?thesis
    unfolding is_path_mounted_def by (intro gives_bindE [OF gives_map_err [OF gives_sys(2)]]) (simp add: gives_pure)
qed

lemma gives_unmounted: "gives () (unmount_rootfs willing_tools ''/rootfs'')"
  unfolding unmount_rootfs_def unmount_if_mounted_def
  by (intro gives_bindE [OF gives_sync] gives_for_each gives_bindE [OF gives_stop(1) [OF gives_unmapped]]) (simp add: gives_pure)

lemma gives_e2image: "gives () (run_e2image (Suc n) willing_tools src dst)"
proof -
  have "gives [] (e2image_output (Suc n) willing_tools [])"
    by (simp, rule gives_caught [OF gives_sys(2)]) (simp add: gives_pure)
  then show ?thesis
    unfolding run_e2image_def
    by (intro gives_bindE [OF gives_stop(1) [OF gives_sys(1)]] gives_bindE [of "[]"] gives_run gives_pure)
qed

lemma gives_with_mount: "gives x (work tgt) \<Longrightarrow> gives x (with_mount willing_tools source tgt options work)"
  unfolding with_mount_def mount_fs_def umount_def
  by (rule gives_bindE [OF gives_stop(1) [OF gives_sys(1)]], rule gives_bindE [OF gives_stop(1) [OF gives_map_err [OF gives_sys(1)]]],
      erule gives_stop(3), rule gives_caught [OF gives_map_err [OF gives_sys(1)]]) (simp add: gives_pure)

lemma gives_grubenv: "gives () (copy_grubenv willing_tools p)"
  unfolding copy_grubenv_def
  by (rule gives_bindE [of "()"]) (auto intro!: gives_stop gives_sys gives_pure split: option.split)

lemma gives_efi: "gives () (handle_efi (real_efi_ops willing_tools) dst boot)"
proof -
  have efivars: "gives () (mount_efivarfs willing_tools)"
    unfolding mount_efivarfs_def mount_fs_def
    by (rule gives_bindE [OF gives_stop(1) [OF gives_unmapped]]) (simp add: gives_stop gives_map_err gives_sys)
  have dump: "gives () (write_entry_dump willing_tools boot d)" for d
    unfolding write_entry_dump_def Let_def
    by (intro gives_with_mount gives_bindE [of "()"]) (auto intro!: gives_stop gives_sys gives_pure split: option.split)
  show ?thesis
    unfolding handle_efi_def real_efi_ops_def efi_ops.simps
    by (intro gives_bindE [OF efivars] gives_bindE [OF gives_bootmgr] gives_bindE [of "()"] dump gives_for_each gives_pure)
qed

definition willing_build :: clone_build where
  "willing_build = \<lparr>cb_data_size = Some 50, cb_bootloader_start = None, cb_uboot_env1_start = None, 
     cb_uboot_env2_start = None, cb_uboot_env_size = None\<rparr>"

definition willing_run :: "(flash_error stop + unit) \<times> (unit, unit) machine" where
  "willing_run = run_clone 9 all_modes id small_codec willing_tools willing_build willing_layout ''/rootfs'' ''/dev/sdb'' fresh_machine"

abbreviation willing_ops :: "(unit, unit) machine clone_ops" where
  "willing_ops \<equiv> real_clone_ops 9 all_modes id small_codec willing_tools"

lemma gives_finish: "gives () (finish_clone all_modes willing_ops constants dst uuids)"
  unfolding finish_clone_def Let_def
  by (rule gives_bindE [of "()"])
    (auto simp: real_clone_ops_def all_modes_def intro!: gives_for_each gives_bindE [of "()"] gives_tools gives_with_mount
      gives_grubenv gives_efi)

end
