(* ===== verification/Clone_Complete.thy ===== *)
theory Clone_Complete
  imports Clone_Run Milestones
begin

text \<open>
  What a clone of \<open>src/mode/flash/clone.rs\<close> that reports success has done: every step of its plan, in the order of
  the plan, on the destination it approved, with the table rewritten from the dump of the booted disk.
\<close>

section \<open>The plan\<close>

definition copied :: "string \<Rightarrow> u64 \<Rightarrow> string \<Rightarrow> u64 \<Rightarrow> call list" where
  "copied src a dst b = [OpenRead src, SeekRead src a, OpenWrite dst, SeekWrite dst b, SyncFile dst]"

definition formatted :: "string \<Rightarrow> string \<Rightarrow> call list" where
  "formatted device label = [Spawn MKFS_EXT4_CMD [''-F'', ''-q'', device] [],
     Spawn TUNE2FS_CMD [device, ''-c'', ''-1'', ''-i'', ''0'', ''-L'', label] []]"

definition table_applied :: "string \<Rightarrow> string \<Rightarrow> call list" where
  "table_applied dst dump = [SpawnChild SFDISK_CMD [dst], WriteStdin SFDISK_CMD dump, WaitChild SFDISK_CMD]"

definition source_of :: "partition_layout \<Rightarrow> partition_name \<Rightarrow> string" where
  "source_of l name = (case layout_get l name of Some p \<Rightarrow> p | None \<Rightarrow> [])"

text \<open>The identities, and the boot loader: GRUB's environment and the firmware's entry, or the areas of U-Boot.\<close>

definition identity_steps :: "features \<Rightarrow> clone_constants \<Rightarrow> string \<Rightarrow> (u32 \<times> string) list \<Rightarrow> call list" where
  "identity_steps ft constants dst uuids =
     map (\<lambda>(num, uuid). Spawn SFDISK_CMD (part_uuid_args dst num uuid) []) uuids
   @ (case bootloader ft of
        Grub \<Rightarrow> (let boot = destination_partition dst PARTITION_NUM_BOOT in
          [Spawn FATLABEL_CMD [''-i'', ''-r'', boot] [], CopyFile GRUBENV_SOURCE (path_join CLONE_BOOT GRUBENV_TARGET),
           Spawn EFIBOOTMGR_CMD (entry_args dst) [], Spawn EFIBOOTMGR_CMD [''-v''] []])
      | UBoot \<Rightarrow> (case cc_uboot_env constants of None \<Rightarrow> []
          | Some env \<Rightarrow> concat (map (\<lambda>offset. copied UBOOT_ENV_SOURCE 0 dst offset) (ue_offsets env))))"

definition clone_steps :: "features \<Rightarrow> clone_constants \<Rightarrow> partition_layout \<Rightarrow> string \<Rightarrow> (u32 \<times> string) list \<Rightarrow> string \<Rightarrow>
    call list" where
  "clone_steps ft constants l dst uuids rewritten = (let t = table ft in
     table_applied dst rewritten
   @ map (\<lambda>num. Stat (destination_partition dst num)) (dest_partition_roles t)
   @ (case cc_bootloader_area constants of None \<Rightarrow> []
      | Some area \<Rightarrow> copied (base (root_dev l)) (br_offset area) dst (br_offset area))
   @ formatted (destination_partition dst (PARTITION_NUM_ETC t)) ''etc''
   @ formatted (destination_partition dst (PARTITION_NUM_DATA t)) ''data''
   @ concat (map (\<lambda>(name, num). copied (source_of l name) 0 (destination_partition dst num) 0)
       [(Boot, PARTITION_NUM_BOOT), (Factory, PARTITION_NUM_FACTORY t), (Cert, PARTITION_NUM_CERT t)])
   @ [SpawnChild E2IMAGE_CMD [''-ra'', ''-p'', root_current l, destination_partition dst PARTITION_NUM_ROOT_A],
      WaitChild E2IMAGE_CMD]
   @ identity_steps ft constants dst uuids)"

section \<open>The operations\<close>

lemma makes_copy: "makes (copied src a dst b) (copy_range fuel os src a dst b len)"
proof -
  have "calls_only (\<lambda>_. True) (copy_loop fuel os g src dst len n)" for g n
    by (rule calls_any [OF copy_loop_calls [where P = "\<lambda>_. True"]]) simp
  then have "makes ([OpenRead src] @ [SeekRead src a] @ [OpenWrite dst] @ [SeekWrite dst b] @ [SyncFile dst])
      (copy_range fuel os src a dst b len)"
    unfolding copy_range_def Let_def open_existing_for_write_def
    by (intro makes_bindE makes_stop makes_sys makes_skip makes_last [OF makes_stop(1)] calls_only_pure)
  then show ?thesis by (simp add: copied_def)
qed

lemma makes_format: "makes (formatted device label) (reformat_ext4 os device label)"
proof -
  have one: "makes [Spawn prog args []] (format_command os device tool prog args)" for tool prog args
    unfolding format_command_def all_ok_def makes_def by (rule brings_mono [OF brings_checked]) simp
  show ?thesis
    using makes_bindE [OF one one] unfolding reformat_ext4_def formatted_def by simp
qed

lemma makes_apply: "makes (table_applied dst dump) (apply_table os dst dump)"
proof -
  have "makes ([SpawnChild SFDISK_CMD [dst]] @ [WriteStdin SFDISK_CMD dump] @ [WaitChild SFDISK_CMD]) (apply_table os dst dump)"
    unfolding apply_table_def Let_def
    by (intro makes_bindE makes_stop makes_sys makes_caught) (auto intro!: makes_checked makes_pure fails_intros calls_intros)
  then show ?thesis by (simp add: table_applied_def)
qed

lemma concat_map_single: "concat (map (\<lambda>x. [f x]) xs) = map f xs"
  by (induction xs) simp_all

lemma makes_verify:
  "makes (map (\<lambda>num. Stat (destination_partition dst num)) (dest_partition_roles t)) (verify_destination_partitions t os dst)"
proof -
  have "makes ([Stat p] @ []) (verify_partition os p)" for p
    unfolding verify_partition_def by (rule makes_caught) (auto intro!: makes_sys makes_pure fails_intros)
  then have "makes [Stat p] (verify_partition os p)" for p by simp
  then have "makes (concat (map (\<lambda>num. [Stat (destination_partition dst num)]) (dest_partition_roles t)))
      (verify_destination_partitions t os dst)"
    unfolding verify_destination_partitions_def by (rule makes_for_each)
  then show ?thesis by (simp add: concat_map_single)
qed

lemma makes_e2image:
  "makes [SpawnChild E2IMAGE_CMD [''-ra'', ''-p'', src, dst], WaitChild E2IMAGE_CMD] (run_e2image fuel os src dst)"
proof -
  have tail: "calls_only (\<lambda>_. True) (e2image_output fuel os [])" by (rule calls_any [OF e2image_output_calls])
  have pipe: "calls_only (\<lambda>_. True) (or_fail g (sys_unit os c))" for g c by (intro calls_intros) simp
  have "makes ([SpawnChild E2IMAGE_CMD [''-ra'', ''-p'', src, dst]] @ [WaitChild E2IMAGE_CMD]) (run_e2image fuel os src dst)"
    unfolding run_e2image_def
    by (intro makes_skip [OF pipe] makes_bindE [OF makes_stop(1) [OF makes_sys(1)]] makes_skip [OF tail] makes_checked makes_pure)
  then show ?thesis by simp
qed

lemma makes_tools:
  "makes [Spawn SFDISK_CMD (part_uuid_args dst num uuid) []] (set_part_uuid os dst num uuid)"
  "makes [Spawn FATLABEL_CMD [''-i'', ''-r'', boot] []] (new_volume_id os boot)"
  "makes [Spawn EFIBOOTMGR_CMD args []] (efibootmgr os args)"
  unfolding set_part_uuid_def new_volume_id_def efibootmgr_def Let_def by (intro makes_checked makes_pure)+

lemma makes_grubenv: "makes [CopyFile GRUBENV_SOURCE p] (copy_grubenv os p)"
  unfolding copy_grubenv_def
  by (rule makes_skip) (auto intro!: calls_intros makes_stop makes_sys split: option.split)

lemma makes_efi: "makes [Spawn EFIBOOTMGR_CMD (entry_args dst) [], Spawn EFIBOOTMGR_CMD [''-v''] []]
   (handle_efi (real_efi_ops os) dst (destination_partition dst n))"
proof -
  have efivars: "calls_only (\<lambda>_. True) (mount_efivarfs os)" by (rule calls_any [OF efi_calls(1)])
  have bootmgr: "calls_only (\<lambda>_. True) (efibootmgr os args)" for args by (rule calls_any [OF efi_calls(2)])
  have dump: "calls_only (\<lambda>_. True) (write_entry_dump os (destination_partition dst n) content)" for content
    by (rule calls_any [OF efi_calls(3) [OF clone_area_place(2) destination_nonempty]])
  have delete: "calls_only (\<lambda>_. True) (for_each ids (\<lambda>i. bindE (efibootmgr os (delete_args i)) (\<lambda>_. ret ())))" for ids
    by (intro calls_intros bootmgr)
  have "makes ([Spawn EFIBOOTMGR_CMD (entry_args dst) []] @ [Spawn EFIBOOTMGR_CMD [''-v''] []])
      (handle_efi (real_efi_ops os) dst (destination_partition dst n))"
    unfolding handle_efi_def real_efi_ops_def efi_ops.simps
    by (intro makes_skip [OF efivars] makes_skip [OF bootmgr] makes_bindE [OF makes_tools(3)] makes_skip [OF delete]
        makes_last [OF makes_tools(3) dump])
  then show ?thesis by simp
qed

lemma makes_identity: "makes (identity_steps ft constants dst uuids)
   (finish_clone ft (real_clone_ops fuel ft uuid_text dn os) constants dst uuids)"
proof -
  let ?boot = "destination_partition dst PARTITION_NUM_BOOT"
  have uuids: "makes (map (\<lambda>(num, uuid). Spawn SFDISK_CMD (part_uuid_args dst num uuid) []) uuids)
      (for_each uuids (\<lambda>(num, uuid). set_part_uuid os dst num uuid))"
    using makes_for_each [of uuids "\<lambda>(num, uuid). [Spawn SFDISK_CMD (part_uuid_args dst num uuid) []]"
        "\<lambda>(num, uuid). set_part_uuid os dst num uuid"] makes_tools(1)
    by (auto simp: concat_map_single case_prod_unfold)
  have grub: "makes ([Spawn FATLABEL_CMD [''-i'', ''-r'', ?boot] []] @ [CopyFile GRUBENV_SOURCE (path_join CLONE_BOOT GRUBENV_TARGET)]
      @ [Spawn EFIBOOTMGR_CMD (entry_args dst) [], Spawn EFIBOOTMGR_CMD [''-v''] []])
    (bindE (new_volume_id os ?boot) (\<lambda>_. bindE (with_mount os ?boot CLONE_BOOT vfat_options
       (\<lambda>m. copy_grubenv os (path_join m GRUBENV_TARGET))) (\<lambda>_. handle_efi (real_efi_ops os) dst ?boot)))"
    by (intro makes_bindE makes_tools makes_with_mount makes_grubenv makes_efi)
  have area: "makes (copied UBOOT_ENV_SOURCE 0 dst offset) (bindE (copy_range fuel os UBOOT_ENV_SOURCE 0 dst offset len) (\<lambda>_. ret ()))"
    for offset len by (intro makes_last [OF makes_copy] calls_only_pure)
  have uboot: "makes (concat (map (\<lambda>offset. copied UBOOT_ENV_SOURCE 0 dst offset) offsets))
      (for_each offsets (\<lambda>offset. bindE (copy_range fuel os UBOOT_ENV_SOURCE 0 dst offset len) (\<lambda>_. ret ())))" for offsets len
    by (intro makes_for_each area)
  show ?thesis
    unfolding finish_clone_def identity_steps_def Let_def real_clone_ops_def clone_ops.simps
    using grub uboot by (intro makes_bindE uuids) (auto simp: makes_pure split: bootloader_kind.split option.split)
qed

section \<open>The clone\<close>

text \<open>What a clone does before it writes: it draws its UUIDs, resolves the destination, checks it, and reads the table of
  the booted disk.\<close>

definition clone_prepared :: "nat \<Rightarrow> features \<Rightarrow> (string \<Rightarrow> string) \<Rightarrow> devnum_codec \<Rightarrow> 'w os \<Rightarrow> partition_layout \<Rightarrow> string \<Rightarrow>
    string \<Rightarrow> (('w, 'p) machine, (u32 \<times> string) list \<times> string \<times> string) flash" where
  "clone_prepared fuel ft uuid_text dn os l rootfs requested =
     bindE (fresh_uuids (table ft) (real_clone_ops fuel ft uuid_text dn os)) (\<lambda>uuids.
     bindE (resolve_destination os requested) (\<lambda>dst.
     bindE (validate_destination os dn dst (base (root_dev l))) (\<lambda>_.
     bindE (unmount_rootfs os rootfs) (\<lambda>_.
     bindE (dump_table os (base (root_dev l))) (\<lambda>dump. ret (uuids, dst, dump))))))"

text \<open>What \<open>clone_onto\<close> does with the rewritten table.\<close>

definition write_clone :: "features \<Rightarrow> 's clone_ops \<Rightarrow> clone_constants \<Rightarrow> partition_layout \<Rightarrow> string \<Rightarrow> (u32 \<times> string) list \<Rightarrow>
    string \<Rightarrow> ('s, unit) flash" where
  "write_clone ft ops constants l dst uuids rewritten = (let t = table ft in
     bindE (co_apply ops dst rewritten) (\<lambda>_.
     bindE (co_verify_partitions ops dst) (\<lambda>_.
     bindE (case cc_bootloader_area constants of
         Some area \<Rightarrow> co_copy_range ops (base (root_dev l)) (br_offset area) dst (br_offset area) (Some (br_len area))
       | None \<Rightarrow> ret ()) (\<lambda>_.
     bindE (co_reformat ops (destination_partition dst (PARTITION_NUM_ETC t)) ''etc'') (\<lambda>_.
     bindE (co_reformat ops (destination_partition dst (PARTITION_NUM_DATA t)) ''data'') (\<lambda>_.
     bindE (for_each [(Boot, PARTITION_NUM_BOOT), (Factory, PARTITION_NUM_FACTORY t), (Cert, PARTITION_NUM_CERT t)]
       (copy_partition ops l dst)) (\<lambda>_.
     bindE (co_e2image ops (root_current l) (destination_partition dst PARTITION_NUM_ROOT_A)) (\<lambda>_.
     finish_clone ft ops constants dst uuids))))))))"

lemma clone_onto_split:
  "clone_onto ft ops constants l (base (root_dev l)) dst uuids =
     bindE (co_dump ops (base (root_dev l))) (\<lambda>dump.
     bindE (lift_res (case rewrite_dump (table ft) (base (root_dev l)) dump (cc_data_size_kb constants) of
         Inl e \<Rightarrow> Inl (Failed e) | Inr x \<Rightarrow> Inr x))
       (write_clone ft ops constants l dst uuids))"
  by (simp only: clone_onto_def write_clone_def [abs_def] Let_def)

lemma makes_partition:
  "makes ((\<lambda>(name, num). copied (source_of l name) 0 (destination_partition dst num) 0) p)
     (copy_partition (real_clone_ops fuel ft uuid_text dn os) l dst p)"
proof (cases "layout_get l (fst p)")
  case None
  then show ?thesis
    by (simp add: copy_partition_def layout_partition_def bindE_def makes_def brings_def)
next
  case (Some src)
  have "makes (copied src 0 (destination_partition dst (snd p)) 0)
      (bindE (copy_range fuel os src 0 (destination_partition dst (snd p)) 0 None) (\<lambda>_. ret ()))"
    by (intro makes_last [OF makes_copy] calls_only_pure)
  then show ?thesis
    using Some by (simp add: copy_partition_def layout_partition_def source_of_def case_prod_unfold real_clone_ops_def)
qed

lemma makes_write_clone:
  "makes (clone_steps ft constants l dst uuids rewritten)
     (write_clone ft (real_clone_ops fuel ft uuid_text dn os) constants l dst uuids rewritten)"
proof -
  let ?ops = "real_clone_ops fuel ft uuid_text dn os"
  have area: "makes (case cc_bootloader_area constants of None \<Rightarrow> []
      | Some area \<Rightarrow> copied (base (root_dev l)) (br_offset area) dst (br_offset area))
    (case cc_bootloader_area constants of
        Some area \<Rightarrow> co_copy_range ?ops (base (root_dev l)) (br_offset area) dst (br_offset area) (Some (br_len area))
      | None \<Rightarrow> ret ())"
    by (auto simp: real_clone_ops_def makes_pure intro!: makes_last [OF makes_copy] calls_only_pure split: option.split)
  have tools: "makes (table_applied dst rewritten) (co_apply ?ops dst rewritten)"
    "makes (map (\<lambda>num. Stat (destination_partition dst num)) (dest_partition_roles (table ft))) (co_verify_partitions ?ops dst)"
    "makes (formatted device label) (co_reformat ?ops device label)"
    "makes [SpawnChild E2IMAGE_CMD [''-ra'', ''-p'', src, part], WaitChild E2IMAGE_CMD] (co_e2image ?ops src part)"
    for device label src part
    by (simp_all add: real_clone_ops_def makes_apply makes_verify makes_stop makes_format makes_e2image)
  show ?thesis
    unfolding clone_steps_def write_clone_def Let_def
    by (intro makes_bindE tools area makes_identity makes_for_each makes_partition)
qed

lemma clone_prepares:
  assumes "clone_with ft (real_clone_ops fuel ft uuid_text dn os) constants l rootfs requested s = (Inr (), s')"
  shows "\<exists>uuids dst dump rewritten s2 s3.
    clone_prepared fuel ft uuid_text dn os l rootfs requested s = (Inr (uuids, dst, dump), s2)
    \<and> rewrite_dump (table ft) (base (root_dev l)) dump (cc_data_size_kb constants) = Inr rewritten
    \<and> write_clone ft (real_clone_ops fuel ft uuid_text dn os) constants l dst uuids rewritten s2 = (Inr (), s3)
    \<and> sync_filesystems os s3 = (Inr () :: flash_error stop + unit, s')"
proof -
  let ?ops = "real_clone_ops fuel ft uuid_text dn os"
  have fields: "co_resolve_destination ?ops = resolve_destination os" "co_validate_destination ?ops = validate_destination os dn"
    "co_unmount_rootfs ?ops = unmount_rootfs os" "co_dump ?ops = dump_table os" "co_sync ?ops = sync_filesystems os"
    by (simp_all add: real_clone_ops_def)
  have split: "clone_with ft ?ops constants l rootfs requested =
      bindE (clone_prepared fuel ft uuid_text dn os l rootfs requested) (\<lambda>(uuids, dst, dump).
      bindE (lift_res (case rewrite_dump (table ft) (base (root_dev l)) dump (cc_data_size_kb constants) of
          Inl e \<Rightarrow> Inl (Failed e) | Inr x \<Rightarrow> Inr x)) (\<lambda>rewritten.
      bindE (write_clone ft ?ops constants l dst uuids rewritten) (\<lambda>_. sync_filesystems os)))"
    unfolding clone_with_def clone_prepared_def Let_def clone_onto_split fields by (simp add: bindE_assoc)
  show ?thesis
    using assms unfolding split by (fastforce elim!: bindE_InrE split: sum.splits)
qed

text \<open>C7: A clone that reports success has made every step of its plan, in the order of the plan and each with success, after the
  destination was resolved and checked: the table of the booted disk, rewritten for the new size of the data partition, is
  written and its partitions are there; the boot loader's area is copied; \<open>etc\<close> and \<open>data\<close> are formatted; the boot, factory
  and certificate partitions and the root file system are copied; the partitions have got the UUIDs that were drawn; and the
  boot loader is set up.\<close>

theorem clone_success_complete:
  fixes s s' :: "('w, 'p) machine"
  assumes "run_clone fuel ft uuid_text dn os raw l rootfs requested s = (Inr (), s')"
  shows "\<exists>constants uuids dst dump rewritten s2 t. clone_constants_of ft raw = Inr constants
    \<and> clone_prepared fuel ft uuid_text dn os l rootfs requested s = (Inr (uuids, dst, dump), s2)
    \<and> rewrite_dump (table ft) (base (root_dev l)) dump (cc_data_size_kb constants) = Inr rewritten
    \<and> trace s' = trace s2 @ t \<and> done_in (clone_steps ft constants l dst uuids rewritten) t"
proof -
  let ?ops = "real_clone_ops fuel ft uuid_text dn os :: ('w, 'p) machine clone_ops"
  obtain constants where constants: "clone_constants_of ft raw = Inr constants"
    "clone_with ft ?ops constants l rootfs requested s = (Inr (), s')"
    using assms by (auto simp: run_clone_def failing_def split: sum.splits)
  from clone_prepares [OF constants(2)] obtain uuids dst dump rewritten s2 s3 where run:
      "clone_prepared fuel ft uuid_text dn os l rootfs requested s = (Inr (uuids, dst, dump), s2)"
      "rewrite_dump (table ft) (base (root_dev l)) dump (cc_data_size_kb constants) = Inr rewritten"
      "write_clone ft ?ops constants l dst uuids rewritten s2 = (Inr (), s3)"
      "sync_filesystems os s3 = (Inr () :: flash_error stop + unit, s')"
    by blast
  obtain t where t: "trace s3 = trace s2 @ t" "done_in (clone_steps ft constants l dst uuids rewritten) t"
    using makesD [OF makes_write_clone run(3)] by blast
  obtain u where "trace s' = trace s3 @ u"
    using run(4) by (auto simp: sync_filesystems_def sys_unit_def split: prod.splits)
  then have "trace s' = trace s2 @ t @ u" "done_in (clone_steps ft constants l dst uuids rewritten) (t @ u)"
    using t by auto
  then show ?thesis using constants(1) run by blast
qed

section \<open>A clone that succeeds\<close>

lemma gives_partition:
  assumes "layout_get willing_layout name = Some src"
  shows "gives () (copy_partition willing_ops willing_layout dst (name, num))"
proof -
  have "gives () (bindE (copy_range 9 willing_tools src 0 (destination_partition dst num) 0 None) (\<lambda>_. ret ()))"
    using gives_copy [of 8] by (intro gives_bindE gives_pure) simp
  then show ?thesis using assms by (simp add: copy_partition_def layout_partition_def real_clone_ops_def)
qed

lemma gives_write:
  "gives () (write_clone all_modes willing_ops \<lparr>cc_data_size_kb = 50, cc_bootloader_area = None, cc_uboot_env = None\<rparr>
     willing_layout dst uuids rewritten)"
proof -
  have e2image: "gives () (run_e2image 9 willing_tools src part)" for src part using gives_e2image [of 8 src part] by simp
  have ops: "gives () (co_apply willing_ops dst rewritten)" "gives () (co_verify_partitions willing_ops dst)"
    "gives () (co_reformat willing_ops device label)" "gives () (co_e2image willing_ops src part)" for device label src part
    by (simp_all add: real_clone_ops_def gives_stop gives_tools gives_verify e2image)
  have sources: "layout_get willing_layout Boot = Some ''/dev/sda1''" "layout_get willing_layout Factory = Some ''/dev/sda4''"
    "layout_get willing_layout Cert = Some ''/dev/sda5''"
    by (simp_all add: layout_get_def willing_layout_def)
  have parts: "gives () (for_each [(Boot, PARTITION_NUM_BOOT), (Factory, PARTITION_NUM_FACTORY t), (Cert, PARTITION_NUM_CERT t)]
      (copy_partition willing_ops willing_layout dst))" for t
    by (intro gives_for_each) (auto simp: gives_partition [OF sources(1)] gives_partition [OF sources(2)] gives_partition [OF sources(3)])
  show ?thesis
    unfolding write_clone_def Let_def
    by (rule gives_bindE [OF ops(1)], rule gives_bindE [OF ops(2)], rule gives_bindE [of "()"], simp add: gives_pure)
      (intro gives_bindE [OF ops(3)] gives_bindE [OF parts] gives_bindE [OF ops(4)] gives_finish)
qed

lemma willing_success: "\<exists>s'. willing_run = (Inr (), s')"
proof -
  let ?cc = "\<lparr>cc_data_size_kb = 50, cc_bootloader_area = None, cc_uboot_env = None\<rparr>"
  have src: "base (root_dev willing_layout) = ''/dev/sda''" by (simp add: willing_layout_def)
  have gpt: "table all_modes = Gpt" by (simp add: all_modes_def)
  have dump: "gives small_dump (co_dump willing_ops ''/dev/sda'')" by (simp add: real_clone_ops_def gives_dump)
  have uuids: "gives [(PARTITION_NUM_BOOT, []), (PARTITION_NUM_ROOT_A, [])] (fresh_uuids Gpt willing_ops)"
    using gives_uuid unfolding fresh_uuids_def
    by (auto simp: real_clone_ops_def intro!: gives_bindE [of "[]"] gives_pure)
  have onto: "gives () (clone_onto all_modes willing_ops ?cc willing_layout ''/dev/sda'' ''/dev/sdb'' uuids)" for uuids
    unfolding clone_onto_split [of all_modes willing_ops ?cc willing_layout, unfolded src]
    by (rule gives_bindE [OF dump]) (simp only: gpt clone_constants.select_convs rewrite_small sum.case bindE_lift_Inr gives_write)
  have "gives () (clone_with all_modes willing_ops ?cc willing_layout ''/rootfs'' ''/dev/sdb'')"
    unfolding clone_with_def Let_def src
    by (rule gives_bindE [of "[(PARTITION_NUM_BOOT, []), (PARTITION_NUM_ROOT_A, [])]"], simp only: gpt uuids,
        rule gives_bindE [of "''/dev/sdb''"], simp add: real_clone_ops_def gives_resolved,
        rule gives_bindE [of "()"], simp add: real_clone_ops_def gives_validated,
        rule gives_bindE [of "()"], simp add: real_clone_ops_def gives_unmounted,
        rule gives_bindE [OF onto]) (simp add: real_clone_ops_def gives_sync)
  then show ?thesis
    by (simp add: willing_run_def willing_build_def run_clone_def clone_constants_of_def or_missing_def bootloader_area_of_def all_modes_def gives_def)
qed

text \<open>The two disks with the willing tools: a clone there succeeds, and its plan was carried out.\<close>

lemma clone_success_complete_witness:
  "\<exists>constants uuids dst dump rewritten s2 t. clone_constants_of all_modes willing_build = Inr constants
    \<and> clone_prepared 9 all_modes id small_codec willing_tools willing_layout ''/rootfs'' ''/dev/sdb'' fresh_machine
        = (Inr (uuids, dst, dump), s2)
    \<and> rewrite_dump Gpt ''/dev/sda'' dump (cc_data_size_kb constants) = Inr rewritten
    \<and> trace (snd willing_run) = trace s2 @ t \<and> done_in (clone_steps all_modes constants willing_layout dst uuids rewritten) t"
proof -
  have small: "table all_modes = Gpt" "base (root_dev willing_layout) = ''/dev/sda''"
    by (simp_all add: all_modes_def willing_layout_def)
  obtain s' where s': "willing_run = (Inr (), s')" using willing_success by blast
  from clone_success_complete [OF s' [unfolded willing_run_def]] show ?thesis unfolding s' snd_conv small .
qed

end
