(* ===== verification/Spec2Isabelle.thy ===== *)
theory Spec2Isabelle
  imports Init Update_Flags Reset_Safety Bmap_Checks Raw_Copy Sfdisk_Facts
    Flash_Safety Efi_Safety Unmount_Facts Boot_Safety Build_Config Whole_Boot Clone_Complete
begin

text \<open>
  A model of \<open>omnect-os-init\<close>, the program that runs as process 1 in the initramfs of omnect-os, and the
  theorems that make it correct.

  \<^bold>\<open>The program.\<close> \<open>main\<close> (\<open>src/main.rs\<close>) mounts \<open>/dev\<close>, \<open>/proc\<close>, \<open>/sys\<close> and \<open>/run\<close>, opens the kernel
  log and calls \<open>run_init\<close> (\<open>src/lib.rs\<close>). That finds the root device from the kernel command line, builds the
  partition layout, checks and mounts the core partitions, opens the boot environment (GRUB or U-Boot), decides from
  its triggers on the boot mode and runs it: the normal boot ends in \<open>switch_root\<close>, the factory reset wipes and
  rebuilds two partitions and then boots normally, the flash modes clone the disk (1), take an image over
  \<open>scp\<close> (2) or download one (3) and end with the machine switched off or rebooted. An error that reaches
  \<open>main\<close> is given to the policy of \<open>src/recovery.rs\<close>: reboot, halt, or a shell on development images.

  \<^bold>\<open>How it is modelled.\<close> A function with effects is a function from the state to a result and a new state
  (\<open>io\<close> in Prelude); Rust's question mark is \<open>bindE\<close>, a \<open>match\<close> on a result is \<open>caught\<close>. The state
  (\<open>machine\<close> in World) is the outside world, the program's own memory (\<open>program_state\<close> in Program: the status for
  omnect-device-service, the two statics, the list of tracked mounts), a clock, and the list of the calls made so
  far, which nothing reads and the safety theorems talk about. The kernel, the file systems and the external tools
  are a record \<open>os\<close> of answer functions over an arbitrary world; all theorems hold for every such record, so for
  every combination of answers and failures. Rust's traits with several implementations (\<open>BootEnv\<close>,
  \<open>CloneOps\<close>, \<open>ScpOps\<close>, \<open>UrlOps\<close>, \<open>EfiOps\<close>, \<open>NetOps\<close>, the hooks of the factory reset) are records of operations
  with the real operations as a value. Machine integers are words; errors are the enumerations of
  \<open>src/error.rs\<close> with their texts; cargo features are a record \<open>features\<close> the definitions read, so every
  combination of features is covered at once.

  \<^bold>\<open>Shared theories.\<close>
  \<^item> Prelude: the \<open>io\<close> type and its combinators, checked arithmetic, \<open>never_fails\<close> and \<open>results\<close>.
  \<^item> Rust_Str, Utf8, Rust_Path: the parts of \<open>str\<close>, of UTF-8 handling and of \<open>std::path\<close> the program uses, with round trips.
  \<^item> World: calls, answers, the machine; \<open>calls_only\<close>. Trace_Logic: \<open>brings\<close>, \<open>all_ok\<close>. Guarded: \<open>guarded\<close>, for
    programs that check before they act. Milestones: \<open>makes\<close>, for what a run that succeeds must have done. These are the rules the safety theorems are derived with.
  \<^item> Keys, Fsck_Code, Image_Url, Errors, Program: the value types, the error types, the program's memory.

  \<^bold>\<open>Components and their theories.\<close>
  \<^item> \<open>build.rs\<close>: Keys, Build_Config. The feature check, the generated constants, what the flash modes make of them.
  \<^item> \<open>src/main.rs\<close>, \<open>src/recovery.rs\<close>, \<open>src/lib.rs\<close>, \<open>src/early_init.rs\<close>: Recovery, Init, Early_Init.
  \<^item> \<open>src/config/\<close>, \<open>src/partition/\<close>: Cmdline, Device, Layout. Root device, layout, links below \<open>/dev/omnect\<close>.
  \<^item> \<open>src/bootloader/\<close>: Boot_Env (the trait, fsck records as text), Boot_Env_Impl (GRUB, U-Boot, in memory),
    Env_Store (the contract as the locale \<open>env_store\<close>, interpreted on the implementations).
  \<^item> \<open>src/filesystem/\<close>: Mount, Fsck_Run, Overlayfs, Boot_Sequence; Fsck_Records (fsck results over a reboot, locale
    \<open>record_store\<close>), Boot_Safety (no mount and no resize without a check).
  \<^item> \<open>src/init_setup/\<close>: Init_Setup. Extra boot arguments, growing the data partition, formatting.
  \<^item> \<open>src/mode/mod.rs\<close>, \<open>src/mode/normal.rs\<close>: Mode, Normal.
  \<^item> \<open>src/runtime/\<close>: Ods, Status_Json (the report as a JSON value), Update_Flags, Fs_Link, Switch_Root.
  \<^item> \<open>src/mode/factory_reset/\<close>: Reset_Config, Wipe, Factory_Reset, Reset_Safety.
  \<^item> \<open>src/mode/flash/\<close>: Flash_Base, Flash (entry points), Rawio and Raw_Copy (byte ranges), Sfdisk and Sfdisk_Facts
    (partition tables), Unmount_Disk and Unmount_Facts, Efi and Efi_Safety, Net, Bmap and Bmap_Checks (block maps), Clone,
    Clone_Safety, Clone_Run and Clone_Complete (mode 1), Scp (mode 2), Url_Flash (mode 3), Flash_Writes and Flash_Safety (what modes 2 and 3 write, and when).
  \<^item> \<open>src/early_modules/\<close>: Early_Modules. \<open>src/logging/\<close>: Capture, Kmsg, with the rate limit in Fsck_Run.
  \<^item> Boot_Calls, Tool_Calls, Whole_Boot and this theory: the calls of the program as a whole.

  \<^bold>\<open>What the theorems show.\<close>
  \<^item> The whole program: nothing is erased before a flash or a reset was asked for; only the tools named in the source are
    started, and no shell on a release image; the policy reboots exactly when it says so.
  \<^item> Destructive modes: a reset destroys nothing before its backup is complete, reports success only for what succeeded, and
    always answers its trigger; a clone changes only a destination that was found to be another whole disk, and one that
    reports success has carried out its whole plan there; a download or an upload is written only after its digest and
    its size have been checked; no log goes to a disk in an unknown state; a block map is well formed and its copy
    writes exactly the mapped bytes; a copied range is exact for every schedule of short reads and writes; a partition
    table is changed in two numbers only; a boot entry is deleted only after the new one exists.
  \<^item> The normal boot: the mode agrees with a decision table; fsck before mount and before resize; fsck results survive
    a reboot; new boot arguments cost one reboot; update flags and the first-boot marker are written in the right order;
    the switch to the new root runs in order, is undone when it fails, and deletes only the old root; links
    and preserved paths stay below the root; modules are loaded once and after their dependencies; every overlay mount is tracked.
  \<^item> Data: layouts, build constants, the log capture, the JSON report (nothing is lost in it), the order of unmounting, the decoding of \<open>/proc/mounts\<close>.

  \<^bold>\<open>Loops and fuel.\<close> A loop of the source that ends by itself is a function with a measure (decoding, zeroing, wiping, the
  polling loops with a deadline, which the clock of the machine brings nearer). The copy loops, the output of \<open>e2image\<close>, the
  digest loop, the wait for a block map and the repetition of mode 2 have no bound of their own in the source, because an
  interrupted call is repeated or an operator is waited for: they take fuel, one unit for a turn, and running out
  of it is the outcome \<open>Running\<close>, which is neither a value nor an error. Statements about what was written hold with any fuel;
  \<open>copy_range_scheduled\<close> shows how much is enough to come back, and \<open>bring_up_returns\<close> that the 122 polls of the network are.
  \<open>delete_contents\<close> takes the depth of the directory tree. A shell or halt loop, which never ends, is modelled with the number of its turns, for every number.

  \<^bold>\<open>Parameters.\<close> Code outside the repository is an argument of the definitions that use it: the JSON, XML and base64
  libraries (\<open>libraries\<close> in Flash), sha256, the text of a UUID and of hex errors, the encoding of device numbers, the xz
  decoder (the calls \<open>ReadDecoded\<close> and \<open>DecodedSize\<close>), the order in which a hash map is walked. Hypotheses on the world are named
  where they are used (\<open>env_store\<close>, \<open>record_store\<close>, \<open>raw_files\<close>, \<open>exact_reads\<close>, \<open>device_known\<close>) and have an instance.

  \<^bold>\<open>Not modelled.\<close> Which lines the components log, and what is printed on the console, are left out (the lines decide
  nothing; the logger itself, its capture, the rate limit of the kernel log, the tail of a tool's output, and the messages of a fatal
  error, which are written straight to the kernel log, are modelled). Text is
  bytes: white space outside ASCII is not trimmed, and the branches for a path that is not UTF-8 do not occur. Tests,
  documentation and packaging are not part of the program; the unit tests stand in the same files as the code and make up most
  of the lines no definition is mapped to. What is left beyond them are imports, module declarations and derived traits.
\<close>

section \<open>The whole program\<close>

text \<open>
  C1: Nothing is erased unless somebody asked for it. Whatever the kernel, the tools and the boot environment answer,
  every run of \<open>main\<close> first makes ordinary calls only: a dozen tools, fsck among them, but no formatting, no opening
  or writing of a device, no flash tool, no reboot and no shell. What follows are the calls of the last resort (a line in the kernel log,
  sleep, reboot, a shell), unless this very run had, right after these ordinary calls, opened the boot environment and found in
  it that a flash or a factory reset is asked for.
\<close>

theorem nothing_erased_unasked:
  fixes s :: "'w init"
  shows "\<exists>t u. trace (run_main fuel n st os s) = trace s @ t @ u \<and> (\<forall>c \<in> set t. ordinary (fst c))
    \<and> ((\<forall>c \<in> set u. last_resort (fst c))
       \<or> (\<exists>(s2 :: 'w init) mode. trace s2 = trace s @ t \<and> asked_for st os s s2 mode \<and> mode \<noteq> NormalMode))"
proof -
  obtain t u v where shape: "trace (run_main fuel n st os s) = trace s @ t @ u @ v" "\<forall>c \<in> set t. plain (fst c)"
    "u = [] \<or> (\<exists>(s2 :: 'w init) cl mode. trace s2 = trace s @ t \<and> asked_with st os s s2 cl mode \<and> mode_calls cl mode u)"
    "\<forall>c \<in> set v. last_resort (fst c) \<and> (release_image (st_features st) \<longrightarrow> \<not> is_shell (fst c))"
    by (rule run_main_shape)
  show ?thesis
  proof (cases "\<exists>(s2 :: 'w init) mode. trace s2 = trace s @ t \<and> asked_for st os s s2 mode \<and> mode \<noteq> NormalMode")
    case True
    then show ?thesis using shape(1,2) plain_ordinary by blast
  next
    case False
    then have "\<forall>c \<in> set (t @ u). ordinary (fst c)" using shape(2,3) plain_ordinary asked_with_for by fastforce
    then show ?thesis using shape(1,4) by (intro exI [of _ "t @ u"] exI [of _ v]) auto
  qed
qed

definition bare_libraries :: "unit libraries" where
  "bare_libraries = \<lparr>lib_json = \<lparr>json_parse = \<lambda>_. Inr (), json_get = \<lambda>_ _. None, json_u64 = \<lambda>_. None, json_array = \<lambda>_. None,
       json_str = \<lambda>_. None, json_text = \<lambda>_. []\<rparr>,
     lib_pretty_json = \<lambda>_. Inr [], lib_links = \<lambda>_. Inr [], lib_base64 = Inr, lib_uuid_text = id, lib_xml = \<lambda>_. Inl [],
     lib_sha256 = id, lib_hex_error = id, lib_devnum = small_codec\<rparr>"

definition bare_setting :: "features \<Rightarrow> unit setting" where
  "bare_setting ft = \<lparr>st_features = ft, st_libraries = bare_libraries,
     st_build = \<lparr>bv_clone = clone_from_build (\<lambda>_. None), bv_scp = scp_from_build (\<lambda>_. None)\<rparr>,
     st_order = [], st_root_fd = ''3'', st_captured = []\<rparr>"

text \<open>A machine whose kernel command line is empty: the boot ends before a root device is known, on a release image in the
  halt loop, on another one in a shell.\<close>

lemma working_calls:
  "sys_unit working_os c s = (Inr (), record_call 0 c True () s)" "sys_text working_os c s = (Inr [], record_call 0 c True () s)"
  by (simp_all add: sys_unit_def sys_text_def working_os_def)

lemma bare_config: "load_config working_os s = (Inr \<lparr>cmdline = Map.empty\<rparr>, record_call 0 (ReadText ''/proc/cmdline'') True () s)"
  by (simp add: load_config_def bindE_def map_err_def working_calls parse_cmdline_def split_ws_def)

lemma bare_prepare: "bootloader ft = Grub \<Longrightarrow> prepare_boot (bare_setting ft) working_os \<lparr>cmdline = Map.empty\<rparr> rootfs s
     = (Inl (Partition (DeviceDetection ''rootpart= (GRUB) not found in kernel cmdline'')), s)"
  by (simp add: prepare_boot_def bare_setting_def detect_root_device_def cmdline_get_def map_err_def bindE_def Let_def)

lemma bare_init: "bootloader ft = Grub \<Longrightarrow> run_init fuel (bare_setting ft) working_os s
     = (Inl (Failed (Partition (DeviceDetection ''rootpart= (GRUB) not found in kernel cmdline''))),
        record_call 0 (ReadText ''/proc/cmdline'') True () s)"
  by (simp add: run_init_def Let_def bindE_def or_fail_def map_err_def bare_config bare_prepare)

definition early_calls :: "call list" where
  "early_calls = map (\<lambda>m. MountCall (Some (em_fstype m)) (em_path m) (Some (em_fstype m)) (em_flags m) (em_data m)) ESSENTIAL_MOUNTS
     @ [WriteFile PRINTK_DEVKMSG_PATH (''on'' @ [newline]), OpenWrite KMSG_PATH, ReadText ''/proc/cmdline'']"

lemma bare_mounts:
  "\<exists>s1. mount_essential_filesystems working_os cold_start = (Inr (), s1)
     \<and> trace s1 = map (\<lambda>c. (c, True)) (take 5 early_calls) \<and> program s1 = initial_program"
  by (simp add: mount_essential_filesystems_def ESSENTIAL_MOUNTS_def do_mount_def disable_printk_ratelimit_def bindE_def
      map_err_def ignore_def working_calls early_calls_def)

definition fatal_calls :: "string \<Rightarrow> call list" where
  "fatal_calls message = OpenWrite KMSG_PATH # map (WriteAll KMSG_PATH) (fatal_pieces message)"

lemma bare_said: "message \<noteq> [] \<Longrightarrow> trace (said working_os message s) = trace s @ map (\<lambda>c. (c, True)) (fatal_calls message)"
  by (simp add: said_def log_fatal_def write_pieces_def fatal_pieces_def LOG_PREFIX_def ignore_def bindE_def ret_def working_calls
      fatal_calls_def)

definition no_root_device :: initramfs_error where
  "no_root_device = Partition (DeviceDetection ''rootpart= (GRUB) not found in kernel cmdline'')"

definition last_calls :: "bool \<Rightarrow> call list" where
  "last_calls rel = fatal_calls (policy_message Fatal False (if rel then Halt_Action else Shell_Action) no_root_device)
     @ (if rel then fatal_calls (''FATAL: '' @ show_initramfs_error no_root_device) @ [SleepMs 60000]
        else [Spawn BASH_CMD [''--init-file'', ''/dev/null''] []])"

lemma bare_halt: "message \<noteq> [] \<Longrightarrow> trace (halt_with_message working_os message 1 s)
    = trace s @ map (\<lambda>c. (c, True)) (fatal_calls message @ [SleepMs 60000])"
  using bare_said [of message s]
  by (simp add: halt_with_message_def run_cycles_def halt_cycle_def said_def log_fatal_def ignore_def bindE_def sys_sleep_def
      sleep_for_def FATAL_ERROR_SLEEP_SECS_def)

lemma bare_shell: "trace (spawn_debug_shell working_os 1 s) = trace s @ [(Spawn BASH_CMD [''--init-file'', ''/dev/null''] [], True)]"
  by (simp add: spawn_debug_shell_def debug_shell_cycle_def run_cycles_def caught_def sys_run_def working_os_def success_def ret_def)

lemma bare_policy:
  assumes "program s = initial_program"
  shows "trace (handle_fatal_error working_os no_root_device rel 1 s) = trace s @ map (\<lambda>c. (c, True)) (last_calls rel)"
proof -
  have "recovery_class no_root_device = Fatal" "update_pending (program s) = False"
    using assms by (simp_all add: no_root_device_def recovery_class_def initial_program_def)
  then show ?thesis
    using bare_halt [of "''FATAL: '' @ show_initramfs_error no_root_device"] bare_shell
    by (simp add: handle_fatal_error_def Let_def decide_def run_action_def last_calls_def bare_said policy_message_def)
qed

lemma bare_run:
  "trace (run_main 1 1 (bare_setting (all_modes\<lparr>release_image := rel\<rparr>)) working_os cold_start)
   = map (\<lambda>c. (c, True)) (early_calls @ last_calls rel)"
proof -
  let ?st = "bare_setting (all_modes\<lparr>release_image := rel\<rparr>)"
  obtain s1 where s1: "mount_essential_filesystems working_os cold_start = (Inr () :: early_init_error + unit, s1)"
      "trace s1 = map (\<lambda>c. (c, True)) (take 5 early_calls)" "program s1 = initial_program"
    using bare_mounts by blast
  let ?s3 = "record_call 0 (ReadText ''/proc/cmdline'') True () (record_call 0 (OpenWrite KMSG_PATH) True () s1)"
  have st: "bootloader (all_modes\<lparr>release_image := rel\<rparr>) = Grub" "release_image (st_features ?st) = rel"
    by (simp_all add: all_modes_def bare_setting_def)
  have "open_logger working_os s1 = (Inr (), record_call 0 (OpenWrite KMSG_PATH) True () s1)"
    by (simp add: open_logger_def kmsg_new_def map_err_def working_calls)
  then have "run_main 1 1 ?st working_os cold_start = handle_fatal_error working_os no_root_device rel 1 ?s3"
    using s1(1) st by (simp add: run_main_def Let_def bare_init no_root_device_def)
  then show ?thesis
    using bare_policy [of ?s3] s1 by (simp add: early_calls_def ESSENTIAL_MOUNTS_def)
qed

text \<open>A run of that machine divides as the theorem says.\<close>

lemma nothing_erased_unasked_witness:
  "\<exists>t u. map (\<lambda>c. (c, True)) (early_calls @ last_calls True) = t @ u \<and> (\<forall>c \<in> set t. ordinary (fst c))
    \<and> ((\<forall>c \<in> set u. last_resort (fst c))
       \<or> (\<exists>(s2 :: unit init) mode. trace s2 = t \<and> asked_for (bare_setting (all_modes\<lparr>release_image := True\<rparr>)) working_os cold_start s2 mode
            \<and> mode \<noteq> NormalMode))"
  using nothing_erased_unasked [of 1 1 "bare_setting (all_modes\<lparr>release_image := True\<rparr>)" working_os cold_start] bare_run [of True]
  by simp



end
